(* ===== verification/Prelude.thy ===== *)
theory Prelude
  imports Main
begin

text \<open>
  Shared vocabulary of the development: results of fallible operations as a sum
  (\<open>Inl\<close> the error, \<open>Inr\<close> the value), database tables as rows in insertion order with
  an auto-increment counter, the reads and writes on a table, and the interface of a
  store whose rows carry an optimistic version. The simp rules on \<open>case\<close> and
  \<open>if\<close> turn "this handler succeeded" into the list of its guards and intermediate
  results, which is how every component proof starts.
\<close>

named_theorems db_frame \<open>what a repository write leaves unchanged\<close>
named_theorems db_effect \<open>what a repository write changes\<close>

section \<open>Results\<close>

lemma case_sum_eq_Inr [simp]:
  "(case m of Inl e \<Rightarrow> Inl (g e) | Inr x \<Rightarrow> f x) = Inr y \<longleftrightarrow> (\<exists>x. m = Inr x \<and> f x = Inr y)"
  by (cases m) auto

lemma if_Inl_eq_Inr [simp]:
  "(if c then Inl e else m) = Inr y \<longleftrightarrow> \<not> c \<and> m = Inr y"
  "(if c then m else Inl e) = Inr y \<longleftrightarrow> c \<and> m = Inr y"
  by auto

lemma case_option_eq_Inr [simp]:
  "(case m of None \<Rightarrow> Inl e | Some x \<Rightarrow> f x) = Inr y \<longleftrightarrow> (\<exists>x. m = Some x \<and> f x = Inr y)"
  by (cases m) auto

lemma case_error_eq_Inr [simp]:
  "(case m of None \<Rightarrow> r | Some e \<Rightarrow> Inl e) = Inr y \<longleftrightarrow> m = None \<and> r = Inr y"
  by (cases m) auto

definition keep_error :: "'e + 'a \<Rightarrow> 'e option" where
  \<comment> \<open>the error value of a Go call whose other results are dropped\<close>
  "keep_error m = (case m of Inl e \<Rightarrow> Some e | Inr _ \<Rightarrow> None)"

lemma keep_error_simps [simp]:
  "keep_error (Inl e) = Some e" "keep_error (Inr x) = None"
  by (simp_all add: keep_error_def)

section \<open>Facts about a handler that succeeded\<close>

text \<open>
  \<open>ok m P\<close>: if \<open>m\<close> returns, its value satisfies \<open>P\<close>. The rules follow the code and
  leave one goal per way through the handler, with its guards and intermediate results as
  assumptions.
\<close>

definition ok :: "'e + 'a \<Rightarrow> ('a \<Rightarrow> bool) \<Rightarrow> bool" where
  "ok m P \<longleftrightarrow> (\<forall>x. m = Inr x \<longrightarrow> P x)"

named_theorems ok_intro \<open>the rules of \<open>ok\<close>\<close>

lemma okD: "ok m P \<Longrightarrow> m = Inr x \<Longrightarrow> P x"
  by (simp add: ok_def)

lemma ok_Inl [ok_intro]: "ok (Inl e) P"
  by (simp add: ok_def)

lemma ok_Inr [ok_intro]: "P x \<Longrightarrow> ok (Inr x) P"
  by (simp add: ok_def)

lemma ok_case_sum [ok_intro]:
  "(\<And>e. m = Inl e \<Longrightarrow> ok (g e) P) \<Longrightarrow> (\<And>x. m = Inr x \<Longrightarrow> ok (f x) P) \<Longrightarrow>
     ok (case m of Inl e \<Rightarrow> g e | Inr x \<Rightarrow> f x) P"
  by (cases m) simp_all

lemma ok_case_option [ok_intro]:
  "(m = None \<Longrightarrow> ok n P) \<Longrightarrow> (\<And>x. m = Some x \<Longrightarrow> ok (f x) P) \<Longrightarrow>
     ok (case m of None \<Rightarrow> n | Some x \<Rightarrow> f x) P"
  by (cases m) simp_all

lemma ok_case_prod [ok_intro]: "(\<And>a b. p = (a, b) \<Longrightarrow> ok (f a b) P) \<Longrightarrow> ok (case p of (a, b) \<Rightarrow> f a b) P"
  by (cases p) simp

lemma ok_if [ok_intro]: "(c \<Longrightarrow> ok x P) \<Longrightarrow> (\<not> c \<Longrightarrow> ok y P) \<Longrightarrow> ok (if c then x else y) P"
  by simp

lemma ok_let [ok_intro]: "(\<And>x. x = a \<Longrightarrow> ok (f x) P) \<Longrightarrow> ok (let x = a in f x) P"
  by simp

lemma ok_call: "m = Inr x \<Longrightarrow> ok m Q \<Longrightarrow> (Q x \<Longrightarrow> R) \<Longrightarrow> R"
  by (simp add: ok_def)

lemma ok_mono: "ok m P \<Longrightarrow> (\<And>x. P x \<Longrightarrow> Q x) \<Longrightarrow> ok m Q"
  by (simp add: ok_def)

section \<open>Folding a fallible step over a list\<close>

text \<open>A Go loop whose body may return early with an error.\<close>

fun fold_res :: "('x \<Rightarrow> 's \<Rightarrow> 'e + 's) \<Rightarrow> 'x list \<Rightarrow> 's \<Rightarrow> 'e + 's" where
  "fold_res f [] s = Inr s"
| "fold_res f (x # xs) s = (case f x s of Inl e \<Rightarrow> Inl e | Inr s' \<Rightarrow> fold_res f xs s')"

lemma fold_res_invariant:
  assumes "fold_res f xs s = Inr s'"
    and "P s"
    and "\<And>x s s'. x \<in> set xs \<Longrightarrow> f x s = Inr s' \<Longrightarrow> P s \<Longrightarrow> P s'"
  shows "P s'"
  using assms
proof (induction xs arbitrary: s)
  case Nil
  then show ?case by simp
next
  case (Cons x xs)
  from Cons.prems(1) obtain t where t: "f x s = Inr t" "fold_res f xs t = Inr s'" by auto
  show ?case
  proof (rule Cons.IH [OF t(2)])
    show "P t" using Cons.prems(2,3) t(1) by (meson list.set_intros(1))
  qed (use Cons.prems(3) in \<open>meson list.set_intros(2)\<close>)
qed

lemma fold_res_append:
  "fold_res f (xs @ ys) s = (case fold_res f xs s of Inl e \<Rightarrow> Inl e | Inr s' \<Rightarrow> fold_res f ys s')"
  by (induction xs arbitrary: s) (auto split: sum.splits)

text \<open>A loop that builds a list and may return early with an error.\<close>

fun map_res :: "('x \<Rightarrow> 'e + 'y) \<Rightarrow> 'x list \<Rightarrow> 'e + 'y list" where
  "map_res f [] = Inr []"
| "map_res f (x # xs) =
     (case f x of
        Inl e \<Rightarrow> Inl e
      | Inr y \<Rightarrow> (case map_res f xs of Inl e \<Rightarrow> Inl e | Inr ys \<Rightarrow> Inr (y # ys)))"

lemma map_res_Inr: "map_res f xs = Inr ys \<longleftrightarrow> list_all2 (\<lambda>x y. f x = Inr y) xs ys"
  by (induction xs arbitrary: ys) (auto simp: list_all2_Cons1)

section \<open>Tables\<close>

text \<open>
  Every row has an auto-increment \<open>row_id\<close> and a tenant. A table is its rows in
  insertion order and the next id.
\<close>

record row =
  row_id :: nat
  tenant_id :: string

record 'a table =
  rows :: "'a list"
  next_id :: nat

definition empty_table :: "'a table" where
  "empty_table = \<lparr>rows = [], next_id = 1\<rparr>"

definition insert_row :: "'a row_scheme \<Rightarrow> 'a row_scheme table \<Rightarrow> 'a row_scheme \<times> 'a row_scheme table" where
  "insert_row r t =
     (r\<lparr>row_id := next_id t\<rparr>,
      t\<lparr>rows := rows t @ [r\<lparr>row_id := next_id t\<rparr>], next_id := Suc (next_id t)\<rparr>)"

definition update_rows :: "('a \<Rightarrow> bool) \<Rightarrow> ('a \<Rightarrow> 'a) \<Rightarrow> 'a table \<Rightarrow> 'a table" where
  "update_rows p f t = t\<lparr>rows := map (\<lambda>r. if p r then f r else r) (rows t)\<rparr>"

definition find_row :: "('a \<Rightarrow> bool) \<Rightarrow> 'a table \<Rightarrow> 'a option" where
  "find_row p t = List.find p (rows t)"

definition select_rows :: "('a \<Rightarrow> bool) \<Rightarrow> 'a table \<Rightarrow> 'a list" where
  "select_rows p t = filter p (rows t)"

definition exists_row :: "('a \<Rightarrow> bool) \<Rightarrow> 'a table \<Rightarrow> bool" where
  "exists_row p t = list_ex p (rows t)"

definition table_wf :: "'a row_scheme table \<Rightarrow> bool" where
  "table_wf t \<longleftrightarrow> distinct (map row_id (rows t)) \<and> (\<forall>r \<in> set (rows t). row_id r < next_id t)"

lemma table_wf_empty [simp]: "table_wf empty_table"
  by (simp add: table_wf_def empty_table_def)

lemma table_wf_insert [simp]: "table_wf t \<Longrightarrow> table_wf (snd (insert_row r t))"
  by (auto simp: table_wf_def insert_row_def)

lemma table_wf_update:
  assumes "table_wf t" and "\<And>r. row_id (f r) = row_id r"
  shows "table_wf (update_rows p f t)"
proof -
  have "map row_id (rows (update_rows p f t)) = map row_id (rows t)"
    using assms(2) by (auto simp: update_rows_def)
  moreover have "\<forall>r \<in> set (rows (update_rows p f t)). row_id r < next_id (update_rows p f t)"
    using assms by (auto simp: table_wf_def update_rows_def)
  ultimately show ?thesis using assms(1) by (simp add: table_wf_def)
qed

lemma table_wf_same_id:
  "table_wf t \<Longrightarrow> r \<in> set (rows t) \<Longrightarrow> r' \<in> set (rows t) \<Longrightarrow> row_id r = row_id r' \<Longrightarrow> r = r'"
  by (auto simp: table_wf_def distinct_map dest: inj_onD)

lemma find_row_Some:
  "find_row p t = Some r \<Longrightarrow> p r \<and> r \<in> set (rows t)"
  by (auto simp: find_row_def find_Some_iff)

lemma find_row_None: "find_row p t = None \<longleftrightarrow> (\<forall>r \<in> set (rows t). \<not> p r)"
  by (auto simp: find_row_def find_None_iff)

lemma find_row_unique:
  assumes "table_wf t" "r \<in> set (rows t)" "p r" "\<And>x. p x \<Longrightarrow> row_id x = row_id r"
  shows "find_row p t = Some r"
proof (cases "find_row p t")
  case None
  then show ?thesis using assms(2,3) by (auto simp: find_row_None)
next
  case (Some x)
  then have "p x" "x \<in> set (rows t)" by (auto dest: find_row_Some)
  with assms have "x = r" by (metis table_wf_same_id)
  with Some show ?thesis by simp
qed

lemma set_rows_update:
  "set (rows (update_rows p f t)) = (\<lambda>r. if p r then f r else r) ` set (rows t)"
  by (simp add: update_rows_def)

lemma rows_insert [simp]: "rows (snd (insert_row r t)) = rows t @ [fst (insert_row r t)]"
  by (simp add: insert_row_def)

lemma fst_insert_row: "fst (insert_row r t) = r\<lparr>row_id := next_id t\<rparr>"
  by (simp add: insert_row_def)

lemma exists_row_iff: "exists_row p t \<longleftrightarrow> (\<exists>r \<in> set (rows t). p r)"
  by (simp add: exists_row_def list_ex_iff)

lemma set_select_rows [simp]: "set (select_rows p t) = {r \<in> set (rows t). p r}"
  by (auto simp: select_rows_def)

lemma find_map: "(\<And>x. p (h x) = p x) \<Longrightarrow> List.find p (map h xs) = map_option h (List.find p xs)"
  by (induction xs) simp_all

lemma find_row_update:
  assumes "\<And>x. p (g x) = p x"
  shows "find_row p (update_rows q g t) = map_option (\<lambda>x. if q x then g x else x) (find_row p t)"
  unfolding find_row_def update_rows_def using find_map [of p "\<lambda>x. if q x then g x else x"] assms by simp

lemma find_row_insert:
  "find_row p (snd (insert_row r t)) =
     (case find_row p t of Some x \<Rightarrow> Some x | None \<Rightarrow> if p (fst (insert_row r t)) then Some (fst (insert_row r t)) else None)"
proof -
  have "List.find p (xs @ [y]) = (case List.find p xs of Some x \<Rightarrow> Some x | None \<Rightarrow> if p y then Some y else None)"
    for xs y by (induction xs) auto
  then show ?thesis by (simp add: find_row_def)
qed

section \<open>Interface: an idempotent command\<close>

text \<open>
  A command that leaves a record of itself: a repetition finds the record and changes
  nothing.
\<close>

locale idempotent_command =
  fixes inv :: "'db \<Rightarrow> bool"
    and run :: "'db \<Rightarrow> 'e + 'db"
    and recorded :: "'db \<Rightarrow> bool"
  assumes run_inv: "inv db \<Longrightarrow> run db = Inr db' \<Longrightarrow> inv db'"
    and run_records: "inv db \<Longrightarrow> run db = Inr db' \<Longrightarrow> recorded db'"
    and recorded_noop: "inv db \<Longrightarrow> recorded db \<Longrightarrow> run db = Inr db"
begin

lemma run_twice: "inv db \<Longrightarrow> run db = Inr db' \<Longrightarrow> run db' = Inr db'"
  by (blast intro: run_inv run_records recorded_noop)

lemma run_many: "inv db \<Longrightarrow> run db = Inr db' \<Longrightarrow> fold_res (\<lambda>_. run) (x # xs) db = Inr db'"
  by (induction xs) (simp_all add: run_twice)

end

end
