(* ===== verification/GoText.thy ===== *)
theory GoText
  imports Prelude
begin

text \<open>
  The parts of Go's standard library the modelled code computes with: strings as bytes in
  UTF-8 (a \<open>char\<close> is a byte), decoded to runes as \<open>utf8.DecodeRune\<close> does,
  \<open>strings.TrimSpace\<close>, \<open>ToUpper\<close> and \<open>ToLower\<close> where the code compares the
  result with an ASCII word, \<open>strings.Cut\<close>, \<open>strconv.Atoi\<close>, \<open>fmt.Sprint\<close> of an
  unsigned integer, and \<open>time.Time\<close> as nanoseconds since the Unix epoch (UTC) with the
  layouts the code formats. Also \<open>businessclock.DateString\<close> and the Chinese display
  texts of the messages the service writes, given by their code points.
\<close>

section \<open>Bytes and runes\<close>

definition byte_of :: "char \<Rightarrow> nat" where
  "byte_of c = of_char c"

definition byte_chr :: "nat \<Rightarrow> char" where
  "byte_chr n = char_of n"

definition byte_in :: "string \<Rightarrow> nat \<Rightarrow> nat \<Rightarrow> nat \<Rightarrow> bool" where
  "byte_in s k lo hi \<longleftrightarrow> k < length s \<and> lo \<le> byte_of (s ! k) \<and> byte_of (s ! k) \<le> hi"

text \<open>
  \<open>utf8.DecodeRune\<close>: the code point and its width in bytes; an invalid encoding is
  U+FFFD of width 1.
\<close>

definition rune_width :: "char \<Rightarrow> string \<Rightarrow> nat" where
  "rune_width c s =
     (let b = byte_of c
      in if 194 \<le> b \<and> b \<le> 223 \<and> byte_in s 0 128 191 then 2
         else if 224 \<le> b \<and> b \<le> 239 \<and> byte_in s 1 128 191
                 \<and> byte_in s 0 (if b = 224 then 160 else 128) (if b = 237 then 159 else 191)
              then 3
         else if 240 \<le> b \<and> b \<le> 244 \<and> byte_in s 1 128 191 \<and> byte_in s 2 128 191
                 \<and> byte_in s 0 (if b = 240 then 144 else 128) (if b = 244 then 143 else 191)
              then 4
         else 1)"

definition rune_value :: "char \<Rightarrow> string \<Rightarrow> nat \<Rightarrow> nat" where
  "rune_value c s w =
     (let b = byte_of c; tail = (\<lambda>k. byte_of (s ! k) mod 64)
      in if w = 2 then (b mod 32) * 64 + tail 0
         else if w = 3 then (b mod 16) * 4096 + tail 0 * 64 + tail 1
         else if w = 4 then (b mod 8) * 262144 + tail 0 * 4096 + tail 1 * 64 + tail 2
         else if b < 128 then b else 65533)"

definition decode_rune :: "char \<Rightarrow> string \<Rightarrow> nat \<times> nat" where
  "decode_rune c s = (rune_value c s (rune_width c s), rune_width c s)"

text \<open>A string as its runes, each with the bytes it was read from: Go's \<open>range s\<close>.\<close>

function go_runes :: "string \<Rightarrow> (nat \<times> string) list" where
  "go_runes [] = []"
| "go_runes (c # s) =
     (let (cp, w) = decode_rune c s in (cp, take w (c # s)) # go_runes (drop (w - 1) s))"
  by pat_completeness auto
termination
  by (relation "measure length") auto

text \<open>\<open>len([]rune(s))\<close> and \<open>strings.TrimSpace\<close>.\<close>

definition rune_len :: "string \<Rightarrow> nat" where
  "rune_len s = length (go_runes s)"

definition is_space :: "nat \<Rightarrow> bool" where
  "is_space cp \<longleftrightarrow> 9 \<le> cp \<and> cp \<le> 13 \<or> 8192 \<le> cp \<and> cp \<le> 8202 \<or>
     cp \<in> {32, 133, 160, 5760, 8232, 8233, 8239, 8287, 12288}"

definition trim_space :: "string \<Rightarrow> string" where
  "trim_space s =
     concat (map snd (rev (dropWhile (is_space \<circ> fst) (rev (dropWhile (is_space \<circ> fst) (go_runes s))))))"

text \<open>\<open>unicode.IsControl\<close>.\<close>

definition is_control :: "nat \<Rightarrow> bool" where
  "is_control cp \<longleftrightarrow> cp < 32 \<or> 127 \<le> cp \<and> cp < 160"

text \<open>
  \<open>string(r)\<close> of a rune. Surrogates and values above U+10FFFF encode as U+FFFD.
\<close>

definition utf8_char :: "nat \<Rightarrow> string" where
  "utf8_char cp =
     (if cp < 128 then [byte_chr cp]
      else if cp < 2048 then [byte_chr (192 + cp div 64), byte_chr (128 + cp mod 64)]
      else if 55296 \<le> cp \<and> cp \<le> 57343 \<or> 1114111 < cp then map byte_chr [239, 191, 189]
      else if cp < 65536 then
        [byte_chr (224 + cp div 4096), byte_chr (128 + cp div 64 mod 64), byte_chr (128 + cp mod 64)]
      else
        [byte_chr (240 + cp div 262144), byte_chr (128 + cp div 4096 mod 64),
         byte_chr (128 + cp div 64 mod 64), byte_chr (128 + cp mod 64)])"

definition utf8 :: "nat list \<Rightarrow> string" where
  "utf8 cps = concat (map utf8_char cps)"

text \<open>\<open>string([]rune(s)[:n])\<close>.\<close>

definition rune_prefix :: "nat \<Rightarrow> string \<Rightarrow> string" where
  "rune_prefix n s = utf8 (map fst (take n (go_runes s)))"

lemma rune_len_Nil [simp]: "rune_len [] = 0"
  by (simp add: rune_len_def)

lemma trim_space_Nil [simp]: "trim_space [] = []"
  by (simp add: trim_space_def)

lemma byte_in_append: "byte_in p k lo hi \<Longrightarrow> byte_in (p @ q) k lo hi"
  by (simp add: byte_in_def nth_append)

lemma byte_in_take: "k < n \<Longrightarrow> byte_in (take n s) k lo hi \<longleftrightarrow> byte_in s k lo hi"
  by (auto simp: byte_in_def)

lemma byte_in_length: "byte_in s k lo hi \<Longrightarrow> Suc k \<le> length s"
  by (simp add: byte_in_def)

lemma rune_width_bound: "1 \<le> rune_width c s" "rune_width c s - 1 \<le> length s"
  by (simp_all add: rune_width_def Let_def) (auto dest!: byte_in_length)

lemma rune_width_extend:
  assumes "1 < rune_width c p"
  shows "rune_width c (p @ q) = rune_width c p"
proof -
  let ?b = "byte_of c"
  consider "194 \<le> ?b" "?b \<le> 223" | "224 \<le> ?b" "?b \<le> 239" | "240 \<le> ?b" "?b \<le> 244"
    | "?b < 194 \<or> 244 < ?b" by linarith
  then show ?thesis
    using assms by cases (auto simp: rune_width_def Let_def intro: byte_in_append split: if_split_asm)
qed

lemma rune_width_take: "rune_width c (take (rune_width c t - 1) t) = rune_width c t"
proof -
  let ?b = "byte_of c"
  consider "194 \<le> ?b" "?b \<le> 223" | "224 \<le> ?b" "?b \<le> 239" | "240 \<le> ?b" "?b \<le> 244"
    | "?b < 194 \<or> 244 < ?b" by linarith
  then show ?thesis
    by cases (auto simp: rune_width_def Let_def byte_in_take, auto simp: byte_in_def)
qed

lemma rune_value_append:
  "rune_width c p = w \<Longrightarrow> rune_value c (p @ q) w = rune_value c p w"
  using rune_width_bound(2) [of c p] by (auto simp: rune_value_def Let_def nth_append)

lemma decode_prefix:
  assumes "drop (rune_width c t - 1) t = p @ q"
  shows "decode_rune c (take (rune_width c t - 1) t @ p) = decode_rune c t"
proof (cases "1 < rune_width c t")
  case True
  let ?h = "take (rune_width c t - 1) t"
  have h: "rune_width c ?h = rune_width c t" by (rule rune_width_take)
  have "rune_width c (?h @ r) = rune_width c t" for r
    using rune_width_extend [of c ?h r] True h by simp
  moreover have "rune_value c (?h @ r) (rune_width c t) = rune_value c ?h (rune_width c t)" for r
    by (rule rune_value_append [OF h])
  ultimately show ?thesis
    using append_take_drop_id [of "rune_width c t - 1" t] unfolding decode_rune_def by metis
next
  case False
  then have w: "rune_width c t = 1" using rune_width_bound(1) [of c t] by linarith
  then have t: "t = p @ q" using assms by simp
  have "rune_width c p = 1"
  proof (rule ccontr)
    assume "rune_width c p \<noteq> 1"
    then have "1 < rune_width c p" using rune_width_bound(1) [of c p] by linarith
    then show False using rune_width_extend [of c p q] w t by simp
  qed
  then show ?thesis using w by (simp add: decode_rune_def rune_value_def)
qed

lemma go_runes_Cons:
  "go_runes (c # s) = (rune_value c s (rune_width c s), take (rune_width c s) (c # s))
     # go_runes (drop (rune_width c s - 1) s)"
  by (simp add: decode_rune_def)

lemma take_width_Cons: "take (rune_width c s) (c # s) = c # take (rune_width c s - 1) s"
  using rune_width_bound(1) [of c s] by (cases "rune_width c s") auto

lemma concat_go_runes [simp]: "concat (map snd (go_runes s)) = s"
proof (induction s rule: go_runes.induct)
  case (2 c s)
  from "2.IH" [of "(rune_value c s (rune_width c s), rune_width c s)"]
  have "concat (map snd (go_runes (drop (rune_width c s - 1) s))) = drop (rune_width c s - 1) s"
    by (simp add: decode_rune_def)
  then show ?case by (simp only: go_runes_Cons list.map concat.simps snd_conv take_width_Cons) simp
qed simp

lemma go_runes_induct [case_names Nil Cons]:
  assumes "P []" and "\<And>c s. P (drop (rune_width c s - 1) s) \<Longrightarrow> P (c # s)"
  shows "P s"
proof (induction s rule: length_induct)
  case (1 s)
  then show ?case using assms by (cases s) auto
qed

lemma go_runes_suffix: "go_runes s = xs @ ys \<Longrightarrow> go_runes (concat (map snd ys)) = ys"
proof (induction s arbitrary: xs rule: go_runes_induct)
  case (Cons c s)
  show ?case
  proof (cases xs)
    case Nil
    with Cons.prems have "ys = go_runes (c # s)" by simp
    then show ?thesis by (simp only: concat_go_runes)
  next
    case (Cons x xs')
    with Cons.prems have "go_runes (drop (rune_width c s - 1) s) = xs' @ ys"
      by (simp only: go_runes_Cons append_Cons list.inject)
    then show ?thesis by (rule Cons.IH)
  qed
qed simp

lemma go_runes_prefix: "go_runes s = xs @ ys \<Longrightarrow> go_runes (concat (map snd xs)) = xs"
proof (induction s arbitrary: xs rule: go_runes_induct)
  case (Cons c s)
  show ?case
  proof (cases xs)
    case (Cons x xs')
    let ?w = "rune_width c s" and ?p = "concat (map snd xs')"
    let ?h = "take (?w - 1) s"
    from Cons Cons.prems have x: "x = (rune_value c s ?w, c # ?h)"
      and rest: "go_runes (drop (?w - 1) s) = xs' @ ys"
      by (simp_all only: go_runes_Cons take_width_Cons append_Cons list.inject)
    have "drop (?w - 1) s = ?p @ concat (map snd ys)"
      using concat_go_runes [of "drop (?w - 1) s"] by (simp only: rest map_append concat_append)
    then have d: "decode_rune c (?h @ ?p) = decode_rune c s" by (rule decode_prefix)
    then have d1: "rune_width c (?h @ ?p) = ?w" unfolding decode_rune_def by blast
    with d have d2: "rune_value c (?h @ ?p) ?w = rune_value c s ?w"
      unfolding decode_rune_def prod.inject by metis
    have len: "length ?h = ?w - 1" using rune_width_bound(2) [of c s] by simp
    have "go_runes (c # ?h @ ?p) = (rune_value c s ?w, c # ?h) # go_runes ?p"
      using take_width_Cons [of c "?h @ ?p"] len
      by (simp only: go_runes_Cons d1 d2 take_width_Cons) simp
    also have "go_runes ?p = xs'" using rest by (rule Cons.IH)
    finally show ?thesis using Cons x by simp
  qed simp
qed simp

lemma trim_space_parts:
  obtains pre mid post where "go_runes s = pre @ mid @ post"
    "trim_space s = concat (map snd mid)" "go_runes (trim_space s) = mid"
    "mid = rev (dropWhile (is_space \<circ> fst) (rev (dropWhile (is_space \<circ> fst) (go_runes s))))"
proof -
  let ?sp = "is_space \<circ> fst"
  let ?a = "dropWhile ?sp (go_runes s)"
  let ?mid = "rev (dropWhile ?sp (rev ?a))"
  have 1: "go_runes s = takeWhile ?sp (go_runes s) @ ?a" by simp
  have 2: "?a = ?mid @ rev (takeWhile ?sp (rev ?a))"
    by (metis rev_append rev_rev_ident takeWhile_dropWhile_id)
  have all: "go_runes s = takeWhile ?sp (go_runes s) @ ?mid @ rev (takeWhile ?sp (rev ?a))"
    using 1 2 by metis
  have t: "trim_space s = concat (map snd ?mid)" by (simp add: trim_space_def comp_def)
  have "go_runes (concat (map snd (?mid @ rev (takeWhile ?sp (rev ?a))))) = ?mid @ rev (takeWhile ?sp (rev ?a))"
    using all by (rule go_runes_suffix)
  then have "go_runes (trim_space s) = ?mid" unfolding t by (rule go_runes_prefix)
  with all t show thesis using that by blast
qed

lemma dropWhile_idem: "dropWhile p (dropWhile p xs) = dropWhile p xs"
  by (induction xs) auto

lemma trim_space_idem [simp]: "trim_space (trim_space s) = trim_space s"
proof (rule trim_space_parts [of s])
  let ?sp = "is_space \<circ> fst"
  fix pre mid post
  assume m: "trim_space s = concat (map snd mid)" "go_runes (trim_space s) = mid"
    "mid = rev (dropWhile ?sp (rev (dropWhile ?sp (go_runes s))))"
  let ?a = "dropWhile ?sp (go_runes s)"
  have "dropWhile ?sp mid = mid"
  proof (cases mid)
    case (Cons x xs)
    have "?a = mid @ rev (takeWhile ?sp (rev ?a))"
      using m(3) by (metis rev_append rev_rev_ident takeWhile_dropWhile_id)
    with Cons have "\<exists>ys. ?a = x # ys" by auto
    then have "\<not> ?sp x" by (metis dropWhile_eq_Cons_conv)
    with Cons show ?thesis by simp
  qed simp
  moreover have "dropWhile ?sp (rev mid) = rev mid"
    using m(3) by (simp add: dropWhile_idem)
  ultimately have "rev (dropWhile ?sp (rev (dropWhile ?sp mid))) = mid" by simp
  then have "trim_space (trim_space s) = concat (map snd mid)"
    using m(2) by (simp only: trim_space_def)
  then show ?thesis using m(1) by simp
qed

section \<open>Case conversion\<close>

text \<open>
  The code upper- or lower-cases a string only to compare it with an ASCII word, so what
  matters is which runes map to an ASCII letter: the ASCII letters themselves, and
  U+0131 and U+017F (upper case I and S), U+0130 and U+212A (lower case i and k). Every
  other rune maps to a rune outside ASCII and is kept here.
\<close>

definition upper_rune :: "nat \<Rightarrow> nat" where
  "upper_rune cp = (if 97 \<le> cp \<and> cp \<le> 122 then cp - 32 else if cp = 305 then 73
     else if cp = 383 then 83 else cp)"

definition lower_rune :: "nat \<Rightarrow> nat" where
  "lower_rune cp = (if 65 \<le> cp \<and> cp \<le> 90 then cp + 32 else if cp = 304 then 105
     else if cp = 8490 then 107 else cp)"

definition to_upper :: "string \<Rightarrow> string" where
  "to_upper s = utf8 (map (upper_rune \<circ> fst) (go_runes s))"

definition to_lower :: "string \<Rightarrow> string" where
  "to_lower s = utf8 (map (lower_rune \<circ> fst) (go_runes s))"

text \<open>On ASCII text a rune is a byte, which is how witnesses evaluate these functions.\<close>

definition ascii :: "string \<Rightarrow> bool" where
  "ascii s \<longleftrightarrow> list_all (\<lambda>c. byte_of c < 128) s"

lemma go_runes_ascii: "ascii s \<Longrightarrow> go_runes s = map (\<lambda>c. (byte_of c, [c])) s"
proof (induction s)
  case (Cons c s)
  then have "byte_of c < 128" "ascii s" by (simp_all add: ascii_def)
  moreover from this have "rune_width c s = 1" by (simp add: rune_width_def)
  ultimately show ?case
    using Cons.IH by (simp only: go_runes_Cons) (simp add: rune_value_def Let_def)
qed simp

lemma rune_len_ascii: "ascii s \<Longrightarrow> rune_len s = length s"
  by (simp add: rune_len_def go_runes_ascii)

lemma trim_space_ascii:
  assumes "ascii s" and "s = [] \<or> \<not> is_space (byte_of (hd s)) \<and> \<not> is_space (byte_of (last s))"
  shows "trim_space s = s"
proof (cases s)
  case (Cons c cs)
  let ?f = "\<lambda>c. (byte_of c, [c])"
  have 1: "dropWhile (is_space \<circ> fst) (map ?f s) = map ?f s"
    using assms(2) Cons by simp
  have "rev s \<noteq> []" "hd (rev s) = last s" using Cons by (simp_all add: hd_rev)
  then obtain ds where ds: "rev s = last s # ds" by (metis list.exhaust_sel)
  have "rev (map ?f s) = map ?f (rev s)" by (simp only: rev_map)
  also have "\<dots> = ?f (last s) # map ?f ds" by (simp only: ds list.map)
  finally have "rev (map ?f s) = ?f (last s) # map ?f ds" .
  then have 2: "dropWhile (is_space \<circ> fst) (rev (map ?f s)) = rev (map ?f s)"
    using assms(2) Cons by simp
  have "trim_space s = concat (map snd (map ?f s))"
    unfolding trim_space_def go_runes_ascii [OF assms(1)] 1 2 by simp
  moreover have "concat (map snd (map ?f s)) = s" by (induction s) simp_all
  ultimately show ?thesis by simp
qed simp

lemma to_upper_ascii:
  assumes "list_all (\<lambda>c. byte_of c < 97) s"
  shows "to_upper s = s"
proof -
  have "ascii s" using assms by (auto simp: ascii_def list_all_iff)
  moreover have "concat (map (\<lambda>c. utf8_char (upper_rune (byte_of c))) s) = s"
    using assms by (induction s) (simp_all add: utf8_char_def upper_rune_def byte_chr_def byte_of_def)
  ultimately show ?thesis
    by (simp add: to_upper_def utf8_def go_runes_ascii comp_def)
qed

lemma to_lower_ascii:
  assumes "list_all (\<lambda>c. 90 < byte_of c \<and> byte_of c < 128) s"
  shows "to_lower s = s"
proof -
  have "ascii s" using assms by (auto simp: ascii_def list_all_iff)
  moreover have "concat (map (\<lambda>c. utf8_char (lower_rune (byte_of c))) s) = s"
    using assms by (induction s) (simp_all add: utf8_char_def lower_rune_def byte_chr_def byte_of_def)
  ultimately show ?thesis
    by (simp add: to_lower_def utf8_def go_runes_ascii comp_def)
qed

lemmas text_eval = trim_space_ascii rune_len_ascii to_upper_ascii to_lower_ascii ascii_def byte_of_def is_space_def

section \<open>Searching and splitting\<close>

text \<open>\<open>strings.ContainsAny\<close> with ASCII characters, \<open>strings.Cut\<close> and \<open>strings.Split\<close> at one.\<close>

definition contains_any :: "string \<Rightarrow> string \<Rightarrow> bool" where
  "contains_any s cs \<longleftrightarrow> list_ex (\<lambda>c. c \<in> set cs) s"

fun cut :: "char \<Rightarrow> string \<Rightarrow> (string \<times> string) option" where
  "cut sep [] = None"
| "cut sep (c # s) =
     (if c = sep then Some ([], s)
      else (case cut sep s of None \<Rightarrow> None | Some (a, b) \<Rightarrow> Some (c # a, b)))"

fun split_at :: "char \<Rightarrow> string \<Rightarrow> string list" where
  "split_at sep [] = [[]]"
| "split_at sep (c # s) =
     (if c = sep then [] # split_at sep s
      else (case split_at sep s of [] \<Rightarrow> [[c]] | w # ws \<Rightarrow> (c # w) # ws))"

fun join :: "string \<Rightarrow> string list \<Rightarrow> string" where
  "join sep [] = []"
| "join sep [w] = w"
| "join sep (w # ws) = w @ sep @ join sep ws"

lemma cut_append:
  assumes "sep \<notin> set a"
  shows "cut sep (a @ sep # b) = Some (a, b)"
  using assms by (induction a) auto

section \<open>Decimal integers\<close>

definition digit_char :: "nat \<Rightarrow> char" where
  "digit_char d = char_of (48 + d)"

fun show_nat :: "nat \<Rightarrow> string" where
  "show_nat n = (if n < 10 then [digit_char n] else show_nat (n div 10) @ [digit_char (n mod 10)])"

declare show_nat.simps [simp del]

definition is_digit :: "char \<Rightarrow> bool" where
  "is_digit c \<longleftrightarrow> 48 \<le> byte_of c \<and> byte_of c \<le> 57"

definition digits_value :: "string \<Rightarrow> nat" where
  "digits_value s = foldl (\<lambda>n c. 10 * n + (byte_of c - 48)) 0 s"

text \<open>\<open>strconv.Atoi\<close>: an optional sign, then decimal digits, within the 64-bit range.\<close>

definition atoi :: "string \<Rightarrow> int option" where
  "atoi s =
     (let (neg, ds) = (case s of [] \<Rightarrow> (False, [])
                       | c # cs \<Rightarrow> if c = CHR ''-'' then (True, cs)
                                   else if c = CHR ''+'' then (False, cs) else (False, s))
      in if ds = [] \<or> \<not> list_all is_digit ds then None
         else (let v = (if neg then - int (digits_value ds) else int (digits_value ds))
               in if - (2 ^ 63) \<le> v \<and> v < 2 ^ 63 then Some v else None))"

lemma byte_of_digit [simp]: "d < 10 \<Longrightarrow> byte_of (digit_char d) = 48 + d"
  by (simp add: byte_of_def digit_char_def)

lemma is_digit_digit [simp]: "d < 10 \<Longrightarrow> is_digit (digit_char d)"
  by (simp add: is_digit_def)

lemma digits_value_snoc:
  "digits_value (s @ [c]) = 10 * digits_value s + (byte_of c - 48)"
  by (simp add: digits_value_def)

lemma show_nat_digits: "list_all is_digit (show_nat n)"
proof (induction n rule: show_nat.induct)
  case (1 n)
  then show ?case by (subst show_nat.simps) simp
qed

lemma show_nat_value [simp]: "digits_value (show_nat n) = n"
proof (induction n rule: show_nat.induct)
  case (1 n)
  show ?case
  proof (cases "n < 10")
    case True
    then show ?thesis by (subst show_nat.simps) (simp add: digits_value_def)
  next
    case False
    with "1.IH" show ?thesis
      by (subst show_nat.simps) (simp add: digits_value_snoc)
  qed
qed

lemma show_nat_not_Nil [simp]: "show_nat n \<noteq> []"
  by (subst show_nat.simps) simp

lemma show_nat_chars: "c \<in> set (show_nat n) \<Longrightarrow> is_digit c"
  using show_nat_digits [of n] by (simp add: list_all_iff)

lemma show_nat_inject [simp]: "show_nat m = show_nat n \<longleftrightarrow> m = n"
  by (metis show_nat_value)

lemma sign_not_digit: "\<not> is_digit CHR ''-''" "\<not> is_digit CHR ''+''" "\<not> is_digit CHR ''_''"
  by (simp_all add: is_digit_def byte_of_def)

lemma atoi_show_nat:
  assumes "n < 2 ^ 63"
  shows "atoi (show_nat n) = Some (int n)"
proof -
  obtain c cs where s: "show_nat n = c # cs" by (meson show_nat_not_Nil list.exhaust)
  then have "is_digit c" using show_nat_chars [of c n] by simp
  then have "c \<noteq> CHR ''-''" "c \<noteq> CHR ''+''" using sign_not_digit by auto
  then have "atoi (c # cs) = (let v = int (digits_value (c # cs)) in
      if - (2 ^ 63) \<le> v \<and> v < 2 ^ 63 then Some v else None)"
    using show_nat_digits [of n] s by (simp add: atoi_def)
  then show ?thesis using assms s show_nat_value [of n] by (simp add: Let_def)
qed

text \<open>\<open>%0wd\<close> of a number.\<close>

definition pad_nat :: "nat \<Rightarrow> nat \<Rightarrow> string" where
  "pad_nat w n = replicate (w - length (show_nat n)) CHR ''0'' @ show_nat n"

lemma digits_value_pad [simp]: "digits_value (pad_nat w n) = n"
proof -
  have "foldl (\<lambda>n c. 10 * n + (byte_of c - 48)) 0 (replicate k CHR ''0'' @ s)
      = foldl (\<lambda>n c. 10 * n + (byte_of c - 48)) 0 s" for k and s :: string
    by (induction k) (simp_all add: byte_of_def)
  then show ?thesis using show_nat_value [of n] by (simp add: digits_value_def pad_nat_def)
qed

lemma pad_nat_inject: "pad_nat w m = pad_nat w n \<Longrightarrow> m = n"
  by (metis digits_value_pad)

section \<open>Instants\<close>

text \<open>
  \<open>time.Time\<close> is an instant in nanoseconds since the Unix epoch; the zero \<open>Time\<close> is
  year 1. \<open>UTC()\<close> does not change the instant. \<open>Truncate(time.Millisecond)\<close> rounds
  down towards the zero time, which is a whole number of milliseconds.
\<close>

type_synonym instant = int

abbreviation nanosecond :: int where "nanosecond \<equiv> 1"
abbreviation millisecond :: int where "millisecond \<equiv> 1000000"
abbreviation second :: int where "second \<equiv> 1000000000"
abbreviation minute :: int where "minute \<equiv> 60 * second"
abbreviation hour :: int where "hour \<equiv> 60 * minute"
abbreviation day :: int where "day \<equiv> 24 * hour"

definition zero_time :: instant where
  "zero_time = - 62135596800 * second"

definition truncate_to :: "int \<Rightarrow> instant \<Rightarrow> instant" where
  "truncate_to d t = t - (t - zero_time) mod d"

text \<open>Days since the epoch to a proleptic Gregorian date.\<close>

definition civil_of_days :: "int \<Rightarrow> int \<times> int \<times> int" where
  "civil_of_days days =
     (let z = days + 719468; era = z div 146097; doe = z mod 146097;
          yoe = (doe - doe div 1460 + doe div 36524 - doe div 146096) div 365;
          doy = doe - (365 * yoe + yoe div 4 - yoe div 100);
          mp = (5 * doy + 2) div 153;
          d = doy - (153 * mp + 2) div 5 + 1;
          m = (if mp < 10 then mp + 3 else mp - 9)
      in (yoe + era * 400 + (if m \<le> 2 then 1 else 0), m, d))"

text \<open>
  \<open>businessclock.DateString\<close>: the Beijing calendar day (UTC+8, the code's fixed zone)
  in the layout \<open>20060102\<close>.
\<close>

definition date_string :: "instant \<Rightarrow> string" where
  "date_string t =
     (case civil_of_days ((t + 8 * hour) div day) of (y, m, d) \<Rightarrow>
       pad_nat 4 (nat y) @ pad_nat 2 (nat m) @ pad_nat 2 (nat d))"

text \<open>\<open>Format(time.RFC3339Nano)\<close> in UTC: trailing zeros of the fraction are dropped.\<close>

definition rfc3339_nano :: "instant \<Rightarrow> string" where
  "rfc3339_nano t =
     (case civil_of_days (t div day) of (y, m, d) \<Rightarrow>
       (let s = t mod day div second; ns = t mod second;
            frac = rev (dropWhile (\<lambda>c. c = CHR ''0'') (rev (pad_nat 9 (nat ns))))
        in pad_nat 4 (nat y) @ ''-'' @ pad_nat 2 (nat m) @ ''-'' @ pad_nat 2 (nat d) @ ''T''
           @ pad_nat 2 (nat (s div 3600)) @ '':'' @ pad_nat 2 (nat (s div 60 mod 60)) @ '':''
           @ pad_nat 2 (nat (s mod 60)) @ (if frac = [] then [] else ''.'' @ frac) @ ''Z''))"

lemma date_string_2026: "date_string (1767225600 * second) = ''20260101''"
  by code_simp

section \<open>Display texts\<close>

text \<open>
  The Chinese texts of notifications and units, by code point, in the order in which the
  code uses them.
\<close>

definition txt_person_day :: string where \<comment> \<open>the unit "person day"\<close>
  "txt_person_day = utf8 [20154, 22825]"

definition txt_hour :: string where \<comment> \<open>the unit "hour"\<close>
  "txt_hour = utf8 [23567, 26102]"

definition txt_list_comma :: string where \<comment> \<open>the enumeration comma\<close>
  "txt_list_comma = utf8 [12289]"

definition txt_comma :: string where \<comment> \<open>the full-width comma\<close>
  "txt_comma = utf8 [65292]"

definition txt_full_stop :: string where \<comment> \<open>the full-width full stop\<close>
  "txt_full_stop = utf8 [12290]"

definition txt_ellipsis :: string where \<comment> \<open>the ellipsis\<close>
  "txt_ellipsis = utf8 [8230]"

definition txt_solution_design :: string where \<comment> \<open>work content: solution design\<close>
  "txt_solution_design = utf8 [26041, 26696, 35774, 35745]"

definition txt_tech_exchange :: string where \<comment> \<open>work content: technical exchange\<close>
  "txt_tech_exchange = utf8 [25216, 26415, 20132, 27969]"

definition txt_poc_demo :: string where \<comment> \<open>work content: POC demonstration\<close>
  "txt_poc_demo = utf8 [80, 79, 67, 28436, 31034]"

definition txt_tech_qa :: string where \<comment> \<open>work content: technical Q and A\<close>
  "txt_tech_qa = utf8 [25216, 26415, 31572, 30097]"

definition txt_other :: string where \<comment> \<open>work content: other\<close>
  "txt_other = utf8 [20854, 20182]"

definition txt_approval_pending_title :: string where \<comment> \<open>approval pending\<close>
  "txt_approval_pending_title = utf8 [21806, 21069, 23457, 25209, 24453, 22788, 29702]"

definition txt_approval_pending_body :: string where \<comment> \<open>the request has reached your approval node\<close>
  "txt_approval_pending_body = utf8 [21806, 21069, 30003, 35831, 24050, 27969, 36716, 21040, 24744, 24403, 21069, 23457,
     25209, 33410, 28857, 65292, 35831, 21450, 26102, 22788, 29702, 12290]"

definition txt_approval_approved_title :: string where \<comment> \<open>approval passed\<close>
  "txt_approval_approved_title = utf8 [21806, 21069, 23457, 25209, 24050, 36890, 36807]"

definition txt_approval_approved_body :: string where \<comment> \<open>your request has been approved\<close>
  "txt_approval_approved_body = utf8 [24744, 30340, 21806, 21069, 30003, 35831, 24050, 23436, 25104, 23457, 25209, 12290]"

definition txt_approval_rejected_title :: string where \<comment> \<open>approval rejected\<close>
  "txt_approval_rejected_title = utf8 [21806, 21069, 23457, 25209, 24050, 39539, 22238]"

definition txt_approval_rejected_body :: string where \<comment> \<open>your request was rejected:\<close>
  "txt_approval_rejected_body = utf8 [24744, 30340, 21806, 21069, 30003, 35831, 24050, 34987, 39539, 22238, 65306]"

definition txt_completed_title :: string where \<comment> \<open>support completed\<close>
  "txt_completed_title = utf8 [21806, 21069, 25903, 25345, 24050, 23436, 25104]"

definition txt_completed_body :: string where \<comment> \<open>a technician has ended the process\<close>
  "txt_completed_body = utf8 [25216, 26415, 20154, 21592, 24050, 20154, 24037, 32467, 26463, 21806, 21069, 25903,
     25345, 27969, 31243]"

definition txt_department_title :: string where \<comment> \<open>department chosen\<close>
  "txt_department_title = utf8 [21806, 21069, 25191, 34892, 37096, 38376, 24050, 30830, 23450]"

definition txt_department_body :: string where \<comment> \<open>the technical director chose the department:\<close>
  "txt_department_body = utf8 [25216, 26415, 24635, 30417, 24050, 36873, 25321, 25191, 34892, 37096, 38376, 65306]"

definition txt_department_lead_title :: string where \<comment> \<open>department and team lead chosen\<close>
  "txt_department_lead_title = utf8 [21806, 21069, 25191, 34892, 37096, 38376, 21644, 22242, 38431, 36127, 36131, 20154,
     24050, 30830, 23450]"

definition txt_department_lead_body :: string where \<comment> \<open>, team lead:\<close>
  "txt_department_lead_body = utf8 [65292, 22242, 38431, 36127, 36131, 20154, 65306]"

definition txt_lead_reassigned :: string where \<comment> \<open>team lead reassigned\<close>
  "txt_lead_reassigned = utf8 [22242, 38431, 36127, 36131, 20154, 37325, 26032, 25351, 27966]"

definition txt_lead_assigned :: string where \<comment> \<open>team lead assigned\<close>
  "txt_lead_assigned = utf8 [22242, 38431, 36127, 36131, 20154, 25351, 27966]"

definition txt_executor_pending_title :: string where \<comment> \<open>executor assignment pending\<close>
  "txt_executor_pending_title = utf8 [21806, 21069, 25191, 34892, 25351, 27966, 24453, 22788, 29702]"

definition txt_executor_pending_body1 :: string where \<comment> \<open>you are now for request\<close>
  "txt_executor_pending_body1 = utf8 [24744, 24050, 34987, 25351, 23450, 20026, 21806, 21069, 30003, 35831, 32]"

definition txt_executor_pending_body2 :: string where \<comment> \<open>the team lead; choose executors\<close>
  "txt_executor_pending_body2 = utf8 [32, 30340, 22242, 38431, 36127, 36131, 20154, 65292, 35831, 36873, 25321, 25191,
     34892, 20154, 12290]"

definition txt_takeover :: string where \<comment> \<open>team lead takeover during execution\<close>
  "txt_takeover = utf8 [25191, 34892, 20013, 36127, 36131, 20154, 25509, 31649]"

definition txt_takeover_title :: string where \<comment> \<open>team lead has taken over\<close>
  "txt_takeover_title = utf8 [25191, 34892, 20013, 30003, 35831, 36127, 36131, 20154, 24050, 25509, 31649]"

definition txt_takeover_body1 :: string where \<comment> \<open>you have taken over request\<close>
  "txt_takeover_body1 = utf8 [24744, 24050, 25509, 31649, 21806, 21069, 30003, 35831, 32]"

definition txt_takeover_body2 :: string where \<comment> \<open>continue managing the executors\<close>
  "txt_takeover_body2 = utf8 [32, 30340, 22242, 38431, 36127, 36131, 20154, 32844, 36131, 65292, 35831, 32487,
     32493, 31649, 29702, 24403, 21069, 25191, 34892, 20154, 12290]"

definition txt_reject_title :: string where \<comment> \<open>team lead rejected the assignment\<close>
  "txt_reject_title = utf8 [22242, 38431, 36127, 36131, 20154, 25298, 32477, 25191, 34892, 25351, 27966]"

definition txt_request_prefix :: string where \<comment> \<open>presale request\<close>
  "txt_request_prefix = utf8 [21806, 21069, 30003, 35831, 32]"

definition txt_reject_body :: string where \<comment> \<open>its team lead rejected the assignment:\<close>
  "txt_reject_body = utf8 [32, 30340, 22242, 38431, 36127, 36131, 20154, 25298, 32477, 25191, 34892, 25351,
     27966, 65306]"

definition txt_reject_body_end :: string where \<comment> \<open>choose a team lead again\<close>
  "txt_reject_body_end = utf8 [12290, 35831, 37325, 26032, 36873, 25321, 22242, 38431, 36127, 36131, 20154, 12290]"

definition txt_lead_invalid_exec_title :: string where \<comment> \<open>team lead of an executing request is invalid\<close>
  "txt_lead_invalid_exec_title = utf8 [25191, 34892, 20013, 30003, 35831, 30340, 22242, 38431, 36127, 36131, 20154, 24050,
     22833, 25928]"

definition txt_lead_invalid_exec_body :: string where \<comment> \<open>still executing; confirm takeover\<close>
  "txt_lead_invalid_exec_body = utf8 [32, 30340, 22242, 38431, 36127, 36131, 20154, 24050, 22833, 25928, 65292, 30003,
     35831, 20173, 20445, 25345, 25191, 34892, 20013, 65307, 35831, 20154, 24037, 30830,
     35748, 25509, 31649, 25110, 37325, 26032, 25351, 27966, 12290]"

definition txt_lead_invalid_title :: string where \<comment> \<open>team lead is invalid\<close>
  "txt_lead_invalid_title = utf8 [22242, 38431, 36127, 36131, 20154, 24050, 22833, 25928]"

definition txt_lead_invalid_body :: string where \<comment> \<open>sent back; choose a lead again\<close>
  "txt_lead_invalid_body = utf8 [32, 30340, 22242, 38431, 36127, 36131, 20154, 24050, 22833, 25928, 65292, 30003,
     35831, 24050, 36864, 22238, 24453, 25351, 27966, 65292, 35831, 37325, 26032, 36873,
     25321, 36127, 36131, 20154, 12290]"

definition txt_lead_left :: string where \<comment> \<open>team lead left, moved or was disabled\<close>
  "txt_lead_left = utf8 [22242, 38431, 36127, 36131, 20154, 24050, 31163, 32844, 12289, 35843, 23703, 25110,
     20572, 29992]"

end
