(* ===== verification/SharedModel.thy ===== *)
theory SharedModel
  imports GoText
begin

text \<open>
  What several modules share: the columns of \<open>database.Model\<close>, the storage of times in
  \<open>DATETIME(3)\<close> and of amounts in \<open>DECIMAL(18,2)\<close> columns, calendar dates, the
  authenticated principal (\<open>internal/shared/auth\<close>) and the entries of the owner directory
  (\<open>internal/modules/ownerdirectory\<close>).
\<close>

section \<open>Shared columns\<close>

record base_model = row +
  created_by :: string
  updated_by :: string
  created_at :: instant
  updated_at :: instant
  deleted_at :: "instant option"
  version :: nat

text \<open>The server rounds what it stores in a \<open>DATETIME(3)\<close> to milliseconds.\<close>

definition datetime3 :: "instant \<Rightarrow> instant" where
  "datetime3 t = truncate_to millisecond (t + 500000)"

lemma datetime3_idem [simp]: "datetime3 (datetime3 t) = datetime3 t"
proof -
  have whole: "truncate_to millisecond x = zero_time + millisecond * ((x - zero_time) div millisecond)" for x
    unfolding truncate_to_def by (simp add: minus_mod_eq_mult_div [symmetric])
  have "(millisecond * k + 500000) div millisecond = k" for k by simp
  then show ?thesis unfolding datetime3_def whole by (simp add: add.assoc)
qed

definition nul :: string where
  "nul = [CHR 0x00]"

section \<open>Errors\<close>

text \<open>
  \<open>apperror.Error\<close> by its status and code, with the details a caller may read; a violated
  unique key, named by its index as in the message of the driver; any other failure of the
  database.
\<close>

datatype app_error =
    AppError nat string
  | AppDetails nat string "string list"
  | ErrDuplicateIndex string
  | ErrDatabaseFailure

type_synonym 'a app_res = "app_error + 'a"

definition ErrUnauthenticated :: app_error where
  "ErrUnauthenticated = AppError 401 ''COMMON_UNAUTHENTICATED''"

definition ErrAppForbidden :: app_error where
  "ErrAppForbidden = AppError 403 ''COMMON_FORBIDDEN''"

definition ErrAppVersionConflict :: app_error where
  "ErrAppVersionConflict = AppError 409 ''COMMON_VERSION_CONFLICT''"

definition ErrInternal :: app_error where \<comment> \<open>what \<open>As\<close> answers for any other error\<close>
  "ErrInternal = AppError 500 ''COMMON_INTERNAL_ERROR''"

section \<open>The owner directory\<close>

record organization =
  org_id :: string
  org_name :: string
  org_primary :: bool

record directory_user =
  du_id :: string
  du_name :: string
  du_orgs :: "organization list"

record directory_query =
  q_user :: string
  q_roles :: "string list"
  q_page :: nat
  q_size :: nat

record directory_page =
  page_items :: "directory_user list"
  page_total :: int

text \<open>\<open>PrimaryOrganization\<close> and \<open>validatePair\<close>.\<close>

fun primary_organization :: "directory_user list \<Rightarrow> string \<Rightarrow> string" where
  "primary_organization [] user = []"
| "primary_organization (u # us) user =
     (if trim_space user = [] then []
      else if trim_space (du_id u) \<noteq> trim_space user then primary_organization us user
      else case List.find (\<lambda>g. org_primary g \<and> trim_space (org_id g) \<noteq> []) (du_orgs u) of
        Some g \<Rightarrow> trim_space (org_id g)
      | None \<Rightarrow>
          if length (du_orgs u) = 1 then trim_space (org_id (hd (du_orgs u))) else primary_organization us user)"

definition valid_pair :: "directory_user list \<Rightarrow> string \<Rightarrow> string \<Rightarrow> bool" where
  "valid_pair us user org \<longleftrightarrow>
     trim_space user \<noteq> [] \<and> trim_space org \<noteq> [] \<and>
     list_ex (\<lambda>u. du_id u = trim_space user \<and> list_ex (\<lambda>g. org_id g = trim_space org) (du_orgs u)) us"

section \<open>The principal\<close>

datatype scope_mode = ScopeSelf | ScopeOrg | ScopeAll

record principal =
  p_user :: string
  p_name :: string
  p_tenant :: string
  p_org :: string
  p_permissions :: "string list"
  p_scope :: scope_mode \<comment> \<open>the code treats every other mode as \<open>ScopeSelf\<close>\<close>
  p_orgs :: "string list"

definition principal_permits :: "principal \<Rightarrow> string \<Rightarrow> bool" where
  "principal_permits p perm \<longleftrightarrow> perm \<in> set (p_permissions p)"

section \<open>Calendar dates\<close>

text \<open>Days since the epoch of a Gregorian date, the inverse of \<open>civil_of_days\<close>.\<close>

definition days_of_civil :: "int \<Rightarrow> int \<Rightarrow> int \<Rightarrow> int" where
  "days_of_civil y m d =
     (let y' = (if m \<le> 2 then y - 1 else y); yoe = y' mod 400;
          doy = (153 * ((m + 9) mod 12) + 2) div 5 + d - 1
      in y' div 400 * 146097 + (yoe * 365 + yoe div 4 - yoe div 100 + doy) - 719468)"

definition leap_year :: "int \<Rightarrow> bool" where
  "leap_year y \<longleftrightarrow> y mod 4 = 0 \<and> (y mod 100 \<noteq> 0 \<or> y mod 400 = 0)"

definition month_days :: "int \<Rightarrow> int \<Rightarrow> int" where
  "month_days y m =
     (if m = 2 then (if leap_year y then 29 else 28) else if m \<in> {4, 6, 9, 11} then 30 else 31)"

text \<open>\<open>time.Parse("2006-01-02", s)\<close>: midnight UTC of a calendar date.\<close>

definition parse_date :: "string \<Rightarrow> instant option" where
  "parse_date s =
     (let ys = take 4 s; ms = take 2 (drop 5 s); ds = drop 8 s;
          y = int (digits_value ys); m = int (digits_value ms); d = int (digits_value ds)
      in if length s = 10 \<and> s ! 4 = CHR ''-'' \<and> s ! 7 = CHR ''-'' \<and> list_all is_digit (ys @ ms @ ds) \<and>
            1 \<le> m \<and> m \<le> 12 \<and> 1 \<le> d \<and> d \<le> month_days y m
         then Some (days_of_civil y m d * day) else None)"

text \<open>\<open>Format("2006-01-02")\<close> in UTC, and in the zone of the business clock (UTC+8).\<close>

definition format_date :: "instant \<Rightarrow> string" where
  "format_date t =
     (case civil_of_days (t div day) of (y, m, d) \<Rightarrow>
       pad_nat 4 (nat y) @ ''-'' @ pad_nat 2 (nat m) @ ''-'' @ pad_nat 2 (nat d))"

definition beijing :: "instant \<Rightarrow> instant" where
  "beijing t = t + 8 * hour"

definition beijing_day :: "instant \<Rightarrow> int" where
  "beijing_day t = beijing t div day"

section \<open>Decimal amounts\<close>

text \<open>
  A \<open>decimal.Decimal\<close> is, as its package documents, a coefficient times a power of ten;
  parsing one is a parameter of the services. Rounding to cents is half away from zero, by
  the package (\<open>Round\<close>, \<open>StringFixed\<close>) and by the server when it stores a \<open>DECIMAL(18,2)\<close>.
\<close>

type_synonym decimal = "int \<times> int"

definition scale_to :: "int \<Rightarrow> decimal \<Rightarrow> int" where
  "scale_to e d = fst d * 10 ^ nat (snd d - e)"

definition decimal_equal :: "decimal \<Rightarrow> decimal \<Rightarrow> bool" where
  "decimal_equal a b \<longleftrightarrow> scale_to (min (snd a) (snd b)) a = scale_to (min (snd a) (snd b)) b"

definition decimal_less :: "decimal \<Rightarrow> decimal \<Rightarrow> bool" where
  "decimal_less a b \<longleftrightarrow> scale_to (min (snd a) (snd b)) a < scale_to (min (snd a) (snd b)) b"

definition cents :: "decimal \<Rightarrow> int" where
  "cents d =
     (if - 2 \<le> snd d then scale_to (- 2) d
      else let p = 10 ^ nat (- 2 - snd d) in sgn (fst d) * ((2 * abs (fst d) + p) div (2 * p)))"

definition of_cents :: "int \<Rightarrow> decimal" where
  "of_cents h = (h, - 2)"

definition string_fixed2 :: "decimal \<Rightarrow> string" where
  "string_fixed2 d =
     (let h = cents d
      in (if h < 0 then ''-'' else []) @ show_nat (nat (abs h) div 100) @ ''.'' @ pad_nat 2 (nat (abs h) mod 100))"

text \<open>What a \<open>DECIMAL(18,2)\<close> column holds; too many digits are a database error.\<close>

definition fits_decimal18 :: "decimal \<Rightarrow> bool" where
  "fits_decimal18 d \<longleftrightarrow> abs (cents d) < 10 ^ 18"

lemma cents_of_cents [simp]: "cents (of_cents h) = h"
  by (simp add: cents_def of_cents_def scale_to_def)

lemma decimal_equal_refl [simp]: "decimal_equal d d"
  by (simp add: decimal_equal_def)

lemma decimal_equal_cents: "decimal_equal (of_cents h) (of_cents k) \<longleftrightarrow> h = k"
  by (simp add: decimal_equal_def of_cents_def scale_to_def)

end
