(* ===== verification/PresaleModel.thy ===== *)
theory PresaleModel
  imports SharedModel
begin

text \<open>
  The data of the presale module (\<open>internal/modules/presale/model.go\<close>, \<open>dto.go\<close>,
  \<open>errors.go\<close>, \<open>notification_port.go\<close>, \<open>approval_rule.go\<close>): enumerations, one
  record per table row, the inputs of the operations, the caller, the errors, and the
  database as one record of tables. Row records extend \<open>base_model\<close> (or \<open>row\<close> where
  the Go struct has no audit columns), so the selectors of the shared columns are shared.
  Ids and versions are \<open>nat\<close>; the one place where a version can leave the 64-bit range
  is the increment of \<open>PresaleRepo\<close>.
\<close>

section \<open>Enumerations\<close>

datatype request_status =
    ApprovalStarting | PendingApproval | ApprovedPendingAssignment | PendingExecutionAssignment
  | Executing | Completed | Rejected | Cancelled

fun status_str :: "request_status \<Rightarrow> string" where
  "status_str ApprovalStarting = ''APPROVAL_STARTING''"
| "status_str PendingApproval = ''PENDING_APPROVAL''"
| "status_str ApprovedPendingAssignment = ''APPROVED_PENDING_ASSIGNMENT''"
| "status_str PendingExecutionAssignment = ''PENDING_EXECUTION_ASSIGNMENT''"
| "status_str Executing = ''EXECUTING''"
| "status_str Completed = ''COMPLETED''"
| "status_str Rejected = ''REJECTED''"
| "status_str Cancelled = ''CANCELLED''"

text \<open>\<open>Venue\<close> and \<open>Urgency\<close> are strings in the code and are checked on input.\<close>

definition assignment_level_none :: nat where "assignment_level_none = 0"
definition assignment_level_team_lead :: nat where "assignment_level_team_lead = 1"
definition assignment_level_executor :: nat where "assignment_level_executor = 2"

datatype push_status = PushPending | PushSending | PushSuccess | PushRetryWait | PushDeadLetter

text \<open>The assignment kind column; \<open>KindEmpty\<close> is the empty string of rolling upgrades.\<close>

datatype assignment_kind = KindEmpty | KindTeamLead | KindExecutor

datatype assignment_event_type = EventAdded | EventRemoved

fun event_type_str :: "assignment_event_type \<Rightarrow> string" where
  "event_type_str EventAdded = ''ADDED''"
| "event_type_str EventRemoved = ''REMOVED''"

section \<open>Approval rules\<close>

datatype node_type = NodeApproval | NodeDepartment | NodePerson | NodeTeamLead | NodeExecutor
  | NodeOther string

record approval_node =
  node_id :: string
  node_name :: string
  node_type :: node_type
  role_code :: string
  countersign :: string

datatype json_value = JString string | JOther

record approval_condition =
  cond_field :: string
  cond_operator :: string
  cond_value :: json_value

record approval_expression =
  logical :: string
  conditions :: "approval_condition list"

record approval_rule =
  rule_key :: string
  rule_tenant :: string
  rule_name :: string
  priority :: int
  rule_enabled :: bool
  expression :: approval_expression
  nodes :: "approval_node list"
  rule_ver :: nat

record approval_facts =
  fact_urgency :: string
  fact_venue :: string
  fact_hours :: int
  fact_opportunity :: nat

text \<open>
  The JSON column with the nodes of the matched rule: no bytes at all, bytes that
  \<open>json.Unmarshal\<close> refuses, or the nodes it decodes to.
\<close>

datatype nodes_json = NodesEmpty | NodesInvalid | Nodes "approval_node list"

section \<open>Rows\<close>

record presale_request = base_model +
  request_no :: string
  opportunity_id :: nat
  opportunity_no :: string
  applicant_id :: string
  applicant_name :: string
  venue :: string
  service_address :: string
  contact_name :: string
  phone_cipher :: string
  phone_masked :: string
  description :: string
  expected_start :: instant
  expected_end :: instant
  urgency :: string
  status :: request_status
  current_node :: nat
  department_id :: string
  department :: string
  team_lead :: string
  team_lead_name :: string
  assignment_level :: nat
  reject_reason :: string
  completed_at :: "instant option"
  cancelled_at :: "instant option"
  create_key :: string
  create_hash :: string

text \<open>\<open>RequestView\<close>: the projection a response or an audit row may show.\<close>

record request_view =
  v_id :: nat
  v_request_no :: string
  v_opportunity :: nat
  v_opportunity_no :: string
  v_applicant :: string
  v_applicant_name :: string
  v_venue :: string
  v_address :: string
  v_contact :: string
  v_phone_masked :: string
  v_description :: string
  v_start :: instant
  v_end :: instant
  v_urgency :: string
  v_status :: request_status
  v_node :: nat
  v_version :: nat
  v_department_id :: string
  v_department :: string
  v_team_lead :: string
  v_team_lead_name :: string
  v_level :: nat
  v_created :: instant
  v_updated :: instant

definition request_view :: "presale_request \<Rightarrow> request_view" where
  "request_view r =
     \<lparr>v_id = row_id r, v_request_no = request_no r, v_opportunity = opportunity_id r,
      v_opportunity_no = opportunity_no r, v_applicant = applicant_id r, v_applicant_name = applicant_name r,
      v_venue = venue r, v_address = service_address r, v_contact = contact_name r,
      v_phone_masked = phone_masked r, v_description = description r, v_start = expected_start r,
      v_end = expected_end r, v_urgency = urgency r, v_status = status r, v_node = current_node r,
      v_version = version r, v_department_id = department_id r, v_department = department r,
      v_team_lead = team_lead r, v_team_lead_name = team_lead_name r, v_level = assignment_level r,
      v_created = created_at r, v_updated = updated_at r\<rparr>"

record approval_instance = base_model +
  inst_request :: nat
  engine_instance :: string
  inst_status :: string
  inst_node :: nat
  last_event_seq :: nat
  pending_task :: string
  pending_approver :: string
  pending_action :: string
  started_at :: "instant option"
  finished_at :: "instant option"
  rule_id :: string
  rule_version :: nat
  inst_nodes :: nodes_json

record approval_log = row +
  al_request :: nat
  al_node :: nat
  al_approver :: string
  al_approver_name :: string
  al_result :: string
  al_comment :: string
  al_approved_at :: instant
  al_task :: string
  al_instance :: string
  al_seq :: nat
  al_trace :: string

record assignment = base_model +
  as_request :: nat
  assignee :: string
  assignee_namespace :: string
  assignee_name :: string
  assignee_department :: string
  assignee_role :: string
  kind :: assignment_kind
  assigned_by :: string
  assigned_at :: instant
  ended_at :: "instant option"
  is_current :: bool
  batch_no :: nat
  change_reason :: string

text \<open>\<open>EffectiveAssignmentKind\<close> and \<open>IsTeamLead\<close>.\<close>

definition effective_kind :: "'a assignment_scheme \<Rightarrow> assignment_kind" where
  "effective_kind a = (if kind a = KindEmpty then KindExecutor else kind a)"

definition is_team_lead :: "'a assignment_scheme \<Rightarrow> bool" where
  "is_team_lead a \<longleftrightarrow> effective_kind a = KindTeamLead"

record assignment_event = row +
  ae_event :: string
  ae_request :: nat
  ae_assignment :: nat
  ae_type :: assignment_event_type
  ae_recipient :: string
  ae_namespace :: string
  ae_name :: string
  ae_role :: string
  ae_reason :: string
  ae_actor :: string
  ae_trace :: string
  ae_occurred :: instant

record progress_log = row +
  pl_request :: nat
  pl_author :: string
  pl_content :: string
  pl_link :: string
  pl_pct :: "nat option"
  pl_key :: string
  pl_hash :: string
  pl_created :: instant

record progress_event = row +
  pe_event :: string
  pe_request :: nat
  pe_progress :: nat
  pe_assignment :: nat
  pe_recipient :: string
  pe_namespace :: string
  pe_kind :: string
  pe_author_user :: string
  pe_author_person :: string
  pe_trace :: string
  pe_occurred :: instant

record status_log = row +
  sl_request :: nat
  sl_from :: request_status
  sl_to :: request_status
  sl_trigger :: string
  sl_reason :: string
  sl_operator :: string
  sl_occurred :: instant
  sl_trace :: string

record mutation_replay = row +
  mr_request :: nat
  mr_operation :: string
  mr_action :: string
  mr_actor :: string
  mr_key :: string
  mr_hash :: string
  mr_version :: nat
  mr_trace :: string
  mr_created :: instant

record worklog = base_model +
  worklog_no :: string
  wl_request :: nat
  wl_person :: string
  wl_department :: string
  wl_name :: string
  work_start :: instant
  work_end :: instant
  raw_unit :: string
  raw_value :: string
  conversion_factor :: string
  work_hours :: string
  unit :: string
  site_address :: string
  work_content :: string
  remark :: string
  push_status :: push_status
  push_attempts :: nat
  next_retry_at :: "instant option"
  last_error :: string
  wl_key :: string
  wl_hash :: string
  completed_task :: bool
  voided_at :: "instant option"

datatype outbox_payload =
    ApprovalActionPayload nat string string string string nat
  | AssignmentEventPayload nat
  | ProgressEventPayload nat

record outbox_event = row +
  ob_event :: string
  ob_type :: string
  ob_aggregate :: string
  ob_aggregate_id :: string
  ob_payload :: outbox_payload
  ob_status :: string
  ob_retries :: nat
  ob_next_retry :: "instant option"
  ob_locked_by :: string
  ob_locked_until :: "instant option"
  ob_error :: string
  ob_created :: instant

record integration_attempt = row +
  ia_worklog :: nat
  ia_attempt :: nat
  ia_result :: string
  ia_error :: string
  ia_code :: string
  ia_at :: instant

record number_sequence = row +
  sequence_type :: string
  sequence_day :: string
  last_value :: nat

record workflow_notification =
  n_tenant :: string
  n_recipient :: string
  n_type :: string
  n_title :: string
  n_body :: string
  n_request_no :: string
  n_request :: nat
  n_assignment :: nat
  n_node :: nat
  n_discriminator :: string

record notification = row +
  nt_source :: string
  nt_content :: workflow_notification
  nt_created :: instant

record audit_event = row +
  au_operation :: string
  au_resource :: nat
  au_actor :: string
  au_actor_name :: string
  au_before :: "request_view option"
  au_after :: "request_view"
  au_reason :: string

section \<open>The database\<close>

record presale_db =
  requests :: "presale_request table"
  instances :: "approval_instance table"
  approval_logs :: "approval_log table"
  assignments :: "assignment table"
  assignment_events :: "assignment_event table"
  progress_logs :: "progress_log table"
  progress_events :: "progress_event table"
  status_logs :: "status_log table"
  replays :: "mutation_replay table"
  worklogs :: "worklog table"
  attempts :: "integration_attempt table"
  outbox :: "outbox_event table"
  sequences :: "number_sequence table"
  notices :: "notification table"
  audits :: "audit_event table"

definition empty_db :: presale_db where
  "empty_db = \<lparr>requests = empty_table, instances = empty_table, approval_logs = empty_table,
     assignments = empty_table, assignment_events = empty_table, progress_logs = empty_table,
     progress_events = empty_table, status_logs = empty_table, replays = empty_table,
     worklogs = empty_table, attempts = empty_table, outbox = empty_table,
     sequences = empty_table, notices = empty_table, audits = empty_table\<rparr>"

section \<open>The caller\<close>

text \<open>
  \<open>Roles\<close> and \<open>Permissions\<close> are maps from a code to a flag; a range over them visits
  every key, whatever its flag.
\<close>

record actor =
  actor_tenant :: string
  user_id :: string
  user_name :: string
  person_id :: string
  roles :: "(string \<times> bool) list"
  permissions :: "(string \<times> bool) list"
  trace_id :: string

definition can :: "actor \<Rightarrow> string \<Rightarrow> bool" where
  "can a p \<longleftrightarrow> map_of (permissions a) p = Some True"

definition has_role :: "actor \<Rightarrow> string \<Rightarrow> bool" where
  "has_role a r \<longleftrightarrow> map_of (roles a) r = Some True"

definition role_keys :: "actor \<Rightarrow> string list" where
  "role_keys a = map fst (roles a)"

section \<open>Inputs\<close>

record request_fields =
  in_venue :: string
  in_address :: string
  in_contact :: string
  in_phone :: string
  in_description :: string
  in_start :: instant
  in_end :: instant
  in_urgency :: string

record create_input = request_fields +
  in_opportunity :: nat

record started_input =
  st_request :: nat
  st_instance :: string
  st_seq :: nat

record callback_input =
  cb_request :: nat
  cb_instance :: string
  cb_task :: string
  cb_seq :: nat
  cb_node :: nat
  cb_result :: string
  cb_comment :: string
  cb_approver :: string
  cb_approver_name :: string
  cb_next_approver :: string
  cb_next_name :: string
  cb_occurred :: instant

record action_input =
  act_action :: string
  act_comment :: string
  act_version :: nat

record assignment_target =
  tg_person :: string
  tg_name :: string
  tg_department :: string
  tg_department_id :: string
  tg_role :: string

record replace_input =
  rp_assignees :: "assignment_target list"
  rp_reason :: string
  rp_version :: nat

record select_input =
  sd_department_id :: string
  sd_department :: string
  sd_team_lead :: string
  sd_version :: nat

record takeover_input =
  tk_team_lead :: string
  tk_reason :: string
  tk_version :: nat

record reason_input = \<comment> \<open>\<open>RejectExecutionAssignmentInput\<close>, \<open>CancelInput\<close>, \<open>CompletePresaleInput\<close>\<close>
  rs_reason :: string
  rs_version :: nat

record progress_input =
  pg_content :: string
  pg_link :: string
  pg_pct :: "nat option"
  pg_version :: nat

record worklog_input =
  wk_start :: instant
  wk_end :: instant
  wk_unit :: string
  wk_value :: string
  wk_address :: string
  wk_content :: string
  wk_remark :: string
  wk_version :: nat

section \<open>What a request digest covers\<close>

text \<open>
  The canonical structures whose JSON the code hashes, one constructor per anonymous
  struct. The hash of one is a parameter of the service.
\<close>

datatype mutation_payload =
    PApproval string nat
  | PReason string nat
  | PTargets "assignment_target list" string nat
  | PDepartment string string nat
  | PTakeover string nat string

datatype digest_input =
    MutationDigest string nat string string mutation_payload
  | CreateDigest string create_input
  | CreateLegacyDigest create_input
  | WorklogDigest nat string string worklog_input
  | WorklogLegacyDigest worklog_input
  | ProgressDigest nat string string string "nat option" nat

section \<open>Errors\<close>

datatype presale_error =
    ErrNotFound | ErrForbidden | ErrInvalidFilter | ErrInvalidInput | ErrInvalidTransition
  | ErrVersionConflict | ErrIdempotencyConflict | ErrInvalidApprovalEvent
  | ErrReportExportUnavailable | ErrReportExportLimit | ErrReportExportBusy
  | ErrContactPhoneUnavailable | ErrAuditUnavailable | ErrDependencyUnavailable
  | ErrOpportunityNotEligible | ErrTeamLeadInvalid
  | ErrAssigneeNotQualified "(string \<times> string list) option"
  | ErrSelectionInvalid | ErrDirectoryUnavailable
  | ErrUserFrozen | ErrFreezeSubjectRequired | ErrFreezeCheckerUnavailable
  | ErrInvalidApprovalRule
  | ErrDuplicateKey | ErrDatabase
  | ErrPort string

type_synonym 'a res = "presale_error + 'a"

text \<open>
  \<open>apiError\<close>: status and code of the response. \<open>None\<close> is the default branch, which
  returns the error as it is.
\<close>

fun api_error :: "presale_error \<Rightarrow> (nat \<times> string) option" where
  "api_error ErrNotFound = Some (404, ''CRM_PRESALE_NOT_FOUND'')"
| "api_error ErrForbidden = Some (403, ''CRM_PRESALE_FORBIDDEN'')"
| "api_error ErrInvalidFilter = Some (400, ''CRM_PRESALE_INVALID_FILTER'')"
| "api_error ErrInvalidInput = Some (422, ''CRM_PRESALE_INVALID_INPUT'')"
| "api_error ErrInvalidTransition = Some (409, ''CRM_PRESALE_INVALID_TRANSITION'')"
| "api_error ErrVersionConflict = Some (409, ''COMMON_VERSION_CONFLICT'')"
| "api_error ErrIdempotencyConflict = Some (409, ''CRM_PRESALE_IDEMPOTENCY_CONFLICT'')"
| "api_error ErrInvalidApprovalEvent = Some (409, ''CRM_PRESALE_INVALID_APPROVAL_EVENT'')"
| "api_error ErrReportExportUnavailable = Some (503, ''CRM_PRESALE_REPORT_EXPORT_UNAVAILABLE'')"
| "api_error ErrReportExportLimit = Some (422, ''CRM_PRESALE_REPORT_EXPORT_LIMIT'')"
| "api_error ErrReportExportBusy = Some (429, ''CRM_PRESALE_REPORT_EXPORT_BUSY'')"
| "api_error ErrContactPhoneUnavailable = Some (503, ''CRM_PRESALE_CONTACT_PHONE_UNAVAILABLE'')"
| "api_error ErrAuditUnavailable = Some (503, ''CRM_PRESALE_AUDIT_UNAVAILABLE'')"
| "api_error ErrDependencyUnavailable = Some (503, ''INTEGRATION_DEPENDENCY_UNAVAILABLE'')"
| "api_error ErrOpportunityNotEligible = Some (409, ''CRM_PRESALE_OPPORTUNITY_NOT_ELIGIBLE'')"
| "api_error ErrTeamLeadInvalid = Some (409, ''CRM_PRESALE_TEAM_LEAD_INVALID'')"
| "api_error (ErrAssigneeNotQualified q) = Some (422, ''CRM_PRESALE_ASSIGNEE_NOT_QUALIFIED'')"
| "api_error e = None"

end
