(* ===== verification/ApprovalRules.thy ===== *)
theory ApprovalRules
  imports PresaleModel
begin

text \<open>
  Approval rules (\<open>approval_rule.go\<close>), their validation (\<open>validateApprovalRule\<close> of
  \<open>approval_rule_store.go\<close>), and the pure functions that read the node snapshot of an
  approval instance (\<open>service_approval.go\<close>, \<open>assignment_helpers.go\<close>): which role a
  node needs, which node comes next, and who may perform an assignment action. A Go map
  that is only ranged over to find one matching key is modelled by an existential over
  its keys, since the order cannot matter.
\<close>

section \<open>Nodes and actions\<close>

definition is_assignment_node :: "node_type \<Rightarrow> bool" where
  "is_assignment_node t \<longleftrightarrow> t \<in> {NodeDepartment, NodePerson, NodeTeamLead, NodeExecutor}"

definition uses_two_level :: "approval_node list \<Rightarrow> bool" where
  "uses_two_level ns \<longleftrightarrow> list_ex (\<lambda>n. node_type n = NodeTeamLead \<or> node_type n = NodeExecutor) ns"

definition assignment_actions_for_role :: "approval_node list \<Rightarrow> string \<Rightarrow> node_type list" where
  "assignment_actions_for_role ns r =
     (let role = trim_space r
      in if role = [] then []
         else map node_type
                (filter (\<lambda>n. trim_space (role_code n) = role \<and> is_assignment_node (node_type n)) ns))"

definition role_has_action :: "approval_node list \<Rightarrow> string \<Rightarrow> node_type \<Rightarrow> bool" where
  "role_has_action ns r action \<longleftrightarrow> action \<in> set (assignment_actions_for_role ns r)"

definition assignment_action_for_role :: "approval_node list \<Rightarrow> string \<Rightarrow> node_type option" where
  "assignment_action_for_role ns r =
     (case assignment_actions_for_role ns r of [] \<Rightarrow> None | a # _ \<Rightarrow> Some a)"

lemma role_has_action_iff:
  "role_has_action ns r a \<longleftrightarrow>
     trim_space r \<noteq> [] \<and> is_assignment_node a \<and>
     (\<exists>n \<in> set ns. trim_space (role_code n) = trim_space r \<and> node_type n = a)"
  by (auto simp: role_has_action_def assignment_actions_for_role_def Let_def)

section \<open>Matching\<close>

definition condition_match :: "approval_condition \<Rightarrow> approval_facts \<Rightarrow> bool res" where
  "condition_match c f =
     (case (if cond_field c = ''urgency'' then Some (fact_urgency f)
            else if cond_field c = ''venue'' then Some (fact_venue f) else None) of
        None \<Rightarrow> Inl ErrInvalidApprovalRule
      | Some actual \<Rightarrow>
          (case cond_value c of
             JOther \<Rightarrow> Inl ErrInvalidApprovalRule
           | JString value \<Rightarrow>
               (let oper = to_lower (cond_operator c)
                in if oper = ''eq'' then Inr (actual = value)
                   else if oper = ''ne'' then Inr (actual \<noteq> value)
                   else if oper = ''in'' then
                     Inr (list_ex (\<lambda>item. trim_space item = actual) (split_at CHR '','' value))
                   else Inl ErrInvalidApprovalRule)))"

fun match_conditions :: "bool \<Rightarrow> approval_condition list \<Rightarrow> approval_facts \<Rightarrow> bool \<Rightarrow> bool res" where
  "match_conditions all_of [] f matched = Inr matched"
| "match_conditions all_of (c # cs) f matched =
     (case condition_match c f of
        Inl e \<Rightarrow> Inl e
      | Inr v \<Rightarrow> match_conditions all_of cs f (if all_of then matched \<and> v else matched \<or> v))"

definition expression_match :: "approval_expression \<Rightarrow> approval_facts \<Rightarrow> bool res" where
  "expression_match e f =
     (if conditions e = [] then Inl ErrInvalidApprovalRule
      else (let l0 = to_lower (trim_space (logical e)); l = (if l0 = [] then ''and'' else l0)
            in if l \<noteq> ''and'' \<and> l \<noteq> ''or'' then Inl ErrInvalidApprovalRule
               else match_conditions (l = ''and'') (conditions e) f (l = ''and'')))"

fun first_match :: "approval_rule list \<Rightarrow> approval_facts \<Rightarrow> approval_rule option res" where
  "first_match [] f = Inr None"
| "first_match (r # rs) f =
     (if \<not> rule_enabled r then first_match rs f
      else (case expression_match (expression r) f of
              Inl e \<Rightarrow> Inl e
            | Inr matched \<Rightarrow> if matched then Inr (Some r) else first_match rs f))"

text \<open>\<open>sort.SliceStable\<close> by descending priority: \<open>sort_key\<close> is a stable sort.\<close>

definition match_highest :: "approval_rule list \<Rightarrow> approval_facts \<Rightarrow> approval_rule option res" where
  "match_highest rules f = first_match (sort_key (\<lambda>r. - priority r) rules) f"

lemma first_match_Some:
  "first_match rs f = Inr (Some r) \<Longrightarrow>
     \<exists>before after. rs = before @ r # after \<and> rule_enabled r \<and> expression_match (expression r) f = Inr True \<and>
       (\<forall>b \<in> set before. rule_enabled b \<longrightarrow> expression_match (expression b) f = Inr False)"
proof (induction rs)
  case (Cons x rs)
  show ?case
  proof (cases "rule_enabled x \<and> expression_match (expression x) f = Inr True")
    case True
    with Cons.prems have "r = x" by simp
    with True show ?thesis by (intro exI [of _ "[]"] exI [of _ rs]) simp
  next
    case False
    with Cons.prems have "first_match rs f = Inr (Some r)"
      and x: "rule_enabled x \<longrightarrow> expression_match (expression x) f = Inr False"
      by (auto split: if_splits)
    from Cons.IH [OF this(1)] obtain before after where
      "rs = before @ r # after" "rule_enabled r" "expression_match (expression r) f = Inr True"
      "\<forall>b \<in> set before. rule_enabled b \<longrightarrow> expression_match (expression b) f = Inr False" by blast
    with x show ?thesis by (intro exI [of _ "x # before"] exI [of _ after]) simp
  qed
qed simp

lemma first_match_None:
  "first_match rs f = Inr None \<longleftrightarrow>
     (\<forall>r \<in> set rs. rule_enabled r \<longrightarrow> expression_match (expression r) f = Inr False)"
  by (induction rs) (auto split: sum.splits)

lemma sorted_before:
  assumes "sort_key k xs = before @ r # after" and "x \<in> set xs" and "k x < (k r :: int)"
  shows "x \<in> set before"
proof -
  have "sorted (map k (before @ r # after))" using assms(1) by (metis sorted_sort_key)
  then have "\<forall>y \<in> set (r # after). k r \<le> k y" by (auto simp: sorted_append)
  moreover have "x \<in> set (before @ r # after)" using assms(1,2) by (metis set_sort)
  ultimately show ?thesis using assms(3) by force
qed

section \<open>Validation of a rule\<close>

text \<open>
  The loop over the nodes. The two Go maps \<open>assignmentTypes\<close> and \<open>roleActions\<close> are one
  list of the pairs (role, action) entered so far.
\<close>

fun validate_nodes ::
  "approval_node list \<Rightarrow> string list \<Rightarrow> (string \<times> node_type) list \<Rightarrow> (string \<times> node_type) list res" where
  "validate_nodes [] seen acts = Inr acts"
| "validate_nodes (n # ns) seen acts =
     (if trim_space (node_id n) = [] \<or> trim_space (node_name n) = [] \<or> node_id n \<in> set seen \<or>
         node_type n \<noteq> NodeApproval \<and> \<not> is_assignment_node (node_type n) then Inl ErrInvalidInput
      else if is_assignment_node (node_type n) then
        (let role = trim_space (role_code n)
         in if role = [] then Inl ErrInvalidInput
            else if node_type n \<in> snd ` set acts then Inl ErrInvalidInput
            else validate_nodes ns (node_id n # seen) ((role, node_type n) # acts))
      else validate_nodes ns (node_id n # seen) acts)"

definition empty_facts :: approval_facts where
  "empty_facts = \<lparr>fact_urgency = [], fact_venue = [], fact_hours = 0, fact_opportunity = 0\<rparr>"

definition validate_rule :: "approval_rule \<Rightarrow> unit res" where
  "validate_rule rule =
     (if trim_space (rule_name rule) = [] \<or> 128 < rune_len (rule_name rule) \<or>
         nodes rule = [] \<or> 10 < length (nodes rule) then Inl ErrInvalidInput
      else (case expression_match (expression rule) empty_facts of
        Inl e \<Rightarrow> Inl ErrInvalidInput
      | Inr b \<Rightarrow>
        if node_type (hd (nodes rule)) \<noteq> NodeApproval \<or> trim_space (role_code (hd (nodes rule))) = []
        then Inl ErrInvalidInput
        else (case validate_nodes (nodes rule) [] [] of
          Inl e \<Rightarrow> Inl e
        | Inr acts \<Rightarrow>
          (let has = (\<lambda>t. t \<in> snd ` set acts)
           in if has NodePerson \<and> (has NodeTeamLead \<or> has NodeExecutor) then Inl ErrInvalidInput
              else if has NodeTeamLead \<noteq> has NodeExecutor \<or> has NodeTeamLead \<and> \<not> has NodeDepartment
              then Inl ErrInvalidInput
              else if has NodeTeamLead \<and>
                      \<not> list_ex (\<lambda>(r, t). (r, NodeDepartment) \<in> set acts \<and> (r, NodeTeamLead) \<in> set acts) acts
              then Inl ErrInvalidInput
              else Inr ()))))"

lemma validate_rule_iff:
  "validate_rule rule = Inr () \<longleftrightarrow>
     trim_space (rule_name rule) \<noteq> [] \<and> rune_len (rule_name rule) \<le> 128 \<and>
     nodes rule \<noteq> [] \<and> length (nodes rule) \<le> 10 \<and>
     (\<exists>b. expression_match (expression rule) empty_facts = Inr b) \<and>
     node_type (hd (nodes rule)) = NodeApproval \<and> trim_space (role_code (hd (nodes rule))) \<noteq> [] \<and>
     (\<exists>acts. validate_nodes (nodes rule) [] [] = Inr acts \<and>
        \<not> (NodePerson \<in> snd ` set acts \<and> (NodeTeamLead \<in> snd ` set acts \<or> NodeExecutor \<in> snd ` set acts)) \<and>
        (NodeTeamLead \<in> snd ` set acts \<longleftrightarrow> NodeExecutor \<in> snd ` set acts) \<and>
        (NodeTeamLead \<in> snd ` set acts \<longrightarrow>
           NodeDepartment \<in> snd ` set acts \<and>
           list_ex (\<lambda>(r, t). (r, NodeDepartment) \<in> set acts \<and> (r, NodeTeamLead) \<in> set acts) acts))"
  (is "_ \<longleftrightarrow> ?name \<and> ?len \<and> ?nodes \<and> ?ten \<and> ?expr \<and> ?first \<and> ?role \<and> (\<exists>acts. ?v acts \<and> ?c acts)")
proof -
  have tail: "(let has = (\<lambda>t. t \<in> snd ` set acts)
      in if has NodePerson \<and> (has NodeTeamLead \<or> has NodeExecutor) then Inl ErrInvalidInput
         else if has NodeTeamLead \<noteq> has NodeExecutor \<or> has NodeTeamLead \<and> \<not> has NodeDepartment
         then Inl ErrInvalidInput
         else if has NodeTeamLead \<and>
                 \<not> list_ex (\<lambda>(r, t). (r, NodeDepartment) \<in> set acts \<and> (r, NodeTeamLead) \<in> set acts) acts
         then Inl ErrInvalidInput else Inr ()) = (Inr () :: unit res) \<longleftrightarrow> ?c acts" for acts
    unfolding Let_def if_Inl_eq_Inr by blast
  show ?thesis
    unfolding validate_rule_def if_Inl_eq_Inr case_sum_eq_Inr tail by auto
qed

lemma validate_nodes_acts:
  "validate_nodes ns seen acts = Inr acts' \<Longrightarrow>
     set acts' = set acts \<union>
       {(trim_space (role_code n), node_type n) | n. n \<in> set ns \<and> is_assignment_node (node_type n)} \<and>
     (\<forall>n \<in> set ns. is_assignment_node (node_type n) \<longrightarrow> trim_space (role_code n) \<noteq> [])"
proof (induction ns arbitrary: seen acts)
  case (Cons n ns)
  show ?case
  proof (cases "is_assignment_node (node_type n)")
    case True
    with Cons.prems have "trim_space (role_code n) \<noteq> []"
      "validate_nodes ns (node_id n # seen) ((trim_space (role_code n), node_type n) # acts) = Inr acts'"
      by (auto simp: Let_def split: if_splits)
    with Cons.IH [OF this(2)] True show ?thesis by auto
  next
    case False
    with Cons.prems have "validate_nodes ns (node_id n # seen) acts = Inr acts'"
      by (auto split: if_splits)
    with Cons.IH [OF this] False show ?thesis by auto
  qed
qed simp

section \<open>Reading the snapshot of an instance\<close>

text \<open>
  \<open>approvalRoleForNode\<close>: without a snapshot the two built-in nodes, otherwise the node
  at that position, which has to be an approval node with a role.
\<close>

definition approval_role_for_node :: "nodes_json \<Rightarrow> nat \<Rightarrow> string option" where
  "approval_role_for_node nj node =
     (if node = 0 then None
      else case nj of
        NodesEmpty \<Rightarrow> (if node = 1 then Some ''sales_director''
                       else if node = 2 then Some ''technical_director'' else None)
      | NodesInvalid \<Rightarrow> None
      | Nodes ns \<Rightarrow>
          if length ns < node then None
          else (let n = ns ! (node - 1); role = trim_space (role_code n)
                in if node_type n = NodeApproval \<and> role \<noteq> [] then Some role else None))"

definition approval_node_role_allowed :: "actor \<Rightarrow> nat \<Rightarrow> bool" where
  "approval_node_role_allowed a node \<longleftrightarrow>
     (if has_role a ''crm_super_admin'' then 1 \<le> node \<and> node \<le> 10
      else node = 1 \<and> has_role a ''sales_director'' \<or>
           node = 2 \<and> (has_role a ''technical_director'' \<or> has_role a ''team_lead''))"

text \<open>\<open>nextApprovalNode\<close>; the node number is a \<open>uint8\<close>.\<close>

definition next_approval_node :: "nodes_json \<Rightarrow> nat \<Rightarrow> nat option" where
  "next_approval_node nj node =
     (let builtin = (if node = 1 then Some 2 else None)
      in case nj of
           NodesEmpty \<Rightarrow> builtin
         | NodesInvalid \<Rightarrow> builtin
         | Nodes ns \<Rightarrow>
             if ns = [] then builtin
             else (case List.find (\<lambda>i. node_type (ns ! i) = NodeApproval) [node..<length ns] of
                     Some i \<Rightarrow> Some (Suc i mod 256)
                   | None \<Rightarrow> None))"

definition approval_node_allowed_for_instance :: "actor \<Rightarrow> nat \<Rightarrow> nodes_json \<Rightarrow> bool" where
  "approval_node_allowed_for_instance a node nj \<longleftrightarrow>
     (if has_role a ''crm_super_admin'' then True
      else case nj of
        NodesEmpty \<Rightarrow> approval_node_role_allowed a node
      | NodesInvalid \<Rightarrow> False
      | Nodes ns \<Rightarrow>
          node \<noteq> 0 \<and> node \<le> length ns \<and> node_type (ns ! (node - 1)) = NodeApproval \<and>
          has_role a (trim_space (role_code (ns ! (node - 1)))))"

definition assignment_action_allowed :: "actor \<Rightarrow> nodes_json \<Rightarrow> node_type \<Rightarrow> bool" where
  "assignment_action_allowed a nj action \<longleftrightarrow>
     (if has_role a ''crm_super_admin'' then True
      else case nj of
        NodesEmpty \<Rightarrow>
          action = NodeDepartment \<and> has_role a ''technical_director'' \<or>
          action = NodePerson \<and> (has_role a ''technical_director'' \<or> has_role a ''team_lead'')
      | NodesInvalid \<Rightarrow> False
      | Nodes ns \<Rightarrow> list_ex (\<lambda>r. role_has_action ns r action) (role_keys a))"

text \<open>One and the same role has to carry all the actions.\<close>

definition assignment_actions_allowed :: "actor \<Rightarrow> nodes_json \<Rightarrow> node_type list \<Rightarrow> bool" where
  "assignment_actions_allowed a nj actions \<longleftrightarrow>
     (if actions = [] then False
      else if has_role a ''crm_super_admin'' then True
      else case nj of
        NodesEmpty \<Rightarrow>
          list_all (\<lambda>action.
            if action = NodeDepartment then has_role a ''technical_director''
            else if action = NodePerson then has_role a ''technical_director'' \<or> has_role a ''team_lead''
            else False) actions
      | NodesInvalid \<Rightarrow> False
      | Nodes ns \<Rightarrow> list_ex (\<lambda>r. list_all (role_has_action ns r) actions) (role_keys a))"

definition instance_two_level :: "nodes_json \<Rightarrow> bool" where
  "instance_two_level nj = (case nj of Nodes ns \<Rightarrow> uses_two_level ns | _ \<Rightarrow> False)"

lemma find_append: "List.find p (xs @ ys) = (case List.find p xs of Some x \<Rightarrow> Some x | None \<Rightarrow> List.find p ys)"
  by (induction xs) simp_all

lemma find_upt_None: "List.find p [m..<n] = None \<longleftrightarrow> (\<forall>k. m \<le> k \<and> k < n \<longrightarrow> \<not> p k)"
  by (auto simp: find_None_iff)

lemma find_upt_Some:
  "List.find p [m..<n] = Some i \<longleftrightarrow> m \<le> i \<and> i < n \<and> p i \<and> (\<forall>k. m \<le> k \<and> k < i \<longrightarrow> \<not> p k)"
  (is "?found = ?first")
proof
  assume ?found
  then show ?first by (auto simp: find_Some_iff) (metis add_diff_inverse_nat leD less_diff_conv2 nat_add_left_cancel_less)
next
  assume ?first
  then have "i - m < length [m..<n]" "p ([m..<n] ! (i - m))" "i = [m..<n] ! (i - m)"
    "\<forall>j < i - m. \<not> p ([m..<n] ! j)" by auto
  then show ?found unfolding find_Some_iff by blast
qed

section \<open>The rule store\<close>

text \<open>
  \<open>ApprovalRuleStore\<close>: the two JSON columns are the values they encode. A fresh rule
  key is an argument, as are the clock readings.
\<close>

record approval_rule_row = base_model +
  rr_key :: string
  rr_name :: string
  rr_priority :: int
  rr_enabled :: bool
  rr_expression :: approval_expression
  rr_nodes :: "approval_node list"

definition rule_of_row :: "approval_rule_row \<Rightarrow> approval_rule" where
  "rule_of_row w =
     \<lparr>rule_key = rr_key w, rule_tenant = tenant_id w, rule_name = rr_name w, priority = rr_priority w,
      rule_enabled = rr_enabled w, expression = rr_expression w, nodes = rr_nodes w, rule_ver = version w\<rparr>"

definition list_rules :: "string \<Rightarrow> bool \<Rightarrow> approval_rule_row table \<Rightarrow> approval_rule list" where
  "list_rules tenant enabled_only t =
     map rule_of_row (sort_key (\<lambda>w. - rr_priority w)
       (select_rows (\<lambda>w. tenant_id w = tenant \<and> (enabled_only \<longrightarrow> rr_enabled w) \<and> deleted_at w = None) t))"

definition create_rule ::
  "instant \<Rightarrow> string \<Rightarrow> actor \<Rightarrow> approval_rule \<Rightarrow> approval_rule_row table \<Rightarrow> (approval_rule_row table \<times> approval_rule) res" where
  "create_rule now fresh a rule t =
     (if \<not> can a ''presale.approval_rule.manage'' then Inl ErrForbidden
      else case validate_rule rule of
        Inl e \<Rightarrow> Inl e
      | Inr _ \<Rightarrow>
          Inr (snd (insert_row \<lparr>row_id = 0, tenant_id = actor_tenant a, created_by = user_id a,
                 updated_by = user_id a, created_at = now, updated_at = now, deleted_at = None, version = 1,
                 rr_key = fresh, rr_name = trim_space (rule_name rule), rr_priority = priority rule,
                 rr_enabled = rule_enabled rule, rr_expression = expression rule, rr_nodes = nodes rule\<rparr> t),
               rule\<lparr>rule_key := fresh, rule_tenant := actor_tenant a, rule_ver := 1\<rparr>))"

definition rule_row_at :: "string \<Rightarrow> string \<Rightarrow> nat \<Rightarrow> approval_rule_row \<Rightarrow> bool" where
  "rule_row_at tenant key v w \<longleftrightarrow>
     tenant_id w = tenant \<and> rr_key w = key \<and> version w = v \<and> deleted_at w = None"

definition update_rule ::
  "instant \<Rightarrow> actor \<Rightarrow> approval_rule \<Rightarrow> approval_rule_row table \<Rightarrow> (approval_rule_row table \<times> approval_rule) res" where
  "update_rule now a rule t =
     (if \<not> can a ''presale.approval_rule.manage'' \<or> rule_key rule = [] \<or> rule_ver rule = 0 then Inl ErrForbidden
      else case validate_rule rule of
        Inl e \<Rightarrow> Inl e
      | Inr _ \<Rightarrow>
          (let at = rule_row_at (actor_tenant a) (rule_key rule) (rule_ver rule)
           in if length (select_rows at t) \<noteq> 1 then Inl ErrVersionConflict
              else Inr (update_rows at (\<lambda>w. w\<lparr>rr_name := trim_space (rule_name rule), rr_priority := priority rule,
                     rr_enabled := rule_enabled rule, rr_expression := expression rule, rr_nodes := nodes rule,
                     version := rule_ver rule + 1, updated_by := user_id a, updated_at := now\<rparr>) t,
                   rule\<lparr>rule_tenant := actor_tenant a, rule_ver := rule_ver rule + 1\<rparr>)))"

definition delete_rule ::
  "instant \<Rightarrow> actor \<Rightarrow> string \<Rightarrow> nat \<Rightarrow> approval_rule_row table \<Rightarrow> approval_rule_row table res" where
  "delete_rule now a key v t =
     (if \<not> can a ''presale.approval_rule.manage'' \<or> trim_space key = [] \<or> v = 0 then Inl ErrForbidden
      else (let at = rule_row_at (actor_tenant a) key v
            in if length (select_rows at t) \<noteq> 1 then Inl ErrVersionConflict
               else Inr (update_rows at (\<lambda>w. w\<lparr>deleted_at := Some now\<rparr>) t)))"

section \<open>Properties\<close>

text \<open>
  The rule \<open>MatchHighestApprovalRule\<close> returns is one of the given rules, enabled and
  matching, and no enabled matching rule has a higher priority; every enabled rule of a
  higher priority was tried and did not match.
\<close>

theorem match_highest_sound:
  assumes "match_highest rules f = Inr (Some r)"
  shows "r \<in> set rules \<and> rule_enabled r \<and> expression_match (expression r) f = Inr True \<and>
         (\<forall>r' \<in> set rules. rule_enabled r' \<and> priority r < priority r' \<longrightarrow>
            expression_match (expression r') f = Inr False)"
proof -
  let ?rs = "sort_key (\<lambda>r. - priority r) rules"
  from first_match_Some [OF assms [unfolded match_highest_def]] obtain before after where
    split: "?rs = before @ r # after" and r: "rule_enabled r" "expression_match (expression r) f = Inr True"
    and tried: "\<forall>b \<in> set before. rule_enabled b \<longrightarrow> expression_match (expression b) f = Inr False" by blast
  have "r \<in> set rules" using split by (metis in_set_conv_decomp set_sort)
  moreover have "r' \<in> set before" if "r' \<in> set rules" "priority r < priority r'" for r'
    using sorted_before [OF split that(1)] that(2) by simp
  ultimately show ?thesis using r tried by blast
qed

definition sample_rule :: "string \<Rightarrow> int \<Rightarrow> string \<Rightarrow> approval_rule" where
  "sample_rule key p urgency_value =
     \<lparr>rule_key = key, rule_tenant = ''t'', rule_name = key, priority = p, rule_enabled = True,
      expression = \<lparr>logical = [], conditions =
        [\<lparr>cond_field = ''urgency'', cond_operator = ''eq'', cond_value = JString urgency_value\<rparr>]\<rparr>,
      nodes = [\<lparr>node_id = ''n1'', node_name = ''first'', node_type = NodeApproval, role_code = ''sales_director'',
                countersign = []\<rparr>], rule_ver = 1\<rparr>"

lemma match_highest_sound_witness:
  "let rules = [sample_rule ''a'' 1 ''NORMAL'', sample_rule ''b'' 5 ''URGENT'', sample_rule ''c'' 3 ''NORMAL''];
       f = \<lparr>fact_urgency = ''NORMAL'', fact_venue = ''REMOTE'', fact_hours = 0, fact_opportunity = 7\<rparr>
   in match_highest rules f = Inr (Some (sample_rule ''c'' 3 ''NORMAL'')) \<and>
      expression_match (expression (sample_rule ''b'' 5 ''URGENT'')) f = Inr False"
proof -
  let ?rules = "[sample_rule ''a'' 1 ''NORMAL'', sample_rule ''b'' 5 ''URGENT'', sample_rule ''c'' 3 ''NORMAL'']"
  let ?f = "\<lparr>fact_urgency = ''NORMAL'', fact_venue = ''REMOTE'', fact_hours = 0, fact_opportunity = 7\<rparr>"
  have m: "match_highest ?rules ?f = Inr (Some (sample_rule ''c'' 3 ''NORMAL''))"
    by (simp add: match_highest_def sample_rule_def expression_match_def condition_match_def text_eval)
  have "expression_match (expression (sample_rule ''b'' 5 ''URGENT'')) ?f = Inr False"
    using match_highest_sound [OF m] by (simp add: sample_rule_def)
  with m show ?thesis by simp
qed

lemma condition_match_error:
  "condition_match c f = Inl e \<longleftrightarrow>
     e = ErrInvalidApprovalRule \<and>
     (cond_field c \<notin> {''urgency'', ''venue''} \<or> cond_value c = JOther \<or>
      to_lower (cond_operator c) \<notin> {''eq'', ''ne'', ''in''})"
  by (cases "cond_value c") (auto simp: condition_match_def Let_def)

lemma condition_match_error_facts: "(\<exists>e. condition_match c f = Inl e) \<longleftrightarrow> (\<exists>e. condition_match c f' = Inl e)"
  by (simp add: condition_match_error)

lemma match_conditions_error:
  "(\<exists>e. match_conditions b cs f m = Inl e) \<longleftrightarrow> (\<exists>c \<in> set cs. \<exists>e. condition_match c f = Inl e)"
proof (induction cs arbitrary: m)
  case (Cons c cs)
  show ?case by (cases "condition_match c f") (auto simp: Cons.IH)
qed simp

lemma expression_match_error_facts:
  "(\<exists>e. expression_match x f = Inl e) \<longleftrightarrow> (\<exists>e. expression_match x f' = Inl e)"
proof -
  have "(\<exists>e. match_conditions b cs f m = Inl e) \<longleftrightarrow> (\<exists>e. match_conditions b cs f' m = Inl e)" for b cs m
    by (simp add: match_conditions_error condition_match_error)
  then show ?thesis by (auto simp: expression_match_def Let_def)
qed

lemma validate_rule_expression: "validate_rule r = Inr () \<Longrightarrow> \<exists>b. expression_match (expression r) f = Inr b"
proof -
  assume "validate_rule r = Inr ()"
  then have "\<exists>b. expression_match (expression r) empty_facts = Inr b" unfolding validate_rule_iff by blast
  then show ?thesis using expression_match_error_facts [of "expression r" f empty_facts]
    by (cases "expression_match (expression r) f") auto
qed

lemma well_formed_rules_match_total:
  assumes "\<forall>r \<in> set rules. \<exists>b. expression_match (expression r) f = Inr b"
  shows "\<exists>m. match_highest rules f = Inr m"
proof -
  have "\<exists>m. first_match xs f = Inr m" if "\<forall>r \<in> set xs. \<exists>b. expression_match (expression r) f = Inr b" for xs
    using that
  proof (induction xs)
    case (Cons x xs)
    then obtain b m where "expression_match (expression x) f = Inr b" "first_match xs f = Inr m" by auto
    then show ?case by (cases b) simp_all
  qed simp
  with assms show ?thesis by (simp add: match_highest_def)
qed

text \<open>The operations of the rule store, in any order and by anyone.\<close>

inductive rule_store_step :: "approval_rule_row table \<Rightarrow> approval_rule_row table \<Rightarrow> bool" where
  created: "create_rule now fresh a rule t = Inr (t', rule') \<Longrightarrow> rule_store_step t t'"
| updated: "update_rule now a rule t = Inr (t', rule') \<Longrightarrow> rule_store_step t t'"
| deleted: "delete_rule now a key v t = Inr t' \<Longrightarrow> rule_store_step t t'"

definition stored_rules_ok :: "approval_rule_row table \<Rightarrow> bool" where
  "stored_rules_ok t \<longleftrightarrow>
     (\<forall>w \<in> set (rows t). validate_rule ((rule_of_row w)\<lparr>rule_name := ''x''\<rparr>) = Inr ())"

lemma validate_rule_body:
  "validate_rule rule = Inr () \<Longrightarrow> expression rule' = expression rule \<Longrightarrow> nodes rule' = nodes rule \<Longrightarrow>
     rule_name rule' = ''x'' \<Longrightarrow> validate_rule rule' = Inr ()"
  unfolding validate_rule_iff by (simp add: text_eval)

lemma rule_store_step_ok: "rule_store_step t t' \<Longrightarrow> stored_rules_ok t \<Longrightarrow> stored_rules_ok t'"
proof (induction rule: rule_store_step.induct)
  case (created now fresh a rule t t' rule')
  then show ?case
    by (auto simp: create_rule_def stored_rules_ok_def rule_of_row_def insert_row_def)
       (erule validate_rule_body; simp)
next
  case (updated now a rule t t' rule')
  then show ?case
    by (auto simp: update_rule_def stored_rules_ok_def rule_of_row_def set_rows_update Let_def)
       (erule validate_rule_body; simp)
next
  case (deleted now a key v t t')
  then show ?case
    by (auto simp: delete_rule_def stored_rules_ok_def rule_of_row_def set_rows_update Let_def)
qed

text \<open>
  C31. Rule matching can not fail on a store reached from the empty one by creating, editing
  and deleting rules: whether an expression is malformed does not depend on the facts, so
  the trial evaluation of \<open>validateApprovalRule\<close> on empty facts is enough, and no stored
  rule can block the creation of requests.
\<close>

theorem stored_rules_match_total:
  assumes "rule_store_step\<^sup>*\<^sup>* empty_table t"
  shows "\<exists>m. match_highest (list_rules tenant enabled_only t) f = Inr m"
proof (rule well_formed_rules_match_total)
  have "stored_rules_ok t"
    using assms by (induction rule: rtranclp_induct) (auto simp: stored_rules_ok_def empty_table_def
        dest: rule_store_step_ok [unfolded stored_rules_ok_def])
  then show "\<forall>r \<in> set (list_rules tenant enabled_only t). \<exists>b. expression_match (expression r) f = Inr b"
    using validate_rule_expression [of "_\<lparr>rule_name := ''x''\<rparr>" f]
    by (auto simp: stored_rules_ok_def list_rules_def)
qed

definition rule_admin :: actor where
  "rule_admin = \<lparr>actor_tenant = ''t'', user_id = ''u'', user_name = ''U'', person_id = ''u'', roles = [],
     permissions = [(''presale.approval_rule.manage'', True)], trace_id = []\<rparr>"

lemma sample_rule_created:
  "create_rule 0 ''k'' rule_admin (sample_rule ''a'' 1 ''URGENT'') empty_table =
     Inr (snd (insert_row \<lparr>row_id = 0, tenant_id = ''t'', created_by = ''u'', updated_by = ''u'', created_at = 0,
            updated_at = 0, deleted_at = None, version = 1, rr_key = ''k'', rr_name = ''a'', rr_priority = 1,
            rr_enabled = True, rr_expression = expression (sample_rule ''a'' 1 ''URGENT''),
            rr_nodes = nodes (sample_rule ''a'' 1 ''URGENT'')\<rparr> empty_table),
          (sample_rule ''k'' 1 ''URGENT'')\<lparr>rule_name := ''a''\<rparr>)"
  by (simp add: create_rule_def can_def rule_admin_def validate_rule_def sample_rule_def expression_match_def
      condition_match_def empty_facts_def is_assignment_node_def text_eval)

lemma stored_rules_match_total_witness:
  "\<exists>t. rule_store_step\<^sup>*\<^sup>* empty_table t \<and> rows t \<noteq> [] \<and> (\<exists>m. match_highest (list_rules ''t'' True t) empty_facts = Inr m)"
proof -
  have step: "rule_store_step\<^sup>*\<^sup>* empty_table (snd (insert_row \<lparr>row_id = 0, tenant_id = ''t'', created_by = ''u'',
      updated_by = ''u'', created_at = 0, updated_at = 0, deleted_at = None, version = 1, rr_key = ''k'',
      rr_name = ''a'', rr_priority = 1, rr_enabled = True,
      rr_expression = expression (sample_rule ''a'' 1 ''URGENT''),
      rr_nodes = nodes (sample_rule ''a'' 1 ''URGENT'')\<rparr> empty_table))"
    by (intro r_into_rtranclp rule_store_step.created [OF sample_rule_created])
  with stored_rules_match_total [OF step, of "''t''" True empty_facts] show ?thesis by fastforce
qed

text \<open>
  \<open>nextApprovalNode\<close> on a snapshot of at most 255 nodes: the next node is the first
  approval node after the current one, and there is none exactly when no approval node
  follows. So the node number strictly increases until the approval ends.
\<close>

theorem next_approval_node_first:
  assumes "ns \<noteq> []" "length ns \<le> 255"
  shows "next_approval_node (Nodes ns) node = Some m \<longleftrightarrow>
     node < m \<and> m \<le> length ns \<and> node_type (ns ! (m - 1)) = NodeApproval \<and>
     (\<forall>k. node < k \<and> k < m \<longrightarrow> node_type (ns ! (k - 1)) \<noteq> NodeApproval)"
proof -
  have upper: "Suc i mod 256 = Suc i" if "i < length ns" for i using that assms(2) by simp
  have shift: "(\<forall>k. node < k \<and> k < Suc i \<longrightarrow> P (k - 1)) \<longleftrightarrow> (\<forall>k. node \<le> k \<and> k < i \<longrightarrow> P k)" for i P
  proof
    assume *: "\<forall>k. node < k \<and> k < Suc i \<longrightarrow> P (k - 1)"
    show "\<forall>k. node \<le> k \<and> k < i \<longrightarrow> P k"
    proof (intro allI impI)
      fix k
      assume "node \<le> k \<and> k < i"
      then show "P k" using * [rule_format, of "Suc k"] by simp
    qed
  next
    assume *: "\<forall>k. node \<le> k \<and> k < i \<longrightarrow> P k"
    show "\<forall>k. node < k \<and> k < Suc i \<longrightarrow> P (k - 1)"
    proof (intro allI impI)
      fix k
      assume "node < k \<and> k < Suc i"
      then have "node \<le> k - 1 \<and> k - 1 < i" by linarith
      with * show "P (k - 1)" by blast
    qed
  qed
  have "next_approval_node (Nodes ns) node = Some m \<longleftrightarrow>
     (\<exists>i. List.find (\<lambda>i. node_type (ns ! i) = NodeApproval) [node..<length ns] = Some i \<and> m = Suc i)"
  proof (cases "List.find (\<lambda>i. node_type (ns ! i) = NodeApproval) [node..<length ns]")
    case None
    then show ?thesis using assms(1) by (simp add: next_approval_node_def)
  next
    case (Some j)
    then have "Suc j mod 256 = Suc j" using upper by (simp add: find_upt_Some)
    with Some show ?thesis using assms(1) by (auto simp: next_approval_node_def)
  qed
  also have "\<dots> \<longleftrightarrow> (\<exists>i. m = Suc i \<and> node \<le> i \<and> i < length ns \<and> node_type (ns ! i) = NodeApproval \<and>
     (\<forall>k. node \<le> k \<and> k < i \<longrightarrow> node_type (ns ! k) \<noteq> NodeApproval))"
    unfolding find_upt_Some by blast
  also have "\<dots> \<longleftrightarrow> node < m \<and> m \<le> length ns \<and> node_type (ns ! (m - 1)) = NodeApproval \<and>
     (\<forall>k. node < k \<and> k < m \<longrightarrow> node_type (ns ! (k - 1)) \<noteq> NodeApproval)"
  proof (cases m)
    case (Suc i)
    show ?thesis unfolding Suc shift [of i "\<lambda>k. node_type (ns ! k) \<noteq> NodeApproval"] by auto
  qed simp
  finally show ?thesis .
qed

definition three_node_rule :: "approval_node list" where
  "three_node_rule =
     [\<lparr>node_id = ''1'', node_name = ''a'', node_type = NodeApproval, role_code = ''sales_director'', countersign = []\<rparr>,
      \<lparr>node_id = ''2'', node_name = ''b'', node_type = NodeDepartment, role_code = ''technical_director'', countersign = []\<rparr>,
      \<lparr>node_id = ''3'', node_name = ''c'', node_type = NodeApproval, role_code = ''team_lead'', countersign = []\<rparr>]"

lemma next_approval_node_first_witness:
  "next_approval_node (Nodes three_node_rule) 1 = Some 3 \<and> next_approval_node (Nodes three_node_rule) 3 \<noteq> Some 4"
proof -
  have size: "three_node_rule \<noteq> []" "length three_node_rule \<le> 255" by (simp_all add: three_node_rule_def)
  have between: "1 < k \<and> k < (3::nat) \<longleftrightarrow> k = 2" for k by auto
  show ?thesis
    unfolding next_approval_node_first [OF size] between by (simp add: three_node_rule_def numeral_3_eq_3)
qed

text \<open>
  C32. A rule that passes validation and uses the two-level assignment names a role whose
  holders may perform level one, which needs the department and the team lead action of
  one and the same role: no accepted rule leaves its requests without anyone who may
  assign them.
\<close>

theorem two_level_rule_assignable:
  assumes "validate_rule rule = Inr ()" and "uses_two_level (nodes rule)"
  shows "\<exists>role. trim_space role \<noteq> [] \<and>
     (\<forall>a. role \<in> set (role_keys a) \<longrightarrow>
        assignment_actions_allowed a (Nodes (nodes rule)) [NodeDepartment, NodeTeamLead])"
proof -
  from assms(1) obtain acts where acts: "validate_nodes (nodes rule) [] [] = Inr acts"
    and same: "NodeTeamLead \<in> snd ` set acts \<longleftrightarrow> NodeExecutor \<in> snd ` set acts"
    and one: "NodeTeamLead \<in> snd ` set acts \<longrightarrow>
      (\<exists>(r, t) \<in> set acts. (r, NodeDepartment) \<in> set acts \<and> (r, NodeTeamLead) \<in> set acts)"
    unfolding validate_rule_iff list_ex_iff by (elim conjE exE) (rule that, auto)
  note char = validate_nodes_acts [OF acts]
  from assms(2) obtain n where n: "n \<in> set (nodes rule)" "node_type n = NodeTeamLead \<or> node_type n = NodeExecutor"
    unfolding uses_two_level_def list_ex_iff by blast
  then have "is_assignment_node (node_type n)" by (auto simp: is_assignment_node_def)
  with char n(1) have "(trim_space (role_code n), node_type n) \<in> set acts" by blast
  with n(2) have "NodeTeamLead \<in> snd ` set acts \<or> NodeExecutor \<in> snd ` set acts" by force
  with same one obtain r where r: "(r, NodeDepartment) \<in> set acts" "(r, NodeTeamLead) \<in> set acts" by auto
  have act: "role_has_action (nodes rule) r t" "trim_space r \<noteq> []" if "(r, t) \<in> set acts" for t
    using that char by (auto simp: role_has_action_iff)
  have "assignment_actions_allowed a (Nodes (nodes rule)) [NodeDepartment, NodeTeamLead]"
    if "r \<in> set (role_keys a)" for a
    using that act(1) r by (auto simp: assignment_actions_allowed_def list_ex_iff)
  with act(2) [OF r(1)] show ?thesis by blast
qed

definition two_level_rule :: approval_rule where
  "two_level_rule = (sample_rule ''two'' 1 ''URGENT'')\<lparr>nodes :=
     [\<lparr>node_id = ''1'', node_name = ''a'', node_type = NodeApproval, role_code = ''sales_director'', countersign = []\<rparr>,
      \<lparr>node_id = ''2'', node_name = ''b'', node_type = NodeDepartment, role_code = ''technical_director'', countersign = []\<rparr>,
      \<lparr>node_id = ''3'', node_name = ''c'', node_type = NodeTeamLead, role_code = ''technical_director'', countersign = []\<rparr>,
      \<lparr>node_id = ''4'', node_name = ''d'', node_type = NodeExecutor, role_code = ''team_lead'', countersign = []\<rparr>]\<rparr>"

lemma two_level_rule_nodes:
  "validate_nodes (nodes two_level_rule) [] [] =
     Inr [(''team_lead'', NodeExecutor), (''technical_director'', NodeTeamLead), (''technical_director'', NodeDepartment)]"
  by (simp add: two_level_rule_def is_assignment_node_def text_eval Let_def)

lemma two_level_rule_valid: "validate_rule two_level_rule = Inr ()" "uses_two_level (nodes two_level_rule)"
proof -
  have "expression_match (expression two_level_rule) empty_facts = Inr False"
    by (simp add: two_level_rule_def sample_rule_def expression_match_def condition_match_def empty_facts_def text_eval)
  then show "validate_rule two_level_rule = Inr ()"
    unfolding validate_rule_iff two_level_rule_nodes
    by (simp add: two_level_rule_def sample_rule_def text_eval) blast
  show "uses_two_level (nodes two_level_rule)" by (simp add: two_level_rule_def uses_two_level_def)
qed

lemma two_level_rule_assignable_witness:
  "validate_rule two_level_rule = Inr () \<and> uses_two_level (nodes two_level_rule) \<and>
   (\<exists>role. trim_space role \<noteq> [] \<and>
     (\<forall>a. role \<in> set (role_keys a) \<longrightarrow>
        assignment_actions_allowed a (Nodes (nodes two_level_rule)) [NodeDepartment, NodeTeamLead]))"
  using two_level_rule_assignable [OF two_level_rule_valid] two_level_rule_valid by blast

end
