(* ===== verification/Decimals.thy ===== *)
theory Decimals
  imports GoText
begin

text \<open>
  Decimal numbers as the worklogs use them (\<open>service_mutation.go\<close>): the accepted
  spellings (\<open>decimalPattern\<close>), their exact value as a fraction (\<open>big.Rat\<close>), and the
  text with two digits after the point (\<open>FloatString(2)\<close>). Reading back a written value
  gives the value, so the written text is a canonical form.
\<close>

type_synonym fraction = "nat \<times> nat" \<comment> \<open>numerator and denominator of a \<open>big.Rat\<close> that is not negative\<close>

section \<open>Spelling\<close>

text \<open>\<open>^(?:0|[1-9]\d{0,7})(?:\.\d{1,2})?$\<close>\<close>

definition whole_part :: "string \<Rightarrow> bool" where
  "whole_part s \<longleftrightarrow> s = ''0'' \<or> s \<noteq> [] \<and> list_all is_digit s \<and> hd s \<noteq> CHR ''0'' \<and> length s \<le> 8"

definition decimal_places :: "string \<Rightarrow> bool" where
  "decimal_places s \<longleftrightarrow> list_all is_digit s \<and> 1 \<le> length s \<and> length s \<le> 2"

definition is_decimal :: "string \<Rightarrow> bool" where
  "is_decimal s =
     (case cut CHR ''.'' s of
        None \<Rightarrow> whole_part s
      | Some (w, f) \<Rightarrow> whole_part w \<and> decimal_places f)"

text \<open>
  \<open>Rat.SetString\<close> on a decimal; its other arguments (the exponents and fractions it also
  reads) do not occur.
\<close>

definition decimal_value :: "string \<Rightarrow> fraction" where
  "decimal_value s =
     (case cut CHR ''.'' s of
        None \<Rightarrow> (digits_value s, 1)
      | Some (w, f) \<Rightarrow> (digits_value w * 10 ^ length f + digits_value f, 10 ^ length f))"

definition times_fraction :: "fraction \<Rightarrow> fraction \<Rightarrow> fraction" where
  "times_fraction x y = (fst x * fst y, snd x * snd y)"

text \<open>\<open>FloatString(2)\<close>: rounded to hundredths, halves up.\<close>

definition hundredths :: "fraction \<Rightarrow> nat" where
  "hundredths x = (200 * fst x + snd x) div (2 * snd x)"

definition float_string2 :: "fraction \<Rightarrow> string" where
  "float_string2 x = show_nat (hundredths x div 100) @ ''.'' @ pad_nat 2 (hundredths x mod 100)"

definition normalize_decimal :: "string \<Rightarrow> string" where
  "normalize_decimal v = float_string2 (decimal_value v)"

section \<open>Round trip\<close>

definition same_fraction :: "fraction \<Rightarrow> fraction \<Rightarrow> bool" where
  "same_fraction x y \<longleftrightarrow> fst x * snd y = fst y * snd x"

lemma pad_nat_2: "n < 100 \<Longrightarrow> length (pad_nat 2 n) = 2 \<and> list_all is_digit (pad_nat 2 n)"
proof -
  assume "n < 100"
  then have "n div 10 < 10" by auto
  then have "length (show_nat n) \<le> 2"
    by (subst show_nat.simps, subst show_nat.simps) simp
  moreover have "list_all is_digit (show_nat n)" by (rule show_nat_digits)
  ultimately show ?thesis by (auto simp: pad_nat_def list_all_iff is_digit_def byte_of_def)
qed

lemma no_point: "list_all is_digit s \<Longrightarrow> cut CHR ''.'' s = None"
  by (induction s) (auto simp: is_digit_def byte_of_def)

lemma cut_point: "list_all is_digit s \<Longrightarrow> cut CHR ''.'' (s @ CHR ''.'' # f) = Some (s, f)"
  by (induction s) (auto simp: is_digit_def byte_of_def)

lemma cut_float_string:
  "cut CHR ''.'' (float_string2 x) = Some (show_nat (hundredths x div 100), pad_nat 2 (hundredths x mod 100))"
  unfolding float_string2_def using cut_point [OF show_nat_digits] by simp

lemma float_string_value [simp]: "decimal_value (float_string2 x) = (hundredths x, 100)"
proof -
  have "length (pad_nat 2 (hundredths x mod 100)) = 2" using pad_nat_2 [of "hundredths x mod 100"] by simp
  then show ?thesis by (simp add: decimal_value_def cut_float_string)
qed

lemma float_string_inject: "float_string2 x = float_string2 y \<longleftrightarrow> hundredths x = hundredths y"
proof
  assume "float_string2 x = float_string2 y"
  then have "decimal_value (float_string2 x) = decimal_value (float_string2 y)" by (rule arg_cong)
  then show "hundredths x = hundredths y" by simp
qed (simp add: float_string2_def)

lemma hundredths_exact: "0 < d \<Longrightarrow> d dvd 100 \<Longrightarrow> hundredths (n, d) * d = n * 100"
proof -
  assume d: "0 < d" "d dvd 100"
  then obtain k where k: "100 = d * k" by (auto elim: dvdE)
  have "d * (n * k) = 100 * n" unfolding k by (simp add: ac_simps)
  then have e: "2 * d * (n * k) = 200 * n" "n * k * d = n * 100" by (simp_all only: mult.assoc) (simp_all add: ac_simps)
  have "(200 * n + d) div (2 * d) = n * k"
  proof (rule div_nat_eqI)
    show "2 * d * (n * k) \<le> 200 * n + d" unfolding e(1) by simp
    show "200 * n + d < 2 * d * Suc (n * k)" unfolding mult_Suc_right e using d by simp
  qed
  then show ?thesis using e(2) by (simp only: hundredths_def fst_conv snd_conv)
qed

lemma decimal_denominator: "is_decimal v \<Longrightarrow> 0 < snd (decimal_value v) \<and> snd (decimal_value v) dvd 100"
proof -
  have "10 ^ k dvd (100 :: nat)" if "1 \<le> k" "k \<le> 2" for k
  proof -
    from that have "k = 1 \<or> k = 2" by linarith
    then show ?thesis by auto
  qed
  then show "is_decimal v \<Longrightarrow> ?thesis"
    by (auto simp: is_decimal_def decimal_value_def decimal_places_def split: option.splits)
qed

text \<open>
  Writing a decimal with two places loses nothing: for every text the pattern accepts,
  the normalised text reads as the same number, and normalising it again changes nothing; and two accepted texts have the same
  normal form exactly if they are the same number (so \<open>2\<close> and \<open>2.00\<close> share a request digest).
\<close>

theorem normal_decimal_exact:
  assumes "is_decimal v"
  shows "same_fraction (decimal_value (normalize_decimal v)) (decimal_value v) \<and>
    normalize_decimal (normalize_decimal v) = normalize_decimal v \<and>
    (\<forall>u. is_decimal u \<longrightarrow> (normalize_decimal u = normalize_decimal v \<longleftrightarrow> same_fraction (decimal_value u) (decimal_value v)))"
proof (intro conjI allI impI)
  have exact: "hundredths (decimal_value u) * snd (decimal_value u) = fst (decimal_value u) * 100" if "is_decimal u" for u
    using hundredths_exact [of "snd (decimal_value u)" "fst (decimal_value u)"] decimal_denominator [OF that] by simp
  show "same_fraction (decimal_value (normalize_decimal v)) (decimal_value v)"
    using exact [OF assms] by (simp add: same_fraction_def normalize_decimal_def)
  have "hundredths (n, 100) = n" for n by (simp add: hundredths_def)
  then show "normalize_decimal (normalize_decimal v) = normalize_decimal v"
    by (simp add: normalize_decimal_def float_string2_def [of "(_, 100)"]) (simp add: float_string2_def)
  fix u
  assume u: "is_decimal u"
  let ?x = "decimal_value u" and ?y = "decimal_value v"
  have pos: "0 < snd ?x" "0 < snd ?y" using decimal_denominator u assms by blast+
  have "normalize_decimal u = normalize_decimal v \<longleftrightarrow> hundredths ?x = hundredths ?y"
    by (simp add: normalize_decimal_def float_string_inject)
  also have "\<dots> \<longleftrightarrow> hundredths ?x * snd ?x * snd ?y = hundredths ?y * snd ?y * snd ?x"
    using pos by (simp add: ac_simps)
  also have "\<dots> \<longleftrightarrow> same_fraction ?x ?y"
    unfolding exact [OF u] exact [OF assms] same_fraction_def by (simp add: ac_simps)
  finally show "normalize_decimal u = normalize_decimal v \<longleftrightarrow> same_fraction ?x ?y" .
qed

lemmas decimal_eval = is_decimal_def whole_part_def decimal_places_def decimal_value_def normalize_decimal_def float_string2_def
  hundredths_def digits_value_def is_digit_def byte_of_def show_nat.simps pad_nat_def digit_char_def char_of_def bit_0

lemma normal_decimal_exact_witness:
  "normalize_decimal ''2.5'' = ''2.50'' \<and> same_fraction (decimal_value (normalize_decimal ''2.5'')) (decimal_value ''2.5'')"
proof -
  have "is_decimal ''2.5''" by (simp add: decimal_eval)
  from normal_decimal_exact [OF this] have "same_fraction (decimal_value (normalize_decimal ''2.5'')) (decimal_value ''2.5'')"
    by (rule conjunct1)
  moreover have "normalize_decimal ''2.5'' = ''2.50''" by (simp add: decimal_eval)
  ultimately show ?thesis by (rule conjI [rotated])
qed

end
