(* ===== verification/PresaleRepo.thy ===== *)
theory PresaleRepo
  imports PresaleModel Decimals
begin

text \<open>
  The repository of the presale module (\<open>repository.go\<close>): one operation per method,
  with the \<open>WHERE\<close> clauses, the unique keys of the migrations and the row counts the code
  checks. A lookup whose \<open>ErrNotFound\<close> the caller tests is an option; a unique-key
  violation is \<open>ErrDuplicateKey\<close>. A transaction is a function from the database to an
  error or a new database: on an error the caller keeps the old one. Other failures of the
  database are not modelled. Two interfaces are stated as locales and interpreted here:
  a store with optimistic versions, and a store that refuses a second row with the same key.
\<close>

section \<open>Number sequences\<close>

definition sequence_date :: "instant \<Rightarrow> string" where
  "sequence_date at = date_string at"

definition next_number :: "string \<Rightarrow> instant \<Rightarrow> string \<Rightarrow> presale_db \<Rightarrow> (presale_db \<times> string) res" where
  "next_number tenant at prefix db =
     (let date = sequence_date at;
          hit = (\<lambda>q. tenant_id q = tenant \<and> sequence_type q = prefix \<and> sequence_day q = date)
      in case find_row hit (sequences db) of
           None \<Rightarrow>
             Inr (db\<lparr>sequences := snd (insert_row \<lparr>row_id = 0, tenant_id = tenant, sequence_type = prefix,
                       sequence_day = date, last_value = 1\<rparr> (sequences db))\<rparr>,
                  prefix @ date @ pad_nat 4 1)
         | Some q \<Rightarrow>
             if 9999 \<le> last_value q then Inl ErrDatabase
             else Inr (db\<lparr>sequences := update_rows (\<lambda>x. row_id x = row_id q)
                         (\<lambda>x. x\<lparr>last_value := last_value q + 1\<rparr>) (sequences db)\<rparr>,
                       prefix @ date @ pad_nat 4 (last_value q + 1)))"

definition next_request_no :: "string \<Rightarrow> instant \<Rightarrow> presale_db \<Rightarrow> (presale_db \<times> string) res" where
  "next_request_no tenant at = next_number tenant at ''TS''"

definition next_worklog_no :: "string \<Rightarrow> instant \<Rightarrow> presale_db \<Rightarrow> (presale_db \<times> string) res" where
  "next_worklog_no tenant at = next_number tenant at ''WL''"

section \<open>Requests\<close>

definition is_request :: "string \<Rightarrow> nat \<Rightarrow> presale_request \<Rightarrow> bool" where
  "is_request tenant i r \<longleftrightarrow> tenant_id r = tenant \<and> row_id r = i \<and> deleted_at r = None"

definition find_request :: "string \<Rightarrow> nat \<Rightarrow> presale_db \<Rightarrow> presale_request option" where
  "find_request tenant i db = find_row (is_request tenant i) (requests db)"

definition find_request_by_create_key :: "string \<Rightarrow> string \<Rightarrow> presale_db \<Rightarrow> presale_request option" where
  "find_request_by_create_key tenant key db =
     find_row (\<lambda>r. tenant_id r = tenant \<and> create_key r = key \<and> deleted_at r = None) (requests db)"

text \<open>
  The times of a request are \<open>DATETIME(3)\<close> columns (migration 000005), which the server rounds;
  the row in memory keeps the times it was given.
\<close>

definition stored_request :: "presale_request \<Rightarrow> presale_request" where
  "stored_request r =
     r\<lparr>created_at := datetime3 (created_at r), updated_at := datetime3 (updated_at r),
       expected_start := datetime3 (expected_start r), expected_end := datetime3 (expected_end r)\<rparr>"

definition create_request_row :: "instant \<Rightarrow> presale_request \<Rightarrow> presale_db \<Rightarrow> (presale_db \<times> presale_request) res" where
  "create_request_row now r db =
     (if exists_row (\<lambda>x. tenant_id x = tenant_id r \<and>
            (create_key x = create_key r \<or> request_no x = request_no r)) (requests db)
      then Inl ErrDuplicateKey
      else (let r' = r\<lparr>created_at := now, updated_at := now, row_id := next_id (requests db)\<rparr>
            in Inr (db\<lparr>requests := snd (insert_row (stored_request r') (requests db))\<rparr>, r')))"

lemma stored_request_same [simp]:
  "row_id (stored_request r) = row_id r" "tenant_id (stored_request r) = tenant_id r" "deleted_at (stored_request r) = deleted_at r"
  "version (stored_request r) = version r" "created_by (stored_request r) = created_by r"
  "updated_by (stored_request r) = updated_by r" "request_no (stored_request r) = request_no r"
  "opportunity_id (stored_request r) = opportunity_id r" "applicant_id (stored_request r) = applicant_id r"
  "status (stored_request r) = status r" "current_node (stored_request r) = current_node r"
  "team_lead (stored_request r) = team_lead r" "completed_at (stored_request r) = completed_at r"
  "cancelled_at (stored_request r) = cancelled_at r" "create_key (stored_request r) = create_key r"
  "create_hash (stored_request r) = create_hash r"
  by (simp_all add: stored_request_def)

lemma stored_request_row_id [simp]: "(stored_request r)\<lparr>row_id := i\<rparr> = stored_request (r\<lparr>row_id := i\<rparr>)"
  by (simp add: stored_request_def)

text \<open>
  \<open>UpdateRequestVersioned\<close>: the statement, and the method around it. \<open>f\<close> sets the
  columns of the field map. A version that leaves the range of the column is a database
  error. In memory only the version of the caller's row changes.
\<close>

definition versioned_update ::
  "instant \<times> (presale_request \<Rightarrow> presale_request) \<Rightarrow> string \<times> nat \<Rightarrow> nat \<Rightarrow> presale_db \<Rightarrow> presale_db res" where
  "versioned_update c k v db =
     (let hit = (\<lambda>x. is_request (fst k) (snd k) x \<and> version x = v)
      in if \<not> exists_row hit (requests db) then Inl ErrVersionConflict
         else if 2 ^ 64 \<le> v + 1 then Inl ErrDatabase
         else Inr (db\<lparr>requests := update_rows hit
                (\<lambda>x. (snd c x)\<lparr>version := v + 1, updated_at := fst c\<rparr>) (requests db)\<rparr>))"

definition update_request_versioned ::
  "instant \<Rightarrow> presale_request \<Rightarrow> nat \<Rightarrow> (presale_request \<Rightarrow> presale_request) \<Rightarrow> presale_db
     \<Rightarrow> (presale_db \<times> presale_request) res" where
  "update_request_versioned now r v f db =
     (case versioned_update (datetime3 now, f) (tenant_id r, row_id r) v db of
        Inl e \<Rightarrow> Inl e
      | Inr db' \<Rightarrow> Inr (db', r\<lparr>version := v + 1\<rparr>))"

section \<open>Approval instances and logs\<close>

definition find_instance :: "string \<Rightarrow> nat \<Rightarrow> presale_db \<Rightarrow> approval_instance option" where
  "find_instance tenant req db =
     find_row (\<lambda>i. tenant_id i = tenant \<and> inst_request i = req \<and> deleted_at i = None) (instances db)"

definition create_instance :: "instant \<Rightarrow> approval_instance \<Rightarrow> presale_db \<Rightarrow> (presale_db \<times> approval_instance) res" where
  "create_instance now i db =
     (if exists_row (\<lambda>x. tenant_id x = tenant_id i \<and> inst_request x = inst_request i) (instances db)
      then Inl ErrDuplicateKey
      else (let (i', t) = insert_row (i\<lparr>created_at := now, updated_at := now\<rparr>) (instances db)
            in Inr (db\<lparr>instances := t\<rparr>, i')))"

definition update_instance ::
  "instant \<Rightarrow> approval_instance \<Rightarrow> (approval_instance \<Rightarrow> approval_instance) \<Rightarrow> presale_db \<Rightarrow> presale_db" where
  "update_instance now i f db =
     db\<lparr>instances := update_rows (\<lambda>x. row_id x = row_id i \<and> deleted_at x = None)
                       (\<lambda>x. (f x)\<lparr>updated_at := now\<rparr>) (instances db)\<rparr>"

text \<open>
  \<open>approved_at\<close> is a \<open>DATETIME(3)\<close>, which the server rounds. It and the times of a
  worklog are the stored times the code compares with; the other times are kept as they are.
\<close>

definition create_approval_log :: "approval_log \<Rightarrow> presale_db \<Rightarrow> presale_db res" where
  "create_approval_log l db =
     (if exists_row (\<lambda>x. tenant_id x = tenant_id l \<and> al_task x = al_task l) (approval_logs db)
      then Inl ErrDuplicateKey
      else Inr (db\<lparr>approval_logs := snd (insert_row (l\<lparr>al_approved_at := datetime3 (al_approved_at l)\<rparr>)
             (approval_logs db))\<rparr>))"

definition find_engine_task_log :: "string \<Rightarrow> string \<Rightarrow> presale_db \<Rightarrow> approval_log option" where
  "find_engine_task_log tenant task db =
     find_row (\<lambda>l. tenant_id l = tenant \<and> al_task l = task) (approval_logs db)"

definition list_approval_logs :: "string \<Rightarrow> nat \<Rightarrow> presale_db \<Rightarrow> approval_log list" where
  "list_approval_logs tenant req db =
     sort_key al_approved_at (select_rows (\<lambda>l. tenant_id l = tenant \<and> al_request l = req) (approval_logs db))"

section \<open>Assignments\<close>

text \<open>\<open>assignment_kind\<close> is stored: the empty string has become the column default.\<close>

definition of_request :: "string \<Rightarrow> nat \<Rightarrow> assignment \<Rightarrow> bool" where
  "of_request tenant req a \<longleftrightarrow> tenant_id a = tenant \<and> as_request a = req \<and> deleted_at a = None"

definition current_executor :: "string \<Rightarrow> nat \<Rightarrow> assignment \<Rightarrow> bool" where
  "current_executor tenant req a \<longleftrightarrow> of_request tenant req a \<and> is_current a \<and> kind a = KindExecutor"

definition list_current_assignments :: "string \<Rightarrow> nat \<Rightarrow> presale_db \<Rightarrow> assignment list" where
  "list_current_assignments tenant req db = select_rows (current_executor tenant req) (assignments db)"

definition list_assignments_for_update :: "string \<Rightarrow> nat \<Rightarrow> presale_db \<Rightarrow> assignment list" where
  "list_assignments_for_update tenant req db = select_rows (of_request tenant req) (assignments db)"

definition list_assignments :: "string \<Rightarrow> nat \<Rightarrow> presale_db \<Rightarrow> assignment list" where
  "list_assignments tenant req db =
     sort_key assigned_at (select_rows (of_request tenant req) (assignments db))"

definition create_assignment :: "instant \<Rightarrow> assignment \<Rightarrow> presale_db \<Rightarrow> presale_db \<times> assignment" where
  "create_assignment now a db =
     (let stored = a\<lparr>created_at := now, updated_at := now,
                     kind := (if kind a = KindEmpty then KindExecutor else kind a)\<rparr>;
          (a', t) = insert_row stored (assignments db)
      in (db\<lparr>assignments := t\<rparr>, a'))"

definition end_assignment ::
  "string \<Rightarrow> nat \<Rightarrow> nat \<Rightarrow> string \<Rightarrow> instant \<Rightarrow> presale_db \<Rightarrow> presale_db res" where
  "end_assignment tenant i v by_user at db =
     (let hit = (\<lambda>a. tenant_id a = tenant \<and> row_id a = i \<and> deleted_at a = None \<and> version a = v \<and> is_current a)
      in if \<not> exists_row hit (assignments db) then Inl ErrVersionConflict
         else if 2 ^ 64 \<le> v + 1 then Inl ErrDatabase
         else Inr (db\<lparr>assignments := update_rows hit
                (\<lambda>a. a\<lparr>is_current := False, ended_at := Some at, updated_by := by_user,
                       version := v + 1, updated_at := at\<rparr>) (assignments db)\<rparr>))"

definition create_assignment_event :: "assignment_event \<Rightarrow> presale_db \<Rightarrow> (presale_db \<times> assignment_event) res" where
  "create_assignment_event e db =
     (if exists_row (\<lambda>x. ae_event x = ae_event e) (assignment_events db) then Inl ErrDuplicateKey
      else (let (e', t) = insert_row e (assignment_events db) in Inr (db\<lparr>assignment_events := t\<rparr>, e')))"

section \<open>Progress, status logs and replays\<close>

definition create_progress :: "progress_log \<Rightarrow> presale_db \<Rightarrow> (presale_db \<times> progress_log) res" where
  "create_progress p db =
     (if exists_row (\<lambda>x. tenant_id x = tenant_id p \<and> pl_key x = pl_key p) (progress_logs db)
      then Inl ErrDuplicateKey
      else (let (p', t) = insert_row p (progress_logs db) in Inr (db\<lparr>progress_logs := t\<rparr>, p')))"

definition find_progress_by_key :: "string \<Rightarrow> string \<Rightarrow> presale_db \<Rightarrow> progress_log option" where
  "find_progress_by_key tenant key db =
     find_row (\<lambda>p. tenant_id p = tenant \<and> pl_key p = key) (progress_logs db)"

definition create_progress_event :: "progress_event \<Rightarrow> presale_db \<Rightarrow> (presale_db \<times> progress_event) res" where
  "create_progress_event e db =
     (if exists_row (\<lambda>x. pe_event x = pe_event e) (progress_events db) then Inl ErrDuplicateKey
      else (let (e', t) = insert_row e (progress_events db) in Inr (db\<lparr>progress_events := t\<rparr>, e')))"

definition create_status_log :: "status_log \<Rightarrow> presale_db \<Rightarrow> presale_db" where
  "create_status_log l db = db\<lparr>status_logs := snd (insert_row l (status_logs db))\<rparr>"

definition find_replay :: "string \<Rightarrow> nat \<Rightarrow> string \<Rightarrow> string \<Rightarrow> presale_db \<Rightarrow> mutation_replay option" where
  "find_replay tenant req act key db =
     find_row (\<lambda>m. tenant_id m = tenant \<and> mr_request m = req \<and> mr_actor m = act \<and> mr_key m = key) (replays db)"

text \<open>
  The check constraints of the replay table (migrations 000114 and 000117) and its unique
  key.
\<close>

definition replay_allowed :: "string \<Rightarrow> string \<Rightarrow> bool" where
  "replay_allowed operation action \<longleftrightarrow>
     operation = ''APPROVAL_ACTION'' \<and>
       list_ex (\<lambda>n. action = ''NODE_'' @ show_nat n @ ''_PASS'' \<or> action = ''NODE_'' @ show_nat n @ ''_REJECT'') [1..<11] \<or>
     (operation, action) \<in> set [(''REPLACE_ASSIGNMENTS'', ''REPLACE''), (''CANCEL'', ''CANCEL''),
       (''SELECT_EXECUTION_DEPARTMENT'', ''TEAM_LEAD''), (''REPLACE_EXECUTOR_ASSIGNMENTS'', ''REPLACE''),
       (''REJECT_EXECUTION_ASSIGNMENT'', ''REJECT'')]"

definition create_replay :: "mutation_replay \<Rightarrow> presale_db \<Rightarrow> presale_db res" where
  "create_replay m db =
     (if \<not> replay_allowed (mr_operation m) (mr_action m) then Inl ErrDatabase
      else if exists_row (\<lambda>x. tenant_id x = tenant_id m \<and> mr_key x = mr_key m) (replays db)
      then Inl ErrDuplicateKey
      else Inr (db\<lparr>replays := snd (insert_row m (replays db))\<rparr>))"

section \<open>Worklogs and delivery\<close>

text \<open>
  The columns of a worklog (migration 000007): \<open>work_hours\<close> is a \<open>DECIMAL(10,2)\<close>, the two
  times are \<open>DATETIME(3)\<close> and the later one must be later as stored. In memory the caller
  keeps the times it wrote.
\<close>

definition hours_fit :: "string \<Rightarrow> bool" where
  "hours_fit hours \<longleftrightarrow> hundredths (decimal_value hours) < 10 ^ 10"

definition create_worklog :: "instant \<Rightarrow> worklog \<Rightarrow> presale_db \<Rightarrow> (presale_db \<times> worklog) res" where
  "create_worklog now w db =
     (if \<not> hours_fit (work_hours w) \<or> \<not> datetime3 (work_start w) < datetime3 (work_end w) then Inl ErrDatabase
      else if exists_row (\<lambda>x. tenant_id x = tenant_id w \<and> (wl_key x = wl_key w \<or> worklog_no x = worklog_no w)) (worklogs db)
      then Inl ErrDuplicateKey
      else (let (w', t) = insert_row (w\<lparr>created_at := now, updated_at := now,
                  work_start := datetime3 (work_start w), work_end := datetime3 (work_end w)\<rparr>) (worklogs db)
            in Inr (db\<lparr>worklogs := t\<rparr>, w'\<lparr>work_start := work_start w, work_end := work_end w\<rparr>)))"

definition find_worklog :: "string \<Rightarrow> nat \<Rightarrow> presale_db \<Rightarrow> worklog option" where
  "find_worklog tenant i db =
     find_row (\<lambda>w. tenant_id w = tenant \<and> row_id w = i \<and> deleted_at w = None) (worklogs db)"

definition find_worklog_by_key :: "string \<Rightarrow> string \<Rightarrow> presale_db \<Rightarrow> worklog option" where
  "find_worklog_by_key tenant key db =
     find_row (\<lambda>w. tenant_id w = tenant \<and> wl_key w = key \<and> deleted_at w = None) (worklogs db)"

definition list_worklogs :: "string \<Rightarrow> nat \<Rightarrow> presale_db \<Rightarrow> worklog list" where
  "list_worklogs tenant req db =
     sort_key work_start
       (select_rows (\<lambda>w. tenant_id w = tenant \<and> wl_request w = req \<and> deleted_at w = None) (worklogs db))"

definition valid_worklog :: "string \<Rightarrow> nat \<Rightarrow> string \<Rightarrow> worklog \<Rightarrow> bool" where
  "valid_worklog tenant req person w \<longleftrightarrow>
     tenant_id w = tenant \<and> wl_request w = req \<and> wl_person w = person \<and> voided_at w = None \<and> deleted_at w = None"

definition has_overlapping_worklog ::
  "string \<Rightarrow> nat \<Rightarrow> string \<Rightarrow> instant \<Rightarrow> instant \<Rightarrow> presale_db \<Rightarrow> bool" where
  "has_overlapping_worklog tenant req person start finish db =
     exists_row (\<lambda>w. valid_worklog tenant req person w \<and> work_start w < finish \<and> start < work_end w) (worklogs db)"

text \<open>\<open>AssigneeIDsWithValidWorklogs\<close>, as the membership test its callers make.\<close>

definition has_valid_worklog :: "string \<Rightarrow> nat \<Rightarrow> string \<Rightarrow> presale_db \<Rightarrow> bool" where
  "has_valid_worklog tenant req person db = exists_row (valid_worklog tenant req person) (worklogs db)"

definition update_worklog_delivery ::
  "instant \<Rightarrow> string \<Rightarrow> nat \<Rightarrow> (worklog \<Rightarrow> worklog) \<Rightarrow> presale_db \<Rightarrow> presale_db" where
  "update_worklog_delivery now tenant i f db =
     db\<lparr>worklogs := update_rows (\<lambda>w. tenant_id w = tenant \<and> row_id w = i \<and> deleted_at w = None)
                      (\<lambda>w. (f w)\<lparr>updated_at := now\<rparr>) (worklogs db)\<rparr>"

definition create_outbox :: "outbox_event \<Rightarrow> presale_db \<Rightarrow> presale_db res" where
  "create_outbox e db =
     (if exists_row (\<lambda>x. ob_event x = ob_event e) (outbox db) then Inl ErrDuplicateKey
      else Inr (db\<lparr>outbox := snd (insert_row e (outbox db))\<rparr>))"

definition requeue_outbox_by_aggregate :: "string \<Rightarrow> string \<Rightarrow> string \<Rightarrow> presale_db \<Rightarrow> presale_db res" where
  "requeue_outbox_by_aggregate tenant aggregate i db =
     (let hit = (\<lambda>e. tenant_id e = tenant \<and> ob_aggregate e = aggregate \<and> ob_aggregate_id e = i)
      in if length (select_rows hit (outbox db)) \<noteq> 1 then Inl ErrNotFound
         else Inr (db\<lparr>outbox := update_rows hit
                (\<lambda>e. e\<lparr>ob_status := ''PENDING'', ob_retries := 0, ob_next_retry := None,
                       ob_locked_by := [], ob_locked_until := None, ob_error := []\<rparr>) (outbox db)\<rparr>))"

definition create_integration_attempt :: "integration_attempt \<Rightarrow> presale_db \<Rightarrow> presale_db res" where
  "create_integration_attempt t db =
     (if exists_row (\<lambda>x. tenant_id x = tenant_id t \<and> ia_worklog x = ia_worklog t \<and> ia_attempt x = ia_attempt t)
           (attempts db)
      then Inl ErrDuplicateKey
      else Inr (db\<lparr>attempts := snd (insert_row t (attempts db))\<rparr>))"

section \<open>What the writes do\<close>

lemmas repo_writes =
  create_request_row_def create_instance_def update_instance_def create_approval_log_def
  create_assignment_def end_assignment_def create_assignment_event_def create_progress_def
  create_progress_event_def create_status_log_def create_replay_def create_worklog_def
  update_worklog_delivery_def create_outbox_def requeue_outbox_by_aggregate_def
  create_integration_attempt_def

lemma next_number_frame:
  "next_number tenant at p db = Inr (db', n) \<Longrightarrow> \<exists>t. db' = db\<lparr>sequences := t\<rparr>"
  by (auto simp: next_number_def Let_def split: option.splits if_splits)

lemma next_request_no_frame:
  "next_request_no tenant at db = Inr (db', n) \<Longrightarrow> \<exists>t. db' = db\<lparr>sequences := t\<rparr>"
  unfolding next_request_no_def by (rule next_number_frame)

lemma next_worklog_no_frame:
  "next_worklog_no tenant at db = Inr (db', n) \<Longrightarrow> \<exists>t. db' = db\<lparr>sequences := t\<rparr>"
  unfolding next_worklog_no_def by (rule next_number_frame)

lemma versioned_update_Inr:
  "versioned_update c (tenant, i) v db = Inr db' \<longleftrightarrow>
     (\<exists>x \<in> set (rows (requests db)). is_request tenant i x \<and> version x = v) \<and> v + 1 < 2 ^ 64 \<and>
     db' = db\<lparr>requests := update_rows (\<lambda>x. is_request tenant i x \<and> version x = v)
       (\<lambda>x. (snd c x)\<lparr>version := v + 1, updated_at := fst c\<rparr>) (requests db)\<rparr>"
  by (auto simp: versioned_update_def Let_def exists_row_iff)

lemma update_request_versioned_Inr:
  "update_request_versioned now r v f db = Inr (db', r') \<longleftrightarrow>
     versioned_update (datetime3 now, f) (tenant_id r, row_id r) v db = Inr db' \<and> r' = r\<lparr>version := v + 1\<rparr>"
  by (auto simp: update_request_versioned_def)

lemma find_request_Some:
  "find_request tenant i db = Some r \<Longrightarrow>
     r \<in> set (rows (requests db)) \<and> tenant_id r = tenant \<and> row_id r = i \<and> deleted_at r = None"
  by (auto simp: find_request_def is_request_def dest: find_row_Some)

lemma find_request_iff:
  assumes "table_wf (requests db)"
  shows "find_request tenant i db = Some r \<longleftrightarrow> r \<in> set (rows (requests db)) \<and> is_request tenant i r"
proof
  assume "r \<in> set (rows (requests db)) \<and> is_request tenant i r"
  then show "find_request tenant i db = Some r"
    unfolding find_request_def
    by (intro find_row_unique [OF assms]) (auto simp: is_request_def)
qed (auto simp: find_request_def dest: find_row_Some)

text \<open>A change of columns that keeps the identity of the row.\<close>

definition keeps_identity :: "(presale_request \<Rightarrow> presale_request) \<Rightarrow> bool" where
  "keeps_identity f \<longleftrightarrow> (\<forall>x. row_id (f x) = row_id x \<and> tenant_id (f x) = tenant_id x \<and> deleted_at (f x) = deleted_at x)"

lemma table_wf_versioned_update:
  assumes "table_wf (requests db)" "keeps_identity (snd c)" "versioned_update c (tenant, i) v db = Inr db'"
  shows "table_wf (requests db')"
  using assms by (auto simp: versioned_update_Inr keeps_identity_def intro!: table_wf_update)

lemma find_request_update_same:
  assumes wf: "table_wf (requests db)" and f: "keeps_identity (snd c)"
    and up: "versioned_update c (tenant, i) v db = Inr db'"
    and r: "find_request tenant i db = Some r"
  shows "version r = v \<and> find_request tenant i db' = Some ((snd c r)\<lparr>version := v + 1, updated_at := fst c\<rparr>)"
proof
  from up obtain x where x: "x \<in> set (rows (requests db))" "is_request tenant i x" "version x = v"
    by (auto simp: versioned_update_Inr)
  with r wf have "x = r"
    by (auto simp: find_request_iff is_request_def dest: table_wf_same_id)
  with x show v: "version r = v" by simp
  have r': "r \<in> set (rows (requests db))" "is_request tenant i r" using r wf by (auto simp: find_request_iff)
  have "(snd c r)\<lparr>version := v + 1, updated_at := fst c\<rparr> \<in> set (rows (requests db'))"
    using up r' v by (auto simp: versioned_update_Inr set_rows_update)
  moreover have "is_request tenant i ((snd c r)\<lparr>version := v + 1, updated_at := fst c\<rparr>)"
    using f r'(2) by (simp add: keeps_identity_def is_request_def)
  ultimately show "find_request tenant i db' = Some ((snd c r)\<lparr>version := v + 1, updated_at := fst c\<rparr>)"
    using find_request_iff [OF table_wf_versioned_update [OF wf f up]] by blast
qed

lemma find_request_update_other:
  assumes wf: "table_wf (requests db)" and f: "keeps_identity (snd c)"
    and up: "versioned_update c (tenant, i) v db = Inr db'" and other: "(tenant', j) \<noteq> (tenant, i)"
  shows "find_request tenant' j db' = find_request tenant' j db"
proof -
  have "r \<in> set (rows (requests db')) \<and> is_request tenant' j r \<longleftrightarrow>
        r \<in> set (rows (requests db)) \<and> is_request tenant' j r" for r
    using up other f by (auto simp: versioned_update_Inr set_rows_update keeps_identity_def is_request_def)
  then have "find_request tenant' j db' = Some r \<longleftrightarrow> find_request tenant' j db = Some r" for r
    using find_request_iff [OF wf] find_request_iff [OF table_wf_versioned_update [OF wf f up]] by blast
  then show ?thesis by (metis option.exhaust)
qed

section \<open>Interface: a store with optimistic versions\<close>

text \<open>
  \<open>stored_version db k\<close> is the version of the live row with key \<open>k\<close>; \<open>put c k v\<close>
  applies the change \<open>c\<close> to it if its version is \<open>v\<close>.
\<close>

locale versioned_store =
  fixes wf :: "'db \<Rightarrow> bool"
    and ok :: "'c \<Rightarrow> bool"
    and stored_version :: "'db \<Rightarrow> 'k \<Rightarrow> nat option"
    and put :: "'c \<Rightarrow> 'k \<Rightarrow> nat \<Rightarrow> 'db \<Rightarrow> 'e + 'db"
  assumes put_wf: "wf db \<Longrightarrow> ok c \<Longrightarrow> put c k v db = Inr db' \<Longrightarrow> wf db'"
    and put_expects: "wf db \<Longrightarrow> ok c \<Longrightarrow> put c k v db = Inr db' \<Longrightarrow> stored_version db k = Some v"
    and put_bumps: "wf db \<Longrightarrow> ok c \<Longrightarrow> put c k v db = Inr db' \<Longrightarrow> stored_version db' k = Some (Suc v)"
    and put_frame: "wf db \<Longrightarrow> ok c \<Longrightarrow> put c k v db = Inr db' \<Longrightarrow> k' \<noteq> k \<Longrightarrow> stored_version db' k' = stored_version db k'"
begin

lemma stale_put_refused:
  assumes "wf db" "ok c" "stored_version db k \<noteq> Some v"
  shows "\<exists>e. put c k v db = Inl e"
  using assms put_expects by (cases "put c k v db") auto

lemma lost_update_refused:
  assumes "wf db" "ok c" "ok c'" "put c k v db = Inr db'"
  shows "\<exists>e. put c' k v db' = Inl e"
  by (rule stale_put_refused [OF put_wf [OF assms(1,2,4)] assms(3)])
     (simp add: put_bumps [OF assms(1,2,4)])

lemma version_monotone:
  assumes "wf db" "ok c" "put c k v db = Inr db'" "stored_version db k' = Some n"
  shows "\<exists>m. stored_version db' k' = Some m \<and> n \<le> m"
  using assms put_frame [OF assms(1-3), of k'] put_expects [OF assms(1-3)] put_bumps [OF assms(1-3)]
  by (cases "k' = k") auto

text \<open>A sequence of writers, each with the version it has read.\<close>

definition put_all :: "('c \<times> 'k \<times> nat) list \<Rightarrow> 'db \<Rightarrow> 'e + 'db" where
  "put_all ws db = fold_res (\<lambda>(c, k, v). put c k v) ws db"

lemma put_all_version:
  assumes "put_all ws db = Inr db'" "wf db" "\<forall>(c, k, v) \<in> set ws. ok c" "stored_version db k = Some n"
  shows "stored_version db' k = Some (n + length (filter (\<lambda>(c, k', v). k' = k) ws))"
  using assms unfolding put_all_def
proof (induction ws arbitrary: db n)
  case (Cons w ws)
  obtain c k' v where w: "w = (c, k', v)" by (cases w)
  from Cons.prems(1) w obtain db1 where put: "put c k' v db = Inr db1"
    and rest: "fold_res (\<lambda>(c, k, v). put c k v) ws db1 = Inr db'" by auto
  have ok: "ok c" "\<forall>(c, k, v) \<in> set ws. ok c" using Cons.prems(3) w by auto
  note facts = put_wf [OF Cons.prems(2) ok(1) put]
  show ?case
  proof (cases "k' = k")
    case True
    have "stored_version db1 k = Some (n + 1)"
      using put_expects [OF Cons.prems(2) ok(1) put] put_bumps [OF Cons.prems(2) ok(1) put] Cons.prems(4) True
      by simp
    from Cons.IH [OF rest facts ok(2) this] w True show ?thesis by simp
  next
    case False
    then have "stored_version db1 k = Some n"
      using put_frame [OF Cons.prems(2) ok(1) put, of k] Cons.prems(4) by simp
    from Cons.IH [OF rest facts ok(2) this] w False show ?thesis by simp
  qed
qed simp

end

definition request_version :: "presale_db \<Rightarrow> string \<times> nat \<Rightarrow> nat option" where
  "request_version db k = map_option version (find_request (fst k) (snd k) db)"

interpretation request_store: versioned_store
  "\<lambda>db. table_wf (requests db)" "\<lambda>c. keeps_identity (snd c)" request_version versioned_update
proof unfold_locales
  fix db :: presale_db and c :: "instant \<times> (presale_request \<Rightarrow> presale_request)" and k k' :: "string \<times> nat" and v db'
  assume wf: "table_wf (requests db)" and ok: "keeps_identity (snd c)" and put: "versioned_update c k v db = Inr db'"
  obtain t i where k: "k = (t, i)" by (cases k)
  from put k wf obtain r where r: "find_request t i db = Some r" "version r = v"
    by (auto simp: versioned_update_Inr find_request_iff)
  note same = find_request_update_same [OF wf ok put [unfolded k] r(1)]
  show "table_wf (requests db')" using table_wf_versioned_update [OF wf ok put [unfolded k]] .
  show "request_version db k = Some v" using r k by (simp add: request_version_def)
  show "request_version db' k = Some (Suc v)" using same k by (simp add: request_version_def)
  show "k' \<noteq> k \<Longrightarrow> request_version db' k' = request_version db k'"
    using find_request_update_other [OF wf ok put [unfolded k]] k
    by (cases k') (simp add: request_version_def)
qed

text \<open>\<open>EndAssignment\<close> is the versioned write on assignments.\<close>

definition is_assignment :: "string \<Rightarrow> nat \<Rightarrow> assignment \<Rightarrow> bool" where
  "is_assignment tenant i a \<longleftrightarrow> tenant_id a = tenant \<and> row_id a = i \<and> deleted_at a = None"

definition assignment_version :: "presale_db \<Rightarrow> string \<times> nat \<Rightarrow> nat option" where
  "assignment_version db k = map_option version (find_row (is_assignment (fst k) (snd k)) (assignments db))"

lemma end_assignment_Inr:
  "end_assignment tenant i v u at db = Inr db' \<longleftrightarrow>
     (\<exists>a \<in> set (rows (assignments db)). is_assignment tenant i a \<and> version a = v \<and> is_current a) \<and> v + 1 < 2 ^ 64 \<and>
     db' = db\<lparr>assignments := update_rows (\<lambda>a. is_assignment tenant i a \<and> version a = v \<and> is_current a)
       (\<lambda>a. a\<lparr>is_current := False, ended_at := Some at, updated_by := u, version := v + 1, updated_at := at\<rparr>)
       (assignments db)\<rparr>"
  by (auto simp: end_assignment_def Let_def exists_row_iff is_assignment_def conj_assoc)

lemma find_assignment_iff:
  assumes "table_wf t"
  shows "find_row (is_assignment tenant i) t = Some a \<longleftrightarrow> a \<in> set (rows t) \<and> is_assignment tenant i a"
proof
  assume "a \<in> set (rows t) \<and> is_assignment tenant i a"
  then show "find_row (is_assignment tenant i) t = Some a"
    by (intro find_row_unique [OF assms]) (auto simp: is_assignment_def)
qed (auto dest: find_row_Some)

lemma table_wf_end_assignment:
  "table_wf (assignments db) \<Longrightarrow> end_assignment tenant i v u at db = Inr db' \<Longrightarrow> table_wf (assignments db')"
  by (auto simp: end_assignment_Inr intro!: table_wf_update)

lemma assignment_version_end:
  assumes wf: "table_wf (assignments db)" and e: "end_assignment tenant i v u at db = Inr db'"
  shows "assignment_version db (tenant, i) = Some v"
    and "assignment_version db' k = (if k = (tenant, i) then Some (Suc v) else assignment_version db k)"
proof -
  obtain t' j where k: "k = (t', j)" by (cases k)
  from e obtain a where a: "a \<in> set (rows (assignments db))" "is_assignment tenant i a" "version a = v" "is_current a"
    by (auto simp: end_assignment_Inr)
  then have here: "find_row (is_assignment tenant i) (assignments db) = Some a"
    using find_assignment_iff [OF wf] by blast
  then show "assignment_version db (tenant, i) = Some v" using a by (simp add: assignment_version_def)
  let ?f = "\<lambda>a. a\<lparr>is_current := False, ended_at := Some at, updated_by := u, version := v + 1, updated_at := at\<rparr>"
  let ?hit = "\<lambda>a. is_assignment tenant i a \<and> version a = v \<and> is_current a"
  have rows': "set (rows (assignments db')) = (\<lambda>a. if ?hit a then ?f a else a) ` set (rows (assignments db))"
    using e by (auto simp: end_assignment_Inr set_rows_update)
  note wf' = table_wf_end_assignment [OF wf e]
  show "assignment_version db' k = (if k = (tenant, i) then Some (Suc v) else assignment_version db k)"
  proof (cases "k = (tenant, i)")
    case True
    have "?f a \<in> set (rows (assignments db'))" unfolding rows' using a by force
    moreover have "is_assignment tenant i (?f a)" using a(2) by (simp add: is_assignment_def)
    ultimately have "find_row (is_assignment tenant i) (assignments db') = Some (?f a)"
      using find_assignment_iff [OF wf'] by blast
    with True show ?thesis by (simp add: assignment_version_def)
  next
    case False
    have "x \<in> set (rows (assignments db')) \<and> is_assignment t' j x \<longleftrightarrow>
          x \<in> set (rows (assignments db)) \<and> is_assignment t' j x" for x
      unfolding rows' using False k by (auto simp: is_assignment_def)
    then have "find_row (is_assignment t' j) (assignments db') = Some x \<longleftrightarrow>
               find_row (is_assignment t' j) (assignments db) = Some x" for x
      using find_assignment_iff [OF wf] find_assignment_iff [OF wf'] by blast
    then have "find_row (is_assignment t' j) (assignments db') = find_row (is_assignment t' j) (assignments db)"
      by (metis option.exhaust)
    with False k show ?thesis by (auto simp: assignment_version_def)
  qed
qed

interpretation assignment_store: versioned_store
  "\<lambda>db. table_wf (assignments db)" "\<lambda>_. True" assignment_version
  "\<lambda>c k v. end_assignment (fst k) (snd k) v (fst c) (snd c)"
  by unfold_locales (auto simp: assignment_version_end table_wf_end_assignment)

section \<open>Interface: a table with a unique key\<close>

locale keyed_log =
  fixes keys :: "'db \<Rightarrow> 'k set"
    and key_of :: "'r \<Rightarrow> 'k"
    and add :: "'r \<Rightarrow> 'db \<Rightarrow> 'e + 'db"
  assumes add_fresh: "add r db = Inr db' \<Longrightarrow> key_of r \<notin> keys db"
    and add_keys: "add r db = Inr db' \<Longrightarrow> keys db' = insert (key_of r) (keys db)"
begin

lemma duplicate_refused: "key_of r \<in> keys db \<Longrightarrow> \<exists>e. add r db = Inl e"
  using add_fresh by (cases "add r db") auto

lemma second_add_refused: "add r db = Inr db' \<Longrightarrow> key_of r' = key_of r \<Longrightarrow> \<exists>e. add r' db' = Inl e"
  by (rule duplicate_refused) (simp add: add_keys)

lemma adds_distinct:
  "fold_res add rs db = Inr db' \<Longrightarrow>
     distinct (map key_of rs) \<and> keys db' = set (map key_of rs) \<union> keys db \<and> set (map key_of rs) \<inter> keys db = {}"
proof (induction rs arbitrary: db)
  case (Cons r rs)
  from Cons.prems obtain db1 where one: "add r db = Inr db1" and rest: "fold_res add rs db1 = Inr db'" by auto
  show ?case using Cons.IH [OF rest] add_fresh [OF one] add_keys [OF one] by auto
qed simp

end

interpretation replay_log: keyed_log
  "\<lambda>db. (\<lambda>m. (tenant_id m, mr_key m)) ` set (rows (replays db))" "\<lambda>m. (tenant_id m, mr_key m)" create_replay
  by unfold_locales (auto simp: create_replay_def exists_row_iff insert_row_def split: if_splits)

interpretation approval_task_log: keyed_log
  "\<lambda>db. (\<lambda>l. (tenant_id l, al_task l)) ` set (rows (approval_logs db))" "\<lambda>l. (tenant_id l, al_task l)"
  create_approval_log
  by unfold_locales (auto simp: create_approval_log_def exists_row_iff insert_row_def split: if_splits)

interpretation outbox_log: keyed_log
  "\<lambda>db. ob_event ` set (rows (outbox db))" ob_event create_outbox
  by unfold_locales (auto simp: create_outbox_def exists_row_iff insert_row_def split: if_splits)

interpretation attempt_log: keyed_log
  "\<lambda>db. (\<lambda>t. (tenant_id t, ia_worklog t, ia_attempt t)) ` set (rows (attempts db))"
  "\<lambda>t. (tenant_id t, ia_worklog t, ia_attempt t)" create_integration_attempt
  by unfold_locales (auto simp: create_integration_attempt_def exists_row_iff insert_row_def split: if_splits)

end
