(* ===== verification/PresaleService.thy ===== *)
theory PresaleService
  imports ApprovalRules PresaleRepo
begin

text \<open>
  What the operations of the presale service share (\<open>service.go\<close>,
  \<open>service_notify.go\<close>, \<open>service_replay.go\<close>, \<open>owner_directory.go\<close>,
  \<open>notification_writer.go\<close>, \<open>approval_round.go\<close>, \<open>request_audit.go\<close>,
  \<open>handover_freeze.go\<close>, \<open>assignment_events.go\<close>). The service is a record: the clock
  reading of the operation, the ports it is wired with, and the hash functions; a port that
  may be unwired is an option. The ports are code the module does not hold, so they are
  functions the definitions take.
\<close>

section \<open>The ports\<close>

record directory =
  dir_list :: "directory_query \<Rightarrow> directory_page res"
  dir_resolve :: "string list \<Rightarrow> (string \<Rightarrow> directory_user option) res"

record opportunity_snapshot =
  opp_id :: nat
  opp_no :: string

record approval_task_query =
  tq_tenant :: string
  tq_instance :: string
  tq_approver :: string
  tq_node :: nat

record approval_task =
  task_id :: string
  task_instance :: string
  task_approver :: string
  task_node :: nat

record service =
  clock_now :: instant
  day_hours :: string
  digest_of :: "digest_input \<Rightarrow> string"
  sha256_hex :: "string \<Rightarrow> string"
  new_event_id :: string
  owner_directory :: "directory option"
  session_users :: "string \<Rightarrow> string \<Rightarrow> string list res"
  notifications_on :: bool
  approval_tasks :: "(approval_task_query \<Rightarrow> approval_task res) option"
  audit_on :: bool
  freeze_checker :: "(string \<Rightarrow> string \<Rightarrow> bool res) option"
  freeze_row :: "string \<Rightarrow> string \<Rightarrow> bool"
  get_accessible :: "actor \<Rightarrow> nat \<Rightarrow> opportunity_snapshot res"
  ensure_eligible :: "actor \<Rightarrow> nat \<Rightarrow> unit res"
  encrypt_phone :: "string \<Rightarrow> string res"
  decrypt_phone :: "string \<Rightarrow> string res"
  mask_phone :: "string \<Rightarrow> string"
  approval_rules :: "approval_rule_row table option"
  parse_url :: "string \<Rightarrow> (string \<times> string) option"
  map_order :: "string list \<Rightarrow> string list" \<comment> \<open>the order in which \<open>range\<close> visits the keys of a map\<close>

section \<open>Site notifications\<close>

definition source_event_id :: "service \<Rightarrow> workflow_notification \<Rightarrow> string" where
  "source_event_id s n =
     ''CRM_'' @ to_upper (sha256_hex s
       (n_tenant n @ '':'' @ n_type n @ '':'' @ n_request_no n @ '':'' @ n_recipient n @ '':'' @
        show_nat (n_assignment n) @ '':'' @ show_nat (n_node n) @
        (if n_discriminator n = [] then [] else '':'' @ n_discriminator n)))"

text \<open>\<open>GORMWorkflowNotificationWriter.Write\<close>: an existing source event is left as it is.\<close>

definition write_notification :: "service \<Rightarrow> workflow_notification \<Rightarrow> presale_db \<Rightarrow> presale_db" where
  "write_notification s n db =
     (if exists_row (\<lambda>x. tenant_id x = n_tenant n \<and> nt_source x = source_event_id s n) (notices db) then db
      else db\<lparr>notices := snd (insert_row \<lparr>row_id = 0, tenant_id = n_tenant n, nt_source = source_event_id s n,
                nt_content = n, nt_created = clock_now s\<rparr> (notices db))\<rparr>)"

definition notify_workflow :: "service \<Rightarrow> workflow_notification \<Rightarrow> presale_db \<Rightarrow> presale_db" where
  "notify_workflow s n db = (if notifications_on s then write_notification s n db else db)"

definition request_notice ::
  "string \<Rightarrow> string \<Rightarrow> string \<Rightarrow> string \<Rightarrow> string \<Rightarrow> presale_request \<Rightarrow> string \<Rightarrow> workflow_notification" where
  "request_notice tenant recipient typ title body r discriminator =
     \<lparr>n_tenant = tenant, n_recipient = recipient, n_type = typ, n_title = title, n_body = body,
      n_request_no = request_no r, n_request = row_id r, n_assignment = 0, n_node = 0,
      n_discriminator = discriminator\<rparr>"

definition approval_round_start :: "instant \<Rightarrow> instant" where
  "approval_round_start at = truncate_to millisecond at"

definition approval_round_discriminator :: "approval_instance \<Rightarrow> string" where
  "approval_round_discriminator i =
     (case started_at i of
        None \<Rightarrow> []
      | Some t \<Rightarrow> if t = zero_time then [] else ''approval-round:'' @ rfc3339_nano (approval_round_start t))"

definition notification_excerpt :: "string \<Rightarrow> nat \<Rightarrow> string" where
  "notification_excerpt value k =
     (let v = trim_space value
      in if k = 0 \<or> rune_len v \<le> k then v else rune_prefix k v @ txt_ellipsis)"

section \<open>The owner directory\<close>

definition directory_page_size :: nat where "directory_page_size = 50"
definition directory_max_pages :: nat where "directory_max_pages = 200"

fun add_recipients :: "directory_user list \<Rightarrow> directory_user list \<Rightarrow> directory_user list" where
  "add_recipients [] acc = acc"
| "add_recipients (u # us) acc =
     (let i = trim_space (du_id u)
      in if i = [] \<or> i \<in> set (map du_id acc) then add_recipients us acc
         else add_recipients us (acc @ [u\<lparr>du_id := i\<rparr>]))"

text \<open>
  The paging loop of \<open>notifyApprovalNode\<close> and \<open>activeRoleUserIDs\<close>: \<open>left\<close> pages may
  still be read; when they are used up the users found so far are the result.
\<close>

fun role_recipients ::
  "directory \<Rightarrow> string \<Rightarrow> nat \<Rightarrow> nat \<Rightarrow> directory_user list \<Rightarrow> directory_user list res" where
  "role_recipients d role 0 page acc = Inr acc"
| "role_recipients d role (Suc left) page acc =
     (case dir_list d \<lparr>q_user = [], q_roles = [role], q_page = page, q_size = directory_page_size\<rparr> of
        Inl e \<Rightarrow> Inl e
      | Inr p \<Rightarrow>
          (let acc' = add_recipients (page_items p) acc
           in if page_items p = [] \<or> page_total p \<le> int (length acc') \<or>
                 length (page_items p) < directory_page_size
              then Inr acc' else role_recipients d role left (page + 1) acc'))"

definition active_role_user_ids :: "service \<Rightarrow> string \<Rightarrow> string \<Rightarrow> string list res" where
  "active_role_user_ids s tenant role =
     (let role' = trim_space role
      in if tenant = [] \<or> role' = [] then Inl ErrInvalidInput
         else case owner_directory s of
           None \<Rightarrow> session_users s tenant role'
         | Some d \<Rightarrow>
             (case role_recipients d role' directory_max_pages 1 [] of
                Inl e \<Rightarrow> Inl e
              | Inr us \<Rightarrow> Inr (map du_id us)))"

text \<open>\<open>listOwnerDirectoryUsers\<close>: a directory that does not end is unavailable.\<close>

fun list_directory_users :: "directory \<Rightarrow> nat \<Rightarrow> nat \<Rightarrow> directory_user list \<Rightarrow> directory_user list res" where
  "list_directory_users d 0 page acc = Inl ErrDirectoryUnavailable"
| "list_directory_users d (Suc left) page acc =
     (case dir_list d \<lparr>q_user = [], q_roles = [], q_page = page, q_size = directory_page_size\<rparr> of
        Inl e \<Rightarrow> Inl e
      | Inr p \<Rightarrow>
          (let acc' = acc @ page_items p
           in if page_items p = [] \<or> page_total p \<le> int (length acc') \<or>
                 length (page_items p) < directory_page_size
              then Inr acc' else list_directory_users d left (page + 1) acc'))"

definition resolve_display_names :: "directory option \<Rightarrow> string list \<Rightarrow> (string \<Rightarrow> string option) res" where
  "resolve_display_names d ids =
     (case d of
        None \<Rightarrow> Inr (\<lambda>_. None)
      | Some d \<Rightarrow>
          (case dir_resolve d ids of
             Inl e \<Rightarrow> Inl e
           | Inr m \<Rightarrow>
               Inr (\<lambda>u. case m u of
                          None \<Rightarrow> None
                        | Some p \<Rightarrow> if trim_space (du_name p) = [] then None else Some (trim_space (du_name p)))))"

text \<open>
  The name snapshot of the caller: the trimmed user name, or else the name the directory
  has, which then must exist.
\<close>

definition actor_display_name :: "service \<Rightarrow> actor \<Rightarrow> string res" where
  "actor_display_name s a =
     (let name = trim_space (user_name a)
      in if name \<noteq> [] \<or> owner_directory s = None then Inr name
         else case resolve_display_names (owner_directory s) [user_id a] of
           Inl e \<Rightarrow> Inl e
         | Inr names \<Rightarrow> (case names (user_id a) of None \<Rightarrow> Inl ErrDependencyUnavailable | Some n \<Rightarrow> Inr n))"

section \<open>Notifying an approval node or a role\<close>

definition approval_notice ::
  "string \<Rightarrow> presale_request \<Rightarrow> approval_instance \<Rightarrow> nat \<Rightarrow> directory_user \<Rightarrow> workflow_notification" where
  "approval_notice tenant r i node u =
     (request_notice tenant (du_id u) ''PRESALE_APPROVAL_PENDING'' txt_approval_pending_title
        ((if trim_space (du_name u) = [] then [] else trim_space (du_name u) @ txt_comma) @ txt_approval_pending_body)
        r (approval_round_discriminator i))\<lparr>n_node := node\<rparr>"

definition notify_approval_node ::
  "service \<Rightarrow> string \<Rightarrow> presale_request \<Rightarrow> approval_instance \<Rightarrow> nat \<Rightarrow> presale_db \<Rightarrow> presale_db res" where
  "notify_approval_node s tenant r i node db =
     (case approval_role_for_node (inst_nodes i) node of
        None \<Rightarrow> Inl ErrDependencyUnavailable
      | Some role \<Rightarrow>
          (case owner_directory s of
             None \<Rightarrow> Inl ErrDependencyUnavailable
           | Some d \<Rightarrow>
               (case role_recipients d role directory_max_pages 1 [] of
                  Inl e \<Rightarrow> Inl ErrDependencyUnavailable
                | Inr us \<Rightarrow>
                    if us = [] then Inl ErrDependencyUnavailable
                    else Inr (fold (\<lambda>u. notify_workflow s (approval_notice tenant r i node u)) us db))))"

definition notify_role_users ::
  "service \<Rightarrow> string \<Rightarrow> string \<Rightarrow> workflow_notification \<Rightarrow> presale_db \<Rightarrow> presale_db res" where
  "notify_role_users s tenant role n db =
     (if \<not> notifications_on s then Inr db
      else case active_role_user_ids s tenant role of
        Inl e \<Rightarrow> Inl e
      | Inr ids \<Rightarrow> Inr (fold (\<lambda>i. notify_workflow s (n\<lparr>n_tenant := tenant, n_recipient := i\<rparr>)) ids db))"

section \<open>Evidence of an assignment change or a progress entry\<close>

definition assignment_event_id :: "service \<Rightarrow> string \<Rightarrow> nat \<Rightarrow> nat \<Rightarrow> assignment_event_type \<Rightarrow> string" where
  "assignment_event_id s tenant req asg typ =
     sha256_hex s (tenant @ nul @ show_nat req @ nul @ show_nat asg @ nul @ event_type_str typ)"

definition record_assignment_event ::
  "service \<Rightarrow> actor \<Rightarrow> presale_request \<Rightarrow> assignment \<Rightarrow> assignment_event_type \<Rightarrow> string \<Rightarrow> instant \<Rightarrow> presale_db
     \<Rightarrow> (presale_db \<times> assignment_event) res" where
  "record_assignment_event s a r g typ reason at db =
     (if row_id g = 0 \<or> trim_space (assignee g) = [] then Inl ErrInvalidInput
      else create_assignment_event
        \<lparr>row_id = 0, tenant_id = actor_tenant a,
         ae_event = assignment_event_id s (actor_tenant a) (row_id r) (row_id g) typ,
         ae_request = row_id r, ae_assignment = row_id g, ae_type = typ, ae_recipient = assignee g,
         ae_namespace = assignee_namespace g, ae_name = assignee_name g, ae_role = assignee_role g,
         ae_reason = reason, ae_actor = user_id a, ae_trace = trace_id a, ae_occurred = at\<rparr> db)"

definition pending_outbox ::
  "string \<Rightarrow> string \<Rightarrow> string \<Rightarrow> string \<Rightarrow> string \<Rightarrow> outbox_payload \<Rightarrow> instant \<Rightarrow> outbox_event" where
  "pending_outbox event tenant typ aggregate i payload at =
     \<lparr>row_id = 0, tenant_id = tenant, ob_event = event, ob_type = typ, ob_aggregate = aggregate,
      ob_aggregate_id = i, ob_payload = payload, ob_status = ''PENDING'', ob_retries = 0, ob_next_retry = None,
      ob_locked_by = [], ob_locked_until = None, ob_error = [], ob_created = at\<rparr>"

definition record_assignment_notification ::
  "service \<Rightarrow> actor \<Rightarrow> presale_request \<Rightarrow> assignment \<Rightarrow> assignment_event_type \<Rightarrow> string \<Rightarrow> instant \<Rightarrow> presale_db
     \<Rightarrow> presale_db res" where
  "record_assignment_notification s a r g typ reason at db =
     (case record_assignment_event s a r g typ reason at db of
        Inl e \<Rightarrow> Inl e
      | Inr (db1, ev) \<Rightarrow>
          create_outbox
            (pending_outbox (ae_event ev) (actor_tenant a) ''PRESALE_ASSIGNMENT_SITE_NOTIFICATION''
               ''presale_assignment_event'' (show_nat (row_id ev)) (AssignmentEventPayload (row_id ev)) at) db1)"

record progress_recipient =
  pr_id :: string
  pr_namespace :: string
  pr_kind :: string
  pr_assignment :: nat

definition progress_event_id ::
  "service \<Rightarrow> string \<Rightarrow> nat \<Rightarrow> nat \<Rightarrow> progress_recipient \<Rightarrow> string" where
  "progress_event_id s tenant req prog p =
     sha256_hex s (join nul [tenant, show_nat req, show_nat prog, show_nat (pr_assignment p),
                             pr_namespace p, pr_id p, pr_kind p])"

text \<open>The recipients: the applicant, then every other current executor once.\<close>

fun progress_executors :: "actor \<Rightarrow> assignment list \<Rightarrow> string list \<Rightarrow> progress_recipient list" where
  "progress_executors a [] seen = []"
| "progress_executors a (g # gs) seen =
     (let user = assignee_namespace g = ''USER'';
          author = (if user then user_id a else person_id a)
      in if \<not> is_current g \<or> row_id g = 0 \<or> assignee g = [] \<or> assignee g = author \<or> assignee g \<in> set seen
         then progress_executors a gs seen
         else \<lparr>pr_id = assignee g, pr_namespace = (if user then ''USER'' else ''PERSON''),
               pr_kind = ''CURRENT_ASSIGNEE'', pr_assignment = row_id g\<rparr>
              # progress_executors a gs (assignee g # seen))"

definition progress_recipients :: "actor \<Rightarrow> presale_request \<Rightarrow> assignment list \<Rightarrow> progress_recipient list" where
  "progress_recipients a r gs =
     (if applicant_id r \<noteq> [] \<and> applicant_id r \<noteq> user_id a
      then [\<lparr>pr_id = applicant_id r, pr_namespace = ''USER'', pr_kind = ''APPLICANT'', pr_assignment = 0\<rparr>]
      else []) @ progress_executors a gs []"

definition record_progress_event ::
  "service \<Rightarrow> actor \<Rightarrow> presale_request \<Rightarrow> progress_log \<Rightarrow> progress_recipient \<Rightarrow> presale_db \<Rightarrow> presale_db res" where
  "record_progress_event s a r p c db =
     (let event = progress_event_id s (actor_tenant a) (row_id r) (row_id p) c
      in case create_progress_event
           \<lparr>row_id = 0, tenant_id = actor_tenant a, pe_event = event, pe_request = row_id r, pe_progress = row_id p,
            pe_assignment = pr_assignment c, pe_recipient = pr_id c, pe_namespace = pr_namespace c,
            pe_kind = pr_kind c, pe_author_user = user_id a, pe_author_person = person_id a,
            pe_trace = trace_id a, pe_occurred = pl_created p\<rparr> db of
           Inl e \<Rightarrow> Inl e
         | Inr (db1, ev) \<Rightarrow>
             create_outbox
               (pending_outbox event (actor_tenant a) ''PRESALE_PROGRESS_SITE_NOTIFICATION''
                  ''presale_progress_notification_event'' (show_nat (row_id ev)) (ProgressEventPayload (row_id ev))
                  (pl_created p)) db1)"

definition record_progress_notifications ::
  "service \<Rightarrow> actor \<Rightarrow> presale_request \<Rightarrow> progress_log \<Rightarrow> assignment list \<Rightarrow> presale_db \<Rightarrow> presale_db res" where
  "record_progress_notifications s a r p gs db =
     (if row_id p = 0 \<or> user_id a = [] \<or> person_id a = [] then Inl ErrInvalidInput
      else fold_res (record_progress_event s a r p) (progress_recipients a r gs) db)"

section \<open>Handover freeze\<close>

definition ensure_user_not_frozen :: "service \<Rightarrow> string \<Rightarrow> string \<Rightarrow> unit res" where
  "ensure_user_not_frozen s tenant user =
     (case freeze_checker s of
        None \<Rightarrow> Inl ErrFreezeCheckerUnavailable
      | Some active \<Rightarrow>
          (let u = trim_space user
           in if u = [] then Inl ErrFreezeSubjectRequired
              else case active tenant u of
                Inl e \<Rightarrow> Inl e
              | Inr frozen \<Rightarrow> if frozen then Inl ErrUserFrozen else Inr ()))"

text \<open>
  \<open>handoverguard.Guard\<close> inside the write transaction: \<open>freeze_row\<close> is the locking read
  of a \<open>FROZEN\<close> row.
\<close>

definition handover_guard :: "service \<Rightarrow> string \<Rightarrow> string \<Rightarrow> unit res" where
  "handover_guard s tenant user =
     (if trim_space tenant = [] \<or> trim_space user = [] then Inl (ErrPort ''ErrSubjectRequired'')
      else if freeze_row s (trim_space tenant) (trim_space user) then Inl ErrUserFrozen
      else Inr ())"

definition guard_user_write :: "service \<Rightarrow> string \<Rightarrow> string \<Rightarrow> unit res" where
  "guard_user_write s tenant user =
     (case ensure_user_not_frozen s tenant user of
        Inl e \<Rightarrow> Inl e
      | Inr _ \<Rightarrow> handover_guard s tenant user)"

section \<open>Audit and status log\<close>

definition write_request_audit ::
  "service \<Rightarrow> actor \<Rightarrow> string \<Rightarrow> nat \<Rightarrow> request_view option \<Rightarrow> request_view \<Rightarrow> string \<Rightarrow> presale_db \<Rightarrow> presale_db res" where
  "write_request_audit s a operation i before after reason db =
     (if \<not> audit_on s then Inl ErrAuditUnavailable
      else Inr (db\<lparr>audits := snd (insert_row \<lparr>row_id = 0, tenant_id = actor_tenant a, au_operation = operation,
             au_resource = i, au_actor = user_id a, au_actor_name = user_name a, au_before = before,
             au_after = after, au_reason = trim_space reason\<rparr> (audits db))\<rparr>))"

definition status_log_entry ::
  "service \<Rightarrow> presale_request \<Rightarrow> request_status \<Rightarrow> request_status \<Rightarrow> string \<Rightarrow> string \<Rightarrow> string \<Rightarrow> string \<Rightarrow> presale_db
     \<Rightarrow> presale_db" where
  "status_log_entry s r from_status to_status trigger reason operator trace db =
     create_status_log \<lparr>row_id = 0, tenant_id = tenant_id r, sl_request = row_id r, sl_from = from_status,
       sl_to = to_status, sl_trigger = trigger, sl_reason = reason, sl_operator = operator,
       sl_occurred = clock_now s, sl_trace = trace\<rparr> db"

section \<open>Completion\<close>

text \<open>\<open>completeIfReady\<close>: the database, the caller's row, and whether it completed.\<close>

definition complete_if_ready ::
  "service \<Rightarrow> presale_request \<Rightarrow> assignment list \<Rightarrow> string \<Rightarrow> string \<Rightarrow> presale_db
     \<Rightarrow> (presale_db \<times> presale_request \<times> bool) res" where
  "complete_if_ready s r current operator trace db =
     (if status r \<noteq> Executing \<or> current = [] then Inr (db, r, False)
      else if \<not> list_all (\<lambda>g. has_valid_worklog (tenant_id r) (row_id r) (assignee g) db) current
      then Inr (db, r, False)
      else case update_request_versioned (clock_now s) r (version r)
             (\<lambda>x. x\<lparr>status := Completed, completed_at := Some (datetime3 (clock_now s)), updated_by := operator\<rparr>) db of
          Inl e \<Rightarrow> Inl e
        | Inr (db1, r1) \<Rightarrow>
            Inr (status_log_entry s r1 (status r) Completed ''ALL_CURRENT_ASSIGNEES_HAVE_WORKLOG'' [] operator trace db1,
                 r1, True))"

section \<open>Reading a request\<close>

definition reads_all :: "actor \<Rightarrow> bool" where
  "reads_all a \<longleftrightarrow> has_role a ''sales_director'' \<or> has_role a ''technical_director'' \<or> has_role a ''team_lead''
     \<or> has_role a ''crm_super_admin'' \<or> has_role a ''auditor''"

definition require_readable :: "actor \<Rightarrow> presale_request \<Rightarrow> presale_db \<Rightarrow> unit res" where
  "require_readable a r db =
     (if reads_all a then Inr ()
      else if has_role a ''sales'' \<and> applicant_id r = user_id a then Inr ()
      else if person_id a = [] then Inl ErrForbidden
      else if team_lead r \<noteq> [] \<and> team_lead r = person_id a then Inr ()
      else if list_ex (\<lambda>g. assignee g = person_id a) (list_assignments (actor_tenant a) (row_id r) db) then Inr ()
      else Inl ErrForbidden)"

section \<open>Idempotent replay\<close>

definition same_create_replay :: "presale_request \<Rightarrow> actor \<Rightarrow> nat \<Rightarrow> string \<Rightarrow> string \<Rightarrow> bool" where
  "same_create_replay old a opp hash legacy \<longleftrightarrow>
     opportunity_id old = opp \<and> applicant_id old = user_id a \<and> created_by old = user_id a \<and>
     (create_hash old = hash \<or> create_hash old = legacy)"

definition same_worklog_replay :: "worklog \<Rightarrow> actor \<Rightarrow> nat \<Rightarrow> string \<Rightarrow> string \<Rightarrow> bool" where
  "same_worklog_replay old a req hash legacy \<longleftrightarrow>
     wl_request old = req \<and> wl_person old = person_id a \<and> created_by old = user_id a \<and>
     (wl_hash old = hash \<or> wl_hash old = legacy)"

definition mutation_digest :: "service \<Rightarrow> actor \<Rightarrow> nat \<Rightarrow> string \<Rightarrow> string \<Rightarrow> mutation_payload \<Rightarrow> string" where
  "mutation_digest s a req operation action p = digest_of s (MutationDigest (user_id a) req operation action p)"

definition new_replay ::
  "actor \<Rightarrow> nat \<Rightarrow> string \<Rightarrow> string \<Rightarrow> string \<Rightarrow> string \<Rightarrow> nat \<Rightarrow> instant \<Rightarrow> mutation_replay" where
  "new_replay a req key operation action hash v at =
     \<lparr>row_id = 0, tenant_id = actor_tenant a, mr_request = req, mr_operation = operation, mr_action = action,
      mr_actor = user_id a, mr_key = key, mr_hash = hash, mr_version = v, mr_trace = trace_id a, mr_created = at\<rparr>"

definition validate_replay ::
  "mutation_replay \<Rightarrow> actor \<Rightarrow> nat \<Rightarrow> string \<Rightarrow> string \<Rightarrow> string \<Rightarrow> unit res" where
  "validate_replay m a req operation action hash =
     (if mr_request m \<noteq> req \<or> mr_actor m \<noteq> user_id a \<or> mr_operation m \<noteq> operation \<or> mr_action m \<noteq> action \<or>
         mr_hash m \<noteq> hash then Inl ErrIdempotencyConflict else Inr ())"

definition approval_replay_action :: "nat \<Rightarrow> string \<Rightarrow> string" where
  "approval_replay_action node action = ''NODE_'' @ show_nat node @ ''_'' @ action"

definition approval_replay_node :: "string \<Rightarrow> string \<Rightarrow> nat option" where
  "approval_replay_node replay_action action =
     (case cut CHR ''_'' replay_action of
        None \<Rightarrow> None
      | Some (prefix, suffix) \<Rightarrow>
          if prefix \<noteq> ''NODE'' then None
          else (case cut CHR ''_'' suffix of
                  None \<Rightarrow> None
                | Some (digits, rest) \<Rightarrow>
                    if rest \<noteq> action \<or> digits = [] then None
                    else (case atoi digits of
                            None \<Rightarrow> None
                          | Some v \<Rightarrow> if v < 1 \<or> 10 < v then None else Some (nat v))))"

definition validate_approval_replay ::
  "mutation_replay \<Rightarrow> actor \<Rightarrow> nat \<Rightarrow> string \<Rightarrow> string \<Rightarrow> nodes_json \<Rightarrow> unit res" where
  "validate_approval_replay m a req action hash nj =
     (if mr_request m \<noteq> req \<or> mr_actor m \<noteq> user_id a \<or> mr_operation m \<noteq> ''APPROVAL_ACTION'' \<or> mr_hash m \<noteq> hash
      then Inl ErrIdempotencyConflict
      else case approval_replay_node (mr_action m) action of
        None \<Rightarrow> Inl ErrIdempotencyConflict
      | Some node \<Rightarrow>
          if node < 1 \<or> 10 < node then Inl ErrIdempotencyConflict
          else if approval_node_allowed_for_instance a node nj then Inr () else Inl ErrForbidden)"

definition is_duplicate_error :: "presale_error \<Rightarrow> bool" where
  "is_duplicate_error e \<longleftrightarrow> e = ErrDuplicateKey"

definition resolve_approval_race ::
  "actor \<Rightarrow> nat \<Rightarrow> string \<Rightarrow> string \<Rightarrow> string \<Rightarrow> presale_db \<Rightarrow> unit res" where
  "resolve_approval_race a req key action hash db =
     (case find_request (actor_tenant a) req db of
        None \<Rightarrow> Inl ErrNotFound
      | Some r \<Rightarrow>
          (case find_instance (actor_tenant a) req db of
             None \<Rightarrow> Inl ErrNotFound
           | Some i \<Rightarrow>
               (case find_replay (actor_tenant a) req (user_id a) key db of
                  None \<Rightarrow> Inl ErrIdempotencyConflict
                | Some old \<Rightarrow> validate_approval_replay old a req action hash (inst_nodes i))))"

text \<open>
  \<open>resolveMutationRace\<close> after a failed transaction: the request of the winning replay, or
  an error. \<open>authorize\<close> is the check of the caller (\<open>nil\<close> is the function to
  \<open>Inr ()\<close>).
\<close>

definition resolve_mutation_race ::
  "actor \<Rightarrow> nat \<Rightarrow> string \<Rightarrow> string \<Rightarrow> string \<Rightarrow> string \<Rightarrow> presale_error \<Rightarrow> (presale_request \<Rightarrow> unit res) \<Rightarrow> presale_db
     \<Rightarrow> presale_request res" where
  "resolve_mutation_race a req key operation action hash original authorize db =
     (case find_request (actor_tenant a) req db of
        None \<Rightarrow> Inl ErrNotFound
      | Some r \<Rightarrow>
          (case authorize r of
             Inl e \<Rightarrow> Inl e
           | Inr _ \<Rightarrow>
               (case find_replay (actor_tenant a) req (user_id a) key db of
                  None \<Rightarrow> Inl (if is_duplicate_error original then ErrIdempotencyConflict else original)
                | Some old \<Rightarrow>
                    (case validate_replay old a req operation action hash of
                       Inl e \<Rightarrow> Inl e
                     | Inr _ \<Rightarrow> Inr r))))"

section \<open>Frames\<close>

text \<open>
  What a helper leaves alone: simp rules for the total ones, and "the result is the old
  database with these tables replaced" for those that may fail.
\<close>

lemma notify_workflow_frame [simp]:
  "requests (notify_workflow s n db) = requests db"
  "instances (notify_workflow s n db) = instances db"
  "approval_logs (notify_workflow s n db) = approval_logs db"
  "assignments (notify_workflow s n db) = assignments db"
  "assignment_events (notify_workflow s n db) = assignment_events db"
  "progress_logs (notify_workflow s n db) = progress_logs db"
  "progress_events (notify_workflow s n db) = progress_events db"
  "status_logs (notify_workflow s n db) = status_logs db"
  "replays (notify_workflow s n db) = replays db"
  "worklogs (notify_workflow s n db) = worklogs db"
  "attempts (notify_workflow s n db) = attempts db"
  "outbox (notify_workflow s n db) = outbox db"
  "sequences (notify_workflow s n db) = sequences db"
  "audits (notify_workflow s n db) = audits db"
  by (simp_all add: notify_workflow_def write_notification_def)

lemma status_log_entry_frame [simp]:
  "requests (status_log_entry s r f t g reason u tr db) = requests db"
  "instances (status_log_entry s r f t g reason u tr db) = instances db"
  "approval_logs (status_log_entry s r f t g reason u tr db) = approval_logs db"
  "assignments (status_log_entry s r f t g reason u tr db) = assignments db"
  "assignment_events (status_log_entry s r f t g reason u tr db) = assignment_events db"
  "progress_logs (status_log_entry s r f t g reason u tr db) = progress_logs db"
  "progress_events (status_log_entry s r f t g reason u tr db) = progress_events db"
  "replays (status_log_entry s r f t g reason u tr db) = replays db"
  "worklogs (status_log_entry s r f t g reason u tr db) = worklogs db"
  "attempts (status_log_entry s r f t g reason u tr db) = attempts db"
  "outbox (status_log_entry s r f t g reason u tr db) = outbox db"
  "sequences (status_log_entry s r f t g reason u tr db) = sequences db"
  "notices (status_log_entry s r f t g reason u tr db) = notices db"
  "audits (status_log_entry s r f t g reason u tr db) = audits db"
  by (simp_all add: status_log_entry_def create_status_log_def)

lemma notify_workflow_notices: "\<exists>t. notify_workflow s n db = db\<lparr>notices := t\<rparr>"
proof (cases "notifications_on s \<and> \<not> exists_row (\<lambda>x. tenant_id x = n_tenant n \<and> nt_source x = source_event_id s n) (notices db)")
  case True
  then show ?thesis by (auto simp: notify_workflow_def write_notification_def)
next
  case False
  then have "notify_workflow s n db = db\<lparr>notices := notices db\<rparr>"
    by (auto simp: notify_workflow_def write_notification_def)
  then show ?thesis by blast
qed

lemma fold_notify_notices: "\<exists>t. fold (\<lambda>u. notify_workflow s (n u)) us db = db\<lparr>notices := t\<rparr>"
proof (induction us arbitrary: db)
  case Nil
  have "fold (\<lambda>u. notify_workflow s (n u)) [] db = db\<lparr>notices := notices db\<rparr>" by simp
  then show ?case by blast
next
  case (Cons u us)
  obtain t where t: "notify_workflow s (n u) db = db\<lparr>notices := t\<rparr>" using notify_workflow_notices by blast
  obtain t' where t': "fold (\<lambda>u. notify_workflow s (n u)) us (db\<lparr>notices := t\<rparr>) = db\<lparr>notices := t\<rparr>\<lparr>notices := t'\<rparr>"
    using Cons.IH [of "db\<lparr>notices := t\<rparr>"] by blast
  have "fold (\<lambda>u. notify_workflow s (n u)) (u # us) db = db\<lparr>notices := t'\<rparr>"
    using t t' by simp
  then show ?case by blast
qed

lemma notify_approval_node_frame [db_frame]:
  "notify_approval_node s tenant r i node db = Inr db' \<Longrightarrow> \<exists>t. db' = db\<lparr>notices := t\<rparr>"
  using fold_notify_notices by (auto simp: notify_approval_node_def)

lemma notify_role_users_frame [db_frame]:
  assumes "notify_role_users s tenant role n db = Inr db'"
  shows "\<exists>t. db' = db\<lparr>notices := t\<rparr>"
proof (cases "notifications_on s")
  case True
  then show ?thesis using assms fold_notify_notices
    by (auto simp: notify_role_users_def split: sum.splits)
next
  case False
  with assms have "db' = db\<lparr>notices := notices db\<rparr>" by (simp add: notify_role_users_def)
  then show ?thesis by blast
qed

lemma record_assignment_event_frame [db_frame]:
  "record_assignment_event s a r g typ reason at db = Inr (db', ev) \<Longrightarrow> \<exists>t. db' = db\<lparr>assignment_events := t\<rparr>"
  by (auto simp: record_assignment_event_def create_assignment_event_def insert_row_def split: if_splits)

lemma record_assignment_notification_frame [db_frame]:
  "record_assignment_notification s a r g typ reason at db = Inr db' \<Longrightarrow>
     \<exists>t u. db' = db\<lparr>assignment_events := t, outbox := u\<rparr>"
  by (auto simp: record_assignment_notification_def create_outbox_def dest!: record_assignment_event_frame)

lemma record_progress_event_frame:
  assumes "record_progress_event s a r p c db = Inr db'"
  shows "\<exists>t u. db' = db\<lparr>progress_events := t, outbox := u\<rparr>"
proof -
  from assms obtain db1 ev where "\<exists>t. db1 = db\<lparr>progress_events := t\<rparr>" "\<exists>u. db' = db1\<lparr>outbox := u\<rparr>"
    by (auto simp: record_progress_event_def Let_def create_progress_event_def create_outbox_def insert_row_def
             split: if_splits)
  then show ?thesis by auto
qed

lemma record_progress_notifications_frame [db_frame]:
  assumes "record_progress_notifications s a r p gs db = Inr db'"
  shows "\<exists>t u. db' = db\<lparr>progress_events := t, outbox := u\<rparr>"
proof -
  from assms have "fold_res (record_progress_event s a r p) (progress_recipients a r gs) db = Inr db'"
    by (simp add: record_progress_notifications_def)
  then show ?thesis
  proof (rule fold_res_invariant)
    have "db = db\<lparr>progress_events := progress_events db, outbox := outbox db\<rparr>" by simp
    then show "\<exists>t u. db = db\<lparr>progress_events := t, outbox := u\<rparr>" by blast
  next
    fix c s1 s2
    assume "record_progress_event s a r p c s1 = Inr s2" "\<exists>t u. s1 = db\<lparr>progress_events := t, outbox := u\<rparr>"
    moreover from this(1) obtain t' u' where "s2 = s1\<lparr>progress_events := t', outbox := u'\<rparr>"
      by (auto dest!: record_progress_event_frame)
    ultimately have "s2 = db\<lparr>progress_events := t', outbox := u'\<rparr>" by auto
    then show "\<exists>t u. s2 = db\<lparr>progress_events := t, outbox := u\<rparr>" by blast
  qed
qed

lemma write_request_audit_frame [db_frame]:
  "write_request_audit s a op i b f reason db = Inr db' \<Longrightarrow> \<exists>t. db' = db\<lparr>audits := t\<rparr>"
  by (auto simp: write_request_audit_def)

lemma create_replay_frame [db_frame]: "create_replay m db = Inr db' \<Longrightarrow> \<exists>t. db' = db\<lparr>replays := t\<rparr>"
  by (auto simp: create_replay_def split: if_splits)

lemma create_outbox_frame [db_frame]: "create_outbox m db = Inr db' \<Longrightarrow> \<exists>t. db' = db\<lparr>outbox := t\<rparr>"
  by (auto simp: create_outbox_def split: if_splits)

text \<open>After a command has recorded its replay, the lookup of a repetition finds that record.\<close>

lemma find_replay_created:
  assumes "create_replay (new_replay a req key operation action hash v at) db = Inr db'"
  shows "\<exists>m. find_replay (actor_tenant a) req (user_id a) key db' = Some m \<and>
     mr_request m = req \<and> mr_actor m = user_id a \<and> mr_operation m = operation \<and> mr_action m = action \<and> mr_hash m = hash"
proof -
  let ?m = "new_replay a req key operation action hash v at"
  from assms have fresh: "\<forall>x \<in> set (rows (replays db)). tenant_id x = actor_tenant a \<longrightarrow> mr_key x \<noteq> key"
    and db': "db' = db\<lparr>replays := snd (insert_row ?m (replays db))\<rparr>"
    by (auto simp: create_replay_def exists_row_iff new_replay_def split: if_splits)
  have "find_row (\<lambda>m. tenant_id m = actor_tenant a \<and> mr_request m = req \<and> mr_actor m = user_id a \<and> mr_key m = key) (replays db) = None"
    unfolding find_row_None using fresh by blast
  then show ?thesis using db'
    by (simp add: find_replay_def find_row_insert fst_insert_row new_replay_def)
qed

lemma create_replay_allowed:
  "create_replay (new_replay a req key operation action hash v at) db = Inr db' \<Longrightarrow> replay_allowed operation action"
  by (simp add: create_replay_def new_replay_def)

section \<open>Recipients\<close>

definition good_recipients :: "directory_user list \<Rightarrow> bool" where
  "good_recipients us \<longleftrightarrow>
     distinct (map du_id us) \<and> (\<forall>u \<in> set us. du_id u \<noteq> [] \<and> trim_space (du_id u) = du_id u)"

lemma add_recipients_good: "good_recipients acc \<Longrightarrow> good_recipients (add_recipients us acc)"
proof (induction us arbitrary: acc)
  case (Cons u us)
  show ?case
  proof (cases "trim_space (du_id u) = [] \<or> trim_space (du_id u) \<in> set (map du_id acc)")
    case False
    then have "good_recipients (acc @ [u\<lparr>du_id := trim_space (du_id u)\<rparr>])"
      using Cons.prems by (auto simp: good_recipients_def)
    from Cons.IH [OF this] False show ?thesis by (simp add: Let_def)
  next
    case True
    with Cons show ?thesis by (auto simp: Let_def)
  qed
qed simp

lemma role_recipients_good:
  "role_recipients d role left page acc = Inr us \<Longrightarrow> good_recipients acc \<Longrightarrow> good_recipients us"
proof (induction left arbitrary: page acc)
  case (Suc left)
  from Suc.prems(1) obtain p :: directory_page where
    "(if page_items p = [] \<or> page_total p \<le> int (length (add_recipients (page_items p) acc)) \<or>
         length (page_items p) < directory_page_size
      then Inr (add_recipients (page_items p) acc)
      else role_recipients d role left (page + 1) (add_recipients (page_items p) acc)) = Inr us"
    unfolding role_recipients.simps Let_def case_sum_eq_Inr by blast
  then show ?case
    using Suc.IH [of "page + 1" "add_recipients (page_items p) acc"] add_recipients_good [OF Suc.prems(2)]
    by (auto split: if_splits)
qed simp

definition notice_stored :: "service \<Rightarrow> workflow_notification \<Rightarrow> presale_db \<Rightarrow> bool" where
  "notice_stored s n db \<longleftrightarrow>
     (\<exists>x \<in> set (rows (notices db)). tenant_id x = n_tenant n \<and> nt_source x = source_event_id s n)"

lemma notify_workflow_stores: "notifications_on s \<Longrightarrow> notice_stored s n (notify_workflow s n db)"
  by (auto simp: notice_stored_def notify_workflow_def write_notification_def exists_row_iff insert_row_def)

lemma notify_workflow_keeps: "notice_stored s m db \<Longrightarrow> notice_stored s m (notify_workflow s n db)"
  by (auto simp: notice_stored_def notify_workflow_def write_notification_def insert_row_def)

lemma fold_notify_keeps:
  "notice_stored s m db \<Longrightarrow> notice_stored s m (fold (\<lambda>u. notify_workflow s (n u)) us db)"
  by (induction us arbitrary: db) (auto intro: notify_workflow_keeps)

lemma fold_notify_stores:
  "notifications_on s \<Longrightarrow> u \<in> set us \<Longrightarrow> notice_stored s (n u) (fold (\<lambda>u. notify_workflow s (n u)) us db)"
  by (induction us arbitrary: db) (auto intro: fold_notify_keeps notify_workflow_stores)

text \<open>
  Entering an approval node succeeds only when the node has a role with at least one
  reachable holder: the recipients are non-empty, pairwise distinct and have non-blank
  trimmed ids, and with notifications wired each of them has the notice of this round
  afterwards.
\<close>

theorem approval_node_reachable:
  assumes "notify_approval_node s tenant r i node db = Inr db'" and "notifications_on s"
  shows "\<exists>us. us \<noteq> [] \<and> distinct (map du_id us) \<and>
     (\<forall>u \<in> set us. du_id u \<noteq> [] \<and> trim_space (du_id u) = du_id u \<and>
        notice_stored s (approval_notice tenant r i node u) db') \<and>
     approval_role_for_node (inst_nodes i) node \<noteq> None"
proof -
  from assms(1) obtain role d us where
    node: "approval_role_for_node (inst_nodes i) node = Some role" and
    us: "role_recipients d role directory_max_pages 1 [] = Inr us" "us \<noteq> []" and
    db': "db' = fold (\<lambda>u. notify_workflow s (approval_notice tenant r i node u)) us db"
    by (auto simp: notify_approval_node_def)
  have "good_recipients us" using role_recipients_good [OF us(1)] by (simp add: good_recipients_def)
  moreover have "notice_stored s (approval_notice tenant r i node u) db'" if "u \<in> set us" for u
    using fold_notify_stores [OF assms(2) that] db' by simp
  ultimately show ?thesis using us(2) node unfolding good_recipients_def by (intro exI [of _ us]) auto
qed

section \<open>Replay keys and progress recipients\<close>

lemma approval_replay_parse:
  assumes "1 \<le> node" "node \<le> 10"
  shows "approval_replay_node (approval_replay_action node action) action' =
           (if action' = action then Some node else None)"
proof -
  have "CHR ''_'' \<notin> set (show_nat node)" using show_nat_chars sign_not_digit by blast
  then have "cut CHR ''_'' (show_nat node @ CHR ''_'' # action) = Some (show_nat node, action)"
    by (rule cut_append)
  moreover have "cut CHR ''_'' (''NODE'' @ CHR ''_'' # (show_nat node @ CHR ''_'' # action)) =
      Some (''NODE'', show_nat node @ CHR ''_'' # action)"
    by (rule cut_append) simp
  moreover have "atoi (show_nat node) = Some (int node)"
    using assms by (intro atoi_show_nat) (auto intro: le_less_trans [of _ 10])
  ultimately show ?thesis using assms by (simp add: approval_replay_node_def approval_replay_action_def)
qed

text \<open>
  The action column of an approval replay round-trips: for the nodes the database
  accepts, the node is read back exactly when the requested action is the recorded one.
\<close>

theorem approval_replay_round_trip:
  assumes "1 \<le> node" "node \<le> 10"
  shows "approval_replay_node (approval_replay_action node action) action' =
           (if action' = action then Some node else None)"
  using assms by (rule approval_replay_parse)

lemma approval_replay_round_trip_witness:
  "approval_replay_node (approval_replay_action 10 ''PASS'') ''PASS'' = Some 10 \<and>
   approval_replay_node (approval_replay_action 10 ''PASS'') ''REJECT'' = None"
  using approval_replay_round_trip [of 10 "''PASS''" "''PASS''"]
    approval_replay_round_trip [of 10 "''PASS''" "''REJECT''"] by simp

lemma progress_executors_sound:
  "c \<in> set (progress_executors a gs seen) \<Longrightarrow>
     \<exists>g \<in> set gs. is_current g \<and> row_id g = pr_assignment c \<and> row_id g \<noteq> 0 \<and> assignee g = pr_id c \<and> pr_id c \<noteq> [] \<and>
       pr_id c \<notin> set seen \<and> pr_kind c = ''CURRENT_ASSIGNEE'' \<and>
       (pr_namespace c = ''USER'' \<and> pr_id c \<noteq> user_id a \<or> pr_namespace c = ''PERSON'' \<and> pr_id c \<noteq> person_id a)"
proof (induction gs arbitrary: seen)
  case (Cons g gs)
  let ?skip = "\<not> is_current g \<or> row_id g = 0 \<or> assignee g = [] \<or>
    assignee g = (if assignee_namespace g = ''USER'' then user_id a else person_id a) \<or> assignee g \<in> set seen"
  show ?case
  proof (cases "?skip \<or> c \<in> set (progress_executors a gs (assignee g # seen))")
    case True
    then have "c \<in> set (progress_executors a gs seen) \<or> c \<in> set (progress_executors a gs (assignee g # seen))"
      using Cons.prems by (cases ?skip) (auto simp: Let_def)
    then show ?thesis using Cons.IH [of seen] Cons.IH [of "assignee g # seen"] by auto
  next
    case False
    then show ?thesis using Cons.prems by (auto simp: Let_def split: if_splits)
  qed
qed simp

lemma progress_executors_distinct: "distinct (map pr_id (progress_executors a gs seen))"
  by (induction gs arbitrary: seen) (auto simp: Let_def dest: progress_executors_sound)

text \<open>
  A progress entry never notifies its own author, under whichever identity the
  recipient is stored, and no executor twice: a recipient in the user namespace is not the
  author's user id, one in the person namespace is not the author's person id, and every
  recipient but the applicant holds a current assignment.
\<close>

theorem progress_not_to_author:
  assumes "c \<in> set (progress_recipients a r gs)"
  shows "(pr_namespace c = ''USER'' \<and> pr_id c \<noteq> user_id a \<or> pr_namespace c = ''PERSON'' \<and> pr_id c \<noteq> person_id a) \<and>
     pr_id c \<noteq> [] \<and>
     (pr_kind c = ''APPLICANT'' \<and> pr_id c = applicant_id r \<or>
      pr_kind c = ''CURRENT_ASSIGNEE'' \<and> (\<exists>g \<in> set gs. is_current g \<and> assignee g = pr_id c \<and> row_id g = pr_assignment c)) \<and>
     distinct (map (\<lambda>c. (pr_kind c, pr_id c)) (progress_recipients a r gs))"
proof -
  have "distinct (map (\<lambda>c. (pr_kind c, pr_id c)) (progress_executors a gs []))"
    using progress_executors_distinct [of a gs "[]"] by (auto simp: distinct_map inj_on_def)
  moreover have "pr_kind c = ''CURRENT_ASSIGNEE''" if "c \<in> set (progress_executors a gs [])" for c
    using progress_executors_sound [OF that] by blast
  ultimately have "distinct (map (\<lambda>c. (pr_kind c, pr_id c)) (progress_recipients a r gs))"
    by (auto simp: progress_recipients_def)
  moreover have "(pr_namespace c = ''USER'' \<and> pr_id c \<noteq> user_id a \<or> pr_namespace c = ''PERSON'' \<and> pr_id c \<noteq> person_id a) \<and>
     pr_id c \<noteq> [] \<and>
     (pr_kind c = ''APPLICANT'' \<and> pr_id c = applicant_id r \<or>
      pr_kind c = ''CURRENT_ASSIGNEE'' \<and> (\<exists>g \<in> set gs. is_current g \<and> assignee g = pr_id c \<and> row_id g = pr_assignment c))"
    using assms progress_executors_sound [of c a gs "[]"]
    by (auto simp: progress_recipients_def split: if_splits)
  ultimately show ?thesis by blast
qed

text \<open>The action column of an approval that the check constraint accepts names its node.\<close>

lemma allowed_replay_node:
  assumes "replay_allowed ''APPROVAL_ACTION'' (approval_replay_action node action)" "action \<in> {''PASS'', ''REJECT''}"
  shows "approval_replay_node (approval_replay_action node action) action = Some node \<and> 1 \<le> node \<and> node \<le> 10"
proof -
  from assms(1) obtain n where n: "1 \<le> n" "n \<le> 10" and
    "approval_replay_action node action = approval_replay_action n ''PASS'' \<or>
     approval_replay_action node action = approval_replay_action n ''REJECT''"
    by (auto simp: replay_allowed_def approval_replay_action_def list_ex_iff)
  moreover have "last (approval_replay_action k ''PASS'') = CHR ''S''" "last (approval_replay_action k ''REJECT'') = CHR ''T''" for k
    by (simp_all add: approval_replay_action_def)
  ultimately have "approval_replay_action node action = approval_replay_action n action"
    using assms(2) by (elim insertE disjE) (auto dest: arg_cong [of _ _ last])
  then have "node = n" by (simp add: approval_replay_action_def)
  then show ?thesis using approval_replay_parse [OF n, of action action] n by simp
qed

end
