(* ===== verification/PresaleLifecycle.thy ===== *)
theory PresaleLifecycle
  imports PresaleService
begin

text \<open>
  The abstract specification of a request: which status may follow which, which columns
  never change, and that every change of status leaves one entry in the status log.
  \<open>evolves\<close> lifts it to databases; the operation theories show that each of their
  operations satisfies it, and the root theory closes it over runs.
\<close>

section \<open>The state machine\<close>

fun legal :: "request_status \<Rightarrow> request_status \<Rightarrow> bool" where
  "legal ApprovalStarting t = (t = PendingApproval)"
| "legal PendingApproval t = (t \<in> {PendingApproval, Rejected, ApprovedPendingAssignment, Cancelled})"
| "legal ApprovedPendingAssignment t =
     (t \<in> {ApprovedPendingAssignment, PendingExecutionAssignment, Executing, Cancelled})"
| "legal PendingExecutionAssignment t = (t \<in> {ApprovedPendingAssignment, Executing, Cancelled})"
| "legal Executing t = (t \<in> {Executing, Completed, Cancelled})"
| "legal Rejected t = (t = PendingApproval)"
| "legal Cancelled t = (t = PendingApproval)"
| "legal Completed t = False"

text \<open>The columns that identify a request and its origin.\<close>

definition same_origin :: "presale_request \<Rightarrow> presale_request \<Rightarrow> bool" where
  "same_origin x y \<longleftrightarrow>
     row_id y = row_id x \<and> tenant_id y = tenant_id x \<and> deleted_at y = deleted_at x \<and>
     created_by y = created_by x \<and> created_at y = created_at x \<and> request_no y = request_no x \<and>
     opportunity_id y = opportunity_id x \<and> opportunity_no y = opportunity_no x \<and>
     applicant_id y = applicant_id x \<and> applicant_name y = applicant_name x \<and>
     create_key y = create_key x \<and> create_hash y = create_hash x"

text \<open>One committed write on a request: a legal move and the next version.\<close>

definition request_edge :: "presale_request \<Rightarrow> presale_request \<Rightarrow> bool" where
  "request_edge x y \<longleftrightarrow> same_origin x y \<and> version y = version x + 1 \<and> legal (status x) (status y)"

text \<open>A path of writes with the moves of status the log records for it.\<close>

inductive request_path ::
  "presale_request \<Rightarrow> (request_status \<times> request_status) list \<Rightarrow> presale_request \<Rightarrow> bool" where
  path_refl: "request_path x [] x"
| path_stay: "request_path x ls y \<Longrightarrow> request_edge y z \<Longrightarrow> status z = status y \<Longrightarrow> request_path x ls z"
| path_move: "request_path x ls y \<Longrightarrow> request_edge y z \<Longrightarrow> status z \<noteq> status y \<Longrightarrow>
                request_path x (ls @ [(status y, status z)]) z"

lemma path_trans:
  "request_path y ls z \<Longrightarrow> request_path x ks y \<Longrightarrow> request_path x (ks @ ls) z"
proof (induction rule: request_path.induct)
  case (path_move y ls y1 z)
  then show ?case using request_path.path_move [of x "ks @ ls" y1 z] by simp
qed (auto intro: request_path.path_stay)

lemma path_edge:
  "request_edge x y \<Longrightarrow> request_path x (if status y = status x then [] else [(status x, status y)]) y"
  using request_path.path_move [OF path_refl, of x y] request_path.path_stay [OF path_refl, of x y] by auto

lemma same_origin_trans: "same_origin x y \<Longrightarrow> same_origin y z \<Longrightarrow> same_origin x z"
  by (simp add: same_origin_def)

lemma path_origin: "request_path x ls y \<Longrightarrow> same_origin x y"
  by (induction rule: request_path.induct)
     (auto simp: same_origin_def request_edge_def)

lemma path_version: "request_path x ls y \<Longrightarrow> version x \<le> version y \<and> (version x = version y \<longrightarrow> x = y)"
  by (induction rule: request_path.induct) (auto simp: request_edge_def)

lemma path_completed: "request_path x ls y \<Longrightarrow> status x = Completed \<Longrightarrow> y = x"
  by (induction rule: request_path.induct) (auto simp: request_edge_def)

text \<open>A log whose entries chain from one status to another.\<close>

fun log_chain :: "request_status \<Rightarrow> (request_status \<times> request_status) list \<Rightarrow> request_status \<Rightarrow> bool" where
  "log_chain s [] t = (s = t)"
| "log_chain s ((a, b) # ls) t = (a = s \<and> a \<noteq> b \<and> legal a b \<and> log_chain b ls t)"

lemma log_chain_append: "log_chain s (ks @ ls) t \<longleftrightarrow> (\<exists>u. log_chain s ks u \<and> log_chain u ls t)"
  by (induction ks arbitrary: s) auto

lemma path_chain: "request_path x ls y \<Longrightarrow> log_chain (status x) ls (status y)"
  by (induction rule: request_path.induct) (auto simp: log_chain_append request_edge_def)

section \<open>Databases\<close>

definition log_entries :: "presale_request \<Rightarrow> status_log list \<Rightarrow> (request_status \<times> request_status) list" where
  "log_entries x logs =
     map (\<lambda>l. (sl_from l, sl_to l)) (filter (\<lambda>l. tenant_id l = tenant_id x \<and> sl_request l = row_id x) logs)"

lemma log_entries_Nil [simp]: "log_entries x [] = []"
  by (simp add: log_entries_def)

lemma log_entries_append [simp]: "log_entries x (ks @ ls) = log_entries x ks @ log_entries x ls"
  by (simp add: log_entries_def)

lemma log_entries_origin: "same_origin x y \<Longrightarrow> log_entries y ls = log_entries x ls"
  by (simp add: log_entries_def same_origin_def)

definition new_request :: "presale_request table \<Rightarrow> presale_request \<Rightarrow> bool" where
  "new_request t x \<longleftrightarrow>
     next_id t \<le> row_id x \<and> version x = 1 \<and> status x = PendingApproval \<and> current_node x = 1 \<and> deleted_at x = None \<and>
     (\<forall>y \<in> set (rows t). tenant_id y = tenant_id x \<longrightarrow> create_key y \<noteq> create_key x \<and> request_no y \<noteq> request_no x)"

text \<open>
  \<open>evolves db db'\<close>: the old rows have followed paths whose moves are the log entries
  written since, the other rows are new and unlogged, and ids keep growing.
\<close>

definition evolves :: "presale_db \<Rightarrow> presale_db \<Rightarrow> bool" where
  "evolves db db' \<longleftrightarrow>
     (\<exists>us new logs. rows (requests db') = us @ new \<and> rows (status_logs db') = rows (status_logs db) @ logs \<and>
        list_all2 (\<lambda>x y. request_path x (log_entries x logs) y) (rows (requests db)) us \<and>
        (\<forall>x \<in> set new. new_request (requests db) x \<and> log_entries x logs = []) \<and>
        (\<forall>l \<in> set logs. sl_request l < next_id (requests db)) \<and>
        length new \<le> 1 \<and> next_id (requests db') = next_id (requests db) + length new \<and>
        (\<forall>x \<in> set new. row_id x < next_id (requests db')))"

lemma path_list_refl: "list_all2 (\<lambda>x y. request_path x (log_entries x []) y) xs xs"
  by (simp add: list_all2_same path_refl)

lemma evolves_same [intro]:
  "requests db' = requests db \<Longrightarrow> status_logs db' = status_logs db \<Longrightarrow> evolves db db'"
  unfolding evolves_def
  by (rule exI [of _ "rows (requests db)"], rule exI [of _ "[]"], rule exI [of _ "[]"])
     (use path_list_refl in auto)

text \<open>The update of one row, with or without the log entry of its move.\<close>

lemma evolves_update:
  assumes wf: "table_wf (requests db)" and r: "r \<in> set (rows (requests db))" "deleted_at r = None"
    and up: "versioned_update (datetime3 now, f) (tenant_id r, row_id r) (version r) db0 = Inr db1"
    and base: "requests db0 = requests db" and req: "requests db' = requests db1"
    and edge: "request_edge r ((f r)\<lparr>version := version r + 1, updated_at := datetime3 now\<rparr>)"
    and logs: "rows (status_logs db') = rows (status_logs db) @ ls"
    and entries: "ls = (if status (f r) = status r then [] else [l])"
    and l: "tenant_id l = tenant_id r" "sl_request l = row_id r" "sl_from l = status r" "sl_to l = status (f r)"
  shows "evolves db db'"
proof -
  let ?hit = "\<lambda>x. is_request (tenant_id r) (row_id r) x \<and> version x = version r"
  let ?g = "\<lambda>x. if ?hit x then (f x)\<lparr>version := version r + 1, updated_at := datetime3 now\<rparr> else x"
  have rows': "rows (requests db') = map ?g (rows (requests db))"
    and next': "next_id (requests db') = next_id (requests db)"
    using up base req by (auto simp: versioned_update_Inr update_rows_def)
  have path: "request_path x (log_entries x ls) (?g x)" if x: "x \<in> set (rows (requests db))" for x
  proof (cases "x = r")
    case True
    then have "?hit x" using r by (simp add: is_request_def)
    moreover have "log_entries r ls = (if status (f r) = status r then [] else [(status r, status (f r))])"
      using entries l by (simp add: log_entries_def)
    ultimately show ?thesis using path_edge [OF edge] True by (simp split: if_splits)
  next
    case False
    then have other: "row_id x \<noteq> row_id r" using table_wf_same_id [OF wf x r(1)] by blast
    then have "log_entries x ls = []" using entries l by (auto simp: log_entries_def)
    with other show ?thesis by (simp add: is_request_def path_refl)
  qed
  have "list_all2 (\<lambda>x y. request_path x (log_entries x ls) y) (rows (requests db)) (map ?g (rows (requests db)))"
    using path by (auto simp: list_all2_conv_all_nth)
  moreover have "\<forall>l' \<in> set ls. sl_request l' < next_id (requests db)"
    using entries l r wf by (auto simp: table_wf_def)
  ultimately show ?thesis unfolding evolves_def
    using rows' next' logs by (intro exI [of _ "map ?g (rows (requests db))"] exI [of _ "[]"] exI [of _ ls]) simp
qed

text \<open>The two shapes in the operations: a write that keeps the status, and a logged move.\<close>

lemma evolves_stayed:
  assumes "table_wf (requests db)" and "find_request tenant i db = Some r"
    and "update_request_versioned now r (version r) f db0 = Inr (db1, r1)"
    and "requests db0 = requests db" "requests db' = requests db1" "status_logs db' = status_logs db"
    and "request_edge r ((f r)\<lparr>version := version r + 1, updated_at := datetime3 now\<rparr>)" and "status (f r) = status r"
  shows "evolves db db'"
proof (rule evolves_update)
  show "table_wf (requests db)" by fact
  show "r \<in> set (rows (requests db))" "deleted_at r = None" using assms(2) by (auto dest: find_request_Some)
  show "versioned_update (datetime3 now, f) (tenant_id r, row_id r) (version r) db0 = Inr db1"
    using assms(3) by (simp add: update_request_versioned_Inr)
  show "rows (status_logs db') = rows (status_logs db) @ []" using assms(6) by simp
  let ?l = "\<lparr>row_id = 0, tenant_id = tenant_id r, sl_request = row_id r, sl_from = status r, sl_to = status (f r),
    sl_trigger = [], sl_reason = [], sl_operator = [], sl_occurred = 0, sl_trace = []\<rparr>"
  show "[] = (if status (f r) = status r then [] else [?l])" using assms(8) by simp
qed (use assms in simp_all)

definition logged :: "presale_db \<Rightarrow> presale_db \<Rightarrow> presale_request \<Rightarrow> request_status \<Rightarrow> bool" where
  "logged db db' r to_status \<longleftrightarrow>
     (\<exists>l. rows (status_logs db') = rows (status_logs db) @ [l] \<and> tenant_id l = tenant_id r \<and> sl_request l = row_id r \<and>
          sl_from l = status r \<and> sl_to l = to_status)"

lemma status_log_entry_rows [simp]:
  "rows (status_logs (status_log_entry s r a b trig reason u tr db)) = rows (status_logs db) @
     [\<lparr>row_id = next_id (status_logs db), tenant_id = tenant_id r, sl_request = row_id r, sl_from = a, sl_to = b,
       sl_trigger = trig, sl_reason = reason, sl_operator = u, sl_occurred = clock_now s, sl_trace = tr\<rparr>]"
  by (simp add: status_log_entry_def create_status_log_def insert_row_def)

lemma evolves_moved:
  assumes "table_wf (requests db)" and "find_request tenant i db = Some r"
    and "update_request_versioned now r (version r) f db0 = Inr (db1, r1)"
    and "requests db0 = requests db" "requests db' = requests db1"
    and "request_edge r ((f r)\<lparr>version := version r + 1, updated_at := datetime3 now\<rparr>)" and "status (f r) \<noteq> status r"
    and "logged db db' r (status (f r))"
  shows "evolves db db'"
proof -
  from assms(8) obtain l where l: "rows (status_logs db') = rows (status_logs db) @ [l]"
    "tenant_id l = tenant_id r" "sl_request l = row_id r" "sl_from l = status r" "sl_to l = status (f r)"
    unfolding logged_def by blast
  show ?thesis
  proof (rule evolves_update)
    show "table_wf (requests db)" by fact
    show "r \<in> set (rows (requests db))" "deleted_at r = None" using assms(2) by (auto dest: find_request_Some)
    show "versioned_update (datetime3 now, f) (tenant_id r, row_id r) (version r) db0 = Inr db1"
      using assms(3) by (simp add: update_request_versioned_Inr)
    show "[l] = (if status (f r) = status r then [] else [l])" using assms(7) by simp
  qed (use assms l in simp_all)
qed

lemma evolves_create:
  assumes "create_request_row now x db0 = Inr (db1, x')" and "requests db0 = requests db"
    and "requests db' = requests db1" and "status_logs db' = status_logs db"
    and "version x = 1" "status x = PendingApproval" "current_node x = 1" "deleted_at x = None"
  shows "evolves db db'"
proof -
  have rows': "rows (requests db') = rows (requests db) @ [stored_request x']" "next_id (requests db') = next_id (requests db) + 1"
    "row_id (stored_request x') = next_id (requests db)" "new_request (requests db) (stored_request x')"
    using assms by (auto simp: create_request_row_def insert_row_def new_request_def exists_row_iff Let_def split: if_splits)
  then show ?thesis unfolding evolves_def
    by (intro exI [of _ "rows (requests db)"] exI [of _ "[stored_request x']"] exI [of _ "[]"])
       (use path_list_refl assms(4) in auto)
qed

lemma evolves_wf:
  assumes "evolves db db'" "table_wf (requests db)"
  shows "table_wf (requests db')"
proof -
  from assms(1) obtain us new logs where e: "rows (requests db') = us @ new"
    "list_all2 (\<lambda>x y. request_path x (log_entries x logs) y) (rows (requests db)) us"
    "\<forall>x \<in> set new. new_request (requests db) x" "length new \<le> 1"
    "next_id (requests db') = next_id (requests db) + length new" "\<forall>x \<in> set new. row_id x < next_id (requests db')"
    unfolding evolves_def by blast
  have ids: "map row_id us = map row_id (rows (requests db))"
    using e(2) by (induction rule: list_all2_induct) (auto dest: path_origin simp: same_origin_def)
  have below: "row_id y < next_id (requests db)" if "y \<in> set us" for y
  proof -
    have "row_id y \<in> set (map row_id (rows (requests db)))" using that ids by (metis image_eqI list.set_map)
    then show ?thesis using assms(2) by (auto simp: table_wf_def)
  qed
  have "distinct (map row_id us)" using assms(2) ids by (simp add: table_wf_def)
  moreover have "distinct (map row_id new)" using e(4) by (cases new) auto
  moreover have "set (map row_id us) \<inter> set (map row_id new) = {}"
    using below e(3) by (force simp: new_request_def)
  ultimately show ?thesis using e(1,5,6) below unfolding table_wf_def by fastforce
qed

text \<open>No two requests of a tenant share the key of their creation or their number.\<close>

definition unique_keys :: "presale_db \<Rightarrow> bool" where
  "unique_keys db \<longleftrightarrow>
     distinct (map (\<lambda>r. (tenant_id r, create_key r)) (rows (requests db))) \<and>
     distinct (map (\<lambda>r. (tenant_id r, request_no r)) (rows (requests db)))"

lemma evolves_unique:
  assumes "evolves db db'" "unique_keys db"
  shows "unique_keys db'"
proof -
  from assms(1) obtain us new logs where e: "rows (requests db') = us @ new"
    "list_all2 (\<lambda>x y. request_path x (log_entries x logs) y) (rows (requests db)) us"
    "\<forall>x \<in> set new. new_request (requests db) x" "length new \<le> 1"
    unfolding evolves_def by blast
  have same: "map (\<lambda>r. (tenant_id r, create_key r)) us = map (\<lambda>r. (tenant_id r, create_key r)) (rows (requests db))"
    "map (\<lambda>r. (tenant_id r, request_no r)) us = map (\<lambda>r. (tenant_id r, request_no r)) (rows (requests db))"
    using e(2) by (induction rule: list_all2_induct) (auto dest: path_origin simp: same_origin_def)
  show ?thesis
  proof (cases new)
    case Nil
    then show ?thesis using assms(2) e(1) same by (simp add: unique_keys_def)
  next
    case (Cons x ys)
    then have new: "new = [x]" using e(4) by simp
    then have "new_request (requests db) x" using e(3) by simp
    then have "(tenant_id x, create_key x) \<notin> set (map (\<lambda>r. (tenant_id r, create_key r)) (rows (requests db)))"
      "(tenant_id x, request_no x) \<notin> set (map (\<lambda>r. (tenant_id r, request_no r)) (rows (requests db)))"
      unfolding new_request_def by auto
    then show ?thesis using assms(2) e(1) same new unfolding unique_keys_def by simp
  qed
qed

lemma find_request_versioned:
  assumes up: "update_request_versioned now r v f db = Inr (db', r')" and f: "keeps_identity f"
  shows "\<exists>h. find_request tenant i db' = map_option h (find_request tenant i db)"
proof -
  have "is_request tenant i ((f x)\<lparr>version := v + 1, updated_at := datetime3 now\<rparr>) = is_request tenant i x" for x
    using f by (simp add: keeps_identity_def is_request_def)
  moreover have "requests db' = update_rows (\<lambda>x. is_request (tenant_id r) (row_id r) x \<and> version x = v)
      (\<lambda>x. (f x)\<lparr>version := v + 1, updated_at := datetime3 now\<rparr>) (requests db)"
    using up by (auto simp: update_request_versioned_Inr versioned_update_Inr)
  ultimately have "find_request tenant i db' = map_option
      (\<lambda>x. if is_request (tenant_id r) (row_id r) x \<and> version x = v then (f x)\<lparr>version := v + 1, updated_at := datetime3 now\<rparr> else x)
      (find_request tenant i db)"
    unfolding find_request_def by (simp only: find_row_update)
  then show ?thesis by blast
qed

lemmas request_edge_simps = request_edge_def same_origin_def

section \<open>Frames of the writes\<close>

lemma update_instance_frame [simp]:
  "requests (update_instance now i f db) = requests db" "status_logs (update_instance now i f db) = status_logs db"
  by (simp_all add: update_instance_def)

lemma versioned_update_frame: "versioned_update c k v db = Inr db' \<Longrightarrow> status_logs db' = status_logs db"
  by (cases k) (auto simp: versioned_update_Inr)

lemma update_request_versioned_frame:
  "update_request_versioned now r v f db = Inr (db', r') \<Longrightarrow>
     status_logs db' = status_logs db \<and> r' = r\<lparr>version := v + 1\<rparr>"
  by (auto simp: update_request_versioned_Inr dest: versioned_update_frame)

lemma find_frames:
  "requests db' = requests db \<Longrightarrow> find_request t k db' = find_request t k db"
  "instances db' = instances db \<Longrightarrow> find_instance t k db' = find_instance t k db"
  "replays db' = replays db \<Longrightarrow> find_replay t k u key db' = find_replay t k u key db"
  by (simp_all add: find_request_def find_instance_def find_replay_def)

end
