(* ===== verification/PresaleSamples.thy ===== *)
theory PresaleSamples
  imports PresaleLifecycle
begin

text \<open>
  Concrete inputs for the witnesses: a service without external ports, a few callers, and
  a database with one request in a given state, its approval instance and its assignments.
\<close>

definition sample_service :: service where
  "sample_service =
     \<lparr>clock_now = 1767225600 * second, day_hours = ''8.00'', digest_of = (\<lambda>_. ''digest''), sha256_hex = (\<lambda>x. x),
      new_event_id = ''event'', owner_directory = None, session_users = (\<lambda>_ _. Inr []), notifications_on = False,
      approval_tasks = None, audit_on = True, freeze_checker = Some (\<lambda>_ _. Inr False), freeze_row = (\<lambda>_ _. False),
      get_accessible = (\<lambda>_ i. Inr \<lparr>opp_id = i, opp_no = ''O-1''\<rparr>), ensure_eligible = (\<lambda>_ _. Inr ()),
      encrypt_phone = Inr, decrypt_phone = Inr, mask_phone = (\<lambda>_. ''***''), approval_rules = None,
      parse_url = (\<lambda>_. None), map_order = (\<lambda>ks. ks)\<rparr>"

definition sample_actor :: "string \<Rightarrow> string list \<Rightarrow> string list \<Rightarrow> actor" where
  "sample_actor u rs ps =
     \<lparr>actor_tenant = ''t'', user_id = u, user_name = u, person_id = u, roles = map (\<lambda>r. (r, True)) rs,
      permissions = map (\<lambda>p. (p, True)) ps, trace_id = ''trace''\<rparr>"

definition sample_request :: "request_status \<Rightarrow> nat \<Rightarrow> string \<Rightarrow> presale_request" where
  "sample_request st node lead =
     \<lparr>row_id = 1, tenant_id = ''t'', created_by = ''sally'', updated_by = ''sally'', created_at = 0, updated_at = 0,
      deleted_at = None, version = 1, request_no = ''TS202601010001'', opportunity_id = 7, opportunity_no = ''O-1'',
      applicant_id = ''sally'', applicant_name = ''Sally'', venue = ''REMOTE'', service_address = [],
      contact_name = ''C'', phone_cipher = ''c'', phone_masked = ''***'', description = ''d'', expected_start = 0,
      expected_end = 1, urgency = ''NORMAL'', status = st, current_node = node, department_id = ''d1'',
      department = ''D'', team_lead = lead, team_lead_name = lead, assignment_level = 0, reject_reason = [],
      completed_at = None, cancelled_at = None, create_key = ''k0'', create_hash = ''h0''\<rparr>"

definition sample_instance :: "nodes_json \<Rightarrow> nat \<Rightarrow> approval_instance" where
  "sample_instance nj node =
     \<lparr>row_id = 1, tenant_id = ''t'', created_by = ''sally'', updated_by = ''sally'', created_at = 0, updated_at = 0,
      deleted_at = None, version = 1, inst_request = 1, engine_instance = ''crm-presale-1'', inst_status = ''PENDING'',
      inst_node = node, last_event_seq = 0, pending_task = [], pending_approver = [], pending_action = [],
      started_at = Some 0, finished_at = None, rule_id = [], rule_version = 0, inst_nodes = nj\<rparr>"

definition sample_assignment :: "nat \<Rightarrow> string \<Rightarrow> assignment_kind \<Rightarrow> assignment" where
  "sample_assignment i person k =
     \<lparr>row_id = i, tenant_id = ''t'', created_by = ''dora'', updated_by = ''dora'', created_at = 0, updated_at = 0,
      deleted_at = None, version = 1, as_request = 1, assignee = person, assignee_namespace = ''USER'',
      assignee_name = person, assignee_department = ''D'', assignee_role = ''technician'', kind = k,
      assigned_by = ''dora'', assigned_at = 0, ended_at = None, is_current = True, batch_no = 1, change_reason = []\<rparr>"

definition sample_db :: "presale_request \<Rightarrow> approval_instance \<Rightarrow> assignment list \<Rightarrow> presale_db" where
  "sample_db r i gs = empty_db
     \<lparr>requests := \<lparr>rows = [r], next_id = 2\<rparr>, instances := \<lparr>rows = [i], next_id = 2\<rparr>,
      assignments := \<lparr>rows = gs, next_id = Suc (length gs)\<rparr>\<rparr>"

lemma sample_db_wf: "table_wf (requests (sample_db (sample_request st n l) i gs))"
  by (simp add: sample_db_def sample_request_def table_wf_def)

lemma upt_nodes: "[1..<11] = [1, 2, 3, 4, 5, 6, 7, 8, 9, 10 :: nat]"
  by (simp add: upt_rec)

lemma show_digit: "n < 10 \<Longrightarrow> show_nat n = [digit_char n]"
  by (simp add: show_nat.simps)

lemmas sample_eval = upt_nodes show_digit
  sample_service_def sample_actor_def sample_request_def sample_instance_def sample_assignment_def sample_db_def
  empty_db_def empty_table_def find_row_def select_rows_def exists_row_def update_rows_def insert_row_def
  find_request_def is_request_def find_instance_def find_replay_def can_def has_role_def role_keys_def
  update_request_versioned_def versioned_update_def update_instance_def create_replay_def replay_allowed_def
  new_replay_def mutation_digest_def text_eval status_log_entry_def create_status_log_def notify_workflow_def

section \<open>Witnesses of the service helpers\<close>

definition sample_directory :: directory where
  "sample_directory =
     \<lparr>dir_list = (\<lambda>_. Inr \<lparr>page_items = [\<lparr>du_id = ''dora'', du_name = ''Dora'', du_orgs = []\<rparr>], page_total = 1\<rparr>),
      dir_resolve = (\<lambda>_. Inr (\<lambda>_. None))\<rparr>"

definition sample_node :: approval_node where
  "sample_node = \<lparr>node_id = ''1'', node_name = ''a'', node_type = NodeApproval, role_code = ''sales_director'', countersign = []\<rparr>"

lemma sample_recipients:
  "role_recipients sample_directory role directory_max_pages 1 [] = Inr [\<lparr>du_id = ''dora'', du_name = ''Dora'', du_orgs = []\<rparr>]"
proof -
  have max: "directory_max_pages = Suc 199" by (simp add: directory_max_pages_def)
  show ?thesis unfolding max role_recipients.simps
    by (simp add: sample_directory_def directory_page_size_def text_eval)
qed

lemma approval_node_reachable_witness:
  "\<exists>db'. notify_approval_node (sample_service\<lparr>notifications_on := True, owner_directory := Some sample_directory\<rparr>) ''t''
       (sample_request PendingApproval 1 []) (sample_instance (Nodes [sample_node]) 1) 1 empty_db = Inr db' \<and>
     (\<exists>us. us \<noteq> [] \<and> distinct (map du_id us) \<and>
        (\<forall>u \<in> set us. du_id u \<noteq> [] \<and> trim_space (du_id u) = du_id u \<and>
          notice_stored (sample_service\<lparr>notifications_on := True, owner_directory := Some sample_directory\<rparr>)
            (approval_notice ''t'' (sample_request PendingApproval 1 []) (sample_instance (Nodes [sample_node]) 1) 1 u) db') \<and>
        approval_role_for_node (inst_nodes (sample_instance (Nodes [sample_node]) 1)) 1 \<noteq> None)"
proof -
  let ?s = "sample_service\<lparr>notifications_on := True, owner_directory := Some sample_directory\<rparr>"
  let ?i = "sample_instance (Nodes [sample_node]) 1"
  have "approval_role_for_node (inst_nodes ?i) 1 = Some ''sales_director''"
    by (simp add: approval_role_for_node_def sample_instance_def sample_node_def text_eval)
  then have "\<exists>db'. notify_approval_node ?s ''t'' (sample_request PendingApproval 1 []) ?i 1 empty_db = Inr db'"
    by (simp add: notify_approval_node_def sample_recipients del: One_nat_def)
  then obtain db' where run: "notify_approval_node ?s ''t'' (sample_request PendingApproval 1 []) ?i 1 empty_db = Inr db'"
    by (elim exE) (rule that)
  have "notifications_on ?s" by simp
  from run approval_node_reachable [OF run this] show ?thesis by (intro exI [of _ db'] conjI)
qed

lemma progress_not_to_author_witness:
  "\<exists>c. c \<in> set (progress_recipients (sample_actor ''tom'' [] []) (sample_request Executing 0 []) []) \<and>
     pr_id c = ''sally'' \<and> pr_id c \<noteq> user_id (sample_actor ''tom'' [] [])"
proof -
  let ?c = "\<lparr>pr_id = ''sally'', pr_namespace = ''USER'', pr_kind = ''APPLICANT'', pr_assignment = 0\<rparr>"
  have c: "?c \<in> set (progress_recipients (sample_actor ''tom'' [] []) (sample_request Executing 0 []) [])"
    by (simp add: progress_recipients_def sample_request_def sample_actor_def)
  from progress_not_to_author [OF c] c show ?thesis
    by (intro exI [of _ ?c]) (simp del: One_nat_def add: sample_request_def sample_actor_def)
qed

end
