(* ===== verification/PresaleApproval.thy ===== *)
theory PresaleApproval
  imports PresaleSamples
begin

text \<open>
  Approval (\<open>service_approval.go\<close>): the engine's start receipt, the approval command with
  and without an external engine, the engine's callback, and the history. A transaction
  maps the database to an error (rolled back) or to the new database.
\<close>

section \<open>The start receipt\<close>

definition mark_approval_started :: "service \<Rightarrow> string \<Rightarrow> started_input \<Rightarrow> presale_db \<Rightarrow> presale_db res" where
  "mark_approval_started s tenant inp db =
     (case find_request tenant (st_request inp) db of
        None \<Rightarrow> Inl ErrNotFound
      | Some r \<Rightarrow>
          if status r = PendingApproval then Inr db
          else if status r \<noteq> ApprovalStarting then Inl ErrInvalidTransition
          else (case find_instance tenant (row_id r) db of
            None \<Rightarrow> Inl ErrNotFound
          | Some i \<Rightarrow>
              if st_seq inp \<le> last_event_seq i then Inr db
              else (let now = approval_round_start (clock_now s);
                        f = (\<lambda>x. x\<lparr>engine_instance := st_instance inp, inst_status := ''PENDING'', inst_node := 1,
                                  last_event_seq := st_seq inp, started_at := Some now\<rparr>);
                        db1 = update_instance (clock_now s) i f db
                    in case update_request_versioned (clock_now s) r (version r)
                         (\<lambda>x. x\<lparr>status := PendingApproval, current_node := 1, updated_by := ''approval-engine''\<rparr>) db1 of
                         Inl e \<Rightarrow> Inl e
                       | Inr (db2, r2) \<Rightarrow>
                           (case (if notifications_on s then notify_approval_node s tenant r2 (f i) 1 db2 else Inr db2) of
                              Inl e \<Rightarrow> Inl e
                            | Inr db3 \<Rightarrow>
                                Inr (status_log_entry s r2 ApprovalStarting PendingApproval ''APPROVAL_STARTED'' []
                                       ''approval-engine'' [] db3)))))"

section \<open>A decision\<close>

text \<open>
  Where a decision leads: \<open>REJECT\<close> ends the approval, otherwise the next approval node
  takes over, and without one the request is approved. The columns of the request and of
  the instance follow; \<open>by_user\<close>, \<open>at\<close> and the sequence number are those of the caller.
\<close>

definition decision_status :: "string \<Rightarrow> nodes_json \<Rightarrow> nat \<Rightarrow> request_status" where
  "decision_status result nj node =
     (if result = ''REJECT'' then Rejected
      else if next_approval_node nj node \<noteq> None then PendingApproval
      else ApprovedPendingAssignment)"

definition decide_request ::
  "string \<Rightarrow> string \<Rightarrow> string \<Rightarrow> nodes_json \<Rightarrow> nat \<Rightarrow> presale_request \<Rightarrow> presale_request" where
  "decide_request by_user result comment nj node x =
     (let y = x\<lparr>updated_by := by_user\<rparr>
      in if result = ''REJECT'' then y\<lparr>status := Rejected, reject_reason := comment, current_node := 0\<rparr>
         else (case next_approval_node nj node of
                 Some m \<Rightarrow> y\<lparr>current_node := m\<rparr>
               | None \<Rightarrow> y\<lparr>status := ApprovedPendingAssignment, current_node := 0\<rparr>))"

definition decide_instance ::
  "string \<Rightarrow> nat \<Rightarrow> instant \<Rightarrow> nodes_json \<Rightarrow> nat \<Rightarrow> approval_instance \<Rightarrow> approval_instance" where
  "decide_instance result sequence at nj node x =
     (let y = x\<lparr>last_event_seq := sequence\<rparr>
      in if result = ''REJECT'' then y\<lparr>inst_status := ''REJECTED'', finished_at := Some at\<rparr>
         else (case next_approval_node nj node of
                 Some m \<Rightarrow> y\<lparr>inst_node := m\<rparr>
               | None \<Rightarrow> y\<lparr>inst_status := ''APPROVED'', finished_at := Some at\<rparr>))"

definition approved_notice :: "string \<Rightarrow> presale_request \<Rightarrow> approval_instance \<Rightarrow> workflow_notification" where
  "approved_notice tenant r i =
     request_notice tenant (applicant_id r) ''PRESALE_APPROVAL_APPROVED'' txt_approval_approved_title
       txt_approval_approved_body r (approval_round_discriminator i)"

definition rejected_notice :: "string \<Rightarrow> presale_request \<Rightarrow> approval_instance \<Rightarrow> string \<Rightarrow> workflow_notification" where
  "rejected_notice tenant r i comment =
     request_notice tenant (applicant_id r) ''PRESALE_APPROVAL_REJECTED'' txt_approval_rejected_title
       (txt_approval_rejected_body @ comment) r (approval_round_discriminator i)"

section \<open>The approval command without an engine\<close>

definition apply_internal_approval ::
  "service \<Rightarrow> actor \<Rightarrow> presale_request \<Rightarrow> approval_instance \<Rightarrow> string \<Rightarrow> string \<Rightarrow> string \<Rightarrow> action_input \<Rightarrow> presale_db
     \<Rightarrow> presale_db res" where
  "apply_internal_approval s a r i key replay_action hash inp db =
     (let node = current_node r;
          nj = inst_nodes i;
          sequence = (last_event_seq i + 1) mod 2 ^ 64;
          task = ''crm-task-'' @ show_nat (row_id r) @ ''-'' @ show_nat node @ ''-'' @ show_nat (version r);
          to_status = decision_status (act_action inp) nj node
      in case actor_display_name s a of
        Inl e \<Rightarrow> Inl e
      | Inr name \<Rightarrow>
        (case create_approval_log \<lparr>row_id = 0, tenant_id = actor_tenant a, al_request = row_id r, al_node = node,
             al_approver = user_id a, al_approver_name = name, al_result = act_action inp,
             al_comment = act_comment inp, al_approved_at = clock_now s, al_task = task,
             al_instance = engine_instance i, al_seq = sequence, al_trace = trace_id a\<rparr> db of
          Inl e \<Rightarrow> Inl e
        | Inr db1 \<Rightarrow>
          (case (case (if act_action inp = ''REJECT'' then None else next_approval_node nj node) of
                   Some m \<Rightarrow> (if notifications_on s then notify_approval_node s (actor_tenant a) r i m db1 else Inr db1)
                 | None \<Rightarrow> Inr db1) of
            Inl e \<Rightarrow> Inl e
          | Inr db2 \<Rightarrow>
            (let db3 = update_instance (clock_now s) i
                   (\<lambda>x. (decide_instance (act_action inp) sequence (clock_now s) nj node x)\<lparr>updated_by := user_id a\<rparr>) db2
             in case update_request_versioned (clock_now s) r (version r)
                    (decide_request (user_id a) (act_action inp) (act_comment inp) nj node) db3 of
                  Inl e \<Rightarrow> Inl e
                | Inr (db4, r4) \<Rightarrow>
                  (let db5 = (if to_status = ApprovedPendingAssignment
                              then notify_workflow s (approved_notice (actor_tenant a) r4 i) db4 else db4);
                       db6 = (if to_status = Rejected
                              then notify_workflow s (rejected_notice (actor_tenant a) r4 i (act_comment inp)) db5
                              else db5)
                   in case create_replay (new_replay a (row_id r) key ''APPROVAL_ACTION'' replay_action hash
                             (act_version inp) (clock_now s)) db6 of
                        Inl e \<Rightarrow> Inl e
                      | Inr db7 \<Rightarrow>
                          Inr (if to_status \<noteq> PendingApproval
                               then status_log_entry s r4 PendingApproval to_status ''APPROVAL_INTERNAL''
                                      (act_comment inp) (user_id a) (trace_id a) db7
                               else db7))))))"

section \<open>The approval command\<close>

text \<open>
  With an engine the command only binds the pending task to the instance and queues the
  action; the callback decides.
\<close>

definition queue_approval_action ::
  "service \<Rightarrow> (approval_task_query \<Rightarrow> approval_task res) \<Rightarrow> actor \<Rightarrow> presale_request \<Rightarrow> approval_instance \<Rightarrow> nat \<Rightarrow> string
     \<Rightarrow> string \<Rightarrow> action_input \<Rightarrow> presale_db \<Rightarrow> presale_db res" where
  "queue_approval_action s resolver a r i req key hash inp db =
     (if pending_task i \<noteq> [] \<or> pending_approver i \<noteq> [] \<or> pending_action i \<noteq> [] then Inl ErrInvalidTransition
      else case resolver \<lparr>tq_tenant = actor_tenant a, tq_instance = engine_instance i, tq_approver = user_id a,
                          tq_node = current_node r\<rparr> of
        Inl e \<Rightarrow> Inl ErrDependencyUnavailable
      | Inr t \<Rightarrow>
        if task_id t = [] \<or> task_instance t \<noteq> engine_instance i \<or> task_node t \<noteq> current_node r \<or>
           task_approver t \<noteq> user_id a then Inl ErrDependencyUnavailable
        else (case create_outbox (pending_outbox (new_event_id s) (actor_tenant a) ''PRESALE_APPROVAL_ACTION_REQUESTED''
                     ''presale_request'' (show_nat req)
                     (ApprovalActionPayload req (task_id t) (act_action inp) (act_comment inp) (user_id a) (act_version inp))
                     (clock_now s)) db of
                Inl e \<Rightarrow> Inl e
              | Inr db1 \<Rightarrow>
                  create_replay (new_replay a req key ''APPROVAL_ACTION''
                      (approval_replay_action (current_node r) (act_action inp)) hash (version r) (clock_now s))
                    (update_instance (clock_now s) i
                       (\<lambda>x. x\<lparr>pending_task := task_id t, pending_approver := user_id a,
                              pending_action := act_action inp, updated_by := user_id a\<rparr>) db1)))"

definition approval_action_tx ::
  "service \<Rightarrow> actor \<Rightarrow> nat \<Rightarrow> string \<Rightarrow> string \<Rightarrow> action_input \<Rightarrow> presale_db \<Rightarrow> presale_db res" where
  "approval_action_tx s a req key hash inp db =
     (case find_request (actor_tenant a) req db of
        None \<Rightarrow> Inl ErrNotFound
      | Some r \<Rightarrow>
        (case find_instance (actor_tenant a) req db of
          None \<Rightarrow> (if \<not> approval_node_role_allowed a (current_node r) then Inl ErrForbidden else Inl ErrNotFound)
        | Some i \<Rightarrow>
          (case find_replay (actor_tenant a) req (user_id a) key db of
            Some old \<Rightarrow>
              (case validate_approval_replay old a req (act_action inp) hash (inst_nodes i) of
                 Inl e \<Rightarrow> Inl e
               | Inr _ \<Rightarrow> Inr db)
          | None \<Rightarrow>
            if status r \<noteq> PendingApproval \<or> version r \<noteq> act_version inp then Inl ErrInvalidTransition
            else if \<not> approval_node_allowed_for_instance a (current_node r) (inst_nodes i) then Inl ErrForbidden
            else if engine_instance i = [] \<or> inst_node i \<noteq> current_node r \<or> inst_status i \<noteq> ''PENDING''
            then Inl ErrDependencyUnavailable
            else (case approval_tasks s of
                    None \<Rightarrow> apply_internal_approval s a r i key
                              (approval_replay_action (current_node r) (act_action inp)) hash inp db
                  | Some resolver \<Rightarrow> queue_approval_action s resolver a r i req key hash inp db))))"

definition approval_action_input :: "action_input \<Rightarrow> action_input" where
  "approval_action_input inp =
     inp\<lparr>act_action := to_upper (trim_space (act_action inp)), act_comment := trim_space (act_comment inp)\<rparr>"

text \<open>
  \<open>RequestApprovalAction\<close>: the checks before the transaction, in the code's order, and
  the command. Only a duplicate key leads to the race resolution; the other errors are
  returned as they are.
\<close>

definition approval_precheck :: "actor \<Rightarrow> string \<Rightarrow> action_input \<Rightarrow> presale_error option" where
  "approval_precheck a key inp =
     (if \<not> can a ''presale.approve'' then Some ErrForbidden
      else if key = [] \<or> 128 < length key then Some ErrInvalidInput
      else if act_action inp \<noteq> ''PASS'' \<and> act_action inp \<noteq> ''REJECT'' then Some ErrInvalidInput
      else if act_version inp = 0 \<or> 2000 < rune_len (act_comment inp) \<or>
              act_action inp = ''REJECT'' \<and> act_comment inp = [] then Some ErrInvalidInput
      else if roles a = [] then Some ErrForbidden
      else None)"

definition approval_hash :: "service \<Rightarrow> actor \<Rightarrow> nat \<Rightarrow> action_input \<Rightarrow> string" where
  "approval_hash s a req inp =
     mutation_digest s a req ''APPROVAL_ACTION'' (act_action inp) (PApproval (act_comment inp) (act_version inp))"

definition request_approval_action ::
  "service \<Rightarrow> actor \<Rightarrow> nat \<Rightarrow> string \<Rightarrow> action_input \<Rightarrow> presale_db \<Rightarrow> presale_db res" where
  "request_approval_action s a req key0 inp0 db =
     (let key = trim_space key0; inp = approval_action_input inp0
      in case approval_precheck a key inp of
           Some e \<Rightarrow> Inl e
         | None \<Rightarrow>
             (let hash = approval_hash s a req inp
              in case approval_action_tx s a req key hash inp db of
                   Inr db' \<Rightarrow> Inr db'
                 | Inl e \<Rightarrow>
                     if \<not> is_duplicate_error e then Inl e
                     else (case resolve_approval_race a req key (act_action inp) hash db of
                             Inl e' \<Rightarrow> Inl e'
                           | Inr _ \<Rightarrow> Inr db)))"

section \<open>The callback of the engine\<close>

definition valid_task_identity :: "string \<Rightarrow> bool" where
  "valid_task_identity v \<longleftrightarrow>
     v \<noteq> [] \<and> v = trim_space v \<and> length v \<le> 128 \<and> \<not> contains_any v [CHR 0x0D, CHR 0x0A, CHR 0x00]"

definition normalize_callback :: "callback_input \<Rightarrow> callback_input" where
  "normalize_callback c =
     c\<lparr>cb_instance := trim_space (cb_instance c), cb_task := trim_space (cb_task c),
       cb_approver := trim_space (cb_approver c), cb_approver_name := trim_space (cb_approver_name c),
       cb_next_approver := trim_space (cb_next_approver c), cb_next_name := trim_space (cb_next_name c),
       cb_result := to_upper (trim_space (cb_result c)), cb_comment := trim_space (cb_comment c)\<rparr>"

definition valid_callback :: "callback_input \<Rightarrow> bool" where
  "valid_callback c \<longleftrightarrow>
     \<not> (cb_request c = 0 \<or> cb_seq c = 0 \<or> cb_occurred c = zero_time \<or> cb_node c < 1 \<or> 10 < cb_node c \<or>
        \<not> valid_task_identity (cb_instance c) \<or> \<not> valid_task_identity (cb_task c) \<or>
        \<not> valid_task_identity (cb_approver c) \<or>
        cb_approver_name c = [] \<or> 128 < rune_len (cb_approver_name c) \<or> 2000 < rune_len (cb_comment c) \<or>
        cb_next_approver c \<noteq> [] \<and>
          (\<not> valid_task_identity (cb_next_approver c) \<or> cb_next_name c = [] \<or> 128 < rune_len (cb_next_name c)) \<or>
        cb_result c \<noteq> ''PASS'' \<and> cb_result c \<noteq> ''REJECT'' \<or> cb_result c = ''REJECT'' \<and> cb_comment c = [])"

definition same_callback :: "approval_log \<Rightarrow> callback_input \<Rightarrow> bool" where
  "same_callback l c \<longleftrightarrow>
     al_request l = cb_request c \<and> al_instance l = cb_instance c \<and> al_seq l = cb_seq c \<and> al_node l = cb_node c \<and>
     al_approver l = cb_approver c \<and> al_approver_name l = cb_approver_name c \<and> al_result l = cb_result c \<and>
     al_comment l = cb_comment c \<and> al_approved_at l = cb_occurred c"

definition callback_tx :: "service \<Rightarrow> string \<Rightarrow> callback_input \<Rightarrow> presale_db \<Rightarrow> presale_db res" where
  "callback_tx s tenant c db =
     (case find_engine_task_log tenant (cb_task c) db of
        Some old \<Rightarrow> (if \<not> same_callback old c then Inl ErrInvalidApprovalEvent else Inr db)
      | None \<Rightarrow>
        (case find_request tenant (cb_request c) db of
          None \<Rightarrow> Inl ErrNotFound
        | Some r \<Rightarrow>
          (case find_instance tenant (row_id r) db of
            None \<Rightarrow> Inl ErrNotFound
          | Some i \<Rightarrow>
            if engine_instance i \<noteq> cb_instance c \<or> cb_seq c \<le> last_event_seq i \<or> status r \<noteq> PendingApproval \<or>
               current_node r \<noteq> cb_node c \<or> pending_task i = [] \<or> pending_task i \<noteq> cb_task c \<or>
               pending_approver i = [] \<or> pending_approver i \<noteq> cb_approver c \<or> pending_action i \<noteq> cb_result c
            then Inl ErrInvalidApprovalEvent
            else (case create_approval_log \<lparr>row_id = 0, tenant_id = tenant, al_request = row_id r, al_node = cb_node c,
                     al_approver = cb_approver c, al_approver_name = cb_approver_name c, al_result = cb_result c,
                     al_comment = cb_comment c, al_approved_at = cb_occurred c, al_task = cb_task c,
                     al_instance = cb_instance c, al_seq = cb_seq c, al_trace = []\<rparr> db of
              Inl e \<Rightarrow> Inl e
            | Inr db1 \<Rightarrow>
              (let nj = inst_nodes i;
                   to_status = decision_status (cb_result c) nj (cb_node c);
                   db2 = update_instance (clock_now s) i
                     (\<lambda>x. (decide_instance (cb_result c) (cb_seq c) (cb_occurred c) nj (cb_node c) x)
                            \<lparr>pending_task := [], pending_approver := [], pending_action := []\<rparr>) db1
               in case update_request_versioned (clock_now s) r (version r)
                      (decide_request ''approval-engine'' (cb_result c) (cb_comment c) nj (cb_node c)) db2 of
                    Inl e \<Rightarrow> Inl e
                  | Inr (db3, r3) \<Rightarrow>
                    (case (if cb_result c = ''PASS'' \<and> to_status = PendingApproval \<and> notifications_on s
                           then (case next_approval_node nj (cb_node c) of
                                   None \<Rightarrow> Inl ErrDependencyUnavailable
                                 | Some m \<Rightarrow> notify_approval_node s tenant r3 i m db3)
                           else if cb_result c = ''PASS'' \<and> to_status \<noteq> PendingApproval
                           then Inr (notify_workflow s (approved_notice tenant r3 i) db3)
                           else Inr db3) of
                       Inl e \<Rightarrow> Inl e
                     | Inr db4 \<Rightarrow>
                       (let db5 = (if cb_result c = ''REJECT''
                                   then notify_workflow s (rejected_notice tenant r3 i (cb_comment c)) db4 else db4)
                        in Inr (if to_status \<noteq> PendingApproval
                                then status_log_entry s r3 PendingApproval to_status ''APPROVAL_CALLBACK''
                                       (cb_comment c) (cb_approver c) [] db5
                                else db5))))))))"

definition handle_approval_callback :: "service \<Rightarrow> string \<Rightarrow> callback_input \<Rightarrow> presale_db \<Rightarrow> presale_db res" where
  "handle_approval_callback s tenant c0 db =
     (let c = normalize_callback c0
      in if \<not> valid_callback c then Inl ErrInvalidApprovalEvent else callback_tx s tenant c db)"

section \<open>History\<close>

definition approval_history :: "actor \<Rightarrow> nat \<Rightarrow> presale_db \<Rightarrow> approval_log list res" where
  "approval_history a req db =
     (if \<not> can a ''presale.read'' then Inl ErrForbidden
      else case find_request (actor_tenant a) req db of
        None \<Rightarrow> Inl ErrNotFound
      | Some r \<Rightarrow>
          (case require_readable a r db of
             Inl e \<Rightarrow> Inl e
           | Inr _ \<Rightarrow> Inr (list_approval_logs (actor_tenant a) req db)))"

section \<open>What the operations do to a request\<close>

lemma create_approval_log_frame [db_frame]:
  "create_approval_log l db = Inr db' \<Longrightarrow> \<exists>t. db' = db\<lparr>approval_logs := t\<rparr>"
  by (auto simp: create_approval_log_def split: if_splits)

lemma notify_if_frame:
  "(if c then notify_approval_node s tenant r i node db else Inr db) = Inr db' \<Longrightarrow>
     requests db' = requests db \<and> status_logs db' = status_logs db"
  by (auto split: if_splits dest: notify_approval_node_frame)

lemma mark_approval_started_evolves:
  assumes wf: "table_wf (requests db)"
  shows "ok (mark_approval_started s tenant inp db) (evolves db)"
  unfolding mark_approval_started_def
proof (intro ok_intro, goal_cases)
  case (3 r i now f db1 x db2 r2 db3)
  show ?case
    by (rule evolves_moved [OF wf 3(1) 3(9) [unfolded 3(10)]])
       (use 3 notify_if_frame [OF 3(11)] update_request_versioned_frame [OF 3(9) [unfolded 3(10)]] in
         \<open>auto simp: request_edge_simps logged_def\<close>)
qed auto

lemma decide_request_edge:
  "status r = PendingApproval \<Longrightarrow> request_edge r ((decide_request u result c nj node r)\<lparr>version := v, updated_at := t\<rparr>)"
  if "v = version r + 1"
  using that by (auto simp: decide_request_def request_edge_simps Let_def split: option.splits)

lemma decide_request_status:
  "status r = PendingApproval \<Longrightarrow> status (decide_request u result c nj node r) = decision_status result nj node"
  by (auto simp: decide_request_def decision_status_def Let_def split: option.splits)

lemma notify_step_frame:
  "(case m of None \<Rightarrow> Inr db | Some k \<Rightarrow> if c then notify_approval_node s tenant r i k db else Inr db) = Inr db' \<Longrightarrow>
     requests db' = requests db \<and> status_logs db' = status_logs db"
  by (cases m) (auto dest: notify_if_frame)

text \<open>A decision of a pending request, logged when it ends the approval.\<close>

lemma decision_evolves:
  assumes wf: "table_wf (requests db)" and r: "find_request tenant req db = Some r" "status r = PendingApproval"
    and up: "update_request_versioned now r (version r) (decide_request u result c nj node) db0 = Inr (db1, r1)"
    and base: "requests db0 = requests db" "requests db' = requests db1"
    and same: "decision_status result nj node = PendingApproval \<Longrightarrow> status_logs db' = status_logs db"
    and move: "decision_status result nj node \<noteq> PendingApproval \<Longrightarrow> logged db db' r (decision_status result nj node)"
  shows "evolves db db'"
proof (cases "decision_status result nj node = PendingApproval")
  case True
  then show ?thesis
    by (intro evolves_stayed [OF wf r(1) up base]) (use same r(2) in \<open>auto simp: decide_request_edge decide_request_status\<close>)
next
  case False
  then show ?thesis
    by (intro evolves_moved [OF wf r(1) up base]) (use move r(2) in \<open>auto simp: decide_request_edge decide_request_status\<close>)
qed

lemma apply_internal_approval_evolves:
  assumes wf: "table_wf (requests db)" and r: "find_request tenant req db = Some r" "status r = PendingApproval"
  shows "ok (apply_internal_approval s a r i key ra hash inp db) (evolves db)"
  unfolding apply_internal_approval_def
proof (intro ok_intro, goal_cases)
  case (1 node nj sequence task to_status name db1 db2 db3 x db4 r4 db5 db6 db7)
  note up = 1(10) [unfolded 1(11)]
  note frames = create_approval_log_frame [OF 1(7)] notify_step_frame [OF 1(8)] update_request_versioned_frame [OF up]
    create_replay_frame [OF 1(14)]
  show ?case
    by (rule decision_evolves [OF wf r up]) (use 1(5,9,12,13) r frames in \<open>auto simp: logged_def\<close>)
qed

lemma queue_approval_action_evolves: "ok (queue_approval_action s resolver a r i req key hash inp db) (evolves db)"
  unfolding queue_approval_action_def ok_def
  by (auto dest!: create_outbox_frame create_replay_frame intro!: evolves_same)

lemma approval_action_tx_evolves:
  assumes wf: "table_wf (requests db)"
  shows "ok (approval_action_tx s a req key hash inp db) (evolves db)"
  unfolding approval_action_tx_def
  by (intro ok_intro apply_internal_approval_evolves [OF wf] queue_approval_action_evolves) auto

lemma request_approval_action_evolves:
  assumes wf: "table_wf (requests db)"
  shows "ok (request_approval_action s a req key inp db) (evolves db)"
  unfolding request_approval_action_def
  by (intro ok_intro) (auto dest: okD [OF approval_action_tx_evolves [OF wf]])

lemma callback_tx_evolves:
  assumes wf: "table_wf (requests db)"
  shows "ok (callback_tx s tenant c db) (evolves db)"
  unfolding callback_tx_def
proof (intro ok_intro, goal_cases)
  case (1 r i db1 nj to_status db2 x db3 r3 db4 db5)
  note up = 1(9) [unfolded 1(10)]
  have db4: "requests db4 = requests db3 \<and> status_logs db4 = status_logs db3"
    using 1(11) by (auto split: if_splits dest: notify_approval_node_frame)
  show ?case
    by (rule decision_evolves [OF wf 1(2) _ up])
       (use 1(4,7,8,12) db4 create_approval_log_frame [OF 1(5)] update_request_versioned_frame [OF up] in
         \<open>auto simp: logged_def\<close>)
qed auto

lemma handle_approval_callback_evolves:
  "table_wf (requests db) \<Longrightarrow> ok (handle_approval_callback s tenant c db) (evolves db)"
  unfolding handle_approval_callback_def by (intro ok_intro callback_tx_evolves)

section \<open>Properties of the approval command\<close>

lemma decide_request_identity: "keeps_identity (decide_request u result c nj node)"
  by (auto simp: keeps_identity_def decide_request_def Let_def split: option.split)

lemma find_instance_update:
  assumes "\<And>x. inst_request (f x) = inst_request x" "\<And>x. tenant_id (f x) = tenant_id x"
    "\<And>x. deleted_at (f x) = deleted_at x"
  shows "find_instance tenant req (update_instance now i f db) =
     map_option (\<lambda>x. if row_id x = row_id i \<and> deleted_at x = None then (f x)\<lparr>updated_at := now\<rparr> else x)
       (find_instance tenant req db)"
  unfolding find_instance_def update_instance_def using assms by (simp add: find_row_update)

lemma decide_instance_frame [simp]:
  "inst_request (decide_instance result q t nj node x) = inst_request x"
  "tenant_id (decide_instance result q t nj node x) = tenant_id x"
  "deleted_at (decide_instance result q t nj node x) = deleted_at x"
  "row_id (decide_instance result q t nj node x) = row_id x"
  "inst_nodes (decide_instance result q t nj node x) = inst_nodes x"
  by (simp_all add: decide_instance_def Let_def split: option.split)

lemma find_instance_nodes:
  assumes "find_instance tenant req db = Some i"
    and "\<And>x. inst_request (f x) = inst_request x" "\<And>x. tenant_id (f x) = tenant_id x"
    "\<And>x. deleted_at (f x) = deleted_at x" "\<And>x. inst_nodes (f x) = inst_nodes x"
  shows "\<exists>j. find_instance tenant req (update_instance now i' f db) = Some j \<and> inst_nodes j = inst_nodes i"
  using find_instance_update [of f tenant req now i' db] assms by simp

lemma decide_request_find:
  assumes "update_request_versioned now r v (decide_request u result c nj node) db = Inr (db', r')"
    and "find_request tenant req db = Some x"
  shows "\<exists>y. find_request tenant req db' = Some y"
  using find_request_versioned [OF assms(1) decide_request_identity, of tenant req] assms(2) by auto

lemma approval_precheck_action: "approval_precheck a key inp = None \<Longrightarrow> act_action inp \<in> {''PASS'', ''REJECT''}"
  by (auto simp: approval_precheck_def split: if_splits)

text \<open>
  After the internal command the replay is on record, with the node of the decision.
\<close>

lemma replay_on_record:
  assumes "create_replay (new_replay a req key ''APPROVAL_ACTION'' (approval_replay_action node (act_action inp)) hash v at) db
             = Inr db'"
    and "act_action inp \<in> {''PASS'', ''REJECT''}" and "approval_node_allowed_for_instance a node nj"
  shows "\<exists>m. find_replay (actor_tenant a) req (user_id a) key db' = Some m \<and>
     validate_approval_replay m a req (act_action inp) hash nj = Inr ()"
  using find_replay_created [OF assms(1)] allowed_replay_node [OF create_replay_allowed [OF assms(1)] assms(2)] assms(3)
  by (auto simp: validate_approval_replay_def)

definition approval_on_record :: "service \<Rightarrow> actor \<Rightarrow> nat \<Rightarrow> string \<Rightarrow> string \<Rightarrow> action_input \<Rightarrow> presale_db \<Rightarrow> bool" where
  "approval_on_record s a req key hash inp db \<longleftrightarrow>
     (\<exists>r i m. find_request (actor_tenant a) req db = Some r \<and> find_instance (actor_tenant a) req db = Some i \<and>
        find_replay (actor_tenant a) req (user_id a) key db = Some m \<and>
        validate_approval_replay m a req (act_action inp) hash (inst_nodes i) = Inr ())"

lemma apply_internal_approval_records:
  assumes r: "find_request (actor_tenant a) req db = Some r" and i: "find_instance (actor_tenant a) req db = Some i"
    and act: "act_action inp \<in> {''PASS'', ''REJECT''}"
    and allowed: "approval_node_allowed_for_instance a (current_node r) (inst_nodes i)"
  shows "ok (apply_internal_approval s a r i key (approval_replay_action (current_node r) (act_action inp)) hash inp db)
    (approval_on_record s a req key hash inp)"
  unfolding apply_internal_approval_def
proof (intro ok_intro, goal_cases)
  case (1 node nj sequence task to_status name db1 db2 db3 x db4 r4 db5 db6 db7)
  define db' where "db' = (if to_status \<noteq> PendingApproval
     then status_log_entry s r4 PendingApproval to_status ''APPROVAL_INTERNAL'' (act_comment inp) (user_id a) (trace_id a) db7
     else db7)"
  note up = 1(10) [unfolded 1(11)]
  have rid: "row_id r = req" using r by (auto dest: find_request_Some)
  have db2: "requests db2 = requests db \<and> instances db2 = instances db"
    using create_approval_log_frame [OF 1(7)] 1(8)
    by (auto split: option.splits if_splits dest!: notify_approval_node_frame)
  have db4: "instances db4 = instances db3"
    using up by (auto simp: update_request_versioned_Inr versioned_update_Inr)
  have db6: "requests db6 = requests db4 \<and> instances db6 = instances db4" using 1(12,13) by simp
  have db7: "requests db' = requests db4" "instances db' = instances db4" "replays db' = replays db7"
    using create_replay_frame [OF 1(14)] db6 unfolding db'_def by auto
  have r3: "find_request (actor_tenant a) req db3 = Some r"
    using r find_frames(1) [of db3 db] db2 1(9) by simp
  obtain y where y: "find_request (actor_tenant a) req db' = Some y"
    using decide_request_find [OF up r3] find_frames(1) [OF db7(1)] by auto
  have "find_instance (actor_tenant a) req db2 = Some i" using i find_frames(2) [of db2 db] db2 by simp
  then have "\<exists>j. find_instance (actor_tenant a) req db3 = Some j \<and> inst_nodes j = inst_nodes i"
    unfolding 1(9) by (intro find_instance_nodes) simp_all
  then obtain j where j: "find_instance (actor_tenant a) req db3 = Some j" "inst_nodes j = inst_nodes i" by blast
  then have j': "find_instance (actor_tenant a) req db' = Some j"
    using db4 find_frames(2) [OF db7(2)] find_frames(2) [OF db4] by simp
  from replay_on_record [OF 1(14) [unfolded rid] act allowed]
  obtain m where m: "find_replay (actor_tenant a) req (user_id a) key db7 = Some m"
    "validate_approval_replay m a req (act_action inp) hash (inst_nodes i) = Inr ()" by blast
  have "find_replay (actor_tenant a) req (user_id a) key db' = Some m"
    using m find_frames(3) [OF db7(3)] by simp
  with y j' j(2) m(2) have "approval_on_record s a req key hash inp db'" by (auto simp: approval_on_record_def)
  then show ?case unfolding db'_def .
qed

lemma queue_approval_action_records:
  assumes r: "find_request (actor_tenant a) req db = Some r" and i: "find_instance (actor_tenant a) req db = Some i"
    and act: "act_action inp \<in> {''PASS'', ''REJECT''}"
    and allowed: "approval_node_allowed_for_instance a (current_node r) (inst_nodes i)"
  shows "ok (queue_approval_action s resolver a r i req key hash inp db) (approval_on_record s a req key hash inp)"
  unfolding queue_approval_action_def
proof (intro ok_intro, goal_cases)
  case (1 t db1)
  show ?case unfolding ok_def
  proof (intro allI impI)
    fix db'
    let ?f = "\<lambda>x. x\<lparr>pending_task := task_id t, pending_approver := user_id a, pending_action := act_action inp,
      updated_by := user_id a\<rparr>"
    let ?db2 = "update_instance (clock_now s) i ?f db1"
    assume new: "create_replay (new_replay a req key ''APPROVAL_ACTION''
      (approval_replay_action (current_node r) (act_action inp)) hash (version r) (clock_now s)) ?db2 = Inr db'"
    have db1: "requests db1 = requests db" "instances db1 = instances db"
      using create_outbox_frame [OF 1(4)] by auto
    have db': "requests db' = requests db1" "instances db' = instances ?db2"
      using create_replay_frame [OF new] by auto
    have "find_request (actor_tenant a) req db' = Some r"
      using r find_frames(1) [OF db'(1)] find_frames(1) [OF db1(1)] by simp
    moreover have "find_instance (actor_tenant a) req db1 = Some i" using i find_frames(2) [OF db1(2)] by simp
    then have "\<exists>j. find_instance (actor_tenant a) req ?db2 = Some j \<and> inst_nodes j = inst_nodes i"
      by (intro find_instance_nodes) simp_all
    then obtain j where "find_instance (actor_tenant a) req ?db2 = Some j" "inst_nodes j = inst_nodes i" by blast
    then have "find_instance (actor_tenant a) req db' = Some j" "inst_nodes j = inst_nodes i"
      using find_frames(2) [OF db'(2)] by simp_all
    ultimately show "approval_on_record s a req key hash inp db'"
      using replay_on_record [OF new act allowed] by (auto simp: approval_on_record_def)
  qed
qed

lemma approval_action_tx_records:
  assumes act: "act_action inp \<in> {''PASS'', ''REJECT''}"
  shows "ok (approval_action_tx s a req key hash inp db) (approval_on_record s a req key hash inp)"
  unfolding approval_action_tx_def
  by (intro ok_intro apply_internal_approval_records queue_approval_action_records act)
     (auto simp: approval_on_record_def)

definition recorded_approval :: "service \<Rightarrow> actor \<Rightarrow> nat \<Rightarrow> string \<Rightarrow> action_input \<Rightarrow> presale_db \<Rightarrow> bool" where
  "recorded_approval s a req key inp db \<longleftrightarrow>
     approval_precheck a key inp = None \<and> approval_on_record s a req key (approval_hash s a req inp) inp db"

interpretation approve: idempotent_command
  "\<lambda>_. True" "request_approval_action s a req key inp"
  "recorded_approval s a req (trim_space key) (approval_action_input inp)"
  for s a req key inp
proof
  fix db db' :: presale_db
  assume run: "request_approval_action s a req key inp db = Inr db'"
  let ?key = "trim_space key" and ?inp = "approval_action_input inp"
  let ?hash = "approval_hash s a req ?inp"
  from run have pre: "approval_precheck a ?key ?inp = None"
    by (auto simp: request_approval_action_def Let_def split: option.splits)
  have "approval_on_record s a req ?key ?hash ?inp db'"
  proof (cases "approval_action_tx s a req ?key ?hash ?inp db")
    case (Inr db1)
    with run pre have "db' = db1" by (simp add: request_approval_action_def Let_def)
    then show ?thesis using okD [OF approval_action_tx_records [OF approval_precheck_action [OF pre]] Inr] by simp
  next
    case (Inl e)
    with run pre have "db' = db" "resolve_approval_race a req ?key (act_action ?inp) ?hash db = Inr ()"
      by (auto simp: request_approval_action_def Let_def split: if_splits)
    then show ?thesis
      by (auto simp: resolve_approval_race_def approval_on_record_def)
  qed
  with pre show "recorded_approval s a req ?key ?inp db'" by (simp add: recorded_approval_def)
next
  fix db :: presale_db
  assume "recorded_approval s a req (trim_space key) (approval_action_input inp) db"
  then show "request_approval_action s a req key inp db = Inr db"
    by (auto simp: recorded_approval_def approval_on_record_def request_approval_action_def approval_action_tx_def Let_def)
qed simp

text \<open>
  C27. An approval command is idempotent: repeating it with the same key and input after it
  succeeded succeeds again and changes nothing, even though the request has moved on, and
  whether the decision was taken here or queued for the engine.
\<close>

theorem approval_idempotent:
  assumes "request_approval_action s a req key inp db = Inr db'"
  shows "request_approval_action s a req key inp db' = Inr db'"
  using approve.run_twice [OF TrueI assms] .

definition sample_director :: actor where
  "sample_director = sample_actor ''dora'' [''sales_director''] [''presale.approve'']"

definition sample_pass :: action_input where
  "sample_pass = \<lparr>act_action = ''PASS'', act_comment = [], act_version = 1\<rparr>"

definition pending_db :: "nodes_json \<Rightarrow> presale_db" where
  "pending_db nj = sample_db (sample_request PendingApproval 1 []) (sample_instance nj 1) []"

lemma sample_approval:
  "\<exists>db'. request_approval_action sample_service sample_director 1 ''k1'' sample_pass (pending_db NodesEmpty) = Inr db' \<and>
     map status (rows (requests db')) = [PendingApproval] \<and> map current_node (rows (requests db')) = [2]"
  by (simp add: request_approval_action_def approval_precheck_def approval_action_input_def sample_director_def
      sample_pass_def pending_db_def sample_eval approval_action_tx_def apply_internal_approval_def
      approval_node_allowed_for_instance_def approval_node_role_allowed_def actor_display_name_def
      create_approval_log_def next_approval_node_def approval_replay_action_def decide_request_def
      decision_status_def Let_def del: One_nat_def)

lemma approval_idempotent_witness:
  "\<exists>db'. request_approval_action sample_service sample_director 1 ''k1'' sample_pass (pending_db NodesEmpty) = Inr db' \<and>
     map current_node (rows (requests db')) = [2] \<and>
     request_approval_action sample_service sample_director 1 ''k1'' sample_pass db' = Inr db'"
proof -
  obtain db' where run: "request_approval_action sample_service sample_director 1 ''k1'' sample_pass (pending_db NodesEmpty) = Inr db'"
    and node: "map current_node (rows (requests db')) = [2]" using sample_approval by (elim exE conjE) (rule that)
  show ?thesis using run node approval_idempotent [OF run] by (intro exI conjI)
qed

lemma approval_action_tx_allowed:
  "ok (approval_action_tx s a req key hash inp db) (\<lambda>db'. db' = db \<or>
     (\<exists>r i. find_request (actor_tenant a) req db = Some r \<and> find_instance (actor_tenant a) req db = Some i \<and>
        status r = PendingApproval \<and> version r = act_version inp \<and> inst_node i = current_node r \<and>
        inst_status i = ''PENDING'' \<and> approval_node_allowed_for_instance a (current_node r) (inst_nodes i)))"
  unfolding approval_action_tx_def by (intro ok_intro) (auto simp: ok_def)

text \<open>
  C26. Only an entitled caller decides: if an approval command changes anything, the caller
  holds the approve permission, the request is pending at the version the caller has seen,
  the instance is pending at the same node, and the caller holds the role that node names
  in the snapshot of the rule, or is the super administrator.
\<close>

theorem approval_authorized:
  assumes "request_approval_action s a req key inp db = Inr db'" and "db' \<noteq> db"
  shows "can a ''presale.approve'' \<and>
     (\<exists>r i. find_request (actor_tenant a) req db = Some r \<and> find_instance (actor_tenant a) req db = Some i \<and>
        status r = PendingApproval \<and> version r = act_version inp \<and> inst_node i = current_node r \<and>
        inst_status i = ''PENDING'' \<and> approval_node_allowed_for_instance a (current_node r) (inst_nodes i))"
proof -
  let ?key = "trim_space key" and ?inp = "approval_action_input inp"
  from assms(1) have pre: "approval_precheck a ?key ?inp = None"
    by (auto simp: request_approval_action_def Let_def split: option.splits)
  have "approval_action_tx s a req ?key (approval_hash s a req ?inp) ?inp db = Inr db'"
    using assms pre
    by (cases "approval_action_tx s a req ?key (approval_hash s a req ?inp) ?inp db")
       (auto simp: request_approval_action_def Let_def split: if_splits)
  from okD [OF approval_action_tx_allowed this] assms(2) pre show ?thesis
    by (auto simp: approval_precheck_def approval_action_input_def split: if_splits)
qed

lemma approval_authorized_witness:
  "can sample_director ''presale.approve'' \<and>
   (\<exists>r. find_request ''t'' 1 (pending_db NodesEmpty) = Some r \<and> status r = PendingApproval \<and> version r = 1)"
proof -
  obtain db' where run: "request_approval_action sample_service sample_director 1 ''k1'' sample_pass (pending_db NodesEmpty) = Inr db'"
    and node: "map current_node (rows (requests db')) = [2]" using sample_approval by (elim exE conjE) (rule that)
  then have "db' \<noteq> pending_db NodesEmpty"
    by (auto simp: pending_db_def sample_db_def sample_request_def)
  from approval_authorized [OF run this] show ?thesis
    by (auto simp: sample_director_def sample_actor_def sample_pass_def)
qed

section \<open>A rule that passes validation and blocks its requests\<close>

text \<open>\<open>validateApprovalRule\<close> asks for the role of the first approval node only.\<close>

definition blank_role_rule :: approval_rule where
  "blank_role_rule = (sample_rule ''blank'' 1 ''NORMAL'')\<lparr>nodes :=
     [\<lparr>node_id = ''1'', node_name = ''a'', node_type = NodeApproval, role_code = ''sales_director'', countersign = []\<rparr>,
      \<lparr>node_id = ''2'', node_name = ''b'', node_type = NodeApproval, role_code = [], countersign = []\<rparr>]\<rparr>"

lemma blank_role_rule_valid: "validate_rule blank_role_rule = Inr ()"
proof -
  have "expression_match (expression blank_role_rule) empty_facts = Inr False"
    by (simp add: blank_role_rule_def sample_rule_def expression_match_def condition_match_def empty_facts_def text_eval)
  moreover have "validate_nodes (nodes blank_role_rule) [] [] = Inr []"
    by (simp add: blank_role_rule_def is_assignment_node_def text_eval)
  ultimately show ?thesis
    unfolding validate_rule_iff by (auto simp: blank_role_rule_def sample_rule_def text_eval)
qed

lemma blank_role_next:
  "next_approval_node (Nodes (nodes blank_role_rule)) 1 = Some 2"
  "approval_role_for_node (Nodes (nodes blank_role_rule)) 2 = None"
  by (simp_all add: next_approval_node_def approval_role_for_node_def blank_role_rule_def upt_rec text_eval)

lemma decide_by_internal:
  assumes "approval_tasks s = None" "approval_action_tx s a req key hash inp db = Inr db'" "db' \<noteq> db"
    and "find_request (actor_tenant a) req db = Some r" "find_instance (actor_tenant a) req db = Some i"
  shows "apply_internal_approval s a r i key (approval_replay_action (current_node r) (act_action inp)) hash inp db = Inr db'"
  using assms by (auto simp: approval_action_tx_def split: option.splits sum.splits if_splits)

lemma approval_changed_by_tx:
  assumes "request_approval_action s a req key inp db = Inr db'" "db' \<noteq> db"
  shows "approval_action_tx s a req (trim_space key) (approval_hash s a req (approval_action_input inp))
    (approval_action_input inp) db = Inr db'"
  using assms
  by (cases "approval_action_tx s a req (trim_space key) (approval_hash s a req (approval_action_input inp))
        (approval_action_input inp) db")
     (auto simp: request_approval_action_def Let_def split: option.splits if_splits)

text \<open>
  C33. An accepted rule can leave its requests stuck: the validation checks the role of the
  first approval node only, and a request whose snapshot has a second approval node with a
  blank role can never pass its first node while notifications are wired, whoever tries
  and whatever the directory holds.
\<close>

theorem blank_role_blocks:
  assumes "notifications_on s" "approval_tasks s = None"
    and "find_request (actor_tenant a) req db = Some r" "current_node r = 1"
    and "find_instance (actor_tenant a) req db = Some i" "inst_nodes i = Nodes (nodes blank_role_rule)"
    and "to_upper (trim_space (act_action inp)) = ''PASS''"
    and "request_approval_action s a req key inp db = Inr db'"
  shows "validate_rule blank_role_rule = Inr () \<and> db' = db"
proof (rule conjI [OF blank_role_rule_valid], rule ccontr)
  assume "db' \<noteq> db"
  let ?inp = "approval_action_input inp"
  have "apply_internal_approval s a r i (trim_space key) (approval_replay_action (current_node r) (act_action ?inp))
      (approval_hash s a req ?inp) ?inp db = Inr db'"
    by (rule decide_by_internal [OF assms(2) approval_changed_by_tx [OF assms(8) \<open>db' \<noteq> db\<close>] \<open>db' \<noteq> db\<close> assms(3,5)])
  moreover have "act_action ?inp = ''PASS''" using assms(7) by (simp add: approval_action_input_def)
  moreover have "notify_approval_node s t r i 2 d \<noteq> Inr d'" for t d d'
    using assms(6) by (simp add: notify_approval_node_def blank_role_next)
  ultimately show False
    using assms(1,4,6) by (auto simp: apply_internal_approval_def blank_role_next Let_def simp del: One_nat_def)
qed

lemma blank_role_blocks_witness:
  "\<exists>db'. request_approval_action (sample_service\<lparr>notifications_on := True\<rparr>) sample_director 1 ''k1'' sample_pass db' = Inr db' \<and>
     validate_rule blank_role_rule = Inr ()"
proof -
  let ?s = "sample_service\<lparr>notifications_on := True\<rparr>"
  let ?h = "approval_hash ?s sample_director 1 sample_pass"
  let ?m = "(new_replay sample_director 1 ''k1'' ''APPROVAL_ACTION'' (approval_replay_action 1 ''PASS'') ?h 1 0)\<lparr>row_id := 1\<rparr>"
  let ?db = "(pending_db (Nodes (nodes blank_role_rule)))\<lparr>replays := \<lparr>rows = [?m], next_id = 2\<rparr>\<rparr>"
  have inp: "approval_action_input sample_pass = sample_pass"
    by (simp add: approval_action_input_def sample_pass_def text_eval)
  have run: "request_approval_action ?s sample_director 1 ''k1'' sample_pass ?db = Inr ?db"
    unfolding request_approval_action_def inp
    by (simp add: approval_precheck_def sample_director_def sample_pass_def pending_db_def sample_eval
        approval_action_tx_def validate_approval_replay_def approval_replay_parse
        approval_node_allowed_for_instance_def blank_role_rule_def sample_rule_def approval_hash_def Let_def)
  have "validate_rule blank_role_rule = Inr () \<and> ?db = ?db"
    by (rule blank_role_blocks [where r = "sample_request PendingApproval 1 []"
          and i = "sample_instance (Nodes (nodes blank_role_rule)) 1", OF _ _ _ _ _ _ _ run])
       (simp_all add: sample_eval pending_db_def sample_director_def sample_pass_def)
  with run show ?thesis by auto
qed

section \<open>Properties of the callback\<close>

lemma find_instance_Some:
  "find_instance tenant req db = Some i \<Longrightarrow> tenant_id i = tenant \<and> inst_request i = req \<and> deleted_at i = None"
  unfolding find_instance_def by (drule find_row_Some) simp

lemma callback_fresh:
  assumes "callback_tx s tenant c db = Inr db'" "find_engine_task_log tenant (cb_task c) db = None"
  shows "\<exists>r i. find_request tenant (cb_request c) db = Some r \<and> find_instance tenant (cb_request c) db = Some i \<and>
     status r = PendingApproval \<and> current_node r = cb_node c \<and> engine_instance i = cb_instance c \<and>
     last_event_seq i < cb_seq c \<and> pending_task i = cb_task c \<and> pending_approver i = cb_approver c \<and>
     pending_action i = cb_result c \<and>
     (\<exists>l. approval_logs db' = snd (insert_row l (approval_logs db)) \<and> tenant_id l = tenant \<and> al_task l = cb_task c \<and>
          same_callback (l\<lparr>al_approved_at := cb_occurred c\<rparr>) c \<and> al_approved_at l = datetime3 (cb_occurred c)) \<and>
     (\<exists>i'. find_instance tenant (cb_request c) db' = Some i' \<and> last_event_seq i' = cb_seq c \<and> pending_task i' = [])"
proof -
  have "ok (callback_tx s tenant c db) (\<lambda>db'. \<exists>r i. find_request tenant (cb_request c) db = Some r \<and> find_instance tenant (cb_request c) db = Some i \<and>
     status r = PendingApproval \<and> current_node r = cb_node c \<and> engine_instance i = cb_instance c \<and>
     last_event_seq i < cb_seq c \<and> pending_task i = cb_task c \<and> pending_approver i = cb_approver c \<and>
     pending_action i = cb_result c \<and>
     (\<exists>l. approval_logs db' = snd (insert_row l (approval_logs db)) \<and> tenant_id l = tenant \<and> al_task l = cb_task c \<and>
          same_callback (l\<lparr>al_approved_at := cb_occurred c\<rparr>) c \<and> al_approved_at l = datetime3 (cb_occurred c)) \<and>
     (\<exists>i'. find_instance tenant (cb_request c) db' = Some i' \<and> last_event_seq i' = cb_seq c \<and> pending_task i' = []))"
    unfolding callback_tx_def
  proof (intro ok_intro, goal_cases)
    case (1 r i db1 nj to_status db2 x db3 r3 db4 db5)
    note up = 1(9) [unfolded 1(10)]
    let ?db' = "if to_status \<noteq> PendingApproval
      then status_log_entry s r3 PendingApproval to_status ''APPROVAL_CALLBACK'' (cb_comment c) (cb_approver c) [] db5
      else db5"
    have rid: "row_id r = cb_request c" using 1(2) by (auto dest: find_request_Some)
    have db4: "instances db4 = instances db3 \<and> approval_logs db4 = approval_logs db3"
      using 1(11) by (auto split: if_splits dest: notify_approval_node_frame)
    have db3: "instances db3 = instances db2 \<and> approval_logs db3 = approval_logs db2"
      using up by (auto simp: update_request_versioned_Inr versioned_update_Inr)
    have db5: "instances ?db' = instances db2 \<and> approval_logs ?db' = approval_logs db2"
      using 1(12) db3 db4 by simp
    have db1: "instances db1 = instances db" "approval_logs db2 = approval_logs db1"
      using create_approval_log_frame [OF 1(5)] 1(8) by (auto simp: update_instance_def)
    let ?l = "\<lparr>row_id = 0, tenant_id = tenant, al_request = row_id r, al_node = cb_node c,
      al_approver = cb_approver c, al_approver_name = cb_approver_name c, al_result = cb_result c,
      al_comment = cb_comment c, al_approved_at = datetime3 (cb_occurred c), al_task = cb_task c,
      al_instance = cb_instance c, al_seq = cb_seq c, al_trace = []\<rparr>"
    have "approval_logs db1 = snd (insert_row ?l (approval_logs db))"
      using 1(5) by (auto simp: create_approval_log_def split: if_splits)
    then have l: "approval_logs ?db' = snd (insert_row ?l (approval_logs db))" using db5 db1 by simp
    have i1: "find_instance tenant (cb_request c) db1 = Some i"
      using 1(3) rid find_frames(2) [OF db1(1)] by simp
    have "find_instance tenant (cb_request c) db2 = Some ((decide_instance (cb_result c) (cb_seq c) (cb_occurred c) nj (cb_node c) i)
        \<lparr>pending_task := [], pending_approver := [], pending_action := [], updated_at := clock_now s\<rparr>)"
      using i1 find_instance_Some [OF i1] by (subst 1(8), subst find_instance_update) auto
    then have stored: "find_instance tenant (cb_request c) ?db' = Some ((decide_instance (cb_result c) (cb_seq c) (cb_occurred c) nj (cb_node c) i)
        \<lparr>pending_task := [], pending_approver := [], pending_action := [], updated_at := clock_now s\<rparr>)"
      using find_frames(2) [of ?db' db2] db5 by simp
    have seq: "last_event_seq (decide_instance (cb_result c) (cb_seq c) (cb_occurred c) nj (cb_node c) i) = cb_seq c"
      by (simp add: decide_instance_def Let_def split: option.split)
    have same: "same_callback (?l\<lparr>al_approved_at := cb_occurred c\<rparr>) c" using rid by (simp add: same_callback_def)
    show ?case
    proof (rule exI [of _ r], rule exI [of _ i], intro conjI)
      show "\<exists>l. approval_logs ?db' = snd (insert_row l (approval_logs db)) \<and> tenant_id l = tenant \<and> al_task l = cb_task c \<and>
          same_callback (l\<lparr>al_approved_at := cb_occurred c\<rparr>) c \<and> al_approved_at l = datetime3 (cb_occurred c)"
        using l same by (intro exI [of _ ?l] conjI) simp_all
      show "\<exists>i'. find_instance tenant (cb_request c) ?db' = Some i' \<and> last_event_seq i' = cb_seq c \<and> pending_task i' = []"
        using seq by - (rule exI, rule conjI, rule stored, simp)
    qed (use 1(2,3,4) rid in auto)
  qed (use assms(2) in auto)
  from okD [OF this assms(1)] show ?thesis .
qed

lemma find_log_inserted:
  assumes "find_engine_task_log tenant task db = None" "approval_logs db' = snd (insert_row l (approval_logs db))"
    and "tenant_id l = tenant" "al_task l = task"
  shows "find_engine_task_log tenant task db' = Some (l\<lparr>row_id := next_id (approval_logs db)\<rparr>)"
  using assms by (simp add: find_engine_task_log_def find_row_insert fst_insert_row)

lemma same_callback_row [simp]: "same_callback (l\<lparr>row_id := k\<rparr>) c = same_callback l c"
  by (simp add: same_callback_def)

lemma handle_callback_tx:
  "handle_approval_callback s tenant c db = Inr db' \<longleftrightarrow>
     valid_callback (normalize_callback c) \<and> callback_tx s tenant (normalize_callback c) db = Inr db'"
  by (simp add: handle_approval_callback_def Let_def)

lemma normalize_callback_occurred [simp]: "cb_occurred (normalize_callback c) = cb_occurred c"
  by (simp add: normalize_callback_def)

lemma callback_changes_fresh:
  "callback_tx s tenant c db = Inr db' \<Longrightarrow> db' \<noteq> db \<Longrightarrow> find_engine_task_log tenant (cb_task c) db = None"
  by (auto simp: callback_tx_def split: option.splits if_splits)

text \<open>
  C28. A callback is applied only against the command that is waiting for it: when it
  changes anything, the request is pending at the node of the event, and the instance is
  the one of the event and waits for that task, that approver and that action; its
  sequence number then strictly increases to the one of the event and the binding is
  cleared, so an older event, and any second event for the task, is refused.
\<close>

theorem callback_bound:
  assumes "handle_approval_callback s tenant c0 db = Inr db'" "db' \<noteq> db" "c = normalize_callback c0"
  shows "\<exists>r i i'. find_request tenant (cb_request c) db = Some r \<and> find_instance tenant (cb_request c) db = Some i \<and>
     status r = PendingApproval \<and> current_node r = cb_node c \<and> engine_instance i = cb_instance c \<and>
     pending_task i = cb_task c \<and> pending_approver i = cb_approver c \<and> pending_action i = cb_result c \<and>
     find_instance tenant (cb_request c) db' = Some i' \<and> pending_task i' = [] \<and>
     last_event_seq i < cb_seq c \<and> last_event_seq i' = cb_seq c"
proof -
  from assms have tx: "callback_tx s tenant c db = Inr db'" by (simp add: handle_callback_tx)
  from callback_fresh [OF tx callback_changes_fresh [OF tx assms(2)]] show ?thesis by (elim exE conjE) (intro exI conjI)
qed

text \<open>
  C29. Redelivery of an applied callback is harmless when the event time is in whole
  milliseconds: the same event succeeds again and changes nothing.
\<close>

theorem callback_redelivered:
  assumes "handle_approval_callback s tenant c db = Inr db'" "datetime3 (cb_occurred c) = cb_occurred c"
  shows "handle_approval_callback s tenant c db' = Inr db'"
proof (cases "db' = db")
  case False
  let ?c = "normalize_callback c"
  from assms(1) have tx: "valid_callback ?c" "callback_tx s tenant ?c db = Inr db'" by (simp_all add: handle_callback_tx)
  note fresh = callback_changes_fresh [OF tx(2) False]
  from callback_fresh [OF tx(2) fresh] obtain l where
    l: "approval_logs db' = snd (insert_row l (approval_logs db))" "tenant_id l = tenant" "al_task l = cb_task ?c"
    "same_callback (l\<lparr>al_approved_at := cb_occurred ?c\<rparr>) ?c" "al_approved_at l = datetime3 (cb_occurred ?c)"
    by (elim exE conjE)
  have "same_callback l ?c" using l(4,5) assms(2) by (simp add: same_callback_def)
  with find_log_inserted [OF fresh l(1-3)] tx(1) show ?thesis
    by (simp add: handle_callback_tx callback_tx_def)
qed (use assms in simp)

text \<open>
  C30. Redelivery of the same event with a finer event time is refused: the log keeps the
  time rounded to milliseconds and the comparison with the event is exact, so the engine
  gets an invalid-event error for an event that was applied.
\<close>

theorem callback_redelivery_refused:
  assumes "handle_approval_callback s tenant c db = Inr db'" "db' \<noteq> db" "datetime3 (cb_occurred c) \<noteq> cb_occurred c"
  shows "handle_approval_callback s tenant c db' = Inl ErrInvalidApprovalEvent"
proof -
  let ?c = "normalize_callback c"
  from assms(1) have tx: "valid_callback ?c" "callback_tx s tenant ?c db = Inr db'" by (simp_all add: handle_callback_tx)
  note fresh = callback_changes_fresh [OF tx(2) assms(2)]
  from callback_fresh [OF tx(2) fresh] obtain l where
    l: "approval_logs db' = snd (insert_row l (approval_logs db))" "tenant_id l = tenant" "al_task l = cb_task ?c"
    "al_approved_at l = datetime3 (cb_occurred ?c)"
    by (elim exE conjE)
  have "\<not> same_callback l ?c" using l(4) assms(3) by (simp add: same_callback_def)
  with find_log_inserted [OF fresh l(1-3)] tx(1) show ?thesis
    by (simp add: handle_approval_callback_def callback_tx_def)
qed

definition sample_callback :: "instant \<Rightarrow> callback_input" where
  "sample_callback t =
     \<lparr>cb_request = 1, cb_instance = ''crm-presale-1'', cb_task = ''task'', cb_seq = 5, cb_node = 1, cb_result = ''PASS'',
      cb_comment = [], cb_approver = ''dora'', cb_approver_name = ''Dora'', cb_next_approver = [], cb_next_name = [],
      cb_occurred = t\<rparr>"

definition waiting_db :: presale_db where
  "waiting_db = sample_db (sample_request PendingApproval 1 [])
     ((sample_instance NodesEmpty 1)\<lparr>pending_task := ''task'', pending_approver := ''dora'', pending_action := ''PASS''\<rparr>) []"

lemma sample_callback_applied:
  assumes "t \<noteq> zero_time"
  shows "\<exists>db'. handle_approval_callback sample_service ''t'' (sample_callback t) waiting_db = Inr db' \<and>
     map current_node (rows (requests db')) = [2]"
proof -
  have c: "normalize_callback (sample_callback t) = sample_callback t"
    by (simp add: normalize_callback_def sample_callback_def text_eval)
  have v: "valid_callback (sample_callback t)"
    using assms by (simp add: valid_callback_def sample_callback_def valid_task_identity_def contains_any_def text_eval)
  show ?thesis unfolding handle_callback_tx c
    using v by (simp add: callback_tx_def waiting_db_def sample_eval sample_callback_def find_engine_task_log_def
      create_approval_log_def next_approval_node_def decide_request_def decision_status_def Let_def del: One_nat_def)
qed

lemma waiting_changed: "map current_node (rows (requests db')) = [2] \<Longrightarrow> db' \<noteq> waiting_db"
  by (auto simp: waiting_db_def sample_db_def sample_request_def)

lemma nonzero_times: "(0 :: instant) \<noteq> zero_time" "(1 :: instant) \<noteq> zero_time"
  by (simp_all add: zero_time_def)

lemma callback_bound_witness:
  "\<exists>db' r i i'. handle_approval_callback sample_service ''t'' (sample_callback 0) waiting_db = Inr db' \<and>
     find_request ''t'' 1 waiting_db = Some r \<and> find_instance ''t'' 1 waiting_db = Some i \<and>
     find_instance ''t'' 1 db' = Some i' \<and> last_event_seq i < 5 \<and> last_event_seq i' = 5"
proof -
  obtain db' where run: "handle_approval_callback sample_service ''t'' (sample_callback 0) waiting_db = Inr db'"
    and ch: "map current_node (rows (requests db')) = [2]"
    using sample_callback_applied [OF nonzero_times(1)] by (elim exE conjE) (rule that)
  have c: "normalize_callback (sample_callback 0) = sample_callback 0"
    by (simp add: normalize_callback_def sample_callback_def text_eval)
  from callback_bound [OF run waiting_changed [OF ch] refl, unfolded c] run show ?thesis
    by (simp add: sample_callback_def) (elim exE conjE, intro exI conjI)
qed

lemma callback_redelivered_witness:
  "\<exists>db'. handle_approval_callback sample_service ''t'' (sample_callback 0) waiting_db = Inr db' \<and> db' \<noteq> waiting_db \<and>
     handle_approval_callback sample_service ''t'' (sample_callback 0) db' = Inr db'"
proof -
  obtain db' where run: "handle_approval_callback sample_service ''t'' (sample_callback 0) waiting_db = Inr db'"
    and ch: "map current_node (rows (requests db')) = [2]"
    using sample_callback_applied [OF nonzero_times(1)] by (elim exE conjE) (rule that)
  have "datetime3 (cb_occurred (sample_callback 0)) = cb_occurred (sample_callback 0)"
    by (simp add: sample_callback_def datetime3_def truncate_to_def zero_time_def)
  with run waiting_changed [OF ch] callback_redelivered [OF run] show ?thesis by (intro exI conjI)
qed

lemma callback_redelivery_refused_witness:
  "\<exists>db'. handle_approval_callback sample_service ''t'' (sample_callback 1) waiting_db = Inr db' \<and>
     handle_approval_callback sample_service ''t'' (sample_callback 1) db' = Inl ErrInvalidApprovalEvent"
proof -
  obtain db' where run: "handle_approval_callback sample_service ''t'' (sample_callback 1) waiting_db = Inr db'"
    and ch: "map current_node (rows (requests db')) = [2]"
    using sample_callback_applied [OF nonzero_times(2)] by (elim exE conjE) (rule that)
  have "datetime3 (cb_occurred (sample_callback 1)) \<noteq> cb_occurred (sample_callback 1)"
    by (simp add: sample_callback_def datetime3_def truncate_to_def zero_time_def)
  with run callback_redelivery_refused [OF run waiting_changed [OF ch]] show ?thesis by (intro exI conjI)
qed

end
