(* ===== verification/Utf8.thy ===== *)
theory Utf8
  imports GoText
begin

text \<open>
  Decoding inverts encoding: the runes of a string that was written as code points are
  these code points, so \<open>strings.TrimSpace\<close> and \<open>len([]rune(s))\<close> on such a string are
  computed on its code points.
\<close>

definition valid_rune :: "nat \<Rightarrow> bool" where
  "valid_rune cp \<longleftrightarrow> cp \<le> 1114111 \<and> \<not> (55296 \<le> cp \<and> cp \<le> 57343)"

lemma byte_of_byte_chr: "n < 256 \<Longrightarrow> byte_of (byte_chr n) = n"
  by (simp add: byte_of_def byte_chr_def)

lemma num_mult: "64 * 4096 = (262144 :: nat)"
  by simp

lemma lead_mod:
  "q < 32 \<Longrightarrow> (192 + q) mod 32 = (q :: nat)" "q < 16 \<Longrightarrow> (224 + q) mod 16 = (q :: nat)"
  "q < 8 \<Longrightarrow> (240 + q) mod 8 = (q :: nat)" "q < 64 \<Longrightarrow> (128 + q) mod 64 = (q :: nat)"
  using mod_mult_self1 [of q 6 32] mod_mult_self1 [of q 14 16] mod_mult_self1 [of q 30 8] mod_mult_self1 [of q 2 64]
  by (simp_all add: add.commute)

lemma digits_base64:
  "cp div 4096 = cp div 262144 * 64 + cp div 4096 mod (64 :: nat)" "cp div 64 = cp div 4096 * 64 + cp div 64 mod (64 :: nat)"
proof -
  have h: "n = n div 64 * 64 + n mod 64" for n :: nat by simp
  have q: "cp div 64 div 64 = cp div 4096" "cp div 4096 div 64 = cp div 262144" by (simp_all flip: div_mult2_eq)
  show "cp div 4096 = cp div 262144 * 64 + cp div 4096 mod (64 :: nat)" using h [of "cp div 4096"] unfolding q .
  show "cp div 64 = cp div 4096 * 64 + cp div 64 mod (64 :: nat)" using h [of "cp div 64"] unfolding q .
qed

lemma split_base64:
  "cp = cp div 4096 * 4096 + cp div 64 mod 64 * 64 + cp mod (64 :: nat)"
  "cp = cp div 262144 * 262144 + cp div 4096 mod 64 * 4096 + cp div 64 mod 64 * 64 + cp mod (64 :: nat)"
proof -
  obtain a b c l where abc: "cp div 262144 = a" "cp div 4096 mod 64 = b" "cp div 64 mod 64 = c" "cp mod 64 = l" by blast
  then have "cp div 64 = (a * 64 + b) * 64 + c" "cp div 4096 = a * 64 + b" using digits_base64 [of cp] by simp_all
  moreover have "cp = cp div 64 * 64 + cp mod 64" by simp
  ultimately have cp: "cp = ((a * 64 + b) * 64 + c) * 64 + l" "cp div 4096 = a * 64 + b" using abc by simp_all
  show "cp = cp div 4096 * 4096 + cp div 64 mod 64 * 64 + cp mod (64 :: nat)"
    unfolding abc cp(2) using cp(1) by simp
  show "cp = cp div 262144 * 262144 + cp div 4096 mod 64 * 4096 + cp div 64 mod 64 * 64 + cp mod (64 :: nat)"
    unfolding abc using cp(1) by simp
qed

lemma rune_value_encoded:
  assumes "k < 64" "h < 64" "l < 64"
  shows "q < 16 \<Longrightarrow> rune_value (byte_chr (224 + q)) (byte_chr (128 + h) # byte_chr (128 + l) # s) 3 = q * 4096 + h * 64 + l"
    and "q < 8 \<Longrightarrow> rune_value (byte_chr (240 + q)) (byte_chr (128 + k) # byte_chr (128 + h) # byte_chr (128 + l) # s) 4
       = q * 262144 + k * 4096 + h * 64 + l"
  using assms by (simp_all add: rune_value_def byte_of_byte_chr Let_def lead_mod)

lemma rune_width_encoded:
  assumes "k \<le> 63" "h \<le> 63" "l \<le> 63"
  shows "q < 16 \<Longrightarrow> (q = 0 \<Longrightarrow> 32 \<le> h) \<Longrightarrow> (q = 13 \<Longrightarrow> h \<le> 31) \<Longrightarrow>
      rune_width (byte_chr (224 + q)) (byte_chr (128 + h) # byte_chr (128 + l) # s) = 3"
    and "q < 5 \<Longrightarrow> (q = 0 \<Longrightarrow> 16 \<le> k) \<Longrightarrow> (q = 4 \<Longrightarrow> k \<le> 15) \<Longrightarrow>
      rune_width (byte_chr (240 + q)) (byte_chr (128 + k) # byte_chr (128 + h) # byte_chr (128 + l) # s) = 4"
  using assms by (simp_all add: rune_width_def byte_in_def byte_of_byte_chr Let_def)

lemma go_runes_encoded:
  assumes "rune_width (hd (utf8_char cp)) (tl (utf8_char cp) @ s) = length (utf8_char cp)"
    and "rune_value (hd (utf8_char cp)) (tl (utf8_char cp) @ s) (length (utf8_char cp)) = cp"
    and "utf8_char cp \<noteq> []"
  shows "go_runes (utf8_char cp @ s) = (cp, utf8_char cp) # go_runes s"
proof -
  obtain c t where c: "utf8_char cp = c # t" using assms(3) by (cases "utf8_char cp") auto
  show ?thesis using assms(1,2) unfolding c by (simp add: decode_rune_def)
qed

lemma go_runes_utf8_char:
  assumes "valid_rune cp"
  shows "go_runes (utf8_char cp @ s) = (cp, utf8_char cp) # go_runes s"
proof (rule go_runes_encoded)
  let ?h = "cp div 64 mod 64" and ?l = "cp mod 64" and ?k = "cp div 4096 mod 64"
  have "?h < 64" "?l < 64" "?k < 64" by simp_all
  then have small: "128 + ?h < 256" "128 + ?l < 256" "128 + ?k < 256" "?h \<le> 63" "?l \<le> 63" "?k \<le> 63"
    "?h < 64" "?l < 64" "?k < 64" by linarith+
  consider "cp < 128" | "128 \<le> cp" "cp < 2048" | "2048 \<le> cp" "cp < 65536" | "65536 \<le> cp" by linarith
  then have "rune_width (hd (utf8_char cp)) (tl (utf8_char cp) @ s) = length (utf8_char cp) \<and>
     rune_value (hd (utf8_char cp)) (tl (utf8_char cp) @ s) (length (utf8_char cp)) = cp"
  proof cases
    case 1
    then show ?thesis by (simp add: utf8_char_def rune_width_def rune_value_def byte_of_byte_chr Let_def)
  next
    case 2
    then have "cp div 64 < 32" "2 \<le> cp div 64" by (simp_all add: div_less_iff_less_mult less_eq_div_iff_mult_less_eq)
    moreover from this have "(192 + cp div 64) mod 32 = cp div 64" "(128 + ?l) mod 64 = ?l"
      by (simp_all add: lead_mod)
    ultimately show ?thesis using 2 small
      by (simp add: utf8_char_def rune_width_def rune_value_def byte_in_def byte_of_byte_chr Let_def)
  next
    case 3
    then have q: "cp div 4096 < 16" by (simp add: div_less_iff_less_mult)
    have "32 \<le> cp div 64" using 3 by (simp add: less_eq_div_iff_mult_less_eq)
    note bounds = this digits_base64(2) [of cp] split_base64(1) [of cp]
    have lo: "cp div 4096 = 0 \<Longrightarrow> 32 \<le> ?h" using bounds by linarith
    have hi: "cp div 4096 = 13 \<Longrightarrow> ?h \<le> 31"
      using bounds assms mod_less_divisor [of 64 "cp div 64"] by (auto simp: valid_rune_def)
    have c: "utf8_char cp = [byte_chr (224 + cp div 4096), byte_chr (128 + ?h), byte_chr (128 + ?l)]"
      using 3 assms by (auto simp: utf8_char_def valid_rune_def)
    note w = rune_width_encoded(1) [OF small(6,4,5) q lo hi, of s]
    moreover have "rune_value (byte_chr (224 + cp div 4096)) (byte_chr (128 + ?h) # byte_chr (128 + ?l) # s) 3 = cp"
      unfolding rune_value_encoded(1) [OF small(9,7,8) q] by (rule split_base64(1) [symmetric])
    moreover have len: "length (utf8_char cp) = 3" by (simp add: c)
    ultimately show ?thesis using w unfolding len by (simp add: c)
  next
    case 4
    then have q: "cp div 262144 < 5" using assms by (simp add: valid_rune_def div_less_iff_less_mult)
    have "16 \<le> cp div 4096" "cp div 4096 \<le> 271"
      using 4 assms div_le_mono [of cp 1114111 4096] by (simp_all add: less_eq_div_iff_mult_less_eq valid_rune_def)
    note bounds = this digits_base64(1) [of cp]
    have lo: "cp div 262144 = 0 \<Longrightarrow> 16 \<le> ?k" using bounds by linarith
    have hi: "cp div 262144 = 4 \<Longrightarrow> ?k \<le> 15" using bounds by linarith
    have c: "utf8_char cp = [byte_chr (240 + cp div 262144), byte_chr (128 + ?k), byte_chr (128 + ?h), byte_chr (128 + ?l)]"
      using 4 assms by (auto simp: utf8_char_def valid_rune_def)
    note w = rune_width_encoded(2) [OF small(6,4,5) q lo hi, of s]
    moreover have "rune_value (byte_chr (240 + cp div 262144)) (byte_chr (128 + ?k) # byte_chr (128 + ?h) # byte_chr (128 + ?l) # s) 4 = cp"
      using q by (subst rune_value_encoded(2) [OF small(9,7,8)]) (simp, rule split_base64(2) [symmetric])
    moreover have len: "length (utf8_char cp) = 4" by (simp add: c)
    ultimately show ?thesis using w unfolding len by (simp add: c)
  qed
  then show "rune_width (hd (utf8_char cp)) (tl (utf8_char cp) @ s) = length (utf8_char cp)"
    "rune_value (hd (utf8_char cp)) (tl (utf8_char cp) @ s) (length (utf8_char cp)) = cp" by simp_all
  show "utf8_char cp \<noteq> []" by (simp add: utf8_char_def)
qed

lemma go_runes_utf8: "list_all valid_rune cps \<Longrightarrow> go_runes (utf8 cps) = map (\<lambda>cp. (cp, utf8_char cp)) cps"
  by (induction cps) (simp_all add: utf8_def go_runes_utf8_char)

lemma rune_len_utf8: "list_all valid_rune cps \<Longrightarrow> rune_len (utf8 cps) = length cps"
  by (simp add: rune_len_def go_runes_utf8)

lemma trim_space_utf8:
  assumes "list_all valid_rune cps" and "cps = [] \<or> \<not> is_space (hd cps) \<and> \<not> is_space (last cps)"
  shows "trim_space (utf8 cps) = utf8 cps"
proof (cases cps)
  case (Cons c cs)
  let ?f = "\<lambda>cp. (cp, utf8_char cp)"
  have 1: "dropWhile (is_space \<circ> fst) (map ?f cps) = map ?f cps" using assms(2) Cons by simp
  obtain ds where "rev cps = last cps # ds" using Cons by (metis hd_rev list.collapse list.distinct(1) rev_is_Nil_conv)
  then have r: "rev (map ?f cps) = ?f (last cps) # map ?f ds" by (simp only: rev_map list.map)
  have 2: "dropWhile (is_space \<circ> fst) (rev (map ?f cps)) = rev (map ?f cps)"
    unfolding r using assms(2) Cons by simp
  show ?thesis unfolding trim_space_def go_runes_utf8 [OF assms(1)] 1 2 by (simp add: utf8_def comp_def)
qed (simp add: utf8_def)

lemma utf8_Nil_iff [simp]: "utf8 cps = [] \<longleftrightarrow> cps = []"
  by (cases cps) (simp_all add: utf8_def utf8_char_def)

lemmas utf8_eval = trim_space_utf8 rune_len_utf8 valid_rune_def

end
