(* ===== verification/PlatformCatalog.thy ===== *)
theory PlatformCatalog
  imports Utf8 "HOL-Library.List_Lexorder" "HOL-Library.Char_ord" "HOL-Library.Multiset"
begin

text \<open>
  The authorization catalog the application publishes to the platform
  (\<open>internal/platformcatalog\<close>): the CRM and the portal manifest, their normalization into
  the published payload, and what the other modules read off it. The two digests of the
  payload are hashes of JSON, so they are parameters of the normalization. The HTTP
  exchange of \<open>Publish\<close> is not modelled.
\<close>

section \<open>Manifests\<close>

record permission =
  pm_code :: string
  pm_name :: string
  pm_action :: string
  pm_resource :: string
  pm_resource_name :: string
  pm_risk :: string
  pm_grant :: string

record role_entry =
  re_code :: string
  re_name :: string
  re_description :: string
  re_permissions :: "string list"

record manifest =
  mf_version :: string
  mf_permissions :: "permission list"
  mf_roles :: "role_entry list"
  mf_max_roles :: int

definition new_permission :: "string \<Rightarrow> string \<Rightarrow> string \<Rightarrow> string \<Rightarrow> string \<Rightarrow> permission" where
  "new_permission c n res act risk =
     \<lparr>pm_code = c, pm_name = n, pm_action = act, pm_resource = res, pm_resource_name = res, pm_risk = risk, pm_grant = []\<rparr>"

definition super_admin_only :: "permission \<Rightarrow> permission" where
  "super_admin_only p = p\<lparr>pm_grant := ''SUPER_ADMIN_ONLY''\<rparr>"

definition new_role :: "string \<Rightarrow> string \<Rightarrow> string \<Rightarrow> string list \<Rightarrow> role_entry" where
  "new_role c n d ps = \<lparr>re_code = c, re_name = n, re_description = d, re_permissions = ps\<rparr>"

definition permission_codes :: "permission list \<Rightarrow> string list" where
  "permission_codes ps = map pm_code ps"

definition has_permission :: "manifest \<Rightarrow> string \<Rightarrow> bool" where
  "has_permission m c \<longleftrightarrow> list_ex (\<lambda>p. pm_code p = c) (mf_permissions m)"

definition has_role_code :: "manifest \<Rightarrow> string \<Rightarrow> bool" where
  "has_role_code m c \<longleftrightarrow> list_ex (\<lambda>r. re_code r = c) (mf_roles m)"

section \<open>The published manifests\<close>

definition crm_permissions :: "permission list" where
  "crm_permissions =
     [new_permission ''customer.read'' (utf8 [26597, 30475, 23458, 25143]) ''customer'' ''read'' ''LOW'',
      super_admin_only (new_permission ''customer.read.all'' (utf8 [26597, 30475, 20840, 37096, 23458, 25143]) ''customer'' ''read_all'' ''HIGH''),
      new_permission ''customer.create'' (utf8 [21019, 24314, 23458, 25143]) ''customer'' ''create'' ''MEDIUM'',
      new_permission ''customer.update'' (utf8 [32500, 25252, 23458, 25143]) ''customer'' ''update'' ''MEDIUM'',
      new_permission ''customer.duplicate.override'' (utf8 [35206, 30422, 23458, 25143, 30097, 20284, 37325, 21517]) ''customer'' ''duplicate_override'' ''HIGH'',
      new_permission ''customer.import'' (utf8 [23548, 20837, 23458, 25143]) ''customer'' ''import'' ''HIGH'',
      new_permission ''customer.merge'' (utf8 [21512, 24182, 23458, 25143]) ''customer'' ''merge'' ''HIGH'',
      new_permission ''customer.void'' (utf8 [20316, 24223, 23458, 25143]) ''customer'' ''void'' ''HIGH'',
      new_permission ''customer.restore'' (utf8 [24674, 22797, 23458, 25143]) ''customer'' ''restore'' ''HIGH'',
      new_permission ''customer.export'' (utf8 [23548, 20986, 23458, 25143]) ''customer'' ''export'' ''HIGH'',
      new_permission ''customer.audit.read'' (utf8 [26597, 30475, 23458, 25143, 23457, 35745]) ''customer_audit'' ''read'' ''HIGH'',
      new_permission ''customer.credit.read'' (utf8 [26597, 30475, 23458, 25143, 20449, 29992, 31561, 32423]) ''customer_credit'' ''read'' ''LOW'',
      new_permission ''customer.credit.apply'' (utf8 [30003, 35831, 35843, 25972, 23458, 25143, 20449, 29992, 31561, 32423]) ''customer_credit'' ''apply'' ''HIGH'',
      new_permission ''customer.credit.approve'' (utf8 [23457, 25209, 23458, 25143, 20449, 29992, 31561, 32423, 35843, 25972]) ''customer_credit'' ''approve'' ''HIGH'',
      new_permission ''customer.credit.rule.manage'' (utf8 [31649, 29702, 23458, 25143, 20449, 29992, 35268, 21017]) ''customer_credit_rule'' ''manage'' ''CRITICAL'',
      new_permission ''customer.credit.payment.ingest'' (utf8 [25509, 25910, 32467, 31639, 22238, 27454, 20449, 29992, 20107, 20214]) ''customer_credit'' ''ingest'' ''CRITICAL'',
      new_permission ''customer.credit.internal.read'' (utf8 [20869, 37096, 26597, 35810, 23458, 25143, 20449, 29992, 31561, 32423]) ''customer_credit'' ''internal_read'' ''HIGH'',
      new_permission ''opportunity.read'' (utf8 [26597, 30475, 21830, 26426]) ''opportunity'' ''read'' ''LOW'',
      new_permission ''opportunity.create'' (utf8 [21019, 24314, 21830, 26426]) ''opportunity'' ''create'' ''MEDIUM'',
      new_permission ''opportunity.update'' (utf8 [32500, 25252, 21830, 26426]) ''opportunity'' ''update'' ''MEDIUM'',
      new_permission ''opportunity.owner.change'' (utf8 [21464, 26356, 21830, 26426, 36127, 36131, 20154]) ''opportunity'' ''owner_change'' ''HIGH'',
      new_permission ''opportunity.team.manage'' (utf8 [32500, 25252, 21830, 26426, 22242, 38431]) ''opportunity'' ''team_manage'' ''HIGH'',
      new_permission ''opportunity.stage.change'' (utf8 [35843, 25972, 21830, 26426, 38454, 27573]) ''opportunity'' ''stage_change'' ''HIGH'',
      new_permission ''opportunity.contract.transfer'' (utf8 [25512, 36865, 21830, 26426, 31614, 32422, 20107, 20214]) ''opportunity'' ''contract_transfer'' ''HIGH'',
      new_permission ''opportunity.attachment.read'' (utf8 [26597, 30475, 21830, 26426, 38468, 20214, 20803, 25968, 25454]) ''opportunity_attachment'' ''read'' ''LOW'',
      new_permission ''opportunity.attachment.upload'' (utf8 [19978, 20256, 21830, 26426, 38468, 20214]) ''opportunity_attachment'' ''upload'' ''MEDIUM'',
      new_permission ''opportunity.attachment.download'' (utf8 [19979, 36733, 24050, 36890, 36807, 25195, 25551, 30340, 21830, 26426, 38468, 20214]) ''opportunity_attachment'' ''download'' ''HIGH'',
      new_permission ''opportunity.void'' (utf8 [20316, 24223, 21830, 26426]) ''opportunity'' ''void'' ''HIGH'',
      new_permission ''opportunity.restore'' (utf8 [24674, 22797, 21830, 26426]) ''opportunity'' ''restore'' ''HIGH'',
      new_permission ''opportunity.alert.config'' (utf8 [37197, 32622, 21830, 26426, 38454, 27573, 39044, 35686]) ''opportunity_alert'' ''configure'' ''HIGH'',
      new_permission ''opportunity.catalog.manage'' (utf8 [31649, 29702, 21830, 26426, 31867, 22411, 19982, 26469, 28304]) ''opportunity_catalog'' ''manage'' ''HIGH'',
      new_permission ''portal_account.provision'' (utf8 [24320, 36890, 23458, 25143, 38376, 25143]) ''portal_account'' ''provision'' ''HIGH'',
      new_permission ''portal_account.revoke'' (utf8 [25764, 38144, 23458, 25143, 38376, 25143, 36992, 35831]) ''portal_account'' ''revoke'' ''HIGH'',
      new_permission ''portal_account.disable'' (utf8 [31105, 29992, 23458, 25143, 38376, 25143, 35775, 38382]) ''portal_account'' ''disable'' ''HIGH'',
      new_permission ''presale.read'' (utf8 [26597, 30475, 21806, 21069, 20219, 21153]) ''presale'' ''read'' ''LOW'',
      new_permission ''presale.contact_phone.read'' (utf8 [26597, 30475, 21806, 21069, 32852, 31995, 30005, 35805, 26126, 25991]) ''presale_contact_phone'' ''read'' ''CRITICAL'',
      new_permission ''presale.create'' (utf8 [21457, 36215, 21806, 21069, 30003, 35831]) ''presale'' ''create'' ''MEDIUM'',
      new_permission ''presale.approve'' (utf8 [23457, 25209, 21806, 21069, 30003, 35831]) ''presale'' ''approve'' ''HIGH'',
      new_permission ''presale.approval_rule.manage'' (utf8 [31649, 29702, 21806, 21069, 23457, 25209, 35268, 21017]) ''presale_approval_rule'' ''manage'' ''CRITICAL'',
      new_permission ''presale.assign'' (utf8 [25351, 27966, 21806, 21069, 20154, 21592]) ''presale'' ''assign'' ''HIGH'',
      new_permission ''presale.progress'' (utf8 [30331, 35760, 21806, 21069, 36827, 24230]) ''presale'' ''progress'' ''MEDIUM'',
      new_permission ''presale.worklog'' (utf8 [30331, 35760, 21806, 21069, 24037, 26102]) ''presale'' ''worklog'' ''MEDIUM'',
      new_permission ''presale.complete'' (utf8 [32467, 26463, 21806, 21069, 20219, 21153]) ''presale'' ''complete'' ''HIGH'',
      new_permission ''presale.worklog.retry'' (utf8 [37325, 35797, 24037, 26102, 25512, 36865]) ''presale'' ''worklog_retry'' ''HIGH'',
      new_permission ''presale.cancel'' (utf8 [21462, 28040, 21806, 21069, 30003, 35831]) ''presale'' ''cancel'' ''HIGH'',
      new_permission ''presale.engineer.sync'' (utf8 [21516, 27493, 21806, 21069, 20154, 21592, 27744]) ''presale_engineer'' ''synchronize'' ''HIGH'',
      new_permission ''presale.alert.config'' (utf8 [37197, 32622, 21806, 21069, 36229, 26102, 39044, 35686]) ''presale_alert'' ''configure'' ''HIGH'',
      new_permission ''presale.report'' (utf8 [26597, 30475, 21806, 21069, 25237, 20837, 25253, 34920]) ''presale_report'' ''read'' ''HIGH'']"

definition role_sales :: role_entry where
  "role_sales = new_role ''sales'' (utf8 [38144, 21806, 20154, 21592])
     (utf8 [32500, 25252, 26412, 20154, 36127, 36131, 30340, 23458, 25143, 21644, 21830, 26426, 24182, 21457, 36215, 21806, 21069, 30003, 35831])
     [''customer.read'', ''customer.create'', ''customer.update'', ''customer.void'', ''customer.restore'',
      ''customer.credit.read'', ''customer.credit.apply'', ''opportunity.read'', ''opportunity.create'',
      ''opportunity.update'', ''opportunity.owner.change'', ''opportunity.team.manage'',
      ''opportunity.stage.change'', ''opportunity.attachment.read'', ''opportunity.attachment.upload'',
      ''opportunity.attachment.download'', ''opportunity.void'', ''opportunity.restore'', ''presale.read'',
      ''presale.create'', ''portal_account.provision'', ''portal_account.revoke'', ''portal_account.disable'']"

definition role_sales_director :: role_entry where
  "role_sales_director = new_role ''sales_director'' (utf8 [38144, 21806, 24635, 30417])
     (utf8 [31649, 29702, 23458, 25143, 21830, 26426, 24182, 25191, 34892, 21806, 21069, 19968, 32423, 23457, 25209])
     [''customer.read'', ''customer.create'', ''customer.update'', ''customer.duplicate.override'',
      ''customer.import'', ''customer.merge'', ''customer.void'', ''customer.restore'', ''customer.export'',
      ''customer.audit.read'', ''customer.credit.read'', ''customer.credit.apply'', ''customer.credit.approve'',
      ''opportunity.read'', ''opportunity.create'', ''opportunity.update'', ''opportunity.owner.change'',
      ''opportunity.team.manage'', ''opportunity.stage.change'', ''opportunity.contract.transfer'',
      ''opportunity.attachment.read'', ''opportunity.attachment.upload'', ''opportunity.attachment.download'',
      ''opportunity.void'', ''opportunity.restore'', ''opportunity.alert.config'', ''opportunity.catalog.manage'',
      ''presale.read'', ''presale.contact_phone.read'', ''presale.create'', ''presale.approve'', ''presale.report'',
      ''portal_account.provision'', ''portal_account.revoke'', ''portal_account.disable'']"

definition role_technical_director :: role_entry where
  "role_technical_director = new_role ''technical_director'' (utf8 [25216, 26415, 24635, 30417])
     (utf8 [25191, 34892, 21806, 21069, 25216, 26415, 23457, 25209, 24182, 36873, 25321, 25191, 34892, 37096, 38376])
     [''customer.read'', ''customer.void'', ''customer.restore'', ''opportunity.read'', ''presale.read'',
      ''presale.contact_phone.read'', ''presale.approve'', ''presale.assign'', ''presale.engineer.sync'',
      ''presale.alert.config'', ''presale.report'']"

definition role_team_lead :: role_entry where
  "role_team_lead = new_role ''team_lead'' (utf8 [22242, 38431, 36127, 36131, 20154])
     (utf8 [25191, 34892, 21806, 21069, 23457, 25209, 12289, 20154, 21592, 25351, 27966, 21644, 36807, 31243, 31649, 29702])
     [''customer.read'', ''customer.void'', ''customer.restore'', ''opportunity.read'', ''presale.read'',
      ''presale.contact_phone.read'', ''presale.approve'', ''presale.assign'', ''presale.progress'',
      ''presale.worklog'', ''presale.complete'', ''presale.cancel'', ''presale.engineer.sync'',
      ''presale.alert.config'', ''presale.report'']"

definition role_technician :: role_entry where
  "role_technician = new_role ''technician'' (utf8 [25216, 26415, 20154, 21592])
     (utf8 [20165, 22788, 29702, 26412, 20154, 34987, 25351, 27966, 30340, 21806, 21069, 20219, 21153])
     [''presale.read'', ''presale.progress'', ''presale.worklog'', ''presale.complete'']"

definition role_project_manager :: role_entry where
  "role_project_manager = new_role ''project_manager'' (utf8 [39033, 30446, 32463, 29702])
     (utf8 [31649, 29702, 26412, 20154, 34987, 25351, 27966, 30340, 21806, 21069, 25191, 34892, 20219, 21153])
     [''presale.read'', ''presale.contact_phone.read'', ''presale.progress'', ''presale.worklog'',
      ''presale.complete'']"

definition role_customer_admin :: role_entry where
  "role_customer_admin = new_role ''customer_admin'' (utf8 [23458, 25143, 31649, 29702, 21592])
     (utf8 [25191, 34892, 23458, 25143, 20027, 25968, 25454, 39640, 39118, 38505, 32500, 25252])
     [''customer.read'', ''customer.create'', ''customer.update'', ''customer.duplicate.override'',
      ''customer.import'', ''customer.merge'', ''customer.void'', ''customer.restore'', ''customer.export'',
      ''customer.audit.read'', ''customer.credit.read'', ''customer.credit.apply'', ''customer.credit.rule.manage'',
      ''opportunity.read'', ''opportunity.attachment.read'', ''portal_account.provision'', ''portal_account.revoke'',
      ''portal_account.disable'']"

definition role_crm_super_admin :: role_entry where
  "role_crm_super_admin = new_role ''crm_super_admin'' (utf8 [23458, 25143, 19982, 21830, 26426, 36229, 32423, 31649, 29702, 21592])
     (utf8 [31649, 29702, 23458, 25143, 12289, 21830, 26426, 12289, 21806, 21069, 23457, 25209, 21450, 23457, 35745, 37197, 32622])
     [''customer.read'', ''customer.create'', ''customer.update'', ''customer.duplicate.override'',
      ''customer.import'', ''customer.merge'', ''customer.void'', ''customer.restore'', ''customer.export'',
      ''customer.audit.read'', ''customer.credit.read'', ''customer.credit.apply'', ''customer.credit.approve'',
      ''customer.credit.rule.manage'', ''opportunity.read'', ''opportunity.create'', ''opportunity.update'',
      ''opportunity.owner.change'', ''opportunity.team.manage'', ''opportunity.stage.change'',
      ''opportunity.contract.transfer'', ''opportunity.attachment.read'', ''opportunity.attachment.upload'',
      ''opportunity.attachment.download'', ''opportunity.void'', ''opportunity.restore'',
      ''opportunity.alert.config'', ''opportunity.catalog.manage'', ''portal_account.provision'',
      ''portal_account.revoke'', ''portal_account.disable'', ''presale.read'', ''presale.contact_phone.read'',
      ''presale.create'', ''presale.approve'', ''presale.approval_rule.manage'', ''presale.assign'',
      ''presale.progress'', ''presale.worklog'', ''presale.worklog.retry'', ''presale.cancel'',
      ''presale.engineer.sync'', ''presale.alert.config'', ''presale.report'']"

definition role_auditor :: role_entry where
  "role_auditor = new_role ''auditor'' (utf8 [23457, 35745, 21592])
     (utf8 [21482, 35835, 26597, 30475, 32463, 33829, 25968, 25454, 21644, 23457, 35745, 35760, 24405])
     [''customer.read'', ''customer.audit.read'', ''customer.credit.read'', ''opportunity.read'',
      ''opportunity.attachment.read'', ''presale.read'', ''presale.report'']"

definition role_customer_all_viewer :: role_entry where
  "role_customer_all_viewer = new_role ''customer_all_viewer'' (utf8 [23458, 25143, 20840, 37327, 26597, 30475, 21592])
     (utf8 [26597, 30475, 31199, 25143, 20869, 20840, 37096, 23458, 25143, 36164, 26009, 65288, 21482, 35835, 65289, 65307, 20165, 24179, 21488, 36229, 32423, 31649, 29702, 21592, 21487, 25480, 20104])
     [''customer.read'', ''customer.read.all'']"

definition crm_roles :: "role_entry list" where
  "crm_roles =
     [role_sales, role_sales_director, role_technical_director, role_team_lead, role_technician,
      role_project_manager, role_customer_admin, role_crm_super_admin, role_auditor, role_customer_all_viewer]"

definition crm_manifest :: manifest where
  "crm_manifest =
     \<lparr>mf_version = ''crm-2026.09.21-v12'', mf_permissions = crm_permissions, mf_roles = crm_roles, mf_max_roles = 10\<rparr>"

definition portal_customer_permissions :: "permission list" where
  "portal_customer_permissions =
     [new_permission ''project.read'' (utf8 [26597, 30475, 26412, 20154, 39033, 30446]) ''project'' ''read'' ''LOW'',
      new_permission ''project.export'' (utf8 [23548, 20986, 26412, 20154, 39033, 30446]) ''project'' ''export'' ''HIGH'',
      new_permission ''project.message.read'' (utf8 [26597, 30475, 26412, 20154, 39033, 30446, 31449, 20869, 20250, 35805]) ''project_message'' ''read'' ''LOW'',
      new_permission ''project.message.send'' (utf8 [32852, 31995, 26412, 20154, 39033, 30446, 32463, 29702]) ''project_message'' ''send'' ''MEDIUM'',
      new_permission ''report.request'' (utf8 [30003, 35831, 30005, 23376, 25253, 21578]) ''report'' ''request'' ''MEDIUM'',
      new_permission ''report.read'' (utf8 [26597, 30475, 26412, 20154, 25253, 21578]) ''report'' ''read'' ''LOW'',
      new_permission ''report.download'' (utf8 [19979, 36733, 26412, 20154, 25253, 21578]) ''report'' ''download'' ''HIGH'',
      new_permission ''filing.read'' (utf8 [26597, 30475, 26412, 20154, 22791, 26696]) ''filing'' ''read'' ''LOW'',
      new_permission ''filing.create'' (utf8 [21019, 24314, 22791, 26696]) ''filing'' ''create'' ''MEDIUM'',
      new_permission ''filing.update'' (utf8 [32500, 25252, 22791, 26696, 33609, 31295]) ''filing'' ''update'' ''MEDIUM'',
      new_permission ''filing.submit'' (utf8 [25552, 20132, 22791, 26696]) ''filing'' ''submit'' ''HIGH'',
      new_permission ''filing.delete'' (utf8 [21024, 38500, 22791, 26696, 33609, 31295]) ''filing'' ''delete'' ''HIGH'',
      new_permission ''evaluation.read'' (utf8 [26597, 30475, 26412, 20154, 26381, 21153, 35780, 20215]) ''evaluation'' ''read'' ''LOW'',
      new_permission ''evaluation.create'' (utf8 [25552, 20132, 26381, 21153, 35780, 20215]) ''evaluation'' ''create'' ''MEDIUM'',
      new_permission ''feedback.read'' (utf8 [26597, 30475, 26412, 20154, 21453, 39304]) ''feedback'' ''read'' ''LOW'',
      new_permission ''feedback.create'' (utf8 [25552, 20132, 23458, 25143, 21453, 39304]) ''feedback'' ''create'' ''MEDIUM'',
      new_permission ''feedback.reply'' (utf8 [22238, 22797, 26412, 20154, 21453, 39304]) ''feedback'' ''reply'' ''MEDIUM'',
      new_permission ''account.security.manage'' (utf8 [31649, 29702, 24403, 21069, 36134, 21495, 23433, 20840]) ''account_security'' ''manage'' ''HIGH'']"

definition portal_admin_permissions :: "permission list" where
  "portal_admin_permissions =
     [new_permission ''portal.customer.manage'' (utf8 [31649, 29702, 38376, 25143, 26412, 22320, 23458, 25143, 30446, 24405]) ''portal_customer'' ''manage'' ''HIGH'',
      new_permission ''portal.invite.manage'' (utf8 [31649, 29702, 38376, 25143, 26412, 22320, 36992, 35831]) ''portal_invite'' ''manage'' ''HIGH'',
      new_permission ''portal.access.disable'' (utf8 [20572, 29992, 38376, 25143, 23458, 25143, 35775, 38382]) ''portal_access'' ''disable'' ''CRITICAL'',
      new_permission ''portal.local_project.manage'' (utf8 [31649, 29702, 38376, 25143, 26412, 22320, 39033, 30446, 25480, 26435]) ''portal_local_project'' ''manage'' ''HIGH'',
      new_permission ''portal.local_report.manage'' (utf8 [31649, 29702, 38376, 25143, 26412, 22320, 25253, 21578, 26469, 28304]) ''portal_local_report'' ''manage'' ''HIGH'']"

definition portal_manifest :: manifest where
  "portal_manifest =
     (let all_permissions = portal_customer_permissions @ portal_admin_permissions
      in \<lparr>mf_version = ''portal-2026.11.04-v4'', mf_permissions = all_permissions,
          mf_roles =
            [new_role ''portal_customer'' (utf8 [38376, 25143, 23458, 25143])
               (utf8 [35775, 38382, 24403, 21069, 23458, 25143, 26144, 23556, 33539, 22260, 20869, 30340, 32, 80, 111, 114, 116, 97, 108, 32, 33258, 21161, 33021, 21147])
               (permission_codes portal_customer_permissions),
             new_role ''portal_super_admin'' (utf8 [38376, 25143, 36229, 32423, 31649, 29702, 21592])
               (utf8 [31649, 29702, 23458, 25143, 38376, 25143, 36816, 33829, 65307, 36328, 23458, 25143, 19994, 21153, 25968, 25454, 24517, 39035, 32463, 36807, 21463, 25511, 23458, 25143, 19978, 19979, 25991])
               (permission_codes all_permissions)],
          mf_max_roles = 1\<rparr>)"

section \<open>Normalization\<close>

datatype catalog_error =
    CatalogIncomplete | MaxRolesOutOfRange | PermissionIncomplete
  | InvalidRiskLevel string | InvalidGrantPolicy string | DuplicatePermission string
  | DuplicateAction string string | RoleIncomplete | DuplicateRole string
  | UnknownPermission string string | ConfigHashMismatch

record catalog_payload =
  cp_version :: string
  cp_permissions :: "permission list"
  cp_roles :: "role_entry list"
  cp_max_roles :: int
  cp_checksum :: string
  cp_claims_hash :: string

fun unique_trimmed :: "string list \<Rightarrow> string list \<Rightarrow> string list" where
  "unique_trimmed [] acc = acc"
| "unique_trimmed (v # vs) acc =
     (let t = trim_space v
      in if t = [] \<or> t \<in> set acc then unique_trimmed vs acc else unique_trimmed vs (acc @ [t]))"

definition sorted_unique :: "string list \<Rightarrow> string list" where
  "sorted_unique vs = sort (unique_trimmed vs [])"

definition trim_permission :: "permission \<Rightarrow> permission" where
  "trim_permission p =
     \<lparr>pm_code = trim_space (pm_code p), pm_name = trim_space (pm_name p), pm_action = trim_space (pm_action p),
      pm_resource = trim_space (pm_resource p), pm_resource_name = trim_space (pm_resource_name p),
      pm_risk = to_upper (trim_space (pm_risk p)), pm_grant = to_upper (trim_space (pm_grant p))\<rparr>"

definition resource_action :: "permission \<Rightarrow> string" where
  "resource_action p = pm_resource p @ CHR 0x00 # to_lower (pm_action p)"

definition valid_permission :: "permission \<Rightarrow> catalog_error option" where
  "valid_permission p =
     (if pm_code p = [] \<or> pm_name p = [] \<or> pm_action p = [] \<or> pm_resource p = [] then Some PermissionIncomplete
      else if pm_risk p \<notin> {''LOW'', ''MEDIUM'', ''HIGH'', ''CRITICAL''} then Some (InvalidRiskLevel (pm_code p))
      else if pm_grant p \<notin> {[], ''DEFAULT'', ''SUPER_ADMIN_ONLY''} then Some (InvalidGrantPolicy (pm_code p))
      else None)"

text \<open>The loop over the permissions: \<open>acc\<close> are the ones entered so far.\<close>

fun normalize_permissions :: "permission list \<Rightarrow> permission list \<Rightarrow> catalog_error + permission list" where
  "normalize_permissions [] acc = Inr acc"
| "normalize_permissions (p0 # ps) acc =
     (let p = trim_permission p0
      in case valid_permission p of
           Some e \<Rightarrow> Inl e
         | None \<Rightarrow>
             if pm_code p \<in> set (map pm_code acc) then Inl (DuplicatePermission (pm_code p))
             else if resource_action p \<in> set (map resource_action acc)
             then Inl (DuplicateAction (pm_resource p) (pm_action p))
             else normalize_permissions ps (acc @ [p]))"

definition trim_role :: "role_entry \<Rightarrow> role_entry" where
  "trim_role r =
     \<lparr>re_code = trim_space (re_code r), re_name = trim_space (re_name r), re_description = trim_space (re_description r),
      re_permissions = sorted_unique (re_permissions r)\<rparr>"

fun normalize_roles :: "string list \<Rightarrow> role_entry list \<Rightarrow> role_entry list \<Rightarrow> catalog_error + role_entry list" where
  "normalize_roles codes [] acc = Inr acc"
| "normalize_roles codes (r0 # rs) acc =
     (let r = trim_role r0
      in if re_code r = [] \<or> re_name r = [] then Inl RoleIncomplete
         else if re_code r \<in> set (map re_code acc) then Inl (DuplicateRole (re_code r))
         else (case List.find (\<lambda>c. c \<notin> set codes) (re_permissions r) of
                 Some c \<Rightarrow> Inl (UnknownPermission (re_code r) c)
               | None \<Rightarrow> normalize_roles codes rs (acc @ [r])))"

text \<open>
  \<open>normalizeManifest\<close>. \<open>checksum\<close> hashes the whole catalog, \<open>claims\<close> only the role
  codes with their permissions.
\<close>

definition normalize_manifest ::
  "(string \<times> permission list \<times> role_entry list \<times> int \<Rightarrow> string) \<Rightarrow> ((string \<times> string list) list \<Rightarrow> string) \<Rightarrow>
     manifest \<Rightarrow> catalog_error + catalog_payload" where
  "normalize_manifest checksum claims m =
     (let version = trim_space (mf_version m)
      in if version = [] \<or> mf_permissions m = [] \<or> mf_roles m = [] then Inl CatalogIncomplete
         else if mf_max_roles m < 0 \<or> 10 < mf_max_roles m then Inl MaxRolesOutOfRange
         else case normalize_permissions (mf_permissions m) [] of
           Inl e \<Rightarrow> Inl e
         | Inr ps \<Rightarrow>
             (case normalize_roles (map pm_code ps) (mf_roles m) [] of
                Inl e \<Rightarrow> Inl e
              | Inr rs \<Rightarrow>
                  (let ps' = sort_key pm_code ps; rs' = sort_key re_code rs
                   in Inr \<lparr>cp_version = version, cp_permissions = ps', cp_roles = rs', cp_max_roles = mf_max_roles m,
                           cp_checksum = ''sha256:'' @ checksum (version, ps', rs', mf_max_roles m),
                           cp_claims_hash = ''sha256:'' @ claims (map (\<lambda>r. (re_code r, re_permissions r)) rs')\<rparr>)))"

definition claims_role_config_hash ::
  "(string \<times> permission list \<times> role_entry list \<times> int \<Rightarrow> string) \<Rightarrow> ((string \<times> string list) list \<Rightarrow> string) \<Rightarrow>
     manifest \<Rightarrow> catalog_error + string" where
  "claims_role_config_hash checksum claims m =
     (case normalize_manifest checksum claims m of Inl e \<Rightarrow> Inl e | Inr p \<Rightarrow> Inr (cp_claims_hash p))"

definition catalog_checksum ::
  "(string \<times> permission list \<times> role_entry list \<times> int \<Rightarrow> string) \<Rightarrow> ((string \<times> string list) list \<Rightarrow> string) \<Rightarrow>
     manifest \<Rightarrow> catalog_error + string" where
  "catalog_checksum checksum claims m =
     (case normalize_manifest checksum claims m of Inl e \<Rightarrow> Inl e | Inr p \<Rightarrow> Inr (cp_checksum p))"

definition validate_claims_hash ::
  "(string \<times> permission list \<times> role_entry list \<times> int \<Rightarrow> string) \<Rightarrow> ((string \<times> string list) list \<Rightarrow> string) \<Rightarrow>
     manifest \<Rightarrow> string \<Rightarrow> catalog_error + unit" where
  "validate_claims_hash checksum claims m configured =
     (case claims_role_config_hash checksum claims m of
        Inl e \<Rightarrow> Inl e
      | Inr expected \<Rightarrow> if trim_space configured \<noteq> expected then Inl ConfigHashMismatch else Inr ())"

section \<open>Roles that can perform an assignment duty\<close>

text \<open>\<open>ownerdirectory/assignment_policy.go\<close>.\<close>

datatype assignment_duty = DutyTeamLead | DutyExecutor | DutyOther string

fun duty_permissions :: "assignment_duty \<Rightarrow> string list" where
  "duty_permissions DutyTeamLead = [''presale.assign'']"
| "duty_permissions DutyExecutor = [''presale.progress'', ''presale.worklog'', ''presale.complete'']"
| "duty_permissions (DutyOther d) = []"

definition duty_role_codes :: "assignment_duty \<Rightarrow> string list" where
  "duty_role_codes duty =
     (if duty_permissions duty = [] then []
      else sort (map re_code (filter (\<lambda>r. list_all (\<lambda>p. p \<in> set (re_permissions r)) (duty_permissions duty))
             (mf_roles crm_manifest))))"

lemmas role_defs = role_sales_def role_sales_director_def role_technical_director_def role_team_lead_def
  role_technician_def role_project_manager_def role_customer_admin_def role_crm_super_admin_def role_auditor_def
  role_customer_all_viewer_def new_role_def

lemma duty_role_codes_eval:
  "duty_role_codes DutyTeamLead = [''crm_super_admin'', ''team_lead'', ''technical_director'']"
  "duty_role_codes DutyExecutor = [''project_manager'', ''team_lead'', ''technician'']"
  by (simp_all add: duty_role_codes_def crm_manifest_def crm_roles_def role_defs less_eq_char_def less_char_def)


section \<open>Facts about the normalization\<close>

lemma unique_trimmed_props:
  "distinct acc \<Longrightarrow> distinct (unique_trimmed vs acc)"
  "set (unique_trimmed vs acc) = set acc \<union> (trim_space ` set vs - {[]})"
  by (induction vs arbitrary: acc) (auto simp: Let_def)

lemma sorted_unique_props [simp]:
  "sorted (sorted_unique vs)" "distinct (sorted_unique vs)" "set (sorted_unique vs) = trim_space ` set vs - {[]}"
  by (simp_all add: sorted_unique_def unique_trimmed_props)

lemma trim_role_permissions [simp]:
  "sorted (re_permissions (trim_role r))" "distinct (re_permissions (trim_role r))"
  by (simp_all add: trim_role_def)

lemma normalize_permissions_iff:
  assumes "distinct (map pm_code acc)" "distinct (map resource_action acc)"
  shows "normalize_permissions ps acc = Inr qs \<longleftrightarrow>
     qs = acc @ map trim_permission ps \<and> (\<forall>p \<in> set ps. valid_permission (trim_permission p) = None) \<and>
     distinct (map pm_code qs) \<and> distinct (map resource_action qs)"
  using assms
proof (induction ps arbitrary: acc)
  case (Cons p ps)
  let ?q = "trim_permission p"
  show ?case
  proof (cases "pm_code ?q \<in> set (map pm_code acc) \<or> resource_action ?q \<in> set (map resource_action acc)")
    case True
    then show ?thesis by (auto simp: Let_def split: option.split)
  next
    case False
    then have "distinct (map pm_code (acc @ [?q]))" "distinct (map resource_action (acc @ [?q]))"
      using Cons.prems by auto
    from Cons.IH [OF this] False show ?thesis by (auto simp: Let_def split: option.split)
  qed
qed auto

lemma find_outside: "List.find (\<lambda>c. c \<notin> A) xs = Some c \<Longrightarrow> \<not> set xs \<subseteq> A"
  by (auto simp: find_Some_iff) (meson nth_mem subsetD)

lemma normalize_roles_iff:
  assumes "distinct (map re_code acc)"
  shows "normalize_roles codes rs acc = Inr qs \<longleftrightarrow>
     qs = acc @ map trim_role rs \<and> distinct (map re_code qs) \<and>
     (\<forall>r \<in> set rs. re_code (trim_role r) \<noteq> [] \<and> re_name (trim_role r) \<noteq> [] \<and>
        set (re_permissions (trim_role r)) \<subseteq> set codes)"
  using assms
proof (induction rs arbitrary: acc)
  case (Cons r rs)
  let ?q = "trim_role r"
  show ?case
  proof (cases "re_code ?q \<in> set (map re_code acc)")
    case True
    then show ?thesis by (auto simp: Let_def)
  next
    case False
    then have "distinct (map re_code (acc @ [?q]))" using Cons.prems by auto
    from Cons.IH [OF this] False show ?thesis
      by (auto simp: Let_def find_None_iff split: option.split dest!: find_outside)
  qed
qed auto

lemma normalize_manifest_iff:
  "normalize_manifest checksum claims m = Inr p \<longleftrightarrow>
     (let ps = map trim_permission (mf_permissions m); rs = map trim_role (mf_roles m);
          ps' = sort_key pm_code ps; rs' = sort_key re_code rs; version = trim_space (mf_version m)
      in version \<noteq> [] \<and> ps \<noteq> [] \<and> rs \<noteq> [] \<and> 0 \<le> mf_max_roles m \<and> mf_max_roles m \<le> 10 \<and>
         (\<forall>q \<in> set ps. valid_permission q = None) \<and> distinct (map pm_code ps) \<and> distinct (map resource_action ps) \<and>
         distinct (map re_code rs) \<and>
         (\<forall>r \<in> set rs. re_code r \<noteq> [] \<and> re_name r \<noteq> [] \<and> set (re_permissions r) \<subseteq> set (map pm_code ps)) \<and>
         p = \<lparr>cp_version = version, cp_permissions = ps', cp_roles = rs', cp_max_roles = mf_max_roles m,
              cp_checksum = ''sha256:'' @ checksum (version, ps', rs', mf_max_roles m),
              cp_claims_hash = ''sha256:'' @ claims (map (\<lambda>r. (re_code r, re_permissions r)) rs')\<rparr>)"
  unfolding normalize_manifest_def Let_def
  by (simp add: normalize_permissions_iff normalize_roles_iff linorder_not_less image_image) (intro iffI; elim conjE; simp)

lemma distinct_map_sort_key: "distinct (map f (sort_key g xs)) \<longleftrightarrow> distinct (map f xs)"
  by (metis mset_eq_imp_distinct_iff mset_map mset_sort)

lemma sort_key_permuted:
  fixes f :: "'a \<Rightarrow> 'b :: linorder"
  assumes "mset xs = mset ys" "distinct (map f xs)"
  shows "sort_key f xs = sort_key f ys"
proof -
  have set_eq: "set xs = set ys" using assms(1) by (rule mset_eq_setD)
  have d: "distinct (map f ys)" using assms by (metis mset_eq_imp_distinct_iff mset_map)
  have "map f (sort_key f xs) = map f (sort_key f ys)"
  proof (rule sorted_distinct_set_unique)
    show "distinct (map f (sort_key f xs))" "distinct (map f (sort_key f ys))"
      using assms(2) d by (simp_all add: distinct_map)
  qed (simp_all add: set_eq)
  moreover have "inj_on f (set (sort_key f xs) \<union> set (sort_key f ys))"
    using assms(2) set_eq by (simp add: distinct_map)
  ultimately show ?thesis by (rule map_inj_on)
qed

section \<open>Properties\<close>

text \<open>
  What is published is canonical: in an accepted catalog permissions and roles are
  sorted by code without duplicates, no two permissions share a resource and an action, and
  every role lists its permissions sorted, once each, all of them declared in the catalog.
\<close>

theorem normalized_catalog_canonical:
  assumes "normalize_manifest checksum claims m = Inr p"
  shows "sorted (map pm_code (cp_permissions p)) \<and> distinct (map pm_code (cp_permissions p)) \<and>
     distinct (map resource_action (cp_permissions p)) \<and>
     sorted (map re_code (cp_roles p)) \<and> distinct (map re_code (cp_roles p)) \<and>
     (\<forall>r \<in> set (cp_roles p). sorted (re_permissions r) \<and> distinct (re_permissions r) \<and>
        set (re_permissions r) \<subseteq> set (map pm_code (cp_permissions p)))"
  using assms unfolding normalize_manifest_iff Let_def by (auto simp: image_image distinct_map_sort_key simp del: map_map)

text \<open>
  The payload, and with it both hashes, does not depend on the order in which a
  manifest lists its permissions and roles.
\<close>

theorem normalize_order_independent:
  assumes "normalize_manifest checksum claims m = Inr p"
    and "mset ps = mset (mf_permissions m)" and "mset rs = mset (mf_roles m)"
  shows "normalize_manifest checksum claims (m\<lparr>mf_permissions := ps, mf_roles := rs\<rparr>) = Inr p"
proof -
  let ?p = "map trim_permission" and ?r = "map trim_role"
  from assms(1) have d: "distinct (map pm_code (?p (mf_permissions m)))" "distinct (map re_code (?r (mf_roles m)))"
    "distinct (map resource_action (?p (mf_permissions m)))"
    by (simp_all add: normalize_manifest_iff Let_def)
  have ms: "mset (?p (mf_permissions m)) = mset (?p ps)" "mset (?r (mf_roles m)) = mset (?r rs)"
    using assms(2,3) by simp_all
  have d': "distinct (map pm_code (?p ps))" "distinct (map re_code (?r rs))" "distinct (map resource_action (?p ps))"
    using d ms by (metis mset_eq_imp_distinct_iff mset_map)+
  have sets: "set (?p ps) = set (?p (mf_permissions m))" "set (?r rs) = set (?r (mf_roles m))"
    using ms by (metis mset_eq_setD)+
  have empty: "(?p ps = []) = (?p (mf_permissions m) = [])" "(?r rs = []) = (?r (mf_roles m) = [])"
    using ms by (metis mset_zero_iff)+
  have sorts: "sort_key pm_code (?p ps) = sort_key pm_code (?p (mf_permissions m))"
    "sort_key re_code (?r rs) = sort_key re_code (?r (mf_roles m))"
    using sort_key_permuted [OF ms(1) d(1)] sort_key_permuted [OF ms(2) d(2)] by simp_all
  have codes: "set (map pm_code (?p ps)) = set (map pm_code (?p (mf_permissions m)))" using sets(1) by (simp only: set_map)
  have sel: "mf_permissions (m\<lparr>mf_permissions := ps, mf_roles := rs\<rparr>) = ps" "mf_roles (m\<lparr>mf_permissions := ps, mf_roles := rs\<rparr>) = rs"
    "mf_version (m\<lparr>mf_permissions := ps, mf_roles := rs\<rparr>) = mf_version m"
    "mf_max_roles (m\<lparr>mf_permissions := ps, mf_roles := rs\<rparr>) = mf_max_roles m" by simp_all
  show ?thesis
    using assms(1) unfolding normalize_manifest_iff Let_def sel sets sorts codes empty
    using d' by (elim conjE) (intro conjI; assumption)
qed

definition sample_manifest :: manifest where
  "sample_manifest =
     \<lparr>mf_version = '' v1'',
      mf_permissions = [new_permission ''b.read'' ''B'' ''b'' ''read'' ''low'', new_permission ''a.read'' ''A'' ''a'' ''read'' ''HIGH''],
      mf_roles = [new_role ''r'' ''R'' [] ['' b.read'', ''a.read'', ''b.read'']], mf_max_roles = 10\<rparr>"

lemma trim_spaces: "trim_space '' v1'' = ''v1''" "trim_space '' b.read'' = ''b.read''"
  by (simp_all add: trim_space_def go_runes_ascii text_eval del: go_runes.simps)

lemma sample_manifest_accepted:
  "\<exists>p. normalize_manifest checksum claims sample_manifest = Inr p \<and> map re_permissions (cp_roles p) = [[''a.read'', ''b.read'']] \<and>
     map pm_code (cp_permissions p) = [''a.read'', ''b.read'']"
proof -
  have up: "to_upper ''low'' = ''LOW''" by (simp add: to_upper_def go_runes_ascii text_eval upper_rune_def utf8_def utf8_char_def byte_chr_def char_of_eq_iff
        del: go_runes.simps)
  have "sorted_unique ['' b.read'', ''a.read'', ''b.read''] = [''a.read'', ''b.read'']"
    by (simp add: sorted_unique_def trim_spaces text_eval)
  then show ?thesis
    by (simp add: normalize_manifest_def sample_manifest_def new_permission_def new_role_def trim_role_def trim_permission_def
        trim_spaces valid_permission_def resource_action_def up text_eval Let_def)
qed

lemma normalized_catalog_canonical_witness:
  "\<exists>p. normalize_manifest (\<lambda>_. ''x'') (\<lambda>_. ''y'') sample_manifest = Inr p \<and> length (cp_permissions p) = 2 \<and>
     sorted (map pm_code (cp_permissions p))"
proof -
  obtain p where p: "normalize_manifest (\<lambda>_. ''x'') (\<lambda>_. ''y'') sample_manifest = Inr p"
    and c: "map pm_code (cp_permissions p) = [''a.read'', ''b.read'']"
    using sample_manifest_accepted [of "\<lambda>_. ''x''" "\<lambda>_. ''y''"] by (elim exE conjE) (rule that; assumption)
  from c have "length (cp_permissions p) = 2" by (metis length_map list.size(3,4) numeral_2_eq_2 One_nat_def Suc_eq_plus1)
  with p normalized_catalog_canonical [OF p] show ?thesis by (intro exI [of _ p] conjI) simp_all
qed

lemma normalize_order_independent_witness:
  "\<exists>p. normalize_manifest (\<lambda>_. ''x'') (\<lambda>_. ''y'') sample_manifest = Inr p \<and>
     normalize_manifest (\<lambda>_. ''x'') (\<lambda>_. ''y'')
       (sample_manifest\<lparr>mf_permissions := rev (mf_permissions sample_manifest), mf_roles := mf_roles sample_manifest\<rparr>) = Inr p"
proof -
  obtain p where p: "normalize_manifest (\<lambda>_. ''x'') (\<lambda>_. ''y'') sample_manifest = Inr p"
    using sample_manifest_accepted [of "\<lambda>_. ''x''" "\<lambda>_. ''y''"] by (elim exE conjE) (rule that; assumption)
  from normalize_order_independent [OF p, of "rev (mf_permissions sample_manifest)" "mf_roles sample_manifest"] p
  show ?thesis by (intro exI [of _ p] conjI) simp_all
qed

text \<open>
  Who can be given a duty: the roles of the CRM catalog that carry every permission of
  the duty. Team lead and technical director can lead, and only project manager, team lead
  and technician can execute; the super administrator can not be made an executor.
\<close>

theorem duty_roles:
  "duty_role_codes DutyTeamLead = [''crm_super_admin'', ''team_lead'', ''technical_director''] \<and>
   duty_role_codes DutyExecutor = [''project_manager'', ''team_lead'', ''technician''] \<and>
   (\<forall>d. set (duty_role_codes d) =
      (if duty_permissions d = [] then {}
       else {re_code r | r. r \<in> set (mf_roles crm_manifest) \<and> set (duty_permissions d) \<subseteq> set (re_permissions r)}))"
  by (auto simp: duty_role_codes_eval) (auto simp: duty_role_codes_def list_all_iff)

end
