(* ===== verification/PresaleAssign.thy ===== *)
theory PresaleAssign
  imports PresaleSamples PlatformCatalog
begin

text \<open>
  Assignment (\<open>assignment_*.go\<close>): the one-level replacement of executors, the choice of an
  execution department and a team lead, the takeover during execution, the two-level
  replacement of executors, the team lead's refusal and its invalidation. Where the code
  ranges over a map, the order is \<open>map_order\<close> of the service.
\<close>

section \<open>Targets\<close>

definition normalize_target :: "assignment_target \<Rightarrow> assignment_target res" where
  "normalize_target v =
     (if trim_space (tg_person v) = [] \<or> tg_role v \<notin> {''team_lead'', ''project_manager'', ''technician''} \<or>
         128 < rune_len (tg_name v) \<or> 128 < rune_len (tg_department v) \<or> 64 < rune_len (tg_department_id v)
      then Inl ErrInvalidInput
      else Inr \<lparr>tg_person = trim_space (tg_person v), tg_name = trim_space (tg_name v),
                tg_department = trim_space (tg_department v), tg_department_id = trim_space (tg_department_id v),
                tg_role = trim_space (tg_role v)\<rparr>)"

text \<open>
  The map of targets, its sorted keys and the canonical list are one list here, sorted by
  person: the map has fewer keys than there are targets exactly when a person occurs twice.
\<close>

definition normalize_assignment_targets :: "assignment_target list \<Rightarrow> assignment_target list res" where
  "normalize_assignment_targets ts =
     (if ts = [] \<or> 100 < length ts then Inl ErrInvalidInput
      else case map_res normalize_target ts of
        Inl e \<Rightarrow> Inl e
      | Inr vs \<Rightarrow>
          if \<not> distinct (map tg_person vs) then Inl ErrInvalidInput else Inr (sort_key tg_person vs))"

definition assignment_intent_targets :: "assignment_target list \<Rightarrow> assignment_target list" where
  "assignment_intent_targets ts =
     map (\<lambda>t. \<lparr>tg_person = tg_person t, tg_name = [], tg_department = [], tg_department_id = tg_department_id t,
               tg_role = tg_role t\<rparr>) ts"

text \<open>One target against the directory: name and departments are the directory's.\<close>

definition selected_department :: "directory_user \<Rightarrow> string \<Rightarrow> string" where
  "selected_department p dep0 =
     (let dep = trim_space dep0;
          primary = (case List.find org_primary (du_orgs p) of Some g \<Rightarrow> org_id g | None \<Rightarrow> [])
      in if dep \<noteq> [] then dep
         else if primary \<noteq> [] then primary
         else (case du_orgs p of [] \<Rightarrow> [] | g # _ \<Rightarrow> org_id g))"

definition resolve_target :: "directory_user \<Rightarrow> assignment_target \<Rightarrow> assignment_target res" where
  "resolve_target p t =
     (let name = (if trim_space (du_name p) = [] then tg_person t else trim_space (du_name p));
          dep = selected_department p (tg_department_id t);
          departments = join txt_list_comma (filter (\<lambda>v. v \<noteq> []) (map (trim_space \<circ> org_name) (du_orgs p)))
      in if \<not> list_ex (\<lambda>g. org_id g = dep) (du_orgs p) then Inl ErrSelectionInvalid
         else if 128 < rune_len name \<or> 128 < rune_len departments then Inl ErrSelectionInvalid
         else Inr (t\<lparr>tg_department_id := dep, tg_name := name, tg_department := departments\<rparr>))"

definition resolve_assignment_targets :: "service \<Rightarrow> assignment_target list \<Rightarrow> assignment_target list res" where
  "resolve_assignment_targets s assignees =
     (case normalize_assignment_targets assignees of
        Inl e \<Rightarrow> Inl e
      | Inr ts \<Rightarrow>
          (case owner_directory s of
             None \<Rightarrow> Inr ts
           | Some d \<Rightarrow>
               (case dir_resolve d (map tg_person ts) of
                  Inl e \<Rightarrow> Inl e
                | Inr found \<Rightarrow>
                    map_res (\<lambda>t. case found (tg_person t) of
                                   None \<Rightarrow> Inl ErrSelectionInvalid
                                 | Some p \<Rightarrow> resolve_target p t) ts)))"

section \<open>Qualification for a duty\<close>

text \<open>\<open>directoryUserHoldsAnyRole\<close>: a directory that does not end is unavailable.\<close>

fun holds_any_role :: "directory \<Rightarrow> string \<Rightarrow> string list \<Rightarrow> nat \<Rightarrow> nat \<Rightarrow> bool res" where
  "holds_any_role d user rs 0 page = Inl ErrDirectoryUnavailable"
| "holds_any_role d user rs (Suc left) page =
     (case dir_list d \<lparr>q_user = user, q_roles = rs, q_page = page, q_size = directory_page_size\<rparr> of
        Inl e \<Rightarrow> Inl e
      | Inr p \<Rightarrow>
          if list_ex (\<lambda>u. trim_space (du_id u) = user) (page_items p) then Inr True
          else if page_items p = [] \<or> page_total p \<le> int (page * directory_page_size) \<or>
                  length (page_items p) < directory_page_size then Inr False
          else holds_any_role d user rs left (page + 1))"

fun check_duty :: "directory \<Rightarrow> assignment_duty \<Rightarrow> string list \<Rightarrow> string list \<Rightarrow> unit res" where
  "check_duty d duty [] checked = Inr ()"
| "check_duty d duty (p # ps) checked =
     (let person = trim_space p
      in if person = [] then Inl ErrInvalidInput
         else if person \<in> set checked then check_duty d duty ps checked
         else case holds_any_role d person (duty_role_codes duty) directory_max_pages 1 of
           Inl e \<Rightarrow> Inl ErrDependencyUnavailable
         | Inr b \<Rightarrow>
             if \<not> b then Inl (ErrAssigneeNotQualified (Some (person, duty_permissions duty)))
             else check_duty d duty ps (person # checked))"

definition ensure_duty_eligible :: "service \<Rightarrow> assignment_duty \<Rightarrow> string list \<Rightarrow> unit res" where
  "ensure_duty_eligible s duty persons =
     (if persons = [] then Inr ()
      else case owner_directory s of
        None \<Rightarrow> Inl ErrDependencyUnavailable
      | Some d \<Rightarrow>
          if duty_permissions duty = [] then Inl ErrInvalidInput
          else if duty_role_codes duty = [] then Inl ErrDependencyUnavailable
          else check_duty d duty persons [])"

section \<open>Steps shared by the operations\<close>

definition next_batch :: "assignment list \<Rightarrow> nat" where
  "next_batch gs = foldl (\<lambda>b g. if b \<le> batch_no g then batch_no g + 1 else b) 1 gs"

text \<open>The map from persons to their assignment: a later row replaces an earlier one.\<close>

definition current_of :: "assignment list \<Rightarrow> string \<Rightarrow> assignment option" where
  "current_of gs = map_of (rev (map (\<lambda>g. (assignee g, g)) gs))"

definition current_keys :: "assignment list \<Rightarrow> string list" where
  "current_keys gs = remdups (map assignee gs)"

definition new_assignment ::
  "actor \<Rightarrow> nat \<Rightarrow> string \<Rightarrow> string \<Rightarrow> string \<Rightarrow> string \<Rightarrow> assignment_kind \<Rightarrow> instant \<Rightarrow> nat \<Rightarrow> string \<Rightarrow> assignment" where
  "new_assignment a req person name dep rol k at batch reason =
     \<lparr>row_id = 0, tenant_id = actor_tenant a, created_by = user_id a, updated_by = user_id a, created_at = 0,
      updated_at = 0, deleted_at = None, version = 1, as_request = req, assignee = person,
      assignee_namespace = ''USER'', assignee_name = name, assignee_department = dep, assignee_role = rol, kind = k,
      assigned_by = user_id a, assigned_at = at, ended_at = None, is_current = True, batch_no = batch,
      change_reason = reason\<rparr>"

definition remove_assignee ::
  "service \<Rightarrow> actor \<Rightarrow> presale_request \<Rightarrow> string \<Rightarrow> instant \<Rightarrow> assignment \<Rightarrow> presale_db \<Rightarrow> presale_db res" where
  "remove_assignee s a r reason at g db =
     (case end_assignment (actor_tenant a) (row_id g) (version g) (user_id a) at db of
        Inl e \<Rightarrow> Inl e
      | Inr db1 \<Rightarrow> record_assignment_notification s a r g EventRemoved reason at db1)"

definition add_assignee ::
  "service \<Rightarrow> actor \<Rightarrow> presale_request \<Rightarrow> nat \<Rightarrow> string \<Rightarrow> instant \<Rightarrow> nat \<Rightarrow> assignment_kind \<Rightarrow> assignment_target \<Rightarrow> presale_db
     \<Rightarrow> presale_db res" where
  "add_assignee s a r req reason at batch k t db =
     (let name = (if tg_name t = [] then tg_person t else tg_name t);
          (db1, g) = create_assignment (clock_now s)
             (new_assignment a req (tg_person t) name (tg_department t) (tg_role t) k at batch reason) db
      in record_assignment_notification s a r g EventAdded reason at db1)"

text \<open>The two loops of a replacement: end who is not kept, then add who is new.\<close>

definition remove_others ::
  "service \<Rightarrow> actor \<Rightarrow> presale_request \<Rightarrow> string \<Rightarrow> instant \<Rightarrow> assignment list \<Rightarrow> string list \<Rightarrow> presale_db \<Rightarrow> presale_db res" where
  "remove_others s a r reason at gs keep db =
     fold_res (\<lambda>p d. case current_of gs p of
                        None \<Rightarrow> Inr d
                      | Some g \<Rightarrow> if p \<in> set keep then Inr d else remove_assignee s a r reason at g d)
       (map_order s (current_keys gs)) db"

definition add_new ::
  "service \<Rightarrow> actor \<Rightarrow> presale_request \<Rightarrow> nat \<Rightarrow> string \<Rightarrow> instant \<Rightarrow> nat \<Rightarrow> assignment_kind \<Rightarrow> (string \<Rightarrow> unit res) \<Rightarrow>
     assignment_target list \<Rightarrow> string list \<Rightarrow> string list \<Rightarrow> presale_db \<Rightarrow> presale_db res" where
  "add_new s a r req reason at batch k guard ts present order db =
     fold_res (\<lambda>p d. if p \<in> set present then Inr d
                     else case guard p of
                       Inl e \<Rightarrow> Inl e
                     | Inr _ \<Rightarrow>
                         (case List.find (\<lambda>t. tg_person t = p) ts of
                            None \<Rightarrow> Inr d
                          | Some t \<Rightarrow> add_assignee s a r req reason at batch k t d)) order db"

definition guard_new :: "service \<Rightarrow> string \<Rightarrow> string list \<Rightarrow> string list \<Rightarrow> unit res" where
  "guard_new s tenant present order =
     fold_res (\<lambda>p _. if p \<in> set present then Inr () else guard_user_write s tenant p) order ()"

text \<open>The end of a transaction that lost a race for its key: \<open>resolveMutationRace\<close>.\<close>

definition settle_mutation ::
  "actor \<Rightarrow> nat \<Rightarrow> string \<Rightarrow> string \<Rightarrow> string \<Rightarrow> string \<Rightarrow> (presale_request \<Rightarrow> unit res) \<Rightarrow> presale_db \<Rightarrow>
     (presale_db \<times> presale_request) res \<Rightarrow> (presale_db \<times> presale_request) res" where
  "settle_mutation a req key operation action hash authorize db outcome =
     (case outcome of
        Inr out \<Rightarrow> Inr out
      | Inl e \<Rightarrow>
          if \<not> is_duplicate_error e then Inl e
          else (case resolve_mutation_race a req key operation action hash e authorize db of
                  Inl e' \<Rightarrow> Inl e'
                | Inr r \<Rightarrow> Inr (db, r)))"

section \<open>One-level replacement\<close>

definition replace_hash :: "service \<Rightarrow> actor \<Rightarrow> nat \<Rightarrow> string \<Rightarrow> assignment_target list \<Rightarrow> string \<Rightarrow> nat \<Rightarrow> string" where
  "replace_hash s a req operation ts reason v =
     mutation_digest s a req operation ''REPLACE'' (PTargets (assignment_intent_targets ts) reason v)"

text \<open>The end of both replacements: completion, the replay, the response.\<close>

definition finish_replacement ::
  "service \<Rightarrow> actor \<Rightarrow> nat \<Rightarrow> string \<Rightarrow> string \<Rightarrow> string \<Rightarrow> presale_request \<Rightarrow> presale_db \<Rightarrow> (presale_db \<times> presale_request) res" where
  "finish_replacement s a req key operation hash r db =
     (case complete_if_ready s r (list_current_assignments (actor_tenant a) req db) (user_id a) (trace_id a) db of
        Inl e \<Rightarrow> Inl e
      | Inr (db1, r1, completed) \<Rightarrow>
          (let r2 = (if completed then r1\<lparr>status := Completed\<rparr> else r1)
           in case create_replay (new_replay a req key operation ''REPLACE'' hash (version r2) (clock_now s)) db1 of
                Inl e \<Rightarrow> Inl e
              | Inr db2 \<Rightarrow> Inr (db2, r2)))"

definition replace_assignments_tx ::
  "service \<Rightarrow> actor \<Rightarrow> nat \<Rightarrow> string \<Rightarrow> string \<Rightarrow> replace_input \<Rightarrow> presale_db \<Rightarrow> (presale_db \<times> presale_request) res" where
  "replace_assignments_tx s a req key hash inp db =
     (case find_request (actor_tenant a) req db of
        None \<Rightarrow> Inl ErrNotFound
      | Some r \<Rightarrow>
        (let nj = (case find_instance (actor_tenant a) req db of None \<Rightarrow> NodesEmpty | Some i \<Rightarrow> inst_nodes i)
         in if \<not> assignment_action_allowed a nj NodePerson then Inl ErrForbidden
            else if instance_two_level nj \<or> status r = PendingExecutionAssignment \<or> trim_space (team_lead r) \<noteq> []
            then Inl ErrInvalidTransition
            else case find_replay (actor_tenant a) req (user_id a) key db of
              Some old \<Rightarrow>
                (case validate_replay old a req ''REPLACE_ASSIGNMENTS'' ''REPLACE'' hash of
                   Inl e \<Rightarrow> Inl e
                 | Inr _ \<Rightarrow> Inr (db, r))
            | None \<Rightarrow>
              if version r \<noteq> rp_version inp then Inl ErrVersionConflict
              else if status r \<noteq> ApprovedPendingAssignment \<and> status r \<noteq> Executing then Inl ErrInvalidTransition
              else (let old = list_current_assignments (actor_tenant a) req db;
                        batch = next_batch old; present = current_keys old; now = clock_now s
                in case resolve_assignment_targets s (rp_assignees inp) of
                  Inl e \<Rightarrow> Inl e
                | Inr ts \<Rightarrow>
                  (case guard_new s (actor_tenant a) present (map tg_person ts) of
                    Inl e \<Rightarrow> Inl e
                  | Inr _ \<Rightarrow>
                    (case ensure_duty_eligible s DutyExecutor (filter (\<lambda>p. p \<notin> set present) (map tg_person ts)) of
                      Inl e \<Rightarrow> Inl e
                    | Inr _ \<Rightarrow>
                      (case remove_others s a r (rp_reason inp) now old (map tg_person ts) db of
                        Inl e \<Rightarrow> Inl e
                      | Inr db1 \<Rightarrow>
                        (case add_new s a r req (rp_reason inp) now batch KindEmpty (\<lambda>_. Inr ()) ts present
                               (map_order s (map tg_person ts)) db1 of
                          Inl e \<Rightarrow> Inl e
                        | Inr db2 \<Rightarrow>
                          (if status r = ApprovedPendingAssignment
                           then (case update_request_versioned now r (version r)
                                   (\<lambda>x. x\<lparr>status := Executing, updated_by := user_id a\<rparr>) db2 of
                                  Inl e \<Rightarrow> Inl e
                                | Inr (db3, r3) \<Rightarrow>
                                    finish_replacement s a req key ''REPLACE_ASSIGNMENTS'' hash (r3\<lparr>status := Executing\<rparr>)
                                      (status_log_entry s r3 ApprovedPendingAssignment Executing ''ASSIGNED'' (rp_reason inp)
                                         (user_id a) (trace_id a) db3))
                           else (case update_request_versioned now r (version r) (\<lambda>x. x\<lparr>updated_by := user_id a\<rparr>) db2 of
                                  Inl e \<Rightarrow> Inl e
                                | Inr (db3, r3) \<Rightarrow>
                                    finish_replacement s a req key ''REPLACE_ASSIGNMENTS'' hash r3 db3)))))))))"

definition replace_input_valid :: "string \<Rightarrow> replace_input \<Rightarrow> bool" where
  "replace_input_valid key inp \<longleftrightarrow>
     \<not> (key = [] \<or> 128 < length key \<or> rp_assignees inp = [] \<or> 100 < length (rp_assignees inp) \<or>
        1000 < rune_len (rp_reason inp))"

definition replace_assignments ::
  "service \<Rightarrow> actor \<Rightarrow> nat \<Rightarrow> string \<Rightarrow> replace_input \<Rightarrow> presale_db \<Rightarrow> (presale_db \<times> presale_request) res" where
  "replace_assignments s a req key0 inp0 db =
     (if \<not> can a ''presale.assign'' then Inl ErrForbidden
      else (let key = trim_space key0; inp = inp0\<lparr>rp_reason := trim_space (rp_reason inp0)\<rparr>
            in if \<not> replace_input_valid key inp then Inl ErrInvalidInput
               else case normalize_assignment_targets (rp_assignees inp) of
                 Inl e \<Rightarrow> Inl e
               | Inr ts \<Rightarrow>
                   (let hash = replace_hash s a req ''REPLACE_ASSIGNMENTS'' ts (rp_reason inp) (rp_version inp)
                    in settle_mutation a req key ''REPLACE_ASSIGNMENTS'' ''REPLACE'' hash (\<lambda>_. Inr ()) db
                         (replace_assignments_tx s a req key hash inp db))))"

section \<open>Department and team lead\<close>

text \<open>The name of a department by its id: the given one, or the first that is not empty.\<close>

definition department_by_id :: "string \<Rightarrow> string \<Rightarrow> directory_user list \<Rightarrow> string \<times> bool" where
  "department_by_id dep name0 us =
     foldl (\<lambda>(name, found) g. if org_id g = dep then (if name = [] then org_name g else name, True) else (name, found))
       (name0, False) (concat (map du_orgs us))"

definition select_department_only_tx ::
  "service \<Rightarrow> actor \<Rightarrow> nat \<Rightarrow> select_input \<Rightarrow> string \<Rightarrow> presale_db \<Rightarrow> (presale_db \<times> presale_request) res" where
  "select_department_only_tx s a req inp name db =
     (case find_request (actor_tenant a) req db of
        None \<Rightarrow> Inl ErrNotFound
      | Some r \<Rightarrow>
        (let nj = (case find_instance (actor_tenant a) req db of None \<Rightarrow> NodesEmpty | Some i \<Rightarrow> inst_nodes i)
         in if \<not> assignment_action_allowed a nj NodeDepartment then Inl ErrForbidden
            else if instance_two_level nj then Inl ErrInvalidInput
            else if status r \<noteq> ApprovedPendingAssignment \<or> version r \<noteq> sd_version inp then Inl ErrInvalidTransition
            else case update_request_versioned (clock_now s) r (version r)
                   (\<lambda>x. x\<lparr>department_id := sd_department_id inp, department := name, updated_by := user_id a\<rparr>) db of
              Inl e \<Rightarrow> Inl e
            | Inr (db1, r1) \<Rightarrow>
                (let r2 = r1\<lparr>department_id := sd_department_id inp, department := name\<rparr>
                 in Inr (notify_workflow s
                      (request_notice (actor_tenant a) (applicant_id r2) ''PRESALE_DEPARTMENT_SELECTED'' txt_department_title
                         (txt_department_body @ name) r2 []) db1, r2))))"

definition select_execution_department_only ::
  "service \<Rightarrow> actor \<Rightarrow> nat \<Rightarrow> select_input \<Rightarrow> presale_db \<Rightarrow> (presale_db \<times> presale_request) res" where
  "select_execution_department_only s a req inp db =
     (case owner_directory s of
        None \<Rightarrow> Inl ErrDependencyUnavailable
      | Some d \<Rightarrow>
          (case list_directory_users d directory_max_pages 1 [] of
             Inl e \<Rightarrow> Inl e
           | Inr us \<Rightarrow>
               (let (name, found) = department_by_id (sd_department_id inp) (trim_space (sd_department inp)) us
                in if \<not> found \<or> name = [] then Inl ErrSelectionInvalid
                   else select_department_only_tx s a req inp name db)))"

text \<open>
  \<open>endCurrentTeamLeadAssignment\<close>: the loop over the rows read before; the flag it returns
  is not used.
\<close>

definition end_current_team_lead ::
  "service \<Rightarrow> actor \<Rightarrow> presale_request \<Rightarrow> string \<Rightarrow> instant \<Rightarrow> presale_db \<Rightarrow> presale_db res" where
  "end_current_team_lead s a r reason at db =
     fold_res (\<lambda>g d. if \<not> is_current g \<or> effective_kind g \<noteq> KindTeamLead then Inr d
                     else case end_assignment (actor_tenant a) (row_id g) (version g) (user_id a) at d of
                       Inl e \<Rightarrow> Inl e
                     | Inr d1 \<Rightarrow>
                         (case record_assignment_event s a r
                            (g\<lparr>is_current := False, ended_at := Some at, updated_by := user_id a, version := version g + 1\<rparr>)
                            EventRemoved reason at d1 of
                            Inl e \<Rightarrow> Inl e
                          | Inr (d2, ev) \<Rightarrow> Inr d2))
       (list_assignments_for_update (actor_tenant a) (row_id r) db) db"

text \<open>
  The new team lead: the current one ends, the new row and its evidence follow. The value is
  the database and the id of the new row.
\<close>

definition install_team_lead ::
  "service \<Rightarrow> actor \<Rightarrow> presale_request \<Rightarrow> nat \<Rightarrow> string \<Rightarrow> string \<Rightarrow> string \<Rightarrow> string \<Rightarrow> string \<Rightarrow> presale_db \<Rightarrow>
     (presale_db \<times> nat) res" where
  "install_team_lead s a r req person name dep end_reason reason db =
     (case end_current_team_lead s a r end_reason (clock_now s) db of
        Inl e \<Rightarrow> Inl e
      | Inr db1 \<Rightarrow>
          (let batch = next_batch (list_assignments_for_update (actor_tenant a) req db1);
               (db2, g) = create_assignment (clock_now s)
                  (new_assignment a req person name dep ''team_lead'' KindTeamLead (clock_now s) batch reason) db1
           in case record_assignment_event s a r g EventAdded reason (clock_now s) db2 of
                Inl e \<Rightarrow> Inl e
              | Inr (db3, ev) \<Rightarrow> Inr (db3, row_id g)))"

definition department_of :: "directory_user \<Rightarrow> string \<Rightarrow> string" where
  "department_of p dep =
     (case List.find (\<lambda>g. org_id g = dep) (du_orgs p) of None \<Rightarrow> [] | Some g \<Rightarrow> trim_space (org_name g))"

definition lead_name :: "directory_user \<Rightarrow> string \<Rightarrow> string" where
  "lead_name p person = (if trim_space (du_name p) = [] then person else trim_space (du_name p))"

definition select_lead_hash :: "service \<Rightarrow> actor \<Rightarrow> nat \<Rightarrow> select_input \<Rightarrow> string" where
  "select_lead_hash s a req inp =
     mutation_digest s a req ''SELECT_EXECUTION_DEPARTMENT'' ''TEAM_LEAD''
       (PDepartment (sd_department_id inp) (sd_team_lead inp) (sd_version inp))"

definition select_lead_tx ::
  "service \<Rightarrow> actor \<Rightarrow> nat \<Rightarrow> string \<Rightarrow> string \<Rightarrow> select_input \<Rightarrow> string \<Rightarrow> string \<Rightarrow> presale_db \<Rightarrow>
     (presale_db \<times> presale_request) res" where
  "select_lead_tx s a req key hash inp name dep db =
     (case find_request (actor_tenant a) req db of
        None \<Rightarrow> Inl ErrNotFound
      | Some r \<Rightarrow>
        (let nj = (case find_instance (actor_tenant a) req db of None \<Rightarrow> NodesEmpty | Some i \<Rightarrow> inst_nodes i)
         in if \<not> assignment_actions_allowed a nj [NodeDepartment, NodeTeamLead] then Inl ErrForbidden
            else if \<not> instance_two_level nj then Inl ErrInvalidTransition
            else case (if key = [] then None else find_replay (actor_tenant a) req (user_id a) key db) of
              Some old \<Rightarrow>
                (case validate_replay old a req ''SELECT_EXECUTION_DEPARTMENT'' ''TEAM_LEAD'' hash of
                   Inl e \<Rightarrow> Inl e
                 | Inr _ \<Rightarrow> Inr (db, r))
            | None \<Rightarrow>
              if status r \<noteq> ApprovedPendingAssignment \<or> version r \<noteq> sd_version inp then Inl ErrInvalidTransition
              else case guard_user_write s (actor_tenant a) (sd_team_lead inp) of
                Inl e \<Rightarrow> Inl e
              | Inr _ \<Rightarrow>
                (case install_team_lead s a r req (sd_team_lead inp) name dep txt_lead_reassigned txt_lead_assigned db of
                  Inl e \<Rightarrow> Inl e
                | Inr (db1, asg) \<Rightarrow>
                  (case update_request_versioned (clock_now s) r (version r)
                      (\<lambda>x. x\<lparr>status := PendingExecutionAssignment, department_id := sd_department_id inp, department := dep,
                             team_lead := sd_team_lead inp, team_lead_name := name,
                             assignment_level := assignment_level_team_lead, updated_by := user_id a\<rparr>) db1 of
                    Inl e \<Rightarrow> Inl e
                  | Inr (db2, r2) \<Rightarrow>
                    (let r3 = r2\<lparr>status := PendingExecutionAssignment, department_id := sd_department_id inp,
                                department := dep, team_lead := sd_team_lead inp, team_lead_name := name,
                                assignment_level := assignment_level_team_lead\<rparr>;
                         mark = ''team-lead:'' @ show_nat asg;
                         db3 = status_log_entry s r3 ApprovedPendingAssignment PendingExecutionAssignment
                                 ''TEAM_LEAD_ASSIGNED'' [] (user_id a) (trace_id a) db2;
                         db4 = notify_workflow s
                           (request_notice (actor_tenant a) (sd_team_lead inp) ''PRESALE_EXECUTOR_ASSIGNMENT_PENDING''
                              txt_executor_pending_title
                              (txt_executor_pending_body1 @ request_no r3 @ txt_executor_pending_body2) r3 mark) db3;
                         db5 = notify_workflow s
                           (request_notice (actor_tenant a) (applicant_id r3) ''PRESALE_DEPARTMENT_SELECTED''
                              txt_department_lead_title
                              (txt_department_body @ dep @ txt_department_lead_body @ name) r3 mark) db4
                     in if key = [] then Inr (db5, r3)
                        else case create_replay (new_replay a req key ''SELECT_EXECUTION_DEPARTMENT'' ''TEAM_LEAD'' hash
                               (version r3) (clock_now s)) db5 of
                          Inl e \<Rightarrow> Inl e
                        | Inr db6 \<Rightarrow> Inr (db6, r3))))))"

definition select_department_and_lead ::
  "service \<Rightarrow> actor \<Rightarrow> nat \<Rightarrow> string \<Rightarrow> select_input \<Rightarrow> presale_db \<Rightarrow> (presale_db \<times> presale_request) res" where
  "select_department_and_lead s a req key inp db =
     (if key \<noteq> [] \<and> 128 < length key then Inl ErrInvalidInput
      else (let hash = select_lead_hash s a req inp
        in case (if key = [] then None else find_replay (actor_tenant a) req (user_id a) key db) of
          Some old \<Rightarrow>
            (case validate_replay old a req ''SELECT_EXECUTION_DEPARTMENT'' ''TEAM_LEAD'' hash of
               Inl e \<Rightarrow> Inl e
             | Inr _ \<Rightarrow>
                 (case find_request (actor_tenant a) req db of None \<Rightarrow> Inl ErrNotFound | Some r \<Rightarrow> Inr (db, r)))
        | None \<Rightarrow>
          (case owner_directory s of
             None \<Rightarrow> Inl ErrDependencyUnavailable
           | Some d \<Rightarrow>
             (case dir_resolve d [sd_team_lead inp] of
               Inl e \<Rightarrow> Inl e
             | Inr found \<Rightarrow>
               (case found (sd_team_lead inp) of
                 None \<Rightarrow> Inl ErrSelectionInvalid
               | Some p \<Rightarrow>
                 (let dep = department_of p (sd_department_id inp); name = lead_name p (sd_team_lead inp)
                  in if dep = [] then Inl ErrSelectionInvalid
                     else if 64 < rune_len (sd_department_id inp) \<or> 128 < rune_len dep then Inl ErrSelectionInvalid
                     else if 128 < rune_len name then Inl ErrSelectionInvalid
                     else case ensure_user_not_frozen s (actor_tenant a) (sd_team_lead inp) of
                       Inl e \<Rightarrow> Inl e
                     | Inr _ \<Rightarrow>
                       (case ensure_duty_eligible s DutyTeamLead [sd_team_lead inp] of
                         Inl e \<Rightarrow> Inl e
                       | Inr _ \<Rightarrow>
                         (case select_lead_tx s a req key hash inp name dep db of
                           Inr out \<Rightarrow> Inr out
                         | Inl e \<Rightarrow>
                             if key = [] then Inl e
                             else settle_mutation a req key ''SELECT_EXECUTION_DEPARTMENT'' ''TEAM_LEAD'' hash
                               (\<lambda>_. Inr ()) db (Inl e)))))))))"

definition select_execution_department ::
  "service \<Rightarrow> actor \<Rightarrow> nat \<Rightarrow> string \<Rightarrow> select_input \<Rightarrow> presale_db \<Rightarrow> (presale_db \<times> presale_request) res" where
  "select_execution_department s a req key inp0 db =
     (if \<not> can a ''presale.assign'' then Inl ErrForbidden
      else (let inp = inp0\<lparr>sd_department_id := trim_space (sd_department_id inp0),
                           sd_team_lead := trim_space (sd_team_lead inp0)\<rparr>
            in if sd_department_id inp = [] \<or> sd_version inp = 0 then Inl ErrInvalidInput
               else if sd_team_lead inp = [] then select_execution_department_only s a req inp db
               else select_department_and_lead s a req (trim_space key) inp db))"

section \<open>Takeover during execution\<close>

definition takeover_hash :: "service \<Rightarrow> actor \<Rightarrow> nat \<Rightarrow> takeover_input \<Rightarrow> string" where
  "takeover_hash s a req inp =
     mutation_digest s a req ''SELECT_EXECUTION_DEPARTMENT'' ''TEAM_LEAD''
       (PTakeover (tk_team_lead inp) (tk_version inp) (tk_reason inp))"

definition takeover_tx ::
  "service \<Rightarrow> actor \<Rightarrow> nat \<Rightarrow> string \<Rightarrow> string \<Rightarrow> takeover_input \<Rightarrow> string \<Rightarrow> string \<Rightarrow> presale_db \<Rightarrow>
     (presale_db \<times> presale_request) res" where
  "takeover_tx s a req key hash inp name dep db =
     (case find_request (actor_tenant a) req db of
        None \<Rightarrow> Inl ErrNotFound
      | Some r \<Rightarrow>
        (case find_replay (actor_tenant a) req (user_id a) key db of
          Some old \<Rightarrow>
            (case validate_replay old a req ''SELECT_EXECUTION_DEPARTMENT'' ''TEAM_LEAD'' hash of
               Inl e \<Rightarrow> Inl e
             | Inr _ \<Rightarrow> Inr (db, r))
        | None \<Rightarrow>
          if status r \<noteq> Executing \<or> version r \<noteq> tk_version inp \<or> team_lead r = [] \<or> team_lead r = tk_team_lead inp
          then Inl ErrInvalidTransition
          else case guard_user_write s (actor_tenant a) (tk_team_lead inp) of
            Inl e \<Rightarrow> Inl e
          | Inr _ \<Rightarrow>
            (case install_team_lead s a r req (tk_team_lead inp) name dep txt_takeover txt_takeover db of
              Inl e \<Rightarrow> Inl e
            | Inr (db1, asg) \<Rightarrow>
              (case update_request_versioned (clock_now s) r (version r)
                  (\<lambda>x. x\<lparr>team_lead := tk_team_lead inp, team_lead_name := name, updated_by := user_id a\<rparr>) db1 of
                Inl e \<Rightarrow> Inl e
              | Inr (db2, r2) \<Rightarrow>
                (let r3 = r2\<lparr>team_lead := tk_team_lead inp, team_lead_name := name\<rparr>;
                     db3 = notify_workflow s
                       (request_notice (actor_tenant a) (tk_team_lead inp) ''PRESALE_EXECUTOR_ASSIGNMENT_PENDING''
                          txt_takeover_title (txt_takeover_body1 @ request_no r3 @ txt_takeover_body2) r3
                          (''takeover:'' @ show_nat asg)) db2
                 in case create_replay (new_replay a req key ''SELECT_EXECUTION_DEPARTMENT'' ''TEAM_LEAD'' hash
                        (version r3) (clock_now s)) db3 of
                      Inl e \<Rightarrow> Inl e
                    | Inr db4 \<Rightarrow> Inr (db4, r3))))))"

definition takeover_executing_team_lead ::
  "service \<Rightarrow> actor \<Rightarrow> nat \<Rightarrow> string \<Rightarrow> takeover_input \<Rightarrow> presale_db \<Rightarrow> (presale_db \<times> presale_request) res" where
  "takeover_executing_team_lead s a req key0 inp0 db =
     (if \<not> can a ''presale.assign'' \<or> \<not> has_role a ''technical_director'' \<and> \<not> has_role a ''crm_super_admin''
      then Inl ErrForbidden
      else (let key = trim_space key0;
                inp = inp0\<lparr>tk_team_lead := trim_space (tk_team_lead inp0), tk_reason := trim_space (tk_reason inp0)\<rparr>
        in if key = [] \<or> 128 < length key \<or> tk_team_lead inp = [] \<or> tk_version inp = 0 \<or> 1000 < rune_len (tk_reason inp)
           then Inl ErrInvalidInput
           else (let hash = takeover_hash s a req inp
             in case find_replay (actor_tenant a) req (user_id a) key db of
               Some old \<Rightarrow>
                 (case validate_replay old a req ''SELECT_EXECUTION_DEPARTMENT'' ''TEAM_LEAD'' hash of
                    Inl e \<Rightarrow> Inl e
                  | Inr _ \<Rightarrow>
                      (case find_request (actor_tenant a) req db of None \<Rightarrow> Inl ErrNotFound | Some r \<Rightarrow> Inr (db, r)))
             | None \<Rightarrow>
               (case find_request (actor_tenant a) req db of
                 None \<Rightarrow> Inl ErrNotFound
               | Some pre \<Rightarrow>
                 if status pre \<noteq> Executing \<or> version pre \<noteq> tk_version inp \<or> team_lead pre = []
                 then Inl ErrInvalidTransition
                 else if tk_team_lead inp = team_lead pre then Inl ErrInvalidTransition
                 else case owner_directory s of
                   None \<Rightarrow> Inl ErrDependencyUnavailable
                 | Some d \<Rightarrow>
                   (case dir_resolve d [tk_team_lead inp] of
                     Inl e \<Rightarrow> Inl e
                   | Inr found \<Rightarrow>
                     (case found (tk_team_lead inp) of
                       None \<Rightarrow> Inl ErrSelectionInvalid
                     | Some p \<Rightarrow>
                       (let dep = department_of p (trim_space (department_id pre)); name = lead_name p (tk_team_lead inp)
                        in if dep = [] then Inl ErrSelectionInvalid
                           else case ensure_user_not_frozen s (actor_tenant a) (tk_team_lead inp) of
                             Inl e \<Rightarrow> Inl e
                           | Inr _ \<Rightarrow>
                             (case ensure_duty_eligible s DutyTeamLead [tk_team_lead inp] of
                               Inl e \<Rightarrow> Inl e
                             | Inr _ \<Rightarrow>
                               settle_mutation a req key ''SELECT_EXECUTION_DEPARTMENT'' ''TEAM_LEAD'' hash
                                 (\<lambda>_. Inr ()) db (takeover_tx s a req key hash inp name dep db)))))))))"

section \<open>Refusal and invalidation\<close>

text \<open>Back to the choice of a team lead: the columns that refusal and invalidation reset.\<close>

definition clear_team_lead :: "string \<Rightarrow> presale_request \<Rightarrow> presale_request" where
  "clear_team_lead by_user x =
     x\<lparr>status := ApprovedPendingAssignment, team_lead := [], team_lead_name := [],
       assignment_level := assignment_level_none, updated_by := by_user\<rparr>"

definition reject_assignment_hash :: "service \<Rightarrow> actor \<Rightarrow> nat \<Rightarrow> reason_input \<Rightarrow> string" where
  "reject_assignment_hash s a req inp =
     mutation_digest s a req ''REJECT_EXECUTION_ASSIGNMENT'' ''REJECT'' (PReason (rs_reason inp) (rs_version inp))"

definition reject_assignment_tx ::
  "service \<Rightarrow> actor \<Rightarrow> nat \<Rightarrow> string \<Rightarrow> string \<Rightarrow> reason_input \<Rightarrow> presale_db \<Rightarrow> (presale_db \<times> presale_request) res" where
  "reject_assignment_tx s a req key hash inp db =
     (case find_request (actor_tenant a) req db of
        None \<Rightarrow> Inl ErrNotFound
      | Some r \<Rightarrow>
        (case find_replay (actor_tenant a) req (user_id a) key db of
          Some old \<Rightarrow>
            (case validate_replay old a req ''REJECT_EXECUTION_ASSIGNMENT'' ''REJECT'' hash of
               Inl e \<Rightarrow> Inl e
             | Inr _ \<Rightarrow> Inr (db, r))
        | None \<Rightarrow>
          if team_lead r = [] \<or> \<not> has_role a ''crm_super_admin'' \<and> person_id a \<noteq> team_lead r then Inl ErrForbidden
          else if status r \<noteq> PendingExecutionAssignment then Inl ErrInvalidTransition
          else if version r \<noteq> rs_version inp then Inl ErrVersionConflict
          else case end_current_team_lead s a r (rs_reason inp) (clock_now s) db of
            Inl e \<Rightarrow> Inl e
          | Inr db1 \<Rightarrow>
            (case update_request_versioned (clock_now s) r (version r) (clear_team_lead (user_id a)) db1 of
              Inl e \<Rightarrow> Inl e
            | Inr (db2, r2) \<Rightarrow>
              (let r3 = (clear_team_lead (updated_by r2) r2);
                   db3 = status_log_entry s r3 PendingExecutionAssignment ApprovedPendingAssignment ''TEAM_LEAD_REJECTED''
                           (rs_reason inp) (user_id a) (trace_id a) db2
               in case notify_role_users s (actor_tenant a) ''technical_director''
                      (request_notice [] [] ''PRESALE_EXECUTION_ASSIGNMENT_REJECTED'' txt_reject_title
                         (txt_request_prefix @ request_no r3 @ txt_reject_body @ notification_excerpt (rs_reason inp) 300 @
                          txt_reject_body_end) r3 (''reject:'' @ show_nat (version r3))) db3 of
                    Inl e \<Rightarrow> Inl e
                  | Inr db4 \<Rightarrow>
                    (case create_replay (new_replay a req key ''REJECT_EXECUTION_ASSIGNMENT'' ''REJECT'' hash (version r3)
                           (clock_now s)) db4 of
                       Inl e \<Rightarrow> Inl e
                     | Inr db5 \<Rightarrow> Inr (db5, r3))))))"

definition reject_execution_assignment ::
  "service \<Rightarrow> actor \<Rightarrow> nat \<Rightarrow> string \<Rightarrow> reason_input \<Rightarrow> presale_db \<Rightarrow> (presale_db \<times> presale_request) res" where
  "reject_execution_assignment s a req key0 inp0 db =
     (if \<not> can a ''presale.assign'' then Inl ErrForbidden
      else (let key = trim_space key0; inp = inp0\<lparr>rs_reason := trim_space (rs_reason inp0)\<rparr>
        in if key = [] \<or> 128 < length key \<or> rs_reason inp = [] \<or> 1000 < rune_len (rs_reason inp) \<or> rs_version inp = 0
           then Inl ErrInvalidInput
           else (let hash = reject_assignment_hash s a req inp
             in case find_request (actor_tenant a) req db of
               None \<Rightarrow> Inl ErrNotFound
             | Some pre \<Rightarrow>
               (case find_replay (actor_tenant a) req (user_id a) key db of
                 Some old \<Rightarrow>
                   (case validate_replay old a req ''REJECT_EXECUTION_ASSIGNMENT'' ''REJECT'' hash of
                      Inl e \<Rightarrow> Inl e
                    | Inr _ \<Rightarrow> Inr (db, pre))
               | None \<Rightarrow>
                 settle_mutation a req key ''REJECT_EXECUTION_ASSIGNMENT'' ''REJECT'' hash (\<lambda>_. Inr ()) db
                   (reject_assignment_tx s a req key hash inp db)))))"

definition system_actor :: "string \<Rightarrow> actor" where
  "system_actor tenant =
     \<lparr>actor_tenant = tenant, user_id = ''presale-team-lead-invalidation'', user_name = [], person_id = [], roles = [],
      permissions = [], trace_id = []\<rparr>"

definition invalid_lead_notice :: "presale_request \<Rightarrow> string \<Rightarrow> string \<Rightarrow> string \<Rightarrow> workflow_notification" where
  "invalid_lead_notice r title body mark =
     request_notice [] [] ''PRESALE_TEAM_LEAD_INVALID'' title (txt_request_prefix @ request_no r @ body) r mark"

definition invalidate_team_lead :: "service \<Rightarrow> string \<Rightarrow> nat \<Rightarrow> string \<Rightarrow> presale_db \<Rightarrow> presale_db res" where
  "invalidate_team_lead s tenant req reason0 db =
     (let reason = trim_space reason0; sys = system_actor tenant
      in if tenant = [] \<or> req = 0 then Inl ErrInvalidInput
         else if 1000 < rune_len reason then Inl ErrInvalidInput
         else case find_request tenant req db of
           None \<Rightarrow> Inl ErrNotFound
         | Some r \<Rightarrow>
           if team_lead r = [] then Inr db
           else if status r = Executing
           then notify_role_users s tenant ''technical_director''
                  (invalid_lead_notice r txt_lead_invalid_exec_title txt_lead_invalid_exec_body
                     (''executing-invalid:'' @ team_lead r)) db
           else if status r \<noteq> PendingExecutionAssignment then Inr db
           else case end_current_team_lead s sys r reason (clock_now s) db of
             Inl e \<Rightarrow> Inl e
           | Inr db1 \<Rightarrow>
             (case update_request_versioned (clock_now s) r (version r) (clear_team_lead (user_id sys)) db1 of
               Inl e \<Rightarrow> Inl e
             | Inr (db2, r2) \<Rightarrow>
               (let r3 = clear_team_lead (updated_by r2) r2
                in notify_role_users s tenant ''technical_director''
                     (invalid_lead_notice r3 txt_lead_invalid_title txt_lead_invalid_body
                        (''invalid:'' @ show_nat (version r3)))
                     (status_log_entry s r3 PendingExecutionAssignment ApprovedPendingAssignment ''TEAM_LEAD_INVALID''
                        reason (user_id sys) [] db2))))"

text \<open>
  \<open>revalidateTeamLead\<close> returns an error even when it has committed the invalidation, so
  its value is the database and the outcome.
\<close>

definition revalidate_team_lead :: "service \<Rightarrow> presale_request \<Rightarrow> presale_db \<Rightarrow> presale_db \<times> unit res" where
  "revalidate_team_lead s r db =
     (if trim_space (team_lead r) = [] then (db, Inl ErrInvalidTransition)
      else case owner_directory s of
        None \<Rightarrow> (db, Inl ErrDependencyUnavailable)
      | Some d \<Rightarrow>
        (case dir_resolve d [team_lead r] of
          Inl e \<Rightarrow> (db, Inl e)
        | Inr found \<Rightarrow>
          (let active = (case found (team_lead r) of
                           None \<Rightarrow> False
                         | Some p \<Rightarrow> list_ex (\<lambda>g. org_id g = department_id r) (du_orgs p))
           in if active then (db, Inr ())
              else if status r = PendingExecutionAssignment
              then (case invalidate_team_lead s (tenant_id r) (row_id r) txt_lead_left db of
                      Inl e \<Rightarrow> (db, Inl e)
                    | Inr db' \<Rightarrow> (db', Inl ErrTeamLeadInvalid))
              else (db, Inl ErrTeamLeadInvalid))))"

section \<open>Two-level replacement of the executors\<close>

definition is_lead_or_admin :: "actor \<Rightarrow> presale_request \<Rightarrow> bool" where
  "is_lead_or_admin a r \<longleftrightarrow> has_role a ''crm_super_admin'' \<or> person_id a = team_lead r"

definition replace_executors_tx ::
  "service \<Rightarrow> actor \<Rightarrow> nat \<Rightarrow> string \<Rightarrow> string \<Rightarrow> replace_input \<Rightarrow> assignment_target list \<Rightarrow> presale_db \<Rightarrow>
     (presale_db \<times> presale_request) res" where
  "replace_executors_tx s a req key hash inp ts db =
     (case find_request (actor_tenant a) req db of
        None \<Rightarrow> Inl ErrNotFound
      | Some r \<Rightarrow>
        (let nj = (case find_instance (actor_tenant a) req db of None \<Rightarrow> NodesEmpty | Some i \<Rightarrow> inst_nodes i)
         in if \<not> instance_two_level nj then Inl ErrInvalidTransition
            else if trim_space (team_lead r) = [] then Inl ErrInvalidTransition
            else if \<not> is_lead_or_admin a r then Inl ErrForbidden
            else case find_replay (actor_tenant a) req (user_id a) key db of
              Some old \<Rightarrow>
                (case validate_replay old a req ''REPLACE_EXECUTOR_ASSIGNMENTS'' ''REPLACE'' hash of
                   Inl e \<Rightarrow> Inl e
                 | Inr _ \<Rightarrow> Inr (db, r))
            | None \<Rightarrow>
              if version r \<noteq> rp_version inp then Inl ErrVersionConflict
              else if status r \<noteq> PendingExecutionAssignment \<and> status r \<noteq> Executing then Inl ErrInvalidTransition
              else (let gs = list_assignments_for_update (actor_tenant a) req db;
                        current = filter (\<lambda>g. is_current g \<and> effective_kind g = KindExecutor) gs;
                        batch = next_batch gs; present = current_keys current; now = clock_now s
                in case remove_others s a r (rp_reason inp) now current (map tg_person ts) db of
                  Inl e \<Rightarrow> Inl e
                | Inr db1 \<Rightarrow>
                  (case add_new s a r req (rp_reason inp) now batch KindExecutor (guard_user_write s (actor_tenant a)) ts
                         present (map tg_person ts) db1 of
                    Inl e \<Rightarrow> Inl e
                  | Inr db2 \<Rightarrow>
                    (if status r = PendingExecutionAssignment
                     then (case update_request_versioned now r (version r)
                             (\<lambda>x. x\<lparr>assignment_level := assignment_level_executor, updated_by := user_id a,
                                    status := Executing\<rparr>) db2 of
                            Inl e \<Rightarrow> Inl e
                          | Inr (db3, r3) \<Rightarrow>
                              (let r4 = r3\<lparr>assignment_level := assignment_level_executor, status := Executing\<rparr>
                               in finish_replacement s a req key ''REPLACE_EXECUTOR_ASSIGNMENTS'' hash r4
                                    (status_log_entry s r4 PendingExecutionAssignment Executing ''EXECUTORS_ASSIGNED''
                                       (rp_reason inp) (user_id a) (trace_id a) db3)))
                     else (case update_request_versioned now r (version r)
                             (\<lambda>x. x\<lparr>assignment_level := assignment_level_executor, updated_by := user_id a\<rparr>) db2 of
                            Inl e \<Rightarrow> Inl e
                          | Inr (db3, r3) \<Rightarrow>
                              finish_replacement s a req key ''REPLACE_EXECUTOR_ASSIGNMENTS'' hash
                                (r3\<lparr>assignment_level := assignment_level_executor\<rparr>) db3))))))"

definition authorize_executor_race :: "actor \<Rightarrow> presale_request \<Rightarrow> unit res" where
  "authorize_executor_race a r =
     (if \<not> is_lead_or_admin a r then Inl ErrForbidden
      else if status r \<noteq> PendingExecutionAssignment \<and> status r \<noteq> Executing then Inl ErrInvalidTransition
      else Inr ())"

text \<open>
  The checks before the transaction: freeze of the persons not yet executors, in the order
  of the map, and their qualification; then the team lead is checked again.
\<close>

definition check_new_executors ::
  "service \<Rightarrow> actor \<Rightarrow> nat \<Rightarrow> assignment_target list \<Rightarrow> presale_db \<Rightarrow> unit res" where
  "check_new_executors s a req ts db =
     (let existing = map assignee (filter (\<lambda>g. is_current g \<and> kind g = KindExecutor)
                       (list_assignments (actor_tenant a) req db));
          fresh = filter (\<lambda>p. p \<notin> set existing) (map_order s (map tg_person ts))
      in case fold_res (\<lambda>p _. ensure_user_not_frozen s (actor_tenant a) p) fresh () of
           Inl e \<Rightarrow> Inl e
         | Inr _ \<Rightarrow> ensure_duty_eligible s DutyExecutor fresh)"

definition replace_executors_settled ::
  "service \<Rightarrow> actor \<Rightarrow> nat \<Rightarrow> string \<Rightarrow> string \<Rightarrow> replace_input \<Rightarrow> assignment_target list \<Rightarrow> presale_db \<Rightarrow>
     (presale_db \<times> presale_request) res" where
  "replace_executors_settled s a req key hash inp ts db =
     settle_mutation a req key ''REPLACE_EXECUTOR_ASSIGNMENTS'' ''REPLACE'' hash (authorize_executor_race a) db
       (replace_executors_tx s a req key hash inp ts db)"

definition committed :: "presale_db \<Rightarrow> (presale_db \<times> 'a) res \<Rightarrow> presale_db \<times> 'a res" where
  "committed db m = (case m of Inl e \<Rightarrow> (db, Inl e) | Inr (db', x) \<Rightarrow> (db', Inr x))"

definition replace_executor_assignments ::
  "service \<Rightarrow> actor \<Rightarrow> nat \<Rightarrow> string \<Rightarrow> replace_input \<Rightarrow> presale_db \<Rightarrow> presale_db \<times> presale_request res" where
  "replace_executor_assignments s a req key0 inp0 db =
     (if \<not> can a ''presale.assign'' then (db, Inl ErrForbidden)
      else (let key = trim_space key0; inp = inp0\<lparr>rp_reason := trim_space (rp_reason inp0)\<rparr>
        in if \<not> replace_input_valid key inp then (db, Inl ErrInvalidInput)
           else case normalize_assignment_targets (rp_assignees inp) of
             Inl e \<Rightarrow> (db, Inl e)
           | Inr intent \<Rightarrow>
             (let hash = replace_hash s a req ''REPLACE_EXECUTOR_ASSIGNMENTS'' intent (rp_reason inp) (rp_version inp)
              in case find_request (actor_tenant a) req db of
                None \<Rightarrow> (db, Inl ErrNotFound)
              | Some pre \<Rightarrow>
                if trim_space (team_lead pre) = [] then (db, Inl ErrInvalidTransition)
                else if \<not> is_lead_or_admin a pre then (db, Inl ErrForbidden)
                else case find_replay (actor_tenant a) req (user_id a) key db of
                  Some old \<Rightarrow>
                    (case validate_replay old a req ''REPLACE_EXECUTOR_ASSIGNMENTS'' ''REPLACE'' hash of
                       Inl e \<Rightarrow> (db, Inl e)
                     | Inr _ \<Rightarrow> (db, Inr pre))
                | None \<Rightarrow>
                  (case resolve_assignment_targets s (rp_assignees inp) of
                    Inl e \<Rightarrow> (db, Inl e)
                  | Inr ts \<Rightarrow>
                    (case check_new_executors s a req ts db of
                      Inl e \<Rightarrow> (db, Inl e)
                    | Inr _ \<Rightarrow>
                      if has_role a ''crm_super_admin''
                      then committed db (replace_executors_settled s a req key hash inp ts db)
                      else (case revalidate_team_lead s pre db of
                              (db1, Inl e) \<Rightarrow> (db1, Inl e)
                            | (db1, Inr _) \<Rightarrow> committed db1 (replace_executors_settled s a req key hash inp ts db1)))))))"

section \<open>Query\<close>

definition assignments_of :: "actor \<Rightarrow> nat \<Rightarrow> presale_db \<Rightarrow> assignment list res" where
  "assignments_of a req db =
     (if \<not> can a ''presale.read'' then Inl ErrForbidden
      else case find_request (actor_tenant a) req db of
        None \<Rightarrow> Inl ErrNotFound
      | Some r \<Rightarrow>
          (case require_readable a r db of
             Inl e \<Rightarrow> Inl e
           | Inr _ \<Rightarrow> Inr (list_assignments (actor_tenant a) req db)))"

end
