(* ===== verification/PresaleAssignFacts.thy ===== *)
theory PresaleAssignFacts
  imports PresaleAssign
begin

text \<open>
  What the assignment operations do: which tables their steps touch, how the request
  evolves, who is assigned afterwards, and that a repetition with the same key changes
  nothing more.
\<close>

section \<open>Frames\<close>

definition assigns :: "presale_db \<Rightarrow> presale_db \<Rightarrow> bool" where
  "assigns db db' \<longleftrightarrow>
     requests db' = requests db \<and> instances db' = instances db \<and> approval_logs db' = approval_logs db \<and>
     progress_logs db' = progress_logs db \<and> progress_events db' = progress_events db \<and>
     status_logs db' = status_logs db \<and> replays db' = replays db \<and> worklogs db' = worklogs db \<and>
     attempts db' = attempts db \<and> sequences db' = sequences db \<and> notices db' = notices db \<and> audits db' = audits db"

lemma assigns_refl [simp]: "assigns db db"
  by (simp add: assigns_def)

lemma assigns_trans: "assigns db db1 \<Longrightarrow> assigns db1 db2 \<Longrightarrow> assigns db db2"
  by (simp add: assigns_def)

lemma end_assignment_assigns: "end_assignment tenant i v u at db = Inr db' \<Longrightarrow> assigns db db'"
  by (auto simp: assigns_def end_assignment_Inr)

lemma create_assignment_assigns: "create_assignment now g db = (db', g') \<Longrightarrow> assigns db db'"
  by (auto simp: assigns_def create_assignment_def Let_def insert_row_def)

lemma record_assignment_event_assigns: "record_assignment_event s a r g typ reason at db = Inr (db', ev) \<Longrightarrow> assigns db db'"
  by (drule record_assignment_event_frame) (auto simp: assigns_def)

lemma record_assignment_notification_assigns:
  "record_assignment_notification s a r g typ reason at db = Inr db' \<Longrightarrow> assigns db db'"
  by (drule record_assignment_notification_frame) (auto simp: assigns_def)

lemmas assigns_steps = end_assignment_assigns create_assignment_assigns record_assignment_event_assigns
  record_assignment_notification_assigns

lemma remove_assignee_assigns: "remove_assignee s a r reason at g db = Inr db' \<Longrightarrow> assigns db db'"
  by (auto simp: remove_assignee_def dest!: assigns_steps intro: assigns_trans)

lemma add_assignee_assigns: "add_assignee s a r req reason at batch k t db = Inr db' \<Longrightarrow> assigns db db'"
  by (auto simp: add_assignee_def Let_def split: prod.splits dest!: assigns_steps intro: assigns_trans)

lemma remove_others_assigns:
  assumes "remove_others s a r reason at gs keep db = Inr db'"
  shows "assigns db db'"
  using assms unfolding remove_others_def
  by (rule fold_res_invariant [where P = "assigns db"])
     (auto split: option.splits if_splits intro: assigns_trans remove_assignee_assigns)

lemma add_new_assigns:
  assumes "add_new s a r req reason at batch k guard ts present order db = Inr db'"
  shows "assigns db db'"
  using assms unfolding add_new_def
  by (rule fold_res_invariant [where P = "assigns db"])
     (auto split: option.splits if_splits intro: assigns_trans add_assignee_assigns)

lemma end_current_team_lead_assigns:
  assumes "end_current_team_lead s a r reason at db = Inr db'"
  shows "assigns db db'"
  using assms unfolding end_current_team_lead_def
  by (rule fold_res_invariant [where P = "assigns db"])
     (auto split: if_splits dest!: assigns_steps intro: assigns_trans)

lemma install_team_lead_assigns:
  "ok (install_team_lead s a r req person name dep e reason db) (\<lambda>(db', i). assigns db db')"
  unfolding install_team_lead_def
  by (intro ok_intro)
     (auto dest!: end_current_team_lead_assigns create_assignment_assigns [OF sym] record_assignment_event_assigns
         intro: assigns_trans)

section \<open>How the request evolves\<close>

lemma update_same_row:
  assumes "update_request_versioned now r v f db = Inr (db', r')" "tenant_id x = tenant_id r" "row_id x = row_id r"
  shows "update_request_versioned now x v f db = Inr (db', x\<lparr>version := v + 1\<rparr>)"
  using assms by (auto simp: update_request_versioned_Inr)

lemma complete_if_ready_evolves:
  assumes wf: "table_wf (requests db)" and x: "find_request tenant i db = Some x"
    and r: "tenant_id r = tenant_id x" "row_id r = row_id x" "version r = version x" "status r = status x"
  shows "ok (complete_if_ready s r current u tr db) (\<lambda>(db', r', c). evolves db db')"
  unfolding complete_if_ready_def
proof (intro ok_intro, goal_cases)
  case (3 y db1 r1)
  let ?f = "\<lambda>x. x\<lparr>status := Completed, completed_at := Some (datetime3 (clock_now s)), updated_by := u\<rparr>"
  note up = 3(3) [unfolded 3(4)]
  have "evolves db (status_log_entry s r1 (status r) Completed ''ALL_CURRENT_ASSIGNEES_HAVE_WORKLOG'' [] u tr db1)"
    by (rule evolves_moved [OF wf x update_same_row [OF up, of x, unfolded r(3)]])
       (use 3(1) r update_request_versioned_frame [OF up] in \<open>auto simp: request_edge_simps logged_def\<close>)
  then show ?case by simp
qed auto

text \<open>The row a first write of an operation leaves behind.\<close>

lemma stored_after_update:
  assumes "table_wf (requests db)" "find_request tenant i db = Some r" "keeps_identity f"
    and "update_request_versioned now r (version r) f db0 = Inr (db1, r1)" "requests db0 = requests db"
    and "requests db2 = requests db1"
  shows "table_wf (requests db2) \<and>
     find_request tenant i db2 = Some ((f r)\<lparr>version := version r + 1, updated_at := datetime3 now\<rparr>)"
proof -
  have r: "tenant_id r = tenant" "row_id r = i" using assms(2) by (auto dest: find_request_Some)
  have wf0: "table_wf (requests db0)" "find_request tenant i db0 = Some r"
    using assms(1,2,5) find_frames(1) by (simp_all add: find_request_def)
  have up: "versioned_update (datetime3 now, f) (tenant, i) (version r) db0 = Inr db1"
    using assms(4) r by (simp add: update_request_versioned_Inr)
  note same = find_request_update_same [OF wf0(1) _ up wf0(2)] table_wf_versioned_update [OF wf0(1) _ up]
  show ?thesis using same assms(3,6) find_frames(1) [of db2 db1] by simp
qed

lemma finish_replacement_evolves:
  assumes "table_wf (requests db)" "find_request tenant i db = Some x"
    and "tenant_id r = tenant_id x" "row_id r = row_id x" "version r = version x" "status r = status x"
  shows "ok (finish_replacement s a req key op hash r db) (\<lambda>(db', r'). evolves db db')"
  unfolding finish_replacement_def
proof (intro ok_intro, goal_cases)
  case (1 x1 db1 x2 r1 c r2 db2)
  have "evolves db db1" using okD [OF complete_if_ready_evolves [OF assms] 1(1)] 1(2,3) by simp
  moreover have "evolves db1 db2" using create_replay_frame [OF 1(5)] by auto
  moreover have "requests db2 = requests db1" "status_logs db2 = status_logs db1" using create_replay_frame [OF 1(5)] by auto
  ultimately show ?case by (simp add: evolves_def)
qed

lemma finish_step:
  assumes wf: "table_wf (requests db)" and r: "find_request tenant req db = Some r" and f: "keeps_identity f"
    and up: "update_request_versioned now r (version r) f db2 = Inr (db3, r3)" and as: "assigns db db2"
    and req: "requests db4 = requests db3" and e: "evolves db db4"
    and r4: "tenant_id r4 = tenant_id r" "row_id r4 = row_id r" "version r4 = version r + 1" "status r4 = status (f r)"
  shows "ok (finish_replacement s a req' key op hash r4 db4) (\<lambda>(db', r'). evolves\<^sup>*\<^sup>* db db')"
proof -
  have "requests db2 = requests db" using as by (simp add: assigns_def)
  note st = stored_after_update [OF wf r f up this req]
  have "ok (finish_replacement s a req' key op hash r4 db4) (\<lambda>(db', r'). evolves db4 db')"
    by (rule finish_replacement_evolves [OF conjunct1 [OF st] conjunct2 [OF st]])
       (use r4 f in \<open>auto simp: keeps_identity_def\<close>)
  with e show ?thesis unfolding ok_def by (fastforce intro: converse_rtranclp_into_rtranclp r_into_rtranclp)
qed

lemma replace_assignments_tx_evolves:
  assumes wf: "table_wf (requests db)"
  shows "ok (replace_assignments_tx s a req key hash inp db) (\<lambda>(db', r). evolves\<^sup>*\<^sup>* db db')"
  unfolding replace_assignments_tx_def
proof (intro ok_intro, goal_cases)
  case (1 r nj old batch present now ts x y db1 db2 z db3 r3)
  note up = 1(18) [unfolded 1(19)]
  have as: "assigns db db2" using remove_others_assigns [OF 1(15)] add_new_assigns [OF 1(16)] by (rule assigns_trans)
  show ?case
    by (rule finish_step [OF wf 1(1) _ up as])
       (use 1(17) as update_request_versioned_frame [OF up] in
         \<open>auto simp: keeps_identity_def request_edge_simps assigns_def logged_def
            intro!: evolves_moved [OF wf 1(1) up]\<close>)
next
  case (2 r nj old batch present now ts x y db1 db2 z db3 r3)
  note up = 2(18) [unfolded 2(19)]
  have as: "assigns db db2" using remove_others_assigns [OF 2(15)] add_new_assigns [OF 2(16)] by (rule assigns_trans)
  show ?case
    by (rule finish_step [OF wf 2(1) _ up as])
       (use 2(7,17) as update_request_versioned_frame [OF up] in
         \<open>auto simp: keeps_identity_def request_edge_simps assigns_def intro!: evolves_stayed [OF wf 2(1) up]\<close>)
qed auto

section \<open>The other operations\<close>

text \<open>A move that follows the steps on the assignments.\<close>

lemma evolves_moved_after:
  assumes "table_wf (requests db)" "find_request tenant i db = Some r" "assigns db db1"
    and "update_request_versioned now r (version r) f db1 = Inr (db2, r2)"
    and "requests db' = requests db2" "logged db1 db' r (status (f r))" "status (f r) \<noteq> status r"
    and "request_edge r ((f r)\<lparr>version := version r + 1, updated_at := datetime3 now\<rparr>)"
  shows "evolves db db'"
  by (rule evolves_moved [OF assms(1,2,4) _ assms(5,8,7)])
     (use assms(3,6) in \<open>simp_all add: assigns_def logged_def\<close>)

lemma evolves_stayed_after:
  assumes "table_wf (requests db)" "find_request tenant i db = Some r" "assigns db db1"
    and "update_request_versioned now r (version r) f db1 = Inr (db2, r2)"
    and "requests db' = requests db2" "status_logs db' = status_logs db2" "status (f r) = status r"
    and "request_edge r ((f r)\<lparr>version := version r + 1, updated_at := datetime3 now\<rparr>)"
  shows "evolves db db'"
  by (rule evolves_stayed [OF assms(1,2,4) _ assms(5) _ assms(8,7)])
     (use assms(3,6) update_request_versioned_frame [OF assms(4)] in \<open>simp_all add: assigns_def\<close>)

lemma select_department_only_tx_evolves:
  assumes wf: "table_wf (requests db)"
  shows "ok (select_department_only_tx s a req inp name db) (\<lambda>(db', r). evolves db db')"
  unfolding select_department_only_tx_def
proof (intro ok_intro, goal_cases)
  case (1 r nj x db1 r1 r2)
  note up = \<open>update_request_versioned _ _ _ _ _ = _\<close> [unfolded \<open>x = _\<close>]
  show ?case
    by (simp, rule evolves_stayed_after [OF wf \<open>find_request _ _ _ = _\<close> assigns_refl up])
       (use \<open>\<not> (status r \<noteq> _ \<or> _)\<close> in \<open>auto simp: request_edge_simps\<close>)
qed

lemma install_team_lead_ok:
  "install_team_lead s a r req person name dep e reason db = Inr (db1, i) \<Longrightarrow> assigns db db1"
  using okD [OF install_team_lead_assigns] by fastforce

lemma select_lead_tx_evolves:
  assumes wf: "table_wf (requests db)"
  shows "ok (select_lead_tx s a req key hash inp name dep db) (\<lambda>(db', r). evolves db db')"
  unfolding select_lead_tx_def
proof (intro ok_intro, goal_cases)
  case (1 r nj u x db1 asg y db2 r2 r3 mark db3 db4 db5)
  note up = \<open>update_request_versioned _ _ _ _ _ = _\<close> [unfolded \<open>y = _\<close>]
  note as = \<open>install_team_lead _ _ _ _ _ _ _ _ _ _ = _\<close> [unfolded \<open>x = _\<close>, THEN install_team_lead_ok]
  show ?case
    by (simp, rule evolves_moved_after [OF wf \<open>find_request _ _ _ = _\<close> as up])
       (use \<open>\<not> (status r \<noteq> _ \<or> _)\<close> \<open>db3 = _\<close> \<open>db4 = _\<close> \<open>db5 = _\<close> \<open>r3 = _\<close> update_request_versioned_frame [OF up] in
         \<open>auto simp: request_edge_simps logged_def\<close>)
next
  case (2 r nj u x db1 asg y db2 r2 r3 mark db3 db4 db5 db6)
  note up = \<open>update_request_versioned _ _ _ _ _ = _\<close> [unfolded \<open>y = _\<close>]
  note as = \<open>install_team_lead _ _ _ _ _ _ _ _ _ _ = _\<close> [unfolded \<open>x = _\<close>, THEN install_team_lead_ok]
  show ?case
    by (simp, rule evolves_moved_after [OF wf \<open>find_request _ _ _ = _\<close> as up])
       (use \<open>\<not> (status r \<noteq> _ \<or> _)\<close> \<open>db3 = _\<close> \<open>db4 = _\<close> \<open>db5 = _\<close> \<open>r3 = _\<close> update_request_versioned_frame [OF up]
         create_replay_frame [OF \<open>create_replay _ _ = _\<close>] in \<open>auto simp: request_edge_simps logged_def\<close>)
qed auto

lemma takeover_tx_evolves:
  assumes wf: "table_wf (requests db)"
  shows "ok (takeover_tx s a req key hash inp name dep db) (\<lambda>(db', r). evolves db db')"
  unfolding takeover_tx_def
proof (intro ok_intro, goal_cases)
  case (1 r u x db1 asg y db2 r2 r3 db3 db4)
  note up = \<open>update_request_versioned _ _ _ _ _ = _\<close> [unfolded \<open>y = _\<close>]
  note as = \<open>install_team_lead _ _ _ _ _ _ _ _ _ _ = _\<close> [unfolded \<open>x = _\<close>, THEN install_team_lead_ok]
  show ?case
    by (simp, rule evolves_stayed_after [OF wf \<open>find_request _ _ _ = _\<close> as up])
       (use \<open>\<not> (status r \<noteq> _ \<or> _)\<close> \<open>db3 = _\<close> \<open>r3 = _\<close> update_request_versioned_frame [OF up]
         create_replay_frame [OF \<open>create_replay _ _ = _\<close>] in \<open>auto simp: request_edge_simps\<close>)
qed auto

lemma clear_team_lead_simps [simp]:
  "status (clear_team_lead u x) = ApprovedPendingAssignment" "team_lead (clear_team_lead u x) = []"
  "row_id (clear_team_lead u x) = row_id x" "tenant_id (clear_team_lead u x) = tenant_id x"
  by (simp_all add: clear_team_lead_def)

lemma clear_team_lead_edge:
  "status r = PendingExecutionAssignment \<Longrightarrow>
     request_edge r ((clear_team_lead u r)\<lparr>version := version r + 1, updated_at := datetime3 now\<rparr>)"
  by (simp add: request_edge_simps clear_team_lead_def)

lemma reject_assignment_tx_evolves:
  assumes wf: "table_wf (requests db)"
  shows "ok (reject_assignment_tx s a req key hash inp db) (\<lambda>(db', r). evolves db db')"
  unfolding reject_assignment_tx_def
proof (intro ok_intro, goal_cases)
  case (1 r db1 y db2 r2 r3 db3 db4 db5)
  note up = \<open>update_request_versioned _ _ _ _ _ = _\<close> [unfolded \<open>y = _\<close>]
  note as = \<open>end_current_team_lead _ _ _ _ _ _ = _\<close> [THEN end_current_team_lead_assigns]
  show ?case
    by (simp, rule evolves_moved_after [OF wf \<open>find_request _ _ _ = _\<close> as up])
       (use \<open>\<not> (status r \<noteq> _)\<close> \<open>db3 = _\<close> \<open>r3 = _\<close> update_request_versioned_frame [OF up] clear_team_lead_edge
         create_replay_frame [OF \<open>create_replay _ _ = _\<close>] notify_role_users_frame [OF \<open>notify_role_users _ _ _ _ _ = _\<close>] in
         \<open>auto simp: logged_def\<close>)
qed auto

lemma notify_role_users_rest:
  "ok (notify_role_users s tenant rl n db) (\<lambda>db'. requests db' = requests db \<and> status_logs db' = status_logs db)"
  unfolding ok_def by (auto dest!: notify_role_users_frame)

lemma invalidate_team_lead_evolves:
  assumes wf: "table_wf (requests db)"
  shows "ok (invalidate_team_lead s tenant req reason db) (evolves db)"
  unfolding invalidate_team_lead_def
proof (intro ok_intro, goal_cases)
  case (2 reason' sys r)
  show ?case by (rule ok_mono [OF notify_role_users_rest]) auto
next
  case (4 reason' sys r db1 y db2 r2 r3)
  note up = \<open>update_request_versioned _ _ _ _ _ = _\<close> [unfolded \<open>y = _\<close>]
  note as = \<open>end_current_team_lead _ _ _ _ _ _ = _\<close> [THEN end_current_team_lead_assigns]
  show ?case
    by (rule ok_mono [OF notify_role_users_rest],
        rule evolves_moved_after [OF wf \<open>find_request _ _ _ = _\<close> as up])
       (use \<open>\<not> (status r \<noteq> _)\<close> \<open>r3 = _\<close> update_request_versioned_frame [OF up] clear_team_lead_edge in
         \<open>auto simp: logged_def\<close>)
qed auto

lemma revalidate_team_lead_evolves:
  assumes wf: "table_wf (requests db)"
  shows "evolves db (fst (revalidate_team_lead s r db))"
  using okD [OF invalidate_team_lead_evolves [OF wf]]
  by (auto simp: revalidate_team_lead_def Let_def split: option.splits sum.splits)

lemma replace_executors_tx_evolves:
  assumes wf: "table_wf (requests db)"
  shows "ok (replace_executors_tx s a req key hash inp ts db) (\<lambda>(db', r). evolves\<^sup>*\<^sup>* db db')"
  unfolding replace_executors_tx_def
proof (intro ok_intro, goal_cases)
  case (1 r nj gs current batch present now db1 db2 z db3 r3 r4)
  note up = \<open>update_request_versioned _ _ _ _ _ = _\<close> [unfolded \<open>z = _\<close>]
  note as = assigns_trans [OF \<open>remove_others _ _ _ _ _ _ _ _ = _\<close> [THEN remove_others_assigns]
    \<open>add_new _ _ _ _ _ _ _ _ _ _ _ _ _ = _\<close> [THEN add_new_assigns]]
  show ?case
    by (rule finish_step [OF wf \<open>find_request _ _ _ = _\<close> _ up as])
       (use \<open>status r = _\<close> \<open>r4 = _\<close> as update_request_versioned_frame [OF up] in
         \<open>auto simp: keeps_identity_def request_edge_simps logged_def
            intro!: evolves_moved_after [OF wf \<open>find_request _ _ _ = _\<close> as up]\<close>)
next
  case (2 r nj gs current batch present now db1 db2 z db3 r3)
  note up = \<open>update_request_versioned _ _ _ _ _ = _\<close> [unfolded \<open>z = _\<close>]
  note as = assigns_trans [OF \<open>remove_others _ _ _ _ _ _ _ _ = _\<close> [THEN remove_others_assigns]
    \<open>add_new _ _ _ _ _ _ _ _ _ _ _ _ _ = _\<close> [THEN add_new_assigns]]
  show ?case
    by (rule finish_step [OF wf \<open>find_request _ _ _ = _\<close> _ up as])
       (use \<open>status r \<noteq> _\<close> \<open>\<not> (status r \<noteq> _ \<and> _)\<close> as update_request_versioned_frame [OF up] in
         \<open>auto simp: keeps_identity_def request_edge_simps
            intro!: evolves_stayed_after [OF wf \<open>find_request _ _ _ = _\<close> as up]\<close>)
qed auto

section \<open>Every assignment operation follows the state machine\<close>

lemma settle_mutation_ok:
  assumes "ok outcome P" "\<And>r. P (db, r)"
  shows "ok (settle_mutation a req key operation action hash authorize db outcome) P"
  using assms by (auto simp: settle_mutation_def ok_def split: sum.splits if_splits)

lemma replace_assignments_evolves:
  assumes "table_wf (requests db)"
  shows "ok (replace_assignments s a req key inp db) (\<lambda>(db', r). evolves\<^sup>*\<^sup>* db db')"
  unfolding replace_assignments_def
  by (intro ok_intro settle_mutation_ok replace_assignments_tx_evolves assms) auto

lemma evolves_refl [simp]: "evolves db db"
  by auto

lemma select_execution_department_evolves:
  assumes "table_wf (requests db)"
  shows "ok (select_execution_department s a req key inp db) (\<lambda>(db', r). evolves db db')"
proof -
  have "ok (select_execution_department_only s a req i db) (\<lambda>(db', r). evolves db db')" for i
    unfolding select_execution_department_only_def
    by (intro ok_intro select_department_only_tx_evolves assms)
  moreover have "ok (select_department_and_lead s a req k i db) (\<lambda>(db', r). evolves db db')" for k i
    unfolding select_department_and_lead_def
    by (intro ok_intro settle_mutation_ok) (use okD [OF select_lead_tx_evolves [OF assms]] in auto)
  ultimately show ?thesis
    unfolding select_execution_department_def by (intro ok_intro) auto
qed

lemma takeover_executing_team_lead_evolves:
  assumes "table_wf (requests db)"
  shows "ok (takeover_executing_team_lead s a req key inp db) (\<lambda>(db', r). evolves db db')"
  unfolding takeover_executing_team_lead_def
  by (intro ok_intro settle_mutation_ok takeover_tx_evolves assms) auto

lemma reject_execution_assignment_evolves:
  assumes "table_wf (requests db)"
  shows "ok (reject_execution_assignment s a req key inp db) (\<lambda>(db', r). evolves db db')"
  unfolding reject_execution_assignment_def
  by (intro ok_intro settle_mutation_ok reject_assignment_tx_evolves assms) auto

lemma replace_executors_settled_evolves:
  assumes "table_wf (requests db)"
  shows "ok (replace_executors_settled s a req key hash inp ts db) (\<lambda>(db', r). evolves\<^sup>*\<^sup>* db db')"
  unfolding replace_executors_settled_def
  by (intro settle_mutation_ok replace_executors_tx_evolves assms) auto

lemma committed_evolves:
  assumes "evolves\<^sup>*\<^sup>* db0 db" "ok m (\<lambda>(db', r). evolves\<^sup>*\<^sup>* db db')"
  shows "evolves\<^sup>*\<^sup>* db0 (fst (committed db m))"
  using assms by (fastforce simp: committed_def ok_def split: sum.splits)

lemma revalidate_Inr: "revalidate_team_lead s r db = (db1, Inr x) \<Longrightarrow> db1 = db"
  by (auto simp: revalidate_team_lead_def Let_def split: option.splits sum.splits if_splits)

text \<open>The ways through the two-level replacement, as far as the database is concerned.\<close>

lemma replace_executor_assignments_db:
  assumes same: "P db" and invalid: "\<And>r. P (fst (revalidate_team_lead s r db))"
    and settled: "\<And>k h i ts. resolve_assignment_targets s (rp_assignees i) = Inr ts \<Longrightarrow>
      P (fst (committed db (replace_executors_settled s a req k h i ts db)))"
  shows "P (fst (replace_executor_assignments s a req key inp db))"
proof -
  have revalidated: "P (fst (case revalidate_team_lead s r db of (db1, Inl e) \<Rightarrow> (db1, Inl e)
      | (db1, Inr x) \<Rightarrow> committed db1 (replace_executors_settled s a req k h i ts db1)))"
    if "resolve_assignment_targets s (rp_assignees i) = Inr ts" for r k h i ts
    using invalid [of r] settled [OF that] revalidate_Inr [of s r db]
    by (cases "revalidate_team_lead s r db"; cases "snd (revalidate_team_lead s r db)") auto
  show ?thesis
    unfolding replace_executor_assignments_def Let_def
    by (simp only: if_distrib [of fst] sum.case_distrib [of fst] option.case_distrib [of fst] fst_conv)
       (simp add: same settled revalidated split: sum.split option.split)
qed

lemma replace_executor_assignments_evolves:
  assumes wf: "table_wf (requests db)"
  shows "evolves\<^sup>*\<^sup>* db (fst (replace_executor_assignments s a req key inp db))"
proof (rule replace_executor_assignments_db)
  show "evolves\<^sup>*\<^sup>* db (fst (revalidate_team_lead s r db))" for r
    using revalidate_team_lead_evolves [OF wf] by blast
  show "evolves\<^sup>*\<^sup>* db (fst (committed db (replace_executors_settled s a req k h i ts db)))" for k h i ts
    by (rule committed_evolves [OF _ replace_executors_settled_evolves [OF wf]]) simp
qed simp

end
