(* ===== verification/PresaleCrew.thy ===== *)
theory PresaleCrew
  imports PresaleAssignFacts
begin

text \<open>
  Who is assigned to a request: the current rows of a kind, what every step of an
  assignment operation does to them, and the consequences for the operations: at most one
  current team lead, the one the request names; the current executors are the chosen ones.
\<close>

section \<open>The current assignments of a kind\<close>

definition currents :: "assignment_kind \<Rightarrow> string \<Rightarrow> nat \<Rightarrow> presale_db \<Rightarrow> assignment list" where
  "currents k tenant req db =
     filter (\<lambda>g. of_request tenant req g \<and> is_current g \<and> effective_kind g = k) (rows (assignments db))"

definition crew :: "assignment_kind \<Rightarrow> string \<Rightarrow> nat \<Rightarrow> presale_db \<Rightarrow> string list" where
  "crew k tenant req db = map assignee (currents k tenant req db)"

lemma currents_same: "assignments db' = assignments db \<Longrightarrow> currents k t q db' = currents k t q db"
  by (simp add: currents_def)

lemma crew_same: "assignments db' = assignments db \<Longrightarrow> crew k t q db' = crew k t q db"
  by (simp add: crew_def currents_def)

lemma filter_map_drop:
  "(\<And>x. hit x \<Longrightarrow> \<not> P (f x)) \<Longrightarrow>
     filter P (map (\<lambda>x. if hit x then f x else x) xs) = filter (\<lambda>x. P x \<and> \<not> hit x) xs"
  by (induction xs) auto

lemma end_assignment_currents:
  assumes "table_wf (assignments db)" "end_assignment tenant i v u at db = Inr db'"
  shows "table_wf (assignments db') \<and> currents k t q db' = filter (\<lambda>g. row_id g \<noteq> i) (currents k t q db)"
proof
  show "table_wf (assignments db')" using assms by (rule table_wf_end_assignment)
  let ?hit = "\<lambda>a. is_assignment tenant i a \<and> version a = v \<and> is_current a"
  from assms(2) obtain a where a: "a \<in> set (rows (assignments db))" "?hit a"
    by (auto simp: end_assignment_Inr)
  have same: "?hit g \<longleftrightarrow> row_id g = i" if "g \<in> set (rows (assignments db))" for g
    using table_wf_same_id [OF assms(1) that a(1)] a(2) by (auto simp: is_assignment_def)
  have "currents k t q db' =
      filter (\<lambda>g. (of_request t q g \<and> is_current g \<and> effective_kind g = k) \<and> \<not> ?hit g) (rows (assignments db))"
  proof -
    have "rows (assignments db') = map (\<lambda>a. if ?hit a
        then a\<lparr>is_current := False, ended_at := Some at, updated_by := u, version := v + 1, updated_at := at\<rparr> else a)
        (rows (assignments db))"
      using assms(2) by (auto simp: end_assignment_Inr update_rows_def)
    then show ?thesis unfolding currents_def by (simp only:) (rule filter_map_drop, simp)
  qed
  also have "\<dots> = filter (\<lambda>g. row_id g \<noteq> i) (currents k t q db)"
    unfolding currents_def filter_filter using same by (intro filter_cong) auto
  finally show "currents k t q db' = filter (\<lambda>g. row_id g \<noteq> i) (currents k t q db)" .
qed

lemma create_assignment_currents:
  assumes "create_assignment now g db = (db', g')" "deleted_at g = None" "is_current g"
  shows "(table_wf (assignments db) \<longrightarrow> table_wf (assignments db')) \<and>
     crew k t q db' = crew k t q db @ (if t = tenant_id g \<and> q = as_request g \<and> k = effective_kind g then [assignee g] else [])"
  using assms table_wf_insert [of "assignments db"]
  by (auto simp: create_assignment_def Let_def insert_row_def crew_def currents_def of_request_def effective_kind_def
        table_wf_def)

lemma record_event_same: "record_assignment_event s a r g typ reason at db = Inr (db', ev) \<Longrightarrow> assignments db' = assignments db"
  by (auto dest!: record_assignment_event_frame)

lemma record_notification_same: "record_assignment_notification s a r g typ reason at db = Inr db' \<Longrightarrow> assignments db' = assignments db"
  by (auto dest!: record_assignment_notification_frame)

section \<open>Loops that end or add assignments\<close>

definition ends :: "nat set \<Rightarrow> presale_db \<Rightarrow> presale_db \<Rightarrow> bool" where
  "ends ids db db' \<longleftrightarrow> table_wf (assignments db) \<longrightarrow>
     table_wf (assignments db') \<and> (\<forall>k t q. currents k t q db' = filter (\<lambda>g. row_id g \<notin> ids) (currents k t q db))"

lemma ends_none [simp]: "ends {} db db"
  by (simp add: ends_def)

lemma ends_Un: "ends ids db db1 \<Longrightarrow> ends ids' db1 db2 \<Longrightarrow> ends (ids \<union> ids') db db2"
  unfolding ends_def by (auto intro!: filter_cong)

lemma ends_loop:
  assumes "fold_res f xs db = Inr db'" "\<And>x d d'. x \<in> set xs \<Longrightarrow> f x d = Inr d' \<Longrightarrow> ends (ids x) d d'"
  shows "ends (\<Union> (ids ` set xs)) db db'"
  using assms
proof (induction xs arbitrary: db)
  case (Cons x xs)
  from Cons.prems(1) obtain d where d: "f x db = Inr d" "fold_res f xs d = Inr db'" by auto
  have "ends (ids x \<union> \<Union> (ids ` set xs)) db db'"
    by (rule ends_Un [OF Cons.prems(2) [OF _ d(1)] Cons.IH [OF d(2) Cons.prems(2)]]) auto
  then show ?case by simp
qed simp

lemma end_assignment_ends: "end_assignment tenant i v u at db = Inr db' \<Longrightarrow> ends {i} db db'"
  using end_assignment_currents by (simp add: ends_def)

lemma ends_same: "ends ids db db' \<Longrightarrow> assignments db'' = assignments db' \<Longrightarrow> ends ids db db''"
  by (simp add: ends_def currents_def)

lemma remove_assignee_ends: "remove_assignee s a r reason at g db = Inr db' \<Longrightarrow> ends {row_id g} db db'"
  by (auto simp: remove_assignee_def dest!: end_assignment_ends record_notification_same intro: ends_same)

text \<open>Ending the team lead: exactly the current team lead rows of the request go.\<close>

lemma end_current_team_lead_ends:
  assumes "end_current_team_lead s a r reason at db = Inr db'"
  shows "ends (row_id ` set (currents KindTeamLead (actor_tenant a) (row_id r) db)) db db'"
proof -
  let ?ids = "\<lambda>g. if \<not> is_current g \<or> effective_kind g \<noteq> KindTeamLead then {} else {row_id g}"
  have "ends (\<Union> (?ids ` set (list_assignments_for_update (actor_tenant a) (row_id r) db))) db db'"
    using assms unfolding end_current_team_lead_def
    by (rule ends_loop) (auto split: if_splits dest!: end_assignment_ends record_event_same intro: ends_same)
  moreover have "\<Union> (?ids ` set (list_assignments_for_update (actor_tenant a) (row_id r) db)) =
      row_id ` set (currents KindTeamLead (actor_tenant a) (row_id r) db)"
    by (auto simp: list_assignments_for_update_def currents_def)
  ultimately show ?thesis by simp
qed

lemma ends_own_rows:
  assumes "ends (row_id ` set (currents k tenant req db)) db db'" "table_wf (assignments db)"
  shows "table_wf (assignments db') \<and>
     currents k' t q db' = (if k' = k \<and> t = tenant \<and> q = req then [] else currents k' t q db)"
proof -
  have "filter (\<lambda>g. row_id g \<notin> row_id ` set (currents k tenant req db)) (currents k' t q db) =
      (if k' = k \<and> t = tenant \<and> q = req then [] else currents k' t q db)"
  proof (cases "k' = k \<and> t = tenant \<and> q = req")
    case False
    have "row_id g \<notin> row_id ` set (currents k tenant req db)" if "g \<in> set (currents k' t q db)" for g
    proof
      assume "row_id g \<in> row_id ` set (currents k tenant req db)"
      then obtain h where h: "h \<in> set (currents k tenant req db)" "row_id g = row_id h" by blast
      then have "g = h" using that table_wf_same_id [OF assms(2)] by (auto simp: currents_def)
      with h that False show False by (auto simp: currents_def of_request_def)
    qed
    then have "filter (\<lambda>g. row_id g \<notin> row_id ` set (currents k tenant req db)) (currents k' t q db) = currents k' t q db"
      by (simp only: filter_id_conv) blast
    then show ?thesis using False by (simp only: if_False)
  qed (simp add: filter_empty_conv)
  with assms show ?thesis by (simp add: ends_def)
qed

section \<open>Replacing the members of a crew\<close>

text \<open>A \<open>range\<close> over a map visits every key once.\<close>

definition visits_keys :: "service \<Rightarrow> bool" where
  "visits_keys s \<longleftrightarrow> (\<forall>ks. distinct ks \<longrightarrow> distinct (map_order s ks) \<and> set (map_order s ks) = set ks)"

lemma current_of_iff:
  "distinct (map assignee gs) \<Longrightarrow> current_of gs p = Some g \<longleftrightarrow> g \<in> set gs \<and> assignee g = p"
  by (auto simp: current_of_def map_of_eq_Some_iff rev_map [symmetric] comp_def)

lemma remove_others_crew:
  assumes run: "remove_others s a r reason at (currents k tenant req db) keep db = Inr db'" and s: "visits_keys s"
    and dist: "distinct (crew k tenant req db)" and wf: "table_wf (assignments db)"
  shows "table_wf (assignments db') \<and>
     crew k' t q db' = (if k' = k \<and> t = tenant \<and> q = req then filter (\<lambda>p. p \<in> set keep) (crew k t q db) else crew k' t q db)"
proof -
  let ?gs = "currents k tenant req db"
  let ?ids = "\<lambda>p. row_id ` {g \<in> set ?gs. assignee g = p \<and> p \<notin> set keep}"
  have some: "current_of ?gs p = Some g \<longleftrightarrow> g \<in> set ?gs \<and> assignee g = p" for p g
    using dist by (simp add: current_of_iff crew_def)
  have "ends (\<Union> (?ids ` set (map_order s (current_keys ?gs)))) db db'"
    using run unfolding remove_others_def
  proof (rule ends_loop, goal_cases)
    case (1 p d d')
    show ?case
    proof (cases "current_of ?gs p")
      case None
      then have "{g \<in> set ?gs. assignee g = p \<and> p \<notin> set keep} = {}" using some [of p] by auto
      moreover have "d' = d" using 1 None by simp
      ultimately show ?thesis by (simp only: image_empty ends_none)
    next
      case (Some g)
      then have "g \<in> set ?gs" "assignee g = p" "h = g" if "h \<in> set ?gs" "assignee h = p" for h
        using some [of p g] some [of p h] Some that by simp_all
      then have "{h \<in> set ?gs. assignee h = p \<and> p \<notin> set keep} = (if p \<in> set keep then {} else {g})"
        using some [of p g] Some by auto
      then show ?thesis using 1 Some by (auto split: if_splits dest: remove_assignee_ends)
    qed
  qed
  moreover have "set (map_order s (current_keys ?gs)) = assignee ` set ?gs"
    using s by (auto simp: visits_keys_def current_keys_def)
  ultimately have e: "ends (row_id ` {g \<in> set ?gs. assignee g \<notin> set keep}) db db'"
    by (auto elim!: back_subst [of "\<lambda>i. ends i db db'"])
  have "filter (\<lambda>g. row_id g \<notin> row_id ` {g \<in> set ?gs. assignee g \<notin> set keep}) (currents k' t q db) =
     (if k' = k \<and> t = tenant \<and> q = req then filter (\<lambda>g. assignee g \<in> set keep) (currents k t q db) else currents k' t q db)"
  proof -
    have "row_id g \<in> row_id ` {g \<in> set ?gs. assignee g \<notin> set keep} \<longleftrightarrow>
        (k' = k \<and> t = tenant \<and> q = req) \<and> assignee g \<notin> set keep" if g: "g \<in> set (currents k' t q db)" for g
    proof
      assume "row_id g \<in> row_id ` {g \<in> set ?gs. assignee g \<notin> set keep}"
      then obtain h where h: "h \<in> set ?gs" "assignee h \<notin> set keep" "row_id g = row_id h" by blast
      then have "g = h" using g table_wf_same_id [OF wf] by (auto simp: currents_def)
      with h g show "(k' = k \<and> t = tenant \<and> q = req) \<and> assignee g \<notin> set keep"
        by (auto simp: currents_def of_request_def)
    qed (use g in auto)
    then show ?thesis by (auto intro!: filter_cong simp: filter_id_conv)
  qed
  with e wf show ?thesis by (simp add: ends_def crew_def filter_map comp_def)
qed

definition joins :: "assignment_kind \<Rightarrow> string \<Rightarrow> nat \<Rightarrow> string list \<Rightarrow> presale_db \<Rightarrow> presale_db \<Rightarrow> bool" where
  "joins k tenant req ps db db' \<longleftrightarrow>
     (table_wf (assignments db) \<longrightarrow> table_wf (assignments db')) \<and>
     (\<forall>k' t q. crew k' t q db' = crew k' t q db @ (if k' = k \<and> t = tenant \<and> q = req then ps else []))"

lemma joins_none [simp]: "joins k tenant req [] db db"
  by (simp add: joins_def)

lemma joins_append: "joins k tenant req ps db db1 \<Longrightarrow> joins k tenant req qs db1 db2 \<Longrightarrow> joins k tenant req (ps @ qs) db db2"
  by (auto simp: joins_def)

lemma joins_same: "joins k tenant req ps db db' \<Longrightarrow> assignments db'' = assignments db' \<Longrightarrow> joins k tenant req ps db db''"
  by (simp add: joins_def crew_same [of db'' db'])

lemma joins_loop:
  assumes "fold_res f xs db = Inr db'" "\<And>x d d'. x \<in> set xs \<Longrightarrow> f x d = Inr d' \<Longrightarrow> joins k tenant req (ps x) d d'"
  shows "joins k tenant req (concat (map ps xs)) db db'"
  using assms
proof (induction xs arbitrary: db)
  case (Cons x xs)
  from Cons.prems(1) obtain d where d: "f x db = Inr d" "fold_res f xs d = Inr db'" by auto
  show ?case
    unfolding list.map concat.simps
    by (rule joins_append [OF Cons.prems(2) [OF _ d(1)] Cons.IH [OF d(2) Cons.prems(2)]]) simp_all
qed simp

lemma create_new_joins:
  assumes "create_assignment now (new_assignment a req person name dep rol k0 at batch reason) db = (db', g')"
  shows "joins (if k0 = KindEmpty then KindExecutor else k0) (actor_tenant a) req [person] db db'"
proof -
  let ?g = "new_assignment a req person name dep rol k0 at batch reason"
  have g: "effective_kind ?g = (if k0 = KindEmpty then KindExecutor else k0)" "deleted_at ?g = None" "is_current ?g"
    "tenant_id ?g = actor_tenant a" "as_request ?g = req" "assignee ?g = person"
    by (simp_all add: new_assignment_def effective_kind_def)
  note create_assignment_currents [OF assms g(2,3), unfolded g(1,4-6)]
  note this [THEN conjunct1] this [THEN conjunct2]
  then show ?thesis unfolding joins_def by (simp only: conj_assoc conj_commute conj_left_commute) blast
qed

lemma add_assignee_joins:
  assumes "add_assignee s a r req reason at batch k0 t db = Inr db'"
  shows "joins (if k0 = KindEmpty then KindExecutor else k0) (actor_tenant a) req [tg_person t] db db'"
proof -
  from assms obtain name g db1 where
    "create_assignment (clock_now s) (new_assignment a req (tg_person t) name (tg_department t) (tg_role t) k0 at batch reason) db = (db1, g)"
    and "record_assignment_notification s a r g EventAdded reason at db1 = Inr db'"
    unfolding add_assignee_def Let_def by (auto split: prod.splits)
  then show ?thesis by (blast intro: joins_same create_new_joins record_notification_same)
qed

lemma find_person: "List.find (\<lambda>t. tg_person t = p) ts = Some t \<Longrightarrow> tg_person t = p"
  by (auto simp: find_Some_iff)

lemma add_new_joins:
  assumes "add_new s a r req reason at batch k0 guard ts present order db = Inr db'" "set order \<subseteq> tg_person ` set ts"
  shows "joins (if k0 = KindEmpty then KindExecutor else k0) (actor_tenant a) req (filter (\<lambda>p. p \<notin> set present) order) db db'"
proof -
  have known: "List.find (\<lambda>t. tg_person t = p) ts \<noteq> None" if "p \<in> set order" for p
    using that assms(2) by (auto simp: find_None_iff)
  have "joins (if k0 = KindEmpty then KindExecutor else k0) (actor_tenant a) req
      (concat (map (\<lambda>p. if p \<in> set present then [] else [p]) order)) db db'"
    using assms(1) unfolding add_new_def
  proof (rule joins_loop, goal_cases)
    case (1 p d d')
    then show ?case
      using known [of p] find_person [of p ts]
      by (cases "p \<in> set present") (auto split: sum.splits dest!: add_assignee_joins)
  qed
  moreover have "concat (map (\<lambda>p. if p \<in> set present then [] else [p]) order) = filter (\<lambda>p. p \<notin> set present) order"
    by (induction order) auto
  ultimately show ?thesis by simp
qed

section \<open>What the operations do to the crew\<close>

lemma install_team_lead_steps:
  assumes "install_team_lead s a r req person name dep e reason db = Inr (db', i)"
  obtains db1 db2 g batch where "end_current_team_lead s a r e (clock_now s) db = Inr db1"
    and "create_assignment (clock_now s) (new_assignment a req person name dep ''team_lead'' KindTeamLead (clock_now s)
      batch reason) db1 = (db2, g)"
    and "assignments db' = assignments db2"
proof -
  from assms obtain db1 where ended: "end_current_team_lead s a r e (clock_now s) db = Inr db1"
    unfolding install_team_lead_def by auto
  let ?g = "new_assignment a req person name dep ''team_lead'' KindTeamLead (clock_now s)
    (next_batch (list_assignments_for_update (actor_tenant a) req db1)) reason"
  obtain db2 g where new: "create_assignment (clock_now s) ?g db1 = (db2, g)" by (rule prod.exhaust)
  have "assignments db' = assignments db2"
    using assms ended new unfolding install_team_lead_def Let_def by (auto dest: record_event_same)
  with ended new show thesis by (rule that)
qed

lemma install_team_lead_crew:
  assumes "install_team_lead s a r req person name dep e reason db = Inr (db', i)" "row_id r = req" "table_wf (assignments db)"
  shows "table_wf (assignments db') \<and>
     crew k t q db' = (if k = KindTeamLead \<and> t = actor_tenant a \<and> q = req then [person] else crew k t q db)"
proof -
  from install_team_lead_steps [OF assms(1)] obtain db1 db2 g batch where
    ended: "end_current_team_lead s a r e (clock_now s) db = Inr db1" and
    new: "create_assignment (clock_now s) (new_assignment a req person name dep ''team_lead'' KindTeamLead (clock_now s)
      batch reason) db1 = (db2, g)" and same: "assignments db' = assignments db2" .
  note gone = ends_own_rows [OF end_current_team_lead_ends [OF ended] assms(3)]
  have "joins KindTeamLead (actor_tenant a) req [person] db1 db'"
    using joins_same [OF create_new_joins [OF new] same] by simp
  then show ?thesis using gone [of k t q] assms(2) by (auto simp: joins_def crew_def)
qed

lemma end_current_team_lead_crew:
  assumes "end_current_team_lead s a r e at db = Inr db'" "row_id r = req" "table_wf (assignments db)"
  shows "table_wf (assignments db') \<and>
     crew k t q db' = (if k = KindTeamLead \<and> t = actor_tenant a \<and> q = req then [] else crew k t q db)"
  using ends_own_rows [OF end_current_team_lead_ends [OF assms(1)] assms(3)] assms(2) by (auto simp: crew_def)

text \<open>Both loops of a replacement: who stays keeps the place, who is new follows.\<close>

lemma replace_loops_crew:
  assumes "remove_others s a r reason at (currents KindExecutor (actor_tenant a) req db) (map tg_person ts) db = Inr db1"
    and "add_new s a r req reason at batch k0 guard ts (current_keys (currents KindExecutor (actor_tenant a) req db)) order db1
      = Inr db2"
    and "k0 = KindEmpty \<or> k0 = KindExecutor" "set order = tg_person ` set ts" "distinct order" "visits_keys s"
    and "distinct (crew KindExecutor (actor_tenant a) req db)" "table_wf (assignments db)"
  shows "table_wf (assignments db2)"
    and "(k, t, q) \<noteq> (KindExecutor, actor_tenant a, req) \<Longrightarrow> crew k t q db2 = crew k t q db"
    and "distinct (crew KindExecutor (actor_tenant a) req db2) \<and>
      set (crew KindExecutor (actor_tenant a) req db2) = tg_person ` set ts"
proof -
  let ?old = "crew KindExecutor (actor_tenant a) req db"
  note left = remove_others_crew [OF assms(1,6,7,8)]
  have keys: "set (current_keys (currents KindExecutor (actor_tenant a) req db)) = set ?old"
    by (simp add: current_keys_def crew_def)
  have "(if k0 = KindEmpty then KindExecutor else k0) = KindExecutor" using assms(3) by auto
  with add_new_joins [OF assms(2)] assms(4)
  have new: "joins KindExecutor (actor_tenant a) req (filter (\<lambda>p. p \<notin> set ?old) order) db1 db2"
    by (simp add: keys)
  show "table_wf (assignments db2)" using new left by (simp add: joins_def)
  show "crew k t q db2 = crew k t q db" if "(k, t, q) \<noteq> (KindExecutor, actor_tenant a, req)"
  proof -
    have "\<not> (k = KindExecutor \<and> t = actor_tenant a \<and> q = req)" using that by simp
    then show ?thesis using new left [of k t q] unfolding joins_def by (simp only: if_False) simp
  qed
  have "crew KindExecutor (actor_tenant a) req db2 =
      filter (\<lambda>p. p \<in> set (map tg_person ts)) ?old @ filter (\<lambda>p. p \<notin> set ?old) order"
    using new left [of KindExecutor "actor_tenant a" req] by (simp add: joins_def)
  then show "distinct (crew KindExecutor (actor_tenant a) req db2) \<and>
      set (crew KindExecutor (actor_tenant a) req db2) = tg_person ` set ts"
    using assms(4,5,7) by auto
qed

lemma finish_replacement_same:
  "finish_replacement s a req key op hash r db = Inr (db', r') \<Longrightarrow> assignments db' = assignments db"
  unfolding finish_replacement_def complete_if_ready_def
  by (auto simp: Let_def update_request_versioned_Inr versioned_update_Inr split: if_splits prod.splits
           dest!: create_replay_frame)

section \<open>The invariant\<close>

definition lead_of :: "presale_request \<Rightarrow> string list" where
  "lead_of r = (if team_lead r = [] then [] else [team_lead r])"

definition stored :: "nat \<Rightarrow> presale_db \<Rightarrow> bool" where
  "stored n db \<longleftrightarrow> (\<forall>g \<in> set (rows (assignments db)). kind g \<noteq> KindEmpty \<and> as_request g < n)"

text \<open>
  Every live request has the current team lead it names and no other, and no person is
  current executor of it twice.
\<close>

definition crew_ok :: "presale_db \<Rightarrow> bool" where
  "crew_ok db \<longleftrightarrow> table_wf (requests db) \<and> table_wf (assignments db) \<and> stored (next_id (requests db)) db \<and>
     (\<forall>r \<in> set (rows (requests db)). deleted_at r = None \<longrightarrow>
        crew KindTeamLead (tenant_id r) (row_id r) db = lead_of r \<and>
        distinct (crew KindExecutor (tenant_id r) (row_id r) db))"

lemma crew_ok_wf: "crew_ok db \<Longrightarrow> table_wf (requests db)" "crew_ok db \<Longrightarrow> table_wf (assignments db)"
  "crew_ok db \<Longrightarrow> stored (next_id (requests db)) db"
  by (simp_all add: crew_ok_def)

lemma crew_ok_at:
  "crew_ok db \<Longrightarrow> find_request t i db = Some r \<Longrightarrow>
     crew KindTeamLead t i db = lead_of r \<and> distinct (crew KindExecutor t i db) \<and> i < next_id (requests db)"
  by (auto simp: crew_ok_def table_wf_def dest!: find_request_Some)

lemma crew_okI:
  assumes "table_wf (requests db)" "table_wf (assignments db)" "stored (next_id (requests db)) db"
    and "\<And>t i r. find_request t i db = Some r \<Longrightarrow>
      crew KindTeamLead t i db = lead_of r \<and> distinct (crew KindExecutor t i db)"
  shows "crew_ok db"
  using assms(1-3) assms(4) [of "tenant_id r" "row_id r" r for r]
  by (auto simp: crew_ok_def find_request_iff is_request_def)

lemma end_assignment_stored: "end_assignment tenant i v u at db = Inr db' \<Longrightarrow> stored n db \<Longrightarrow> stored n db'"
  by (auto simp: end_assignment_Inr stored_def set_rows_update)

lemma create_assignment_stored:
  "create_assignment now (new_assignment a req p name dep rol k0 at batch reason) db = (db', g) \<Longrightarrow>
     stored n db \<Longrightarrow> req < n \<Longrightarrow> stored n db'"
  by (auto simp: create_assignment_def new_assignment_def insert_row_def stored_def split: if_splits)

lemma stored_same: "stored n db \<Longrightarrow> assignments db' = assignments db \<Longrightarrow> stored n db'"
  by (simp add: stored_def)

lemma remove_others_stored:
  assumes "remove_others s a r reason at gs keep db = Inr db'" "stored n db"
  shows "stored n db'"
  using assms(1,2) unfolding remove_others_def
  by (rule fold_res_invariant)
     (auto simp: remove_assignee_def split: option.splits if_splits dest!: record_notification_same
        intro: stored_same end_assignment_stored)

lemma add_new_stored:
  assumes "add_new s a r req reason at batch k0 guard ts present order db = Inr db'" "stored n db" "req < n"
  shows "stored n db'"
  using assms(1,2) unfolding add_new_def
proof (rule fold_res_invariant, goal_cases)
  case (1 p d d')
  then show ?case using assms(3)
    by (auto simp: add_assignee_def Let_def split: if_splits option.splits sum.splits prod.splits
             dest!: record_notification_same intro: stored_same create_assignment_stored)
qed

lemma end_current_team_lead_stored:
  assumes "end_current_team_lead s a r reason at db = Inr db'" "stored n db"
  shows "stored n db'"
  using assms(1,2) unfolding end_current_team_lead_def
  by (rule fold_res_invariant)
     (auto split: if_splits dest!: record_event_same intro: stored_same end_assignment_stored)

lemma install_team_lead_stored:
  assumes "install_team_lead s a r req person name dep e reason db = Inr (db', i)" "stored n db" "req < n"
  shows "stored n db'"
proof -
  from install_team_lead_steps [OF assms(1)] obtain db1 db2 g batch where
    ended: "end_current_team_lead s a r e (clock_now s) db = Inr db1" and
    new: "create_assignment (clock_now s) (new_assignment a req person name dep ''team_lead'' KindTeamLead (clock_now s)
      batch reason) db1 = (db2, g)" and same: "assignments db' = assignments db2" .
  show ?thesis
    by (rule stored_same [OF create_assignment_stored [OF new end_current_team_lead_stored [OF ended assms(2)] assms(3)] same])
qed

text \<open>A write on one request, with the crew of that request changed before it.\<close>

lemma crew_ok_step:
  assumes ok: "crew_ok db" and r: "find_request tenant i db = Some r"
    and up: "update_request_versioned now r (version r) f db1 = Inr (db2, r2)" and f: "keeps_identity f"
    and base: "requests db1 = requests db" and req: "requests db' = requests db2"
    and wf: "table_wf (assignments db')" "stored (next_id (requests db)) db'"
    and other: "\<And>k t q. (t, q) \<noteq> (tenant, i) \<Longrightarrow> crew k t q db' = crew k t q db"
    and own: "crew KindTeamLead tenant i db' = lead_of (f r)" "distinct (crew KindExecutor tenant i db')"
  shows "crew_ok db'"
proof (rule crew_okI)
  have r': "tenant_id r = tenant" "row_id r = i" using r by (auto dest: find_request_Some)
  have put: "versioned_update (datetime3 now, f) (tenant, i) (version r) db1 = Inr db2"
    using up r' by (simp add: update_request_versioned_Inr)
  have wf1: "table_wf (requests db1)" using base crew_ok_wf(1) [OF ok] by simp
  have keep: "keeps_identity (snd (datetime3 now, f))" using f by simp
  show "table_wf (requests db')" using table_wf_versioned_update [OF wf1 keep put] req by simp
  show "table_wf (assignments db')" by fact
  have "next_id (requests db') = next_id (requests db)"
    using put req base by (auto simp: versioned_update_Inr update_rows_def)
  then show "stored (next_id (requests db')) db'" using wf(2) by simp
  fix t j x
  assume x: "find_request t j db' = Some x"
  show "crew KindTeamLead t j db' = lead_of x \<and> distinct (crew KindExecutor t j db')"
  proof (cases "(t, j) = (tenant, i)")
    case True
    have "find_request tenant i db1 = Some r" using r base find_frames(1) by metis
    from find_request_update_same [OF wf1 keep put this] have "lead_of x = lead_of (f r)"
      using x True req find_frames(1) [OF req] by (auto simp: lead_of_def)
    then show ?thesis using own True by simp
  next
    case False
    from find_request_update_other [OF wf1 keep put False] have "find_request t j db = Some x"
      using x req base find_frames(1) by metis
    then show ?thesis using crew_ok_at [OF ok] other [of t j] False by simp
  qed
qed

text \<open>An operation that assigns nobody and keeps the named team leads.\<close>

definition crew_frame :: "presale_db \<Rightarrow> presale_db \<Rightarrow> bool" where
  "crew_frame db db' \<longleftrightarrow> assignments db' = assignments db \<and>
     (table_wf (requests db) \<longrightarrow> table_wf (requests db')) \<and> next_id (requests db) \<le> next_id (requests db') \<and>
     (\<forall>t i r'. find_request t i db' = Some r' \<longrightarrow>
        (\<exists>r. find_request t i db = Some r \<and> team_lead r' = team_lead r) \<or>
        next_id (requests db) \<le> i \<and> team_lead r' = [])"

lemma crew_frame_same: "assignments db' = assignments db \<Longrightarrow> requests db' = requests db \<Longrightarrow> crew_frame db db'"
  by (auto simp: crew_frame_def find_request_def)

lemma crew_frame_trans: "crew_frame db db1 \<Longrightarrow> crew_frame db1 db2 \<Longrightarrow> crew_frame db db2"
  unfolding crew_frame_def by (smt (verit) le_trans)

lemma find_request_updated:
  assumes up: "update_request_versioned now r v f db = Inr (db', r')" and f: "keeps_identity f"
  shows "find_request t i db' = map_option (\<lambda>x. if is_request (tenant_id r) (row_id r) x \<and> version x = v
      then (f x)\<lparr>version := v + 1, updated_at := datetime3 now\<rparr> else x) (find_request t i db)"
proof -
  have "is_request t i ((f x)\<lparr>version := v + 1, updated_at := datetime3 now\<rparr>) = is_request t i x" for x
    using f by (simp add: keeps_identity_def is_request_def)
  moreover have "requests db' = update_rows (\<lambda>x. is_request (tenant_id r) (row_id r) x \<and> version x = v)
      (\<lambda>x. (f x)\<lparr>version := v + 1, updated_at := datetime3 now\<rparr>) (requests db)"
    using up by (auto simp: update_request_versioned_Inr versioned_update_Inr)
  ultimately show ?thesis unfolding find_request_def by (simp only: find_row_update)
qed

lemma crew_frame_update:
  assumes up: "update_request_versioned now r v f db = Inr (db', r')" and f: "keeps_identity f"
    and lead: "\<And>x. team_lead (f x) = team_lead x"
  shows "crew_frame db db'"
proof -
  have "table_wf (requests db) \<Longrightarrow> table_wf (requests db')"
    using up table_wf_versioned_update [of db "(datetime3 now, f)" "tenant_id r" "row_id r" v db'] f
    by (simp add: update_request_versioned_Inr)
  moreover have "next_id (requests db') = next_id (requests db)" "assignments db' = assignments db"
    using up by (auto simp: update_request_versioned_Inr versioned_update_Inr update_rows_def)
  ultimately show ?thesis
    using lead by (auto simp: crew_frame_def find_request_updated [OF up f])
qed

lemma crew_ok_frame:
  assumes ok: "crew_ok db" and fr: "crew_frame db db'"
  shows "crew_ok db'"
proof (rule crew_okI)
  show "table_wf (requests db')" "table_wf (assignments db')"
    using fr crew_ok_wf [OF ok] by (simp_all add: crew_frame_def)
  show "stored (next_id (requests db')) db'"
    using fr crew_ok_wf(3) [OF ok] by (auto simp: crew_frame_def stored_def)
  fix t i r'
  assume r': "find_request t i db' = Some r'"
  have same: "crew k t i db' = crew k t i db" for k
    by (rule crew_same) (use fr in \<open>simp add: crew_frame_def\<close>)
  from fr r' consider r where "find_request t i db = Some r" "team_lead r' = team_lead r"
    | "next_id (requests db) \<le> i" "team_lead r' = []" unfolding crew_frame_def by blast
  then show "crew KindTeamLead t i db' = lead_of r' \<and> distinct (crew KindExecutor t i db')"
  proof cases
    case 1
    then show ?thesis using crew_ok_at [OF ok 1(1)] same by (simp add: lead_of_def)
  next
    case 2
    then have "crew k t i db = []" for k
      using crew_ok_wf(3) [OF ok] by (auto simp: crew_def currents_def filter_empty_conv stored_def of_request_def)
    then show ?thesis using 2 same by (simp add: lead_of_def)
  qed
qed

section \<open>The operations keep the invariant\<close>

lemma complete_if_ready_frame:
  "ok (complete_if_ready s r current u tr db) (\<lambda>(db', r', c). crew_frame db db')"
  unfolding complete_if_ready_def
proof (intro ok_intro, goal_cases)
  case (3 y db1 r1)
  note up = \<open>update_request_versioned _ _ _ _ _ = _\<close> [unfolded \<open>y = _\<close>]
  have "crew_frame db db1" by (rule crew_frame_update [OF up]) (simp_all add: keeps_identity_def)
  then show ?case by (simp add: crew_frame_trans crew_frame_same)
qed (simp_all add: crew_frame_same)

lemma finish_replacement_frame:
  "finish_replacement s a req key op hash r db = Inr (db', r') \<Longrightarrow> crew_frame db db'"
  unfolding finish_replacement_def
  by (auto simp: Let_def split: prod.splits dest!: create_replay_frame okD [OF complete_if_ready_frame]
           intro: crew_frame_trans [OF _ crew_frame_same])

lemma crew_after_update:
  "update_request_versioned now r v f db1 = Inr (db2, r2) \<Longrightarrow> assignments db' = assignments db2 \<Longrightarrow>
     assignments db' = assignments db1 \<and> crew k t q db' = crew k t q db1"
  by (auto simp: update_request_versioned_Inr versioned_update_Inr intro: crew_same)

text \<open>
  A write on the request after the steps on its assignments: what is left to show is the
  crew of the request.
\<close>

lemma crew_ok_after:
  assumes ok: "crew_ok db" and r: "find_request (actor_tenant a) req db = Some r"
    and as: "assigns db db1" "stored (next_id (requests db)) db1" "table_wf (assignments db1)"
    and up: "update_request_versioned now r (version r) f db1 = Inr (db2, r2)" and f: "keeps_identity f"
    and same: "requests db' = requests db2" "assignments db' = assignments db2"
    and other: "\<And>k t q. (t, q) \<noteq> (actor_tenant a, req) \<Longrightarrow> crew k t q db1 = crew k t q db"
    and own: "crew KindTeamLead (actor_tenant a) req db1 = lead_of (f r)" "distinct (crew KindExecutor (actor_tenant a) req db1)"
  shows "crew_ok db'"
  by (rule crew_ok_step [OF ok r up f _ same(1)])
     (use as other own crew_after_update [OF up same(2)] in \<open>simp_all add: assigns_def stored_def\<close>)

text \<open>The two shapes of a change of team lead: a new one is installed, or the current one goes.\<close>

lemma lead_installed:
  assumes ok: "crew_ok db" and r: "find_request (actor_tenant a) req db = Some r"
    and inst: "install_team_lead s a r req person name dep e reason db = Inr (db1, i)"
    and up: "update_request_versioned now r (version r) f db1 = Inr (db2, r2)"
    and same: "requests db' = requests db2" "assignments db' = assignments db2"
    and f: "keeps_identity f" "team_lead (f r) = person" and lead: "person \<noteq> []"
  shows "crew_ok db' \<and> crew KindTeamLead (actor_tenant a) req db' = [person] \<and>
     crew KindExecutor (actor_tenant a) req db' = crew KindExecutor (actor_tenant a) req db"
proof -
  have id: "row_id r = req" "req < next_id (requests db)"
    using r crew_ok_at [OF ok r] by (auto dest: find_request_Some)
  note inst' = install_team_lead_crew [OF inst id(1) crew_ok_wf(2) [OF ok]]
  note after = crew_ok_after [OF ok r install_team_lead_ok [OF inst]
      install_team_lead_stored [OF inst crew_ok_wf(3) [OF ok] id(2)] _ up f(1) same]
  show ?thesis
    by (intro conjI after)
       (use inst' lead f(2) crew_ok_at [OF ok r] crew_after_update [OF up same(2)] in \<open>auto simp: lead_of_def\<close>)
qed

lemma lead_ended:
  assumes ok: "crew_ok db" and r: "find_request (actor_tenant a) req db = Some r"
    and ended: "end_current_team_lead s a r reason at db = Inr db1"
    and up: "update_request_versioned now r (version r) f db1 = Inr (db2, r2)"
    and same: "requests db' = requests db2" "assignments db' = assignments db2"
    and f: "keeps_identity f" "team_lead (f r) = []"
  shows "crew_ok db' \<and> crew KindTeamLead (actor_tenant a) req db' = [] \<and>
     crew KindExecutor (actor_tenant a) req db' = crew KindExecutor (actor_tenant a) req db"
proof -
  have id: "row_id r = req" using r by (auto dest: find_request_Some)
  note ended' = end_current_team_lead_crew [OF ended id crew_ok_wf(2) [OF ok]]
  note after = crew_ok_after [OF ok r end_current_team_lead_assigns [OF ended]
      end_current_team_lead_stored [OF ended crew_ok_wf(3) [OF ok]] _ up f(1) same]
  show ?thesis
    by (intro conjI after)
       (use ended' f(2) crew_ok_at [OF ok r] crew_after_update [OF up same(2)] in \<open>auto simp: lead_of_def\<close>)
qed

lemma select_lead_tx_crew:
  assumes ok: "crew_ok db" and lead: "sd_team_lead inp \<noteq> []"
  shows "ok (select_lead_tx s a req key hash inp name dep db) (\<lambda>(db', r'). crew_ok db' \<and>
     ((if key = [] then None else find_replay (actor_tenant a) req (user_id a) key db) = None \<longrightarrow>
        crew KindTeamLead (actor_tenant a) req db' = [sd_team_lead inp] \<and>
        crew KindExecutor (actor_tenant a) req db' = crew KindExecutor (actor_tenant a) req db \<and>
        status r' = PendingExecutionAssignment \<and> team_lead r' = sd_team_lead inp))"
  unfolding select_lead_tx_def
proof (intro ok_intro, goal_cases)
  case (1 r nj u x db1 asg y db2 r2 r3 mark db3 db4 db5)
  from lead_installed [OF ok \<open>find_request _ _ _ = _\<close> \<open>install_team_lead _ _ _ _ _ _ _ _ _ _ = _\<close> [unfolded \<open>x = _\<close>]
      \<open>update_request_versioned _ _ _ _ _ = _\<close> [unfolded \<open>y = _\<close>], of db5]
  show ?case using \<open>db5 = _\<close> \<open>db4 = _\<close> \<open>db3 = _\<close> \<open>r3 = _\<close> lead by (simp add: keeps_identity_def)
next
  case (2 r nj u x db1 asg y db2 r2 r3 mark db3 db4 db5 db6)
  from lead_installed [OF ok \<open>find_request _ _ _ = _\<close> \<open>install_team_lead _ _ _ _ _ _ _ _ _ _ = _\<close> [unfolded \<open>x = _\<close>]
      \<open>update_request_versioned _ _ _ _ _ = _\<close> [unfolded \<open>y = _\<close>], of db6]
  show ?case using \<open>db5 = _\<close> \<open>db4 = _\<close> \<open>db3 = _\<close> \<open>r3 = _\<close> create_replay_frame [OF \<open>create_replay _ _ = _\<close>] lead
    by (auto simp: keeps_identity_def)
qed (auto simp: ok)

lemma takeover_tx_crew:
  assumes ok: "crew_ok db" and lead: "tk_team_lead inp \<noteq> []"
  shows "ok (takeover_tx s a req key hash inp name dep db) (\<lambda>(db', r'). crew_ok db' \<and>
     (find_replay (actor_tenant a) req (user_id a) key db = None \<longrightarrow>
        crew KindTeamLead (actor_tenant a) req db' = [tk_team_lead inp] \<and>
        crew KindExecutor (actor_tenant a) req db' = crew KindExecutor (actor_tenant a) req db \<and>
        status r' = Executing \<and> team_lead r' = tk_team_lead inp))"
  unfolding takeover_tx_def
proof (intro ok_intro, goal_cases)
  case (1 r u x db1 asg y db2 r2 r3 db3 db4)
  note up = \<open>update_request_versioned _ _ _ _ _ = _\<close> [unfolded \<open>y = _\<close>]
  from lead_installed [OF ok \<open>find_request _ _ _ = _\<close> \<open>install_team_lead _ _ _ _ _ _ _ _ _ _ = _\<close> [unfolded \<open>x = _\<close>] up, of db4]
  show ?case using \<open>db3 = _\<close> \<open>r3 = _\<close> create_replay_frame [OF \<open>create_replay _ _ = _\<close>] lead \<open>\<not> (status r \<noteq> _ \<or> _)\<close>
      update_request_versioned_frame [OF up]
    by (auto simp: keeps_identity_def)
qed (auto simp: ok)

lemma clear_team_lead_identity: "keeps_identity (clear_team_lead u)"
  by (simp add: keeps_identity_def clear_team_lead_def)

lemma notify_role_users_same: "notify_role_users s t rl n db = Inr db' \<Longrightarrow> requests db' = requests db \<and> assignments db' = assignments db"
  by (auto dest!: notify_role_users_frame)

lemma reject_assignment_tx_crew:
  assumes ok: "crew_ok db"
  shows "ok (reject_assignment_tx s a req key hash inp db) (\<lambda>(db', r'). crew_ok db' \<and>
     (find_replay (actor_tenant a) req (user_id a) key db = None \<longrightarrow>
        crew KindTeamLead (actor_tenant a) req db' = [] \<and>
        crew KindExecutor (actor_tenant a) req db' = crew KindExecutor (actor_tenant a) req db \<and>
        status r' = ApprovedPendingAssignment \<and> team_lead r' = []))"
  unfolding reject_assignment_tx_def
proof (intro ok_intro, goal_cases)
  case (1 r db1 y db2 r2 r3 db3 db4 db5)
  from lead_ended [OF ok \<open>find_request _ _ _ = _\<close> \<open>end_current_team_lead _ _ _ _ _ _ = _\<close>
      \<open>update_request_versioned _ _ _ _ _ = _\<close> [unfolded \<open>y = _\<close>], of db5]
  show ?case using \<open>db3 = _\<close> \<open>r3 = _\<close> create_replay_frame [OF \<open>create_replay _ _ = _\<close>]
      notify_role_users_same [OF \<open>notify_role_users _ _ _ _ _ = _\<close>]
    by (auto simp: clear_team_lead_identity)
qed (auto simp: ok)

lemma invalidate_team_lead_crew:
  assumes ok: "crew_ok db"
  shows "ok (invalidate_team_lead s tenant req reason db) crew_ok"
  unfolding invalidate_team_lead_def
proof (intro ok_intro, goal_cases)
  case (2 reason' sys r)
  show ?case unfolding ok_def by (auto dest!: notify_role_users_same intro: crew_ok_frame [OF ok] crew_frame_same)
next
  case (4 reason' sys r db1 y db2 r2 r3)
  have t: "actor_tenant sys = tenant" using \<open>sys = _\<close> by (simp add: system_actor_def)
  note gone = lead_ended [OF ok \<open>find_request _ _ _ = _\<close> [folded t] \<open>end_current_team_lead _ _ _ _ _ _ = _\<close>
      \<open>update_request_versioned _ _ _ _ _ = _\<close> [unfolded \<open>y = _\<close>]]
  show ?case unfolding ok_def
    by (auto dest!: notify_role_users_same simp: clear_team_lead_identity intro!: gone [THEN conjunct1])
qed (auto simp: ok)

lemma list_current_is_crew:
  "stored n db \<Longrightarrow> list_current_assignments t q db = currents KindExecutor t q db"
  by (auto simp: list_current_assignments_def select_rows_def currents_def current_executor_def effective_kind_def
        stored_def intro!: filter_cong)

lemma current_rows_is_crew:
  "filter (\<lambda>g. is_current g \<and> effective_kind g = KindExecutor) (list_assignments_for_update t q db) = currents KindExecutor t q db"
  by (auto simp: list_assignments_for_update_def select_rows_def currents_def intro!: filter_cong)

text \<open>A replacement of the executors: the loops, the write on the request, the completion.\<close>

lemma executors_replaced:
  assumes ok: "crew_ok db" and s: "visits_keys s" and r: "find_request (actor_tenant a) req db = Some r"
    and out: "remove_others s a r reason at (currents KindExecutor (actor_tenant a) req db) (map tg_person ts) db = Inr db1"
    and new: "add_new s a r req reason at batch k0 guard ts (current_keys (currents KindExecutor (actor_tenant a) req db))
      order db1 = Inr db2"
    and order: "k0 = KindEmpty \<or> k0 = KindExecutor" "set order = tg_person ` set ts" "distinct order"
    and up: "update_request_versioned now r (version r) f db2 = Inr (db3, r3)"
    and f: "keeps_identity f" "team_lead (f r) = team_lead r"
    and same: "requests db4 = requests db3" "assignments db4 = assignments db3"
    and fin: "finish_replacement s a req key op hash r4 db4 = Inr (db', r')"
  shows "crew_ok db' \<and> distinct (crew KindExecutor (actor_tenant a) req db') \<and>
     set (crew KindExecutor (actor_tenant a) req db') = tg_person ` set ts \<and>
     crew KindTeamLead (actor_tenant a) req db' = crew KindTeamLead (actor_tenant a) req db"
proof -
  have at: "distinct (crew KindExecutor (actor_tenant a) req db)" "req < next_id (requests db)"
    using crew_ok_at [OF ok r] by simp_all
  note loops = replace_loops_crew [OF out new order(1-3) s at(1) crew_ok_wf(2) [OF ok]]
  have "crew_ok db4"
    by (rule crew_ok_after [OF ok r assigns_trans [OF remove_others_assigns [OF out] add_new_assigns [OF new]]
          add_new_stored [OF new remove_others_stored [OF out crew_ok_wf(3) [OF ok]] at(2)] loops(1) up f(1) same])
       (use loops f(2) crew_ok_at [OF ok r] in \<open>auto simp: lead_of_def\<close>)
  then have "crew_ok db'" using finish_replacement_frame [OF fin] by (rule crew_ok_frame)
  moreover have "crew k (actor_tenant a) req db' = crew k (actor_tenant a) req db2" for k
    using crew_after_update [OF up same(2)] finish_replacement_same [OF fin] crew_same by metis
  ultimately show ?thesis using loops(3) loops(2) [of KindTeamLead] by simp
qed

section \<open>The chosen persons\<close>

lemma normalize_target_person: "normalize_target v = Inr w \<Longrightarrow> tg_person w = trim_space (tg_person v) \<and> tg_person w \<noteq> []"
  by (auto simp: normalize_target_def)

lemma normalize_targets_persons:
  assumes "normalize_assignment_targets ts = Inr vs"
  shows "distinct (map tg_person vs) \<and> sorted (map tg_person vs) \<and>
     tg_person ` set vs = (\<lambda>t. trim_space (tg_person t)) ` set ts"
proof -
  from assms obtain ws where ws: "map_res normalize_target ts = Inr ws" "distinct (map tg_person ws)" "vs = sort_key tg_person ws"
    by (auto simp: normalize_assignment_targets_def)
  have "list_all2 (\<lambda>t w. tg_person w = trim_space (tg_person t)) ts ws"
    using ws(1) unfolding map_res_Inr by (rule list_all2_mono) (simp add: normalize_target_person)
  then have "map tg_person ws = map (\<lambda>t. trim_space (tg_person t)) ts"
    by (induction rule: list_all2_induct) simp_all
  then have "tg_person ` set ws = (\<lambda>t. trim_space (tg_person t)) ` set ts" by (metis list.set_map)
  moreover have "distinct (map tg_person vs)" using ws(2,3) by (simp add: distinct_map)
  ultimately show ?thesis using ws(3) by simp
qed

lemma resolve_persons:
  assumes "resolve_assignment_targets s ts = Inr us"
  shows "distinct (map tg_person us) \<and> tg_person ` set us = (\<lambda>t. trim_space (tg_person t)) ` set ts"
proof -
  from assms obtain vs where vs: "normalize_assignment_targets ts = Inr vs" by (auto simp: resolve_assignment_targets_def)
  have "map tg_person us = map tg_person vs"
  proof (cases "owner_directory s")
    case None
    then show ?thesis using assms vs by (simp add: resolve_assignment_targets_def)
  next
    case (Some d)
    then obtain found where "map_res (\<lambda>t. case found (tg_person t) of None \<Rightarrow> Inl ErrSelectionInvalid | Some p \<Rightarrow> resolve_target p t) vs
        = Inr us" using assms vs by (auto simp: resolve_assignment_targets_def)
    then have "list_all2 (\<lambda>t u. tg_person u = tg_person t) vs us"
      unfolding map_res_Inr by (rule list_all2_mono) (auto simp: resolve_target_def Let_def split: option.splits if_splits)
    then show ?thesis by (induction rule: list_all2_induct) simp_all
  qed
  then show ?thesis using normalize_targets_persons [OF vs] by (metis list.set_map)
qed

lemma map_order_keys:
  "visits_keys s \<Longrightarrow> distinct ks \<Longrightarrow> distinct (map_order s ks) \<and> set (map_order s ks) = set ks"
  by (simp add: visits_keys_def)

lemma replace_assignments_tx_crew:
  assumes ok: "crew_ok db" and s: "visits_keys s"
  shows "ok (replace_assignments_tx s a req key hash inp db) (\<lambda>(db', r'). crew_ok db' \<and>
     (find_replay (actor_tenant a) req (user_id a) key db = None \<longrightarrow>
        distinct (crew KindExecutor (actor_tenant a) req db') \<and>
        set (crew KindExecutor (actor_tenant a) req db') = (\<lambda>t. trim_space (tg_person t)) ` set (rp_assignees inp) \<and>
        crew KindTeamLead (actor_tenant a) req db' = crew KindTeamLead (actor_tenant a) req db))"
  unfolding replace_assignments_tx_def list_current_is_crew [OF crew_ok_wf(3) [OF ok]]
proof (intro ok_intro, goal_cases)
  case (1 r nj old batch present now ts x y db1 db2 z db3 r3)
  note chosen = resolve_persons [OF \<open>resolve_assignment_targets _ _ = _\<close>]
  note replaced = executors_replaced [OF ok s \<open>find_request _ _ _ = _\<close>
      \<open>remove_others _ _ _ _ _ _ _ _ = _\<close> [unfolded \<open>old = _\<close>]
      \<open>add_new _ _ _ _ _ _ _ _ _ _ _ _ _ = _\<close> [unfolded \<open>present = _\<close> \<open>old = _\<close>] _ _ _
      \<open>update_request_versioned _ _ _ _ _ = _\<close> [unfolded \<open>z = _\<close>]]
  show ?case unfolding ok_def
    using chosen map_order_keys [OF s, of "map tg_person ts"]
    by (auto dest!: replaced [rotated -1] simp: keeps_identity_def)
next
  case (2 r nj old batch present now ts x y db1 db2 z db3 r3)
  note chosen = resolve_persons [OF \<open>resolve_assignment_targets _ _ = _\<close>]
  note replaced = executors_replaced [OF ok s \<open>find_request _ _ _ = _\<close>
      \<open>remove_others _ _ _ _ _ _ _ _ = _\<close> [unfolded \<open>old = _\<close>]
      \<open>add_new _ _ _ _ _ _ _ _ _ _ _ _ _ = _\<close> [unfolded \<open>present = _\<close> \<open>old = _\<close>] _ _ _
      \<open>update_request_versioned _ _ _ _ _ = _\<close> [unfolded \<open>z = _\<close>]]
  show ?case unfolding ok_def
    using chosen map_order_keys [OF s, of "map tg_person ts"]
    by (auto dest!: replaced [rotated -1] simp: keeps_identity_def)
qed (auto simp: ok)

lemma replace_executors_tx_crew:
  assumes ok: "crew_ok db" and s: "visits_keys s" and ts: "distinct (map tg_person ts)"
  shows "ok (replace_executors_tx s a req key hash inp ts db) (\<lambda>(db', r'). crew_ok db' \<and>
     (find_replay (actor_tenant a) req (user_id a) key db = None \<longrightarrow>
        distinct (crew KindExecutor (actor_tenant a) req db') \<and>
        set (crew KindExecutor (actor_tenant a) req db') = tg_person ` set ts \<and>
        crew KindTeamLead (actor_tenant a) req db' = crew KindTeamLead (actor_tenant a) req db))"
  unfolding replace_executors_tx_def current_rows_is_crew
proof (intro ok_intro, goal_cases)
  case (1 r nj gs current batch present now db1 db2 z db3 r3 r4)
  note replaced = executors_replaced [OF ok s \<open>find_request _ _ _ = _\<close>
      \<open>remove_others _ _ _ _ _ _ _ _ = _\<close> [unfolded \<open>current = _\<close> \<open>gs = _\<close> current_rows_is_crew]
      \<open>add_new _ _ _ _ _ _ _ _ _ _ _ _ _ = _\<close> [unfolded \<open>present = _\<close> \<open>current = _\<close> \<open>gs = _\<close> current_rows_is_crew] _ _ _
      \<open>update_request_versioned _ _ _ _ _ = _\<close> [unfolded \<open>z = _\<close>]]
  show ?case unfolding ok_def using ts by (auto dest!: replaced [rotated -1] simp: keeps_identity_def)
next
  case (2 r nj gs current batch present now db1 db2 z db3 r3)
  note replaced = executors_replaced [OF ok s \<open>find_request _ _ _ = _\<close>
      \<open>remove_others _ _ _ _ _ _ _ _ = _\<close> [unfolded \<open>current = _\<close> \<open>gs = _\<close> current_rows_is_crew]
      \<open>add_new _ _ _ _ _ _ _ _ _ _ _ _ _ = _\<close> [unfolded \<open>present = _\<close> \<open>current = _\<close> \<open>gs = _\<close> current_rows_is_crew] _ _ _
      \<open>update_request_versioned _ _ _ _ _ = _\<close> [unfolded \<open>z = _\<close>]]
  show ?case unfolding ok_def using ts by (auto dest!: replaced [rotated -1] simp: keeps_identity_def)
qed (auto simp: ok)

section \<open>The public operations\<close>

lemma settle_mutation_fresh:
  assumes "settle_mutation a req key operation action hash authorize db outcome = Inr out"
    and "find_replay (actor_tenant a) req (user_id a) key db = None"
  shows "outcome = Inr out"
  using assms by (auto simp: settle_mutation_def resolve_mutation_race_def split: sum.splits if_splits option.splits)

lemma select_execution_department_crew:
  assumes ok: "crew_ok db"
  shows "ok (select_execution_department s a req key inp db) (\<lambda>(db', r'). crew_ok db')"
proof -
  have "ok (select_department_only_tx s a req i name db) (\<lambda>(db', r). crew_ok db')" for i name
    unfolding select_department_only_tx_def
  proof (intro ok_intro, goal_cases)
    case (1 r nj x db1 r1 r2)
    note up = \<open>update_request_versioned _ _ _ _ _ = _\<close> [unfolded \<open>x = _\<close>]
    have "crew_frame db db1" by (rule crew_frame_update [OF up]) (simp_all add: keeps_identity_def)
    then have "crew_frame db (notify_workflow s n db1)" for n by (rule crew_frame_trans [OF _ crew_frame_same]) simp_all
    then show ?case by (auto intro: crew_ok_frame [OF ok])
  qed
  then have "ok (select_execution_department_only s a req i db) (\<lambda>(db', r). crew_ok db')" for i
    unfolding select_execution_department_only_def by (intro ok_intro)
  moreover have "ok (select_department_and_lead s a req k i db) (\<lambda>(db', r). crew_ok db')" if "sd_team_lead i \<noteq> []" for k i
    unfolding select_department_and_lead_def
    by (intro ok_intro settle_mutation_ok) (use okD [OF select_lead_tx_crew [OF ok that]] ok in auto)
  ultimately show ?thesis
    unfolding select_execution_department_def by (intro ok_intro) auto
qed

lemma takeover_crew:
  assumes ok: "crew_ok db"
  shows "ok (takeover_executing_team_lead s a req key inp db) (\<lambda>(db', r'). crew_ok db')"
  unfolding takeover_executing_team_lead_def
  by (intro ok_intro settle_mutation_ok) (auto simp: ok intro: ok_mono [OF takeover_tx_crew [OF ok]])

lemma reject_crew:
  assumes ok: "crew_ok db"
  shows "ok (reject_execution_assignment s a req key inp db) (\<lambda>(db', r'). crew_ok db')"
  unfolding reject_execution_assignment_def
  by (intro ok_intro settle_mutation_ok) (auto simp: ok intro: ok_mono [OF reject_assignment_tx_crew [OF ok]])

lemma replace_assignments_crew:
  assumes ok: "crew_ok db" and s: "visits_keys s"
  shows "ok (replace_assignments s a req key inp db) (\<lambda>(db', r'). crew_ok db')"
  unfolding replace_assignments_def
  by (intro ok_intro settle_mutation_ok) (auto simp: ok intro: ok_mono [OF replace_assignments_tx_crew [OF ok s]])

lemma revalidate_crew:
  assumes ok: "crew_ok db"
  shows "crew_ok (fst (revalidate_team_lead s r db))"
  using ok okD [OF invalidate_team_lead_crew [OF ok]]
  by (auto simp: revalidate_team_lead_def Let_def split: option.splits sum.splits)

lemma replace_executors_settled_crew:
  assumes "crew_ok db" "visits_keys s" "distinct (map tg_person ts)"
  shows "ok (replace_executors_settled s a req key hash inp ts db) (\<lambda>(db', r'). crew_ok db')"
  unfolding replace_executors_settled_def
  by (intro settle_mutation_ok) (auto simp: assms intro: ok_mono [OF replace_executors_tx_crew [OF assms]])

lemma committed_fst: "P db \<Longrightarrow> ok m (\<lambda>(db', r). P db') \<Longrightarrow> P (fst (committed db m))"
  by (auto simp: committed_def ok_def split: sum.splits)

lemma replace_executor_assignments_crew:
  assumes ok: "crew_ok db" and s: "visits_keys s"
  shows "crew_ok (fst (replace_executor_assignments s a req key inp db))"
proof (rule replace_executor_assignments_db [where P = crew_ok])
  show "crew_ok (fst (committed db (replace_executors_settled s a req k h i ts db)))"
    if "resolve_assignment_targets s (rp_assignees i) = Inr ts" for k h i ts
    using ok replace_executors_settled_crew [OF ok s conjunct1 [OF resolve_persons [OF that]]] by (rule committed_fst)
qed (simp_all add: ok revalidate_crew)

text \<open>Qualification: who passes the check holds a role with the permissions of the duty.\<close>

definition is_qualified :: "service \<Rightarrow> assignment_duty \<Rightarrow> string \<Rightarrow> bool" where
  "is_qualified s duty p \<longleftrightarrow>
     (case owner_directory s of
        None \<Rightarrow> False
      | Some d \<Rightarrow> holds_any_role d (trim_space p) (duty_role_codes duty) directory_max_pages 1 = Inr True)"

lemma check_duty_holds:
  "check_duty d duty ps checked = Inr () \<Longrightarrow> p \<in> set ps \<Longrightarrow>
     trim_space p \<in> set checked \<or> holds_any_role d (trim_space p) (duty_role_codes duty) directory_max_pages 1 = Inr True"
proof (induction ps arbitrary: checked)
  case (Cons q qs)
  show ?case
  proof (cases "trim_space q \<in> set checked")
    case True
    then show ?thesis using Cons by (auto simp: Let_def split: if_splits)
  next
    case False
    then have "holds_any_role d (trim_space q) (duty_role_codes duty) directory_max_pages 1 = Inr True"
      "check_duty d duty qs (trim_space q # checked) = Inr ()"
      using Cons.prems(1) by (auto simp: Let_def split: if_splits sum.splits)
    then show ?thesis using Cons.IH Cons.prems(2) by force
  qed
qed simp

lemma ensure_duty_qualified: "ensure_duty_eligible s duty ps = Inr x \<Longrightarrow> p \<in> set ps \<Longrightarrow> is_qualified s duty p"
  unfolding ensure_duty_eligible_def is_qualified_def
  by (auto split: if_splits option.splits dest!: check_duty_holds)

definition not_frozen :: "service \<Rightarrow> string \<Rightarrow> string \<Rightarrow> bool" where
  "not_frozen s tenant p \<longleftrightarrow> ensure_user_not_frozen s tenant p = Inr ()"

lemma fold_check: "fold_res (\<lambda>p _. f p) ps () = Inr x \<Longrightarrow> p \<in> set ps \<Longrightarrow> f p = Inr ()"
  by (induction ps) auto

lemma check_new_executors_sound:
  assumes "check_new_executors s a req ts db = Inr x" "stored n db" "visits_keys s" "distinct (map tg_person ts)"
    and "p \<in> tg_person ` set ts" "p \<notin> set (crew KindExecutor (actor_tenant a) req db)"
  shows "not_frozen s (actor_tenant a) p \<and> is_qualified s DutyExecutor p"
proof -
  have "set (crew KindExecutor (actor_tenant a) req db) =
      set (map assignee (filter (\<lambda>g. is_current g \<and> kind g = KindExecutor) (list_assignments (actor_tenant a) req db)))"
    using assms(2) by (force simp: crew_def currents_def list_assignments_def effective_kind_def stored_def)
  then have "p \<in> set (filter (\<lambda>p. p \<notin> set (map assignee (filter (\<lambda>g. is_current g \<and> kind g = KindExecutor)
      (list_assignments (actor_tenant a) req db)))) (map_order s (map tg_person ts)))"
    using assms(5,6) map_order_keys [OF assms(3,4)] by simp
  with assms(1) show ?thesis
    unfolding check_new_executors_def Let_def not_frozen_def by (auto dest: fold_check ensure_duty_qualified)
qed

end
