(* ===== verification/PresaleAssignResults.thy ===== *)
theory PresaleAssignResults
  imports PresaleCrew
begin

text \<open>
  The properties of the assignment operations: who is assigned afterwards, who may assign,
  who may be assigned, and what a repetition does; with a sample team for the witnesses.
\<close>

section \<open>A sample team\<close>

definition team_directory :: directory where
  "team_directory =
     \<lparr>dir_list = (\<lambda>q. Inr \<lparr>page_items = [\<lparr>du_id = q_user q, du_name = [], du_orgs = []\<rparr>], page_total = 1\<rparr>),
      dir_resolve = (\<lambda>ids. Inr (\<lambda>p. Some \<lparr>du_id = p, du_name = p,
        du_orgs = [\<lparr>org_id = ''d1'', org_name = ''D'', org_primary = True\<rparr>]\<rparr>))\<rparr>"

definition team_service :: service where
  "team_service = sample_service\<lparr>owner_directory := Some team_directory\<rparr>"

definition team_nodes :: nodes_json where
  "team_nodes = Nodes
     [\<lparr>node_id = ''1'', node_name = ''d'', node_type = NodeDepartment, role_code = ''technical_director'', countersign = []\<rparr>,
      \<lparr>node_id = ''2'', node_name = ''l'', node_type = NodeTeamLead, role_code = ''technical_director'', countersign = []\<rparr>,
      \<lparr>node_id = ''3'', node_name = ''e'', node_type = NodeExecutor, role_code = [], countersign = []\<rparr>]"

definition team_db :: "request_status \<Rightarrow> string \<Rightarrow> assignment list \<Rightarrow> presale_db" where
  "team_db st lead gs = sample_db (sample_request st 0 lead) (sample_instance team_nodes 1) gs"

definition team_target :: "string \<Rightarrow> assignment_target" where
  "team_target p = \<lparr>tg_person = p, tg_name = [], tg_department = [], tg_department_id = [], tg_role = ''technician''\<rparr>"

definition team_input :: replace_input where
  "team_input = \<lparr>rp_assignees = [team_target ''eva''], rp_reason = [], rp_version = 1\<rparr>"

definition tom :: actor where
  "tom = sample_actor ''tom'' [] [''presale.assign'']"

definition before_db :: presale_db where
  "before_db = team_db PendingExecutionAssignment ''tom'' [sample_assignment 1 ''tom'' KindTeamLead]"

lemmas team_eval = team_directory_def team_service_def team_nodes_def team_db_def team_target_def team_input_def
  tom_def before_db_def

lemma two_level_team: "instance_two_level team_nodes"
  by (simp add: instance_two_level_def team_nodes_def uses_two_level_def)

lemma team_resolves:
  "resolve_assignment_targets team_service (rp_assignees team_input) =
     Inr [\<lparr>tg_person = ''eva'', tg_name = ''eva'', tg_department = ''D'', tg_department_id = ''d1'', tg_role = ''technician''\<rparr>]"
  by (simp add: resolve_assignment_targets_def normalize_assignment_targets_def normalize_target_def team_eval
      resolve_target_def selected_department_def text_eval sample_service_def Let_def)

lemma team_holds: "holds_any_role team_directory p rs directory_max_pages 1 = Inr (trim_space p = p)"
proof -
  have max: "directory_max_pages = Suc 199" by (simp add: directory_max_pages_def)
  show ?thesis unfolding max holds_any_role.simps by (simp add: team_directory_def directory_page_size_def)
qed

lemma before_db_rows:
  "find_request ''t'' 1 before_db = Some (sample_request PendingExecutionAssignment 0 ''tom'')"
  "find_instance ''t'' 1 before_db = Some (sample_instance team_nodes 1)"
  "find_replay ''t'' 1 u k before_db = None"
  "list_assignments ''t'' 1 before_db = [sample_assignment 1 ''tom'' KindTeamLead]"
  "list_assignments_for_update ''t'' 1 before_db = [sample_assignment 1 ''tom'' KindTeamLead]"
  by (simp_all add: team_eval sample_eval list_assignments_def list_assignments_for_update_def of_request_def)

lemma team_checks:
  "revalidate_team_lead team_service (sample_request PendingExecutionAssignment 0 ''tom'') before_db = (before_db, Inr ())"
  "check_new_executors team_service tom 1
     [\<lparr>tg_person = ''eva'', tg_name = ''eva'', tg_department = ''D'', tg_department_id = ''d1'', tg_role = ''technician''\<rparr>]
     before_db = Inr ()"
proof -
  show "revalidate_team_lead team_service (sample_request PendingExecutionAssignment 0 ''tom'') before_db = (before_db, Inr ())"
    by (simp add: revalidate_team_lead_def team_service_def team_directory_def sample_request_def text_eval)
  have t: "actor_tenant tom = ''t''" by (simp add: tom_def sample_actor_def)
  show "check_new_executors team_service tom 1
     [\<lparr>tg_person = ''eva'', tg_name = ''eva'', tg_department = ''D'', tg_department_id = ''d1'', tg_role = ''technician''\<rparr>]
     before_db = Inr ()"
    unfolding check_new_executors_def t before_db_rows(4)
    by (simp add: team_service_def sample_service_def sample_assignment_def ensure_user_not_frozen_def
        ensure_duty_eligible_def duty_role_codes_eval team_holds text_eval del: One_nat_def)
qed

lemmas assign_eval = is_lead_or_admin_def Let_def next_batch_def current_keys_def current_of_def remove_others_def
  add_new_def guard_user_write_def ensure_user_not_frozen_def handover_guard_def remove_assignee_def add_assignee_def
  new_assignment_def create_assignment_def end_assignment_def record_assignment_notification_def
  record_assignment_event_def create_assignment_event_def create_outbox_def pending_outbox_def assignment_event_id_def
  finish_replacement_def complete_if_ready_def has_valid_worklog_def list_current_assignments_def of_request_def
  current_executor_def effective_kind_def settle_mutation_def list_assignments_for_update_def

lemma sample_replacement_tx:
  "\<exists>db' r'. replace_executors_tx team_service tom 1 ''k1'' ''digest'' team_input
     [\<lparr>tg_person = ''eva'', tg_name = ''eva'', tg_department = ''D'', tg_department_id = ''d1'', tg_role = ''technician''\<rparr>]
     before_db = Inr (db', r') \<and> status r' = Executing"
proof -
  have t: "actor_tenant tom = ''t''" by (simp add: tom_def sample_actor_def)
  show ?thesis
    unfolding replace_executors_tx_def t before_db_rows
    by (simp add: two_level_team [unfolded team_nodes_def] team_eval sample_eval assign_eval del: One_nat_def)
qed

lemma sample_replacement:
  "\<exists>db' r'. replace_executor_assignments team_service tom 1 ''k1'' team_input before_db = (db', Inr r') \<and> status r' = Executing"
proof -
  obtain db' r' where run: "replace_executors_tx team_service tom 1 ''k1'' ''digest'' team_input
     [\<lparr>tg_person = ''eva'', tg_name = ''eva'', tg_department = ''D'', tg_department_id = ''d1'', tg_role = ''technician''\<rparr>]
     before_db = Inr (db', r')" and st: "status r' = Executing"
    using sample_replacement_tx by (elim exE conjE) (rule that)
  have t: "actor_tenant tom = ''t''" "can tom ''presale.assign''" "\<not> has_role tom ''crm_super_admin''"
    "is_lead_or_admin tom (sample_request PendingExecutionAssignment 0 ''tom'')"
    by (simp_all add: tom_def sample_actor_def can_def has_role_def is_lead_or_admin_def sample_request_def)
  have inp: "team_input\<lparr>rp_reason := trim_space (rp_reason team_input)\<rparr> = team_input" "trim_space ''k1'' = ''k1''"
    "replace_input_valid ''k1'' team_input" "trim_space (team_lead (sample_request PendingExecutionAssignment 0 ''tom'')) \<noteq> []"
    by (simp_all add: team_input_def replace_input_valid_def sample_request_def text_eval)
  have h: "replace_hash team_service tom 1 op ts re v = ''digest''" for op ts re v
    by (simp add: replace_hash_def mutation_digest_def team_service_def sample_service_def)
  obtain intent where n: "normalize_assignment_targets (rp_assignees team_input) = Inr intent"
    using team_resolves by (auto simp: resolve_assignment_targets_def)
  show ?thesis
    by (rule exI [of _ db'], rule exI [of _ r'])
       (simp only: replace_executor_assignments_def Let_def inp n t before_db_rows team_checks team_resolves h if_True if_False
          not_False_eq_True not_True_eq_False sum.case option.case prod.case replace_executors_settled_def settle_mutation_def
          run committed_def st simp_thms)
qed

section \<open>The executors\<close>

lemma replace_executors_tx_guards:
  "ok (replace_executors_tx s a req key hash inp ts db) (\<lambda>_. \<exists>r. find_request (actor_tenant a) req db = Some r \<and>
     is_lead_or_admin a r \<and>
     (find_replay (actor_tenant a) req (user_id a) key db = None \<longrightarrow>
        version r = rp_version inp \<and> status r \<in> {PendingExecutionAssignment, Executing}))"
  unfolding replace_executors_tx_def by (intro ok_intro) (auto simp: ok_def)

lemma replace_executors_success:
  assumes run: "replace_executor_assignments s a req key inp db = (db', Inr r')"
    and fresh: "find_replay (actor_tenant a) req (user_id a) (trim_space key) db = None"
  obtains ts intent where "resolve_assignment_targets s (rp_assignees inp) = Inr ts" "can a ''presale.assign''"
    "check_new_executors s a req ts db = Inr ()" "normalize_assignment_targets (rp_assignees inp) = Inr intent"
    "replace_input_valid (trim_space key) (inp\<lparr>rp_reason := trim_space (rp_reason inp)\<rparr>)"
    "replace_executors_tx s a req (trim_space key)
       (replace_hash s a req ''REPLACE_EXECUTOR_ASSIGNMENTS'' intent (trim_space (rp_reason inp)) (rp_version inp))
       (inp\<lparr>rp_reason := trim_space (rp_reason inp)\<rparr>) ts db = Inr (db', r')"
proof -
  let ?inp = "inp\<lparr>rp_reason := trim_space (rp_reason inp)\<rparr>"
  let ?hash = "\<lambda>i. replace_hash s a req ''REPLACE_EXECUTOR_ASSIGNMENTS'' i (trim_space (rp_reason inp)) (rp_version inp)"
  have "can a ''presale.assign''" using run by (auto simp: replace_executor_assignments_def split: if_splits)
  moreover from run fresh obtain ts intent pre where "resolve_assignment_targets s (rp_assignees inp) = Inr ts"
    "check_new_executors s a req ts db = Inr ()" "normalize_assignment_targets (rp_assignees inp) = Inr intent"
    "replace_input_valid (trim_space key) ?inp" and
    out: "(if has_role a ''crm_super_admin''
       then committed db (replace_executors_settled s a req (trim_space key) (?hash intent) ?inp ts db)
       else (case revalidate_team_lead s pre db of (db1, Inl e) \<Rightarrow> (db1, Inl e)
             | (db1, Inr x) \<Rightarrow> committed db1 (replace_executors_settled s a req (trim_space key) (?hash intent) ?inp ts db1))) = (db', Inr r')"
    unfolding replace_executor_assignments_def Let_def
    by (auto split: if_splits sum.splits option.splits)
  moreover have "committed db (replace_executors_settled s a req (trim_space key) (?hash intent) ?inp ts db) = (db', Inr r')"
    using out revalidate_Inr [of s pre db] by (auto split: if_splits prod.splits sum.splits)
  then have "replace_executors_settled s a req (trim_space key) (?hash intent) ?inp ts db = Inr (db', r')"
    by (auto simp: committed_def split: sum.splits)
  then have "replace_executors_tx s a req (trim_space key) (?hash intent) ?inp ts db = Inr (db', r')"
    unfolding replace_executors_settled_def using settle_mutation_fresh fresh by blast
  ultimately show thesis by (intro that)
qed

text \<open>
  C38. A new two-level replacement that succeeds leaves exactly the chosen persons as
  current executors, each once, and the team lead as it was. It was issued with the assign permission by the team lead
  of the request or the super administrator, at the version and in a status that allow it;
  and whoever was not an executor before is not frozen and holds a role with the
  permissions of an executor.
\<close>

theorem executors_are_chosen:
  assumes "crew_ok db" and "visits_keys s"
    and "replace_executor_assignments s a req key inp db = (db', Inr r')"
    and "find_replay (actor_tenant a) req (user_id a) (trim_space key) db = None"
  shows "distinct (crew KindExecutor (actor_tenant a) req db') \<and>
     set (crew KindExecutor (actor_tenant a) req db') = (\<lambda>t. trim_space (tg_person t)) ` set (rp_assignees inp) \<and>
     crew KindTeamLead (actor_tenant a) req db' = crew KindTeamLead (actor_tenant a) req db \<and>
     can a ''presale.assign'' \<and>
     (\<exists>r. find_request (actor_tenant a) req db = Some r \<and> is_lead_or_admin a r \<and> version r = rp_version inp \<and>
        status r \<in> {PendingExecutionAssignment, Executing}) \<and>
     (\<forall>p \<in> set (crew KindExecutor (actor_tenant a) req db') - set (crew KindExecutor (actor_tenant a) req db).
        not_frozen s (actor_tenant a) p \<and> is_qualified s DutyExecutor p)"
proof -
  obtain ts intent where ts: "resolve_assignment_targets s (rp_assignees inp) = Inr ts" and perm: "can a ''presale.assign''"
    and checked: "check_new_executors s a req ts db = Inr ()"
    and "normalize_assignment_targets (rp_assignees inp) = Inr intent"
    and "replace_input_valid (trim_space key) (inp\<lparr>rp_reason := trim_space (rp_reason inp)\<rparr>)"
    and tx: "replace_executors_tx s a req (trim_space key)
       (replace_hash s a req ''REPLACE_EXECUTOR_ASSIGNMENTS'' intent (trim_space (rp_reason inp)) (rp_version inp)) (inp\<lparr>rp_reason := trim_space (rp_reason inp)\<rparr>) ts db = Inr (db', r')"
    using replace_executors_success [OF assms(3,4)] .
  note persons = resolve_persons [OF ts]
  note new = okD [OF replace_executors_tx_crew [OF assms(1,2) conjunct1 [OF persons]] tx]
    okD [OF replace_executors_tx_guards tx]
  have "not_frozen s (actor_tenant a) p \<and> is_qualified s DutyExecutor p"
    if "p \<in> tg_person ` set ts" "p \<notin> set (crew KindExecutor (actor_tenant a) req db)" for p
    by (rule check_new_executors_sound [OF checked crew_ok_wf(3) [OF assms(1)] assms(2) conjunct1 [OF persons] that])
  with new persons perm assms(4) show ?thesis by auto
qed

lemma crew_okI_sample:
  "crew_ok (sample_db (sample_request st n l) i gs) \<longleftrightarrow>
     table_wf \<lparr>rows = gs, next_id = Suc (length gs)\<rparr> \<and> (\<forall>g \<in> set gs. kind g \<noteq> KindEmpty \<and> as_request g < 2) \<and>
     map assignee (filter (\<lambda>g. of_request ''t'' 1 g \<and> is_current g \<and> effective_kind g = KindTeamLead) gs) = (if l = [] then [] else [l]) \<and>
     distinct (map assignee (filter (\<lambda>g. of_request ''t'' 1 g \<and> is_current g \<and> effective_kind g = KindExecutor) gs))"
  by (auto simp: crew_ok_def sample_db_def sample_request_def table_wf_def stored_def crew_def currents_def lead_of_def)

lemma before_db_ok: "crew_ok before_db"
  by (simp add: before_db_def team_db_def crew_okI_sample sample_assignment_def of_request_def effective_kind_def table_wf_def)

lemma team_visits: "visits_keys team_service"
  by (simp add: visits_keys_def team_service_def sample_service_def)

lemma executors_are_chosen_witness:
  "\<exists>db' r'. replace_executor_assignments team_service tom 1 ''k1'' team_input before_db = (db', Inr r') \<and>
     set (crew KindExecutor ''t'' 1 db') = {''eva''}"
proof -
  obtain db' r' where run: "replace_executor_assignments team_service tom 1 ''k1'' team_input before_db = (db', Inr r')"
    using sample_replacement by (elim exE conjE) (rule that)
  have t: "actor_tenant tom = ''t''" by (simp add: tom_def sample_actor_def)
  from executors_are_chosen [OF before_db_ok team_visits run] before_db_rows(3)
  show ?thesis using run
    by (intro exI [of _ db'] exI [of _ r']) (simp add: t team_input_def team_target_def text_eval del: One_nat_def)
qed

section \<open>The one-level replacement\<close>

lemma guard_new_not_frozen:
  "guard_new s tenant present ps = Inr x \<Longrightarrow> p \<in> set ps \<Longrightarrow> p \<notin> set present \<Longrightarrow> not_frozen s tenant p"
  unfolding guard_new_def not_frozen_def
  by (induction ps) (auto simp: guard_user_write_def split: if_splits sum.splits)

lemma checked_new:
  assumes "guard_new s tenant present ps = Inr x" "ensure_duty_eligible s duty (filter (\<lambda>p. p \<notin> set present) ps) = Inr y"
  shows "\<forall>p \<in> set ps - set present. not_frozen s tenant p \<and> is_qualified s duty p"
  using guard_new_not_frozen [OF assms(1)] ensure_duty_qualified [OF assms(2)] by auto

lemma replace_assignments_tx_guards:
  assumes "stored n db"
  shows "ok (replace_assignments_tx s a req key hash inp db) (\<lambda>_.
     find_replay (actor_tenant a) req (user_id a) key db = None \<longrightarrow>
     (\<exists>r nj. find_request (actor_tenant a) req db = Some r \<and>
        nj = (case find_instance (actor_tenant a) req db of None \<Rightarrow> NodesEmpty | Some i \<Rightarrow> inst_nodes i) \<and>
        assignment_action_allowed a nj NodePerson \<and> \<not> instance_two_level nj \<and> trim_space (team_lead r) = [] \<and>
        version r = rp_version inp \<and> status r \<in> {ApprovedPendingAssignment, Executing}) \<and>
     (\<exists>ts. resolve_assignment_targets s (rp_assignees inp) = Inr ts \<and>
        (\<forall>p \<in> tg_person ` set ts - set (crew KindExecutor (actor_tenant a) req db).
           not_frozen s (actor_tenant a) p \<and> is_qualified s DutyExecutor p)))"
proof -
  have keys: "set (current_keys (currents KindExecutor t q db)) = set (crew KindExecutor t q db)" for t q
    by (simp add: current_keys_def crew_def)
  show ?thesis
    unfolding replace_assignments_tx_def list_current_is_crew [OF assms]
  proof (intro ok_intro, goal_cases)
    case (1 r nj old batch present now ts x y db1 db2 z db3 r3)
    note checked_new [OF \<open>guard_new _ _ _ _ = _\<close> \<open>ensure_duty_eligible _ _ _ = _\<close>, unfolded \<open>present = _\<close> \<open>old = _\<close> keys]
    with 1 show ?case unfolding ok_def by (intro allI impI conjI exI [of _ r] exI [of _ nj] exI [of _ ts]) auto
  next
    case (2 r nj old batch present now ts x y db1 db2 z db3 r3)
    note checked_new [OF \<open>guard_new _ _ _ _ = _\<close> \<open>ensure_duty_eligible _ _ _ = _\<close>, unfolded \<open>present = _\<close> \<open>old = _\<close> keys]
    with 2 show ?case unfolding ok_def by (intro allI impI conjI exI [of _ r] exI [of _ nj] exI [of _ ts]) auto
  qed auto
qed

text \<open>
  A new one-level replacement that succeeds leaves exactly the chosen persons as
  current executors, each once. It is possible only on a request without a team lead whose
  rule has one assignment level, for a caller whose role the rule lets assign persons, at
  the version and in a status that allow it; the new executors are not frozen and
  qualified.
\<close>

theorem one_level_executors_are_chosen:
  assumes "crew_ok db" and "visits_keys s"
    and "replace_assignments s a req key inp db = Inr (db', r')"
    and "find_replay (actor_tenant a) req (user_id a) (trim_space key) db = None"
  shows "distinct (crew KindExecutor (actor_tenant a) req db') \<and>
     set (crew KindExecutor (actor_tenant a) req db') = (\<lambda>t. trim_space (tg_person t)) ` set (rp_assignees inp) \<and>
     can a ''presale.assign'' \<and>
     (\<exists>r nj. find_request (actor_tenant a) req db = Some r \<and>
        nj = (case find_instance (actor_tenant a) req db of None \<Rightarrow> NodesEmpty | Some i \<Rightarrow> inst_nodes i) \<and>
        assignment_action_allowed a nj NodePerson \<and> \<not> instance_two_level nj \<and> trim_space (team_lead r) = [] \<and>
        version r = rp_version inp \<and> status r \<in> {ApprovedPendingAssignment, Executing}) \<and>
     (\<forall>p \<in> set (crew KindExecutor (actor_tenant a) req db') - set (crew KindExecutor (actor_tenant a) req db).
        not_frozen s (actor_tenant a) p \<and> is_qualified s DutyExecutor p)"
proof -
  let ?inp = "inp\<lparr>rp_reason := trim_space (rp_reason inp)\<rparr>"
  from assms(3) obtain hash where perm: "can a ''presale.assign''" and settled: "settle_mutation a req (trim_space key)
      ''REPLACE_ASSIGNMENTS'' ''REPLACE'' hash (\<lambda>_. Inr ()) db (replace_assignments_tx s a req (trim_space key) hash ?inp db)
      = Inr (db', r')"
    by (auto simp: replace_assignments_def Let_def split: if_splits)
  note tx = settle_mutation_fresh [OF settled assms(4)]
  from okD [OF replace_assignments_tx_guards [OF crew_ok_wf(3) [OF assms(1)]] tx] assms(4) obtain ts r nj where
    ts: "resolve_assignment_targets s (rp_assignees inp) = Inr ts" and r: "find_request (actor_tenant a) req db = Some r"
      "nj = (case find_instance (actor_tenant a) req db of None \<Rightarrow> NodesEmpty | Some i \<Rightarrow> inst_nodes i)"
      "assignment_action_allowed a nj NodePerson" "\<not> instance_two_level nj" "trim_space (team_lead r) = []"
      "version r = rp_version inp" "status r \<in> {ApprovedPendingAssignment, Executing}" and
    new: "\<forall>p \<in> tg_person ` set ts - set (crew KindExecutor (actor_tenant a) req db).
           not_frozen s (actor_tenant a) p \<and> is_qualified s DutyExecutor p" by auto
  from okD [OF replace_assignments_tx_crew [OF assms(1,2)] tx] assms(4)
  have "distinct (crew KindExecutor (actor_tenant a) req db')"
    and all: "set (crew KindExecutor (actor_tenant a) req db') = (\<lambda>t. trim_space (tg_person t)) ` set (rp_assignees inp)" by auto
  then show ?thesis using perm r new resolve_persons [OF ts] by (auto simp only: all conjunct2)
qed

definition one_level_db :: presale_db where
  "one_level_db = sample_db (sample_request ApprovedPendingAssignment 0 []) (sample_instance NodesEmpty 1)
     [sample_assignment 1 ''bob'' KindExecutor]"

definition dirk :: actor where
  "dirk = sample_actor ''dirk'' [''technical_director''] [''presale.assign'']"

lemma team_duty: "ensure_duty_eligible team_service duty [''eva''] = Inr ()" if "duty_role_codes duty \<noteq> []" "duty_permissions duty \<noteq> []"
  using that by (simp add: ensure_duty_eligible_def team_service_def team_holds Let_def text_eval del: One_nat_def)

lemma team_guard: "guard_user_write team_service ''t'' ''eva'' = Inr ()" "ensure_user_not_frozen team_service ''t'' ''eva'' = Inr ()"
  by (simp_all add: guard_user_write_def ensure_user_not_frozen_def handover_guard_def team_service_def sample_service_def text_eval)

lemma team_service_fields:
  "map_order team_service = (\<lambda>ks. ks)" "clock_now team_service = 1767225600 * second" "sha256_hex team_service = (\<lambda>x. x)"
  "notifications_on team_service = False" "digest_of team_service = (\<lambda>_. ''digest'')" "owner_directory team_service = Some team_directory"
  "freeze_checker team_service = Some (\<lambda>_ _. Inr False)" "freeze_row team_service = (\<lambda>_ _. False)"
  by (simp_all add: team_service_def sample_service_def)

lemma one_level_rows:
  "find_request ''t'' 1 one_level_db = Some (sample_request ApprovedPendingAssignment 0 [])"
  "find_instance ''t'' 1 one_level_db = Some (sample_instance NodesEmpty 1)"
  "find_replay ''t'' 1 u k one_level_db = None"
  "list_current_assignments ''t'' 1 one_level_db = [sample_assignment 1 ''bob'' KindExecutor]"
  by (simp_all add: one_level_db_def sample_eval list_current_assignments_def current_executor_def of_request_def)

lemma sample_one_level:
  "\<exists>db' r'. replace_assignments team_service dirk 1 ''k1'' team_input one_level_db = Inr (db', r') \<and> status r' = Executing"
proof -
  have t: "actor_tenant dirk = ''t''" "can dirk ''presale.assign''" "assignment_action_allowed dirk NodesEmpty NodePerson"
    "\<not> instance_two_level NodesEmpty" "inst_nodes (sample_instance NodesEmpty 1) = NodesEmpty"
    by (simp_all add: dirk_def sample_actor_def can_def assignment_action_allowed_def has_role_def instance_two_level_def sample_instance_def)
  have tx: "\<exists>db' r'. replace_assignments_tx team_service dirk 1 ''k1'' h team_input one_level_db = Inr (db', r') \<and> status r' = Executing" for h
    unfolding replace_assignments_tx_def team_resolves t one_level_rows option.case
    by (simp add: team_service_fields one_level_rows team_duty duty_role_codes_eval team_guard guard_new_def
       dirk_def one_level_db_def team_input_def sample_eval assign_eval assignment_action_allowed_def instance_two_level_def
       del: One_nat_def)
  have inp: "team_input\<lparr>rp_reason := trim_space (rp_reason team_input)\<rparr> = team_input" "trim_space ''k1'' = ''k1''"
    "replace_input_valid ''k1'' team_input"
    by (simp_all add: team_input_def replace_input_valid_def text_eval)
  obtain ts where n: "normalize_assignment_targets (rp_assignees team_input) = Inr ts"
    using team_resolves by (auto simp: resolve_assignment_targets_def)
  let ?h = "replace_hash team_service dirk 1 ''REPLACE_ASSIGNMENTS'' ts (rp_reason team_input) (rp_version team_input)"
  obtain db' r' where run: "replace_assignments_tx team_service dirk 1 ''k1'' ?h team_input one_level_db = Inr (db', r')"
    and st: "status r' = Executing" using tx [of ?h] by (elim exE conjE) (rule that)
  have "replace_assignments team_service dirk 1 ''k1'' team_input one_level_db = Inr (db', r')"
    by (simp only: replace_assignments_def Let_def inp t(2) n run if_False if_True not_True_eq_False sum.case settle_mutation_def)
  with st show ?thesis by (intro exI [of _ db'] exI [of _ r'] conjI)
qed

lemma one_level_ok: "crew_ok one_level_db"
  by (simp add: one_level_db_def crew_okI_sample sample_assignment_def of_request_def effective_kind_def table_wf_def)

lemma one_level_executors_are_chosen_witness:
  "\<exists>db' r'. replace_assignments team_service dirk 1 ''k1'' team_input one_level_db = Inr (db', r') \<and>
     set (crew KindExecutor ''t'' 1 db') = {''eva''} \<and> not_frozen team_service ''t'' ''eva''"
proof -
  obtain db' r' where run: "replace_assignments team_service dirk 1 ''k1'' team_input one_level_db = Inr (db', r')"
    using sample_one_level by (elim exE conjE) (rule that)
  have t: "actor_tenant dirk = ''t''" by (simp add: dirk_def sample_actor_def)
  have old: "crew KindExecutor ''t'' 1 one_level_db = [''bob'']"
    by (simp add: crew_def currents_def one_level_db_def sample_eval of_request_def effective_kind_def)
  from one_level_executors_are_chosen [OF one_level_ok team_visits run] one_level_rows(3)
  show ?thesis using run
    by (intro exI [of _ db'] exI [of _ r']) (simp add: t old team_input_def team_target_def text_eval del: One_nat_def)
qed

section \<open>The team lead\<close>

lemma select_lead_tx_guards:
  "ok (select_lead_tx s a req key hash inp name dep db) (\<lambda>_.
     (if key = [] then None else find_replay (actor_tenant a) req (user_id a) key db) = None \<longrightarrow>
     (\<exists>r nj. find_request (actor_tenant a) req db = Some r \<and>
        nj = (case find_instance (actor_tenant a) req db of None \<Rightarrow> NodesEmpty | Some i \<Rightarrow> inst_nodes i) \<and>
        assignment_actions_allowed a nj [NodeDepartment, NodeTeamLead] \<and> instance_two_level nj \<and>
        version r = sd_version inp \<and> status r = ApprovedPendingAssignment))"
  unfolding select_lead_tx_def by (intro ok_intro) (auto simp: ok_def)

text \<open>
  C39. A new choice of department and team lead that succeeds makes the chosen person the
  one current team lead, moves the request to the assignment of executors and leaves the
  executors alone. The caller holds the assign permission and one role that the snapshot
  of a two-level rule lets choose both; the person belongs to the department, is not
  frozen and holds a role with the permissions of a team lead.
\<close>

theorem team_lead_is_chosen:
  assumes "crew_ok db" and "select_execution_department s a req key inp db = Inr (db', r')"
    and "trim_space (sd_team_lead inp) \<noteq> []"
    and "trim_space key \<noteq> [] \<Longrightarrow> find_replay (actor_tenant a) req (user_id a) (trim_space key) db = None"
  shows "crew KindTeamLead (actor_tenant a) req db' = [trim_space (sd_team_lead inp)] \<and>
     crew KindExecutor (actor_tenant a) req db' = crew KindExecutor (actor_tenant a) req db \<and>
     status r' = PendingExecutionAssignment \<and> can a ''presale.assign'' \<and>
     (\<exists>r nj. find_request (actor_tenant a) req db = Some r \<and>
        nj = (case find_instance (actor_tenant a) req db of None \<Rightarrow> NodesEmpty | Some i \<Rightarrow> inst_nodes i) \<and>
        assignment_actions_allowed a nj [NodeDepartment, NodeTeamLead] \<and> instance_two_level nj \<and>
        version r = sd_version inp \<and> status r = ApprovedPendingAssignment) \<and>
     (\<exists>d found p. owner_directory s = Some d \<and> dir_resolve d [trim_space (sd_team_lead inp)] = Inr found \<and>
        found (trim_space (sd_team_lead inp)) = Some p \<and> department_of p (trim_space (sd_department_id inp)) \<noteq> []) \<and>
     not_frozen s (actor_tenant a) (trim_space (sd_team_lead inp)) \<and>
     is_qualified s DutyTeamLead (trim_space (sd_team_lead inp))"
proof -
  let ?inp = "inp\<lparr>sd_department_id := trim_space (sd_department_id inp), sd_team_lead := trim_space (sd_team_lead inp)\<rparr>"
  let ?key = "trim_space key"
  have fresh: "(if ?key = [] then None else find_replay (actor_tenant a) req (user_id a) ?key db) = None"
    using assms(4) by simp
  from assms(2,3) have perm: "can a ''presale.assign''" and run: "select_department_and_lead s a req ?key ?inp db = Inr (db', r')"
    by (auto simp: select_execution_department_def Let_def split: if_splits)
  from run fresh obtain d found p name dep hash where dir: "owner_directory s = Some d"
    "dir_resolve d [trim_space (sd_team_lead inp)] = Inr found" "found (trim_space (sd_team_lead inp)) = Some p"
    "department_of p (trim_space (sd_department_id inp)) \<noteq> []"
    and frozen: "ensure_user_not_frozen s (actor_tenant a) (trim_space (sd_team_lead inp)) = Inr ()"
    and duty: "ensure_duty_eligible s DutyTeamLead [trim_space (sd_team_lead inp)] = Inr ()"
    and settled: "(case select_lead_tx s a req ?key hash ?inp name dep db of Inr out \<Rightarrow> Inr out
       | Inl e \<Rightarrow> if ?key = [] then Inl e
           else settle_mutation a req ?key ''SELECT_EXECUTION_DEPARTMENT'' ''TEAM_LEAD'' hash (\<lambda>_. Inr ()) db (Inl e)) = Inr (db', r')"
    unfolding select_department_and_lead_def Let_def by (auto split: if_splits)
  have tx: "select_lead_tx s a req ?key hash ?inp name dep db = Inr (db', r')"
  proof (cases "select_lead_tx s a req ?key hash ?inp name dep db")
    case (Inl e)
    then have k: "?key \<noteq> []" and "settle_mutation a req ?key ''SELECT_EXECUTION_DEPARTMENT'' ''TEAM_LEAD'' hash (\<lambda>_. Inr ()) db (Inl e)
        = Inr (db', r')" using settled by (auto split: if_splits)
    from settle_mutation_fresh [OF this(2) assms(4) [OF k]] show ?thesis by simp
  qed (use settled in simp)
  have lead: "sd_team_lead ?inp \<noteq> []" using assms(3) by simp
  note made = okD [OF select_lead_tx_crew [OF assms(1) lead] tx] okD [OF select_lead_tx_guards tx]
  have "not_frozen s (actor_tenant a) (trim_space (sd_team_lead inp))" using frozen by (simp add: not_frozen_def)
  moreover have "is_qualified s DutyTeamLead (trim_space (sd_team_lead inp))"
    by (rule ensure_duty_qualified [OF duty]) simp
  ultimately show ?thesis using made perm dir fresh by auto
qed

definition select_db :: presale_db where
  "select_db = team_db ApprovedPendingAssignment [] []"

definition select_eva :: select_input where
  "select_eva = \<lparr>sd_department_id = ''d1'', sd_department = [], sd_team_lead = ''eva'', sd_version = 1\<rparr>"

lemma select_rows:
  "find_request ''t'' 1 select_db = Some (sample_request ApprovedPendingAssignment 0 [])"
  "find_instance ''t'' 1 select_db = Some (sample_instance team_nodes 1)"
  "find_replay ''t'' 1 u k select_db = None"
  "list_assignments_for_update ''t'' 1 select_db = []"
  by (simp_all add: select_db_def team_eval sample_eval list_assignments_for_update_def of_request_def)

lemma dirk_selects: "assignment_actions_allowed dirk team_nodes [NodeDepartment, NodeTeamLead]" "instance_two_level team_nodes"
  by (simp_all add: assignment_actions_allowed_def dirk_def sample_actor_def has_role_def role_keys_def team_nodes_def
      role_has_action_iff is_assignment_node_def instance_two_level_def uses_two_level_def text_eval)

lemma dirk_fields: "actor_tenant dirk = ''t''" "user_id dirk = ''dirk''" "trace_id dirk = ''trace''" "person_id dirk = ''dirk''"
  by (simp_all add: dirk_def sample_actor_def)

lemma sample_selection:
  "\<exists>db' r'. select_lead_tx team_service dirk 1 ''k1'' h select_eva name dep select_db = Inr (db', r')"
proof -
  have t: "actor_tenant dirk = ''t''" by (simp add: dirk_def sample_actor_def)
  have n: "inst_nodes (sample_instance team_nodes 1) = team_nodes" by (simp add: sample_instance_def)
  show ?thesis
    unfolding select_lead_tx_def t select_rows option.case n
    by (simp add: dirk_selects install_team_lead_def end_current_team_lead_def select_rows team_guard team_service_fields
        select_eva_def dirk_fields select_db_def team_db_def sample_eval assign_eval del: One_nat_def)
qed

lemma sample_select:
  "\<exists>db' r'. select_execution_department team_service dirk 1 ''k1'' select_eva select_db = Inr (db', r')"
proof -
  let ?p = "\<lparr>du_id = ''eva'', du_name = ''eva'', du_orgs = [\<lparr>org_id = ''d1'', org_name = ''D'', org_primary = True\<rparr>]\<rparr>"
  have inp: "select_eva\<lparr>sd_department_id := trim_space ''d1'', sd_team_lead := trim_space ''eva''\<rparr> = select_eva" "trim_space ''k1'' = ''k1''" "sd_team_lead select_eva = ''eva''" "sd_department_id select_eva = ''d1''"
    "sd_version select_eva \<noteq> 0"
    by (simp_all add: select_eva_def text_eval)
  have names: "department_of ?p ''d1'' = ''D''" "lead_name ?p ''eva'' = ''eva''" "\<not> (64 < rune_len ''d1'' \<or> 128 < rune_len ''D'')"
    "\<not> 128 < rune_len ''eva''" by (simp_all add: department_of_def lead_name_def text_eval)
  have dir: "dir_resolve team_directory [''eva''] = Inr (\<lambda>p. Some \<lparr>du_id = p, du_name = p,
        du_orgs = [\<lparr>org_id = ''d1'', org_name = ''D'', org_primary = True\<rparr>]\<rparr>)"
    by (simp add: team_directory_def)
  have t: "can dirk ''presale.assign''" "actor_tenant dirk = ''t''" by (simp_all add: dirk_def sample_actor_def can_def)
  have duty: "ensure_duty_eligible team_service DutyTeamLead [''eva''] = Inr ()"
    by (rule team_duty) (simp_all add: duty_role_codes_eval)
  let ?h = "select_lead_hash team_service dirk 1 select_eva"
  obtain db' r' where run: "select_lead_tx team_service dirk 1 ''k1'' ?h select_eva ''eva'' ''D'' select_db = Inr (db', r')"
    using sample_selection [of ?h "''eva''" "''D''"] by (elim exE) (rule that)
  have key: "(128 < length ''k1'') = False" "(''k1'' = []) = False" "(''eva'' = []) = False" "(''d1'' = []) = False" "(''D'' = []) = False"
    by simp_all
  have "select_execution_department team_service dirk 1 ''k1'' select_eva select_db = Inr (db', r')"
    by (simp only: select_execution_department_def select_department_and_lead_def Let_def inp t key if_False if_True simp_thms
        select_rows option.case team_service_fields dir sum.case names team_guard duty run)
  then show ?thesis by (intro exI [of _ db'] exI [of _ r'])
qed

lemma select_db_ok: "crew_ok select_db"
  by (simp add: select_db_def team_db_def crew_okI_sample table_wf_def)

lemma team_lead_is_chosen_witness:
  "\<exists>db' r'. select_execution_department team_service dirk 1 ''k1'' select_eva select_db = Inr (db', r') \<and>
     crew KindTeamLead ''t'' 1 db' = [''eva''] \<and> status r' = PendingExecutionAssignment"
proof -
  obtain db' r' where run: "select_execution_department team_service dirk 1 ''k1'' select_eva select_db = Inr (db', r')"
    using sample_select by (elim exE) (rule that)
  have inp: "trim_space (sd_team_lead select_eva) = ''eva''" by (simp add: select_eva_def text_eval)
  then have "trim_space (sd_team_lead select_eva) \<noteq> []" by simp
  from team_lead_is_chosen [OF select_db_ok run this] select_rows(3)
  show ?thesis using run by (intro exI [of _ db'] exI [of _ r']) (simp add: inp dirk_fields del: One_nat_def)
qed

lemma takeover_tx_guards:
  "ok (takeover_tx s a req key hash inp name dep db) (\<lambda>_. find_replay (actor_tenant a) req (user_id a) key db = None \<longrightarrow>
     (\<exists>r. find_request (actor_tenant a) req db = Some r \<and> status r = Executing \<and> version r = tk_version inp \<and>
        team_lead r \<noteq> [] \<and> team_lead r \<noteq> tk_team_lead inp))"
  unfolding takeover_tx_def by (intro ok_intro) (auto simp: ok_def)

text \<open>
  A new takeover that succeeds replaces the team lead of a request in execution by
  another person and nothing else of the team: the person is the one current team lead,
  the executors and the status stay. Only a technical director or the super administrator
  with the assign permission can do it, and the new lead belongs to the department of the
  request, is not frozen and is qualified.
\<close>

theorem takeover_replaces_lead:
  assumes "crew_ok db" and "takeover_executing_team_lead s a req key inp db = Inr (db', r')"
    and "find_replay (actor_tenant a) req (user_id a) (trim_space key) db = None"
  shows "crew KindTeamLead (actor_tenant a) req db' = [trim_space (tk_team_lead inp)] \<and>
     crew KindExecutor (actor_tenant a) req db' = crew KindExecutor (actor_tenant a) req db \<and>
     status r' = Executing \<and>
     can a ''presale.assign'' \<and> (has_role a ''technical_director'' \<or> has_role a ''crm_super_admin'') \<and>
     (\<exists>r d found p. find_request (actor_tenant a) req db = Some r \<and> status r = Executing \<and> version r = tk_version inp \<and>
        team_lead r \<notin> {[], trim_space (tk_team_lead inp)} \<and> owner_directory s = Some d \<and>
        dir_resolve d [trim_space (tk_team_lead inp)] = Inr found \<and> found (trim_space (tk_team_lead inp)) = Some p \<and>
        department_of p (trim_space (department_id r)) \<noteq> []) \<and>
     not_frozen s (actor_tenant a) (trim_space (tk_team_lead inp)) \<and>
     is_qualified s DutyTeamLead (trim_space (tk_team_lead inp))"
proof -
  let ?inp = "inp\<lparr>tk_team_lead := trim_space (tk_team_lead inp), tk_reason := trim_space (tk_reason inp)\<rparr>"
  from assms(2,3) obtain pre d found p name dep hash where
    allowed: "can a ''presale.assign''" "has_role a ''technical_director'' \<or> has_role a ''crm_super_admin''"
      "trim_space (tk_team_lead inp) \<noteq> []"
    and pre: "find_request (actor_tenant a) req db = Some pre"
    and dir: "owner_directory s = Some d" "dir_resolve d [trim_space (tk_team_lead inp)] = Inr found"
      "found (trim_space (tk_team_lead inp)) = Some p" "department_of p (trim_space (department_id pre)) \<noteq> []"
    and frozen: "ensure_user_not_frozen s (actor_tenant a) (trim_space (tk_team_lead inp)) = Inr ()"
    and duty: "ensure_duty_eligible s DutyTeamLead [trim_space (tk_team_lead inp)] = Inr ()"
    and settled: "settle_mutation a req (trim_space key) ''SELECT_EXECUTION_DEPARTMENT'' ''TEAM_LEAD'' hash (\<lambda>_. Inr ()) db
      (takeover_tx s a req (trim_space key) hash ?inp name dep db) = Inr (db', r')"
    unfolding takeover_executing_team_lead_def Let_def by (auto split: if_splits)
  note tx = settle_mutation_fresh [OF settled assms(3)]
  have lead: "tk_team_lead ?inp \<noteq> []" using allowed(3) by simp
  note made = okD [OF takeover_tx_crew [OF assms(1) lead] tx] okD [OF takeover_tx_guards tx]
  have "not_frozen s (actor_tenant a) (trim_space (tk_team_lead inp))" using frozen by (simp add: not_frozen_def)
  moreover have "is_qualified s DutyTeamLead (trim_space (tk_team_lead inp))"
    by (rule ensure_duty_qualified [OF duty]) simp
  ultimately show ?thesis using made allowed pre dir assms(3) by auto
qed

definition executing_db :: presale_db where
  "executing_db = team_db Executing ''tom'' [sample_assignment 1 ''tom'' KindTeamLead, sample_assignment 2 ''bob'' KindExecutor]"

definition takeover_eva :: takeover_input where
  "takeover_eva = \<lparr>tk_team_lead = ''eva'', tk_reason = [], tk_version = 1\<rparr>"

lemma executing_rows:
  "find_request ''t'' 1 executing_db = Some (sample_request Executing 0 ''tom'')"
  "find_replay ''t'' 1 u k executing_db = None"
  "list_assignments_for_update ''t'' 1 executing_db = [sample_assignment 1 ''tom'' KindTeamLead, sample_assignment 2 ''bob'' KindExecutor]"
  by (simp_all add: executing_db_def team_eval sample_eval list_assignments_for_update_def of_request_def)

lemma executing_db_ok: "crew_ok executing_db"
  by (simp add: executing_db_def team_db_def crew_okI_sample sample_assignment_def of_request_def effective_kind_def table_wf_def)

lemma sample_takeover_tx:
  "\<exists>db' r'. takeover_tx team_service dirk 1 ''k1'' h takeover_eva name dep executing_db = Inr (db', r')"
  unfolding takeover_tx_def dirk_fields executing_rows option.case
  by (simp add: install_team_lead_def end_current_team_lead_def executing_rows team_guard team_service_fields
      takeover_eva_def dirk_fields executing_db_def team_db_def sample_eval assign_eval del: One_nat_def)

lemma sample_takeover:
  "\<exists>db' r'. takeover_executing_team_lead team_service dirk 1 ''k1'' takeover_eva executing_db = Inr (db', r')"
proof -
  let ?p = "\<lparr>du_id = ''eva'', du_name = ''eva'', du_orgs = [\<lparr>org_id = ''d1'', org_name = ''D'', org_primary = True\<rparr>]\<rparr>"
  let ?h = "takeover_hash team_service dirk 1 takeover_eva"
  obtain db' r' where run: "takeover_tx team_service dirk 1 ''k1'' ?h takeover_eva ''eva'' ''D'' executing_db = Inr (db', r')"
    using sample_takeover_tx [of ?h "''eva''" "''D''"] by (elim exE) (rule that)
  have inp: "takeover_eva\<lparr>tk_team_lead := trim_space ''eva'', tk_reason := trim_space []\<rparr> = takeover_eva" "tk_team_lead takeover_eva = ''eva''"
    "tk_reason takeover_eva = []" "tk_version takeover_eva = 1" "rune_len [] = 0" "trim_space ''k1'' = ''k1''"
    by (simp_all add: takeover_eva_def text_eval)
  have t: "can dirk ''presale.assign''" "has_role dirk ''technical_director''"
    by (simp_all add: dirk_def sample_actor_def can_def has_role_def)
  have r: "status (sample_request Executing 0 ''tom'') = Executing" "version (sample_request Executing 0 ''tom'') = 1"
    "team_lead (sample_request Executing 0 ''tom'') = ''tom''" "department_id (sample_request Executing 0 ''tom'') = ''d1''"
    by (simp_all add: sample_request_def)
  have names: "department_of ?p (trim_space ''d1'') = ''D''" "lead_name ?p ''eva'' = ''eva''"
    by (simp_all add: department_of_def lead_name_def text_eval)
  have dir: "dir_resolve team_directory [''eva''] = Inr (\<lambda>p. Some \<lparr>du_id = p, du_name = p,
        du_orgs = [\<lparr>org_id = ''d1'', org_name = ''D'', org_primary = True\<rparr>]\<rparr>)"
    by (simp add: team_directory_def)
  have duty: "ensure_duty_eligible team_service DutyTeamLead [''eva''] = Inr ()"
    by (rule team_duty) (simp_all add: duty_role_codes_eval)
  have lits: "(128 < length ''k1'') = False" "(''k1'' = []) = False" "(''eva'' = []) = False" "(''tom'' = []) = False"
    "(''D'' = []) = False" "(''eva'' = ''tom'') = False" "((1::nat) = 0) = False" "((1000::nat) < 0) = False" by simp_all
  have "takeover_executing_team_lead team_service dirk 1 ''k1'' takeover_eva executing_db = Inr (db', r')"
    by (simp only: takeover_executing_team_lead_def Let_def inp t lits simp_thms if_False if_True dirk_fields executing_rows
        option.case r team_service_fields dir sum.case names team_guard duty settle_mutation_def run)
  then show ?thesis by (intro exI [of _ db'] exI [of _ r'])
qed

lemma takeover_replaces_lead_witness:
  "\<exists>db' r'. takeover_executing_team_lead team_service dirk 1 ''k1'' takeover_eva executing_db = Inr (db', r') \<and>
     crew KindTeamLead ''t'' 1 db' = [''eva''] \<and> crew KindExecutor ''t'' 1 db' = [''bob'']"
proof -
  obtain db' r' where run: "takeover_executing_team_lead team_service dirk 1 ''k1'' takeover_eva executing_db = Inr (db', r')"
    using sample_takeover by (elim exE) (rule that)
  have inp: "trim_space (tk_team_lead takeover_eva) = ''eva''" by (simp add: takeover_eva_def text_eval)
  have old: "crew KindExecutor ''t'' 1 executing_db = [''bob'']"
    by (simp add: crew_def currents_def executing_db_def team_db_def sample_eval of_request_def effective_kind_def)
  from takeover_replaces_lead [OF executing_db_ok run] executing_rows(2)
  show ?thesis using run by (intro exI [of _ db'] exI [of _ r']) (simp add: inp dirk_fields old del: One_nat_def)
qed

lemma reject_tx_guards:
  "ok (reject_assignment_tx s a req key hash inp db) (\<lambda>_. find_replay (actor_tenant a) req (user_id a) key db = None \<longrightarrow>
     (\<exists>r. find_request (actor_tenant a) req db = Some r \<and> status r = PendingExecutionAssignment \<and>
        version r = rs_version inp \<and> team_lead r \<noteq> [] \<and> is_lead_or_admin a r))"
  unfolding reject_assignment_tx_def is_lead_or_admin_def by (intro ok_intro) (auto simp: ok_def)

text \<open>
  A new refusal that succeeds comes from the team lead of the request or the super
  administrator, while the executors are still to be assigned, and leaves the request
  without a team lead: no current team lead row, the request back at the choice of one,
  the executors as they were.
\<close>

theorem refusal_clears_lead:
  assumes "crew_ok db" and "reject_execution_assignment s a req key inp db = Inr (db', r')"
    and "find_replay (actor_tenant a) req (user_id a) (trim_space key) db = None"
  shows "crew KindTeamLead (actor_tenant a) req db' = [] \<and>
     crew KindExecutor (actor_tenant a) req db' = crew KindExecutor (actor_tenant a) req db \<and>
     status r' = ApprovedPendingAssignment \<and> team_lead r' = [] \<and> trim_space (rs_reason inp) \<noteq> [] \<and>
     (\<exists>r. find_request (actor_tenant a) req db = Some r \<and> status r = PendingExecutionAssignment \<and>
        version r = rs_version inp \<and> is_lead_or_admin a r \<and> crew KindTeamLead (actor_tenant a) req db = [team_lead r])"
proof -
  let ?inp = "inp\<lparr>rs_reason := trim_space (rs_reason inp)\<rparr>"
  from assms(2,3) obtain hash where reason: "trim_space (rs_reason inp) \<noteq> []" and settled:
    "settle_mutation a req (trim_space key) ''REJECT_EXECUTION_ASSIGNMENT'' ''REJECT'' hash (\<lambda>_. Inr ()) db
      (reject_assignment_tx s a req (trim_space key) hash ?inp db) = Inr (db', r')"
    unfolding reject_execution_assignment_def Let_def by (auto split: if_splits)
  note tx = settle_mutation_fresh [OF settled assms(3)]
  from okD [OF reject_tx_guards tx] assms(3) obtain r where r: "find_request (actor_tenant a) req db = Some r"
    "status r = PendingExecutionAssignment" "version r = rs_version inp" "team_lead r \<noteq> []" "is_lead_or_admin a r" by auto
  have "crew KindTeamLead (actor_tenant a) req db = [team_lead r]"
    using crew_ok_at [OF assms(1) r(1)] r(4) by (simp add: lead_of_def)
  then show ?thesis using okD [OF reject_assignment_tx_crew [OF assms(1)] tx] assms(3) reason r by auto
qed

definition refuse_tom :: reason_input where
  "refuse_tom = \<lparr>rs_reason = ''busy'', rs_version = 1\<rparr>"

lemma tom_fields: "actor_tenant tom = ''t''" "user_id tom = ''tom''" "trace_id tom = ''trace''" "person_id tom = ''tom''"
  "can tom ''presale.assign''" "\<not> has_role tom ''crm_super_admin''"
  by (simp_all add: tom_def sample_actor_def can_def has_role_def)

lemma sample_refusal_tx: "\<exists>db' r'. reject_assignment_tx team_service tom 1 ''k1'' h refuse_tom before_db = Inr (db', r')"
  unfolding reject_assignment_tx_def tom_fields before_db_rows option.case
  by (simp add: end_current_team_lead_def before_db_rows team_service_fields notify_role_users_def
      refuse_tom_def tom_fields before_db_def team_db_def sample_eval assign_eval clear_team_lead_def del: One_nat_def)

lemma sample_refusal: "\<exists>db' r'. reject_execution_assignment team_service tom 1 ''k1'' refuse_tom before_db = Inr (db', r')"
proof -
  let ?h = "reject_assignment_hash team_service tom 1 refuse_tom"
  obtain db' r' where run: "reject_assignment_tx team_service tom 1 ''k1'' ?h refuse_tom before_db = Inr (db', r')"
    using sample_refusal_tx [of ?h] by (elim exE) (rule that)
  have inp: "refuse_tom\<lparr>rs_reason := trim_space ''busy''\<rparr> = refuse_tom" "rs_reason refuse_tom = ''busy''" "rs_version refuse_tom = 1"
    "rune_len ''busy'' = 4" "trim_space ''k1'' = ''k1''"
    by (simp_all add: refuse_tom_def text_eval)
  have lits: "(128 < length ''k1'') = False" "(''k1'' = []) = False" "(''busy'' = []) = False" "((1::nat) = 0) = False"
    "((1000::nat) < 4) = False" by simp_all
  have "reject_execution_assignment team_service tom 1 ''k1'' refuse_tom before_db = Inr (db', r')"
    by (simp only: reject_execution_assignment_def Let_def inp tom_fields lits simp_thms if_False if_True before_db_rows
        option.case sum.case settle_mutation_def run)
  then show ?thesis by (intro exI [of _ db'] exI [of _ r'])
qed

lemma refusal_clears_lead_witness:
  "\<exists>db' r'. reject_execution_assignment team_service tom 1 ''k1'' refuse_tom before_db = Inr (db', r') \<and>
     crew KindTeamLead ''t'' 1 before_db = [''tom''] \<and> crew KindTeamLead ''t'' 1 db' = []"
proof -
  obtain db' r' where run: "reject_execution_assignment team_service tom 1 ''k1'' refuse_tom before_db = Inr (db', r')"
    using sample_refusal by (elim exE) (rule that)
  have lead: "team_lead (sample_request PendingExecutionAssignment 0 ''tom'') = ''tom''" by (simp add: sample_request_def)
  from refusal_clears_lead [OF before_db_ok run] before_db_rows(1,3)
  show ?thesis using run by (intro exI [of _ db'] exI [of _ r']) (simp add: tom_fields lead del: One_nat_def)
qed

end
