(* ===== verification/PresaleAssignReplay.thy ===== *)
theory PresaleAssignReplay
  imports PresaleAssignResults "HOL-Library.Multiset"
begin

text \<open>
  Repetition: the five keyed assignment operations as one type of commands, the record a
  successful command leaves, and that a repetition with the same key changes nothing; the
  order of the targets in a request does not matter; a second invalidation does nothing.
\<close>

section \<open>Commands\<close>

datatype assignment_command =
    ReplaceAssignments replace_input | SelectTeamLead select_input | TakeoverTeamLead takeover_input
  | RejectAssignment reason_input | ReplaceExecutors replace_input

fun run_assignment ::
  "service \<Rightarrow> actor \<Rightarrow> nat \<Rightarrow> string \<Rightarrow> assignment_command \<Rightarrow> presale_db \<Rightarrow> (presale_db \<times> presale_request) res" where
  "run_assignment s a req key (ReplaceAssignments inp) db = replace_assignments s a req key inp db"
| "run_assignment s a req key (SelectTeamLead inp) db = select_execution_department s a req key inp db"
| "run_assignment s a req key (TakeoverTeamLead inp) db = takeover_executing_team_lead s a req key inp db"
| "run_assignment s a req key (RejectAssignment inp) db = reject_execution_assignment s a req key inp db"
| "run_assignment s a req key (ReplaceExecutors inp) db =
     (case replace_executor_assignments s a req key inp db of (db', Inl e) \<Rightarrow> Inl e | (db', Inr r) \<Rightarrow> Inr (db', r))"

text \<open>A choice of a department alone has no key; a choice of a team lead may have one.\<close>

fun keyed :: "string \<Rightarrow> assignment_command \<Rightarrow> bool" where
  "keyed key (SelectTeamLead inp) \<longleftrightarrow> trim_space key \<noteq> [] \<and> trim_space (sd_team_lead inp) \<noteq> []"
| "keyed key c \<longleftrightarrow> True"

section \<open>The record of a command\<close>

definition replayed :: "actor \<Rightarrow> nat \<Rightarrow> string \<Rightarrow> string \<Rightarrow> string \<Rightarrow> string \<Rightarrow> presale_db \<Rightarrow> bool" where
  "replayed a req key operation action hash db \<longleftrightarrow>
     (\<exists>m. find_replay (actor_tenant a) req (user_id a) key db = Some m \<and>
        validate_replay m a req operation action hash = Inr ()) \<and>
     find_request (actor_tenant a) req db \<noteq> None"

lemma created_is_valid:
  assumes "create_replay (new_replay a req key operation action hash v at) db = Inr db'"
  shows "\<exists>m. find_replay (actor_tenant a) req (user_id a) key db' = Some m \<and>
     validate_replay m a req operation action hash = Inr ()"
  using find_replay_created [OF assms] by (auto simp: validate_replay_def)

lemma evolves_find:
  assumes "evolves db db'" "table_wf (requests db)" "find_request t i db = Some r"
  shows "\<exists>r'. find_request t i db' = Some r' \<and> same_origin r r'"
proof -
  from assms(1) obtain us new logs where us: "rows (requests db') = us @ new"
    "list_all2 (\<lambda>x y. request_path x (log_entries x logs) y) (rows (requests db)) us"
    unfolding evolves_def by blast
  have r: "r \<in> set (rows (requests db))" "is_request t i r" using assms(2,3) by (auto simp: find_request_iff)
  then obtain n where n: "n < length (rows (requests db))" "rows (requests db) ! n = r" by (auto simp: in_set_conv_nth)
  then have y: "us ! n \<in> set us" "request_path r (log_entries r logs) (us ! n)"
    using us(2) by (auto simp: list_all2_conv_all_nth)
  then have "same_origin r (us ! n)" by (auto dest: path_origin)
  moreover from this have "is_request t i (us ! n)" using r(2) by (auto simp: is_request_def same_origin_def)
  moreover have "us ! n \<in> set (rows (requests db'))" using us(1) y(1) by simp
  ultimately show ?thesis using find_request_iff [OF evolves_wf [OF assms(1,2)]] by blast
qed

lemma evolves_many_find:
  assumes "evolves\<^sup>*\<^sup>* db db'" "table_wf (requests db)" "find_request t i db = Some r"
  shows "table_wf (requests db') \<and> (\<exists>r'. find_request t i db' = Some r' \<and> same_origin r r')"
  using assms(1)
proof (induction rule: rtranclp_induct)
  case base
  then show ?case using assms by (auto simp: same_origin_def)
next
  case (step y z)
  then obtain r1 where "find_request t i y = Some r1" "same_origin r r1" by blast
  with step evolves_find [OF step.hyps(2) _ this(1)] show ?case by (auto intro: evolves_wf same_origin_trans)
qed

text \<open>A transaction that succeeded has found the request, and what it found is kept.\<close>

lemma replayed_after:
  assumes "evolves\<^sup>*\<^sup>* db db'" "table_wf (requests db)" "find_request (actor_tenant a) req db = Some r"
    and "\<exists>m. find_replay (actor_tenant a) req (user_id a) key db' = Some m \<and> validate_replay m a req operation action hash = Inr ()"
  shows "replayed a req key operation action hash db'"
  using assms evolves_many_find [OF assms(1-3)] by (auto simp: replayed_def)

lemma finish_replacement_records:
  "finish_replacement s a req key op hash r db = Inr (db', r') \<Longrightarrow>
     \<exists>m. find_replay (actor_tenant a) req (user_id a) key db' = Some m \<and> validate_replay m a req op ''REPLACE'' hash = Inr ()"
  unfolding finish_replacement_def by (auto simp: Let_def split: prod.splits dest: created_is_valid)

lemma replace_assignments_tx_records:
  "ok (replace_assignments_tx s a req key hash inp db) (\<lambda>(db', r').
     find_request (actor_tenant a) req db \<noteq> None \<and>
     (\<exists>m. find_replay (actor_tenant a) req (user_id a) key db' = Some m \<and>
        validate_replay m a req ''REPLACE_ASSIGNMENTS'' ''REPLACE'' hash = Inr ()))"
  unfolding replace_assignments_tx_def
  by (intro ok_intro) (auto simp: ok_def dest: finish_replacement_records)

lemma replace_executors_tx_records:
  "ok (replace_executors_tx s a req key hash inp ts db) (\<lambda>(db', r').
     find_request (actor_tenant a) req db \<noteq> None \<and>
     (\<exists>m. find_replay (actor_tenant a) req (user_id a) key db' = Some m \<and>
        validate_replay m a req ''REPLACE_EXECUTOR_ASSIGNMENTS'' ''REPLACE'' hash = Inr ()))"
  unfolding replace_executors_tx_def
  by (intro ok_intro) (auto simp: ok_def dest: finish_replacement_records)

lemma takeover_tx_records:
  "ok (takeover_tx s a req key hash inp name dep db) (\<lambda>(db', r').
     find_request (actor_tenant a) req db \<noteq> None \<and>
     (\<exists>m. find_replay (actor_tenant a) req (user_id a) key db' = Some m \<and>
        validate_replay m a req ''SELECT_EXECUTION_DEPARTMENT'' ''TEAM_LEAD'' hash = Inr ()))"
  unfolding takeover_tx_def by (intro ok_intro) (auto dest: created_is_valid)

lemma select_lead_tx_records:
  "key \<noteq> [] \<Longrightarrow> ok (select_lead_tx s a req key hash inp name dep db) (\<lambda>(db', r').
     find_request (actor_tenant a) req db \<noteq> None \<and>
     (\<exists>m. find_replay (actor_tenant a) req (user_id a) key db' = Some m \<and>
        validate_replay m a req ''SELECT_EXECUTION_DEPARTMENT'' ''TEAM_LEAD'' hash = Inr ()))"
  unfolding select_lead_tx_def by (intro ok_intro) (auto dest: created_is_valid)

lemma reject_tx_records:
  "ok (reject_assignment_tx s a req key hash inp db) (\<lambda>(db', r').
     find_request (actor_tenant a) req db \<noteq> None \<and>
     (\<exists>m. find_replay (actor_tenant a) req (user_id a) key db' = Some m \<and>
        validate_replay m a req ''REJECT_EXECUTION_ASSIGNMENT'' ''REJECT'' hash = Inr ()))"
  unfolding reject_assignment_tx_def by (intro ok_intro) (auto dest: created_is_valid)

text \<open>Where a replacement leaves the request: in execution or completed, its team lead as before.\<close>

lemma complete_if_ready_request:
  assumes "complete_if_ready s r current u tr db = Inr (db', r', c)" "find_request t i db = Some x"
  shows "\<exists>x'. find_request t i db' = Some x' \<and> team_lead x' = team_lead x \<and> status x' \<in> {status x, Completed}"
proof (cases "db' = db")
  case False
  with assms(1) obtain db1 r1 where
    up: "update_request_versioned (clock_now s) r (version r)
      (\<lambda>x. x\<lparr>status := Completed, completed_at := Some (datetime3 (clock_now s)), updated_by := u\<rparr>) db = Inr (db1, r1)"
    and "requests db' = requests db1"
    by (auto simp: complete_if_ready_def split: if_splits)
  then have "find_request t i db' = find_request t i db1" by (auto simp: find_request_def)
  moreover have "keeps_identity (\<lambda>x. x\<lparr>status := Completed, completed_at := Some (datetime3 (clock_now s)), updated_by := u\<rparr>)"
    by (simp add: keeps_identity_def)
  ultimately show ?thesis using find_request_updated [OF up] assms(2) by (auto split: if_splits)
qed (use assms(2) in auto)

lemma replaced_request:
  assumes r: "find_request t i db = Some r" and base: "requests db2 = requests db"
    and up: "update_request_versioned now r (version r) f db2 = Inr (db3, r3)" and f: "keeps_identity f"
    and same: "requests db4 = requests db3"
  shows "ok (finish_replacement s a req key op hash r4 db4) (\<lambda>(db', r').
     \<exists>x. find_request t i db' = Some x \<and> team_lead x = team_lead (f r) \<and> status x \<in> {status (f r), Completed})"
  unfolding ok_def
proof (clarify)
  fix db' r'
  assume fin: "finish_replacement s a req key op hash r4 db4 = Inr (db', r')"
  have hit: "is_request (tenant_id r) (row_id r) r" using r by (auto dest!: find_request_Some simp: is_request_def)
  have "find_request t i db4 = map_option (\<lambda>x. if is_request (tenant_id r) (row_id r) x \<and> version x = version r
      then (f x)\<lparr>version := version r + 1, updated_at := datetime3 now\<rparr> else x) (find_request t i db)"
    using find_request_updated [OF up f, of t i] base same by (simp add: find_request_def)
  then have r4: "find_request t i db4 = Some ((f r)\<lparr>version := version r + 1, updated_at := datetime3 now\<rparr>)" using r hit by simp
  from fin obtain db5 r5 c where "complete_if_ready s r4 (list_current_assignments (actor_tenant a) req db4) (user_id a) (trace_id a) db4
      = Inr (db5, r5, c)" and "requests db' = requests db5"
    unfolding finish_replacement_def Let_def by (auto dest!: create_replay_frame)
  from complete_if_ready_request [OF this(1) r4] this(2)
  show "\<exists>x. find_request t i db' = Some x \<and> team_lead x = team_lead (f r) \<and> status x \<in> {status (f r), Completed}"
    by (auto simp: find_request_def)
qed

lemma replace_assignments_tx_request:
  "ok (replace_assignments_tx s a req key hash inp db) (\<lambda>(db', r').
     \<exists>x. find_request (actor_tenant a) req db' = Some x \<and> trim_space (team_lead x) = [] \<and> status x \<noteq> PendingExecutionAssignment)"
  unfolding replace_assignments_tx_def
proof (intro ok_intro, goal_cases)
  case (1 r nj old batch present now ts x y db1 db2 z db3 r3)
  have base: "requests db2 = requests db" using remove_others_assigns [OF \<open>remove_others _ _ _ _ _ _ _ _ = _\<close>]
    add_new_assigns [OF \<open>add_new _ _ _ _ _ _ _ _ _ _ _ _ _ = _\<close>] by (simp add: assigns_def)
  show ?case
    by (rule ok_mono [OF replaced_request [OF \<open>find_request _ _ _ = _\<close> base
          \<open>update_request_versioned _ _ _ _ _ = _\<close> [unfolded \<open>z = _\<close>]]])
       (use 1 in \<open>auto simp: keeps_identity_def\<close>)
next
  case (2 r nj old batch present now ts x y db1 db2 z db3 r3)
  have base: "requests db2 = requests db" using remove_others_assigns [OF \<open>remove_others _ _ _ _ _ _ _ _ = _\<close>]
    add_new_assigns [OF \<open>add_new _ _ _ _ _ _ _ _ _ _ _ _ _ = _\<close>] by (simp add: assigns_def)
  show ?case
    by (rule ok_mono [OF replaced_request [OF \<open>find_request _ _ _ = _\<close> base
          \<open>update_request_versioned _ _ _ _ _ = _\<close> [unfolded \<open>z = _\<close>]]])
       (use 2 in \<open>auto simp: keeps_identity_def\<close>)
qed auto

lemma update_instances: "update_request_versioned now r v f db = Inr (db', r') \<Longrightarrow> instances db' = instances db"
  by (auto simp: update_request_versioned_Inr versioned_update_Inr)

lemma finish_replacement_instances:
  "finish_replacement s a req key op hash r db = Inr (db', r') \<Longrightarrow> instances db' = instances db"
  unfolding finish_replacement_def complete_if_ready_def
  by (auto simp: Let_def split: if_splits prod.splits dest!: create_replay_frame update_instances)

lemma replace_assignments_tx_instances:
  "ok (replace_assignments_tx s a req key hash inp db) (\<lambda>(db', r'). instances db' = instances db)"
  unfolding replace_assignments_tx_def
  by (intro ok_intro)
     (auto simp: ok_def assigns_def dest!: finish_replacement_instances update_instances remove_others_assigns add_new_assigns)

lemma replace_assignments_tx_allowed:
  "ok (replace_assignments_tx s a req key hash inp db) (\<lambda>_.
     assignment_action_allowed a (case find_instance (actor_tenant a) req db of None \<Rightarrow> NodesEmpty | Some i \<Rightarrow> inst_nodes i) NodePerson \<and>
     \<not> instance_two_level (case find_instance (actor_tenant a) req db of None \<Rightarrow> NodesEmpty | Some i \<Rightarrow> inst_nodes i))"
  unfolding replace_assignments_tx_def by (intro ok_intro) (auto simp: ok_def)

section \<open>A repetition changes nothing\<close>

lemma settle_mutation_cases:
  "settle_mutation a req key operation action hash authorize db outcome = Inr (db', r') \<Longrightarrow> outcome = Inr (db', r') \<or> db' = db"
  by (auto simp: settle_mutation_def split: sum.splits if_splits)

lemma replace_assignments_again:
  assumes run: "replace_assignments s a req key inp db = Inr (db', r')"
  shows "\<exists>r2. replace_assignments s a req key inp db' = Inr (db', r2)"
proof (cases "db' = db")
  case False
  let ?inp = "inp\<lparr>rp_reason := trim_space (rp_reason inp)\<rparr>" and ?key = "trim_space key"
  from run obtain ts where pre: "can a ''presale.assign''" "replace_input_valid ?key ?inp"
      "normalize_assignment_targets (rp_assignees inp) = Inr ts"
    and settled: "settle_mutation a req ?key ''REPLACE_ASSIGNMENTS'' ''REPLACE''
      (replace_hash s a req ''REPLACE_ASSIGNMENTS'' ts (rp_reason ?inp) (rp_version ?inp)) (\<lambda>_. Inr ()) db
      (replace_assignments_tx s a req ?key (replace_hash s a req ''REPLACE_ASSIGNMENTS'' ts (rp_reason ?inp) (rp_version ?inp)) ?inp db)
      = Inr (db', r')"
    by (auto simp: replace_assignments_def Let_def split: if_splits)
  let ?hash = "replace_hash s a req ''REPLACE_ASSIGNMENTS'' ts (rp_reason ?inp) (rp_version ?inp)"
  have tx: "replace_assignments_tx s a req ?key ?hash ?inp db = Inr (db', r')"
    using settle_mutation_cases [OF settled] False by simp
  have inst: "find_instance (actor_tenant a) req db' = find_instance (actor_tenant a) req db"
    using okD [OF replace_assignments_tx_instances tx] by (simp add: find_instance_def)
  from okD [OF replace_assignments_tx_request tx] okD [OF replace_assignments_tx_records tx] obtain x m where
    "find_request (actor_tenant a) req db' = Some x" "trim_space (team_lead x) = []" "status x \<noteq> PendingExecutionAssignment"
    "find_replay (actor_tenant a) req (user_id a) ?key db' = Some m"
    "validate_replay m a req ''REPLACE_ASSIGNMENTS'' ''REPLACE'' ?hash = Inr ()" by auto
  then have "replace_assignments_tx s a req ?key ?hash ?inp db' = Inr (db', x)"
    using okD [OF replace_assignments_tx_allowed tx] by (simp add: replace_assignments_tx_def inst)
  with pre show ?thesis by (simp add: replace_assignments_def settle_mutation_def)
qed (use run in blast)

lemma select_again:
  assumes run: "select_execution_department s a req key inp db = Inr (db', r')" and wf: "table_wf (requests db)"
    and k: "trim_space key \<noteq> []" "trim_space (sd_team_lead inp) \<noteq> []"
  shows "\<exists>r2. select_execution_department s a req key inp db' = Inr (db', r2)"
proof (cases "db' = db")
  case False
  let ?inp = "inp\<lparr>sd_department_id := trim_space (sd_department_id inp), sd_team_lead := trim_space (sd_team_lead inp)\<rparr>"
    and ?key = "trim_space key"
  let ?hash = "select_lead_hash s a req ?inp"
  from run k have pre: "can a ''presale.assign''" "\<not> (trim_space (sd_department_id inp) = [] \<or> sd_version inp = 0)" "length ?key \<le> 128"
    and lead: "select_department_and_lead s a req ?key ?inp db = Inr (db', r')"
    by (auto simp: select_execution_department_def select_department_and_lead_def Let_def split: if_splits)
  from lead k False obtain name dep where
    settled: "(case select_lead_tx s a req ?key ?hash ?inp name dep db of Inr out \<Rightarrow> Inr out
       | Inl e \<Rightarrow> if ?key = [] then Inl e
           else settle_mutation a req ?key ''SELECT_EXECUTION_DEPARTMENT'' ''TEAM_LEAD'' ?hash (\<lambda>_. Inr ()) db (Inl e)) = Inr (db', r')"
    unfolding select_department_and_lead_def Let_def by (auto split: if_splits option.splits)
  have tx: "select_lead_tx s a req ?key ?hash ?inp name dep db = Inr (db', r')"
  proof (cases "select_lead_tx s a req ?key ?hash ?inp name dep db")
    case (Inl e)
    with settled have "settle_mutation a req ?key ''SELECT_EXECUTION_DEPARTMENT'' ''TEAM_LEAD'' ?hash (\<lambda>_. Inr ()) db (Inl e)
        = Inr (db', r')" using k by simp
    from settle_mutation_cases [OF this] False show ?thesis by simp
  qed (use settled in simp)
  from okD [OF select_lead_tx_records [OF k(1)] tx] obtain r m where r: "find_request (actor_tenant a) req db = Some r"
    and m: "find_replay (actor_tenant a) req (user_id a) ?key db' = Some m"
    "validate_replay m a req ''SELECT_EXECUTION_DEPARTMENT'' ''TEAM_LEAD'' ?hash = Inr ()" by auto
  have "evolves db db'" using okD [OF select_lead_tx_evolves [OF wf] tx] by simp
  then obtain x where "find_request (actor_tenant a) req db' = Some x" using evolves_find [OF _ wf r] by blast
  with m pre k show ?thesis
    by (auto simp: select_execution_department_def select_department_and_lead_def Let_def)
qed (use run in blast)

lemma takeover_again:
  assumes run: "takeover_executing_team_lead s a req key inp db = Inr (db', r')" and wf: "table_wf (requests db)"
  shows "\<exists>r2. takeover_executing_team_lead s a req key inp db' = Inr (db', r2)"
proof (cases "db' = db")
  case False
  let ?inp = "inp\<lparr>tk_team_lead := trim_space (tk_team_lead inp), tk_reason := trim_space (tk_reason inp)\<rparr>" and ?key = "trim_space key"
  let ?hash = "takeover_hash s a req ?inp"
  from run False obtain name dep where pre: "\<not> (\<not> can a ''presale.assign'' \<or> \<not> has_role a ''technical_director'' \<and> \<not> has_role a ''crm_super_admin'')"
      "\<not> (?key = [] \<or> 128 < length ?key \<or> trim_space (tk_team_lead inp) = [] \<or> tk_version inp = 0 \<or> 1000 < rune_len (trim_space (tk_reason inp)))"
    and settled: "settle_mutation a req ?key ''SELECT_EXECUTION_DEPARTMENT'' ''TEAM_LEAD'' ?hash (\<lambda>_. Inr ()) db
      (takeover_tx s a req ?key ?hash ?inp name dep db) = Inr (db', r')"
    unfolding takeover_executing_team_lead_def Let_def by (auto split: if_splits option.splits)
  have tx: "takeover_tx s a req ?key ?hash ?inp name dep db = Inr (db', r')"
    using settle_mutation_cases [OF settled] False by simp
  from okD [OF takeover_tx_records tx] obtain r m where r: "find_request (actor_tenant a) req db = Some r"
    and m: "find_replay (actor_tenant a) req (user_id a) ?key db' = Some m"
    "validate_replay m a req ''SELECT_EXECUTION_DEPARTMENT'' ''TEAM_LEAD'' ?hash = Inr ()" by auto
  have "evolves db db'" using okD [OF takeover_tx_evolves [OF wf] tx] by simp
  then obtain x where "find_request (actor_tenant a) req db' = Some x" using evolves_find [OF _ wf r] by blast
  with m pre show ?thesis by (simp add: takeover_executing_team_lead_def Let_def)
qed (use run in blast)

lemma reject_again:
  assumes run: "reject_execution_assignment s a req key inp db = Inr (db', r')" and wf: "table_wf (requests db)"
  shows "\<exists>r2. reject_execution_assignment s a req key inp db' = Inr (db', r2)"
proof (cases "db' = db")
  case False
  let ?inp = "inp\<lparr>rs_reason := trim_space (rs_reason inp)\<rparr>" and ?key = "trim_space key"
  let ?hash = "reject_assignment_hash s a req ?inp"
  from run False have pre: "can a ''presale.assign''"
      "\<not> (?key = [] \<or> 128 < length ?key \<or> trim_space (rs_reason inp) = [] \<or> 1000 < rune_len (trim_space (rs_reason inp)) \<or> rs_version inp = 0)"
    and settled: "settle_mutation a req ?key ''REJECT_EXECUTION_ASSIGNMENT'' ''REJECT'' ?hash (\<lambda>_. Inr ()) db
      (reject_assignment_tx s a req ?key ?hash ?inp db) = Inr (db', r')"
    unfolding reject_execution_assignment_def Let_def by (auto split: if_splits option.splits)
  have tx: "reject_assignment_tx s a req ?key ?hash ?inp db = Inr (db', r')"
    using settle_mutation_cases [OF settled] False by simp
  from okD [OF reject_tx_records tx] obtain r m where r: "find_request (actor_tenant a) req db = Some r"
    and m: "find_replay (actor_tenant a) req (user_id a) ?key db' = Some m"
    "validate_replay m a req ''REJECT_EXECUTION_ASSIGNMENT'' ''REJECT'' ?hash = Inr ()" by auto
  have "evolves db db'" using okD [OF reject_assignment_tx_evolves [OF wf] tx] by simp
  then obtain x where "find_request (actor_tenant a) req db' = Some x" using evolves_find [OF _ wf r] by blast
  with m pre show ?thesis by (simp add: reject_execution_assignment_def Let_def)
qed (use run in blast)

lemma replace_executors_tx_old:
  "ok (replace_executors_tx s a req key hash inp ts db) (\<lambda>(db', r').
     \<exists>r. find_request (actor_tenant a) req db = Some r \<and> trim_space (team_lead r) \<noteq> [] \<and> is_lead_or_admin a r)"
  unfolding replace_executors_tx_def by (intro ok_intro) (auto simp: ok_def)

lemma replace_executors_again:
  assumes run: "replace_executor_assignments s a req key inp db = (db', Inr r')" and ok: "crew_ok db" and s: "visits_keys s"
  shows "\<exists>r2. replace_executor_assignments s a req key inp db' = (db', Inr r2)"
proof (cases "find_replay (actor_tenant a) req (user_id a) (trim_space key) db")
  case (Some old)
  then have "db' = db" using run
    unfolding replace_executor_assignments_def Let_def by (auto split: if_splits option.splits sum.splits)
  then show ?thesis using run by blast
next
  case None
  let ?inp = "inp\<lparr>rp_reason := trim_space (rp_reason inp)\<rparr>" and ?key = "trim_space key"
  from replace_executors_success [OF run None] obtain ts intent where
    ts: "resolve_assignment_targets s (rp_assignees inp) = Inr ts" and perm: "can a ''presale.assign''"
    and valid: "normalize_assignment_targets (rp_assignees inp) = Inr intent" "replace_input_valid ?key ?inp"
    and tx: "replace_executors_tx s a req ?key
      (replace_hash s a req ''REPLACE_EXECUTOR_ASSIGNMENTS'' intent (trim_space (rp_reason inp)) (rp_version inp)) ?inp ts db = Inr (db', r')" .
  from okD [OF replace_executors_tx_old tx] obtain r where r: "find_request (actor_tenant a) req db = Some r"
    "trim_space (team_lead r) \<noteq> []" "is_lead_or_admin a r" by auto
  from okD [OF replace_executors_tx_records tx] obtain m where m: "find_replay (actor_tenant a) req (user_id a) ?key db' = Some m"
    "validate_replay m a req ''REPLACE_EXECUTOR_ASSIGNMENTS'' ''REPLACE''
      (replace_hash s a req ''REPLACE_EXECUTOR_ASSIGNMENTS'' intent (trim_space (rp_reason inp)) (rp_version inp)) = Inr ()" by auto
  have "evolves\<^sup>*\<^sup>* db db'" using okD [OF replace_executors_tx_evolves [OF crew_ok_wf(1) [OF ok]] tx] by simp
  then obtain x where x: "find_request (actor_tenant a) req db' = Some x"
    using evolves_many_find [OF _ crew_ok_wf(1) [OF ok] r(1)] by blast
  have "crew_ok db' \<and> crew KindTeamLead (actor_tenant a) req db' = crew KindTeamLead (actor_tenant a) req db"
    using okD [OF replace_executors_tx_crew [OF ok s conjunct1 [OF resolve_persons [OF ts]]] tx] None by simp
  then have "lead_of x = lead_of r" using crew_ok_at [OF ok r(1)] crew_ok_at [OF _ x] by simp
  then have "team_lead x = team_lead r" by (simp add: lead_of_def split: if_splits)
  then have "trim_space (team_lead x) \<noteq> []" "is_lead_or_admin a x" using r by (simp_all add: is_lead_or_admin_def)
  with m x perm valid show ?thesis by (simp add: replace_executor_assignments_def)
qed

definition assignment_effect :: "service \<Rightarrow> actor \<Rightarrow> nat \<Rightarrow> string \<Rightarrow> assignment_command \<Rightarrow> presale_db \<Rightarrow> presale_db res" where
  "assignment_effect s a req key c db =
     (case run_assignment s a req key c db of Inl e \<Rightarrow> Inl e | Inr (db', r) \<Rightarrow> Inr db')"

lemma run_assignment_crew:
  assumes "crew_ok db" "visits_keys s" "run_assignment s a req key c db = Inr (db', r')"
  shows "crew_ok db'"
proof (cases c)
  case (ReplaceAssignments inp)
  then show ?thesis using assms okD [OF replace_assignments_crew] by fastforce
next
  case (SelectTeamLead inp)
  then show ?thesis using assms okD [OF select_execution_department_crew] by fastforce
next
  case (TakeoverTeamLead inp)
  then show ?thesis using assms okD [OF takeover_crew] by fastforce
next
  case (RejectAssignment inp)
  then show ?thesis using assms okD [OF reject_crew] by fastforce
next
  case (ReplaceExecutors inp)
  then show ?thesis using assms replace_executor_assignments_crew [OF assms(1,2), of a req key inp]
    by (auto split: prod.splits sum.splits)
qed

lemma run_assignment_again:
  assumes "crew_ok db" "visits_keys s" "keyed key c" "run_assignment s a req key c db = Inr (db', r')"
  shows "\<exists>r2. run_assignment s a req key c db' = Inr (db', r2)"
proof (cases c)
  case (ReplaceAssignments inp)
  then show ?thesis using assms replace_assignments_again by simp
next
  case (SelectTeamLead inp)
  then show ?thesis using assms select_again crew_ok_wf(1) by simp
next
  case (TakeoverTeamLead inp)
  then show ?thesis using assms takeover_again crew_ok_wf(1) by simp
next
  case (RejectAssignment inp)
  then show ?thesis using assms reject_again crew_ok_wf(1) by simp
next
  case (ReplaceExecutors inp)
  with assms(4) have "replace_executor_assignments s a req key inp db = (db', Inr r')"
    by (auto split: prod.splits sum.splits)
  from replace_executors_again [OF this assms(1,2)] ReplaceExecutors show ?thesis by auto
qed

interpretation assigning: idempotent_command
  "\<lambda>db. crew_ok db \<and> visits_keys s \<and> keyed key c" "assignment_effect s a req key c"
  "\<lambda>db. assignment_effect s a req key c db = Inr db" for s a req key c
proof unfold_locales
  fix db db' :: presale_db
  assume inv: "crew_ok db \<and> visits_keys s \<and> keyed key c" and run: "assignment_effect s a req key c db = Inr db'"
  then obtain r' where run': "run_assignment s a req key c db = Inr (db', r')"
    by (auto simp: assignment_effect_def split: sum.splits)
  show "crew_ok db' \<and> visits_keys s \<and> keyed key c" using run_assignment_crew [OF _ _ run'] inv by blast
  show "assignment_effect s a req key c db' = Inr db'"
    using run_assignment_again [OF _ _ _ run'] inv by (auto simp: assignment_effect_def)
qed

text \<open>
  C40. Repeating an assignment command with its key, however often, has the effect of
  issuing it once.
\<close>

theorem assignment_idempotent:
  assumes "crew_ok db" and "visits_keys s" and "keyed key c" and "assignment_effect s a req key c db = Inr db'"
  shows "fold_res (\<lambda>_. assignment_effect s a req key c) (replicate (Suc n) ()) db = Inr db'"
  using assigning.run_many [of db s key c a req db' "()" "replicate n ()"] assms by simp

lemma assignment_idempotent_witness:
  "\<exists>db'. assignment_effect team_service tom 1 ''k1'' (RejectAssignment refuse_tom) before_db = Inr db' \<and>
     fold_res (\<lambda>_. assignment_effect team_service tom 1 ''k1'' (RejectAssignment refuse_tom)) (replicate 3 ()) before_db = Inr db'"
proof -
  obtain db' r' where run: "reject_execution_assignment team_service tom 1 ''k1'' refuse_tom before_db = Inr (db', r')"
    using sample_refusal by (elim exE) (rule that)
  then have e: "assignment_effect team_service tom 1 ''k1'' (RejectAssignment refuse_tom) before_db = Inr db'"
    by (simp add: assignment_effect_def)
  have three: "replicate 3 () = replicate (Suc 2) ()" by (simp add: numeral_3_eq_3 numeral_2_eq_2)
  show ?thesis unfolding three
    using e assignment_idempotent [OF before_db_ok team_visits _ e, of 2] by (intro exI [of _ db'] conjI) simp_all
qed

section \<open>The order of the targets\<close>

lemma map_res_one_error:
  assumes "\<And>x e. f x = Inl e \<Longrightarrow> e = e0"
  shows "map_res f xs = (if \<forall>x \<in> set xs. f x \<noteq> Inl e0 then Inr (map (\<lambda>x. case f x of Inr y \<Rightarrow> y) xs) else Inl e0)"
proof (induction xs)
  case (Cons x xs)
  show ?case using assms [of x] Cons.IH by (cases "f x") auto
qed simp

lemma normalize_permuted:
  assumes "mset ts' = mset ts"
  shows "normalize_assignment_targets ts' = normalize_assignment_targets ts"
proof -
  let ?g = "\<lambda>t. case normalize_target t of Inr y \<Rightarrow> y"
  have all: "map_res normalize_target xs =
      (if \<forall>x \<in> set xs. normalize_target x \<noteq> Inl ErrInvalidInput then Inr (map ?g xs) else Inl ErrInvalidInput)" for xs
    by (rule map_res_one_error) (auto simp: normalize_target_def split: if_splits)
  have same: "set ts' = set ts" "length ts' = length ts" "mset (map ?g ts') = mset (map ?g ts)"
    using assms by (auto dest: mset_eq_setD mset_eq_length)
  have dist: "distinct (map tg_person (map ?g ts')) = distinct (map tg_person (map ?g ts))"
    using same(3) by (metis mset_eq_imp_distinct_iff mset_map)
  have "sort_key tg_person (map ?g ts') = sort_key tg_person (map ?g ts)" if "distinct (map tg_person (map ?g ts))"
  proof (rule sort_key_inj_key_eq)
    from dist that have "distinct (map tg_person (map ?g ts'))" by (rule iffD2)
    then show "inj_on tg_person (set (map ?g ts'))" by (simp only: distinct_map)
  qed (use same(3) in simp_all)
  then show ?thesis
    unfolding normalize_assignment_targets_def all using same(1,2) dist
    by (cases "ts = []") (auto simp del: map_map)
qed

text \<open>
  The order in which the targets of a replacement are listed does not matter, at one
  level or at two: the same persons give the same digest, so the same replay, and the same
  outcome.
\<close>

theorem target_order_irrelevant:
  assumes "mset ts = mset (rp_assignees inp)"
  shows "replace_assignments s a req key (inp\<lparr>rp_assignees := ts\<rparr>) db = replace_assignments s a req key inp db \<and>
     replace_executor_assignments s a req key (inp\<lparr>rp_assignees := ts\<rparr>) db = replace_executor_assignments s a req key inp db"
proof -
  have n: "normalize_assignment_targets ts = normalize_assignment_targets (rp_assignees inp)"
    using assms by (rule normalize_permuted)
  then have r: "resolve_assignment_targets s ts = resolve_assignment_targets s (rp_assignees inp)" for s
    by (simp add: resolve_assignment_targets_def)
  have v: "replace_input_valid k (inp\<lparr>rp_assignees := ts, rp_reason := x\<rparr>) = replace_input_valid k (inp\<lparr>rp_reason := x\<rparr>)" for k x
    using mset_eq_length [OF assms] by (auto simp: replace_input_valid_def)
  have sel: "rp_assignees (inp\<lparr>rp_assignees := ts, rp_reason := x\<rparr>) = ts" "rp_reason (inp\<lparr>rp_assignees := ts, rp_reason := x\<rparr>) = x"
    "rp_version (inp\<lparr>rp_assignees := ts, rp_reason := x\<rparr>) = rp_version inp" "rp_assignees (inp\<lparr>rp_reason := x\<rparr>) = rp_assignees inp"
    "rp_reason (inp\<lparr>rp_reason := x\<rparr>) = x" "rp_version (inp\<lparr>rp_reason := x\<rparr>) = rp_version inp"
    "rp_reason (inp\<lparr>rp_assignees := ts\<rparr>) = rp_reason inp" for x by simp_all
  have t: "replace_assignments_tx s a req k h (inp\<lparr>rp_assignees := ts, rp_reason := x\<rparr>) db =
      replace_assignments_tx s a req k h (inp\<lparr>rp_reason := x\<rparr>) db" for k h x
    unfolding replace_assignments_tx_def sel r ..
  have "replace_assignments s a req key (inp\<lparr>rp_assignees := ts\<rparr>) db = replace_assignments s a req key inp db"
    unfolding replace_assignments_def Let_def sel n v t ..
  moreover have "replace_executors_settled s a req k h (inp\<lparr>rp_assignees := ts, rp_reason := x\<rparr>) us d =
      replace_executors_settled s a req k h (inp\<lparr>rp_reason := x\<rparr>) us d" for k h x us d
    unfolding replace_executors_settled_def replace_executors_tx_def sel ..
  then have "replace_executor_assignments s a req key (inp\<lparr>rp_assignees := ts\<rparr>) db = replace_executor_assignments s a req key inp db"
    unfolding replace_executor_assignments_def Let_def sel n r v by (simp only:)
  ultimately show ?thesis by (rule conjI)
qed

lemma target_order_irrelevant_witness:
  "replace_assignments team_service dirk 1 ''k1'' (team_input\<lparr>rp_assignees := [team_target ''eva'', team_target ''bob'']\<rparr>) one_level_db =
   replace_assignments team_service dirk 1 ''k1'' (team_input\<lparr>rp_assignees := [team_target ''bob'', team_target ''eva'']\<rparr>) one_level_db"
  using target_order_irrelevant [of "[team_target ''eva'', team_target ''bob'']"
    "team_input\<lparr>rp_assignees := [team_target ''bob'', team_target ''eva'']\<rparr>"] by (simp add: add_mset_commute)

section \<open>An invalid team lead\<close>

text \<open>
  Invalidating the team lead while the executors are still to be assigned sends the
  request back to the choice of a team lead, with no team lead left and the executors as
  they were; a second invalidation, whatever its reason, succeeds and changes nothing.
\<close>

theorem invalidation_is_final:
  assumes "crew_ok db" and "find_request tenant req db = Some r"
    and "status r = PendingExecutionAssignment" and "team_lead r \<noteq> []"
    and "invalidate_team_lead s tenant req reason db = Inr db'"
    and "rune_len (trim_space reason') \<le> 1000"
  shows "crew KindTeamLead tenant req db' = [] \<and> crew KindExecutor tenant req db' = crew KindExecutor tenant req db \<and>
     (\<exists>r'. find_request tenant req db' = Some r' \<and> status r' = ApprovedPendingAssignment \<and> team_lead r' = []) \<and>
     invalidate_team_lead s' tenant req reason' db' = Inr db'"
proof -
  let ?a = "system_actor tenant"
  have t: "actor_tenant ?a = tenant" by (simp add: system_actor_def)
  from assms(2-5) obtain db1 db2 r2 where
    valid: "tenant \<noteq> []" "req \<noteq> 0" and
    ended: "end_current_team_lead s ?a r (trim_space reason) (clock_now s) db = Inr db1" and
    up: "update_request_versioned (clock_now s) r (version r) (clear_team_lead (user_id ?a)) db1 = Inr (db2, r2)" and
    same: "requests db' = requests db2" "assignments db' = assignments db2"
    by (auto simp: invalidate_team_lead_def Let_def split: if_splits dest!: notify_role_users_same)
  have "find_request (actor_tenant ?a) req db = Some r" using assms(2) t by simp
  note lead_ended [OF assms(1) this ended up same clear_team_lead_identity]
  then have gone: "crew KindTeamLead tenant req db' = []" "crew KindExecutor tenant req db' = crew KindExecutor tenant req db"
    by (simp_all add: t)
  have hit: "is_request (tenant_id r) (row_id r) r" using assms(2) by (auto dest!: find_request_Some simp: is_request_def)
  have "find_request tenant req db1 = Some r"
    using assms(2) end_current_team_lead_assigns [OF ended] by (simp add: assigns_def find_request_def)
  then have "find_request tenant req db2 = Some ((clear_team_lead (user_id ?a) r)\<lparr>version := version r + 1, updated_at := datetime3 (clock_now s)\<rparr>)"
    using find_request_updated [OF up clear_team_lead_identity, of tenant req] hit by simp
  then have r': "find_request tenant req db' = Some ((clear_team_lead (user_id ?a) r)\<lparr>version := version r + 1, updated_at := datetime3 (clock_now s)\<rparr>)"
    using same(1) by (simp add: find_request_def)
  then have "invalidate_team_lead s' tenant req reason' db' = Inr db'"
    using valid assms(6) by (simp add: invalidate_team_lead_def)
  with gone r' show ?thesis by simp
qed

lemma invalidation_is_final_witness:
  "\<exists>db'. invalidate_team_lead team_service ''t'' 1 ''left'' before_db = Inr db' \<and>
     invalidate_team_lead team_service ''t'' 1 ''again'' db' = Inr db' \<and> crew KindTeamLead ''t'' 1 db' = []"
proof -
  have "\<exists>db'. invalidate_team_lead team_service ''t'' 1 ''left'' before_db = Inr db'"
    unfolding invalidate_team_lead_def before_db_rows option.case
    by (simp add: end_current_team_lead_def before_db_rows team_service_fields notify_role_users_def system_actor_def
        before_db_def team_db_def sample_eval assign_eval clear_team_lead_def del: One_nat_def)
  then obtain db' where run: "invalidate_team_lead team_service ''t'' 1 ''left'' before_db = Inr db'" by (elim exE) (rule that)
  have r: "status (sample_request PendingExecutionAssignment 0 ''tom'') = PendingExecutionAssignment"
    "team_lead (sample_request PendingExecutionAssignment 0 ''tom'') \<noteq> []" "rune_len (trim_space ''again'') \<le> 1000"
    by (simp_all add: sample_request_def text_eval)
  from invalidation_is_final [OF before_db_ok before_db_rows(1) r(1,2) run r(3), of team_service] run
  show ?thesis by (intro exI [of _ db']) (simp del: One_nat_def)
qed

end
