(* ===== verification/PresaleExecution.thy ===== *)
theory PresaleExecution
  imports PresaleCrew
begin

text \<open>
  The operations on a request under way (\<open>service_mutation.go\<close>): progress entries,
  cancellation, worklogs and completion.
\<close>

section \<open>Progress\<close>

definition progress_content_ok :: "service \<Rightarrow> string \<Rightarrow> string \<Rightarrow> nat option \<Rightarrow> bool" where
  "progress_content_ok s content link pct \<longleftrightarrow>
     1 \<le> rune_len content \<and> rune_len content \<le> 2000 \<and>
     (case pct of None \<Rightarrow> True | Some p \<Rightarrow> p \<le> 100) \<and>
     (link = [] \<or> (case parse_url s link of None \<Rightarrow> False
        | Some (scheme, host) \<Rightarrow> scheme = ''https'' \<and> host \<noteq> [] \<and> rune_len link \<le> 1000)) \<and>
     CHR ''<'' \<notin> set content \<and> CHR ''>'' \<notin> set content"

definition progress_replay :: "string \<Rightarrow> progress_log \<Rightarrow> presale_db \<Rightarrow> (presale_db \<times> progress_log) res" where
  "progress_replay hash old db = (if pl_hash old \<noteq> hash then Inl ErrIdempotencyConflict else Inr (db, old))"

definition new_progress :: "service \<Rightarrow> actor \<Rightarrow> nat \<Rightarrow> string \<Rightarrow> string \<Rightarrow> string \<Rightarrow> string \<Rightarrow> nat option \<Rightarrow> progress_log" where
  "new_progress s a req key hash content link pct =
     \<lparr>row_id = 0, tenant_id = actor_tenant a, pl_request = req, pl_author = user_id a, pl_content = content, pl_link = link,
      pl_pct = pct, pl_key = key, pl_hash = hash, pl_created = clock_now s\<rparr>"

definition progress_tx ::
  "service \<Rightarrow> actor \<Rightarrow> nat \<Rightarrow> string \<Rightarrow> string \<Rightarrow> string \<Rightarrow> string \<Rightarrow> nat option \<Rightarrow> nat \<Rightarrow> presale_db \<Rightarrow> (presale_db \<times> progress_log) res" where
  "progress_tx s a req key hash content link pct ver db =
     (case find_request (actor_tenant a) req db of
        None \<Rightarrow> Inl ErrNotFound
      | Some r \<Rightarrow>
        (case find_progress_by_key (actor_tenant a) key db of
          Some old \<Rightarrow> progress_replay hash old db
        | None \<Rightarrow>
          if version r \<noteq> ver then Inl ErrVersionConflict
          else if status r \<noteq> Executing then Inl ErrInvalidTransition
          else (let current = list_current_assignments (actor_tenant a) req db
            in if \<not> list_ex (\<lambda>g. assignee g = person_id a) current then Inl ErrForbidden
               else case create_progress (new_progress s a req key hash content link pct) db of
                 Inl e \<Rightarrow> Inl e
               | Inr (db1, p) \<Rightarrow>
                 (case record_progress_notifications s a r p current db1 of
                   Inl e \<Rightarrow> Inl e
                 | Inr db2 \<Rightarrow> Inr (db2, p)))))"

definition add_progress ::
  "service \<Rightarrow> actor \<Rightarrow> nat \<Rightarrow> string \<Rightarrow> progress_input \<Rightarrow> presale_db \<Rightarrow> (presale_db \<times> progress_log) res" where
  "add_progress s a req key0 inp db =
     (if \<not> can a ''presale.progress'' \<or> person_id a = [] then Inl ErrForbidden
      else (let key = trim_space key0; content = trim_space (pg_content inp); link = trim_space (pg_link inp)
        in if key = [] \<or> 128 < length key \<or> \<not> progress_content_ok s content link (pg_pct inp) then Inl ErrInvalidInput
           else (let hash = digest_of s (ProgressDigest req (user_id a) content link (pg_pct inp) (pg_version inp))
             in case find_progress_by_key (actor_tenant a) key db of
               Some old \<Rightarrow> progress_replay hash old db
             | None \<Rightarrow>
               (case progress_tx s a req key hash content link (pg_pct inp) (pg_version inp) db of
                 Inr out \<Rightarrow> Inr out
               | Inl e \<Rightarrow>
                 (case find_progress_by_key (actor_tenant a) key db of
                   None \<Rightarrow> Inl e
                 | Some old \<Rightarrow> progress_replay hash old db)))))"

section \<open>Cancellation\<close>

definition may_cancel :: "actor \<Rightarrow> bool" where
  "may_cancel a \<longleftrightarrow> has_role a ''team_lead'' \<or> has_role a ''crm_super_admin'' \<or> can a ''presale.cancel''"

definition cancel_authorize :: "actor \<Rightarrow> presale_request \<Rightarrow> unit res" where
  "cancel_authorize a r = (if applicant_id r = user_id a \<or> may_cancel a then Inr () else Inl ErrForbidden)"

definition cancel_allowed :: "actor \<Rightarrow> presale_request \<Rightarrow> bool" where
  "cancel_allowed a r \<longleftrightarrow>
     status r = PendingApproval \<and> applicant_id r = user_id a \<or>
     (status r = ApprovedPendingAssignment \<or> status r = PendingExecutionAssignment \<or> status r = Executing) \<and> may_cancel a"

definition cancel_tx :: "service \<Rightarrow> actor \<Rightarrow> nat \<Rightarrow> string \<Rightarrow> string \<Rightarrow> string \<Rightarrow> nat \<Rightarrow> presale_db \<Rightarrow> presale_db res" where
  "cancel_tx s a req key hash reason ver db =
     (case find_request (actor_tenant a) req db of
        None \<Rightarrow> Inl ErrNotFound
      | Some r \<Rightarrow>
        (case cancel_authorize a r of
          Inl e \<Rightarrow> Inl e
        | Inr _ \<Rightarrow>
          (case find_replay (actor_tenant a) req (user_id a) key db of
            Some old \<Rightarrow>
              (case validate_replay old a req ''CANCEL'' ''CANCEL'' hash of Inl e \<Rightarrow> Inl e | Inr _ \<Rightarrow> Inr db)
          | None \<Rightarrow>
            if version r \<noteq> ver then Inl ErrVersionConflict
            else if \<not> cancel_allowed a r then Inl ErrForbidden
            else case update_request_versioned (clock_now s) r (version r)
                (\<lambda>x. x\<lparr>status := Cancelled, cancelled_at := Some (datetime3 (clock_now s)), updated_by := user_id a\<rparr>) db of
              Inl e \<Rightarrow> Inl e
            | Inr (db1, r1) \<Rightarrow>
              create_replay (new_replay a req key ''CANCEL'' ''CANCEL'' hash (version r1) (clock_now s))
                (status_log_entry s r1 (status r) Cancelled ''CANCELLED'' reason (user_id a) (trace_id a) db1))))"

definition cancel_request :: "service \<Rightarrow> actor \<Rightarrow> nat \<Rightarrow> string \<Rightarrow> reason_input \<Rightarrow> presale_db \<Rightarrow> presale_db res" where
  "cancel_request s a req key0 inp db =
     (let key = trim_space key0; reason = trim_space (rs_reason inp)
      in if key = [] \<or> 128 < length key \<or> reason = [] \<or> 2000 < rune_len reason then Inl ErrInvalidInput
         else (let hash = mutation_digest s a req ''CANCEL'' ''CANCEL'' (PReason reason (rs_version inp))
           in case cancel_tx s a req key hash reason (rs_version inp) db of
             Inr db' \<Rightarrow> Inr db'
           | Inl e \<Rightarrow>
             if e \<in> set [ErrIdempotencyConflict, ErrForbidden, ErrInvalidTransition, ErrVersionConflict, ErrNotFound] then Inl e
             else if \<not> is_duplicate_error e then Inl e
             else (case resolve_mutation_race a req key ''CANCEL'' ''CANCEL'' hash e (cancel_authorize a) db of
               Inl e' \<Rightarrow> Inl e'
             | Inr _ \<Rightarrow> Inr db)))"

section \<open>Worklogs\<close>

text \<open>\<open>calculateHours\<close>. The length of a day is the constructor's \<open>8.00\<close>.\<close>

definition is_hour_unit :: "string \<Rightarrow> bool" where
  "is_hour_unit u \<longleftrightarrow> u = txt_hour \<or> u = ''HOUR''"

definition is_day_unit :: "string \<Rightarrow> bool" where
  "is_day_unit u \<longleftrightarrow> u = txt_person_day \<or> u = ''PERSON_DAY''"

definition calculate_hours :: "string \<Rightarrow> string \<Rightarrow> string \<Rightarrow> string res" where
  "calculate_hours u v per_day =
     (if \<not> is_decimal v \<or> fst (decimal_value v) = 0 then Inl ErrInvalidInput
      else if is_hour_unit u then Inr (float_string2 (times_fraction (decimal_value v) (1, 1)))
      else if is_day_unit u \<and> is_decimal per_day
      then Inr (float_string2 (times_fraction (decimal_value v) (decimal_value per_day)))
      else Inl ErrInvalidInput)"

definition factor_for :: "string \<Rightarrow> string \<Rightarrow> string" where
  "factor_for u per_day = (if is_day_unit u then per_day else ''1.00'')"

definition valid_content :: "string \<Rightarrow> bool" where
  "valid_content v \<longleftrightarrow>
     v \<in> set [txt_solution_design, txt_tech_exchange, txt_poc_demo, txt_tech_qa, txt_other, ''SOLUTION_DESIGN'',
       ''TECH_EXCHANGE'', ''POC_DEMO'', ''TECH_QA'', ''OTHER'']"

definition worklog_hashes :: "service \<Rightarrow> actor \<Rightarrow> nat \<Rightarrow> worklog_input \<Rightarrow> string \<times> string" where
  "worklog_hashes s a req inp =
     (digest_of s (WorklogDigest req (user_id a) (person_id a)
        (inp\<lparr>wk_value := normalize_decimal (wk_value inp), wk_address := trim_space (wk_address inp),
             wk_remark := trim_space (wk_remark inp)\<rparr>)),
      digest_of s (WorklogLegacyDigest inp))"

definition new_worklog ::
  "service \<Rightarrow> actor \<Rightarrow> nat \<Rightarrow> string \<Rightarrow> string \<Rightarrow> worklog_input \<Rightarrow> string \<Rightarrow> string \<Rightarrow> assignment \<Rightarrow> worklog" where
  "new_worklog s a req key hash inp hours no mine =
     \<lparr>row_id = 0, tenant_id = actor_tenant a, created_by = user_id a, updated_by = user_id a, created_at = 0, updated_at = 0,
      deleted_at = None, version = 1, worklog_no = no, wl_request = req, wl_person = person_id a,
      wl_department = assignee_department mine, wl_name = assignee_name mine, work_start = wk_start inp, work_end = wk_end inp,
      raw_unit = wk_unit inp, raw_value = normalize_decimal (wk_value inp), conversion_factor = factor_for (wk_unit inp) (day_hours s),
      work_hours = hours, unit = ''HOUR'', site_address = trim_space (wk_address inp), work_content = wk_content inp,
      remark = trim_space (wk_remark inp), push_status = PushSuccess, push_attempts = 0, next_retry_at = None, last_error = [],
      wl_key = key, wl_hash = hash, completed_task = False, voided_at = None\<rparr>"

definition worklog_tx ::
  "service \<Rightarrow> actor \<Rightarrow> nat \<Rightarrow> string \<Rightarrow> string \<times> string \<Rightarrow> worklog_input \<Rightarrow> string \<Rightarrow> presale_db \<Rightarrow> (presale_db \<times> worklog) res" where
  "worklog_tx s a req key hs inp hours db =
     (case find_request (actor_tenant a) req db of
        None \<Rightarrow> Inl ErrNotFound
      | Some r \<Rightarrow>
        (let own = filter (\<lambda>g. assignee g = person_id a) (list_current_assignments (actor_tenant a) req db)
         in if own = [] then Inl ErrForbidden
            else case find_worklog_by_key (actor_tenant a) key db of
              Some old \<Rightarrow>
                if \<not> same_worklog_replay old a req (fst hs) (snd hs) then Inl ErrIdempotencyConflict else Inr (db, old)
            | None \<Rightarrow>
              if version r \<noteq> wk_version inp then Inl ErrVersionConflict
              else if status r \<noteq> Executing then Inl ErrInvalidTransition
              else if has_overlapping_worklog (actor_tenant a) req (person_id a) (wk_start inp) (wk_end inp) db
              then Inl ErrInvalidInput
              else case next_worklog_no (actor_tenant a) (clock_now s) db of
                Inl e \<Rightarrow> Inl e
              | Inr (db1, no) \<Rightarrow> create_worklog (clock_now s) (new_worklog s a req key (fst hs) inp hours no (last own)) db1))"

text \<open>
  The transaction after a failed one: the caller is authorised again before the winner of the
  key is looked up. Its outcome is the answer, when it has one.
\<close>

definition worklog_race ::
  "actor \<Rightarrow> nat \<Rightarrow> string \<Rightarrow> string \<times> string \<Rightarrow> presale_error \<Rightarrow> presale_db \<Rightarrow> (presale_db \<times> worklog) res" where
  "worklog_race a req key hs original db =
     (case find_request (actor_tenant a) req db of
        None \<Rightarrow> Inl ErrNotFound
      | Some r \<Rightarrow>
        if \<not> list_ex (\<lambda>g. assignee g = person_id a) (list_current_assignments (actor_tenant a) req db) then Inl ErrForbidden
        else case find_worklog_by_key (actor_tenant a) key db of
          None \<Rightarrow> Inl original
        | Some old \<Rightarrow>
          if \<not> same_worklog_replay old a req (fst hs) (snd hs) then Inl ErrIdempotencyConflict else Inr (db, old))"

definition worklog_input_ok :: "service \<Rightarrow> worklog_input \<Rightarrow> bool" where
  "worklog_input_ok s inp \<longleftrightarrow>
     wk_start inp < wk_end inp \<and> wk_start inp \<le> clock_now s + 5 * minute \<and> trim_space (wk_address inp) \<noteq> [] \<and>
     valid_content (wk_content inp) \<and> rune_len (wk_remark inp) \<le> 1000"

definition add_worklog ::
  "service \<Rightarrow> actor \<Rightarrow> nat \<Rightarrow> string \<Rightarrow> worklog_input \<Rightarrow> presale_db \<Rightarrow> (presale_db \<times> worklog) res" where
  "add_worklog s a req key0 inp db =
     (if \<not> can a ''presale.worklog'' \<or> person_id a = [] then Inl ErrForbidden
      else (let key = trim_space key0
        in if key = [] \<or> 128 < length key then Inl ErrInvalidInput
           else case calculate_hours (wk_unit inp) (wk_value inp) (day_hours s) of
             Inl _ \<Rightarrow> Inl ErrInvalidInput
           | Inr hours \<Rightarrow>
             if \<not> worklog_input_ok s inp then Inl ErrInvalidInput
             else (let hs = worklog_hashes s a req inp
               in case worklog_tx s a req key hs inp hours db of
                 Inr out \<Rightarrow> Inr out
               | Inl e \<Rightarrow> worklog_race a req key hs e db)))"

section \<open>Completion\<close>

definition executable_role :: "string \<Rightarrow> bool" where
  "executable_role rl \<longleftrightarrow> rl = ''team_lead'' \<or> rl = ''project_manager'' \<or> rl = ''technician'' \<or> rl = ''implementation_engineer''"

definition completed_notice :: "actor \<Rightarrow> presale_request \<Rightarrow> workflow_notification" where
  "completed_notice a r =
     \<lparr>n_tenant = actor_tenant a, n_recipient = applicant_id r, n_type = ''PRESALE_COMPLETED'', n_title = txt_completed_title,
      n_body = txt_completed_body, n_request_no = request_no r, n_request = row_id r, n_assignment = 0, n_node = 0,
      n_discriminator = []\<rparr>"

definition complete_tx :: "service \<Rightarrow> actor \<Rightarrow> nat \<Rightarrow> reason_input \<Rightarrow> presale_db \<Rightarrow> (presale_db \<times> presale_request) res" where
  "complete_tx s a req inp db =
     (case find_request (actor_tenant a) req db of
        None \<Rightarrow> Inl ErrNotFound
      | Some r \<Rightarrow>
        if status r \<noteq> Executing \<or> version r \<noteq> rs_version inp then Inl ErrInvalidTransition
        else case List.find (\<lambda>g. assignee g = person_id a) (list_current_assignments (actor_tenant a) req db) of
          None \<Rightarrow> Inl ErrForbidden
        | Some g \<Rightarrow>
          if \<not> executable_role (assignee_role g) then Inl ErrForbidden
          else case update_request_versioned (clock_now s) r (version r)
              (\<lambda>x. x\<lparr>status := Completed, completed_at := Some (datetime3 (clock_now s)), updated_by := user_id a\<rparr>) db of
            Inl e \<Rightarrow> Inl e
          | Inr (db1, r1) \<Rightarrow>
            Inr (notify_workflow s (completed_notice a r1)
                  (status_log_entry s r1 Executing Completed ''MANUAL_COMPLETION'' (trim_space (rs_reason inp)) (user_id a)
                    (trace_id a) db1),
                 r1\<lparr>status := Completed, completed_at := Some (clock_now s)\<rparr>))"

definition complete_request ::
  "service \<Rightarrow> actor \<Rightarrow> nat \<Rightarrow> reason_input \<Rightarrow> presale_db \<Rightarrow> (presale_db \<times> presale_request) res" where
  "complete_request s a req inp db =
     (if \<not> can a ''presale.complete'' \<or> person_id a = [] \<or>
         \<not> has_role a ''technician'' \<and> \<not> has_role a ''project_manager'' \<and> \<not> has_role a ''team_lead'' then Inl ErrForbidden
      else if rs_version inp = 0 \<or> 1000 < rune_len (rs_reason inp) then Inl ErrInvalidInput
      else complete_tx s a req inp db)"

end
