(* ===== verification/PresaleCreate.thy ===== *)
theory PresaleCreate
  imports PresaleCrew
begin

text \<open>
  Creating a request and resubmitting a rejected or cancelled one
  (\<open>service_create.go\<close>), and what these two operations do: the state machine, the
  crew, the idempotence of a creation, and the audit of a resubmission.
\<close>

section \<open>Input\<close>

definition max_description_runes :: nat where "max_description_runes = 5000"

definition validate_create :: "create_input \<Rightarrow> unit res" where
  "validate_create inp =
     (if in_opportunity inp = 0 \<or> in_venue inp \<noteq> ''ONSITE'' \<and> in_venue inp \<noteq> ''REMOTE'' \<or>
         in_urgency inp \<noteq> ''NORMAL'' \<and> in_urgency inp \<noteq> ''URGENT'' then Inl ErrInvalidInput
      else if in_venue inp = ''ONSITE'' \<and> trim_space (in_address inp) = [] then Inl ErrInvalidInput
      else if trim_space (in_contact inp) = [] \<or> trim_space (in_phone inp) = [] then Inl ErrInvalidInput
      else if trim_space (in_description inp) = [] \<or> in_end inp < in_start inp then Inl ErrInvalidInput
      else if 500 < rune_len (trim_space (in_address inp)) \<or> 128 < rune_len (trim_space (in_contact inp)) \<or>
              64 < rune_len (trim_space (in_phone inp)) \<or>
              max_description_runes < rune_len (trim_space (in_description inp)) then Inl ErrInvalidInput
      else Inr ())"

text \<open>\<open>createRequestHashes\<close>: the digest, and the digest of earlier releases.\<close>

definition create_hashes :: "service \<Rightarrow> actor \<Rightarrow> create_input \<Rightarrow> string \<times> string" where
  "create_hashes s a inp =
     (digest_of s (CreateDigest (user_id a)
        (inp\<lparr>in_address := trim_space (in_address inp), in_contact := trim_space (in_contact inp),
             in_phone := trim_space (in_phone inp), in_description := trim_space (in_description inp)\<rparr>)),
      digest_of s (CreateLegacyDigest inp))"

text \<open>A request with the key of the creation: its replay, or somebody else's.\<close>

definition create_replay_of :: "actor \<Rightarrow> nat \<Rightarrow> string \<times> string \<Rightarrow> presale_request \<Rightarrow> presale_db \<Rightarrow> (presale_db \<times> presale_request) res" where
  "create_replay_of a opp hs old db =
     (if \<not> same_create_replay old a opp (fst hs) (snd hs) then Inl ErrIdempotencyConflict else Inr (db, old))"

section \<open>Creation\<close>

definition new_presale_request ::
  "service \<Rightarrow> actor \<Rightarrow> string \<Rightarrow> create_input \<Rightarrow> opportunity_snapshot \<Rightarrow> string \<Rightarrow> string \<Rightarrow> string \<Rightarrow> string \<Rightarrow> presale_request" where
  "new_presale_request s a key inp opp name hash cipher no =
     \<lparr>row_id = 0, tenant_id = actor_tenant a, created_by = user_id a, updated_by = user_id a, created_at = 0, updated_at = 0,
      deleted_at = None, version = 1, request_no = no, opportunity_id = opp_id opp, opportunity_no = opp_no opp,
      applicant_id = user_id a, applicant_name = name, venue = in_venue inp,
      service_address = trim_space (in_address inp), contact_name = trim_space (in_contact inp), phone_cipher = cipher,
      phone_masked = mask_phone s (in_phone inp), description = trim_space (in_description inp),
      expected_start = in_start inp, expected_end = in_end inp, urgency = in_urgency inp, status = PendingApproval,
      current_node = 1, department_id = [], department = [], team_lead = [], team_lead_name = [],
      assignment_level = assignment_level_none, reject_reason = [], completed_at = None, cancelled_at = None,
      create_key = key, create_hash = hash\<rparr>"

definition new_instance :: "service \<Rightarrow> actor \<Rightarrow> presale_request \<Rightarrow> approval_rule option \<Rightarrow> approval_instance" where
  "new_instance s a r rule =
     \<lparr>row_id = 0, tenant_id = actor_tenant a, created_by = user_id a, updated_by = user_id a, created_at = 0, updated_at = 0,
      deleted_at = None, version = 1, inst_request = row_id r, engine_instance = ''crm-presale-'' @ show_nat (row_id r),
      inst_status = ''PENDING'', inst_node = 1, last_event_seq = 0, pending_task = [], pending_approver = [],
      pending_action = [], started_at = Some (approval_round_start (clock_now s)), finished_at = None,
      rule_id = (case rule of None \<Rightarrow> [] | Some x \<Rightarrow> rule_key x), rule_version = (case rule of None \<Rightarrow> 0 | Some x \<Rightarrow> rule_ver x),
      inst_nodes = (case rule of None \<Rightarrow> NodesEmpty | Some x \<Rightarrow> Nodes (nodes x))\<rparr>"

definition matched_rule :: "service \<Rightarrow> actor \<Rightarrow> create_input \<Rightarrow> nat \<Rightarrow> approval_rule option res" where
  "matched_rule s a inp opp =
     (case approval_rules s of
        None \<Rightarrow> Inr None
      | Some t \<Rightarrow> match_highest (list_rules (actor_tenant a) True t)
          \<lparr>fact_urgency = in_urgency inp, fact_venue = in_venue inp, fact_hours = 0, fact_opportunity = opp\<rparr>)"

definition create_tx ::
  "service \<Rightarrow> actor \<Rightarrow> string \<Rightarrow> create_input \<Rightarrow> opportunity_snapshot \<Rightarrow> string \<Rightarrow> string \<times> string \<Rightarrow> string \<Rightarrow>
     approval_rule option \<Rightarrow> presale_db \<Rightarrow> (presale_db \<times> presale_request) res" where
  "create_tx s a key inp opp name hs cipher rule db =
     (case find_request_by_create_key (actor_tenant a) key db of
        Some old \<Rightarrow> create_replay_of a (opp_id opp) hs old db
      | None \<Rightarrow>
        (case ensure_eligible s a (opp_id opp) of
          Inl e \<Rightarrow> Inl e
        | Inr _ \<Rightarrow>
          (case next_request_no (actor_tenant a) (clock_now s) db of
            Inl e \<Rightarrow> Inl e
          | Inr (db1, no) \<Rightarrow>
            (case create_request_row (clock_now s) (new_presale_request s a key inp opp name (fst hs) cipher no) db1 of
              Inl e \<Rightarrow> Inl e
            | Inr (db2, r) \<Rightarrow>
              (case create_instance (clock_now s) (new_instance s a r rule) db2 of
                Inl e \<Rightarrow> Inl e
              | Inr (db3, i) \<Rightarrow>
                (case (if notifications_on s then notify_approval_node s (actor_tenant a) r i 1 db3 else Inr db3) of
                  Inl e \<Rightarrow> Inl e
                | Inr db4 \<Rightarrow>
                  (case write_request_audit s a ''CREATE'' (row_id r) None (request_view r) [] db4 of
                    Inl e \<Rightarrow> Inl e
                  | Inr db5 \<Rightarrow> Inr (db5, r))))))))"

definition create_request ::
  "service \<Rightarrow> actor \<Rightarrow> string \<Rightarrow> create_input \<Rightarrow> presale_db \<Rightarrow> (presale_db \<times> presale_request) res" where
  "create_request s a key0 inp db =
     (if \<not> can a ''presale.create'' then Inl ErrForbidden
      else (let key = trim_space key0
        in if key = [] \<or> 128 < length key then Inl ErrInvalidInput
           else case validate_create inp of
             Inl e \<Rightarrow> Inl e
           | Inr _ \<Rightarrow>
             (case get_accessible s a (in_opportunity inp) of
               Inl e \<Rightarrow> Inl e
             | Inr opp \<Rightarrow>
               (case actor_display_name s a of
                 Inl e \<Rightarrow> Inl e
               | Inr name \<Rightarrow>
                 (let hs = create_hashes s a inp
                  in case find_request_by_create_key (actor_tenant a) key db of
                    Some old \<Rightarrow> create_replay_of a (opp_id opp) hs old db
                  | None \<Rightarrow>
                    (case encrypt_phone s (in_phone inp) of
                      Inl e \<Rightarrow> Inl e
                    | Inr cipher \<Rightarrow>
                      (case matched_rule s a inp (opp_id opp) of
                        Inl e \<Rightarrow> Inl e
                      | Inr rule \<Rightarrow>
                        (case create_tx s a key inp opp name hs cipher rule db of
                          Inr out \<Rightarrow> Inr out
                        | Inl e \<Rightarrow>
                          (case find_request_by_create_key (actor_tenant a) key db of
                            None \<Rightarrow> Inl e
                          | Some old \<Rightarrow> create_replay_of a (opp_id opp) hs old db)))))))))"

section \<open>Resubmission\<close>

definition as_create_input :: "request_fields \<Rightarrow> create_input" where
  "as_create_input inp =
     \<lparr>in_venue = in_venue inp, in_address = in_address inp, in_contact = in_contact inp, in_phone = in_phone inp,
      in_description = in_description inp, in_start = in_start inp, in_end = in_end inp, in_urgency = in_urgency inp,
      in_opportunity = 1\<rparr>"

definition resubmitted :: "service \<Rightarrow> actor \<Rightarrow> request_fields \<Rightarrow> string \<Rightarrow> presale_request \<Rightarrow> presale_request" where
  "resubmitted s a inp cipher x =
     x\<lparr>status := PendingApproval, current_node := 1, reject_reason := [], cancelled_at := None, updated_by := user_id a,
       venue := in_venue inp, service_address := trim_space (in_address inp), contact_name := trim_space (in_contact inp),
       phone_cipher := cipher, phone_masked := mask_phone s (trim_space (in_phone inp)),
       description := trim_space (in_description inp), expected_start := in_start inp, expected_end := in_end inp,
       urgency := in_urgency inp\<rparr>"

text \<open>The same columns as the statement stores them: the two expected times are rounded.\<close>

definition resubmitted_row :: "service \<Rightarrow> actor \<Rightarrow> request_fields \<Rightarrow> string \<Rightarrow> presale_request \<Rightarrow> presale_request" where
  "resubmitted_row s a inp cipher x =
     (resubmitted s a inp cipher x)\<lparr>expected_start := datetime3 (in_start inp), expected_end := datetime3 (in_end inp)\<rparr>"

definition reopen_tx ::
  "service \<Rightarrow> actor \<Rightarrow> nat \<Rightarrow> nat \<Rightarrow> request_fields \<Rightarrow> string \<Rightarrow> presale_db \<Rightarrow> (presale_db \<times> presale_request) res" where
  "reopen_tx s a req ver inp cipher db =
     (case find_request (actor_tenant a) req db of
        None \<Rightarrow> Inl ErrNotFound
      | Some r \<Rightarrow>
        if status r \<noteq> Rejected \<and> status r \<noteq> Cancelled \<or> version r \<noteq> ver then Inl ErrInvalidTransition
        else if applicant_id r \<noteq> user_id a \<and> \<not> has_role a ''crm_super_admin'' then Inl ErrForbidden
        else case ensure_eligible s a (opportunity_id r) of
          Inl e \<Rightarrow> Inl e
        | Inr _ \<Rightarrow>
          (case find_instance (actor_tenant a) req db of
            None \<Rightarrow> Inl ErrNotFound
          | Some i \<Rightarrow>
            (let now = approval_round_start (clock_now s)
             in case update_request_versioned (clock_now s) r (version r) (resubmitted_row s a inp cipher) db of
               Inl e \<Rightarrow> Inl e
             | Inr (db1, r1) \<Rightarrow>
               (let r2 = resubmitted s a inp cipher r1;
                    db2 = update_instance (clock_now s) i
                      (\<lambda>x. x\<lparr>inst_status := ''PENDING'', inst_node := 1, pending_task := [], pending_approver := [],
                             pending_action := [], finished_at := None, started_at := Some now, updated_by := user_id a\<rparr>) db1;
                    i2 = i\<lparr>started_at := Some now\<rparr>
                in case (if notifications_on s then notify_approval_node s (actor_tenant a) r2 i2 1 db2 else Inr db2) of
                  Inl e \<Rightarrow> Inl e
                | Inr db3 \<Rightarrow>
                  (case write_request_audit s a ''UPDATE'' (row_id r2) (Some (request_view r)) (request_view r2) []
                      (status_log_entry s r2 (status r) PendingApproval ''REOPENED'' [] (user_id a) (trace_id a) db3) of
                    Inl e \<Rightarrow> Inl e
                  | Inr db4 \<Rightarrow> Inr (db4, r2))))))"

definition reopen_request ::
  "service \<Rightarrow> actor \<Rightarrow> nat \<Rightarrow> nat \<Rightarrow> request_fields \<Rightarrow> presale_db \<Rightarrow> (presale_db \<times> presale_request) res" where
  "reopen_request s a req ver inp db =
     (if \<not> can a ''presale.create'' then Inl ErrForbidden
      else case validate_create (as_create_input inp) of
        Inl e \<Rightarrow> Inl e
      | Inr _ \<Rightarrow>
        (case encrypt_phone s (trim_space (in_phone inp)) of
          Inl e \<Rightarrow> Inl e
        | Inr cipher \<Rightarrow> reopen_tx s a req ver inp cipher db))"

end
