(* ===== verification/PresaleCreateFacts.thy ===== *)
theory PresaleCreateFacts
  imports PresaleCreate PresaleSamples
begin

text \<open>
  What creation and resubmission do: the rows a creation leaves behind, whose request a key
  answers with, a repetition with the same key, and who may resubmit what.
\<close>

section \<open>The steps of a creation\<close>

lemma told_notices:
  "(if c then notify_approval_node s t r i n db else Inr db) = Inr db' \<Longrightarrow> \<exists>ns. db' = db\<lparr>notices := ns\<rparr>"
  by (cases c) (auto simp: notify_approval_node_frame intro: exI [of _ "notices db"])

text \<open>A creation that found no request with its key went through all its writes.\<close>

lemma create_tx_steps:
  assumes run: "create_tx s a key inp opp name hs cipher rule db = Inr (db', r)"
    and fresh: "find_request_by_create_key (actor_tenant a) key db = None"
  obtains no db1 db2 db3 i ns where "ensure_eligible s a (opp_id opp) = Inr ()" "audit_on s"
    "next_request_no (actor_tenant a) (clock_now s) db = Inr (db1, no)"
    "create_request_row (clock_now s) (new_presale_request s a key inp opp name (fst hs) cipher no) db1 = Inr (db2, r)"
    "create_instance (clock_now s) (new_instance s a r rule) db2 = Inr (db3, i)"
    "db' = db3\<lparr>notices := ns, audits := snd (insert_row \<lparr>row_id = 0, tenant_id = actor_tenant a, au_operation = ''CREATE'',
       au_resource = row_id r, au_actor = user_id a, au_actor_name = user_name a, au_before = None,
       au_after = request_view r, au_reason = []\<rparr> (audits db3))\<rparr>"
proof -
  from run fresh obtain db1 no db2 db3 i db4 where steps: "ensure_eligible s a (opp_id opp) = Inr ()"
    "next_request_no (actor_tenant a) (clock_now s) db = Inr (db1, no)"
    "create_request_row (clock_now s) (new_presale_request s a key inp opp name (fst hs) cipher no) db1 = Inr (db2, r)"
    "create_instance (clock_now s) (new_instance s a r rule) db2 = Inr (db3, i)"
    and told: "(if notifications_on s then notify_approval_node s (actor_tenant a) r i 1 db3 else Inr db3) = Inr db4"
    and audit: "write_request_audit s a ''CREATE'' (row_id r) None (request_view r) [] db4 = Inr db'"
    unfolding create_tx_def by (auto split: sum.splits)
  from told_notices [OF told] obtain ns where db4: "db4 = db3\<lparr>notices := ns\<rparr>" by blast
  from audit have "audit_on s" "db' = db3\<lparr>notices := ns, audits := snd (insert_row \<lparr>row_id = 0, tenant_id = actor_tenant a, au_operation = ''CREATE'',
       au_resource = row_id r, au_actor = user_id a, au_actor_name = user_name a, au_before = None,
       au_after = request_view r, au_reason = []\<rparr> (audits db3))\<rparr>"
    by (auto simp: write_request_audit_def db4 split: if_splits)
  with steps that show thesis by blast
qed

lemma next_request_no_same: "next_request_no t at db = Inr (db', n) \<Longrightarrow>
   requests db' = requests db \<and> instances db' = instances db \<and> assignments db' = assignments db \<and>
   status_logs db' = status_logs db \<and> audits db' = audits db \<and> worklogs db' = worklogs db"
  by (auto dest!: next_request_no_frame)

text \<open>What these writes leave behind, table by table.\<close>

definition opened ::
  "service \<Rightarrow> actor \<Rightarrow> string \<Rightarrow> create_input \<Rightarrow> opportunity_snapshot \<Rightarrow> string \<Rightarrow> approval_rule option \<Rightarrow>
     presale_db \<Rightarrow> presale_db \<Rightarrow> presale_request \<Rightarrow> bool" where
  "opened s a key inp opp name rule db db' r \<longleftrightarrow>
     (\<exists>no cipher. r = (new_presale_request s a key inp opp name (fst (create_hashes s a inp)) cipher no)
        \<lparr>created_at := clock_now s, updated_at := clock_now s, row_id := next_id (requests db)\<rparr>) \<and>
     requests db' = \<lparr>rows = rows (requests db) @ [stored_request r], next_id = Suc (next_id (requests db))\<rparr> \<and>
     (\<forall>y \<in> set (rows (requests db)). tenant_id y = tenant_id r \<longrightarrow> create_key y \<noteq> create_key r \<and> request_no y \<noteq> request_no r) \<and>
     (\<exists>i. i = (new_instance s a r rule)
          \<lparr>created_at := clock_now s, updated_at := clock_now s, row_id := next_id (instances db)\<rparr> \<and>
        rows (instances db') = rows (instances db) @ [i] \<and>
        (\<forall>x \<in> set (rows (instances db)). tenant_id x = actor_tenant a \<longrightarrow> inst_request x \<noteq> row_id r)) \<and>
     (\<exists>au. rows (audits db') = rows (audits db) @ [au] \<and> au_operation au = ''CREATE'' \<and> au_resource au = row_id r \<and>
        au_actor au = user_id a \<and> au_before au = None \<and> au_after au = request_view r) \<and>
     assignments db' = assignments db \<and> status_logs db' = status_logs db \<and> worklogs db' = worklogs db"

lemma create_tx_opened:
  assumes run: "create_tx s a key inp opp name (create_hashes s a inp) cipher rule db = Inr (db', r)"
    and fresh: "find_request_by_create_key (actor_tenant a) key db = None"
  shows "opened s a key inp opp name rule db db' r \<and> ensure_eligible s a (opp_id opp) = Inr ()"
proof -
  from create_tx_steps [OF run fresh] obtain no db1 db2 db3 i ns where
    gate: "ensure_eligible s a (opp_id opp) = Inr ()" and
    no: "next_request_no (actor_tenant a) (clock_now s) db = Inr (db1, no)" and
    row: "create_request_row (clock_now s)
      (new_presale_request s a key inp opp name (fst (create_hashes s a inp)) cipher no) db1 = Inr (db2, r)" and
    inst: "create_instance (clock_now s) (new_instance s a r rule) db2 = Inr (db3, i)" and
    db': "db' = db3\<lparr>notices := ns, audits := snd (insert_row \<lparr>row_id = 0, tenant_id = actor_tenant a, au_operation = ''CREATE'',
       au_resource = row_id r, au_actor = user_id a, au_actor_name = user_name a, au_before = None,
       au_after = request_view r, au_reason = []\<rparr> (audits db3))\<rparr>" .
  note same = next_request_no_same [OF no]
  from row same have r: "r = (new_presale_request s a key inp opp name (fst (create_hashes s a inp)) cipher no)
        \<lparr>created_at := clock_now s, updated_at := clock_now s, row_id := next_id (requests db)\<rparr>"
    "requests db2 = \<lparr>rows = rows (requests db) @ [stored_request r], next_id = Suc (next_id (requests db))\<rparr>"
    "instances db2 = instances db" "assignments db2 = assignments db" "status_logs db2 = status_logs db" "audits db2 = audits db"
    "worklogs db2 = worklogs db"
    "\<forall>y \<in> set (rows (requests db)). tenant_id y = tenant_id r \<longrightarrow> create_key y \<noteq> create_key r \<and> request_no y \<noteq> request_no r"
    by (auto simp: create_request_row_def insert_row_def exists_row_iff Let_def)
  from inst r have i: "rows (instances db3) = rows (instances db) @ [(new_instance s a r rule)
        \<lparr>created_at := clock_now s, updated_at := clock_now s, row_id := next_id (instances db)\<rparr>]"
    "\<forall>x \<in> set (rows (instances db)). tenant_id x = actor_tenant a \<longrightarrow> inst_request x \<noteq> row_id r"
    "requests db3 = requests db2" "assignments db3 = assignments db" "status_logs db3 = status_logs db" "audits db3 = audits db"
    "worklogs db3 = worklogs db"
    by (auto simp: create_instance_def insert_row_def exists_row_iff new_instance_def)
  show ?thesis unfolding opened_def using gate r i db'
    by (intro conjI) (auto simp: insert_row_def simp del: One_nat_def)
qed

lemma find_snoc: "List.find p (xs @ [y]) = (case List.find p xs of Some z \<Rightarrow> Some z | None \<Rightarrow> if p y then Some y else None)"
  by (induction xs) auto

lemma find_row_append:
  "rows t' = rows t @ [x] \<Longrightarrow>
     find_row p t' = (case find_row p t of Some y \<Rightarrow> Some y | None \<Rightarrow> if p x then Some x else None)"
  by (simp add: find_row_def find_snoc)

lemma find_row_beyond:
  "table_wf t \<Longrightarrow> (\<And>x. p x \<Longrightarrow> next_id t \<le> row_id x) \<Longrightarrow> find_row p t = None"
  by (force simp: find_row_None table_wf_def)

lemma opened_row:
  assumes "opened s a key inp opp name rule db db' r"
  shows "tenant_id r = actor_tenant a" "applicant_id r = user_id a" "created_by r = user_id a"
    "opportunity_id r = opp_id opp" "status r = PendingApproval" "current_node r = 1" "version r = 1"
    "deleted_at r = None" "team_lead r = []" "create_key r = key" "create_hash r = fst (create_hashes s a inp)"
    "row_id r = next_id (requests db)"
  using assms by (auto simp: opened_def new_presale_request_def)

lemma opened_finds:
  assumes o: "opened s a key inp opp name rule db db' r" and wf: "table_wf (requests db)"
  shows "find_request t q db' = (if (t, q) = (actor_tenant a, row_id r) then Some (stored_request r) else find_request t q db)"
    and "find_request_by_create_key (actor_tenant a) key db = None \<Longrightarrow>
           find_request_by_create_key (actor_tenant a) key db' = Some (stored_request r)"
proof -
  have rows': "rows (requests db') = rows (requests db) @ [stored_request r]" using o by (simp add: opened_def)
  have none: "find_request t (row_id r) db = None"
    unfolding find_request_def
    by (rule find_row_beyond [OF wf]) (simp add: is_request_def opened_row [OF o])
  show "find_request t q db' = (if (t, q) = (actor_tenant a, row_id r) then Some (stored_request r) else find_request t q db)"
    using none find_row_append [OF rows'] opened_row [OF o]
    by (auto simp: find_request_def is_request_def split: option.splits)
  show "find_request_by_create_key (actor_tenant a) key db = None \<Longrightarrow>
      find_request_by_create_key (actor_tenant a) key db' = Some (stored_request r)"
    using find_row_append [OF rows'] opened_row [OF o] by (simp add: find_request_by_create_key_def)
qed

lemma opened_instance:
  assumes o: "opened s a key inp opp name rule db db' r"
  shows "\<exists>i. find_instance (actor_tenant a) (row_id r) db' = Some i \<and> inst_status i = ''PENDING'' \<and> inst_node i = 1 \<and>
      inst_nodes i = (case rule of None \<Rightarrow> NodesEmpty | Some x \<Rightarrow> Nodes (nodes x)) \<and>
      started_at i = Some (approval_round_start (clock_now s)) \<and> last_event_seq i = 0"
    and "(t, q) \<noteq> (actor_tenant a, row_id r) \<Longrightarrow> find_instance t q db' = find_instance t q db"
proof -
  from o obtain i where i: "i = (new_instance s a r rule)
       \<lparr>created_at := clock_now s, updated_at := clock_now s, row_id := next_id (instances db)\<rparr>"
    "rows (instances db') = rows (instances db) @ [i]"
    "\<forall>x \<in> set (rows (instances db)). tenant_id x = actor_tenant a \<longrightarrow> inst_request x \<noteq> row_id r"
    unfolding opened_def by blast
  have "find_instance (actor_tenant a) (row_id r) db = None"
    using i(3) by (auto simp: find_instance_def find_row_None)
  with i(1) find_row_append [OF i(2)]
  show "\<exists>i. find_instance (actor_tenant a) (row_id r) db' = Some i \<and> inst_status i = ''PENDING'' \<and> inst_node i = 1 \<and>
      inst_nodes i = (case rule of None \<Rightarrow> NodesEmpty | Some x \<Rightarrow> Nodes (nodes x)) \<and>
      started_at i = Some (approval_round_start (clock_now s)) \<and> last_event_seq i = 0"
    by (simp add: find_instance_def new_instance_def)
  show "(t, q) \<noteq> (actor_tenant a, row_id r) \<Longrightarrow> find_instance t q db' = find_instance t q db"
    using i(1) find_row_append [OF i(2)] by (auto simp: find_instance_def new_instance_def split: option.splits)
qed

section \<open>How the database evolves\<close>

lemma opened_evolves:
  assumes o: "opened s a key inp opp name rule db db' r"
  shows "evolves db db'"
proof -
  have "new_request (requests db) (stored_request r)" using opened_row [OF o] o by (simp add: new_request_def opened_def)
  with o show ?thesis unfolding evolves_def
    by (intro exI [of _ "rows (requests db)"] exI [of _ "[stored_request r]"] exI [of _ "[]"])
       (use path_list_refl opened_row [OF o] in \<open>auto simp: opened_def\<close>)
qed

lemma opened_crew:
  assumes o: "opened s a key inp opp name rule db db' r"
  shows "crew_frame db db'"
proof -
  have rows': "requests db' = \<lparr>rows = rows (requests db) @ [stored_request r], next_id = Suc (next_id (requests db))\<rparr>"
    "assignments db' = assignments db" using o by (simp_all add: opened_def)
  have "table_wf (requests db')" if "table_wf (requests db)"
    using that rows' opened_row [OF o] by (auto simp: table_wf_def)
  moreover have "(\<exists>x. find_request t i db = Some x \<and> team_lead r' = team_lead x) \<or>
      next_id (requests db) \<le> i \<and> team_lead r' = []" if "find_request t i db' = Some r'" for t i r'
    using that find_row_append [of "requests db'" "requests db" "stored_request r" "is_request t i"] rows' opened_row [OF o]
    by (auto simp: find_request_def is_request_def split: option.splits if_splits)
  ultimately show ?thesis using rows' by (simp add: crew_frame_def)
qed

section \<open>Creation\<close>

text \<open>The loser of a race for a unique key looks again for the winner.\<close>

lemma case_race_eq_Inr [simp]:
  "(case m of Inl e \<Rightarrow> (case f of None \<Rightarrow> Inl e | Some x \<Rightarrow> g x) | Inr x \<Rightarrow> Inr x) = Inr y \<longleftrightarrow>
     m = Inr y \<or> (\<exists>e x. m = Inl e \<and> f = Some x \<and> g x = Inr y)"
  by (cases m; cases f) auto

text \<open>A creation answers with the request of its key, or opens a new one.\<close>

lemma create_request_cases:
  assumes run: "create_request s a key inp db = Inr (db', r)"
  obtains opp where "get_accessible s a (in_opportunity inp) = Inr opp" "can a ''presale.create''" "validate_create inp = Inr ()"
    "find_request_by_create_key (actor_tenant a) (trim_space key) db = Some r"
    "same_create_replay r a (opp_id opp) (fst (create_hashes s a inp)) (snd (create_hashes s a inp))" "db' = db"
  | opp name rule where "get_accessible s a (in_opportunity inp) = Inr opp" "can a ''presale.create''" "validate_create inp = Inr ()"
    "find_request_by_create_key (actor_tenant a) (trim_space key) db = None"
    "actor_display_name s a = Inr name" "matched_rule s a inp (opp_id opp) = Inr rule"
    "opened s a (trim_space key) inp opp name rule db db' r" "ensure_eligible s a (opp_id opp) = Inr ()"
proof -
  from run obtain opp name where pre: "get_accessible s a (in_opportunity inp) = Inr opp" "can a ''presale.create''"
    "validate_create inp = Inr ()" and name: "actor_display_name s a = Inr name"
    unfolding create_request_def by (auto simp: Let_def)
  show thesis
  proof (cases "find_request_by_create_key (actor_tenant a) (trim_space key) db")
    case (Some old)
    with run pre name have "same_create_replay old a (opp_id opp) (fst (create_hashes s a inp)) (snd (create_hashes s a inp))"
      "db' = db" "r = old"
      unfolding create_request_def by (auto simp: Let_def create_replay_of_def)
    with that(1) [OF pre] Some show thesis by blast
  next
    case None
    with run pre name obtain cipher rule where rule: "matched_rule s a inp (opp_id opp) = Inr rule" and
      tx: "create_tx s a (trim_space key) inp opp name (create_hashes s a inp) cipher rule db = Inr (db', r)"
      unfolding create_request_def by (auto simp: Let_def)
    from that(2) [OF pre None name rule] create_tx_opened [OF tx None] show thesis by blast
  qed
qed

lemma create_request_evolves: "create_request s a key inp db = Inr (db', r) \<Longrightarrow> evolves db db'"
  by (erule create_request_cases) (auto intro: opened_evolves)

lemma create_request_crew: "create_request s a key inp db = Inr (db', r) \<Longrightarrow> crew_frame db db'"
  by (erule create_request_cases) (auto intro: opened_crew crew_frame_same)

text \<open>A repetition, in whatever spelling of the key, at whatever time.\<close>

lemma create_request_replayed:
  assumes "can a ''presale.create''" "trim_space key \<noteq> []" "length (trim_space key) \<le> 128" "validate_create inp = Inr ()"
    and "get_accessible s a (in_opportunity inp) = Inr opp" "actor_display_name s a = Inr name"
    and "find_request_by_create_key (actor_tenant a) (trim_space key) db = Some r"
  shows "create_request s a key inp db =
     (if same_create_replay r a (opp_id opp) (fst (create_hashes s a inp)) (snd (create_hashes s a inp)) then Inr (db, r)
      else Inl ErrIdempotencyConflict)"
  using assms by (simp add: create_request_def Let_def create_replay_of_def)

lemma opened_replay:
  "opened s a key inp opp name rule db db' r \<Longrightarrow>
     same_create_replay (stored_request r) a (opp_id opp) (fst (create_hashes s a inp)) (snd (create_hashes s a inp))"
  by (simp add: same_create_replay_def opened_row)

text \<open>
  C34. Creating a request is idempotent by its key: repeating the call with the same key
  (spelled with other surrounding white space, at any later time), the same input and the
  same caller changes nothing, so that the request, its approval instance, its audit entry and
  its notifications exist once, and it answers with the request of the first call. When the
  first call opened the request the repetition shows the row as stored: its times rounded to
  whole milliseconds, where the first answer shows them as sent.
\<close>

theorem creation_idempotent:
  assumes "create_request s a key inp db = Inr (db', r)" "table_wf (requests db)"
    and "trim_space key' = trim_space key"
  shows "create_request (s\<lparr>clock_now := t\<rparr>) a key' inp db' =
    Inr (db', if find_request_by_create_key (actor_tenant a) (trim_space key) db = None then stored_request r else r)"
proof -
  let ?s = "s\<lparr>clock_now := t\<rparr>"
  from assms(1) have key: "trim_space key \<noteq> []" "length (trim_space key) \<le> 128"
    unfolding create_request_def by (auto simp: Let_def split: if_splits)
  from assms(1) obtain name where name: "actor_display_name s a = Inr name"
    unfolding create_request_def by (auto simp: Let_def)
  have same: "create_hashes ?s a inp = create_hashes s a inp" "get_accessible ?s = get_accessible s"
    "actor_display_name ?s a = Inr name"
    using name by (simp_all add: create_hashes_def actor_display_name_def cong: if_cong)
  note replayed = create_request_replayed [of a key' inp ?s, OF _ _ _ _ _ same(3), unfolded same assms(3), OF _ key]
  from assms(1) show ?thesis
  proof (cases rule: create_request_cases)
    case (1 opp)
    from replayed [OF 1(2,3,1,4)] 1 show ?thesis by simp
  next
    case (2 opp n rule)
    from replayed [OF 2(2,3,1) opened_finds(2) [OF 2(7) assms(2) 2(4)]] opened_replay [OF 2(7)] 2(4) show ?thesis by simp
  qed
qed

text \<open>
  A creation that returns always returns a request of the caller's own: in the caller's
  tenant, submitted by the caller, for the opportunity the call names and may access; and
  either the key already belonged to exactly that request and nothing was written, or the
  key was free. So a guessed key never reveals somebody else's request.
\<close>

theorem creation_key_private:
  assumes "create_request s a key inp db = Inr (db', r)"
  shows "tenant_id r = actor_tenant a \<and> applicant_id r = user_id a \<and> created_by r = user_id a \<and>
    create_key r = trim_space key \<and> deleted_at r = None \<and>
    (\<exists>opp. get_accessible s a (in_opportunity inp) = Inr opp \<and> opportunity_id r = opp_id opp) \<and>
    (find_request_by_create_key (actor_tenant a) (trim_space key) db = Some r \<and> db' = db \<or>
     find_request_by_create_key (actor_tenant a) (trim_space key) db = None)"
  using assms
proof (cases rule: create_request_cases)
  case (1 opp)
  moreover from 1(4) have "tenant_id r = actor_tenant a" "create_key r = trim_space key" "deleted_at r = None"
    by (auto simp: find_request_by_create_key_def dest: find_row_Some)
  ultimately show ?thesis by (auto simp: same_create_replay_def)
next
  case (2 opp name rule)
  then show ?thesis by (simp add: opened_row [OF 2(7)])
qed

text \<open>
  A creation whose key is free checks the caller's permission, the input, and that the
  opportunity may still take a request, and opens the approval: a new request in its first
  node, pending approval, with the approval instance of the matching rule, whose round has
  started, and one audit entry that shows the request as stored. No other request and no
  other instance changes, nobody is assigned, and nothing is logged as a move.
\<close>

theorem creation_opens_approval:
  assumes run: "create_request s a key inp db = Inr (db', r)" and wf: "table_wf (requests db)"
    and free: "find_request_by_create_key (actor_tenant a) (trim_space key) db = None"
  shows "can a ''presale.create'' \<and> validate_create inp = Inr () \<and> ensure_eligible s a (opportunity_id r) = Inr () \<and>
    find_request (actor_tenant a) (row_id r) db = None \<and> find_request (actor_tenant a) (row_id r) db' = Some (stored_request r) \<and>
    status r = PendingApproval \<and> current_node r = 1 \<and> version r = 1 \<and> team_lead r = [] \<and>
    (\<exists>rule i. matched_rule s a inp (opportunity_id r) = Inr rule \<and>
       find_instance (actor_tenant a) (row_id r) db' = Some i \<and> inst_status i = ''PENDING'' \<and> inst_node i = 1 \<and>
       inst_nodes i = (case rule of None \<Rightarrow> NodesEmpty | Some x \<Rightarrow> Nodes (nodes x)) \<and>
       started_at i = Some (approval_round_start (clock_now s)) \<and> last_event_seq i = 0) \<and>
    (\<exists>au. rows (audits db') = rows (audits db) @ [au] \<and> au_operation au = ''CREATE'' \<and> au_resource au = row_id r \<and>
       au_actor au = user_id a \<and> au_before au = None \<and> au_after au = request_view r) \<and>
    (\<forall>t q. (t, q) \<noteq> (actor_tenant a, row_id r) \<longrightarrow>
       find_request t q db' = find_request t q db \<and> find_instance t q db' = find_instance t q db) \<and>
    assignments db' = assignments db \<and> status_logs db' = status_logs db"
  using run
proof (cases rule: create_request_cases)
  case (1 opp)
  with free show ?thesis by simp
next
  case (2 opp name rule)
  note o = 2(7)
  have new: "find_request (actor_tenant a) (row_id r) db = None"
    unfolding find_request_def by (rule find_row_beyond [OF wf]) (simp add: is_request_def opened_row [OF o])
  have audit: "\<exists>au. rows (audits db') = rows (audits db) @ [au] \<and> au_operation au = ''CREATE'' \<and> au_resource au = row_id r \<and>
       au_actor au = user_id a \<and> au_before au = None \<and> au_after au = request_view r"
    and same: "assignments db' = assignments db" "status_logs db' = status_logs db" using o by (simp_all add: opened_def)
  have others: "find_request t q db' = find_request t q db \<and> find_instance t q db' = find_instance t q db"
    if "(t, q) \<noteq> (actor_tenant a, row_id r)" for t q
    using opened_finds(1) [OF o wf] opened_instance(2) [OF o that] that by auto
  have "find_request (actor_tenant a) (row_id r) db' = Some (stored_request r)" using opened_finds(1) [OF o wf] by simp
  with 2 opened_instance(1) [OF o] new audit same others show ?thesis
    by (intro conjI) (auto simp only: opened_row [OF o] simp_thms)
qed

section \<open>Resubmission\<close>

lemma resubmitted_same [simp]:
  "row_id (resubmitted s a inp cipher x) = row_id x" "tenant_id (resubmitted s a inp cipher x) = tenant_id x"
  "deleted_at (resubmitted s a inp cipher x) = deleted_at x" "team_lead (resubmitted s a inp cipher x) = team_lead x"
  by (simp_all add: resubmitted_def)

lemma resubmitted_row_same [simp]:
  "row_id (resubmitted_row s a inp cipher x) = row_id x" "tenant_id (resubmitted_row s a inp cipher x) = tenant_id x"
  "deleted_at (resubmitted_row s a inp cipher x) = deleted_at x" "team_lead (resubmitted_row s a inp cipher x) = team_lead x"
  by (simp_all add: resubmitted_row_def)

lemma resubmitted_identity: "keeps_identity (resubmitted_row s a inp cipher)"
  by (simp add: keeps_identity_def)

text \<open>The rows a resubmission reads, its one write on the request, and what it adds.\<close>

definition round_restarted :: "service \<Rightarrow> actor \<Rightarrow> approval_instance \<Rightarrow> approval_instance" where
  "round_restarted s a x = x\<lparr>inst_status := ''PENDING'', inst_node := 1, pending_task := [], pending_approver := [],
     pending_action := [], finished_at := None, started_at := Some (approval_round_start (clock_now s)), updated_by := user_id a\<rparr>"

definition reopened ::
  "service \<Rightarrow> actor \<Rightarrow> nat \<Rightarrow> nat \<Rightarrow> request_fields \<Rightarrow> string \<Rightarrow> presale_db \<Rightarrow> presale_request \<Rightarrow> presale_db \<Rightarrow> presale_request \<Rightarrow> bool" where
  "reopened s a req ver inp cipher db r db' r' \<longleftrightarrow>
     find_request (actor_tenant a) req db = Some r \<and> (status r = Rejected \<or> status r = Cancelled) \<and> version r = ver \<and>
     (applicant_id r = user_id a \<or> has_role a ''crm_super_admin'') \<and> ensure_eligible s a (opportunity_id r) = Inr () \<and>
     r' = resubmitted s a inp cipher (r\<lparr>version := version r + 1\<rparr>) \<and>
     (\<exists>db1 r1. update_request_versioned (clock_now s) r (version r) (resubmitted_row s a inp cipher) db = Inr (db1, r1) \<and>
        requests db' = requests db1) \<and>
     (\<exists>i. find_instance (actor_tenant a) req db = Some i \<and>
        instances db' = instances (update_instance (clock_now s) i (round_restarted s a) db)) \<and>
     (\<exists>l. rows (status_logs db') = rows (status_logs db) @ [l] \<and> tenant_id l = tenant_id r \<and> sl_request l = row_id r \<and>
        sl_from l = status r \<and> sl_to l = PendingApproval \<and> sl_trigger l = ''REOPENED'' \<and> sl_operator l = user_id a) \<and>
     (\<exists>au. rows (audits db') = rows (audits db) @ [au] \<and> au_operation au = ''UPDATE'' \<and> au_resource au = row_id r \<and>
        au_actor au = user_id a \<and> au_before au = Some (request_view r) \<and> au_after au = request_view r') \<and>
     assignments db' = assignments db \<and> replays db' = replays db \<and> worklogs db' = worklogs db"

lemma reopen_tx_reopened:
  "ok (reopen_tx s a req ver inp cipher db) (\<lambda>(db', r'). \<exists>r. reopened s a req ver inp cipher db r db' r')"
  unfolding reopen_tx_def
proof (intro ok_intro, goal_cases)
  case (1 r x i now y db1 r1 r2 db2 i2 db3 db4)
  note up = \<open>update_request_versioned _ _ _ _ _ = _\<close> [unfolded \<open>y = _\<close>]
  obtain ns where db3: "db3 = db2\<lparr>notices := ns\<rparr>" using told_notices [OF 1(12)] by blast
  have f: "(\<lambda>x. x\<lparr>inst_status := ''PENDING'', inst_node := 1, pending_task := [], pending_approver := [],
      pending_action := [], finished_at := None, started_at := Some now, updated_by := user_id a\<rparr>) = round_restarted s a"
    using 1(6) by (auto simp: round_restarted_def)
  have db1: "r1 = r\<lparr>version := version r + 1\<rparr>" "instances db1 = instances db" "audits db1 = audits db"
    "status_logs db1 = status_logs db" "assignments db1 = assignments db" "replays db1 = replays db" "worklogs db1 = worklogs db"
    using up by (auto simp: update_request_versioned_Inr versioned_update_Inr)
  have r2': "r2 = resubmitted s a inp cipher (r\<lparr>version := version r + 1\<rparr>)" using 1(9) db1(1) by simp
  have r2: "row_id r2 = row_id r" "tenant_id r2 = tenant_id r"
    unfolding 1(9) db1 by simp_all
  have db2: "requests db2 = requests db1" "instances db2 = instances (update_instance (clock_now s) i (round_restarted s a) db)"
    "audits db2 = audits db" "status_logs db2 = status_logs db" "assignments db2 = assignments db" "replays db2 = replays db" "worklogs db2 = worklogs db"
    unfolding 1(10) f using db1 by (simp_all add: update_instance_def)
  have db4: "audit_on s \<and> db4 = (status_log_entry s r2 (status r) PendingApproval ''REOPENED'' [] (user_id a) (trace_id a) db3)
      \<lparr>audits := snd (insert_row \<lparr>row_id = 0, tenant_id = actor_tenant a, au_operation = ''UPDATE'',
         au_resource = row_id r2, au_actor = user_id a, au_actor_name = user_name a, au_before = Some (request_view r),
         au_after = request_view r2, au_reason = []\<rparr> (audits db3))\<rparr>"
    using 1(13) by (auto simp: write_request_audit_def status_log_entry_def create_status_log_def split: if_splits)
  have logs: "requests (status_log_entry s r2 u v g e w tr d) = requests d" "instances (status_log_entry s r2 u v g e w tr d) = instances d"
    "assignments (status_log_entry s r2 u v g e w tr d) = assignments d" "replays (status_log_entry s r2 u v g e w tr d) = replays d"
    "worklogs (status_log_entry s r2 u v g e w tr d) = worklogs d"
    for u v g e w tr d by (simp_all add: status_log_entry_def create_status_log_def)
  show ?case unfolding prod.case reopened_def
    by (intro exI [of _ r] conjI; (rule exI [of _ i] exI [of _ db1])?)
      (use 1(1-5) up db1 r2' in \<open>auto simp: db2 db3 db4 logs r2 fst_insert_row\<close>)
qed

lemma reopen_request_reopened:
  assumes "reopen_request s a req ver inp db = Inr (db', r')"
  obtains cipher r where "can a ''presale.create''" "validate_create (as_create_input inp) = Inr ()"
    "reopened s a req ver inp cipher db r db' r'"
proof -
  from assms obtain cipher where "can a ''presale.create''" "validate_create (as_create_input inp) = Inr ()"
    and tx: "reopen_tx s a req ver inp cipher db = Inr (db', r')"
    unfolding reopen_request_def by auto
  with that okD [OF reopen_tx_reopened tx] show thesis by auto
qed

lemma reopened_evolves:
  assumes o: "reopened s a req ver inp cipher db r db' r'" and wf: "table_wf (requests db)"
  shows "evolves db db'"
proof -
  from o obtain db1 r1 l where r: "find_request (actor_tenant a) req db = Some r" "status r = Rejected \<or> status r = Cancelled"
    and up: "update_request_versioned (clock_now s) r (version r) (resubmitted_row s a inp cipher) db = Inr (db1, r1)"
      "requests db' = requests db1"
    and l: "rows (status_logs db') = rows (status_logs db) @ [l]" "tenant_id l = tenant_id r" "sl_request l = row_id r"
      "sl_from l = status r" "sl_to l = PendingApproval"
    unfolding reopened_def by blast
  show ?thesis
    by (rule evolves_moved [OF wf r(1) up(1) refl up(2)])
       (use r(2) l in \<open>auto simp: request_edge_simps resubmitted_row_def resubmitted_def logged_def\<close>)
qed

lemma reopen_request_evolves:
  "reopen_request s a req ver inp db = Inr (db', r') \<Longrightarrow> table_wf (requests db) \<Longrightarrow> evolves db db'"
  by (erule reopen_request_reopened) (rule reopened_evolves)

lemma reopen_request_crew:
  assumes "reopen_request s a req ver inp db = Inr (db', r')"
  shows "crew_frame db db'"
  using assms
proof (rule reopen_request_reopened)
  fix cipher r
  assume "reopened s a req ver inp cipher db r db' r'"
  then obtain db1 r1 where up: "update_request_versioned (clock_now s) r (version r) (resubmitted_row s a inp cipher) db = Inr (db1, r1)"
    and same: "requests db' = requests db1" "assignments db' = assignments db"
    unfolding reopened_def by blast
  have "crew_frame db db1"
    by (rule crew_frame_update [OF up resubmitted_identity]) simp
  moreover have "assignments db1 = assignments db" using crew_after_update [OF up refl] by simp
  ultimately show ?thesis using same by (elim crew_frame_trans) (simp add: crew_frame_same)
qed

text \<open>
  A rejected or cancelled request is resubmitted by its applicant or a super
  administrator only, with the version they have read, while the opportunity still takes
  requests. The resubmission starts a new approval round at the first node with an instance
  pending and no task, replaces the editable fields and keeps everything else of the
  request (who created it, its number, its opportunity, its key), is logged as a move, and
  leaves one audit entry with the fields before and after. No other request changes.
\<close>

theorem resubmission_restarts_approval:
  assumes "reopen_request s a req ver inp db = Inr (db', r')" and wf: "table_wf (requests db)" "table_wf (instances db)"
  shows "\<exists>r. find_request (actor_tenant a) req db = Some r \<and> status r \<in> {Rejected, Cancelled} \<and> version r = ver \<and>
    (applicant_id r = user_id a \<or> has_role a ''crm_super_admin'') \<and> ensure_eligible s a (opportunity_id r) = Inr () \<and>
    (\<exists>x. find_request (actor_tenant a) req db' = Some x \<and> x = r'\<lparr>updated_at := datetime3 (clock_now s), expected_start := datetime3 (in_start inp), expected_end := datetime3 (in_end inp)\<rparr>) \<and>
    same_origin r r' \<and> status r' = PendingApproval \<and> current_node r' = 1 \<and> version r' = ver + 1 \<and> reject_reason r' = [] \<and>
    cancelled_at r' = None \<and>
    (\<exists>i. find_instance (actor_tenant a) req db' = Some i \<and> inst_status i = ''PENDING'' \<and> inst_node i = 1 \<and>
       pending_task i = [] \<and> pending_approver i = [] \<and> finished_at i = None \<and>
       started_at i = Some (approval_round_start (clock_now s))) \<and>
    (\<exists>l. rows (status_logs db') = rows (status_logs db) @ [l] \<and> sl_request l = req \<and> sl_from l = status r \<and>
       sl_to l = PendingApproval \<and> sl_trigger l = ''REOPENED'' \<and> sl_operator l = user_id a) \<and>
    (\<exists>au. rows (audits db') = rows (audits db) @ [au] \<and> au_operation au = ''UPDATE'' \<and> au_resource au = req \<and>
       au_before au = Some (request_view r) \<and> au_after au = request_view r') \<and>
    (\<forall>t q. (t, q) \<noteq> (actor_tenant a, req) \<longrightarrow> find_request t q db' = find_request t q db)"
  using assms(1)
proof (rule reopen_request_reopened)
  fix cipher r
  assume o: "reopened s a req ver inp cipher db r db' r'"
  then obtain db1 r1 i where r: "find_request (actor_tenant a) req db = Some r" "version r = ver"
    and r': "r' = resubmitted s a inp cipher (r\<lparr>version := version r + 1\<rparr>)"
    and up: "update_request_versioned (clock_now s) r (version r) (resubmitted_row s a inp cipher) db = Inr (db1, r1)"
      "requests db' = requests db1"
    and i: "find_instance (actor_tenant a) req db = Some i"
      "instances db' = instances (update_instance (clock_now s) i (round_restarted s a) db)"
    unfolding reopened_def by blast
  have id: "tenant_id r = actor_tenant a" "row_id r = req" using r by (auto dest: find_request_Some)
  have f: "find_request t q db' = map_option (\<lambda>x. if is_request (tenant_id r) (row_id r) x \<and> version x = version r
      then (resubmitted_row s a inp cipher x)\<lparr>version := version r + 1, updated_at := datetime3 (clock_now s)\<rparr> else x) (find_request t q db)" for t q
    using find_request_updated [OF up(1) resubmitted_identity] find_frames(1) [OF up(2)] by metis
  have own: "\<exists>x. find_request (actor_tenant a) req db' = Some x \<and> x = r'\<lparr>updated_at := datetime3 (clock_now s), expected_start := datetime3 (in_start inp), expected_end := datetime3 (in_end inp)\<rparr>"
    using r id find_request_Some [OF r(1)] by (simp add: f is_request_def r' resubmitted_row_def resubmitted_def)
  have others: "\<forall>t q. (t, q) \<noteq> (actor_tenant a, req) \<longrightarrow> find_request t q db' = find_request t q db"
    by (auto simp: f id map_option_case is_request_def dest: find_request_Some split: option.splits)
  have inst: "find_instance (actor_tenant a) req db' = Some ((round_restarted s a i)\<lparr>updated_at := clock_now s\<rparr>)"
  proof -
    have "find_instance (actor_tenant a) req db' = map_option (\<lambda>x. if row_id x = row_id i \<and> deleted_at x = None
        then (round_restarted s a x)\<lparr>updated_at := clock_now s\<rparr> else x) (find_instance (actor_tenant a) req db)"
      unfolding find_instance_def i(2) update_instance_def
      by (simp add: find_row_update round_restarted_def cong: if_cong)
    moreover have "deleted_at i = None" using i(1) by (auto simp: find_instance_def dest: find_row_Some)
    ultimately show ?thesis using i(1) by simp
  qed
  have "same_origin r r'" "status r' = PendingApproval" "current_node r' = 1" "version r' = ver + 1" "reject_reason r' = []" "cancelled_at r' = None"
    using r(2) by (simp_all add: r' resubmitted_def same_origin_def)
  moreover have "\<exists>i. find_instance (actor_tenant a) req db' = Some i \<and> inst_status i = ''PENDING'' \<and> inst_node i = 1 \<and>
       pending_task i = [] \<and> pending_approver i = [] \<and> finished_at i = None \<and>
       started_at i = Some (approval_round_start (clock_now s))"
    using inst by (simp add: round_restarted_def)
  moreover have "status r \<in> {Rejected, Cancelled}" "applicant_id r = user_id a \<or> has_role a ''crm_super_admin''"
    "ensure_eligible s a (opportunity_id r) = Inr ()"
    "\<exists>l. rows (status_logs db') = rows (status_logs db) @ [l] \<and> sl_request l = req \<and> sl_from l = status r \<and>
       sl_to l = PendingApproval \<and> sl_trigger l = ''REOPENED'' \<and> sl_operator l = user_id a"
    "\<exists>au. rows (audits db') = rows (audits db) @ [au] \<and> au_operation au = ''UPDATE'' \<and> au_resource au = req \<and>
       au_before au = Some (request_view r) \<and> au_after au = request_view r'"
    using o id unfolding reopened_def by auto
  ultimately show ?thesis using r own others by blast
qed

section \<open>Witnesses\<close>

definition sample_create :: create_input where
  "sample_create =
     \<lparr>in_venue = ''REMOTE'', in_address = [], in_contact = ''Cora'', in_phone = ''12345'', in_description = ''demo'',
      in_start = 0, in_end = 1, in_urgency = ''NORMAL'', in_opportunity = 7\<rparr>"

lemma sample_created:
  "\<exists>db' r. create_request sample_service (sample_actor ''sally'' [] [''presale.create'']) ''k1'' sample_create empty_db = Inr (db', r)"
  unfolding create_request_def create_tx_def next_request_no_def next_number_def sequence_date_def
  by (simp add: sample_eval sample_create_def validate_create_def max_description_runes_def actor_display_name_def
      create_hashes_def find_request_by_create_key_def matched_rule_def date_string_2026 pad_nat_def
      create_request_row_def new_presale_request_def create_instance_def new_instance_def write_request_audit_def
      exists_row_def Let_def)

lemma creation_idempotent_witness:
  "\<exists>db' r. create_request sample_service (sample_actor ''sally'' [] [''presale.create'']) ''k1'' sample_create empty_db = Inr (db', r) \<and>
     create_request (sample_service\<lparr>clock_now := 0\<rparr>) (sample_actor ''sally'' [] [''presale.create'']) ''k1'' sample_create db' = Inr (db', stored_request r)"
proof -
  obtain db' r where run: "create_request sample_service (sample_actor ''sally'' [] [''presale.create'']) ''k1'' sample_create empty_db = Inr (db', r)"
    using sample_created by (elim exE) (rule that)
  have "table_wf (requests empty_db)" by (simp add: empty_db_def)
  moreover have "find_request_by_create_key t k empty_db = None" for t k
    by (simp add: find_request_by_create_key_def empty_db_def find_row_def empty_table_def)
  ultimately show ?thesis using run creation_idempotent [OF run _ refl, of 0] by auto
qed

lemma creation_key_private_witness:
  "\<exists>db' r. create_request sample_service (sample_actor ''sally'' [] [''presale.create'']) ''k1'' sample_create empty_db = Inr (db', r) \<and>
     applicant_id r = user_id (sample_actor ''sally'' [] [''presale.create''])"
proof -
  obtain db' r where run: "create_request sample_service (sample_actor ''sally'' [] [''presale.create'']) ''k1'' sample_create empty_db = Inr (db', r)"
    using sample_created by (elim exE) (rule that)
  from creation_key_private [OF run] have "applicant_id r = user_id (sample_actor ''sally'' [] [''presale.create''])"
    by (elim conjE)
  with run show ?thesis by (intro exI conjI)
qed

lemma creation_opens_approval_witness:
  "\<exists>db' r. create_request sample_service (sample_actor ''sally'' [] [''presale.create'']) ''k1'' sample_create empty_db = Inr (db', r) \<and>
     status r = PendingApproval \<and> status_logs db' = status_logs empty_db"
proof -
  obtain db' r where run: "create_request sample_service (sample_actor ''sally'' [] [''presale.create'']) ''k1'' sample_create empty_db = Inr (db', r)"
    using sample_created by (elim exE) (rule that)
  have "table_wf (requests empty_db)" "find_request_by_create_key (actor_tenant (sample_actor ''sally'' [] [''presale.create'']))
      (trim_space ''k1'') empty_db = None"
    by (simp_all add: empty_db_def empty_table_def table_wf_def find_request_by_create_key_def find_row_def)
  from creation_opens_approval [OF run this] run show ?thesis by (elim conjE) (intro exI conjI)
qed

lemma sample_reopened:
  "\<exists>db' r. reopen_request sample_service (sample_actor ''sally'' [] [''presale.create'']) 1 1 (request_fields.truncate sample_create)
      (sample_db (sample_request Rejected 2 []) (sample_instance NodesEmpty 2) []) = Inr (db', r)"
  unfolding reopen_request_def reopen_tx_def
  by (simp add: sample_eval sample_create_def request_fields.defs validate_create_def as_create_input_def max_description_runes_def
      resubmitted_def write_request_audit_def Let_def)

lemma resubmission_restarts_approval_witness:
  "\<exists>db' r. reopen_request sample_service (sample_actor ''sally'' [] [''presale.create'']) 1 1 (request_fields.truncate sample_create)
      (sample_db (sample_request Rejected 2 []) (sample_instance NodesEmpty 2) []) = Inr (db', r) \<and> status r = PendingApproval"
proof -
  obtain db' r where run: "reopen_request sample_service (sample_actor ''sally'' [] [''presale.create'']) 1 1
      (request_fields.truncate sample_create) (sample_db (sample_request Rejected 2 []) (sample_instance NodesEmpty 2) []) = Inr (db', r)"
    using sample_reopened by (elim exE) (rule that)
  have "table_wf (requests (sample_db (sample_request Rejected 2 []) (sample_instance NodesEmpty 2) []))"
    "table_wf (instances (sample_db (sample_request Rejected 2 []) (sample_instance NodesEmpty 2) []))"
    by (simp_all add: sample_db_def sample_request_def sample_instance_def table_wf_def)
  from resubmission_restarts_approval [OF run this] have "status r = PendingApproval" by (elim exE conjE)
  with run show ?thesis by (intro exI conjI)
qed

end
