(* ===== verification/PresaleExecutionFacts.thy ===== *)
theory PresaleExecutionFacts
  imports PresaleExecution PresaleCreateFacts
begin

text \<open>
  What progress, cancellation, worklogs and completion do: who may, what is written, that a
  repetition with the same key writes nothing more, that the worklogs of a person on a
  request never overlap, and how the request evolves.
\<close>

section \<open>Progress\<close>

text \<open>A progress entry is the replay of its key, or went through all its writes.\<close>

definition progress_written ::
  "service \<Rightarrow> actor \<Rightarrow> nat \<Rightarrow> string \<Rightarrow> string \<Rightarrow> progress_input \<Rightarrow> presale_db \<Rightarrow> presale_db \<Rightarrow> progress_log \<Rightarrow> bool" where
  "progress_written s a req key hash inp db db' p \<longleftrightarrow>
     (\<exists>r. find_request (actor_tenant a) req db = Some r \<and> version r = pg_version inp \<and> status r = Executing) \<and>
     person_id a \<in> set (map assignee (list_current_assignments (actor_tenant a) req db)) \<and>
     p = (new_progress s a req key hash (trim_space (pg_content inp)) (trim_space (pg_link inp)) (pg_pct inp))
           \<lparr>row_id := next_id (progress_logs db)\<rparr> \<and>
     find_progress_by_key (actor_tenant a) key db = None \<and> rows (progress_logs db') = rows (progress_logs db) @ [p] \<and>
     (\<exists>t u v. db' = db\<lparr>progress_logs := t, progress_events := u, outbox := v\<rparr>)"

definition progress_hash :: "service \<Rightarrow> actor \<Rightarrow> nat \<Rightarrow> progress_input \<Rightarrow> string" where
  "progress_hash s a req inp = digest_of s (ProgressDigest req (user_id a) (trim_space (pg_content inp))
     (trim_space (pg_link inp)) (pg_pct inp) (pg_version inp))"

lemma create_progress_Inr:
  "create_progress p db = Inr (db', q) \<longleftrightarrow>
     (\<forall>x \<in> set (rows (progress_logs db)). \<not> (tenant_id x = tenant_id p \<and> pl_key x = pl_key p)) \<and>
     q = p\<lparr>row_id := next_id (progress_logs db)\<rparr> \<and> db' = db\<lparr>progress_logs := snd (insert_row p (progress_logs db))\<rparr>"
  by (auto simp: create_progress_def insert_row_def exists_row_iff split: if_splits)

lemma progress_tx_written:
  assumes run: "progress_tx s a req key hash (trim_space (pg_content inp)) (trim_space (pg_link inp)) (pg_pct inp) (pg_version inp) db
      = Inr (db', p)"
    and fresh: "find_progress_by_key (actor_tenant a) key db = None"
  shows "progress_written s a req key hash inp db db' p"
proof -
  let ?cur = "list_current_assignments (actor_tenant a) req db"
  from run fresh obtain r db1 where r: "find_request (actor_tenant a) req db = Some r" "version r = pg_version inp" "status r = Executing"
    and cur: "list_ex (\<lambda>g. assignee g = person_id a) ?cur"
    and row: "create_progress (new_progress s a req key hash (trim_space (pg_content inp)) (trim_space (pg_link inp)) (pg_pct inp)) db = Inr (db1, p)"
    and told: "record_progress_notifications s a r p ?cur db1 = Inr db'"
    unfolding progress_tx_def by (auto simp: Let_def)
  from record_progress_notifications_frame [OF told] obtain t u where "db' = db1\<lparr>progress_events := t, outbox := u\<rparr>" by blast
  with row have "rows (progress_logs db') = rows (progress_logs db) @ [p]"
    "\<exists>t u v. db' = db\<lparr>progress_logs := t, progress_events := u, outbox := v\<rparr>"
    by (auto simp: create_progress_Inr fst_insert_row)
  moreover from cur have "person_id a \<in> set (map assignee ?cur)" by (force simp: list_ex_iff)
  ultimately show ?thesis
    using r row fresh unfolding progress_written_def by (simp add: create_progress_Inr)
qed

lemma add_progress_cases:
  assumes run: "add_progress s a req key inp db = Inr (db', p)"
  obtains "find_progress_by_key (actor_tenant a) (trim_space key) db = Some p" "pl_hash p = progress_hash s a req inp" "db' = db"
    | "progress_written s a req (trim_space key) (progress_hash s a req inp) inp db db' p"
proof (cases "find_progress_by_key (actor_tenant a) (trim_space key) db")
  case (Some old)
  with run have "progress_replay (progress_hash s a req inp) old db = Inr (db', p)"
    unfolding add_progress_def by (simp add: Let_def progress_hash_def split: if_splits)
  then have "pl_hash p = progress_hash s a req inp" "db' = db" "p = old"
    by (auto simp: progress_replay_def split: if_splits)
  with Some that(1) show thesis by blast
next
  case None
  with run have "progress_tx s a req (trim_space key) (progress_hash s a req inp) (trim_space (pg_content inp))
      (trim_space (pg_link inp)) (pg_pct inp) (pg_version inp) db = Inr (db', p)"
    unfolding add_progress_def by (auto simp: Let_def progress_hash_def)
  from progress_tx_written [OF this None] that(2) show thesis by blast
qed

lemma add_progress_guard:
  assumes "add_progress s a req key inp db = Inr (db', p)"
  shows "can a ''presale.progress'' \<and> person_id a \<noteq> [] \<and> trim_space key \<noteq> [] \<and> length (trim_space key) \<le> 128 \<and>
    progress_content_ok s (trim_space (pg_content inp)) (trim_space (pg_link inp)) (pg_pct inp)"
  using assms unfolding add_progress_def by (auto simp: Let_def split: if_splits)

lemma add_progress_same:
  assumes "add_progress s a req key inp db = Inr (db', p)"
  shows "requests db' = requests db \<and> status_logs db' = status_logs db \<and> assignments db' = assignments db \<and>
    worklogs db' = worklogs db \<and> replays db' = replays db \<and> instances db' = instances db"
  using assms by (rule add_progress_cases) (auto simp: progress_written_def)

lemma find_progress_frame:
  "progress_logs db' = progress_logs db \<Longrightarrow> find_progress_by_key t key db' = find_progress_by_key t key db"
  by (simp add: find_progress_by_key_def)

lemma add_progress_stored:
  assumes "add_progress s a req key inp db = Inr (db', p)"
  shows "find_progress_by_key (actor_tenant a) (trim_space key) db' = Some p \<and> pl_hash p = progress_hash s a req inp"
  using assms
proof (cases rule: add_progress_cases)
  case 2
  then have "rows (progress_logs db') = rows (progress_logs db) @ [p]" "tenant_id p = actor_tenant a"
    "pl_key p = trim_space key" "pl_hash p = progress_hash s a req inp"
    "find_progress_by_key (actor_tenant a) (trim_space key) db = None"
    by (simp_all add: progress_written_def new_progress_def)
  then show ?thesis using find_row_append [of "progress_logs db'"] by (simp add: find_progress_by_key_def)
qed simp

text \<open>
  A progress entry is written only by a current executor of a request under execution,
  with the version they have read, as plain text without tags and with an https link or
  none; the entry is the only row it adds to the timeline, and the request, its status log
  and its assignments stay as they are. With a used key nothing is written.
\<close>

theorem progress_by_current_executor:
  assumes "add_progress s a req key inp db = Inr (db', p)"
  shows "can a ''presale.progress'' \<and>
    progress_content_ok s (trim_space (pg_content inp)) (trim_space (pg_link inp)) (pg_pct inp) \<and>
    requests db' = requests db \<and> status_logs db' = status_logs db \<and> assignments db' = assignments db \<and>
    (find_progress_by_key (actor_tenant a) (trim_space key) db \<noteq> None \<and> db' = db \<or>
     person_id a \<in> set (map assignee (list_current_assignments (actor_tenant a) req db)) \<and>
     (\<exists>r. find_request (actor_tenant a) req db = Some r \<and> version r = pg_version inp \<and> status r = Executing) \<and>
     pl_author p = user_id a \<and> pl_request p = req \<and> pl_content p = trim_space (pg_content inp) \<and>
     rows (progress_logs db') = rows (progress_logs db) @ [p])"
proof -
  have "find_progress_by_key (actor_tenant a) (trim_space key) db \<noteq> None \<and> db' = db \<or>
     person_id a \<in> set (map assignee (list_current_assignments (actor_tenant a) req db)) \<and>
     (\<exists>r. find_request (actor_tenant a) req db = Some r \<and> version r = pg_version inp \<and> status r = Executing) \<and>
     pl_author p = user_id a \<and> pl_request p = req \<and> pl_content p = trim_space (pg_content inp) \<and>
     rows (progress_logs db') = rows (progress_logs db) @ [p]"
    using assms
  proof (cases rule: add_progress_cases)
    case 2
    then show ?thesis unfolding progress_written_def by (simp add: new_progress_def)
  qed simp
  with add_progress_guard [OF assms] add_progress_same [OF assms] show ?thesis by blast
qed

text \<open>
  A progress entry is idempotent by its key: a repetition, at any later time and
  whatever happened to the request in between (it may be completed, or the author may have
  left the team), returns the stored entry and writes nothing.
\<close>

theorem progress_idempotent:
  assumes "add_progress s a req key inp db = Inr (db', p)"
    and "trim_space key' = trim_space key" and "progress_logs db2 = progress_logs db'"
  shows "add_progress (s\<lparr>clock_now := t\<rparr>) a req key' inp db2 = Inr (db2, p)"
proof -
  let ?s = "s\<lparr>clock_now := t\<rparr>"
  have ok: "progress_content_ok ?s = progress_content_ok s" by (auto simp: progress_content_ok_def fun_eq_iff)
  have hash: "digest_of ?s = digest_of s" by simp
  note stored = add_progress_stored [OF assms(1)]
  show ?thesis
    using add_progress_guard [OF assms(1)] stored assms(2) find_progress_frame [OF assms(3)]
    by (simp add: add_progress_def Let_def ok progress_replay_def progress_hash_def)
qed

section \<open>Cancellation\<close>

lemma cancel_cases:
  assumes run: "cancel_request s a req key inp db = Inr db'"
  defines "hash \<equiv> mutation_digest s a req ''CANCEL'' ''CANCEL'' (PReason (trim_space (rs_reason inp)) (rs_version inp))"
  obtains old r where "find_request (actor_tenant a) req db = Some r" "cancel_authorize a r = Inr ()"
      "find_replay (actor_tenant a) req (user_id a) (trim_space key) db = Some old"
      "validate_replay old a req ''CANCEL'' ''CANCEL'' hash = Inr ()" "db' = db"
    | r db1 r1 where "find_request (actor_tenant a) req db = Some r" "cancel_authorize a r = Inr ()"
      "find_replay (actor_tenant a) req (user_id a) (trim_space key) db = None" "version r = rs_version inp" "cancel_allowed a r"
      "update_request_versioned (clock_now s) r (version r)
         (\<lambda>x. x\<lparr>status := Cancelled, cancelled_at := Some (datetime3 (clock_now s)), updated_by := user_id a\<rparr>) db = Inr (db1, r1)"
      "create_replay (new_replay a req (trim_space key) ''CANCEL'' ''CANCEL'' hash (version r1) (clock_now s))
         (status_log_entry s r1 (status r) Cancelled ''CANCELLED'' (trim_space (rs_reason inp)) (user_id a) (trace_id a) db1) = Inr db'"
proof (cases "cancel_tx s a req (trim_space key) hash (trim_space (rs_reason inp)) (rs_version inp) db")
  case (Inr db2)
  with run have db2: "db2 = db'" unfolding cancel_request_def hash_def by (simp add: Let_def split: if_splits)
  from Inr obtain r where r: "find_request (actor_tenant a) req db = Some r" "cancel_authorize a r = Inr ()"
    unfolding cancel_tx_def by auto
  show thesis
  proof (cases "find_replay (actor_tenant a) req (user_id a) (trim_space key) db")
    case None
    with Inr r db2 obtain db1 r1 where "version r = rs_version inp" "cancel_allowed a r"
      "update_request_versioned (clock_now s) r (version r)
         (\<lambda>x. x\<lparr>status := Cancelled, cancelled_at := Some (datetime3 (clock_now s)), updated_by := user_id a\<rparr>) db = Inr (db1, r1)"
      "create_replay (new_replay a req (trim_space key) ''CANCEL'' ''CANCEL'' hash (version r1) (clock_now s))
         (status_log_entry s r1 (status r) Cancelled ''CANCELLED'' (trim_space (rs_reason inp)) (user_id a) (trace_id a) db1) = Inr db'"
      unfolding cancel_tx_def by auto
    from that(2) [OF r None this] show thesis .
  next
    case (Some old)
    with Inr r db2 have "validate_replay old a req ''CANCEL'' ''CANCEL'' hash = Inr ()" "db' = db"
      unfolding cancel_tx_def by auto
    from that(1) [OF r Some this] show thesis .
  qed
next
  case (Inl e)
  with run have "is_duplicate_error e" and "\<exists>r. resolve_mutation_race a req (trim_space key) ''CANCEL'' ''CANCEL'' hash e (cancel_authorize a) db = Inr r"
    and "db' = db"
    unfolding cancel_request_def hash_def by (auto simp: Let_def split: if_splits)
  then show thesis using that(1) unfolding resolve_mutation_race_def by auto
qed

lemma replay_written:
  "create_replay m db = Inr db' \<Longrightarrow>
     requests db' = requests db \<and> status_logs db' = status_logs db \<and> assignments db' = assignments db \<and>
     worklogs db' = worklogs db \<and> instances db' = instances db \<and> rows (replays db') = rows (replays db) @ [m\<lparr>row_id := next_id (replays db)\<rparr>]"
  by (auto simp: create_replay_def fst_insert_row split: if_splits)

definition as_cancelled :: "service \<Rightarrow> actor \<Rightarrow> presale_request \<Rightarrow> presale_request" where
  "as_cancelled s a x = x\<lparr>status := Cancelled, cancelled_at := Some (datetime3 (clock_now s)), updated_by := user_id a\<rparr>"

definition as_completed :: "service \<Rightarrow> actor \<Rightarrow> presale_request \<Rightarrow> presale_request" where
  "as_completed s a x = x\<lparr>status := Completed, completed_at := Some (datetime3 (clock_now s)), updated_by := user_id a\<rparr>"

lemma closes_identity: "keeps_identity (as_cancelled s a)" "keeps_identity (as_completed s a)"
  by (simp_all add: keeps_identity_def as_cancelled_def as_completed_def)

text \<open>
  The shape of the two: one logged write on the request, the log entry with its trigger,
  reason and operator, and nobody assigned.
\<close>

definition closes ::
  "service \<Rightarrow> actor \<Rightarrow> nat \<Rightarrow> presale_request \<Rightarrow> (presale_request \<Rightarrow> presale_request) \<Rightarrow> string \<Rightarrow> string \<Rightarrow> presale_db \<Rightarrow> presale_db \<Rightarrow> bool" where
  "closes s a req r f trigger reason db db' \<longleftrightarrow>
     find_request (actor_tenant a) req db = Some r \<and>
     (\<exists>db1 r1. update_request_versioned (clock_now s) r (version r) f db = Inr (db1, r1) \<and> requests db' = requests db1) \<and>
     (\<exists>l. rows (status_logs db') = rows (status_logs db) @ [l] \<and> tenant_id l = tenant_id r \<and> sl_request l = row_id r \<and>
        sl_from l = status r \<and> sl_to l = status (f r) \<and> sl_trigger l = trigger \<and> sl_reason l = reason \<and>
        sl_operator l = user_id a) \<and>
     assignments db' = assignments db \<and> worklogs db' = worklogs db \<and> instances db' = instances db"

lemma closes_evolves:
  assumes c: "closes s a req r f trigger reason db db'" and wf: "table_wf (requests db)"
    and edge: "request_edge r ((f r)\<lparr>version := version r + 1, updated_at := datetime3 (clock_now s)\<rparr>)" and moves: "status (f r) \<noteq> status r"
  shows "evolves db db'"
proof -
  from c obtain db1 r1 l where r: "find_request (actor_tenant a) req db = Some r"
    and up: "update_request_versioned (clock_now s) r (version r) f db = Inr (db1, r1)" "requests db' = requests db1"
    and l: "rows (status_logs db') = rows (status_logs db) @ [l]" "tenant_id l = tenant_id r" "sl_request l = row_id r"
      "sl_from l = status r" "sl_to l = status (f r)"
    unfolding closes_def by blast
  show ?thesis
    by (rule evolves_moved [OF wf r up(1) refl up(2) edge moves]) (use l in \<open>auto simp: logged_def\<close>)
qed

lemma closes_crew:
  assumes c: "closes s a req r f trigger reason db db'" and f: "keeps_identity f" "\<And>x. team_lead (f x) = team_lead x"
  shows "crew_frame db db'"
proof -
  from c obtain db1 r1 where up: "update_request_versioned (clock_now s) r (version r) f db = Inr (db1, r1)"
    and same: "requests db' = requests db1" "assignments db' = assignments db"
    unfolding closes_def by blast
  have "crew_frame db db1" by (rule crew_frame_update [OF up f])
  moreover have "assignments db1 = assignments db" using crew_after_update [OF up refl] by simp
  ultimately show ?thesis using same by (elim crew_frame_trans) (simp add: crew_frame_same)
qed

lemma closes_row:
  assumes c: "closes s a req r f trigger reason db db'" and f: "keeps_identity f"
  shows "find_request (actor_tenant a) req db' = Some ((f r)\<lparr>version := version r + 1, updated_at := datetime3 (clock_now s)\<rparr>)"
    and "(t, q) \<noteq> (actor_tenant a, req) \<Longrightarrow> find_request t q db' = find_request t q db"
proof -
  from c obtain db1 r1 where r: "find_request (actor_tenant a) req db = Some r"
    and up: "update_request_versioned (clock_now s) r (version r) f db = Inr (db1, r1)" "requests db' = requests db1"
    unfolding closes_def by blast
  have id: "tenant_id r = actor_tenant a" "row_id r = req" "deleted_at r = None" using r by (auto dest: find_request_Some)
  note found = find_request_updated [OF up(1) f, folded find_frames(1) [OF up(2)]]
  show "find_request (actor_tenant a) req db' = Some ((f r)\<lparr>version := version r + 1, updated_at := datetime3 (clock_now s)\<rparr>)"
    using found [of "actor_tenant a" req] r id by (simp add: is_request_def)
  show "(t, q) \<noteq> (actor_tenant a, req) \<Longrightarrow> find_request t q db' = find_request t q db"
    using found [of t q] id by (cases "find_request t q db") (auto simp: is_request_def dest: find_request_Some)
qed

lemma cancel_closes:
  assumes up: "update_request_versioned (clock_now s) r (version r) (as_cancelled s a) db = Inr (db1, r1)"
    and r: "find_request (actor_tenant a) req db = Some r"
    and kept: "create_replay m (status_log_entry s r1 (status r) Cancelled ''CANCELLED'' reason (user_id a) tr db1) = Inr db'"
  shows "closes s a req r (as_cancelled s a) ''CANCELLED'' reason db db'"
proof -
  note same = replay_written [OF kept]
  have "r1 = r\<lparr>version := version r + 1\<rparr>" "status_logs db1 = status_logs db" "assignments db1 = assignments db"
    "worklogs db1 = worklogs db" "instances db1 = instances db"
    using up by (auto simp: update_request_versioned_Inr versioned_update_Inr)
  with up r same show ?thesis unfolding closes_def by (auto simp: as_cancelled_def)
qed

lemma cancel_effect:
  assumes run: "cancel_request s a req key inp db = Inr db'"
  obtains old r where "find_request (actor_tenant a) req db = Some r" "cancel_authorize a r = Inr ()"
      "find_replay (actor_tenant a) req (user_id a) (trim_space key) db = Some old" "db' = db"
    | r where "cancel_authorize a r = Inr ()" "version r = rs_version inp" "cancel_allowed a r"
      "find_replay (actor_tenant a) req (user_id a) (trim_space key) db = None"
      "closes s a req r (as_cancelled s a) ''CANCELLED'' (trim_space (rs_reason inp)) db db'"
  using run
proof (cases rule: cancel_cases)
  case (1 old r)
  with that(1) show thesis by blast
next
  case (2 r db1 r1)
  have "as_cancelled s a = (\<lambda>x. x\<lparr>status := Cancelled, cancelled_at := Some (datetime3 (clock_now s)), updated_by := user_id a\<rparr>)"
    by (simp add: as_cancelled_def fun_eq_iff)
  with cancel_closes [OF _ 2(1) 2(7)] 2 that(2) show thesis by simp
qed

lemma cancelled_edge:
  "cancel_allowed a r \<Longrightarrow> request_edge r ((as_cancelled s a r)\<lparr>version := version r + 1, updated_at := t\<rparr>) \<and>
     status (as_cancelled s a r) \<noteq> status r"
  by (auto simp: cancel_allowed_def request_edge_simps as_cancelled_def)

lemma cancel_evolves:
  assumes "cancel_request s a req key inp db = Inr db'" "table_wf (requests db)"
  shows "evolves db db'"
  using assms(1)
proof (cases rule: cancel_effect)
  case (2 r)
  then show ?thesis using closes_evolves [OF 2(5) assms(2)] cancelled_edge [OF 2(3)] by blast
qed auto

lemma cancel_crew: "cancel_request s a req key inp db = Inr db' \<Longrightarrow> crew_frame db db'"
  by (erule cancel_effect) (auto intro: crew_frame_same closes_crew [OF _ closes_identity(1)] simp: as_cancelled_def)

text \<open>
  While a request is in approval only its applicant can cancel it, and from approval to
  the end of the execution only a team lead, a super administrator or a holder of
  presale.cancel; a request that is completed, rejected or cancelled cannot be cancelled.
  A cancellation needs the version the caller has read, and it writes the status, one log
  entry with the reason and operator, and leaves every other request alone. With the key of
  an earlier command of the caller it writes nothing.
\<close>

theorem cancellation_authorized:
  assumes "cancel_request s a req key inp db = Inr db'"
    and fresh: "find_replay (actor_tenant a) req (user_id a) (trim_space key) db = None"
  shows "\<exists>r. find_request (actor_tenant a) req db = Some r \<and> version r = rs_version inp \<and> trim_space (rs_reason inp) \<noteq> [] \<and>
    (status r = PendingApproval \<and> applicant_id r = user_id a \<or>
     status r \<in> {ApprovedPendingAssignment, PendingExecutionAssignment, Executing} \<and>
       (has_role a ''team_lead'' \<or> has_role a ''crm_super_admin'' \<or> can a ''presale.cancel'')) \<and>
    find_request (actor_tenant a) req db' = Some (r\<lparr>status := Cancelled, cancelled_at := Some (datetime3 (clock_now s)),
      updated_by := user_id a, version := version r + 1, updated_at := datetime3 (clock_now s)\<rparr>) \<and>
    (\<exists>l. rows (status_logs db') = rows (status_logs db) @ [l] \<and> sl_request l = req \<and> sl_from l = status r \<and>
       sl_to l = Cancelled \<and> sl_reason l = trim_space (rs_reason inp) \<and> sl_operator l = user_id a) \<and>
    (\<forall>t q. (t, q) \<noteq> (actor_tenant a, req) \<longrightarrow> find_request t q db' = find_request t q db)"
  using assms(1)
proof (cases rule: cancel_effect)
  case (1 old r)
  with fresh show ?thesis by simp
next
  case (2 r)
  note c = 2(5)
  have reason: "trim_space (rs_reason inp) \<noteq> []"
    using assms(1) unfolding cancel_request_def by (auto simp: Let_def split: if_splits)
  have r: "find_request (actor_tenant a) req db = Some r" "row_id r = req" using c by (auto simp: closes_def dest: find_request_Some)
  have log: "\<exists>l. rows (status_logs db') = rows (status_logs db) @ [l] \<and> sl_request l = req \<and> sl_from l = status r \<and>
       sl_to l = Cancelled \<and> sl_reason l = trim_space (rs_reason inp) \<and> sl_operator l = user_id a"
    using c r by (auto simp: closes_def as_cancelled_def)
  have row: "find_request (actor_tenant a) req db' = Some (r\<lparr>status := Cancelled, cancelled_at := Some (datetime3 (clock_now s)),
      updated_by := user_id a, version := version r + 1, updated_at := datetime3 (clock_now s)\<rparr>)"
    using closes_row(1) [OF c closes_identity(1)] by (simp add: as_cancelled_def)
  have who: "status r = PendingApproval \<and> applicant_id r = user_id a \<or>
     status r \<in> {ApprovedPendingAssignment, PendingExecutionAssignment, Executing} \<and>
       (has_role a ''team_lead'' \<or> has_role a ''crm_super_admin'' \<or> can a ''presale.cancel'')"
    using 2(3) by (auto simp: cancel_allowed_def may_cancel_def)
  show ?thesis
    using r(1) 2(2) reason who row log closes_row(2) [OF c closes_identity(1)] by blast
qed

text \<open>
  A cancellation is idempotent by its key: repeated with the same key, reason and
  version by the same caller it succeeds and changes nothing, although the request is
  already cancelled and its version has moved on.
\<close>

theorem cancellation_idempotent:
  assumes run: "cancel_request s a req key inp db = Inr db'" and wf: "table_wf (requests db)"
  shows "cancel_request (s\<lparr>clock_now := t\<rparr>) a req key inp db' = Inr db'"
proof -
  let ?s = "s\<lparr>clock_now := t\<rparr>"
  let ?hash = "mutation_digest s a req ''CANCEL'' ''CANCEL'' (PReason (trim_space (rs_reason inp)) (rs_version inp))"
  have hash: "mutation_digest ?s = mutation_digest s" by (simp add: mutation_digest_def fun_eq_iff)
  have guard: "trim_space key \<noteq> []" "length (trim_space key) \<le> 128" "trim_space (rs_reason inp) \<noteq> []"
    "rune_len (trim_space (rs_reason inp)) \<le> 2000"
    using run unfolding cancel_request_def by (auto simp: Let_def split: if_splits)
  have "\<exists>x m. find_request (actor_tenant a) req db' = Some x \<and> cancel_authorize a x = Inr () \<and>
      find_replay (actor_tenant a) req (user_id a) (trim_space key) db' = Some m \<and>
      validate_replay m a req ''CANCEL'' ''CANCEL'' ?hash = Inr ()"
    using run
  proof (cases rule: cancel_cases)
    case (1 old r)
    then show ?thesis by blast
  next
    case (2 r db1 r1)
    have f: "(\<lambda>x. x\<lparr>status := Cancelled, cancelled_at := Some (datetime3 (clock_now s)), updated_by := user_id a\<rparr>) = as_cancelled s a"
      by (simp add: as_cancelled_def fun_eq_iff)
    from closes_row(1) [OF cancel_closes [OF 2(6) [unfolded f] 2(1,7)] closes_identity(1)] 2(2)
    have "\<exists>x. find_request (actor_tenant a) req db' = Some x \<and> cancel_authorize a x = Inr ()"
      by (auto simp: cancel_authorize_def as_cancelled_def split: if_splits)
    with find_replay_created [OF 2(7)] show ?thesis by (auto simp: validate_replay_def)
  qed
  then obtain x m where "find_request (actor_tenant a) req db' = Some x" "cancel_authorize a x = Inr ()"
      "find_replay (actor_tenant a) req (user_id a) (trim_space key) db' = Some m"
      "validate_replay m a req ''CANCEL'' ''CANCEL'' ?hash = Inr ()" by blast
  then have "cancel_tx ?s a req (trim_space key) ?hash (trim_space (rs_reason inp)) (rs_version inp) db' = Inr db'"
    unfolding cancel_tx_def by simp
  then show ?thesis using guard unfolding cancel_request_def hash by (simp add: Let_def)
qed

section \<open>Completion\<close>

lemma complete_effect:
  assumes "complete_request s a req inp db = Inr (db', r')"
  obtains r g where "closes s a req r (as_completed s a) ''MANUAL_COMPLETION'' (trim_space (rs_reason inp)) db db'"
    "status r = Executing" "version r = rs_version inp"
    "List.find (\<lambda>g. assignee g = person_id a) (list_current_assignments (actor_tenant a) req db) = Some g"
    "executable_role (assignee_role g)" "replays db' = replays db"
    "r' = r\<lparr>version := version r + 1, status := Completed, completed_at := Some (clock_now s)\<rparr>"
    "can a ''presale.complete''" "has_role a ''technician'' \<or> has_role a ''project_manager'' \<or> has_role a ''team_lead''"
proof -
  from assms have guard: "can a ''presale.complete''" "has_role a ''technician'' \<or> has_role a ''project_manager'' \<or> has_role a ''team_lead''"
    and "complete_tx s a req inp db = Inr (db', r')"
    unfolding complete_request_def by (auto split: if_splits)
  then obtain r g db1 r1 where r: "find_request (actor_tenant a) req db = Some r" "status r = Executing" "version r = rs_version inp"
    and g: "List.find (\<lambda>g. assignee g = person_id a) (list_current_assignments (actor_tenant a) req db) = Some g"
      "executable_role (assignee_role g)"
    and up: "update_request_versioned (clock_now s) r (version r)
      (\<lambda>x. x\<lparr>status := Completed, completed_at := Some (datetime3 (clock_now s)), updated_by := user_id a\<rparr>) db = Inr (db1, r1)"
    and db': "db' = notify_workflow s (completed_notice a r1) (status_log_entry s r1 Executing Completed ''MANUAL_COMPLETION''
        (trim_space (rs_reason inp)) (user_id a) (trace_id a) db1)"
      "r' = r1\<lparr>status := Completed, completed_at := Some (clock_now s)\<rparr>"
    unfolding complete_tx_def by auto
  have f: "(\<lambda>x. x\<lparr>status := Completed, completed_at := Some (datetime3 (clock_now s)), updated_by := user_id a\<rparr>) = as_completed s a"
    by (simp add: as_completed_def fun_eq_iff)
  have r1: "r1 = r\<lparr>version := version r + 1\<rparr>" "status_logs db1 = status_logs db" "assignments db1 = assignments db"
    "worklogs db1 = worklogs db" "instances db1 = instances db" "replays db1 = replays db"
    using up by (auto simp: update_request_versioned_Inr versioned_update_Inr)
  have "closes s a req r (as_completed s a) ''MANUAL_COMPLETION'' (trim_space (rs_reason inp)) db db'"
    using r up [unfolded f] r1 unfolding closes_def db' by (auto simp: as_completed_def)
  from that [OF this r(2,3) g _ _ guard] show thesis using db' r1 by simp
qed

lemma completed_edge:
  "status r = Executing \<Longrightarrow> request_edge r ((as_completed s a r)\<lparr>version := version r + 1, updated_at := t\<rparr>) \<and>
     status (as_completed s a r) \<noteq> status r"
  by (auto simp: request_edge_simps as_completed_def)

lemma complete_evolves:
  assumes "complete_request s a req inp db = Inr (db', r')" "table_wf (requests db)"
  shows "evolves db db'"
  using assms(1)
proof (cases rule: complete_effect)
  case (1 r g)
  then show ?thesis using closes_evolves [OF 1(1) assms(2)] completed_edge by blast
qed

lemma complete_crew: "complete_request s a req inp db = Inr (db', r') \<Longrightarrow> crew_frame db db'"
  by (erule complete_effect) (auto intro: closes_crew [OF _ closes_identity(2)] simp: as_completed_def)

text \<open>
  Only a current executor of the request, assigned to it in an executing role and
  holding presale.complete and one of the executing roles, completes it, with the version
  they have read; the completion writes the status and its time, one log entry with the
  reason and operator, and leaves every other request alone.
\<close>

theorem completion_by_current_executor:
  assumes "complete_request s a req inp db = Inr (db', r')"
  shows "\<exists>r g. find_request (actor_tenant a) req db = Some r \<and> status r = Executing \<and> version r = rs_version inp \<and>
    g \<in> set (list_current_assignments (actor_tenant a) req db) \<and> assignee g = person_id a \<and>
    assignee_role g \<in> {''team_lead'', ''project_manager'', ''technician'', ''implementation_engineer''} \<and>
    can a ''presale.complete'' \<and> (has_role a ''technician'' \<or> has_role a ''project_manager'' \<or> has_role a ''team_lead'') \<and>
    find_request (actor_tenant a) req db' = Some (r\<lparr>status := Completed, completed_at := Some (datetime3 (clock_now s)),
      updated_by := user_id a, version := version r + 1, updated_at := datetime3 (clock_now s)\<rparr>) \<and>
    (\<exists>l. rows (status_logs db') = rows (status_logs db) @ [l] \<and> sl_request l = req \<and> sl_from l = Executing \<and>
       sl_to l = Completed \<and> sl_trigger l = ''MANUAL_COMPLETION'' \<and> sl_operator l = user_id a) \<and>
    (\<forall>t q. (t, q) \<noteq> (actor_tenant a, req) \<longrightarrow> find_request t q db' = find_request t q db)"
  using assms
proof (cases rule: complete_effect)
  case (1 r g)
  note c = 1(1)
  have r: "find_request (actor_tenant a) req db = Some r" "row_id r = req" using c by (auto simp: closes_def dest: find_request_Some)
  have g: "g \<in> set (list_current_assignments (actor_tenant a) req db)" "assignee g = person_id a"
    using 1(4) by (auto simp: find_Some_iff)
  have rl: "assignee_role g \<in> {''team_lead'', ''project_manager'', ''technician'', ''implementation_engineer''}"
    using 1(5) by (simp only: executable_role_def insert_iff empty_iff simp_thms)
  have log: "\<exists>l. rows (status_logs db') = rows (status_logs db) @ [l] \<and> sl_request l = req \<and> sl_from l = Executing \<and>
       sl_to l = Completed \<and> sl_trigger l = ''MANUAL_COMPLETION'' \<and> sl_operator l = user_id a"
    using c r 1(2) unfolding closes_def by (auto simp: as_completed_def)
  have row: "find_request (actor_tenant a) req db' = Some (r\<lparr>status := Completed, completed_at := Some (datetime3 (clock_now s)),
      updated_by := user_id a, version := version r + 1, updated_at := datetime3 (clock_now s)\<rparr>)"
    using closes_row(1) [OF c closes_identity(2)] by (simp add: as_completed_def)
  have others: "\<forall>t q. (t, q) \<noteq> (actor_tenant a, req) \<longrightarrow> find_request t q db' = find_request t q db"
    using closes_row(2) [OF c closes_identity(2)] by blast
  show ?thesis
    by (intro exI [of _ r] exI [of _ g] conjI) (rule r 1 g rl log row others)+
qed

end
