(* ===== verification/PresaleWorklogs.thy ===== *)
theory PresaleWorklogs
  imports PresaleExecutionFacts
begin

text \<open>
  Worklogs: the hours are computed exactly, an entry is written by a current executor only
  and never overlaps another of the same person on the request, a repetition returns the
  stored entry, and hours beyond the column are a database error.
\<close>

section \<open>Hours\<close>

lemma hundredths_exact': "0 < d \<Longrightarrow> d dvd 100 * n \<Longrightarrow> hundredths (n, d) * d = n * 100"
proof -
  assume d: "0 < d" "d dvd 100 * n"
  then obtain k where k: "100 * n = d * k" by (auto elim: dvdE)
  have e: "2 * d * k = 200 * n" using k by (simp add: mult.assoc)
  have "(200 * n + d) div (2 * d) = k"
  proof (rule div_nat_eqI)
    show "2 * d * k \<le> 200 * n + d" unfolding e by simp
    show "200 * n + d < 2 * d * Suc k" unfolding mult_Suc_right e using d by simp
  qed
  then show ?thesis using k by (simp only: hundredths_def fst_conv snd_conv) (simp add: mult.commute)
qed

lemma day_value: "decimal_value ''8.00'' = (800, 100)" "is_decimal ''8.00''"
  by (simp_all add: decimal_eval)

lemma times_day_exact:
  assumes "is_decimal v"
  shows "hundredths (times_fraction (decimal_value v) (800, 100)) * snd (decimal_value v) = 8 * fst (decimal_value v) * 100"
proof -
  obtain n d where x: "decimal_value v = (n, d)" by (cases "decimal_value v")
  with decimal_denominator [OF assms] have d: "0 < d" "d dvd 100" by simp_all
  then obtain k where k: "100 = d * k" by (auto elim: dvdE)
  have "100 * (n * 800) = d * 100 * (n * 8 * k * 100 div 100)" using k by (simp add: ac_simps)
  then have "d * 100 dvd 100 * (n * 800)" by (rule dvdI)
  then have "hundredths (n * 800, d * 100) * (d * 100) = n * 800 * 100" by (rule hundredths_exact' [rotated]) (use d in simp)
  then show ?thesis by (simp add: x times_fraction_def mult.commute)
qed

lemma unit_disjoint: "is_hour_unit u \<Longrightarrow> \<not> is_day_unit u"
  unfolding is_hour_unit_def is_day_unit_def txt_hour_def txt_person_day_def by (elim disjE) (simp_all add: utf8_def utf8_char_def byte_chr_def char_of_def bit_0)

text \<open>
  C36. The hours of a worklog are exact: a positive decimal of at most two places is accepted
  in hours or in person days, in either language, and the recorded hours are that number,
  or eight times it, with nothing lost in rounding; every other spelling, zero, and every
  other unit is refused.
\<close>

theorem worklog_hours_exact:
  "(\<forall>h. calculate_hours u v ''8.00'' = Inr h \<longrightarrow>
      is_decimal v \<and> 0 < fst (decimal_value v) \<and>
      (is_hour_unit u \<and> same_fraction (decimal_value h) (decimal_value v) \<or>
       is_day_unit u \<and> same_fraction (decimal_value h) (times_fraction (8, 1) (decimal_value v)))) \<and>
   (is_decimal v \<and> 0 < fst (decimal_value v) \<and> (is_hour_unit u \<or> is_day_unit u) \<longrightarrow>
      (\<exists>h. calculate_hours u v ''8.00'' = Inr h)) \<and>
   (\<not> (is_decimal v \<and> 0 < fst (decimal_value v) \<and> (is_hour_unit u \<or> is_day_unit u)) \<longrightarrow>
      calculate_hours u v ''8.00'' = Inl ErrInvalidInput)"
proof -
  have hour: "same_fraction (decimal_value (float_string2 (times_fraction (decimal_value v) (1, 1)))) (decimal_value v)" if "is_decimal v"
    using hundredths_exact [of "snd (decimal_value v)" "fst (decimal_value v)"] decimal_denominator [OF that]
    by (simp add: same_fraction_def times_fraction_def)
  have days: "same_fraction (decimal_value (float_string2 (times_fraction (decimal_value v) (800, 100))))
      (times_fraction (8, 1) (decimal_value v))" if "is_decimal v"
    using times_day_exact [OF that] by (simp add: same_fraction_def times_fraction_def)
  show ?thesis using hour days by (auto simp: calculate_hours_def day_value)
qed

lemma worklog_hours_exact_witness:
  "calculate_hours ''PERSON_DAY'' ''1.5'' ''8.00'' = Inr ''12.00'' \<and>
     same_fraction (decimal_value ''12.00'') (times_fraction (8, 1) (decimal_value ''1.5''))"
proof -
  have u: "\<not> is_hour_unit ''PERSON_DAY''" "is_day_unit ''PERSON_DAY''" "\<not> is_hour_unit ''PERSON_DAY'' \<and> is_day_unit ''PERSON_DAY''"
    by (simp_all add: is_hour_unit_def is_day_unit_def txt_hour_def utf8_def utf8_char_def byte_chr_def char_of_def bit_0)
  have v: "is_decimal ''1.5''" "decimal_value ''1.5'' = (15, 10)" by (simp_all add: decimal_eval)
  have f: "float_string2 (12000, 1000) = ''12.00''" by (simp add: decimal_eval)
  have h: "calculate_hours ''PERSON_DAY'' ''1.5'' ''8.00'' = Inr ''12.00''"
    by (simp add: calculate_hours_def u v day_value times_fraction_def f)
  with worklog_hours_exact [of "''PERSON_DAY''" "''1.5''"] u(1) show ?thesis by blast
qed

lemma hundredths_100 [simp]: "hundredths (n, 100) = n"
  by (simp add: hundredths_def)

lemma digits_value_bound: "list_all is_digit s \<Longrightarrow> digits_value s < 10 ^ length s"
proof (induction s rule: rev_induct)
  case (snoc c s)
  then have "digits_value s < 10 ^ length s" "byte_of c - 48 \<le> 9" by (auto simp: is_digit_def)
  then have "10 * digits_value s + (byte_of c - 48) < 10 * 10 ^ length s" by linarith
  then show ?case by (simp add: digits_value_snoc)
qed (simp add: digits_value_def)

lemma whole_part_bound: "whole_part s \<Longrightarrow> digits_value s < 10 ^ 8"
proof (cases "s = ''0''")
  case False
  assume "whole_part s"
  with False have s: "list_all is_digit s" "length s \<le> 8" by (auto simp: whole_part_def)
  then have "(10 :: nat) ^ length s \<le> 10 ^ 8" by (intro power_increasing) simp_all
  then show ?thesis using digits_value_bound [OF s(1)] by (rule less_le_trans [rotated])
qed (simp add: digits_value_def byte_of_def)

lemma decimal_bound:
  assumes "is_decimal v"
  shows "hundredths (decimal_value v) < 10 ^ 10"
proof -
  obtain n d where x: "decimal_value v = (n, d)" by (cases "decimal_value v")
  have "n < 10 ^ 8 * d"
  proof (cases "cut CHR ''.'' v")
    case None
    then show ?thesis using assms x whole_part_bound by (auto simp: is_decimal_def decimal_value_def)
  next
    case (Some p)
    then obtain w f where p: "cut CHR ''.'' v = Some (w, f)" by (cases p) simp
    then have w: "digits_value w < 10 ^ 8" "digits_value f < 10 ^ length f" "n = digits_value w * 10 ^ length f + digits_value f" "d = 10 ^ length f"
      using assms x whole_part_bound digits_value_bound by (auto simp: is_decimal_def decimal_value_def decimal_places_def)
    then have "n < (digits_value w + 1) * d" by (simp add: distrib_right)
    also have "\<dots> \<le> 10 ^ 8 * d" using w(1) by (intro mult_right_mono) simp_all
    finally show ?thesis .
  qed
  moreover have "hundredths (n, d) * d = n * 100" "0 < d"
    using hundredths_exact [of d n] decimal_denominator [OF assms] x by simp_all
  ultimately have "hundredths (n, d) * d < 10 ^ 10 * d" by simp
  then show ?thesis using x by simp
qed

text \<open>
  C37. Hours of a hundred million or more do not fit the column: a worklog in person days
  passes the checks of the input for every accepted number, but from 12.5 million person
  days on its insertion is a database error, whatever else the database holds; below that,
  and for every accepted number of hours, the column holds the value.
\<close>

theorem worklog_hours_bound:
  assumes "calculate_hours u v ''8.00'' = Inr h"
  shows "(hours_fit h \<longleftrightarrow> is_hour_unit u \<or> hundredths (decimal_value v) < 1250000000) \<and>
    (\<not> hours_fit h \<longrightarrow> create_worklog now (w\<lparr>work_hours := h\<rparr>) db = Inl ErrDatabase)"
proof (cases "is_hour_unit u")
  case True
  with assms have "is_decimal v" "h = float_string2 (decimal_value v)"
    by (auto simp: calculate_hours_def times_fraction_def split: if_splits)
  with True decimal_bound show ?thesis by (simp add: hours_fit_def)
next
  case False
  with assms have v: "is_decimal v" and h: "h = float_string2 (times_fraction (decimal_value v) (800, 100))"
    by (auto simp: calculate_hours_def day_value split: if_splits)
  obtain n d where x: "decimal_value v = (n, d)" by (cases "decimal_value v")
  have "hundredths (n, d) * d = n * 100" "0 < d"
    using hundredths_exact [of d n] decimal_denominator [OF v] x by simp_all
  then have "hundredths (times_fraction (n, d) (800, 100)) * d = 8 * hundredths (n, d) * d"
    using times_day_exact [OF v] x by (simp add: mult.commute)
  with \<open>0 < d\<close> have "hundredths (times_fraction (n, d) (800, 100)) = 8 * hundredths (n, d)" by simp
  with False show ?thesis unfolding h x by (simp add: hours_fit_def create_worklog_def)
qed

lemma worklog_hours_bound_witness:
  "calculate_hours ''PERSON_DAY'' ''12500000'' ''8.00'' = Inr ''100000000.00'' \<and> \<not> hours_fit ''100000000.00''"
proof -
  have u: "\<not> is_hour_unit ''PERSON_DAY''" "is_day_unit ''PERSON_DAY''" "\<not> is_hour_unit ''PERSON_DAY'' \<and> is_day_unit ''PERSON_DAY''"
    by (simp_all add: is_hour_unit_def is_day_unit_def txt_hour_def utf8_def utf8_char_def byte_chr_def char_of_def bit_0)
  have v: "is_decimal ''12500000''" "decimal_value ''12500000'' = (12500000, 1)" by (simp_all add: decimal_eval)
  have f: "float_string2 (10000000000, 100) = ''100000000.00''" by (simp add: decimal_eval)
  have h: "calculate_hours ''PERSON_DAY'' ''12500000'' ''8.00'' = Inr ''100000000.00''"
    by (simp add: calculate_hours_def u v day_value times_fraction_def f)
  have "\<not> hundredths (decimal_value ''12500000'') < 1250000000" by (simp add: v hundredths_def)
  with worklog_hours_bound [OF h] u(1) h show ?thesis by blast
qed

section \<open>The entry\<close>

definition as_stored :: "worklog \<Rightarrow> worklog" where
  "as_stored w = w\<lparr>work_start := datetime3 (work_start w), work_end := datetime3 (work_end w)\<rparr>"

lemma create_worklog_Inr:
  "create_worklog now w db = Inr (db', w') \<longleftrightarrow>
     hours_fit (work_hours w) \<and> datetime3 (work_start w) < datetime3 (work_end w) \<and>
     (\<forall>x \<in> set (rows (worklogs db)). \<not> (tenant_id x = tenant_id w \<and> (wl_key x = wl_key w \<or> worklog_no x = worklog_no w))) \<and>
     w' = w\<lparr>created_at := now, updated_at := now, row_id := next_id (worklogs db)\<rparr> \<and>
     db' = db\<lparr>worklogs := \<lparr>rows = rows (worklogs db) @ [as_stored w'], next_id = Suc (next_id (worklogs db))\<rparr>\<rparr>"
  by (auto simp: create_worklog_def insert_row_def exists_row_iff as_stored_def)

text \<open>The writes of a new entry.\<close>

definition worklog_written ::
  "service \<Rightarrow> actor \<Rightarrow> nat \<Rightarrow> string \<Rightarrow> worklog_input \<Rightarrow> presale_db \<Rightarrow> presale_db \<Rightarrow> worklog \<Rightarrow> bool" where
  "worklog_written s a req key inp db db' w \<longleftrightarrow>
     (\<exists>r. find_request (actor_tenant a) req db = Some r \<and> version r = wk_version inp \<and> status r = Executing) \<and>
     (\<exists>g hours no. g \<in> set (list_current_assignments (actor_tenant a) req db) \<and> assignee g = person_id a \<and>
        calculate_hours (wk_unit inp) (wk_value inp) (day_hours s) = Inr hours \<and>
        w = (new_worklog s a req key (fst (worklog_hashes s a req inp)) inp hours no g)
          \<lparr>created_at := clock_now s, updated_at := clock_now s, row_id := next_id (worklogs db)\<rparr>) \<and>
     \<not> has_overlapping_worklog (actor_tenant a) req (person_id a) (wk_start inp) (wk_end inp) db \<and>
     find_worklog_by_key (actor_tenant a) key db = None \<and>
     datetime3 (wk_start inp) < datetime3 (wk_end inp) \<and>
     (\<exists>t. db' = db\<lparr>sequences := t,
        worklogs := \<lparr>rows = rows (worklogs db) @ [as_stored w], next_id = Suc (next_id (worklogs db))\<rparr>\<rparr>)"

lemma worklog_tx_written:
  assumes run: "worklog_tx s a req key (worklog_hashes s a req inp) inp hours db = Inr (db', w)"
    and hours: "calculate_hours (wk_unit inp) (wk_value inp) (day_hours s) = Inr hours"
    and fresh: "find_worklog_by_key (actor_tenant a) key db = None"
  shows "worklog_written s a req key inp db db' w"
proof -
  let ?own = "filter (\<lambda>g. assignee g = person_id a) (list_current_assignments (actor_tenant a) req db)"
  from run fresh obtain r db1 no where r: "find_request (actor_tenant a) req db = Some r" "version r = wk_version inp" "status r = Executing"
    and own: "?own \<noteq> []" and free: "\<not> has_overlapping_worklog (actor_tenant a) req (person_id a) (wk_start inp) (wk_end inp) db"
    and no: "next_worklog_no (actor_tenant a) (clock_now s) db = Inr (db1, no)"
    and row: "create_worklog (clock_now s) (new_worklog s a req key (fst (worklog_hashes s a req inp)) inp hours no (last ?own)) db1
      = Inr (db', w)"
    unfolding worklog_tx_def by (auto simp: Let_def split: if_splits)
  have "last ?own \<in> set ?own" using own by (rule last_in_set)
  then have g: "last ?own \<in> set (list_current_assignments (actor_tenant a) req db)" "assignee (last ?own) = person_id a"
    by simp_all
  from next_worklog_no_frame [OF no] obtain t where db1: "db1 = db\<lparr>sequences := t\<rparr>" by blast
  have new: "work_start (new_worklog s a req key h inp hours no x) = wk_start inp"
    "work_end (new_worklog s a req key h inp hours no x) = wk_end inp" for h x by (simp_all add: new_worklog_def)
  show ?thesis unfolding worklog_written_def
    using r free fresh hours g row [unfolded create_worklog_Inr new] db1 by auto
qed

lemma add_worklog_guard:
  assumes "add_worklog s a req key inp db = Inr (db', w)"
  shows "can a ''presale.worklog'' \<and> person_id a \<noteq> [] \<and> trim_space key \<noteq> [] \<and> length (trim_space key) \<le> 128 \<and>
    (\<exists>h. calculate_hours (wk_unit inp) (wk_value inp) (day_hours s) = Inr h) \<and> worklog_input_ok s inp"
  using assms unfolding add_worklog_def
  by (cases "calculate_hours (wk_unit inp) (wk_value inp) (day_hours s)") (simp_all add: Let_def split: if_splits)

text \<open>With a used key both transactions come to the same answer.\<close>

definition worklog_answer :: "actor \<Rightarrow> nat \<Rightarrow> string \<times> string \<Rightarrow> worklog \<Rightarrow> presale_db \<Rightarrow> (presale_db \<times> worklog) res" where
  "worklog_answer a req hs old db =
     (if find_request (actor_tenant a) req db = None then Inl ErrNotFound
      else if person_id a \<notin> set (map assignee (list_current_assignments (actor_tenant a) req db)) then Inl ErrForbidden
      else if \<not> same_worklog_replay old a req (fst hs) (snd hs) then Inl ErrIdempotencyConflict
      else Inr (db, old))"

lemma worklog_tx_answer:
  "find_worklog_by_key (actor_tenant a) key db = Some old \<Longrightarrow> worklog_tx s a req key hs inp hours db = worklog_answer a req hs old db"
  by (cases "find_request (actor_tenant a) req db") (auto simp: worklog_tx_def worklog_answer_def filter_empty_conv Let_def intro: rev_image_eqI)

lemma worklog_race_answer:
  "find_worklog_by_key (actor_tenant a) key db = Some old \<Longrightarrow> worklog_race a req key hs e db = worklog_answer a req hs old db"
  by (cases "find_request (actor_tenant a) req db") (auto simp: worklog_race_def worklog_answer_def list_ex_iff intro: rev_image_eqI)

lemma add_worklog_cases:
  assumes run: "add_worklog s a req key inp db = Inr (db', w)"
  obtains r where "find_request (actor_tenant a) req db = Some r"
      "person_id a \<in> set (map assignee (list_current_assignments (actor_tenant a) req db))"
      "find_worklog_by_key (actor_tenant a) (trim_space key) db = Some w"
      "same_worklog_replay w a req (fst (worklog_hashes s a req inp)) (snd (worklog_hashes s a req inp))" "db' = db"
    | "worklog_written s a req (trim_space key) inp db db' w"
proof -
  from add_worklog_guard [OF run] obtain hours where h: "calculate_hours (wk_unit inp) (wk_value inp) (day_hours s) = Inr hours" by blast
  let ?hs = "worklog_hashes s a req inp"
  let ?tx = "worklog_tx s a req (trim_space key) ?hs inp hours db"
  have out: "(case ?tx of Inr out \<Rightarrow> Inr out | Inl e \<Rightarrow> worklog_race a req (trim_space key) ?hs e db) = Inr (db', w)"
    using run h unfolding add_worklog_def by (simp add: Let_def split: if_splits)
  show thesis
  proof (cases "find_worklog_by_key (actor_tenant a) (trim_space key) db")
    case None
    have "worklog_race a req (trim_space key) ?hs e db \<noteq> Inr (db', w)" for e
      using None unfolding worklog_race_def by (auto split: option.splits)
    with out have "?tx = Inr (db', w)" by (auto split: sum.splits)
    from worklog_tx_written [OF this h None] that(2) show thesis by blast
  next
    case (Some old)
    with out have "worklog_answer a req ?hs old db = Inr (db', w)"
      unfolding worklog_tx_answer [OF Some] worklog_race_answer [OF Some] by (simp split: sum.splits)
    then have "find_request (actor_tenant a) req db \<noteq> None"
      "person_id a \<in> set (map assignee (list_current_assignments (actor_tenant a) req db))"
      "same_worklog_replay old a req (fst ?hs) (snd ?hs)" "db' = db \<and> w = old"
      by (auto simp: worklog_answer_def split: if_splits)
    with Some that(1) show thesis by blast
  qed
qed

lemma add_worklog_same:
  assumes "add_worklog s a req key inp db = Inr (db', w)"
  shows "requests db' = requests db \<and> status_logs db' = status_logs db \<and> assignments db' = assignments db \<and>
    instances db' = instances db \<and> replays db' = replays db"
  using assms by (rule add_worklog_cases) (auto simp: worklog_written_def)

text \<open>
  C35. A worklog is written only by a current executor of a request under execution, with the
  version they have read, for a period that does not overlap another valid entry of theirs
  on that request and does not start more than five minutes from now. It never changes the
  request, its status log or its team: recording hours does not complete a request.
\<close>

theorem worklog_by_current_executor:
  assumes "add_worklog s a req key inp db = Inr (db', w)"
  shows "can a ''presale.worklog'' \<and> person_id a \<in> set (map assignee (list_current_assignments (actor_tenant a) req db)) \<and>
    wk_start inp < wk_end inp \<and> wk_start inp \<le> clock_now s + 5 * minute \<and>
    requests db' = requests db \<and> status_logs db' = status_logs db \<and> assignments db' = assignments db \<and>
    (find_worklog_by_key (actor_tenant a) (trim_space key) db = Some w \<and> db' = db \<or>
     (\<exists>r. find_request (actor_tenant a) req db = Some r \<and> version r = wk_version inp \<and> status r = Executing) \<and>
     \<not> has_overlapping_worklog (actor_tenant a) req (person_id a) (wk_start inp) (wk_end inp) db \<and>
     wl_person w = person_id a \<and> wl_request w = req \<and> created_by w = user_id a \<and> \<not> completed_task w \<and>
     calculate_hours (wk_unit inp) (wk_value inp) (day_hours s) = Inr (work_hours w) \<and>
     rows (worklogs db') = rows (worklogs db) @ [as_stored w])"
  using assms
proof (cases rule: add_worklog_cases)
  case (1 r)
  with add_worklog_guard [OF assms] show ?thesis by (simp add: worklog_input_ok_def)
next
  case 2
  then have "person_id a \<in> set (map assignee (list_current_assignments (actor_tenant a) req db))"
    unfolding worklog_written_def by force
  moreover from 2 have "wl_person w = person_id a \<and> wl_request w = req \<and> created_by w = user_id a \<and> \<not> completed_task w \<and>
     calculate_hours (wk_unit inp) (wk_value inp) (day_hours s) = Inr (work_hours w)"
    unfolding worklog_written_def by (auto simp: new_worklog_def)
  moreover from 2 have "rows (worklogs db') = rows (worklogs db) @ [as_stored w]"
    unfolding worklog_written_def by auto
  moreover from add_worklog_guard [OF assms] have "can a ''presale.worklog''" "wk_start inp < wk_end inp"
    "wk_start inp \<le> clock_now s + 5 * minute" by (simp_all add: worklog_input_ok_def)
  ultimately show ?thesis using add_worklog_same [OF assms] 2 unfolding worklog_written_def by blast
qed

section \<open>No overlap\<close>

lemma truncate_mono: "0 < d \<Longrightarrow> t \<le> u \<Longrightarrow> truncate_to d t \<le> truncate_to d u"
proof -
  assume d: "0 < d" "t \<le> u"
  have "truncate_to d x = zero_time + d * ((x - zero_time) div d)" for x
    unfolding truncate_to_def by (simp add: minus_mod_eq_mult_div [symmetric])
  then show ?thesis using d by (simp add: zdiv_mono1)
qed

lemma datetime3_mono: "t \<le> u \<Longrightarrow> datetime3 t \<le> datetime3 u"
  unfolding datetime3_def by (rule truncate_mono) simp_all

text \<open>
  The stored entries of a person on a request are periods of whole milliseconds, none empty,
  no two of which share an instant.
\<close>

definition worklogs_disjoint :: "presale_db \<Rightarrow> bool" where
  "worklogs_disjoint db \<longleftrightarrow> table_wf (worklogs db) \<and>
     (\<forall>x \<in> set (rows (worklogs db)). as_stored x = x \<and> work_start x < work_end x) \<and>
     (\<forall>x \<in> set (rows (worklogs db)). \<forall>y \<in> set (rows (worklogs db)). \<forall>t q p.
        row_id x \<noteq> row_id y \<longrightarrow> valid_worklog t q p x \<longrightarrow> valid_worklog t q p y \<longrightarrow>
        work_end x \<le> work_start y \<or> work_end y \<le> work_start x)"

lemma worklogs_disjoint_same: "worklogs db' = worklogs db \<Longrightarrow> worklogs_disjoint db' = worklogs_disjoint db"
  by (simp add: worklogs_disjoint_def)

lemma worklog_disjoint_step:
  assumes inv: "worklogs_disjoint db" and w: "worklog_written s a req key inp db db' w"
  shows "worklogs_disjoint db'"
proof -
  let ?w = "as_stored w"
  from w have rows': "worklogs db' = \<lparr>rows = rows (worklogs db) @ [?w], next_id = Suc (next_id (worklogs db))\<rparr>"
    and id: "row_id ?w = next_id (worklogs db)" and times: "work_start w = wk_start inp" "work_end w = wk_end inp"
    and who: "tenant_id ?w = actor_tenant a" "wl_request ?w = req" "wl_person ?w = person_id a"
    and free: "\<not> has_overlapping_worklog (actor_tenant a) req (person_id a) (wk_start inp) (wk_end inp) db"
    and less: "datetime3 (wk_start inp) < datetime3 (wk_end inp)"
    unfolding worklog_written_def by (auto simp: as_stored_def new_worklog_def)
  have wf: "table_wf (worklogs db')"
    using inv id unfolding worklogs_disjoint_def rows' by (auto simp: table_wf_def)
  have apart: "work_end x \<le> work_start ?w \<or> work_end ?w \<le> work_start x"
    if x: "x \<in> set (rows (worklogs db))" "valid_worklog t q p x" "valid_worklog t q p ?w" for x t q p
  proof -
    from x who have "valid_worklog (actor_tenant a) req (person_id a) x" by (simp add: valid_worklog_def)
    with free x(1) have "wk_end inp \<le> work_start x \<or> work_end x \<le> wk_start inp"
      by (auto simp: has_overlapping_worklog_def exists_row_iff not_less)
    then have "datetime3 (wk_end inp) \<le> datetime3 (work_start x) \<or> datetime3 (work_end x) \<le> datetime3 (wk_start inp)"
      using datetime3_mono by blast
    moreover have "as_stored x = x" using inv x(1) by (simp add: worklogs_disjoint_def)
    then have "datetime3 (work_start x) = work_start x" "datetime3 (work_end x) = work_end x"
      by (metis as_stored_def worklog.select_convs worklog.update_convs worklog.surjective)+
    ultimately show ?thesis using times by (auto simp: as_stored_def)
  qed
  have own: "as_stored ?w = ?w \<and> work_start ?w < work_end ?w"
    using less times by (simp add: as_stored_def)
  show ?thesis
    unfolding worklogs_disjoint_def
  proof (intro conjI ballI allI impI, goal_cases)
    case 1
    show ?case by (fact wf)
  next
    case (2 x)
    then show ?case using inv own unfolding rows' worklogs_disjoint_def by auto
  next
    case (3 x)
    then show ?case using inv own unfolding rows' worklogs_disjoint_def by auto
  next
    case (4 x y t q p)
    then consider "x \<in> set (rows (worklogs db))" "y \<in> set (rows (worklogs db))" | "x = ?w" "y \<in> set (rows (worklogs db))"
      | "y = ?w" "x \<in> set (rows (worklogs db))" unfolding rows' by auto
    then show ?case
      using inv 4(3-5) apart unfolding worklogs_disjoint_def by cases blast+
  qed
qed

lemma add_worklog_disjoint: "add_worklog s a req key inp db = Inr (db', w) \<Longrightarrow> worklogs_disjoint db \<Longrightarrow> worklogs_disjoint db'"
  by (erule add_worklog_cases) (auto intro: worklog_disjoint_step)

section \<open>Repetition\<close>

lemma written_answer:
  assumes w: "worklog_written s a req key inp db db' w"
  shows "find_worklog_by_key (actor_tenant a) key db' = Some (as_stored w) \<and>
    worklog_answer a req (worklog_hashes s a req inp) (as_stored w) db' = Inr (db', as_stored w)"
proof -
  from w have rows': "rows (worklogs db') = rows (worklogs db) @ [as_stored w]"
    and none: "find_worklog_by_key (actor_tenant a) key db = None"
    and who: "tenant_id (as_stored w) = actor_tenant a" "wl_key (as_stored w) = key" "deleted_at (as_stored w) = None"
      "same_worklog_replay (as_stored w) a req (fst (worklog_hashes s a req inp)) (snd (worklog_hashes s a req inp))"
    and same: "requests db' = requests db" "assignments db' = assignments db"
    and r: "find_request (actor_tenant a) req db \<noteq> None"
    and mem: "person_id a \<in> set (map assignee (list_current_assignments (actor_tenant a) req db))"
    unfolding worklog_written_def
    by (auto simp: as_stored_def new_worklog_def same_worklog_replay_def intro: rev_image_eqI)
  have "find_worklog_by_key (actor_tenant a) key db' = Some (as_stored w)"
    using none find_row_append [OF rows'] who by (simp add: find_worklog_by_key_def)
  moreover have "find_request (actor_tenant a) req db' \<noteq> None" using r find_frames(1) [OF same(1)] by simp
  moreover have "person_id a \<in> set (map assignee (list_current_assignments (actor_tenant a) req db'))"
    using mem same(2) by (simp add: list_current_assignments_def)
  ultimately show ?thesis using who(4) by (simp add: worklog_answer_def)
qed

text \<open>
  A worklog is idempotent by its key: repeated at any later time with the same input by
  the same current executor, it returns the entry as the database stores it and writes
  nothing, although the entry now overlaps the repeated period.
\<close>

theorem worklog_idempotent:
  assumes run: "add_worklog s a req key inp db = Inr (db', w)"
    and "trim_space key' = trim_space key" and "clock_now s \<le> t"
  shows "\<exists>w'. add_worklog (s\<lparr>clock_now := t\<rparr>) a req key' inp db' = Inr (db', w') \<and> (w' = w \<or> w' = as_stored w)"
proof -
  let ?s = "s\<lparr>clock_now := t\<rparr>"
  have hs: "worklog_hashes ?s a req inp = worklog_hashes s a req inp" by (simp add: worklog_hashes_def)
  note guard = add_worklog_guard [OF run]
  have ok: "worklog_input_ok ?s inp" using guard assms(3) by (simp add: worklog_input_ok_def)
  have "\<exists>w'. find_worklog_by_key (actor_tenant a) (trim_space key) db' = Some w' \<and>
      worklog_answer a req (worklog_hashes s a req inp) w' db' = Inr (db', w') \<and> (w' = w \<or> w' = as_stored w)"
    using run
  proof (cases rule: add_worklog_cases)
    case (1 r)
    then show ?thesis by (simp add: worklog_answer_def)
  next
    case 2
    from written_answer [OF 2] show ?thesis by blast
  qed
  then obtain w' where w': "find_worklog_by_key (actor_tenant a) (trim_space key) db' = Some w'"
    "worklog_answer a req (worklog_hashes s a req inp) w' db' = Inr (db', w')" "w' = w \<or> w' = as_stored w" by blast
  from guard obtain h where h: "calculate_hours (wk_unit inp) (wk_value inp) (day_hours s) = Inr h" by blast
  have "add_worklog ?s a req key' inp db' = Inr (db', w')"
    using guard h ok w'(2) unfolding add_worklog_def assms(2) hs by (simp add: Let_def worklog_tx_answer [OF w'(1)])
  with w'(3) show ?thesis by blast
qed

section \<open>Witnesses\<close>

definition sample_executing :: presale_db where
  "sample_executing = sample_db (sample_request Executing 0 []) (sample_instance NodesEmpty 1) [sample_assignment 1 ''tom'' KindExecutor]"

definition tom :: actor where
  "tom = sample_actor ''tom'' [''technician''] [''presale.worklog'', ''presale.progress'', ''presale.complete'']"

definition sample_worklog :: worklog_input where
  "sample_worklog =
     \<lparr>wk_start = 1767225600 * second, wk_end = 1767229200 * second, wk_unit = ''HOUR'', wk_value = ''1'', wk_address = ''office'',
      wk_content = ''OTHER'', wk_remark = [], wk_version = 1\<rparr>"

lemmas executing_eval = sample_executing_def tom_def sample_worklog_def list_current_assignments_def current_executor_def
  effective_kind_def of_request_def

lemma sample_hours: "calculate_hours ''HOUR'' ''1'' ''8.00'' = Inr ''1.00''"
proof -
  have "is_decimal ''1''" "decimal_value ''1'' = (1, 1)" "float_string2 (times_fraction (1, 1) (1, 1)) = ''1.00''"
    by (simp_all add: decimal_eval times_fraction_def)
  then show ?thesis by (simp add: calculate_hours_def is_hour_unit_def)
qed

lemma sample_normal: "normalize_decimal ''1'' = ''1.00''" "hours_fit ''1.00''"
  by (simp_all add: decimal_eval hours_fit_def)

lemma sample_logged:
  "\<exists>db' w. add_worklog sample_service tom 1 ''k'' sample_worklog sample_executing = Inr (db', w)"
proof -
  let ?hs = "worklog_hashes sample_service tom 1 sample_worklog"
  have "\<exists>db' w. worklog_tx sample_service tom 1 ''k'' ?hs sample_worklog ''1.00'' sample_executing = Inr (db', w)"
    unfolding worklog_tx_def next_worklog_no_def next_number_def sequence_date_def
    by (simp add: executing_eval sample_eval find_worklog_by_key_def has_overlapping_worklog_def date_string_2026
        create_worklog_def sample_normal new_worklog_def Let_def exists_row_def datetime3_def truncate_to_def zero_time_def pad_nat_def)
  moreover have "worklog_input_ok sample_service sample_worklog"
    by (simp add: worklog_input_ok_def sample_worklog_def sample_service_def text_eval valid_content_def)
  ultimately show ?thesis
    unfolding add_worklog_def
    by (auto simp: Let_def sample_hours tom_def sample_actor_def can_def sample_worklog_def sample_service_def text_eval)
qed

lemma worklog_by_current_executor_witness:
  "\<exists>db' w. add_worklog sample_service tom 1 ''k'' sample_worklog sample_executing = Inr (db', w) \<and> requests db' = requests sample_executing"
proof -
  obtain db' w where run: "add_worklog sample_service tom 1 ''k'' sample_worklog sample_executing = Inr (db', w)"
    using sample_logged by (elim exE) (rule that)
  from worklog_by_current_executor [OF run] have "requests db' = requests sample_executing" by (elim conjE)
  with run show ?thesis by (intro exI conjI)
qed

lemma worklog_idempotent_witness:
  "\<exists>db' w w'. add_worklog sample_service tom 1 ''k'' sample_worklog sample_executing = Inr (db', w) \<and>
     add_worklog (sample_service\<lparr>clock_now := 1767226600 * second\<rparr>) tom 1 ''k'' sample_worklog db' = Inr (db', w')"
proof -
  obtain db' w where run: "add_worklog sample_service tom 1 ''k'' sample_worklog sample_executing = Inr (db', w)"
    using sample_logged by (elim exE) (rule that)
  have "clock_now sample_service \<le> 1767226600 * second" by (simp add: sample_service_def)
  from worklog_idempotent [OF run refl this] run show ?thesis by (elim exE conjE) (intro exI conjI)
qed

definition sample_progress :: progress_input where
  "sample_progress = \<lparr>pg_content = ''half done'', pg_link = [], pg_pct = Some 50, pg_version = 1\<rparr>"

lemma sample_progressed: "\<exists>db' p. add_progress sample_service tom 1 ''k'' sample_progress sample_executing = Inr (db', p)"
  unfolding add_progress_def progress_tx_def
  by (simp add: executing_eval sample_eval sample_progress_def progress_content_ok_def find_progress_by_key_def
      create_progress_def new_progress_def record_progress_notifications_def progress_recipients_def record_progress_event_def
      progress_event_id_def create_progress_event_def create_outbox_def pending_outbox_def Let_def exists_row_def)

lemma progress_by_current_executor_witness:
  "\<exists>db' p. add_progress sample_service tom 1 ''k'' sample_progress sample_executing = Inr (db', p) \<and>
     requests db' = requests sample_executing"
proof -
  obtain db' p where run: "add_progress sample_service tom 1 ''k'' sample_progress sample_executing = Inr (db', p)"
    using sample_progressed by (elim exE) (rule that)
  from progress_by_current_executor [OF run] have "requests db' = requests sample_executing" by (elim conjE)
  with run show ?thesis by (intro exI conjI)
qed

lemma progress_idempotent_witness:
  "\<exists>db' p. add_progress sample_service tom 1 ''k'' sample_progress sample_executing = Inr (db', p) \<and>
     add_progress (sample_service\<lparr>clock_now := 0\<rparr>) tom 1 ''k'' sample_progress (db'\<lparr>assignments := empty_table\<rparr>)
       = Inr (db'\<lparr>assignments := empty_table\<rparr>, p)"
proof -
  obtain db' p where run: "add_progress sample_service tom 1 ''k'' sample_progress sample_executing = Inr (db', p)"
    using sample_progressed by (elim exE) (rule that)
  have "progress_logs (db'\<lparr>assignments := empty_table\<rparr>) = progress_logs db'" by simp
  from run progress_idempotent [OF run refl this] show ?thesis by (intro exI conjI)
qed

definition sally :: actor where
  "sally = sample_actor ''sally'' [''sales''] []"

definition sample_reason :: reason_input where
  "sample_reason = \<lparr>rs_reason = ''why'', rs_version = 1\<rparr>"

definition sample_pending :: presale_db where
  "sample_pending = sample_db (sample_request PendingApproval 1 []) (sample_instance NodesEmpty 1) []"

lemma sample_cancelled: "\<exists>db'. cancel_request sample_service sally 1 ''k'' sample_reason sample_pending = Inr db'"
proof -
  have "\<exists>db'. cancel_tx sample_service sally 1 ''k'' ''digest'' ''why'' 1 sample_pending = Inr db'"
    unfolding cancel_tx_def
    by (simp add: sample_eval sample_pending_def sally_def cancel_authorize_def cancel_allowed_def Let_def exists_row_def)
  then obtain db' where "cancel_tx sample_service sally 1 ''k'' ''digest'' ''why'' 1 sample_pending = Inr db'" by (elim exE) (rule that)
  then show ?thesis
    unfolding cancel_request_def by (simp add: Let_def sample_reason_def mutation_digest_def sample_service_def [THEN arg_cong [where f = digest_of]] text_eval)
qed

lemma cancellation_authorized_witness:
  "\<exists>db'. cancel_request sample_service sally 1 ''k'' sample_reason sample_pending = Inr db' \<and>
     (\<exists>r. find_request (actor_tenant sally) 1 sample_pending = Some r \<and> version r = rs_version sample_reason)"
proof -
  obtain db' where run: "cancel_request sample_service sally 1 ''k'' sample_reason sample_pending = Inr db'"
    using sample_cancelled by (elim exE) (rule that)
  have "find_replay (actor_tenant sally) 1 (user_id sally) (trim_space ''k'') sample_pending = None"
    by (simp add: sample_eval sample_pending_def)
  from cancellation_authorized [OF run this] have "\<exists>r. find_request (actor_tenant sally) 1 sample_pending = Some r \<and> version r = rs_version sample_reason"
    by (elim exE conjE) (intro exI conjI)
  with run show ?thesis by (intro exI [of _ db'] conjI)
qed

lemma cancellation_idempotent_witness:
  "\<exists>db'. cancel_request sample_service sally 1 ''k'' sample_reason sample_pending = Inr db' \<and>
     cancel_request (sample_service\<lparr>clock_now := 5\<rparr>) sally 1 ''k'' sample_reason db' = Inr db'"
proof -
  obtain db' where run: "cancel_request sample_service sally 1 ''k'' sample_reason sample_pending = Inr db'"
    using sample_cancelled by (elim exE) (rule that)
  have "table_wf (requests sample_pending)" unfolding sample_pending_def by (rule sample_db_wf)
  from run cancellation_idempotent [OF run this] show ?thesis by (intro exI conjI)
qed

lemma sample_completed: "\<exists>db' r. complete_request sample_service tom 1 sample_reason sample_executing = Inr (db', r)"
  unfolding complete_request_def complete_tx_def
  by (simp add: executing_eval sample_eval sample_reason_def executable_role_def Let_def exists_row_def)

lemma completion_by_current_executor_witness:
  "\<exists>db' r. complete_request sample_service tom 1 sample_reason sample_executing = Inr (db', r) \<and> can tom ''presale.complete''"
proof -
  obtain db' r where run: "complete_request sample_service tom 1 sample_reason sample_executing = Inr (db', r)"
    using sample_completed by (elim exE) (rule that)
  from completion_by_current_executor [OF run] have "can tom ''presale.complete''" by (elim exE conjE)
  with run show ?thesis by (intro exI conjI)
qed

end
