(* ===== verification/PresaleSystem.thy ===== *)
theory PresaleSystem
  imports PresaleApproval PresaleAssignReplay PresaleWorklogs
begin

text \<open>
  The presale module as one system: its commands, a step of it, the databases it can reach,
  and what holds in every one of them.
\<close>

section \<open>What each operation keeps\<close>

text \<open>The worklogs: only \<open>add_worklog\<close> writes them.\<close>

named_theorems keeps_worklogs \<open>the steps that leave the worklogs alone\<close>

lemma assigns_worklogs: "assigns db db' \<Longrightarrow> worklogs db' = worklogs db"
  by (simp add: assigns_def)

lemma update_worklogs [keeps_worklogs]:
  "update_request_versioned now r v f db = Inr (db', r') \<Longrightarrow> worklogs db' = worklogs db"
  by (auto simp: update_request_versioned_Inr versioned_update_Inr)

lemma write_worklogs [keeps_worklogs]:
  "create_replay m db = Inr db' \<Longrightarrow> worklogs db' = worklogs db"
  "create_outbox e db = Inr db' \<Longrightarrow> worklogs db' = worklogs db"
  "create_approval_log l db = Inr db' \<Longrightarrow> worklogs db' = worklogs db"
  "notify_approval_node s tenant r i n db = Inr db' \<Longrightarrow> worklogs db' = worklogs db"
  "notify_role_users s tenant rl w db = Inr db' \<Longrightarrow> worklogs db' = worklogs db"
  by (auto dest: create_replay_frame create_outbox_frame create_approval_log_frame notify_approval_node_frame notify_role_users_frame)

lemma instance_worklogs [simp]: "worklogs (update_instance now i f db) = worklogs db"
  by (simp add: update_instance_def)

lemma assign_worklogs [keeps_worklogs]:
  "remove_others s a r reason at gs keep db = Inr db' \<Longrightarrow> worklogs db' = worklogs db"
  "add_new s a r req reason at batch k guard ts present order db = Inr db' \<Longrightarrow> worklogs db' = worklogs db"
  "end_current_team_lead s a r reason at db = Inr db' \<Longrightarrow> worklogs db' = worklogs db"
  "install_team_lead s a r req person name dep e reason db = Inr (db', i) \<Longrightarrow> worklogs db' = worklogs db"
  using remove_others_assigns add_new_assigns end_current_team_lead_assigns okD [OF install_team_lead_assigns]
  by (fastforce intro: assigns_worklogs)+

lemma complete_if_ready_worklogs [keeps_worklogs]:
  "complete_if_ready s r cur u tr db = Inr (db', r', c) \<Longrightarrow> worklogs db' = worklogs db"
  by (auto simp: complete_if_ready_def dest!: update_worklogs split: if_splits)

lemma finish_replacement_worklogs [keeps_worklogs]:
  "finish_replacement s a req key op hash r db = Inr (db', r') \<Longrightarrow> worklogs db' = worklogs db"
  by (auto simp: finish_replacement_def Let_def split: prod.splits dest!: keeps_worklogs)

lemma finish_replacement_tail:
  "worklogs db1 = worklogs db \<Longrightarrow> ok (finish_replacement s a req key op hash r db1) (\<lambda>(db', r'). worklogs db' = worklogs db)"
  by (auto simp: ok_def dest!: finish_replacement_worklogs)

lemma replace_assignments_tx_worklogs: "ok (replace_assignments_tx s a req key hash inp db) (\<lambda>(db', r). worklogs db' = worklogs db)"
  unfolding replace_assignments_tx_def by (intro ok_intro finish_replacement_tail) (auto dest!: keeps_worklogs)

lemma select_department_only_tx_worklogs: "ok (select_department_only_tx s a req inp name db) (\<lambda>(db', r). worklogs db' = worklogs db)"
  unfolding select_department_only_tx_def by (intro ok_intro) (auto dest!: keeps_worklogs)

lemma select_lead_tx_worklogs: "ok (select_lead_tx s a req key hash inp name dep db) (\<lambda>(db', r). worklogs db' = worklogs db)"
  unfolding select_lead_tx_def by (intro ok_intro) (auto dest!: keeps_worklogs)

lemma takeover_tx_worklogs: "ok (takeover_tx s a req key hash inp name dep db) (\<lambda>(db', r). worklogs db' = worklogs db)"
  unfolding takeover_tx_def by (intro ok_intro) (auto dest!: keeps_worklogs)

lemma reject_assignment_tx_worklogs: "ok (reject_assignment_tx s a req key hash inp db) (\<lambda>(db', r). worklogs db' = worklogs db)"
  unfolding reject_assignment_tx_def by (intro ok_intro) (auto dest!: keeps_worklogs)

lemma replace_executors_tx_worklogs: "ok (replace_executors_tx s a req key hash inp ts db) (\<lambda>(db', r). worklogs db' = worklogs db)"
  unfolding replace_executors_tx_def by (intro ok_intro finish_replacement_tail) (auto dest!: keeps_worklogs)

lemma invalidate_team_lead_worklogs: "ok (invalidate_team_lead s tenant req reason db) (\<lambda>db'. worklogs db' = worklogs db)"
  unfolding invalidate_team_lead_def by (intro ok_intro) (auto simp: ok_def dest!: keeps_worklogs)

lemma replace_assignments_worklogs: "ok (replace_assignments s a req key inp db) (\<lambda>(db', r). worklogs db' = worklogs db)"
  unfolding replace_assignments_def by (intro ok_intro settle_mutation_ok replace_assignments_tx_worklogs) auto

lemma select_worklogs: "ok (select_execution_department s a req key inp db) (\<lambda>(db', r). worklogs db' = worklogs db)"
proof -
  have "ok (select_execution_department_only s a req i db) (\<lambda>(db', r). worklogs db' = worklogs db)" for i
    unfolding select_execution_department_only_def by (intro ok_intro select_department_only_tx_worklogs)
  moreover have "ok (select_department_and_lead s a req k i db) (\<lambda>(db', r). worklogs db' = worklogs db)" for k i
    unfolding select_department_and_lead_def by (intro ok_intro settle_mutation_ok) (auto dest: okD [OF select_lead_tx_worklogs])
  ultimately show ?thesis unfolding select_execution_department_def by (intro ok_intro) auto
qed

lemma takeover_worklogs: "ok (takeover_executing_team_lead s a req key inp db) (\<lambda>(db', r). worklogs db' = worklogs db)"
  unfolding takeover_executing_team_lead_def by (intro ok_intro settle_mutation_ok takeover_tx_worklogs) auto

lemma reject_worklogs: "ok (reject_execution_assignment s a req key inp db) (\<lambda>(db', r). worklogs db' = worklogs db)"
  unfolding reject_execution_assignment_def by (intro ok_intro settle_mutation_ok reject_assignment_tx_worklogs) auto

lemma replace_executors_worklogs: "worklogs (fst (replace_executor_assignments s a req key inp db)) = worklogs db"
proof (rule replace_executor_assignments_db [where P = "\<lambda>d. worklogs d = worklogs db"])
  show "worklogs (fst (revalidate_team_lead s r db)) = worklogs db" for r
    using okD [OF invalidate_team_lead_worklogs]
    by (auto simp: revalidate_team_lead_def Let_def split: option.splits sum.splits)
  show "worklogs (fst (committed db (replace_executors_settled s a req k h i ts db))) = worklogs db" for k h i ts
    unfolding replace_executors_settled_def
    by (rule committed_fst) (auto intro!: settle_mutation_ok replace_executors_tx_worklogs)
qed simp

text \<open>The approval operations assign nobody, name no team lead and record no hours.\<close>

definition approves :: "presale_db \<Rightarrow> presale_db \<Rightarrow> bool" where
  "approves db db' \<longleftrightarrow> crew_frame db db' \<and> worklogs db' = worklogs db"

lemma approves_same: "requests db' = requests db \<Longrightarrow> assignments db' = assignments db \<Longrightarrow> worklogs db' = worklogs db \<Longrightarrow> approves db db'"
  by (simp add: approves_def crew_frame_same)

lemma approves_write:
  assumes up: "update_request_versioned now r v f db0 = Inr (db1, r1)" and f: "keeps_identity f" "\<And>x. team_lead (f x) = team_lead x"
    and base: "requests db0 = requests db" "assignments db0 = assignments db" "worklogs db0 = worklogs db"
    and same: "requests db' = requests db1" "assignments db' = assignments db1" "worklogs db' = worklogs db1"
  shows "approves db db'"
proof -
  have "crew_frame db0 db1" by (rule crew_frame_update [OF up f])
  moreover have "crew_frame db db0" "crew_frame db1 db'" using base same by (auto intro: crew_frame_same)
  moreover have "worklogs db1 = worklogs db0" by (rule update_worklogs [OF up])
  ultimately show ?thesis using base same unfolding approves_def by (auto intro: crew_frame_trans)
qed

lemma notify_node_same:
  "notify_approval_node s tenant r i n db = Inr db' \<Longrightarrow>
     requests db' = requests db \<and> assignments db' = assignments db \<and> worklogs db' = worklogs db"
  by (auto dest: notify_approval_node_frame)

lemma approval_rows_same:
  "create_approval_log l db = Inr db' \<Longrightarrow> requests db' = requests db \<and> assignments db' = assignments db \<and> worklogs db' = worklogs db"
  "create_replay m db = Inr db' \<Longrightarrow> requests db' = requests db \<and> assignments db' = assignments db \<and> worklogs db' = worklogs db"
  "create_outbox e db = Inr db' \<Longrightarrow> requests db' = requests db \<and> assignments db' = assignments db \<and> worklogs db' = worklogs db"
  by (auto dest: create_approval_log_frame create_replay_frame create_outbox_frame)

lemma instance_same [simp]: "assignments (update_instance now i f db) = assignments db"
  by (simp add: update_instance_def)

lemma notify_if_same:
  "(if c then notify_approval_node s tenant r i n db else Inr db) = Inr db' \<Longrightarrow>
     requests db' = requests db \<and> assignments db' = assignments db \<and> worklogs db' = worklogs db"
  "(case m of None \<Rightarrow> Inr db | Some k \<Rightarrow> if c then notify_approval_node s tenant r i k db else Inr db) = Inr db' \<Longrightarrow>
     requests db' = requests db \<and> assignments db' = assignments db \<and> worklogs db' = worklogs db"
  by (auto split: if_splits option.splits dest: notify_node_same)

lemma decide_lead: "team_lead (decide_request u result c nj node x) = team_lead x"
  by (auto simp: decide_request_def Let_def split: option.split)

lemma mark_started_frame: "ok (mark_approval_started s tenant inp db) (approves db)"
  unfolding mark_approval_started_def
proof (intro ok_intro, goal_cases)
  case (3 r i now f db1 x db2 r2 db3)
  note up = 3(9) [unfolded 3(10)]
  have "requests db1 = requests db \<and> assignments db1 = assignments db \<and> worklogs db1 = worklogs db"
    using 3(8) by simp
  then show ?case
    by (intro approves_write [OF up]) (use notify_if_same(1) [OF 3(11)] in \<open>simp_all add: keeps_identity_def\<close>)
qed (auto intro: approves_same)

lemma apply_internal_frame: "ok (apply_internal_approval s a r i key ra hash inp db) (approves db)"
  unfolding apply_internal_approval_def
proof (intro ok_intro, goal_cases)
  case (1 node nj sequence task to_status name db1 db2 db3 x db4 r4 db5 db6 db7)
  note up = 1(10) [unfolded 1(11)]
  have "requests db3 = requests db \<and> assignments db3 = assignments db \<and> worklogs db3 = worklogs db"
    using 1(9) approval_rows_same(1) [OF 1(7)] notify_if_same(2) [OF 1(8)] by simp
  then show ?case
    by (intro approves_write [OF up decide_request_identity decide_lead])
       (use 1(12,13) approval_rows_same(2) [OF 1(14)] in simp_all)
qed

lemma request_approval_frame: "ok (request_approval_action s a req key inp db) (approves db)"
proof -
  have "ok (queue_approval_action s resolver a r i req k h j db) (approves db)" for resolver r i k h j
    unfolding queue_approval_action_def ok_def
    by (auto dest!: approval_rows_same intro!: approves_same)
  then have "ok (approval_action_tx s a req k h j db) (approves db)" for k h j
    unfolding approval_action_tx_def by (intro ok_intro apply_internal_frame) (auto intro: approves_same)
  then show ?thesis unfolding request_approval_action_def
    by (intro ok_intro) (auto intro: approves_same dest: okD)
qed

lemma callback_frame: "ok (handle_approval_callback s tenant c db) (approves db)"
proof -
  have "ok (callback_tx s tenant d db) (approves db)" for d
    unfolding callback_tx_def
  proof (intro ok_intro, goal_cases)
    case (1 r i db1 nj to_status db2 x db3 r3 db4 db5)
    note up = 1(9) [unfolded 1(10)]
    have "requests db4 = requests db3 \<and> assignments db4 = assignments db3 \<and> worklogs db4 = worklogs db3"
      using 1(11) by (auto split: if_splits dest: notify_node_same)
    moreover have "requests db2 = requests db \<and> assignments db2 = assignments db \<and> worklogs db2 = worklogs db"
      using 1(8) approval_rows_same(1) [OF 1(5)] by simp
    ultimately show ?case
      by (intro approves_write [OF up decide_request_identity decide_lead]) (use 1(12) in simp_all)
  qed (auto intro: approves_same)
  then show ?thesis unfolding handle_approval_callback_def by (intro ok_intro)
qed

section \<open>Commands and steps\<close>

datatype presale_command =
    CreateRequest string create_input
  | ReopenRequest nat nat request_fields
  | MarkStarted started_input
  | ApprovalAction nat string action_input
  | ApprovalCallback callback_input
  | ReplaceTeam nat string replace_input
  | SelectDepartment nat string select_input
  | TakeoverLead nat string takeover_input
  | RefuseLead nat string reason_input
  | ReplaceExecutorTeam nat string replace_input
  | InvalidateLead nat string
  | AddProgress nat string progress_input
  | CancelRequest nat string reason_input
  | AddWorklog nat string worklog_input
  | CompleteRequest nat reason_input

text \<open>The database after a command: an error leaves it as it was, but for what was committed before it.\<close>

definition commit :: "presale_db \<Rightarrow> presale_db res \<Rightarrow> presale_db" where
  "commit db m = (case m of Inl e \<Rightarrow> db | Inr db' \<Rightarrow> db')"

fun execute :: "service \<Rightarrow> actor \<Rightarrow> presale_command \<Rightarrow> presale_db \<Rightarrow> presale_db" where
  "execute s a (CreateRequest key inp) db = fst (committed db (create_request s a key inp db))"
| "execute s a (ReopenRequest req ver inp) db = fst (committed db (reopen_request s a req ver inp db))"
| "execute s a (MarkStarted inp) db = commit db (mark_approval_started s (actor_tenant a) inp db)"
| "execute s a (ApprovalAction req key inp) db = commit db (request_approval_action s a req key inp db)"
| "execute s a (ApprovalCallback c) db = commit db (handle_approval_callback s (actor_tenant a) c db)"
| "execute s a (ReplaceTeam req key inp) db = fst (committed db (replace_assignments s a req key inp db))"
| "execute s a (SelectDepartment req key inp) db = fst (committed db (select_execution_department s a req key inp db))"
| "execute s a (TakeoverLead req key inp) db = fst (committed db (takeover_executing_team_lead s a req key inp db))"
| "execute s a (RefuseLead req key inp) db = fst (committed db (reject_execution_assignment s a req key inp db))"
| "execute s a (ReplaceExecutorTeam req key inp) db = fst (replace_executor_assignments s a req key inp db)"
| "execute s a (InvalidateLead req reason) db = commit db (invalidate_team_lead s (actor_tenant a) req reason db)"
| "execute s a (AddProgress req key inp) db = fst (committed db (add_progress s a req key inp db))"
| "execute s a (CancelRequest req key inp) db = commit db (cancel_request s a req key inp db)"
| "execute s a (AddWorklog req key inp) db = fst (committed db (add_worklog s a req key inp db))"
| "execute s a (CompleteRequest req inp) db = fst (committed db (complete_request s a req inp db))"

text \<open>
  A step: one command of any caller, with any clock and any ports, on a database. The one
  assumption is that ranging over a map visits each of its keys once.
\<close>

inductive presale_step :: "presale_db \<Rightarrow> presale_db \<Rightarrow> bool" where
  command: "visits_keys s \<Longrightarrow> presale_step db (execute s a c db)"

definition reachable :: "presale_db \<Rightarrow> bool" where
  "reachable db \<longleftrightarrow> presale_step\<^sup>*\<^sup>* empty_db db"

inductive_cases presale_stepE: "presale_step db db'"

section \<open>Invariants\<close>

definition presale_invariant :: "presale_db \<Rightarrow> bool" where
  "presale_invariant db \<longleftrightarrow> crew_ok db \<and> worklogs_disjoint db \<and> unique_keys db"

lemma commit_holds: "P db \<Longrightarrow> ok m P \<Longrightarrow> P (commit db m)"
  by (auto simp: commit_def ok_def split: sum.split)

lemma committed_holds: "P db \<Longrightarrow> (\<And>db' r. m = Inr (db', r) \<Longrightarrow> P db') \<Longrightarrow> P (fst (committed db m))"
  by (auto simp: committed_def split: sum.split)

lemma execute_evolves:
  assumes wf: "table_wf (requests db)"
  shows "evolves\<^sup>*\<^sup>* db (execute s a c db)"
proof -
  let ?P = "evolves\<^sup>*\<^sup>* db"
  have refl: "?P db" by simp
  have step: "evolves db d \<Longrightarrow> ?P d" for d by blast
  show ?thesis
  proof (cases c)
    case (CreateRequest key inp)
    then show ?thesis by (auto intro!: committed_holds [where P = ?P, OF refl] dest: create_request_evolves)
  next
    case (ReopenRequest req ver inp)
    then show ?thesis by (auto intro!: committed_holds [where P = ?P, OF refl] dest: reopen_request_evolves [OF _ wf])
  next
    case (MarkStarted inp)
    then show ?thesis
      using commit_holds [where P = ?P, OF refl ok_mono [OF mark_approval_started_evolves [OF wf]]] step by simp
  next
    case (ApprovalAction req key inp)
    then show ?thesis
      using commit_holds [where P = ?P, OF refl ok_mono [OF request_approval_action_evolves [OF wf]]] step by simp
  next
    case (ApprovalCallback x)
    then show ?thesis
      using commit_holds [where P = ?P, OF refl ok_mono [OF handle_approval_callback_evolves [OF wf]]] step by simp
  next
    case (ReplaceTeam req key inp)
    then show ?thesis using committed_evolves [OF refl replace_assignments_evolves [OF wf]] by simp
  next
    case (SelectDepartment req key inp)
    then show ?thesis
      using committed_fst [where P = ?P, OF refl ok_mono [OF select_execution_department_evolves [OF wf]]] step by (simp add: case_prod_beta')
  next
    case (TakeoverLead req key inp)
    then show ?thesis
      using committed_fst [where P = ?P, OF refl ok_mono [OF takeover_executing_team_lead_evolves [OF wf]]] step by (simp add: case_prod_beta')
  next
    case (RefuseLead req key inp)
    then show ?thesis
      using committed_fst [where P = ?P, OF refl ok_mono [OF reject_execution_assignment_evolves [OF wf]]] step by (simp add: case_prod_beta')
  next
    case (ReplaceExecutorTeam req key inp)
    then show ?thesis using replace_executor_assignments_evolves [OF wf] by simp
  next
    case (InvalidateLead req reason)
    then show ?thesis
      using commit_holds [where P = ?P, OF refl ok_mono [OF invalidate_team_lead_evolves [OF wf]]] step by simp
  next
    case (AddProgress req key inp)
    have "evolves db d" if "add_progress s a req key inp db = Inr (d, p)" for d p
      using add_progress_same [OF that] by auto
    with AddProgress show ?thesis by (auto intro!: committed_holds [where P = ?P, OF refl])
  next
    case (CancelRequest req key inp)
    then show ?thesis
      using step cancel_evolves [OF _ wf] by (auto intro!: commit_holds [where P = ?P, OF refl] simp: ok_def)
  next
    case (AddWorklog req key inp)
    have "evolves db d" if "add_worklog s a req key inp db = Inr (d, w)" for d w
      using add_worklog_same [OF that] by auto
    with AddWorklog show ?thesis by (auto intro!: committed_holds [where P = ?P, OF refl])
  next
    case (CompleteRequest req inp)
    then show ?thesis by (auto intro!: committed_holds [where P = ?P, OF refl] dest: complete_evolves [OF _ wf])
  qed
qed

lemma execute_crew:
  assumes ok: "crew_ok db" and s: "visits_keys s"
  shows "crew_ok (execute s a c db)"
proof -
  have frame: "crew_frame db d \<Longrightarrow> crew_ok d" for d by (rule crew_ok_frame [OF ok])
  have approval: "approves db d \<Longrightarrow> crew_ok d" for d by (simp add: approves_def frame)
  show ?thesis
  proof (cases c)
    case (CreateRequest key inp)
    then show ?thesis using create_request_crew frame by (auto intro!: committed_holds [where P = crew_ok, OF ok])
  next
    case (ReopenRequest req ver inp)
    then show ?thesis using reopen_request_crew frame by (auto intro!: committed_holds [where P = crew_ok, OF ok])
  next
    case (MarkStarted inp)
    then show ?thesis using commit_holds [where P = crew_ok, OF ok ok_mono [OF mark_started_frame]] approval by simp
  next
    case (ApprovalAction req key inp)
    then show ?thesis using commit_holds [where P = crew_ok, OF ok ok_mono [OF request_approval_frame]] approval by simp
  next
    case (ApprovalCallback x)
    then show ?thesis using commit_holds [where P = crew_ok, OF ok ok_mono [OF callback_frame]] approval by simp
  next
    case (ReplaceTeam req key inp)
    then show ?thesis using committed_fst [where P = crew_ok, OF ok replace_assignments_crew [OF ok s]] by simp
  next
    case (SelectDepartment req key inp)
    then show ?thesis using committed_fst [where P = crew_ok, OF ok select_execution_department_crew [OF ok]] by simp
  next
    case (TakeoverLead req key inp)
    then show ?thesis using committed_fst [where P = crew_ok, OF ok takeover_crew [OF ok]] by simp
  next
    case (RefuseLead req key inp)
    then show ?thesis using committed_fst [where P = crew_ok, OF ok reject_crew [OF ok]] by simp
  next
    case (ReplaceExecutorTeam req key inp)
    then show ?thesis using replace_executor_assignments_crew [OF ok s] by simp
  next
    case (InvalidateLead req reason)
    then show ?thesis using commit_holds [where P = crew_ok, OF ok invalidate_team_lead_crew [OF ok]] by simp
  next
    case (AddProgress req key inp)
    have "crew_frame db d" if "add_progress s a req key inp db = Inr (d, p)" for d p
      using add_progress_same [OF that] by (simp add: crew_frame_same)
    with AddProgress show ?thesis using frame by (auto intro!: committed_holds [where P = crew_ok, OF ok])
  next
    case (CancelRequest req key inp)
    then show ?thesis using cancel_crew frame by (auto intro!: commit_holds [where P = crew_ok, OF ok] simp: ok_def)
  next
    case (AddWorklog req key inp)
    have "crew_frame db d" if "add_worklog s a req key inp db = Inr (d, w)" for d w
      using add_worklog_same [OF that] by (simp add: crew_frame_same)
    with AddWorklog show ?thesis using frame by (auto intro!: committed_holds [where P = crew_ok, OF ok])
  next
    case (CompleteRequest req inp)
    then show ?thesis using complete_crew frame by (auto intro!: committed_holds [where P = crew_ok, OF ok])
  qed
qed

lemma execute_worklogs:
  assumes "\<And>req key inp. c \<noteq> AddWorklog req key inp"
  shows "worklogs (execute s a c db) = worklogs db"
proof -
  let ?P = "\<lambda>d. worklogs d = worklogs db"
  have refl: "?P db" by simp
  have approval: "approves db d \<Longrightarrow> ?P d" for d by (simp add: approves_def)
  show ?thesis
  proof (cases c)
    case (CreateRequest key inp)
    have "?P d" if "create_request s a key inp db = Inr (d, r)" for d r
      using that by (rule create_request_cases) (auto simp: opened_def)
    with CreateRequest show ?thesis by (auto intro!: committed_holds [where P = ?P])
  next
    case (ReopenRequest req ver inp)
    have "?P d" if "reopen_request s a req ver inp db = Inr (d, r)" for d r
      using that by (rule reopen_request_reopened) (simp add: reopened_def)
    with ReopenRequest show ?thesis by (auto intro!: committed_holds [where P = ?P])
  next
    case (MarkStarted inp)
    then show ?thesis using commit_holds [where P = ?P, OF refl ok_mono [OF mark_started_frame]] approval by simp
  next
    case (ApprovalAction req key inp)
    then show ?thesis using commit_holds [where P = ?P, OF refl ok_mono [OF request_approval_frame]] approval by simp
  next
    case (ApprovalCallback x)
    then show ?thesis using commit_holds [where P = ?P, OF refl ok_mono [OF callback_frame]] approval by simp
  next
    case (ReplaceTeam req key inp)
    then show ?thesis using committed_fst [where P = ?P, OF refl replace_assignments_worklogs] by simp
  next
    case (SelectDepartment req key inp)
    then show ?thesis using committed_fst [where P = ?P, OF refl select_worklogs] by simp
  next
    case (TakeoverLead req key inp)
    then show ?thesis using committed_fst [where P = ?P, OF refl takeover_worklogs] by simp
  next
    case (RefuseLead req key inp)
    then show ?thesis using committed_fst [where P = ?P, OF refl reject_worklogs] by simp
  next
    case (ReplaceExecutorTeam req key inp)
    then show ?thesis using replace_executors_worklogs by simp
  next
    case (InvalidateLead req reason)
    then show ?thesis using commit_holds [where P = ?P, OF refl invalidate_team_lead_worklogs] by simp
  next
    case (AddProgress req key inp)
    then show ?thesis using add_progress_same by (auto intro!: committed_holds [where P = ?P])
  next
    case (CancelRequest req key inp)
    have "?P d" if "cancel_request s a req key inp db = Inr d" for d
      using that by (rule cancel_effect) (auto simp: closes_def)
    with CancelRequest show ?thesis by (auto intro!: commit_holds [where P = ?P] simp: ok_def)
  next
    case (AddWorklog req key inp)
    with assms show ?thesis by blast
  next
    case (CompleteRequest req inp)
    have "?P d" if "complete_request s a req inp db = Inr (d, r)" for d r
      using that by (rule complete_effect) (auto simp: closes_def)
    with CompleteRequest show ?thesis by (auto intro!: committed_holds [where P = ?P])
  qed
qed

lemma execute_disjoint:
  assumes "worklogs_disjoint db"
  shows "worklogs_disjoint (execute s a c db)"
proof (cases "\<exists>req key inp. c = AddWorklog req key inp")
  case True
  then obtain req key inp where c: "c = AddWorklog req key inp" by blast
  show ?thesis unfolding c execute.simps
  proof (rule committed_holds [where P = worklogs_disjoint, OF assms])
    fix db' w
    assume "add_worklog s a req key inp db = Inr (db', w)"
    then show "worklogs_disjoint db'" using assms by (rule add_worklog_disjoint)
  qed
next
  case False
  then have "worklogs (execute s a c db) = worklogs db" by (intro execute_worklogs) blast
  from worklogs_disjoint_same [OF this] assms show ?thesis by blast
qed

lemma evolves_many_wf: "evolves\<^sup>*\<^sup>* db db' \<Longrightarrow> table_wf (requests db) \<Longrightarrow> table_wf (requests db')"
  by (induction rule: rtranclp_induct) (auto intro: evolves_wf)

lemma evolves_many_unique: "evolves\<^sup>*\<^sup>* db db' \<Longrightarrow> unique_keys db \<Longrightarrow> unique_keys db'"
  by (induction rule: rtranclp_induct) (auto intro: evolves_unique)

lemma list_all2_partner:
  "list_all2 P xs ys \<Longrightarrow> x \<in> set xs \<Longrightarrow> \<exists>y \<in> set ys. P x y"
  "list_all2 P xs ys \<Longrightarrow> y \<in> set ys \<Longrightarrow> \<exists>x \<in> set xs. P x y"
  by (induction rule: list_all2_induct) auto

section \<open>The log explains the status\<close>

text \<open>
  Every entry of the log belongs to a request that exists, and the entries of a request
  lead, move by move, from pending approval to its status.
\<close>

definition explained :: "presale_db \<Rightarrow> bool" where
  "explained db \<longleftrightarrow>
     (\<forall>l \<in> set (rows (status_logs db)). sl_request l < next_id (requests db)) \<and>
     (\<forall>r \<in> set (rows (requests db)). log_chain PendingApproval (log_entries r (rows (status_logs db))) (status r))"

lemma evolves_explained:
  assumes ev: "evolves db db'" and ex: "explained db"
  shows "explained db'"
proof -
  from ev obtain us new logs where e: "rows (requests db') = us @ new" "rows (status_logs db') = rows (status_logs db) @ logs"
    "list_all2 (\<lambda>x y. request_path x (log_entries x logs) y) (rows (requests db)) us"
    "\<forall>x \<in> set new. new_request (requests db) x \<and> log_entries x logs = []"
    "\<forall>l \<in> set logs. sl_request l < next_id (requests db)" "next_id (requests db') = next_id (requests db) + length new"
    unfolding evolves_def by blast
  have "log_chain PendingApproval (log_entries y (rows (status_logs db'))) (status y)" if y: "y \<in> set us" for y
  proof -
    from list_all2_partner(2) [OF e(3) y] obtain x where x: "x \<in> set (rows (requests db))" "request_path x (log_entries x logs) y"
      by blast
    have "log_chain PendingApproval (log_entries x (rows (status_logs db))) (status x)" using ex x(1) by (simp add: explained_def)
    then have "log_chain PendingApproval (log_entries x (rows (status_logs db) @ logs)) (status y)"
      using path_chain [OF x(2)] by (auto simp: log_chain_append)
    then show ?thesis using log_entries_origin [OF path_origin [OF x(2)]] e(2) by simp
  qed
  moreover have "log_chain PendingApproval (log_entries y (rows (status_logs db'))) (status y)" if y: "y \<in> set new" for y
  proof -
    from y e(4) have n: "next_id (requests db) \<le> row_id y" "status y = PendingApproval" "log_entries y logs = []"
      by (auto simp: new_request_def)
    have "log_entries y (rows (status_logs db)) = []"
      using ex n(1) by (auto simp: explained_def log_entries_def filter_empty_conv)
    with n e(2) show ?thesis by simp
  qed
  ultimately show ?thesis
    using e(1,2,5,6) ex unfolding explained_def by (auto simp: trans_less_add1)
qed

lemma evolves_many_explained: "evolves\<^sup>*\<^sup>* db db' \<Longrightarrow> explained db \<Longrightarrow> explained db'"
  by (induction rule: rtranclp_induct) (auto intro: evolves_explained)

section \<open>The history of a request\<close>

definition traced :: "presale_db \<Rightarrow> presale_db \<Rightarrow> bool" where
  "traced db db' \<longleftrightarrow>
     (\<exists>logs. rows (status_logs db') = rows (status_logs db) @ logs \<and>
        (\<forall>t i r. find_request t i db = Some r \<longrightarrow>
           (\<exists>r'. find_request t i db' = Some r' \<and> same_origin r r' \<and> version r \<le> version r' \<and>
              (status r = Completed \<longrightarrow> r' = r) \<and> log_chain (status r) (log_entries r logs) (status r'))))"

lemma evolves_traced:
  assumes ev: "evolves db db'" and wf: "table_wf (requests db)"
  shows "traced db db'"
proof -
  from ev obtain us new logs where e: "rows (requests db') = us @ new" "rows (status_logs db') = rows (status_logs db) @ logs"
    "list_all2 (\<lambda>x y. request_path x (log_entries x logs) y) (rows (requests db)) us"
    unfolding evolves_def by blast
  have "\<exists>r'. find_request t i db' = Some r' \<and> same_origin r r' \<and> version r \<le> version r' \<and>
      (status r = Completed \<longrightarrow> r' = r) \<and> log_chain (status r) (log_entries r logs) (status r')"
    if r: "find_request t i db = Some r" for t i r
  proof -
    from r wf have "r \<in> set (rows (requests db))" "is_request t i r" by (auto simp: find_request_iff)
    then obtain y where y: "y \<in> set us" "request_path r (log_entries r logs) y"
      using list_all2_partner(1) [OF e(3)] by blast
    then have "is_request t i y" using path_origin \<open>is_request t i r\<close> by (fastforce simp: is_request_def same_origin_def)
    then have "find_request t i db' = Some y"
      using y(1) e(1) find_request_iff [OF evolves_wf [OF ev wf]] by simp
    with path_origin [OF y(2)] path_version [OF y(2)] path_completed [OF y(2)] path_chain [OF y(2)]
    show ?thesis by blast
  qed
  with e(2) show ?thesis unfolding traced_def by blast
qed

lemma traced_refl: "traced db db"
  by (auto simp: traced_def same_origin_def)

lemma traced_trans:
  assumes "traced db db1" "traced db1 db2"
  shows "traced db db2"
proof -
  from assms obtain l1 l2 where
    1: "rows (status_logs db1) = rows (status_logs db) @ l1"
      "\<And>t i r. find_request t i db = Some r \<Longrightarrow> \<exists>r'. find_request t i db1 = Some r' \<and> same_origin r r' \<and> version r \<le> version r' \<and>
         (status r = Completed \<longrightarrow> r' = r) \<and> log_chain (status r) (log_entries r l1) (status r')" and
    2: "rows (status_logs db2) = rows (status_logs db1) @ l2"
      "\<And>t i r. find_request t i db1 = Some r \<Longrightarrow> \<exists>r'. find_request t i db2 = Some r' \<and> same_origin r r' \<and> version r \<le> version r' \<and>
         (status r = Completed \<longrightarrow> r' = r) \<and> log_chain (status r) (log_entries r l2) (status r')"
    unfolding traced_def by blast
  have "\<exists>r'. find_request t i db2 = Some r' \<and> same_origin r r' \<and> version r \<le> version r' \<and>
      (status r = Completed \<longrightarrow> r' = r) \<and> log_chain (status r) (log_entries r (l1 @ l2)) (status r')"
    if "find_request t i db = Some r" for t i r
  proof -
    from 1(2) [OF that] obtain x where x: "find_request t i db1 = Some x" "same_origin r x" "version r \<le> version x"
      "status r = Completed \<longrightarrow> x = r" "log_chain (status r) (log_entries r l1) (status x)" by blast
    from 2(2) [OF x(1)] obtain y where y: "find_request t i db2 = Some y" "same_origin x y" "version x \<le> version y"
      "status x = Completed \<longrightarrow> y = x" "log_chain (status x) (log_entries x l2) (status y)" by blast
    have "same_origin r y" by (rule same_origin_trans [OF x(2) y(2)])
    moreover have "log_chain (status r) (log_entries r (l1 @ l2)) (status y)"
      using x(5) y(5) log_entries_origin [OF x(2)] by (auto simp: log_chain_append)
    ultimately show ?thesis using x y by auto
  qed
  with 1(1) 2(1) show ?thesis unfolding traced_def by (intro exI [of _ "l1 @ l2"]) simp
qed

lemma evolves_many_traced:
  assumes "evolves\<^sup>*\<^sup>* db db'" "table_wf (requests db)"
  shows "traced db db'"
  using assms(1)
proof (induction rule: rtranclp_induct)
  case base
  show ?case by (rule traced_refl)
next
  case (step y z)
  then show ?case using traced_trans evolves_traced evolves_many_wf [OF step.hyps(1) assms(2)] by blast
qed

section \<open>What holds in every reachable database\<close>

lemma empty_holds:
  "crew_ok empty_db" "worklogs_disjoint empty_db" "unique_keys empty_db" "explained empty_db"
  by (simp_all add: crew_ok_def stored_def worklogs_disjoint_def unique_keys_def explained_def empty_db_def empty_table_def
      table_wf_def)

lemma reachable_induct [consumes 1, case_names empty command]:
  assumes "reachable db" and "P empty_db"
    and "\<And>db s a c. reachable db \<Longrightarrow> P db \<Longrightarrow> visits_keys s \<Longrightarrow> P (execute s a c db)"
  shows "P db"
  using assms(1) unfolding reachable_def
  by (induction rule: rtranclp_induct) (auto elim!: presale_stepE intro: assms(2,3) simp: reachable_def)

lemma reachable_holds:
  assumes "reachable db"
  shows "crew_ok db \<and> worklogs_disjoint db \<and> unique_keys db \<and> explained db"
  using assms
proof (induction rule: reachable_induct)
  case empty
  show ?case by (simp add: empty_holds)
next
  case (command db s a c)
  note ev = execute_evolves [of db s a c]
  have "table_wf (requests db)" using command by (simp add: crew_ok_wf)
  with command show ?case
    using execute_crew execute_disjoint evolves_many_unique [OF ev] evolves_many_explained [OF ev] by blast
qed

lemma steps_evolve:
  assumes "presale_step\<^sup>*\<^sup>* db db'" "table_wf (requests db)"
  shows "evolves\<^sup>*\<^sup>* db db'"
  using assms(1)
proof (induction rule: rtranclp_induct)
  case (step y z)
  from step.hyps(2) obtain s a c where z: "z = execute s a c y" by (auto elim: presale_stepE)
  have "evolves\<^sup>*\<^sup>* y z" unfolding z by (rule execute_evolves) (rule evolves_many_wf [OF step.IH assms(2)])
  with step.IH show ?case by (rule rtranclp_trans)
qed simp

text \<open>
  C23. In every database the presale commands can produce, whoever issues them and in
  whatever order, each live request is led by exactly the person it names as team lead (by
  nobody if it names none), and nobody is current executor of it twice.
\<close>

theorem teams_consistent:
  assumes "reachable db" and "find_request t i db = Some r"
  shows "crew KindTeamLead t i db = (if team_lead r = [] then [] else [team_lead r]) \<and> distinct (crew KindExecutor t i db)"
  using crew_ok_at [OF conjunct1 [OF reachable_holds [OF assms(1)]] assms(2)] by (simp add: lead_of_def)

lemma steps_disjoint: "presale_step\<^sup>*\<^sup>* db db' \<Longrightarrow> worklogs_disjoint db \<Longrightarrow> worklogs_disjoint db'"
  by (induction rule: rtranclp_induct) (auto elim!: presale_stepE intro: execute_disjoint)

text \<open>
  C24. From a database whose worklogs are disjoint (the empty one, say), no sequence of presale
  commands leads to one in which two valid worklogs of one person on one request share an
  instant.
\<close>

theorem worklogs_never_overlap:
  assumes "worklogs_disjoint db0" and "presale_step\<^sup>*\<^sup>* db0 db"
    and "x \<in> set (rows (worklogs db))" "y \<in> set (rows (worklogs db))" and "row_id x \<noteq> row_id y"
    and "valid_worklog t q p x" "valid_worklog t q p y"
  shows "\<not> (work_start x \<le> at \<and> at < work_end x \<and> work_start y \<le> at \<and> at < work_end y)"
proof -
  have "worklogs_disjoint db" by (rule steps_disjoint [OF assms(2,1)])
  with assms have "work_end x \<le> work_start y \<or> work_end y \<le> work_start x" unfolding worklogs_disjoint_def by blast
  then show ?thesis by linarith
qed

text \<open>
  C25. Requests are identified by the key of their creation: in every reachable database a
  tenant has at most one request with a key, and at most one with a number.
\<close>

theorem creation_keys_unique:
  assumes "reachable db" and "x \<in> set (rows (requests db))" "y \<in> set (rows (requests db))" and "tenant_id x = tenant_id y"
    and "create_key x = create_key y \<or> request_no x = request_no y"
  shows "x = y"
proof -
  have u: "unique_keys db" using reachable_holds [OF assms(1)] by blast
  then have "inj_on (\<lambda>r. (tenant_id r, create_key r)) (set (rows (requests db)))"
    "inj_on (\<lambda>r. (tenant_id r, request_no r)) (set (rows (requests db)))"
    unfolding unique_keys_def by (simp_all add: distinct_map)
  with assms show ?thesis by (auto dest: inj_onD)
qed

text \<open>
  C1. The status log is complete: in every reachable database the log entries of a request,
  in their order, lead from pending approval to its present status, each entry starting
  where the one before it ended; and every entry belongs to a request that exists.
\<close>

theorem log_explains_status:
  assumes "reachable db" and "r \<in> set (rows (requests db))"
  shows "log_chain PendingApproval (log_entries r (rows (status_logs db))) (status r) \<and>
    (\<forall>l \<in> set (rows (status_logs db)). sl_request l < next_id (requests db))"
proof -
  have "explained db" using reachable_holds [OF assms(1)] by blast
  with assms(2) show ?thesis unfolding explained_def by blast
qed

text \<open>
  C2. Whatever commands follow, a request keeps what identifies it (its tenant, applicant,
  opportunity, number, key), its version never decreases, once completed it never changes
  again, and the log grows by entries that lead from its old status to its new one.
\<close>

theorem request_history:
  assumes "reachable db" and "presale_step\<^sup>*\<^sup>* db db'" and "find_request t i db = Some r"
  shows "\<exists>r' logs. find_request t i db' = Some r' \<and> same_origin r r' \<and> version r \<le> version r' \<and>
    (status r = Completed \<longrightarrow> r' = r) \<and> rows (status_logs db') = rows (status_logs db) @ logs \<and>
    log_chain (status r) (log_entries r logs) (status r')"
proof -
  have "table_wf (requests db)" using reachable_holds [OF assms(1)] by (blast dest: crew_ok_wf)
  with evolves_many_traced [OF steps_evolve [OF assms(2)]] assms(3) show ?thesis unfolding traced_def by blast
qed

section \<open>Witnesses\<close>

abbreviation first_db :: presale_db where
  "first_db \<equiv> execute sample_service (sample_actor ''sally'' [] [''presale.create'']) (CreateRequest ''k1'' sample_create) empty_db"

lemma first_visits: "visits_keys sample_service"
  by (simp add: visits_keys_def sample_service_def)

lemma first_reachable: "reachable first_db"
  unfolding reachable_def by (rule r_into_rtranclp) (rule command [OF first_visits])

lemma first_request: "\<exists>r. find_request ''t'' 1 first_db = Some r \<and> r \<in> set (rows (requests first_db)) \<and> status r = PendingApproval"
proof -
  let ?a = "sample_actor ''sally'' [] [''presale.create'']"
  obtain db' r where run: "create_request sample_service ?a ''k1'' sample_create empty_db = Inr (db', r)"
    using sample_created by (elim exE) (rule that)
  have db': "first_db = db'" by (simp add: run committed_def)
  have wf: "table_wf (requests empty_db)" "find_request_by_create_key (actor_tenant ?a) (trim_space ''k1'') empty_db = None"
    by (simp_all add: empty_db_def empty_table_def table_wf_def find_request_by_create_key_def find_row_def)
  from run have "row_id r = 1"
  proof (cases rule: create_request_cases)
    case (1 opp)
    with wf(2) show ?thesis by simp
  next
    case (2 opp name rule)
    show ?thesis using opened_row(12) [OF 2(7)] by (simp add: empty_db_def empty_table_def)
  qed
  moreover from run have "find_request (actor_tenant ?a) (row_id r) db' = Some (stored_request r) \<and> status r = PendingApproval"
  proof (cases rule: create_request_cases)
    case (1 opp)
    with wf(2) show ?thesis by simp
  next
    case (2 opp name rule)
    show ?thesis using opened_finds(1) [OF 2(7) wf(1)] opened_row(5) [OF 2(7)] by simp
  qed
  moreover have "actor_tenant ?a = ''t''" by (simp add: sample_actor_def)
  ultimately have "find_request ''t'' 1 db' = Some (stored_request r)" "status r = PendingApproval" by metis+
  then show ?thesis unfolding db' by (intro exI [of _ "stored_request r"] conjI) (auto dest: find_request_Some)
qed

lemma teams_consistent_witness:
  "\<exists>r. find_request ''t'' 1 first_db = Some r \<and>
     crew KindTeamLead ''t'' 1 first_db = (if team_lead r = [] then [] else [team_lead r])"
proof -
  obtain r where r: "find_request ''t'' 1 first_db = Some r" using first_request by blast
  from teams_consistent [OF first_reachable r] r show ?thesis by blast
qed

lemma log_explains_status_witness:
  "\<exists>r \<in> set (rows (requests first_db)). log_chain PendingApproval (log_entries r (rows (status_logs first_db))) (status r)"
proof -
  obtain r where r: "r \<in> set (rows (requests first_db))" using first_request by blast
  from log_explains_status [OF first_reachable r] r show ?thesis by blast
qed

lemma creation_keys_unique_witness:
  "\<exists>x y. x \<in> set (rows (requests first_db)) \<and> y \<in> set (rows (requests first_db)) \<and> create_key x = create_key y \<and> x = y"
proof -
  obtain r where r: "r \<in> set (rows (requests first_db))" using first_request by blast
  from creation_keys_unique [OF first_reachable r r refl disjI1 [OF refl]] r show ?thesis by blast
qed

lemma request_history_witness:
  "\<exists>r r'. find_request ''t'' 1 first_db = Some r \<and>
     find_request ''t'' 1 (execute sample_service sally (CancelRequest 1 ''k'' sample_reason) first_db) = Some r' \<and> same_origin r r'"
proof -
  obtain r where r: "find_request ''t'' 1 first_db = Some r" using first_request by blast
  have "presale_step\<^sup>*\<^sup>* first_db (execute sample_service sally (CancelRequest 1 ''k'' sample_reason) first_db)"
    by (rule r_into_rtranclp) (rule command [OF first_visits])
  from request_history [OF first_reachable this r] r show ?thesis by blast
qed

definition later_worklog :: worklog_input where
  "later_worklog = sample_worklog\<lparr>wk_start := 1767225500 * second, wk_end := 1767225600 * second\<rparr>"

lemma sample_two_worklogs:
  assumes "\<And>inp. worklog_hashes sample_service tom 1 inp = (''digest'', ''digest'')"
  shows "\<exists>db1 w1 db2 w2. worklog_tx sample_service tom 1 ''k'' (''digest'', ''digest'') sample_worklog ''1.00'' sample_executing = Inr (db1, w1) \<and>
     worklog_tx sample_service tom 1 ''l'' (''digest'', ''digest'') later_worklog ''1.00'' db1 = Inr (db2, w2) \<and>
     {w1, w2} \<subseteq> set (rows (worklogs db2)) \<and> row_id w1 \<noteq> row_id w2 \<and>
     valid_worklog ''t'' 1 ''tom'' w1 \<and> valid_worklog ''t'' 1 ''tom'' w2"
  unfolding worklog_tx_def next_worklog_no_def next_number_def sequence_date_def
  by (simp add: executing_eval sample_eval later_worklog_def find_worklog_by_key_def has_overlapping_worklog_def valid_worklog_def date_string_2026
      create_worklog_def sample_normal new_worklog_def Let_def exists_row_def datetime3_def truncate_to_def zero_time_def pad_nat_def
      digit_char_def char_of_def bit_0)

abbreviation logged_once :: presale_db where
  "logged_once \<equiv> execute sample_service tom (AddWorklog 1 ''k'' sample_worklog) sample_executing"

abbreviation logged_twice :: presale_db where
  "logged_twice \<equiv> execute sample_service tom (AddWorklog 1 ''l'' later_worklog) logged_once"

lemma sample_worklogs_added:
  "\<exists>w1 w2. {w1, w2} \<subseteq> set (rows (worklogs logged_twice)) \<and> row_id w1 \<noteq> row_id w2 \<and>
     valid_worklog ''t'' 1 ''tom'' w1 \<and> valid_worklog ''t'' 1 ''tom'' w2"
proof -
  have hashes: "worklog_hashes sample_service tom 1 inp = (''digest'', ''digest'')" for inp
    by (simp add: worklog_hashes_def sample_service_def Let_def)
  obtain db1 w1 db2 w2 where run:
    "worklog_tx sample_service tom 1 ''k'' (''digest'', ''digest'') sample_worklog ''1.00'' sample_executing = Inr (db1, w1)"
    "worklog_tx sample_service tom 1 ''l'' (''digest'', ''digest'') later_worklog ''1.00'' db1 = Inr (db2, w2)"
    and rest: "{w1, w2} \<subseteq> set (rows (worklogs db2)) \<and> row_id w1 \<noteq> row_id w2 \<and>
      valid_worklog ''t'' 1 ''tom'' w1 \<and> valid_worklog ''t'' 1 ''tom'' w2"
    using sample_two_worklogs [OF hashes] by blast
  have ok: "worklog_input_ok sample_service sample_worklog" "worklog_input_ok sample_service later_worklog"
    unfolding worklog_input_ok_def
    by (simp_all add: later_worklog_def sample_worklog_def sample_service_def text_eval valid_content_def)
  have inputs: "wk_unit sample_worklog = ''HOUR''" "wk_value sample_worklog = ''1''" "wk_unit later_worklog = ''HOUR''"
    "wk_value later_worklog = ''1''" "day_hours sample_service = ''8.00''" "can tom ''presale.worklog''" "person_id tom \<noteq> []"
    by (simp_all add: later_worklog_def sample_worklog_def sample_service_def tom_def sample_actor_def can_def)
  have "add_worklog sample_service tom 1 ''k'' sample_worklog sample_executing = Inr (db1, w1)"
    "add_worklog sample_service tom 1 ''l'' later_worklog db1 = Inr (db2, w2)"
    unfolding add_worklog_def using run ok
    by (simp_all add: inputs hashes sample_hours text_eval Let_def del: One_nat_def)
  then have "logged_twice = db2" by (simp add: committed_def)
  with rest show ?thesis by blast
qed

lemma worklogs_never_overlap_witness:
  "\<exists>x y at. at = 1767225600 * second \<and> x \<in> set (rows (worklogs logged_twice)) \<and> y \<in> set (rows (worklogs logged_twice)) \<and> row_id x \<noteq> row_id y \<and>
     \<not> (work_start x \<le> at \<and> at < work_end x \<and> work_start y \<le> at \<and> at < work_end y)"
proof -
  have "presale_step\<^sup>*\<^sup>* sample_executing logged_twice"
    by (rule converse_rtranclp_into_rtranclp [OF command [OF first_visits] r_into_rtranclp [of presale_step, OF command [OF first_visits]]])
  moreover have "worklogs_disjoint sample_executing"
    by (simp add: worklogs_disjoint_def sample_executing_def sample_db_def table_wf_def empty_db_def empty_table_def)
  moreover obtain x y where xy: "{x, y} \<subseteq> set (rows (worklogs logged_twice))" "row_id x \<noteq> row_id y"
    "valid_worklog ''t'' 1 ''tom'' x" "valid_worklog ''t'' 1 ''tom'' y"
    using sample_worklogs_added by blast
  ultimately have "\<not> (work_start x \<le> 1767225600 * second \<and> 1767225600 * second < work_end x \<and> work_start y \<le> 1767225600 * second \<and> 1767225600 * second < work_end y)"
    using worklogs_never_overlap [of sample_executing logged_twice x y "''t''" 1 "''tom''" "1767225600 * second"] by blast
  with xy show ?thesis by blast
qed

end
