(* ===== verification/OpportunityModel.thy ===== *)
theory OpportunityModel
  imports SharedModel
begin

text \<open>
  The data of the opportunity module (\<open>internal/modules/opportunity/model.go\<close>, \<open>dto.go\<close>,
  \<open>errors.go\<close>, and the rows of \<open>catalog.go\<close>, \<open>stage_alert.go\<close>,
  \<open>win_confirmation.go\<close>): enumerations, rows, inputs, responses, errors, and the tables as
  one database record. Stored enumerations are datatypes; the strings of the inputs are
  parsed where the code checks them. A JSON column holds the value that was encoded.
\<close>

section \<open>Enumerations\<close>

datatype stage = StageInitial | StageRequirement | StageSolution | StageQuotation | StageBid | StageSigned | StageFailed

text \<open>The texts of the stages, which are the values of the column and of the inputs.\<close>

fun stage_text :: "stage \<Rightarrow> string" where
  "stage_text StageInitial = utf8 [21021, 27493, 25509, 35302]"
| "stage_text StageRequirement = utf8 [38656, 27714, 27807, 36890]"
| "stage_text StageSolution = utf8 [26041, 26696, 21046, 23450]"
| "stage_text StageQuotation = utf8 [25253, 20215]"
| "stage_text StageBid = utf8 [25237, 26631]"
| "stage_text StageSigned = utf8 [24050, 31614, 32422]"
| "stage_text StageFailed = utf8 [22833, 36133]"

definition all_stages :: "stage list" where
  "all_stages = [StageInitial, StageRequirement, StageSolution, StageQuotation, StageBid, StageSigned, StageFailed]"

text \<open>\<open>isStage\<close>, with the stage it recognises.\<close>

definition stage_of :: "string \<Rightarrow> stage option" where
  "stage_of v = List.find (\<lambda>s. v = stage_text s) all_stages"

datatype opp_status = StatusFollowing | StatusClosed | StatusVoid

datatype pending_type = PendingNone | PendingContract | PendingLostReason | PendingWinEvidence

datatype link_status = LinkPending | LinkConfirmed | LinkException

fun link_status_text :: "link_status \<Rightarrow> string" where
  "link_status_text LinkPending = ''PENDING''"
| "link_status_text LinkConfirmed = ''LINK_CONFIRMED''"
| "link_status_text LinkException = ''LINK_EXCEPTION''"

datatype catalog_kind = CatalogKindType | CatalogKindSource

fun kind_text :: "catalog_kind \<Rightarrow> string" where
  "kind_text CatalogKindType = ''TYPE''"
| "kind_text CatalogKindSource = ''SOURCE''"

datatype alert_status = AlertPending | AlertUnread | AlertRead | AlertCancelled

definition member_roles :: "string list" where
  "member_roles = [''SALES_SUPPORT'', ''TECHNICAL_SUPPORT'', ''BUSINESS_SUPPORT'', ''OTHER'']"

text \<open>The types and statuses a quotation or bid callback reports.\<close>

definition qb_quote :: string where \<comment> \<open>the type quotation\<close>
  "qb_quote = utf8 [25253, 20215]"

definition qb_bid :: string where \<comment> \<open>the type bid\<close>
  "qb_bid = utf8 [25237, 26631]"

definition qb_quote_review :: string where \<comment> \<open>quotation under review\<close>
  "qb_quote_review = utf8 [25253, 20215, 23457, 25209, 20013]"

definition qb_quote_approved :: string where \<comment> \<open>quotation approved\<close>
  "qb_quote_approved = utf8 [25253, 20215, 24050, 36890, 36807]"

definition qb_quote_expired :: string where \<comment> \<open>quotation expired\<close>
  "qb_quote_expired = utf8 [25253, 20215, 24050, 22833, 25928]"

definition qb_bid_drafting :: string where \<comment> \<open>bid documents in preparation\<close>
  "qb_bid_drafting = utf8 [25237, 26631, 26631, 20070, 21046, 20316]"

definition qb_opening :: string where \<comment> \<open>bids being opened\<close>
  "qb_opening = utf8 [24320, 26631, 20013]"

definition qb_bid_opening :: string where \<comment> \<open>bid being opened\<close>
  "qb_bid_opening = utf8 [25237, 26631, 24320, 26631, 20013]"

definition qb_bid_won :: string where \<comment> \<open>bid won\<close>
  "qb_bid_won = utf8 [25237, 26631, 20013, 26631]"

definition qb_bid_lost :: string where \<comment> \<open>bid lost\<close>
  "qb_bid_lost = utf8 [25237, 26631, 33853, 26631]"

definition lost_reasons :: "string list" where
  \<comment> \<open>price, technology, relations, budget of the customer, competitor, other\<close>
  "lost_reasons =
     [utf8 [20215, 26684],
      utf8 [25216, 26415],
      utf8 [20851, 31995],
      utf8 [23458, 25143, 39044, 31639],
      utf8 [31454, 20105, 23545, 25163],
      utf8 [20854, 20182]]"

text \<open>\<open>validLostReason\<close>.\<close>

definition valid_lost_reason :: "string option \<Rightarrow> bool" where
  "valid_lost_reason v \<longleftrightarrow> (case v of None \<Rightarrow> False | Some r \<Rightarrow> r \<in> set lost_reasons)"

lemma stage_text_inject [simp]: "stage_text s = stage_text t \<longleftrightarrow> s = t"
  by (cases s; cases t) (simp_all add: utf8_def utf8_char_def byte_chr_def char_of_def bit_0)

lemma stage_of_text [simp]: "stage_of (stage_text s) = Some s"
  by (cases s) (simp_all add: stage_of_def all_stages_def del: stage_text.simps)

lemma stage_of_Some: "stage_of v = Some s \<longleftrightarrow> v = stage_text s"
proof
  assume "stage_of v = Some s"
  then show "v = stage_text s" by (auto simp: stage_of_def find_Some_iff)
qed simp

section \<open>Rows\<close>

record opportunity = base_model +
  o_no :: string
  o_name :: string
  o_customer :: nat
  o_type :: string
  o_source :: string
  o_amount :: decimal
  o_sign_date :: instant
  o_summary :: string
  o_systems :: nat
  o_pain :: string
  o_competitor :: string
  o_owner :: string
  o_org :: string
  o_stage :: stage
  o_status :: opp_status
  o_contract :: "string option"
  o_contract_id :: "string option"
  o_intake :: "string option"
  o_link :: link_status
  o_linked_at :: "instant option"
  o_sync :: nat
  o_link_event :: "string option"
  o_lost :: "string option"
  o_pending :: pending_type
  o_stage_at :: instant
  o_external_at :: "instant option"
  o_end :: "instant option"
  o_before_void :: "opp_status option"

record stage_log = row +
  sg_opp :: nat
  sg_from :: stage
  sg_to :: stage
  sg_source :: string
  sg_source_id :: string
  sg_reason :: string
  sg_contract :: "string option"
  sg_lost :: "string option"
  sg_pending :: pending_type
  sg_operator :: string
  sg_at :: instant
  sg_request :: string

record followup = base_model +
  fu_opp :: nat
  fu_type :: string
  fu_content :: string
  fu_at :: instant
  fu_by :: string
  fu_next :: "instant option"

text \<open>\<open>ExternalStatusSnapshot\<close>, which the snapshot column of a link holds.\<close>

record external_snapshot =
  xs_type :: string
  xs_source :: string
  xs_status :: string
  xs_amount :: "string option"
  xs_contract :: "string option"
  xs_lost :: "string option"
  xs_at :: instant

record external_link = row +
  xl_opp :: nat
  xl_type :: string
  xl_source :: string
  xl_status :: string
  xl_amount :: "decimal option"
  xl_at :: instant
  xl_snapshot :: external_snapshot
  xl_created :: instant

record member = base_model +
  mb_opp :: nat
  mb_user :: string
  mb_role :: string
  mb_active :: bool
  mb_ended :: "instant option"

datatype term_source = TermRecorded | TermLegacySnapshot

record member_term = row +
  mt_opp :: nat
  mt_member :: nat
  mt_user :: string
  mt_role :: string
  mt_started :: "instant option"
  mt_snapshot :: "instant option"
  mt_active_then :: "bool option"
  mt_ended :: "instant option"
  mt_started_by :: "string option"
  mt_ended_by :: "string option"
  mt_source :: term_source

text \<open>The generated column \<open>active_user_id\<close> of a term is set (migration 000053).\<close>

definition open_term :: "'a member_term_scheme \<Rightarrow> bool" where
  "open_term t \<longleftrightarrow>
     mt_ended t = None \<and> (mt_source t = TermRecorded \<or> mt_source t = TermLegacySnapshot \<and> mt_active_then t = Some True)"

record win_confirmation = row +
  wc_opp :: nat
  wc_customer :: nat
  wc_version :: nat
  wc_mode :: string
  wc_type :: string
  wc_reference :: string
  wc_on :: instant
  wc_amount :: decimal
  wc_note :: string
  wc_by :: string
  wc_at :: instant
  wc_request :: string

record stage_alert_rule = base_model +
  ar_stage :: stage
  ar_hours :: nat
  ar_enabled :: bool
  ar_config :: nat

record alert_rule_version = row +
  av_rule :: nat
  av_stage :: stage
  av_hours :: nat
  av_enabled :: bool
  av_config :: nat
  av_by :: string
  av_request :: string
  av_at :: instant

record stage_alert = base_model +
  al_opp :: nat
  al_stage :: stage
  al_threshold :: nat
  al_basis :: instant
  al_due :: instant
  al_status :: alert_status
  al_recipient :: string
  al_sent :: "instant option"
  al_read :: "instant option"

record catalog_item = base_model + \<comment> \<open>never soft-deleted\<close>
  ci_kind :: catalog_kind
  ci_code :: string
  ci_name :: string
  ci_normal :: string
  ci_order :: nat
  ci_enabled :: bool

record catalog_link =
  cl_tenant :: string
  cl_opp :: nat
  cl_item :: nat
  cl_kind :: catalog_kind
  cl_order :: nat
  cl_created :: instant

text \<open>The columns of a customer and of a presale request that the repository reads.\<close>

record customer_ref = row +
  cu_active :: bool
  cu_merged :: bool
  cu_deleted :: bool
  cu_owner :: string
  cu_org :: string

text \<open>The log of merged customers (\<open>MergeLog\<close>, customer module); \<open>ml_counts\<close> is the JSON text of the moved rows.\<close>

record customer_merge = row +
  ml_source :: nat
  ml_target :: nat
  ml_source_version :: nat
  ml_target_version :: nat
  ml_counts :: string
  ml_reason :: string
  ml_operator :: string
  ml_request :: string
  ml_at :: instant

section \<open>Responses and inputs\<close>

record catalog_value =
  cv_id :: nat
  cv_code :: string
  cv_name :: string
  cv_enabled :: bool

record opp_response =
  or_id :: nat
  or_no :: string
  or_name :: string
  or_customer :: nat
  or_type :: string
  or_source :: string
  or_types :: "catalog_value list"
  or_sources :: "catalog_value list"
  or_amount :: string
  or_sign_date :: string
  or_summary :: string
  or_systems :: nat
  or_pain :: string
  or_competitor :: string
  or_owner :: string
  or_org :: string
  or_stage :: stage
  or_status :: opp_status
  or_contract :: "string option"
  or_contract_id :: "string option"
  or_intake :: "string option"
  or_link :: link_status
  or_linked_at :: "instant option"
  or_sync :: nat
  or_lost :: "string option"
  or_pending :: pending_type
  or_stage_at :: instant
  or_end :: "string option"
  or_before_void :: "opp_status option"
  or_version :: nat
  or_created :: instant
  or_updated :: instant

definition to_response :: "opportunity \<Rightarrow> opp_response" where
  "to_response m =
     \<lparr>or_id = row_id m, or_no = o_no m, or_name = o_name m, or_customer = o_customer m, or_type = o_type m,
      or_source = o_source m, or_types = [], or_sources = [], or_amount = string_fixed2 (o_amount m),
      or_sign_date = format_date (o_sign_date m), or_summary = o_summary m, or_systems = o_systems m,
      or_pain = o_pain m, or_competitor = o_competitor m, or_owner = o_owner m, or_org = o_org m,
      or_stage = o_stage m, or_status = o_status m, or_contract = o_contract m, or_contract_id = o_contract_id m,
      or_intake = o_intake m, or_link = o_link m, or_linked_at = o_linked_at m, or_sync = o_sync m,
      or_lost = o_lost m, or_pending = o_pending m, or_stage_at = o_stage_at m,
      or_end = map_option (\<lambda>t. format_date (beijing t)) (o_end m), or_before_void = o_before_void m,
      or_version = version m, or_created = created_at m, or_updated = updated_at m\<rparr>"

record opp_create_input =
  oc_name :: string
  oc_customer :: nat
  oc_type :: string
  oc_source :: string
  oc_type_ids :: "nat list"
  oc_source_ids :: "nat list"
  oc_amount :: string
  oc_sign_date :: string
  oc_summary :: string
  oc_systems :: nat
  oc_pain :: string
  oc_competitor :: string
  oc_owner :: string
  oc_org :: string
  oc_key :: string

record opp_update_input =
  ou_name :: string
  ou_type :: string
  ou_source :: string
  ou_type_ids :: "nat list"
  ou_source_ids :: "nat list"
  ou_amount :: string
  ou_sign_date :: string
  ou_summary :: string
  ou_systems :: nat
  ou_pain :: string
  ou_competitor :: string
  ou_version :: nat
  ou_reason :: string

record win_evidence_input =
  we_type :: string
  we_reference :: string
  we_on :: string
  we_amount :: string
  we_note :: string

record stage_change_input =
  sc_evidence :: "win_evidence_input option"
  sc_target :: string
  sc_reason :: string
  sc_contract :: "string option"
  sc_lost :: "string option"
  sc_version :: nat

record terminal_todo_input =
  tt_evidence :: "win_evidence_input option"
  tt_contract :: "string option"
  tt_lost :: "string option"
  tt_version :: nat
  tt_reason :: string

record external_status_input =
  es_opp :: nat
  es_type :: string
  es_source :: string
  es_status :: string
  es_amount :: "string option"
  es_contract :: "string option"
  es_lost :: "string option"
  es_at :: instant

record change_owner_input =
  co_owner :: string
  co_org :: string
  co_version :: nat
  co_reason :: string
  co_key :: string

record transfer_input =
  tr_version :: nat
  tr_reason :: string
  tr_key :: string

record contract_link_input =
  ki_event :: string
  ki_intake :: string
  ki_contract :: string
  ki_number :: string
  ki_status :: string
  ki_linked_at :: "instant option"
  ki_sync :: nat

record transfer_response =
  ts_opp :: nat
  ts_version :: nat
  ts_event :: string
  ts_status :: string

record provision_create_input =
  pc_name :: string
  pc_customer :: nat
  pc_type :: string
  pc_source :: string
  pc_amount :: string
  pc_sign_date :: string
  pc_summary :: string
  pc_systems :: nat
  pc_pain :: string
  pc_competitor :: string
  pc_owner :: string
  pc_actor :: string
  pc_record :: string
  pc_key :: string
  pc_reason :: string

record provision_sign_input =
  ps_contract :: string
  ps_contract_id :: string
  ps_version :: nat
  ps_reason :: string
  ps_actor :: string
  ps_record :: string

section \<open>Ledgers, events, audit\<close>

datatype change_response = OwnerResponse opp_response | LinkResponse opp_response | TransferResponse transfer_response

record change_idem = row +
  ch_opp :: nat
  ch_operation :: string
  ch_actor :: string
  ch_key :: string
  ch_hash :: string
  ch_response :: change_response
  ch_created :: instant

record create_idem = row +
  ce_actor :: string
  ce_key :: string
  ce_customer :: nat
  ce_opp :: nat
  ce_hash :: string
  ce_response_hash :: string
  ce_response :: opp_response
  ce_trace :: string
  ce_created :: instant

datatype catalog_response = CreatedItem catalog_item | DeletedItem nat

record catalog_idem = row +
  ck_actor :: string
  ck_operation :: string
  ck_key :: string
  ck_hash :: string
  ck_response :: catalog_response
  ck_created :: instant

datatype opp_payload =
    OwnerChanged nat string string string string string string nat
  | ContractSigned nat string nat string string nat instant
  | AlertMessage nat

record opp_event = row +
  ev_id :: string
  ev_type :: string
  ev_aggregate :: string
  ev_aggregate_id :: string
  ev_payload :: opp_payload
  ev_status :: string
  ev_retries :: nat
  ev_next_retry :: "instant option"
  ev_locked_by :: string
  ev_locked_until :: "instant option"
  ev_error :: string
  ev_created :: instant
  ev_sent :: "instant option"

datatype opp_snapshot =
    SnapResponse opp_response
  | SnapWin opp_response win_confirmation
  | SnapFollowup followup
  | SnapMembers "member list"
  | SnapExternal string string string instant
  | SnapTransfer transfer_response
  | SnapCatalog catalog_item
  | SnapProvision string string opp_response
  | SnapProvisionSign string string opp_response string string

record opp_audit = row +
  oa_module :: string
  oa_operation :: string
  oa_resource :: string
  oa_resource_id :: string
  oa_actor :: string
  oa_actor_name :: string
  oa_before :: "opp_snapshot option"
  oa_after :: "opp_snapshot option"
  oa_reason :: string
  oa_result :: string
  oa_request :: string
  oa_at :: instant

record opp_sequence = row +
  sq_date :: string
  sq_current :: nat

record opp_db =
  opportunities :: "opportunity table"
  stage_logs :: "stage_log table"
  followups :: "followup table"
  external_links :: "external_link table"
  members :: "member table"
  member_terms :: "member_term table"
  win_confirmations :: "win_confirmation table"
  alert_rules :: "stage_alert_rule table"
  alert_rule_versions :: "alert_rule_version table"
  stage_alerts :: "stage_alert table"
  change_idems :: "change_idem table"
  create_idems :: "create_idem table"
  catalog_items :: "catalog_item table"
  catalog_links :: "catalog_link list"
  catalog_inits :: "string list"
  catalog_idems :: "catalog_idem table"
  opp_events :: "opp_event table"
  opp_audits :: "opp_audit table"
  opp_sequences :: "opp_sequence table"
  customer_refs :: "customer_ref table"
  customer_merges :: "customer_merge table"

section \<open>Errors\<close>

text \<open>
  \<open>errors.go\<close> and the errors the operations make in place, by status and code. A
  version conflict, a violated unique key and a failure of the database are those of
  \<open>app_error\<close>.
\<close>

definition ErrOppNotFound :: app_error where
  "ErrOppNotFound = AppError 404 ''CRM_OPPORTUNITY_NOT_FOUND''"

definition ErrOppInvalidStage :: app_error where
  "ErrOppInvalidStage = AppError 422 ''CRM_OPPORTUNITY_INVALID_STAGE''"

definition ErrOppContractRequired :: app_error where
  "ErrOppContractRequired = AppError 422 ''CRM_OPPORTUNITY_CONTRACT_REQUIRED''"

definition ErrOppLostReasonRequired :: app_error where
  "ErrOppLostReasonRequired = AppError 422 ''CRM_OPPORTUNITY_LOST_REASON_REQUIRED''"

definition ErrOppStaleEvent :: app_error where
  "ErrOppStaleEvent = AppError 409 ''CRM_OPPORTUNITY_STALE_EXTERNAL_EVENT''"

definition ErrOppCustomerForbidden :: app_error where
  "ErrOppCustomerForbidden = AppError 403 ''CRM_OPPORTUNITY_CUSTOMER_FORBIDDEN''"

definition ErrOppTerminalTodoAbsent :: app_error where
  "ErrOppTerminalTodoAbsent = AppError 409 ''CRM_OPPORTUNITY_TERMINAL_TODO_ABSENT''"

definition ErrOppInactive :: app_error where
  "ErrOppInactive = AppError 409 ''CRM_OPPORTUNITY_INACTIVE''"

definition ErrOppNotVoid :: app_error where
  "ErrOppNotVoid = AppError 409 ''CRM_OPPORTUNITY_NOT_VOID''"

definition ErrOppVoidBlocked :: app_error where
  "ErrOppVoidBlocked = AppError 409 ''CRM_OPPORTUNITY_VOID_BLOCKED''"

definition ErrOppOwnerRequired :: app_error where
  "ErrOppOwnerRequired = AppError 422 ''CRM_OPPORTUNITY_OWNER_REQUIRED''"

definition ErrOppInvalidMemberRole :: app_error where
  "ErrOppInvalidMemberRole = AppError 422 ''CRM_OPPORTUNITY_INVALID_MEMBER_ROLE''"

definition ErrOppInvalidTeamMember :: app_error where
  "ErrOppInvalidTeamMember = AppError 422 ''CRM_OPPORTUNITY_MEMBER_INVALID''"

definition ErrOppDuplicateMember :: app_error where
  "ErrOppDuplicateMember = AppError 422 ''CRM_OPPORTUNITY_DUPLICATE_MEMBER''"

definition ErrOppTeamTooLarge :: app_error where
  "ErrOppTeamTooLarge = AppError 422 ''CRM_OPPORTUNITY_TEAM_TOO_LARGE''"

definition ErrOppIdempotencyRequired :: app_error where
  "ErrOppIdempotencyRequired = AppError 400 ''COMMON_IDEMPOTENCY_KEY_REQUIRED''"

definition ErrOppIdempotencyConflict :: app_error where
  "ErrOppIdempotencyConflict = AppError 409 ''COMMON_IDEMPOTENCY_KEY_CONFLICT''"

definition ErrOppIdempotencyKeyTooLong :: app_error where
  "ErrOppIdempotencyKeyTooLong = AppError 400 ''COMMON_IDEMPOTENCY_KEY_INVALID''"

definition ErrOppInvalidAlertRule :: app_error where
  "ErrOppInvalidAlertRule = AppError 422 ''CRM_OPPORTUNITY_INVALID_ALERT_RULE''"

definition ErrOppAlertNotFound :: app_error where
  "ErrOppAlertNotFound = AppError 404 ''CRM_OPPORTUNITY_ALERT_NOT_FOUND''"

definition ErrOppAlertNotReadable :: app_error where
  "ErrOppAlertNotReadable = AppError 409 ''CRM_OPPORTUNITY_ALERT_NOT_READABLE''"

definition ErrOppInvalidQuery :: app_error where
  "ErrOppInvalidQuery = AppError 400 ''CRM_OPPORTUNITY_QUERY_INVALID''"

definition ErrOppTransferState :: app_error where
  "ErrOppTransferState = AppError 409 ''CRM_OPPORTUNITY_CONTRACT_TRANSFER_NOT_READY''"

definition ErrOppTransferAlreadyLinked :: app_error where
  "ErrOppTransferAlreadyLinked = AppError 409 ''CRM_OPPORTUNITY_CONTRACT_TRANSFER_ALREADY_LINKED''"

definition ErrOppTerminalStageLocked :: app_error where
  "ErrOppTerminalStageLocked = AppError 409 ''CRM_OPPORTUNITY_TERMINAL_STAGE_LOCKED''"

definition ErrOppTerminalMasterDataFrozen :: app_error where
  "ErrOppTerminalMasterDataFrozen = AppError 409 ''CRM_OPPORTUNITY_TERMINAL_AMOUNT_FROZEN''"

definition ErrOppExternalStatusTerminal :: app_error where
  "ErrOppExternalStatusTerminal = AppError 409 ''CRM_OPPORTUNITY_EXTERNAL_STATUS_TERMINAL''"

definition ErrOppWinEvidenceRequired :: app_error where
  "ErrOppWinEvidenceRequired = AppError 422 ''CRM_WIN_EVIDENCE_REQUIRED''"

definition ErrOppWinEvidenceInvalid :: app_error where
  "ErrOppWinEvidenceInvalid = AppError 422 ''CRM_WIN_EVIDENCE_INVALID''"

definition ErrOppWinModeMismatch :: app_error where
  "ErrOppWinModeMismatch = AppError 422 ''CRM_WIN_CONFIRMATION_MODE_MISMATCH''"

definition ErrOppWinEvidenceUnavailable :: app_error where
  "ErrOppWinEvidenceUnavailable = AppError 503 ''CRM_WIN_EVIDENCE_UNAVAILABLE''"

definition ErrOppTransferNotSubscribed :: app_error where
  "ErrOppTransferNotSubscribed = AppError 409 ''CRM_CONTRACT_TRANSFER_NOT_SUBSCRIBED''"

definition ErrOppInvalidAmount :: app_error where
  "ErrOppInvalidAmount = AppError 422 ''CRM_OPPORTUNITY_INVALID_AMOUNT''"

definition ErrOppInvalidSignDate :: app_error where
  "ErrOppInvalidSignDate = AppError 422 ''CRM_OPPORTUNITY_INVALID_SIGN_DATE''"

definition ErrOppMasterDataInvalid :: app_error where
  "ErrOppMasterDataInvalid = AppError 422 ''CRM_OPPORTUNITY_MASTER_DATA_INVALID''"

definition ErrOppInvalidSystemCount :: app_error where
  "ErrOppInvalidSystemCount = AppError 422 ''CRM_OPPORTUNITY_INVALID_SYSTEM_COUNT''"

definition ErrOppReasonRequired :: app_error where
  "ErrOppReasonRequired = AppError 422 ''CRM_OPPORTUNITY_CHANGE_REASON_REQUIRED''"

definition ErrOppFollowupContentRequired :: app_error where
  "ErrOppFollowupContentRequired = AppError 422 ''CRM_OPPORTUNITY_FOLLOWUP_CONTENT_REQUIRED''"

definition ErrOppContractNotConfigured :: app_error where
  "ErrOppContractNotConfigured = AppError 503 ''INTEGRATION_CONTRACT_NOT_CONFIGURED''"

definition ErrOppDependencyUnavailable :: app_error where
  "ErrOppDependencyUnavailable = AppError 503 ''INTEGRATION_DEPENDENCY_UNAVAILABLE''"

definition ErrOppContractCustomerMismatch :: app_error where
  "ErrOppContractCustomerMismatch = AppError 422 ''CRM_OPPORTUNITY_CONTRACT_CUSTOMER_MISMATCH''"

definition ErrOppUnknownExternalStatus :: app_error where
  "ErrOppUnknownExternalStatus = AppError 422 ''CRM_OPPORTUNITY_UNKNOWN_EXTERNAL_STATUS''"

definition ErrOppExternalAmountInvalid :: app_error where
  "ErrOppExternalAmountInvalid = AppError 422 ''CRM_OPPORTUNITY_EXTERNAL_AMOUNT_INVALID''"

definition ErrOppContractLinkInvalid :: app_error where
  "ErrOppContractLinkInvalid = AppError 422 ''CRM_CONTRACT_LINK_INVALID''"

definition ErrOppContractReferenceMismatch :: app_error where
  "ErrOppContractReferenceMismatch = AppError 409 ''CRM_CONTRACT_LINK_REFERENCE_MISMATCH''"

definition ErrOppContractLinkStale :: app_error where
  "ErrOppContractLinkStale = AppError 409 ''CRM_CONTRACT_LINK_STALE''"

definition ErrOppCatalogInvalid :: app_error where
  "ErrOppCatalogInvalid = AppError 422 ''CRM_OPPORTUNITY_CATALOG_INVALID''"

definition ErrOppCatalogNotFound :: app_error where
  "ErrOppCatalogNotFound = AppError 404 ''CRM_OPPORTUNITY_CATALOG_NOT_FOUND''"

definition ErrOppCatalogInUse :: app_error where
  "ErrOppCatalogInUse = AppError 409 ''CRM_OPPORTUNITY_CATALOG_IN_USE''"

definition ErrOppCatalogDuplicate :: app_error where
  "ErrOppCatalogDuplicate = AppError 409 ''CRM_OPPORTUNITY_CATALOG_DUPLICATE''"

definition ErrOppOwnerFrozen :: app_error where
  "ErrOppOwnerFrozen = AppError 409 ''CRM_OPPORTUNITY_OWNER_FROZEN''"

definition ErrOppFreezeUnavailable :: app_error where
  "ErrOppFreezeUnavailable = AppError 500 ''CRM_OPPORTUNITY_HANDOVER_FREEZE_UNAVAILABLE''"

definition ErrOppProvisionInvalid :: app_error where
  "ErrOppProvisionInvalid = AppError 422 ''CRM_IMPORT_PROVISION_INVALID_REQUEST''"

definition ErrOppProvisionOwnerInvalid :: app_error where
  "ErrOppProvisionOwnerInvalid = AppError 422 ''CRM_IMPORT_PROVISION_OWNER_INVALID''"

definition ErrOppProvisionOwnerUnavailable :: app_error where
  "ErrOppProvisionOwnerUnavailable = AppError 503 ''CRM_IMPORT_PROVISION_OWNER_DIRECTORY_UNAVAILABLE''"

definition ErrOppProvisionContractNotVerified :: app_error where
  "ErrOppProvisionContractNotVerified = AppError 503 ''CRM_IMPORT_PROVISION_CONTRACT_NOT_VERIFIED''"

end
