(* ===== verification/OpportunityRepo.thy ===== *)
theory OpportunityRepo
  imports OpportunityModel
begin

text \<open>
  The repository of the opportunity module (\<open>repository.go\<close>, the evidence store of
  \<open>win_confirmation.go\<close>, \<open>cancelActiveStageAlerts\<close> of \<open>stage_alert.go\<close>, and the audit
  writer): one operation per method, with its \<open>WHERE\<close> clause, the unique keys and checks
  of the migrations (000003 to 000128) and the row counts the code tests. Times are stored
  in \<open>DATETIME(3)\<close>, amounts in \<open>DECIMAL(18,2)\<close>. A method returns the new database and the
  row as the caller keeps it in memory.
\<close>

section \<open>Visibility\<close>

text \<open>\<open>ApplyDataScope\<close>, on one row.\<close>

definition in_scope :: "principal \<Rightarrow> opportunity \<Rightarrow> bool" where
  "in_scope p x \<longleftrightarrow>
     tenant_id x = p_tenant p \<and> deleted_at x = None \<and>
     (case p_scope p of
        ScopeAll \<Rightarrow> True
      | ScopeOrg \<Rightarrow> o_org x \<in> set (p_orgs p)
      | ScopeSelf \<Rightarrow> o_owner x = p_user p)"

definition find_opportunity :: "principal \<Rightarrow> nat \<Rightarrow> opp_db \<Rightarrow> opportunity app_res" where
  "find_opportunity p i db =
     (case find_row (\<lambda>x. in_scope p x \<and> row_id x = i) (opportunities db) of
        None \<Rightarrow> Inl ErrOppNotFound
      | Some m \<Rightarrow> Inr m)"

definition is_opp :: "string \<Rightarrow> nat \<Rightarrow> opportunity \<Rightarrow> bool" where
  "is_opp tenant i x \<longleftrightarrow> tenant_id x = tenant \<and> row_id x = i \<and> deleted_at x = None"

definition find_created_by_id :: "string \<Rightarrow> nat \<Rightarrow> opp_db \<Rightarrow> opportunity app_res" where
  "find_created_by_id tenant i db =
     (case find_row (is_opp tenant i) (opportunities db) of
        None \<Rightarrow> Inl ErrOppNotFound
      | Some m \<Rightarrow> Inr m)"

definition customer_visible :: "principal \<Rightarrow> nat \<Rightarrow> opp_db \<Rightarrow> bool" where
  "customer_visible p i db =
     exists_row (\<lambda>c. tenant_id c = p_tenant p \<and> row_id c = i \<and> cu_active c \<and> \<not> cu_merged c \<and> \<not> cu_deleted c \<and>
       (case p_scope p of
          ScopeAll \<Rightarrow> True
        | ScopeOrg \<Rightarrow> cu_org c \<in> set (p_orgs p)
        | ScopeSelf \<Rightarrow> cu_owner c = p_user p)) (customer_refs db)"

section \<open>Creation\<close>

definition next_opp_number :: "string \<Rightarrow> instant \<Rightarrow> opp_db \<Rightarrow> (opp_db \<times> string) app_res" where
  "next_opp_number tenant at db =
     (let date = date_string at; hit = (\<lambda>q. tenant_id q = tenant \<and> sq_date q = date)
      in case find_row hit (opp_sequences db) of
           None \<Rightarrow>
             Inr (db\<lparr>opp_sequences := snd (insert_row \<lparr>row_id = 0, tenant_id = tenant, sq_date = date, sq_current = 1\<rparr>
                    (opp_sequences db))\<rparr>, ''SJ'' @ date @ pad_nat 4 1)
         | Some q \<Rightarrow>
             if 9999 < sq_current q + 1 then Inl ErrDatabaseFailure
             else Inr (db\<lparr>opp_sequences := update_rows hit (\<lambda>x. x\<lparr>sq_current := sq_current x + 1\<rparr>) (opp_sequences db)\<rparr>,
                       ''SJ'' @ date @ pad_nat 4 (sq_current q + 1)))"

text \<open>The row as the server stores it.\<close>

definition stored_opp :: "opportunity \<Rightarrow> opportunity" where
  "stored_opp m =
     m\<lparr>o_amount := of_cents (cents (o_amount m)), o_stage_at := datetime3 (o_stage_at m),
       o_external_at := map_option datetime3 (o_external_at m), o_linked_at := map_option datetime3 (o_linked_at m),
       created_at := datetime3 (created_at m), updated_at := datetime3 (updated_at m)\<rparr>"

definition create_opp_row :: "instant \<Rightarrow> opportunity \<Rightarrow> opp_db \<Rightarrow> (opp_db \<times> opportunity) app_res" where
  "create_opp_row now m db =
     (if \<not> fits_decimal18 (o_amount m) then Inl ErrDatabaseFailure
      else if exists_row (\<lambda>x. tenant_id x = tenant_id m \<and> o_no x = o_no m) (opportunities db)
      then Inl (ErrDuplicateIndex ''uk_opportunity_no'')
      else (let m1 = m\<lparr>row_id := next_id (opportunities db), created_at := now, updated_at := now\<rparr>
            in Inr (db\<lparr>opportunities := snd (insert_row (stored_opp m1) (opportunities db))\<rparr>, m1)))"

definition find_create_idem :: "string \<Rightarrow> string \<Rightarrow> string \<Rightarrow> opp_db \<Rightarrow> create_idem option" where
  "find_create_idem tenant act key db =
     find_row (\<lambda>c. tenant_id c = tenant \<and> ce_actor c = act \<and> ce_key c = key) (create_idems db)"

definition create_create_idem :: "create_idem \<Rightarrow> opp_db \<Rightarrow> opp_db app_res" where
  "create_create_idem c db =
     (if exists_row (\<lambda>x. tenant_id x = tenant_id c \<and> ce_actor x = ce_actor c \<and> ce_key x = ce_key c) (create_idems db)
      then Inl (ErrDuplicateIndex ''uq_opportunity_create_idem'')
      else if exists_row (\<lambda>x. tenant_id x = tenant_id c \<and> ce_opp x = ce_opp c) (create_idems db)
      then Inl (ErrDuplicateIndex ''uq_opportunity_create_resource'')
      else Inr (db\<lparr>create_idems := snd (insert_row c (create_idems db))\<rparr>))"

section \<open>Versioned updates\<close>

text \<open>
  One \<open>UPDATE\<close> that must hit one row and counts its version up; \<open>f\<close> sets the columns. A
  version that leaves the range of its column is an error of the server.
\<close>

definition opp_write ::
  "instant \<Rightarrow> (opportunity \<Rightarrow> bool) \<Rightarrow> (opportunity \<Rightarrow> opportunity) \<Rightarrow> opp_db \<Rightarrow> opp_db app_res" where
  "opp_write now hit f db =
     (if exists_row (\<lambda>x. hit x \<and> 2 ^ 64 \<le> version x + 1) (opportunities db) then Inl ErrDatabaseFailure
      else if \<not> exists_row hit (opportunities db) then Inl ErrAppVersionConflict
      else Inr (db\<lparr>opportunities := update_rows hit
             (\<lambda>x. (f x)\<lparr>version := version x + 1, updated_at := datetime3 now\<rparr>) (opportunities db)\<rparr>))"

definition at_version :: "opportunity \<Rightarrow> nat \<Rightarrow> opportunity \<Rightarrow> bool" where
  "at_version m v x \<longleftrightarrow> is_opp (tenant_id m) (row_id m) x \<and> version x = v"

definition update_master :: "instant \<Rightarrow> opportunity \<Rightarrow> nat \<Rightarrow> opp_db \<Rightarrow> (opp_db \<times> opportunity) app_res" where
  "update_master now m v db =
     (if \<not> fits_decimal18 (o_amount m) then Inl ErrDatabaseFailure
      else case opp_write now (\<lambda>x. at_version m v x \<and> o_status x \<noteq> StatusVoid)
        (\<lambda>x. x\<lparr>o_name := o_name m, o_type := o_type m, o_source := o_source m,
               o_amount := of_cents (cents (o_amount m)), o_sign_date := o_sign_date m, o_summary := o_summary m,
               o_systems := o_systems m, o_pain := o_pain m, o_competitor := o_competitor m,
               updated_by := updated_by m\<rparr>) db of
        Inl e \<Rightarrow> Inl e
      | Inr db' \<Rightarrow> Inr (db', m\<lparr>version := v + 1\<rparr>))"

definition update_lifecycle :: "instant \<Rightarrow> opportunity \<Rightarrow> nat \<Rightarrow> opp_status \<Rightarrow> opp_db \<Rightarrow> (opp_db \<times> opportunity) app_res" where
  "update_lifecycle now m v expected db =
     (case opp_write now (\<lambda>x. at_version m v x \<and> o_status x = expected)
        (\<lambda>x. x\<lparr>o_status := o_status m, o_end := o_end m, o_before_void := o_before_void m, updated_by := updated_by m\<rparr>) db of
        Inl e \<Rightarrow> Inl e
      | Inr db' \<Rightarrow> Inr (db', m\<lparr>version := v + 1\<rparr>))"

definition update_stage :: "instant \<Rightarrow> opportunity \<Rightarrow> nat \<Rightarrow> opp_db \<Rightarrow> (opp_db \<times> opportunity) app_res" where
  "update_stage now m v db =
     (case opp_write now (\<lambda>x. at_version m v x \<and> o_status x \<noteq> StatusVoid)
        (\<lambda>x. x\<lparr>o_stage := o_stage m, o_status := o_status m, o_contract := o_contract m, o_lost := o_lost m,
               o_pending := o_pending m, o_stage_at := datetime3 (o_stage_at m),
               o_external_at := map_option datetime3 (o_external_at m), updated_by := updated_by m\<rparr>) db of
        Inl e \<Rightarrow> Inl e
      | Inr db' \<Rightarrow> Inr (db', m\<lparr>version := v + 1\<rparr>))"

definition update_terminal_todo :: "instant \<Rightarrow> opportunity \<Rightarrow> nat \<Rightarrow> opp_db \<Rightarrow> (opp_db \<times> opportunity) app_res" where
  "update_terminal_todo now m v db =
     (case opp_write now (at_version m v)
        (\<lambda>x. x\<lparr>o_contract := o_contract m, o_lost := o_lost m, o_pending := o_pending m, updated_by := updated_by m\<rparr>) db of
        Inl e \<Rightarrow> Inl e
      | Inr db' \<Rightarrow> Inr (db', m\<lparr>version := v + 1\<rparr>))"

definition update_contract_link :: "instant \<Rightarrow> opportunity \<Rightarrow> nat \<Rightarrow> opp_db \<Rightarrow> (opp_db \<times> opportunity) app_res" where
  "update_contract_link now m sync db =
     (case opp_write now (\<lambda>x. is_opp (tenant_id m) (row_id m) x \<and> o_sync x = sync)
        (\<lambda>x. x\<lparr>o_contract_id := o_contract_id m, o_intake := o_intake m, o_link := o_link m,
               o_linked_at := map_option datetime3 (o_linked_at m), o_sync := o_sync m,
               o_link_event := o_link_event m, updated_by := updated_by m\<rparr>) db of
        Inl e \<Rightarrow> Inl e
      | Inr db' \<Rightarrow>
          if exists_row (\<lambda>x. tenant_id x = tenant_id m \<and> row_id x \<noteq> row_id m \<and> o_link_event x \<noteq> None \<and>
               o_link_event x = o_link_event m) (opportunities db)
          then Inl (ErrDuplicateIndex ''uq_opportunity_contract_link_event'')
          else Inr (db', m\<lparr>version := version m + 1\<rparr>))"

definition update_owner :: "instant \<Rightarrow> opportunity \<Rightarrow> nat \<Rightarrow> opp_db \<Rightarrow> (opp_db \<times> opportunity) app_res" where
  "update_owner now m v db =
     (case opp_write now (\<lambda>x. at_version m v x \<and> o_status x \<noteq> StatusVoid)
        (\<lambda>x. x\<lparr>o_owner := o_owner m, o_org := o_org m, updated_by := updated_by m\<rparr>) db of
        Inl e \<Rightarrow> Inl e
      | Inr db' \<Rightarrow> Inr (db', m\<lparr>version := v + 1\<rparr>))"

section \<open>Stage logs, external links, evidence\<close>

definition create_stage_log :: "stage_log \<Rightarrow> opp_db \<Rightarrow> opp_db app_res" where
  "create_stage_log l db =
     (if exists_row (\<lambda>x. tenant_id x = tenant_id l \<and> sg_source x = sg_source l \<and> sg_source_id x = sg_source_id l) (stage_logs db)
      then Inl (ErrDuplicateIndex ''uk_stage_source'')
      else Inr (db\<lparr>stage_logs := snd (insert_row (l\<lparr>sg_at := datetime3 (sg_at l)\<rparr>) (stage_logs db))\<rparr>))"

definition of_opp_link :: "string \<Rightarrow> nat \<Rightarrow> external_link \<Rightarrow> bool" where
  "of_opp_link tenant i x \<longleftrightarrow> tenant_id x = tenant \<and> xl_opp x = i"

definition create_external_link :: "external_link \<Rightarrow> opp_db \<Rightarrow> opp_db app_res" where
  "create_external_link l db =
     (if \<not> (case xl_amount l of None \<Rightarrow> True | Some a \<Rightarrow> fits_decimal18 a \<and> 0 \<le> cents a) \<or>
         xl_type l \<noteq> qb_quote \<and> xl_type l \<noteq> qb_bid then Inl ErrDatabaseFailure
      else if exists_row (\<lambda>x. of_opp_link (tenant_id l) (xl_opp l) x \<and> xl_source x = xl_source l \<and> xl_status x = xl_status l)
        (external_links db)
      then Inl (ErrDuplicateIndex ''uq_opportunity_external_status'')
      else Inr (db\<lparr>external_links := snd (insert_row
             (l\<lparr>xl_amount := map_option (\<lambda>a. of_cents (cents a)) (xl_amount l), xl_at := datetime3 (xl_at l)\<rparr>)
             (external_links db))\<rparr>))"

definition find_external_link :: "string \<Rightarrow> nat \<Rightarrow> string \<Rightarrow> string \<Rightarrow> opp_db \<Rightarrow> external_link option" where
  "find_external_link tenant i src st db =
     find_row (\<lambda>x. of_opp_link tenant i x \<and> xl_source x = src \<and> xl_status x = st) (external_links db)"

text \<open>Ordered by time and id, the later first.\<close>

definition link_after :: "external_link \<Rightarrow> external_link \<Rightarrow> bool" where
  "link_after x y \<longleftrightarrow> xl_at y < xl_at x \<or> xl_at x = xl_at y \<and> row_id y < row_id x"

fun latest_link :: "external_link list \<Rightarrow> external_link option" where
  "latest_link [] = None"
| "latest_link (x # xs) =
     (case latest_link xs of None \<Rightarrow> Some x | Some y \<Rightarrow> if link_after x y then Some x else Some y)"

definition latest_external_link :: "string \<Rightarrow> nat \<Rightarrow> opp_db \<Rightarrow> external_link option" where
  "latest_external_link tenant i db = latest_link (select_rows (of_opp_link tenant i) (external_links db))"

text \<open>No later link of the same opportunity and source document.\<close>

definition is_latest_of_source :: "opp_db \<Rightarrow> external_link \<Rightarrow> bool" where
  "is_latest_of_source db x \<longleftrightarrow>
     \<not> exists_row (\<lambda>y. of_opp_link (tenant_id x) (xl_opp x) y \<and> xl_source y = xl_source x \<and> link_after y x) (external_links db)"

definition latest_approved_quotation :: "string \<Rightarrow> nat \<Rightarrow> opp_db \<Rightarrow> external_link option" where
  "latest_approved_quotation tenant i db =
     latest_link (select_rows (\<lambda>x. of_opp_link tenant i x \<and> xl_type x = qb_quote \<and> xl_status x = qb_quote_approved \<and>
       is_latest_of_source db x) (external_links db))"

definition create_win_confirmation :: "win_confirmation \<Rightarrow> opp_db \<Rightarrow> opp_db app_res" where
  "create_win_confirmation w db =
     (if wc_mode w \<noteq> ''local_evidence'' \<or>
         wc_type w \<notin> set [''PURCHASE_ORDER'', ''AWARD_NOTICE'', ''CUSTOMER_CONFIRMATION'', ''OTHER''] \<or>
         \<not> fits_decimal18 (wc_amount w) \<or> cents (wc_amount w) < 0 then Inl ErrDatabaseFailure
      else if exists_row (\<lambda>x. tenant_id x = tenant_id w \<and> wc_opp x = wc_opp w) (win_confirmations db)
      then Inl (ErrDuplicateIndex ''uq_opportunity_win_confirmation'')
      else Inr (db\<lparr>win_confirmations := snd (insert_row (w\<lparr>wc_amount := of_cents (cents (wc_amount w))\<rparr>)
             (win_confirmations db))\<rparr>))"

definition get_win_confirmation :: "string \<Rightarrow> nat \<Rightarrow> opp_db \<Rightarrow> win_confirmation option" where
  "get_win_confirmation tenant i db =
     find_row (\<lambda>x. tenant_id x = tenant \<and> wc_opp x = i) (win_confirmations db)"

text \<open>
  \<open>VoidBlockers\<close>: \<open>presale\<close> says whether the presale module holds an unfinished request of
  the opportunity.
\<close>

definition void_blockers :: "(string \<Rightarrow> nat \<Rightarrow> bool) \<Rightarrow> string \<Rightarrow> nat \<Rightarrow> opp_db \<Rightarrow> string list" where
  "void_blockers presale tenant i db =
     (if presale tenant i then [''ACTIVE_PRESALE_REQUEST''] else []) @
     (if exists_row (\<lambda>x. is_opp tenant i x \<and> o_contract x \<noteq> None \<and> o_contract x \<noteq> Some []) (opportunities db)
      then [''LINKED_CONTRACT''] else []) @
     (if exists_row (\<lambda>x. of_opp_link tenant i x \<and>
           xl_status x \<in> set [qb_quote_review, qb_quote_approved, qb_bid_drafting, qb_opening, qb_bid_opening] \<and>
           is_latest_of_source db x) (external_links db)
      then [''ACTIVE_EXTERNAL_QB''] else [])"

section \<open>Follow-ups, ledgers, events, audit\<close>

definition create_followup_row :: "instant \<Rightarrow> followup \<Rightarrow> opp_db \<Rightarrow> opp_db \<times> followup" where
  "create_followup_row now f db =
     (let (f', t) = insert_row (f\<lparr>created_at := now, updated_at := now\<rparr>) (followups db)
      in (db\<lparr>followups := t\<rparr>, f'))"

definition find_change_idem :: "string \<Rightarrow> nat \<Rightarrow> string \<Rightarrow> string \<Rightarrow> string \<Rightarrow> opp_db \<Rightarrow> change_idem option" where
  "find_change_idem tenant i op act key db =
     find_row (\<lambda>c. tenant_id c = tenant \<and> ch_opp c = i \<and> ch_operation c = op \<and> ch_actor c = act \<and> ch_key c = key)
       (change_idems db)"

definition create_change_idem :: "change_idem \<Rightarrow> opp_db \<Rightarrow> opp_db app_res" where
  "create_change_idem c db =
     (if find_change_idem (tenant_id c) (ch_opp c) (ch_operation c) (ch_actor c) (ch_key c) db \<noteq> None
      then Inl (ErrDuplicateIndex ''uq_opportunity_change_idem'')
      else Inr (db\<lparr>change_idems := snd (insert_row c (change_idems db))\<rparr>))"

definition create_event :: "opp_event \<Rightarrow> opp_db \<Rightarrow> opp_db app_res" where
  "create_event e db =
     (if exists_row (\<lambda>x. ev_id x = ev_id e) (opp_events db) then Inl (ErrDuplicateIndex ''uq_crm_outbox_event'')
      else Inr (db\<lparr>opp_events := snd (insert_row e (opp_events db))\<rparr>))"

definition create_events :: "opp_event list \<Rightarrow> opp_db \<Rightarrow> opp_db app_res" where
  "create_events = fold_res create_event"

definition find_event :: "string \<Rightarrow> string \<Rightarrow> opp_db \<Rightarrow> opp_event option" where
  "find_event tenant eid db = find_row (\<lambda>x. tenant_id x = tenant \<and> ev_id x = eid) (opp_events db)"

definition is_transfer_event :: "string \<Rightarrow> nat \<Rightarrow> opp_event \<Rightarrow> bool" where
  "is_transfer_event tenant i x \<longleftrightarrow>
     tenant_id x = tenant \<and> ev_aggregate x = ''opportunity'' \<and> ev_aggregate_id x = show_nat i \<and>
     ev_type x = ''OPPORTUNITY_SIGNED''"

definition contract_transfer_accepted :: "string \<Rightarrow> nat \<Rightarrow> opp_db \<Rightarrow> bool" where
  "contract_transfer_accepted tenant i db = exists_row (is_transfer_event tenant i) (opp_events db)"

definition cancel_active_alerts :: "instant \<Rightarrow> string \<Rightarrow> string \<Rightarrow> nat \<Rightarrow> opp_db \<Rightarrow> opp_db" where
  "cancel_active_alerts now act tenant i db =
     (let hit = (\<lambda>x. tenant_id x = tenant \<and> al_opp x = i \<and> al_status x \<in> {AlertPending, AlertUnread} \<and> deleted_at x = None);
          ids = map (\<lambda>x. show_nat (row_id x)) (select_rows hit (stage_alerts db))
      in if ids = [] then db
         else db\<lparr>stage_alerts := update_rows hit
                (\<lambda>x. x\<lparr>al_status := AlertCancelled, updated_at := now, updated_by := act, version := version x + 1\<rparr>)
                (stage_alerts db),
              opp_events := update_rows (\<lambda>x. ev_type x = ''OPPORTUNITY_STAGE_ALERT_SITE_MESSAGE'' \<and>
                  ev_aggregate x = ''opportunity_stage_alert'' \<and> ev_aggregate_id x \<in> set ids \<and> ev_status x = ''PENDING'')
                (\<lambda>x. x\<lparr>ev_status := ''CANCELLED''\<rparr>) (opp_events db)\<rparr>)"

definition write_audit :: "opp_audit \<Rightarrow> opp_db \<Rightarrow> opp_db" where
  "write_audit e db = db\<lparr>opp_audits := snd (insert_row e (opp_audits db))\<rparr>"

definition list_failed_transfers :: "string \<Rightarrow> nat \<Rightarrow> opp_db \<Rightarrow> opp_event list" where
  "list_failed_transfers tenant limit db =
     take (if limit < 1 \<or> 200 < limit then 100 else limit)
       (rev (sort_key ev_created (select_rows
          (\<lambda>x. tenant_id x = tenant \<and> ev_type x = ''OPPORTUNITY_SIGNED'' \<and> ev_status x = ''DEAD_LETTER'') (opp_events db))))"

definition retry_failed_transfer :: "string \<Rightarrow> nat \<Rightarrow> opp_db \<Rightarrow> opp_db \<times> bool" where
  "retry_failed_transfer tenant i db =
     (let hit = (\<lambda>x. tenant_id x = tenant \<and> row_id x = i \<and> ev_type x = ''OPPORTUNITY_SIGNED'' \<and> ev_status x = ''DEAD_LETTER'')
      in (db\<lparr>opp_events := update_rows hit
             (\<lambda>x. x\<lparr>ev_status := ''PENDING'', ev_retries := 0, ev_next_retry := None, ev_locked_by := [],
                    ev_locked_until := None, ev_error := []\<rparr>) (opp_events db)\<rparr>,
          exists_row hit (opp_events db)))"

section \<open>The team\<close>

definition of_opp_member :: "string \<Rightarrow> nat \<Rightarrow> member \<Rightarrow> bool" where
  "of_opp_member tenant i x \<longleftrightarrow> tenant_id x = tenant \<and> mb_opp x = i \<and> deleted_at x = None"

text \<open>\<open>ListMembers\<close>; the order of the list is not modelled.\<close>

definition list_members :: "string \<Rightarrow> nat \<Rightarrow> bool \<Rightarrow> opp_db \<Rightarrow> member list" where
  "list_members tenant i inactive db =
     select_rows (\<lambda>x. of_opp_member tenant i x \<and> (inactive \<or> mb_active x)) (members db)"

definition open_term_of :: "string \<Rightarrow> nat \<Rightarrow> string \<Rightarrow> member_term \<Rightarrow> bool" where
  "open_term_of tenant i user x \<longleftrightarrow> tenant_id x = tenant \<and> mt_opp x = i \<and> mt_user x = user \<and> open_term x"

definition term_after :: "instant \<Rightarrow> member_term \<Rightarrow> bool" where
  "term_after at t \<longleftrightarrow>
     (case mt_started t of Some u \<Rightarrow> at < u | None \<Rightarrow> (case mt_snapshot t of Some u \<Rightarrow> at < u | None \<Rightarrow> False))"

text \<open>
  \<open>closeMemberTerm\<close>. The server refuses a term that would end before it starts; a number of
  open terms other than one is an error of the code, answered as an internal error.
\<close>

definition close_member_term :: "string \<Rightarrow> nat \<Rightarrow> string \<Rightarrow> string \<Rightarrow> instant \<Rightarrow> opp_db \<Rightarrow> opp_db app_res" where
  "close_member_term tenant i user act at db =
     (let hit = open_term_of tenant i user
      in if exists_row (\<lambda>x. hit x \<and> term_after (datetime3 at) x) (member_terms db) then Inl ErrDatabaseFailure
         else if length (select_rows hit (member_terms db)) \<noteq> 1 then Inl ErrInternal
         else Inr (db\<lparr>member_terms := update_rows hit
                (\<lambda>x. x\<lparr>mt_ended := Some (datetime3 at), mt_ended_by := Some act\<rparr>) (member_terms db)\<rparr>))"

definition create_member_term :: "member \<Rightarrow> string \<Rightarrow> string \<Rightarrow> instant \<Rightarrow> opp_db \<Rightarrow> opp_db app_res" where
  "create_member_term b role act at db =
     (if role \<notin> set member_roles then Inl ErrDatabaseFailure
      else if exists_row (open_term_of (tenant_id b) (mb_opp b) (mb_user b)) (member_terms db)
      then Inl (ErrDuplicateIndex ''uq_opportunity_member_active_term'')
      else Inr (db\<lparr>member_terms := snd (insert_row
             \<lparr>row_id = 0, tenant_id = tenant_id b, mt_opp = mb_opp b, mt_member = row_id b, mt_user = mb_user b,
              mt_role = role, mt_started = Some (datetime3 at), mt_snapshot = None, mt_active_then = None, mt_ended = None,
              mt_started_by = Some act, mt_ended_by = None, mt_source = TermRecorded\<rparr> (member_terms db))\<rparr>))"

definition update_member :: "string \<Rightarrow> nat \<Rightarrow> (member \<Rightarrow> member) \<Rightarrow> opp_db \<Rightarrow> opp_db" where
  "update_member tenant i f db =
     db\<lparr>members := update_rows (\<lambda>x. row_id x = i \<and> tenant_id x = tenant \<and> deleted_at x = None) f (members db)\<rparr>"

text \<open>
  One member of the present team: kept, perhaps in another role or again, or removed. The
  map of the wanted members is built in order, so the last entry of a user counts.
\<close>

definition wanted :: "member list \<Rightarrow> string \<Rightarrow> member option" where
  "wanted desired user = List.find (\<lambda>d. mb_user d = user) (rev desired)"

definition replace_one :: "opportunity \<Rightarrow> instant \<Rightarrow> member list \<Rightarrow> member \<Rightarrow> opp_db \<Rightarrow> opp_db app_res" where
  "replace_one m now desired b db =
     (case wanted desired (mb_user b) of
        Some d \<Rightarrow>
          (case (if mb_active b \<and> mb_role b \<noteq> mb_role d
                 then close_member_term (tenant_id m) (row_id m) (mb_user b) (updated_by m) now db else Inr db) of
            Inl e \<Rightarrow> Inl e
          | Inr db1 \<Rightarrow>
            (let db2 = update_member (tenant_id m) (row_id b)
               (\<lambda>x. x\<lparr>mb_role := mb_role d, mb_active := True, mb_ended := None, updated_by := updated_by m,
                      updated_at := now, version := version x + 1\<rparr>) db1
             in if \<not> mb_active b \<or> mb_role b \<noteq> mb_role d
                then create_member_term b (mb_role d) (updated_by m) now db2 else Inr db2))
      | None \<Rightarrow>
          if mb_active b
          then (case close_member_term (tenant_id m) (row_id m) (mb_user b) (updated_by m) now db of
            Inl e \<Rightarrow> Inl e
          | Inr db1 \<Rightarrow> Inr (update_member (tenant_id m) (row_id b)
              (\<lambda>x. x\<lparr>mb_active := False, mb_ended := Some now, updated_by := updated_by m, updated_at := now,
                     version := version x + 1\<rparr>) db1))
          else Inr db)"

definition add_member :: "opportunity \<Rightarrow> instant \<Rightarrow> member \<Rightarrow> opp_db \<Rightarrow> opp_db app_res" where
  "add_member m now d db =
     (if exists_row (\<lambda>x. tenant_id x = tenant_id d \<and> mb_opp x = mb_opp d \<and> mb_user x = mb_user d) (members db)
      then Inl (ErrDuplicateIndex ''uq_opportunity_member'')
      else if mb_role d \<notin> set member_roles then Inl ErrDatabaseFailure
      else (let (d', t) = insert_row d (members db)
            in create_member_term d' (mb_role d) (updated_by m) now (db\<lparr>members := t\<rparr>)))"

text \<open>
  \<open>ReplaceMembers\<close>: \<open>order\<close> is the order in which Go visits the keys of the map of those
  who are new.
\<close>

definition replace_member_rows ::
  "(string list \<Rightarrow> string list) \<Rightarrow> opportunity \<Rightarrow> nat \<Rightarrow> member list \<Rightarrow> instant \<Rightarrow> opp_db \<Rightarrow> (opp_db \<times> opportunity) app_res" where
  "replace_member_rows order m v desired now db =
     (case opp_write now (\<lambda>x. at_version m v x \<and> o_status x \<noteq> StatusVoid) (\<lambda>x. x\<lparr>updated_by := updated_by m\<rparr>) db of
        Inl e \<Rightarrow> Inl e
      | Inr db1 \<Rightarrow>
        (let current = select_rows (of_opp_member (tenant_id m) (row_id m)) (members db1)
         in case fold_res (replace_one m now desired) current db1 of
           Inl e \<Rightarrow> Inl e
         | Inr db2 \<Rightarrow>
           (let fresh = filter (\<lambda>u. u \<notin> set (map mb_user current)) (remdups (map mb_user desired))
            in case fold_res (add_member m now) (map (\<lambda>u. the (wanted desired u)) (order fresh)) db2 of
              Inl e \<Rightarrow> Inl e
            | Inr db3 \<Rightarrow> Inr (db3, m\<lparr>version := v + 1\<rparr>))))"

end
