(* ===== verification/OpportunityService.thy ===== *)
theory OpportunityService
  imports OpportunityRepo
begin

text \<open>
  The opportunity service as a record: the clock reading and trace of the operation, the
  ports it is wired with (an unwired port is \<open>None\<close>), the hash, encoding, parsing and case
  functions it calls, and a view of the presale module. With it what the operations share:
  the principal, the freeze of a handover (\<open>handover_freeze.go\<close>) and the audit record.
\<close>

section \<open>The service\<close>

record owner_catalog =
  ow_list :: "directory_query \<Rightarrow> directory_user list app_res"
  ow_validate :: "string \<Rightarrow> string \<Rightarrow> unit app_res"
  ow_resolve :: "string list \<Rightarrow> (string \<Rightarrow> directory_user option) app_res"

text \<open>What the module passes to \<open>json.Marshal\<close> in order to hash the bytes.\<close>

datatype opp_json =
    JsonCreate opp_create_input
  | JsonResponse opp_response
  | JsonLink contract_link_input
  | JsonCatalogCreate catalog_kind string nat
  | JsonCatalogDelete nat nat string
  | JsonSnapshot external_snapshot

record opp_service =
  op_now :: instant
  op_trace :: string
  op_catalog :: bool
  op_win_mode :: string
  op_transfer_disabled :: bool
  op_evidence :: bool
  op_freeze :: "(string \<Rightarrow> string \<Rightarrow> bool app_res) option"
  op_gate :: "string \<Rightarrow> string \<Rightarrow> bool" \<comment> \<open>the locked read of the freeze table\<close>
  op_contracts :: "(string \<Rightarrow> nat \<Rightarrow> bool option) option" \<comment> \<open>\<open>None\<close> inside: the call failed\<close>
  op_owners :: "owner_catalog option"
  op_presale :: "string \<Rightarrow> nat \<Rightarrow> bool" \<comment> \<open>an unfinished presale request exists\<close>
  op_decimal :: "string \<Rightarrow> decimal option" \<comment> \<open>\<open>decimal.NewFromString\<close>\<close>
  op_sha :: "string \<Rightarrow> string" \<comment> \<open>SHA-256 in hexadecimal digits\<close>
  op_json :: "opp_json \<Rightarrow> string"
  op_json_column :: "string \<Rightarrow> string" \<comment> \<open>the text a column of type \<open>JSON\<close> returns for the text written to it\<close>
  op_lower :: "string \<Rightarrow> string" \<comment> \<open>\<open>strings.ToLower\<close>\<close>
  op_map_order :: "string list \<Rightarrow> string list"
  op_random :: string \<comment> \<open>\<open>request.NewID\<close>\<close>

definition require_principal :: "principal \<Rightarrow> principal app_res" where
  "require_principal p = (if p_user p = [] \<or> p_tenant p = [] then Inl ErrUnauthenticated else Inr p)"

section \<open>The freeze of a handover\<close>

definition ensure_owner_not_frozen :: "opp_service \<Rightarrow> string \<Rightarrow> string \<Rightarrow> unit app_res" where
  "ensure_owner_not_frozen s tenant owner =
     (case op_freeze s of
        None \<Rightarrow> Inl ErrOppFreezeUnavailable
      | Some check \<Rightarrow>
          if trim_space owner = [] then Inl ErrOppOwnerRequired
          else (case check tenant (trim_space owner) of
            Inl e \<Rightarrow> Inl e
          | Inr frozen \<Rightarrow> if frozen then Inl ErrOppOwnerFrozen else Inr ()))"

text \<open>
  \<open>guardOwnerWrite\<close> in the write transaction: the checker again, then the locked read of
  \<open>handoverguard.Guard\<close>.
\<close>

definition guard_owner_write :: "opp_service \<Rightarrow> string \<Rightarrow> string \<Rightarrow> unit app_res" where
  "guard_owner_write s tenant owner =
     (case ensure_owner_not_frozen s tenant owner of
        Inl e \<Rightarrow> Inl e
      | Inr _ \<Rightarrow>
          if trim_space tenant = [] \<or> trim_space owner = [] then Inl ErrInternal
          else if op_gate s (trim_space tenant) (trim_space owner) then Inl ErrOppOwnerFrozen else Inr ())"

section \<open>Audit\<close>

definition audit_event ::
  "opp_service \<Rightarrow> principal \<Rightarrow> string \<times> string \<Rightarrow> string \<Rightarrow> nat \<Rightarrow> opp_snapshot option \<Rightarrow> opp_snapshot option \<Rightarrow> string
     \<Rightarrow> string \<Rightarrow> opp_audit" where
  "audit_event s p module operation i before after reason result =
     \<lparr>row_id = 0, tenant_id = p_tenant p, oa_module = fst module, oa_operation = operation, oa_resource = snd module,
      oa_resource_id = show_nat i, oa_actor = p_user p, oa_actor_name = p_name p, oa_before = before, oa_after = after,
      oa_reason = reason, oa_result = result, oa_request = op_trace s, oa_at = op_now s\<rparr>"

definition audit_opp ::
  "opp_service \<Rightarrow> principal \<Rightarrow> string \<Rightarrow> nat \<Rightarrow> opp_snapshot option \<Rightarrow> opp_snapshot option \<Rightarrow> string \<Rightarrow> opp_db \<Rightarrow> opp_db" where
  "audit_opp s p operation i before after reason =
     write_audit (audit_event s p (''opportunity'', ''opportunity'') operation i before after reason ''SUCCESS'')"

end
