(* ===== verification/OpportunityCatalog.thy ===== *)
theory OpportunityCatalog
  imports OpportunityService
begin

text \<open>
  The tenant's catalog of opportunity types and sources (\<open>catalog.go\<close>): names and their
  normal form, the default items, the selections of an opportunity and their links, the
  enriched response, and the administration of items with the projection of a renamed item
  onto the opportunities that use it.
\<close>

section \<open>Texts\<close>

text \<open>\<open>strings.Split\<close> and \<open>strings.Contains\<close> with a separator of several bytes.\<close>

fun split_skip :: "string \<Rightarrow> nat \<Rightarrow> string \<Rightarrow> string list" where
  "split_skip sep k [] = [[]]"
| "split_skip sep (Suc k) (c # s) = split_skip sep k s"
| "split_skip sep 0 (c # s) =
     (if take (length sep) (c # s) = sep then [] # split_skip sep (length sep - 1) s
      else (case split_skip sep 0 s of [] \<Rightarrow> [[c]] | w # ws \<Rightarrow> (c # w) # ws))"

definition split_string :: "string \<Rightarrow> string \<Rightarrow> string list" where
  "split_string sep s = split_skip sep 0 s"

definition contains_string :: "string \<Rightarrow> string \<Rightarrow> bool" where
  "contains_string sub s \<longleftrightarrow> list_ex (\<lambda>k. take (length sub) (drop k s) = sub) [0..<Suc (length s)]"

text \<open>\<open>strings.Join(strings.Fields(s), "")\<close>: the text without its white space.\<close>

definition without_spaces :: "string \<Rightarrow> string" where
  "without_spaces s = concat (map snd (filter (\<lambda>r. \<not> is_space (fst r)) (go_runes s)))"

definition normalize_catalog_name :: "opp_service \<Rightarrow> string \<Rightarrow> (string \<times> string) app_res" where
  "normalize_catalog_name s value =
     (let name = trim_space value
      in if name = [] \<or> 64 < rune_len name \<or> contains_string txt_list_comma name \<or>
            contains_any name [CHR 0x0D, CHR 0x0A, CHR 0x09] then Inl ErrOppCatalogInvalid
         else (let normal = op_lower s (without_spaces name)
           in if normal = [] then Inl ErrOppCatalogInvalid else Inr (name, normal)))"

definition normalized_catalog_names :: "opp_service \<Rightarrow> string list \<Rightarrow> string list" where
  "normalized_catalog_names s values =
     map (\<lambda>v. case normalize_catalog_name s v of Inl _ \<Rightarrow> [] | Inr (_, normal) \<Rightarrow> normal) values"

definition split_catalog_text :: "string \<Rightarrow> string list" where
  "split_catalog_text value =
     rev (fold (\<lambda>part acc. let name = trim_space part in if name = [] \<or> name \<in> set acc then acc else name # acc)
       (split_string txt_list_comma value) [])"

definition unique_catalog_ids :: "nat list \<Rightarrow> nat list" where
  "unique_catalog_ids values = rev (fold (\<lambda>v acc. if v = 0 \<or> v \<in> set acc then acc else v # acc) values [])"

definition join_catalog_names :: "catalog_item list \<Rightarrow> string" where
  "join_catalog_names items = join txt_list_comma (map ci_name items)"

definition join_value_names :: "catalog_value list \<Rightarrow> string" where
  "join_value_names values = join txt_list_comma (map cv_name values)"

section \<open>Items and their defaults\<close>

text \<open>\<open>defaultCatalogItems\<close>: the security services a tenant starts with, and the sources.\<close>

fun default_catalog_items :: "catalog_kind \<Rightarrow> string list" where
  "default_catalog_items CatalogKindType = [
      utf8 [31561, 20445, 23457, 26597],
      utf8 [23494, 30721, 24212, 29992, 23433, 20840, 24615, 35780, 20272],
      utf8 [36719, 20214, 27979, 35797],
      utf8 [28304, 20195, 30721, 23457, 35745],
      utf8 [28183, 36879, 27979, 35797],
      utf8 [28431, 27934, 25195, 25551],
      utf8 [65, 80, 80, 23433, 20840, 23436, 25972, 24615],
      utf8 [22312, 32447, 27979, 35797],
      utf8 [23433, 20840, 31995, 25968],
      utf8 [32593, 32476, 23433, 20840, 39118, 38505, 35780, 20272],
      utf8 [32570, 21475, 20998, 26512],
      utf8 [26426, 25151, 26816, 27979],
      utf8 [32593, 32476, 23433, 20840, 26816, 27979, 26381, 21153],
      utf8 [23433, 20840, 22521, 35757],
      utf8 [23433, 20840, 24615, 27979, 35797],
      utf8 [24212, 24613, 21709, 24212, 26381, 21153],
      utf8 [32593, 32476, 23433, 20840, 25915, 38450, 28436, 20869, 23481],
      utf8 [23433, 20840, 36816, 32500]]"
| "default_catalog_items CatalogKindSource = [
      utf8 [23458, 25143, 20027, 21160, 21672, 35810],
      utf8 [32769, 23458, 25143, 22797, 36141, 47, 32493, 32422],
      utf8 [32769, 23458, 25143, 36716, 20171, 32461],
      utf8 [20844, 24320, 25307, 26631],
      utf8 [38144, 21806, 24320, 25299],
      utf8 [21512, 20316, 20249, 20276, 25512, 33616],
      utf8 [23637, 20250, 47, 27963, 21160],
      utf8 [25919, 24220, 47, 20027, 31649, 21333, 20301, 25351, 27966],
      utf8 [32447, 19978, 28192, 36947],
      utf8 [20869, 37096, 36716, 20171]]"

definition code_prefix :: "catalog_kind \<Rightarrow> string" where
  "code_prefix k = (if k = CatalogKindSource then ''OS-'' else ''OT-'')"

definition catalog_code :: "opp_service \<Rightarrow> string \<Rightarrow> catalog_kind \<Rightarrow> string \<Rightarrow> string" where
  "catalog_code s tenant k name =
     code_prefix k @ take 24 (op_sha s (tenant @ '':'' @ kind_text k @ '':'' @ name @ '':'' @ op_random s))"

definition create_catalog_item :: "catalog_item \<Rightarrow> opp_db \<Rightarrow> opp_db app_res" where
  "create_catalog_item c db =
     (if exists_row (\<lambda>x. tenant_id x = tenant_id c \<and>
            (ci_code x = ci_code c \<or> ci_kind x = ci_kind c \<and> ci_normal x = ci_normal c)) (catalog_items db)
      then Inl (ErrDuplicateIndex ''uq_crm_opportunity_catalog'')
      else Inr (db\<lparr>catalog_items := snd (insert_row c (catalog_items db))\<rparr>))"

definition new_catalog_item ::
  "opp_service \<Rightarrow> string \<Rightarrow> string \<Rightarrow> catalog_kind \<Rightarrow> string \<Rightarrow> string \<times> string \<Rightarrow> nat \<Rightarrow> catalog_item" where
  "new_catalog_item s tenant act k code names order =
     \<lparr>row_id = 0, tenant_id = tenant, created_by = act, updated_by = act, created_at = op_now s, updated_at = op_now s,
      deleted_at = None, version = 1, ci_kind = k, ci_code = code, ci_name = fst names, ci_normal = snd names,
      ci_order = order, ci_enabled = True\<rparr>"

definition default_item :: "opp_service \<Rightarrow> string \<Rightarrow> catalog_kind \<Rightarrow> nat \<times> string \<Rightarrow> catalog_item" where
  "default_item s tenant k p =
     new_catalog_item s tenant ''system:tenant-bootstrap'' k
       (code_prefix k @ take 24 (op_sha s (tenant @ '':'' @ kind_text k @ '':'' @ snd p)))
       (snd p, hd (normalized_catalog_names s [snd p])) ((fst p + 1) * 10)"

definition default_items :: "opp_service \<Rightarrow> string \<Rightarrow> catalog_item list" where
  "default_items s tenant =
     concat (map (\<lambda>k. map (default_item s tenant k) (enumerate 0 (default_catalog_items k))) [CatalogKindType, CatalogKindSource])"

definition ensure_defaults :: "opp_service \<Rightarrow> string \<Rightarrow> opp_db \<Rightarrow> opp_db app_res" where
  "ensure_defaults s tenant db =
     (if tenant \<in> set (catalog_inits db) then Inr db
      else fold_res create_catalog_item (default_items s tenant) (db\<lparr>catalog_inits := catalog_inits db @ [tenant]\<rparr>))"

section \<open>The selections of an opportunity\<close>

text \<open>The free text of older clients: every part must name an enabled item.\<close>

definition resolve_legacy :: "opp_service \<Rightarrow> string \<Rightarrow> catalog_kind \<Rightarrow> string \<Rightarrow> opp_db \<Rightarrow> catalog_item list app_res" where
  "resolve_legacy s tenant k legacy db =
     (let parts = split_catalog_text legacy
      in if parts = [] then Inl ErrOppCatalogInvalid
         else (let found = select_rows (\<lambda>x. tenant_id x = tenant \<and> ci_kind x = k \<and> ci_enabled x \<and>
                 ci_normal x \<in> set (normalized_catalog_names s parts)) (catalog_items db)
           in map_res (\<lambda>part.
                (case normalize_catalog_name s part of
                   Inl e \<Rightarrow> Inl e
                 | Inr (_, normal) \<Rightarrow>
                     (case List.find (\<lambda>x. ci_normal x = normal) (rev found) of
                        None \<Rightarrow> Inl ErrOppCatalogInvalid
                      | Some x \<Rightarrow> Inr x))) parts))"

definition resolve_ids :: "string \<Rightarrow> catalog_kind \<Rightarrow> nat list \<Rightarrow> nat \<Rightarrow> opp_db \<Rightarrow> catalog_item list app_res" where
  "resolve_ids tenant k ids opp db =
     (if 50 < length ids then Inl ErrOppCatalogInvalid
      else (let found = select_rows (\<lambda>x. tenant_id x = tenant \<and> ci_kind x = k \<and> row_id x \<in> set ids) (catalog_items db);
                linked = (if opp = 0 then [] else
                  map cl_item (filter (\<lambda>l. cl_tenant l = tenant \<and> cl_opp l = opp \<and> cl_kind l = k) (catalog_links db)))
        in if length found \<noteq> length ids then Inl ErrOppCatalogInvalid
           else map_res (\<lambda>i.
             (case List.find (\<lambda>x. row_id x = i) found of
                None \<Rightarrow> Inl ErrOppCatalogInvalid \<comment> \<open>the zero item of the map is not enabled\<close>
              | Some x \<Rightarrow> if \<not> ci_enabled x \<and> i \<notin> set linked then Inl ErrOppCatalogInvalid else Inr x)) ids))"

definition resolve_selections ::
  "opp_service \<Rightarrow> string \<Rightarrow> catalog_kind \<Rightarrow> nat list \<Rightarrow> string \<Rightarrow> nat \<Rightarrow> opp_db \<Rightarrow> (opp_db \<times> catalog_item list \<times> string) app_res" where
  "resolve_selections s tenant k ids0 legacy opp db =
     (case ensure_defaults s tenant db of
        Inl e \<Rightarrow> Inl e
      | Inr db1 \<Rightarrow>
        (let ids = unique_catalog_ids ids0
         in case (if ids = [] then resolve_legacy s tenant k legacy db1 else resolve_ids tenant k ids opp db1) of
           Inl e \<Rightarrow> Inl e
         | Inr items \<Rightarrow> Inr (db1, items, join_catalog_names items)))"

definition new_links :: "opp_service \<Rightarrow> string \<Rightarrow> nat \<Rightarrow> catalog_kind \<Rightarrow> catalog_item list \<Rightarrow> catalog_link list" where
  "new_links s tenant opp k items =
     map (\<lambda>(n, x). \<lparr>cl_tenant = tenant, cl_opp = opp, cl_item = row_id x, cl_kind = k, cl_order = n + 1, cl_created = op_now s\<rparr>)
       (enumerate 0 items)"

text \<open>\<open>ReplaceLinks\<close>; the primary key refuses an item that is linked twice.\<close>

definition replace_links ::
  "opp_service \<Rightarrow> string \<Rightarrow> nat \<Rightarrow> catalog_kind \<Rightarrow> catalog_item list \<Rightarrow> opp_db \<Rightarrow> opp_db app_res" where
  "replace_links s tenant opp k items db =
     (let kept = filter (\<lambda>l. \<not> (cl_tenant l = tenant \<and> cl_opp l = opp \<and> cl_kind l = k)) (catalog_links db)
      in if items = [] then Inl ErrOppCatalogInvalid
         else if \<not> distinct (map row_id items) then Inl (ErrDuplicateIndex ''PRIMARY'')
         else Inr (db\<lparr>catalog_links := kept @ new_links s tenant opp k items\<rparr>))"

text \<open>
  The links of an opportunity with their items, in the order of the query: by position,
  then by item.
\<close>

definition linked_items :: "string \<Rightarrow> nat \<Rightarrow> catalog_kind \<Rightarrow> opp_db \<Rightarrow> catalog_item list" where
  "linked_items tenant opp k db =
     concat (map (\<lambda>l. select_rows (\<lambda>x. tenant_id x = tenant \<and> row_id x = cl_item l) (catalog_items db))
       (sort_key cl_order (sort_key cl_item
         (filter (\<lambda>l. cl_tenant l = tenant \<and> cl_opp l = opp \<and> cl_kind l = k) (catalog_links db)))))"

definition catalog_value_of :: "catalog_item \<Rightarrow> catalog_value" where
  "catalog_value_of x = \<lparr>cv_id = row_id x, cv_code = ci_code x, cv_name = ci_name x, cv_enabled = ci_enabled x\<rparr>"

text \<open>\<open>EnrichResponses\<close>, on one response.\<close>

definition enrich_response :: "opp_service \<Rightarrow> string \<Rightarrow> opp_db \<Rightarrow> opp_response \<Rightarrow> opp_response" where
  "enrich_response s tenant db r =
     (if \<not> op_catalog s then r
      else (let types = map catalog_value_of (linked_items tenant (or_id r) CatalogKindType db);
                sources = map catalog_value_of (linked_items tenant (or_id r) CatalogKindSource db)
        in r\<lparr>or_types := types, or_sources := sources,
             or_type := (if types = [] then or_type r else join_value_names types),
             or_source := (if sources = [] then or_source r else join_value_names sources)\<rparr>))"

section \<open>The projection of a renamed item\<close>

function split_batches :: "nat \<Rightarrow> 'a list \<Rightarrow> 'a list list" where
  "split_batches n xs = (if xs = [] \<or> n = 0 then [] else take n xs # split_batches n (drop n xs))"
  by pat_completeness auto
termination by (relation "measure (\<lambda>(n, xs). length xs)") auto

declare split_batches.simps [simp del]

definition projection_batch_size :: nat where "projection_batch_size = 500"

definition set_label :: "catalog_kind \<Rightarrow> string \<Rightarrow> opportunity \<Rightarrow> opportunity" where
  "set_label k label x = (if k = CatalogKindSource then x\<lparr>o_source := label\<rparr> else x\<lparr>o_type := label\<rparr>)"

definition apply_projection_batch :: "string \<Rightarrow> catalog_kind \<Rightarrow> nat list \<Rightarrow> opp_db \<Rightarrow> opp_db" where
  "apply_projection_batch tenant k ids db =
     db\<lparr>opportunities := update_rows (\<lambda>x. tenant_id x = tenant \<and> row_id x \<in> set ids)
          (\<lambda>x. set_label k (join_catalog_names (linked_items tenant (row_id x) k db)) x) (opportunities db)\<rparr>"

definition sync_projection :: "string \<Rightarrow> nat \<Rightarrow> catalog_kind \<Rightarrow> opp_db \<Rightarrow> opp_db" where
  "sync_projection tenant item k db =
     (let ids = map cl_opp (filter (\<lambda>l. cl_tenant l = tenant \<and> cl_item l = item \<and> cl_kind l = k) (catalog_links db))
      in fold (apply_projection_batch tenant k) (split_batches projection_batch_size ids) db)"

section \<open>Administration\<close>

definition find_catalog_item :: "string \<Rightarrow> nat \<Rightarrow> opp_db \<Rightarrow> catalog_item option" where
  "find_catalog_item tenant i db = find_row (\<lambda>x. tenant_id x = tenant \<and> row_id x = i) (catalog_items db)"

definition find_catalog_idem :: "principal \<Rightarrow> string \<Rightarrow> string \<Rightarrow> opp_db \<Rightarrow> catalog_idem option" where
  "find_catalog_idem p op key db =
     find_row (\<lambda>x. tenant_id x = p_tenant p \<and> ck_actor x = p_user p \<and> ck_operation x = op \<and> ck_key x = key) (catalog_idems db)"

definition save_catalog_idem ::
  "opp_service \<Rightarrow> principal \<Rightarrow> string \<Rightarrow> string \<Rightarrow> string \<Rightarrow> catalog_response \<Rightarrow> opp_db \<Rightarrow> opp_db app_res" where
  "save_catalog_idem s p op key hash response db =
     (if find_catalog_idem p op key db \<noteq> None then Inl (ErrDuplicateIndex ''uq_crm_opportunity_catalog_idem'')
      else Inr (db\<lparr>catalog_idems := snd (insert_row
             \<lparr>row_id = 0, tenant_id = p_tenant p, ck_actor = p_user p, ck_operation = op, ck_key = key, ck_hash = hash,
              ck_response = response, ck_created = op_now s\<rparr> (catalog_idems db))\<rparr>))"

definition validate_catalog_key :: "string \<Rightarrow> string app_res" where
  "validate_catalog_key value =
     (let key = trim_space value
      in if key = [] then Inl ErrOppIdempotencyRequired
         else if 128 < length key then Inl ErrOppIdempotencyKeyTooLong else Inr key)"

definition catalog_manage :: string where
  "catalog_manage = ''opportunity.catalog.manage''"

definition catalog_list :: "opp_service \<Rightarrow> principal \<Rightarrow> catalog_kind \<Rightarrow> bool \<Rightarrow> opp_db \<Rightarrow> (opp_db \<times> (catalog_item \<times> nat) list) app_res" where
  "catalog_list s p0 k disabled db =
     (case require_principal p0 of
        Inl e \<Rightarrow> Inl e
      | Inr p \<Rightarrow>
        if disabled \<and> \<not> principal_permits p catalog_manage then Inl ErrAppForbidden
        else (case ensure_defaults s (p_tenant p) db of
          Inl e \<Rightarrow> Inl e
        | Inr db1 \<Rightarrow>
          Inr (db1, map (\<lambda>x. (x, length (filter (\<lambda>l. cl_tenant l = tenant_id x \<and> cl_item l = row_id x) (catalog_links db1))))
            (sort_key ci_order (select_rows (\<lambda>x. tenant_id x = p_tenant p \<and> ci_kind x = k \<and> (disabled \<or> ci_enabled x))
              (catalog_items db1))))))"

definition catalog_audit ::
  "opp_service \<Rightarrow> principal \<Rightarrow> string \<Rightarrow> nat \<Rightarrow> opp_snapshot option \<Rightarrow> opp_snapshot option \<Rightarrow> string \<Rightarrow> opp_db \<Rightarrow> opp_db" where
  "catalog_audit s p operation i before after reason =
     write_audit (audit_event s p (''opportunity_catalog'', ''opportunity_catalog_item'') operation i before after reason ''SUCCESS'')"

definition catalog_create_tx ::
  "opp_service \<Rightarrow> principal \<Rightarrow> catalog_kind \<Rightarrow> string \<times> string \<Rightarrow> nat \<Rightarrow> string \<Rightarrow> string \<Rightarrow> opp_db \<Rightarrow> (opp_db \<times> catalog_item) app_res" where
  "catalog_create_tx s p k names order key hash db =
     (case ensure_defaults s (p_tenant p) db of
        Inl e \<Rightarrow> Inl e
      | Inr db1 \<Rightarrow>
        (case find_catalog_idem p ''CREATE'' key db1 of
          Some prior \<Rightarrow>
            if ck_hash prior \<noteq> hash then Inl ErrOppIdempotencyConflict
            else (case ck_response prior of
              CreatedItem x \<Rightarrow> Inr (db1, x)
            | DeletedItem i \<Rightarrow> Inl ErrOppIdempotencyConflict)
        | None \<Rightarrow>
          (let c = (new_catalog_item s (p_tenant p) (p_user p) k (catalog_code s (p_tenant p) k (snd names)) names order)
                     \<lparr>row_id := next_id (catalog_items db1)\<rparr>
           in case create_catalog_item c db1 of
             Inl (ErrDuplicateIndex n) \<Rightarrow> Inl ErrOppCatalogDuplicate
           | Inl e \<Rightarrow> Inl e
           | Inr db2 \<Rightarrow>
             (case save_catalog_idem s p ''CREATE'' key hash (CreatedItem c)
                 (catalog_audit s p ''CREATE'' (row_id c) None (Some (SnapCatalog c)) [] db2) of
               Inl e \<Rightarrow> Inl e
             | Inr db3 \<Rightarrow> Inr (db3, c)))))"

text \<open>The kind of an input is one of the two the code accepts.\<close>

definition catalog_create ::
  "opp_service \<Rightarrow> principal \<Rightarrow> catalog_kind \<Rightarrow> string \<Rightarrow> nat \<Rightarrow> string \<Rightarrow> opp_db \<Rightarrow> (opp_db \<times> catalog_item) app_res" where
  "catalog_create s p0 k name0 order key0 db =
     (case require_principal p0 of
        Inl e \<Rightarrow> Inl e
      | Inr p \<Rightarrow>
        if \<not> principal_permits p catalog_manage then Inl ErrAppForbidden
        else (case normalize_catalog_name s name0 of
          Inl e \<Rightarrow> Inl e
        | Inr names \<Rightarrow>
          (case validate_catalog_key key0 of
            Inl e \<Rightarrow> Inl e
          | Inr key \<Rightarrow>
              catalog_create_tx s p k names order key (op_sha s (op_json s (JsonCatalogCreate k (fst names) order))) db)))"

definition update_catalog_row :: "string \<Rightarrow> nat \<Rightarrow> nat \<Rightarrow> catalog_item \<Rightarrow> opp_db \<Rightarrow> opp_db app_res" where
  "update_catalog_row tenant i v c db =
     (let hit = (\<lambda>x. tenant_id x = tenant \<and> row_id x = i \<and> version x = v)
      in if exists_row (\<lambda>x. tenant_id x = tenant \<and> row_id x \<noteq> i \<and> ci_kind x = ci_kind c \<and> ci_normal x = ci_normal c)
           (catalog_items db) then Inl ErrOppCatalogDuplicate
         else if \<not> exists_row hit (catalog_items db) then Inl ErrAppVersionConflict
         else Inr (db\<lparr>catalog_items := update_rows hit
                (\<lambda>x. x\<lparr>ci_name := ci_name c, ci_normal := ci_normal c, ci_order := ci_order c, ci_enabled := ci_enabled c,
                       updated_by := updated_by c, updated_at := updated_at c, version := version x + 1\<rparr>) (catalog_items db)\<rparr>))"

definition catalog_update_tx ::
  "opp_service \<Rightarrow> principal \<Rightarrow> nat \<Rightarrow> string \<times> string \<Rightarrow> nat \<Rightarrow> bool \<Rightarrow> nat \<Rightarrow> string \<Rightarrow> opp_db \<Rightarrow> (opp_db \<times> catalog_item) app_res" where
  "catalog_update_tx s p i names order enabled v reason db =
     (case find_catalog_item (p_tenant p) i db of
        None \<Rightarrow> Inl ErrOppCatalogNotFound
      | Some current \<Rightarrow>
        if version current \<noteq> v then Inl ErrAppVersionConflict
        else (let c = current\<lparr>ci_name := fst names, ci_normal := snd names, ci_order := order, ci_enabled := enabled,
                updated_by := p_user p, updated_at := op_now s, version := version current + 1\<rparr>
          in case update_catalog_row (p_tenant p) i v c db of
            Inl e \<Rightarrow> Inl e
          | Inr db1 \<Rightarrow>
            (let db2 = (if ci_name current \<noteq> fst names then sync_projection (p_tenant p) i (ci_kind current) db1 else db1)
             in Inr (catalog_audit s p ''UPDATE'' i (Some (SnapCatalog current)) (Some (SnapCatalog c)) reason db2, c))))"

definition reason_ok :: "string \<Rightarrow> bool" where
  "reason_ok reason \<longleftrightarrow> trim_space reason \<noteq> [] \<and> length (trim_space reason) \<le> 500"

definition catalog_update ::
  "opp_service \<Rightarrow> principal \<Rightarrow> nat \<Rightarrow> string \<Rightarrow> nat \<Rightarrow> bool \<Rightarrow> nat \<Rightarrow> string \<Rightarrow> opp_db \<Rightarrow> (opp_db \<times> catalog_item) app_res" where
  "catalog_update s p0 i name0 order enabled v reason db =
     (case require_principal p0 of
        Inl e \<Rightarrow> Inl e
      | Inr p \<Rightarrow>
        if \<not> principal_permits p catalog_manage then Inl ErrAppForbidden
        else (case normalize_catalog_name s name0 of
          Inl _ \<Rightarrow> Inl ErrOppCatalogInvalid
        | Inr names \<Rightarrow>
          if v = 0 \<or> \<not> reason_ok reason then Inl ErrOppCatalogInvalid
          else catalog_update_tx s p i names order enabled v (trim_space reason) db))"

definition catalog_delete_tx ::
  "opp_service \<Rightarrow> principal \<Rightarrow> nat \<Rightarrow> nat \<Rightarrow> string \<Rightarrow> string \<Rightarrow> string \<Rightarrow> opp_db \<Rightarrow> (opp_db \<times> nat) app_res" where
  "catalog_delete_tx s p i v reason key hash db =
     (case find_catalog_idem p ''DELETE'' key db of
        Some prior \<Rightarrow>
          if ck_hash prior \<noteq> hash then Inl ErrOppIdempotencyConflict
          else (case ck_response prior of
            DeletedItem j \<Rightarrow> Inr (db, j)
          | CreatedItem x \<Rightarrow> Inl ErrOppIdempotencyConflict)
      | None \<Rightarrow>
        (case find_catalog_item (p_tenant p) i db of
          None \<Rightarrow> Inl ErrOppCatalogNotFound
        | Some current \<Rightarrow>
          if version current \<noteq> v then Inl ErrAppVersionConflict
          else (let used = length (filter (\<lambda>l. cl_tenant l = p_tenant p \<and> cl_item l = i) (catalog_links db))
            in if 0 < used then Inl (AppDetails 409 ''CRM_OPPORTUNITY_CATALOG_IN_USE'' [show_nat used])
               else (let db1 = catalog_audit s p ''DELETE'' i (Some (SnapCatalog current)) None reason db;
                       db2 = db1\<lparr>catalog_items := (catalog_items db1)\<lparr>rows :=
                         filter (\<lambda>x. \<not> (tenant_id x = p_tenant p \<and> row_id x = i \<and> version x = v)) (rows (catalog_items db1))\<rparr>\<rparr>
                 in case save_catalog_idem s p ''DELETE'' key hash (DeletedItem i) db2 of
                   Inl e \<Rightarrow> Inl e
                 | Inr db3 \<Rightarrow> Inr (db3, i)))))"

definition catalog_delete ::
  "opp_service \<Rightarrow> principal \<Rightarrow> nat \<Rightarrow> nat \<Rightarrow> string \<Rightarrow> string \<Rightarrow> opp_db \<Rightarrow> (opp_db \<times> nat) app_res" where
  "catalog_delete s p0 i v reason key0 db =
     (case require_principal p0 of
        Inl e \<Rightarrow> Inl e
      | Inr p \<Rightarrow>
        if \<not> principal_permits p catalog_manage then Inl ErrAppForbidden
        else (case validate_catalog_key key0 of
          Inl e \<Rightarrow> Inl e
        | Inr key \<Rightarrow>
          if v = 0 \<or> \<not> reason_ok reason then Inl ErrOppCatalogInvalid
          else catalog_delete_tx s p i v (trim_space reason) key
            (op_sha s (op_json s (JsonCatalogDelete i v (trim_space reason)))) db))"

end
