(* ===== verification/OpportunityOps.thy ===== *)
theory OpportunityOps
  imports OpportunityCatalog
begin

text \<open>
  Creating, updating, voiding and restoring an opportunity, its follow-ups, and the check a
  presale request makes before it is created (\<open>service.go\<close>). A handler that succeeds
  returns the new database and the response.
\<close>

section \<open>Input\<close>

definition normalize_create_request :: "opp_create_input \<Rightarrow> opp_create_input" where
  "normalize_create_request inp =
     inp\<lparr>oc_name := trim_space (oc_name inp), oc_type := trim_space (oc_type inp), oc_source := trim_space (oc_source inp),
         oc_amount := trim_space (oc_amount inp), oc_sign_date := trim_space (oc_sign_date inp),
         oc_summary := trim_space (oc_summary inp), oc_pain := trim_space (oc_pain inp),
         oc_competitor := trim_space (oc_competitor inp), oc_owner := trim_space (oc_owner inp), oc_org := trim_space (oc_org inp)\<rparr>"

definition inherit_create_owner :: "opp_create_input \<Rightarrow> principal \<Rightarrow> opp_create_input" where
  "inherit_create_owner inp p = inp\<lparr>oc_owner := trim_space (p_user p), oc_org := trim_space (p_org p)\<rparr>"

definition validate_selection :: "string \<Rightarrow> string \<Rightarrow> string \<Rightarrow> string \<Rightarrow> nat list \<Rightarrow> nat list \<Rightarrow> unit app_res" where
  "validate_selection name typ src summary type_ids source_ids =
     (if trim_space name = [] \<or> trim_space summary = [] \<or> trim_space typ = [] \<and> type_ids = [] \<or>
         trim_space src = [] \<and> source_ids = [] then Inl ErrOppMasterDataInvalid else Inr ())"

definition max_system_count :: nat where "max_system_count = 10000"

definition validate_system_count :: "nat \<Rightarrow> unit app_res" where
  "validate_system_count n = (if max_system_count < n then Inl ErrOppInvalidSystemCount else Inr ())"

definition positive_amount :: "opp_service \<Rightarrow> string \<Rightarrow> decimal app_res" where
  "positive_amount s v =
     (case op_decimal s v of
        None \<Rightarrow> Inl ErrOppInvalidAmount
      | Some d \<Rightarrow> if 0 < fst d then Inr d else Inl ErrOppInvalidAmount)"

text \<open>\<open>createRequestHash\<close>: the canonical input, without the key.\<close>

definition create_request_hash :: "opp_service \<Rightarrow> opp_create_input \<Rightarrow> string" where
  "create_request_hash s inp =
     op_sha s (op_json s (JsonCreate (inp\<lparr>oc_type_ids := unique_catalog_ids (oc_type_ids inp),
       oc_source_ids := unique_catalog_ids (oc_source_ids inp), oc_key := []\<rparr>)))"

definition business_date_value :: "instant \<Rightarrow> instant" where
  "business_date_value t = beijing_day t * day"

definition sign_date_before_creation :: "instant \<Rightarrow> instant \<Rightarrow> bool" where
  "sign_date_before_creation created sign \<longleftrightarrow> created \<noteq> zero_time \<and> beijing_day sign < beijing_day created"

definition closed_master_data_changed :: "opportunity \<Rightarrow> decimal \<Rightarrow> instant \<Rightarrow> bool" where
  "closed_master_data_changed m amount sign \<longleftrightarrow>
     \<not> decimal_equal amount (o_amount m) \<or> sign div day \<noteq> o_sign_date m div day"

section \<open>Creation\<close>

text \<open>
  \<open>replay_creation\<close> is \<open>loadCreateReplay\<close> with \<open>validateCreateReplay\<close>. The ledger keeps the
  digest of the bytes that were written; the bytes read back are those of a \<open>JSON\<close> column.
\<close>

definition response_hash :: "opp_service \<Rightarrow> opp_response \<Rightarrow> string" where
  "response_hash s r = op_sha s (op_json s (JsonResponse r))"

definition stored_response_hash :: "opp_service \<Rightarrow> opp_response \<Rightarrow> string" where
  \<comment> \<open>\<open>bytesHash\<close> of the bytes the column returns\<close>
  "stored_response_hash s r = op_sha s (op_json_column s (op_json s (JsonResponse r)))"

definition valid_create_replay :: "principal \<Rightarrow> nat \<Rightarrow> string \<Rightarrow> string \<Rightarrow> create_idem \<Rightarrow> bool" where
  "valid_create_replay p customer key hash c \<longleftrightarrow>
     tenant_id c = p_tenant p \<and> ce_actor c = p_user p \<and> ce_key c = key \<and> ce_customer c = customer \<and> ce_opp c \<noteq> 0 \<and>
     ce_hash c = hash \<and> length (ce_response_hash c) = 64"

definition replay_creation ::
  "opp_service \<Rightarrow> principal \<Rightarrow> nat \<Rightarrow> string \<Rightarrow> string \<Rightarrow> create_idem \<Rightarrow> opp_db \<Rightarrow> opp_response app_res" where
  "replay_creation s p customer key hash c db =
     (if \<not> valid_create_replay p customer key hash c then Inl ErrOppIdempotencyConflict
      else case find_created_by_id (p_tenant p) (ce_opp c) db of
        Inl e \<Rightarrow> Inl e
      | Inr m \<Rightarrow>
        if created_by m \<noteq> p_user p \<or> o_customer m \<noteq> customer then Inl ErrOppIdempotencyConflict
        else if stored_response_hash s (ce_response c) \<noteq> ce_response_hash c then Inl ErrOppIdempotencyConflict
        else if or_id (ce_response c) \<noteq> ce_opp c \<or> or_customer (ce_response c) \<noteq> customer then Inl ErrOppIdempotencyConflict
        else Inr (ce_response c))"

definition new_opportunity ::
  "opp_service \<Rightarrow> string \<Rightarrow> string \<Rightarrow> opp_create_input \<Rightarrow> decimal \<Rightarrow> instant \<Rightarrow> opportunity" where
  "new_opportunity s tenant creator inp amount sign =
     \<lparr>row_id = 0, tenant_id = tenant, created_by = creator, updated_by = creator, created_at = 0, updated_at = 0,
      deleted_at = None, version = 1, o_no = [], o_name = oc_name inp, o_customer = oc_customer inp, o_type = oc_type inp,
      o_source = oc_source inp, o_amount = amount, o_sign_date = sign, o_summary = oc_summary inp, o_systems = oc_systems inp,
      o_pain = oc_pain inp, o_competitor = oc_competitor inp, o_owner = oc_owner inp, o_org = oc_org inp,
      o_stage = StageInitial, o_status = StatusFollowing, o_contract = None, o_contract_id = None, o_intake = None,
      o_link = LinkPending, o_linked_at = None, o_sync = 0, o_link_event = None, o_lost = None, o_pending = PendingNone,
      o_stage_at = op_now s, o_external_at = None, o_end = None, o_before_void = None\<rparr>"

text \<open>Both selections of a creation or an update; without a catalog the texts are kept.\<close>

definition select_catalog ::
  "opp_service \<Rightarrow> string \<Rightarrow> nat list \<times> string \<Rightarrow> nat list \<times> string \<Rightarrow> nat \<Rightarrow> opp_db \<Rightarrow>
     (opp_db \<times> (catalog_item list \<times> catalog_item list) \<times> string \<times> string) app_res" where
  "select_catalog s tenant types sources opp db =
     (if \<not> op_catalog s then Inr (db, ([], []), snd types, snd sources)
      else case resolve_selections s tenant CatalogKindType (fst types) (snd types) opp db of
        Inl e \<Rightarrow> Inl e
      | Inr (db1, titems, tlabel) \<Rightarrow>
        (case resolve_selections s tenant CatalogKindSource (fst sources) (snd sources) opp db1 of
          Inl e \<Rightarrow> Inl e
        | Inr (db2, sitems, slabel) \<Rightarrow> Inr (db2, (titems, sitems), tlabel, slabel)))"

definition link_catalog ::
  "opp_service \<Rightarrow> string \<Rightarrow> nat \<Rightarrow> catalog_item list \<times> catalog_item list \<Rightarrow> opp_db \<Rightarrow> opp_db app_res" where
  "link_catalog s tenant opp items db =
     (if \<not> op_catalog s then Inr db
      else case replace_links s tenant opp CatalogKindType (fst items) db of
        Inl e \<Rightarrow> Inl e
      | Inr db1 \<Rightarrow> replace_links s tenant opp CatalogKindSource (snd items) db1)"

definition new_create_idem ::
  "opp_service \<Rightarrow> principal \<Rightarrow> string \<Rightarrow> nat \<Rightarrow> nat \<Rightarrow> string \<Rightarrow> opp_response \<Rightarrow> create_idem" where
  "new_create_idem s p key customer opp hash r =
     \<lparr>row_id = 0, tenant_id = p_tenant p, ce_actor = p_user p, ce_key = key, ce_customer = customer, ce_opp = opp,
      ce_hash = hash, ce_response_hash = response_hash s r, ce_response = r, ce_trace = op_trace s, ce_created = op_now s\<rparr>"

text \<open>The transaction returns the response and whether it is a replay.\<close>

definition create_opp_tx ::
  "opp_service \<Rightarrow> principal \<Rightarrow> string \<Rightarrow> opp_create_input \<Rightarrow> decimal \<Rightarrow> instant \<Rightarrow> string \<Rightarrow> opp_db \<Rightarrow>
     (opp_db \<times> opp_response) app_res" where
  "create_opp_tx s p key inp amount sign hash db =
     (if \<not> customer_visible p (oc_customer inp) db then Inl ErrOppCustomerForbidden
      else case find_create_idem (p_tenant p) (p_user p) key db of
        Some prior \<Rightarrow>
          (case replay_creation s p (oc_customer inp) key hash prior db of
            Inl e \<Rightarrow> Inl e
          | Inr r \<Rightarrow> Inr (db, r))
      | None \<Rightarrow>
        (case guard_owner_write s (p_tenant p) (oc_owner inp) of
          Inl e \<Rightarrow> Inl e
        | Inr _ \<Rightarrow>
          (case select_catalog s (p_tenant p) (oc_type_ids inp, oc_type inp) (oc_source_ids inp, oc_source inp) 0 db of
            Inl e \<Rightarrow> Inl e
          | Inr (db1, items, tlabel, slabel) \<Rightarrow>
            (case next_opp_number (p_tenant p) (op_now s) db1 of
              Inl e \<Rightarrow> Inl e
            | Inr (db2, no) \<Rightarrow>
              (case create_opp_row (op_now s)
                  ((new_opportunity s (p_tenant p) (p_user p) inp amount sign)\<lparr>o_no := no, o_type := tlabel, o_source := slabel\<rparr>) db2 of
                Inl e \<Rightarrow> Inl e
              | Inr (db3, m) \<Rightarrow>
                (case link_catalog s (p_tenant p) (row_id m) items db3 of
                  Inl e \<Rightarrow> Inl e
                | Inr db4 \<Rightarrow>
                  (let r = enrich_response s (p_tenant p) db4 (to_response m)
                   in case create_create_idem (new_create_idem s p key (oc_customer inp) (row_id m) hash r) db4 of
                     Inl e \<Rightarrow> Inl e
                   | Inr db5 \<Rightarrow> Inr (audit_opp s p ''CREATE'' (row_id m) None (Some (SnapResponse (to_response m))) [] db5, r))))))))"

text \<open>\<open>resolveCreateRace\<close>, after the ledger's unique key refused the creation.\<close>

definition resolve_create_race ::
  "opp_service \<Rightarrow> principal \<Rightarrow> nat \<Rightarrow> string \<Rightarrow> string \<Rightarrow> opp_db \<Rightarrow> opp_response app_res" where
  "resolve_create_race s p customer key hash db =
     (if \<not> customer_visible p customer db then Inl ErrOppCustomerForbidden
      else case find_create_idem (p_tenant p) (p_user p) key db of
        None \<Rightarrow> Inl ErrOppIdempotencyConflict
      | Some prior \<Rightarrow> replay_creation s p customer key hash prior db)"

text \<open>The owner's organisation from the directory, and the check of the pair.\<close>

definition complete_owner :: "opp_service \<Rightarrow> opp_create_input \<Rightarrow> opp_create_input app_res" where
  "complete_owner s inp =
     (case op_owners s of
        None \<Rightarrow> Inr inp
      | Some ow \<Rightarrow>
        (case (if oc_org inp = []
               then (case ow_list ow \<lparr>q_user = oc_owner inp, q_roles = [], q_page = 1, q_size = 1\<rparr> of
                  Inl e \<Rightarrow> Inl e
                | Inr us \<Rightarrow> Inr (inp\<lparr>oc_org := primary_organization us (oc_owner inp)\<rparr>))
               else Inr inp) of
          Inl e \<Rightarrow> Inl e
        | Inr inp1 \<Rightarrow>
          (case ow_validate ow (oc_owner inp1) (oc_org inp1) of
            Inl e \<Rightarrow> Inl e
          | Inr _ \<Rightarrow> Inr inp1)))"

definition valid_sign_date :: "opp_service \<Rightarrow> string \<Rightarrow> instant app_res" where
  "valid_sign_date s v =
     (case parse_date v of
        None \<Rightarrow> Inl ErrOppInvalidSignDate
      | Some t \<Rightarrow> if beijing_day t < beijing_day (op_now s) then Inl ErrOppInvalidSignDate else Inr t)"

definition create_opportunity ::
  "opp_service \<Rightarrow> principal \<Rightarrow> opp_create_input \<Rightarrow> opp_db \<Rightarrow> (opp_db \<times> opp_response) app_res" where
  "create_opportunity s p0 inp0 db =
     (case require_principal p0 of
        Inl e \<Rightarrow> Inl e
      | Inr p \<Rightarrow>
        (let key = trim_space (oc_key inp0); inp1 = inherit_create_owner (normalize_create_request inp0) p
         in if key = [] then Inl ErrOppIdempotencyRequired
            else if 128 < length key then Inl ErrOppIdempotencyKeyTooLong
            else case ensure_owner_not_frozen s (p_tenant p) (oc_owner inp1) of
              Inl e \<Rightarrow> Inl e
            | Inr _ \<Rightarrow>
              (case validate_selection (oc_name inp1) (oc_type inp1) (oc_source inp1) (oc_summary inp1)
                  (oc_type_ids inp1) (oc_source_ids inp1) of
                Inl e \<Rightarrow> Inl e
              | Inr _ \<Rightarrow>
                (case validate_system_count (oc_systems inp1) of
                  Inl e \<Rightarrow> Inl e
                | Inr _ \<Rightarrow>
                  (case complete_owner s inp1 of
                    Inl e \<Rightarrow> Inl e
                  | Inr inp \<Rightarrow>
                    (case positive_amount s (oc_amount inp) of
                      Inl e \<Rightarrow> Inl e
                    | Inr amount \<Rightarrow>
                      (case valid_sign_date s (oc_sign_date inp) of
                        Inl e \<Rightarrow> Inl e
                      | Inr sign \<Rightarrow>
                        (let hash = create_request_hash s inp
                         in case create_opp_tx s p key inp amount sign hash db of
                           Inr (db', r) \<Rightarrow> Inr (db', r)
                         | Inl e \<Rightarrow>
                             if e = ErrDuplicateIndex ''uq_opportunity_create_idem''
                             then (case resolve_create_race s p (oc_customer inp) key hash db of
                               Inl e' \<Rightarrow> Inl e'
                             | Inr r \<Rightarrow> Inr (db, r))
                             else Inl e))))))))"

section \<open>Update\<close>

definition update_opp_tx ::
  "opp_service \<Rightarrow> principal \<Rightarrow> opp_update_input \<Rightarrow> string \<Rightarrow> opp_response \<Rightarrow> opportunity \<Rightarrow> opp_db \<Rightarrow> (opp_db \<times> opportunity) app_res" where
  "update_opp_tx s p inp reason before m db =
     (case select_catalog s (p_tenant p) (ou_type_ids inp, trim_space (ou_type inp))
         (ou_source_ids inp, trim_space (ou_source inp)) (row_id m) db of
        Inl e \<Rightarrow> Inl e
      | Inr (db1, items, tlabel, slabel) \<Rightarrow>
        (case update_master (op_now s) (m\<lparr>o_type := tlabel, o_source := slabel\<rparr>) (ou_version inp) db1 of
          Inl e \<Rightarrow> Inl e
        | Inr (db2, m2) \<Rightarrow>
          (case link_catalog s (p_tenant p) (row_id m) items db2 of
            Inl e \<Rightarrow> Inl e
          | Inr db3 \<Rightarrow>
            Inr (audit_opp s p ''UPDATE'' (row_id m) (Some (SnapResponse before)) (Some (SnapResponse (to_response m2))) reason db3, m2))))"

text \<open>\<open>validateMasterData\<close>.\<close>

definition validate_master_data :: "opp_service \<Rightarrow> string \<Rightarrow> string \<Rightarrow> (decimal \<times> instant) app_res" where
  "validate_master_data s amount sign =
     (case positive_amount s amount of
        Inl e \<Rightarrow> Inl e
      | Inr a \<Rightarrow>
        (case parse_date sign of
          None \<Rightarrow> Inl ErrOppInvalidSignDate
        | Some t \<Rightarrow> Inr (a, t)))"

definition edited_master :: "principal \<Rightarrow> opp_update_input \<Rightarrow> decimal \<Rightarrow> instant \<Rightarrow> opportunity \<Rightarrow> opportunity" where
  "edited_master p inp amount sign m =
     m\<lparr>o_name := trim_space (ou_name inp), o_type := trim_space (ou_type inp), o_source := trim_space (ou_source inp),
       o_amount := amount, o_sign_date := sign, o_summary := trim_space (ou_summary inp), o_systems := ou_systems inp,
       o_pain := trim_space (ou_pain inp), o_competitor := trim_space (ou_competitor inp), updated_by := p_user p\<rparr>"

definition update_opportunity ::
  "opp_service \<Rightarrow> principal \<Rightarrow> nat \<Rightarrow> opp_update_input \<Rightarrow> opp_db \<Rightarrow> (opp_db \<times> opp_response) app_res" where
  "update_opportunity s p0 i inp db =
     (case require_principal p0 of
        Inl e \<Rightarrow> Inl e
      | Inr p \<Rightarrow>
        (case validate_master_data s (ou_amount inp) (ou_sign_date inp) of
          Inl e \<Rightarrow> Inl e
        | Inr (amount, sign) \<Rightarrow>
          (case validate_selection (trim_space (ou_name inp)) (trim_space (ou_type inp)) (trim_space (ou_source inp))
              (trim_space (ou_summary inp)) (ou_type_ids inp) (ou_source_ids inp) of
            Inl e \<Rightarrow> Inl e
          | Inr _ \<Rightarrow>
            (case validate_system_count (ou_systems inp) of
              Inl e \<Rightarrow> Inl e
            | Inr _ \<Rightarrow>
              (case find_opportunity p i db of
                Inl e \<Rightarrow> Inl e
              | Inr m \<Rightarrow>
                if o_status m = StatusVoid then Inl ErrOppInactive
                else if sign_date_before_creation (created_at m) sign then Inl ErrOppInvalidSignDate
                else if version m \<noteq> ou_version inp then Inl ErrAppVersionConflict
                else if o_status m = StatusClosed \<and> closed_master_data_changed m amount sign
                then Inl ErrOppTerminalMasterDataFrozen
                else if trim_space (ou_reason inp) = [] then Inl ErrOppReasonRequired
                else (case update_opp_tx s p inp (trim_space (ou_reason inp)) (to_response m) (edited_master p inp amount sign m) db of
                  Inl e \<Rightarrow> Inl e
                | Inr (db', m2) \<Rightarrow> Inr (db', enrich_response s (p_tenant p) db' (to_response m2))))))))"

section \<open>Voiding and restoring\<close>

definition persist_lifecycle ::
  "opp_service \<Rightarrow> principal \<Rightarrow> opportunity \<Rightarrow> opp_response \<Rightarrow> nat \<Rightarrow> string \<Rightarrow> opp_status \<Rightarrow> string \<Rightarrow> opp_db \<Rightarrow>
     (opp_db \<times> opportunity) app_res" where
  "persist_lifecycle s p m before v reason expected operation db =
     (case update_lifecycle (op_now s) m v expected db of
        Inl e \<Rightarrow> Inl e
      | Inr (db1, m1) \<Rightarrow>
        (let db2 = (if operation = ''VOID'' then cancel_active_alerts (op_now s) (p_user p) (p_tenant p) (row_id m) db1 else db1)
         in Inr (audit_opp s p operation (row_id m) (Some (SnapResponse before)) (Some (SnapResponse (to_response m1))) reason db2, m1)))"

definition void_opportunity ::
  "opp_service \<Rightarrow> principal \<Rightarrow> nat \<Rightarrow> nat \<Rightarrow> string \<Rightarrow> opp_db \<Rightarrow> (opp_db \<times> opp_response) app_res" where
  "void_opportunity s p0 i v reason db =
     (case require_principal p0 of
        Inl e \<Rightarrow> Inl e
      | Inr p \<Rightarrow>
        (case find_opportunity p i db of
          Inl e \<Rightarrow> Inl e
        | Inr m \<Rightarrow>
          if o_status m = StatusVoid then Inl ErrOppInactive
          else if version m \<noteq> v then Inl ErrAppVersionConflict
          else if trim_space reason = [] then Inl ErrOppReasonRequired
          else (let blockers = void_blockers (op_presale s) (p_tenant p) i db
            in if blockers \<noteq> [] then Inl (AppDetails 409 ''CRM_OPPORTUNITY_VOID_BLOCKED'' blockers)
               else (case persist_lifecycle s p
                   (m\<lparr>o_status := StatusVoid, o_before_void := Some (o_status m),
                      o_end := Some (business_date_value (op_now s)), updated_by := p_user p\<rparr>)
                   (to_response m) v reason (o_status m) ''VOID'' db of
                 Inl e \<Rightarrow> Inl e
               | Inr (db', m') \<Rightarrow> Inr (db', enrich_response s (p_tenant p) db' (to_response m'))))))"

definition restored_status :: "opportunity \<Rightarrow> opp_status" where
  "restored_status m =
     (case o_before_void m of
        None \<Rightarrow> StatusFollowing
      | Some st \<Rightarrow> if st = StatusFollowing \<or> st = StatusClosed then st else StatusFollowing)"

definition restore_opportunity ::
  "opp_service \<Rightarrow> principal \<Rightarrow> nat \<Rightarrow> nat \<Rightarrow> string \<Rightarrow> opp_db \<Rightarrow> (opp_db \<times> opp_response) app_res" where
  "restore_opportunity s p0 i v reason db =
     (case require_principal p0 of
        Inl e \<Rightarrow> Inl e
      | Inr p \<Rightarrow>
        (case find_opportunity p i db of
          Inl e \<Rightarrow> Inl e
        | Inr m \<Rightarrow>
          if o_status m \<noteq> StatusVoid then Inl ErrOppNotVoid
          else if version m \<noteq> v then Inl ErrAppVersionConflict
          else if trim_space reason = [] then Inl ErrOppReasonRequired
          else (case persist_lifecycle s p
              (m\<lparr>o_status := restored_status m, o_before_void := None, o_end := None, updated_by := p_user p\<rparr>)
              (to_response m) v reason StatusVoid ''RESTORE'' db of
            Inl e \<Rightarrow> Inl e
          | Inr (db', m') \<Rightarrow> Inr (db', enrich_response s (p_tenant p) db' (to_response m')))))"

section \<open>Follow-ups, reading, presale eligibility\<close>

text \<open>\<open>html.EscapeString\<close>.\<close>

definition html_escape :: "string \<Rightarrow> string" where
  "html_escape s =
     concat (map (\<lambda>c. if c = CHR ''&'' then ''&amp;'' else if c = CHR ''<'' then ''&lt;'' else if c = CHR ''>'' then ''&gt;''
       else if c = CHR 0x22 then ''&#34;'' else if c = CHR 0x27 then ''&#39;'' else [c]) s)"

definition create_followup ::
  "opp_service \<Rightarrow> principal \<Rightarrow> nat \<Rightarrow> string \<Rightarrow> string \<Rightarrow> instant \<Rightarrow> instant option \<Rightarrow> opp_db \<Rightarrow> (opp_db \<times> followup) app_res" where
  "create_followup s p0 i typ content at next db =
     (case require_principal p0 of
        Inl e \<Rightarrow> Inl e
      | Inr p \<Rightarrow>
        (case find_opportunity p i db of
          Inl e \<Rightarrow> Inl e
        | Inr m \<Rightarrow>
          if o_status m = StatusVoid then Inl ErrOppInactive
          else if trim_space content = [] then Inl ErrOppFollowupContentRequired
          else (let (db1, f) = create_followup_row (op_now s)
                  \<lparr>row_id = 0, tenant_id = p_tenant p, created_by = p_user p, updated_by = p_user p, created_at = 0,
                   updated_at = 0, deleted_at = None, version = 1, fu_opp = i, fu_type = typ,
                   fu_content = html_escape (trim_space content), fu_at = at, fu_by = p_user p, fu_next = next\<rparr> db
            in Inr (audit_opp s p ''FOLLOWUP_CREATE'' i None (Some (SnapFollowup f)) [] db1, f))))"

definition is_presale_eligible_stage :: "stage \<Rightarrow> bool" where
  "is_presale_eligible_stage st \<longleftrightarrow>
     st = StageInitial \<or> st = StageRequirement \<or> st = StageSolution \<or> st = StageQuotation \<or> st = StageBid"

text \<open>\<open>ErrPresaleIneligible\<close> is a plain error, which the adapter of the presale module recognises.\<close>

definition ensure_presale_eligible :: "principal \<Rightarrow> nat \<Rightarrow> opp_db \<Rightarrow> unit app_res" where
  "ensure_presale_eligible p0 i db =
     (case require_principal p0 of
        Inl e \<Rightarrow> Inl e
      | Inr p \<Rightarrow>
        (case find_opportunity p i db of
          Inl e \<Rightarrow> Inl e
        | Inr m \<Rightarrow>
          if o_status m \<noteq> StatusFollowing \<or> \<not> is_presale_eligible_stage (o_stage m)
          then Inl (AppError 0 ''opportunity is not eligible for a new presale request'') else Inr ()))"

text \<open>\<open>Get\<close>: the response and the current members; the count of signed contracts is a display value.\<close>

definition get_opportunity :: "opp_service \<Rightarrow> principal \<Rightarrow> nat \<Rightarrow> opp_db \<Rightarrow> (opp_response \<times> member list) app_res" where
  "get_opportunity s p0 i db =
     (case require_principal p0 of
        Inl e \<Rightarrow> Inl e
      | Inr p \<Rightarrow>
        (case find_opportunity p i db of
          Inl e \<Rightarrow> Inl e
        | Inr m \<Rightarrow>
          Inr (enrich_response s (p_tenant p) db (to_response m), list_members (p_tenant p) i False db)))"

end
