(* ===== verification/OpportunityStages.thy ===== *)
theory OpportunityStages
  imports OpportunityOps
begin

text \<open>
  The stage machine of an opportunity: manual changes with their evidence
  (\<open>ChangeStage\<close>, \<open>win_confirmation.go\<close>), the callbacks of the quotation and bid system
  (\<open>ApplyExternalStatus\<close>), the completion of what a terminal stage still lacks
  (\<open>CompleteTerminalTodo\<close>), and the quotation check a reader is shown.
\<close>

section \<open>The stage machine\<close>

text \<open>\<open>allowedStageTransitions\<close> as a table; a terminal stage has no way out.\<close>

definition open_stages :: "stage list" where
  "open_stages = [StageInitial, StageRequirement, StageSolution, StageQuotation, StageBid]"

definition allowed_transitions :: "(stage \<times> stage list) list" where
  "allowed_transitions = map (\<lambda>s. (s, all_stages)) open_stages @ [(StageSigned, []), (StageFailed, [])]"

definition validate_stage_change :: "opportunity \<Rightarrow> stage \<Rightarrow> unit app_res" where
  "validate_stage_change m target =
     (case o_status m of
        StatusVoid \<Rightarrow> Inl ErrOppInactive
      | StatusClosed \<Rightarrow> Inl ErrOppTerminalStageLocked
      | StatusFollowing \<Rightarrow>
          (case map_of allowed_transitions (o_stage m) of
             None \<Rightarrow> Inl ErrOppInvalidStage
           | Some allowed \<Rightarrow> if target \<in> set allowed then Inr () else Inl ErrOppInvalidStage))"

definition apply_stage ::
  "stage \<Rightarrow> string option \<Rightarrow> string option \<Rightarrow> pending_type \<Rightarrow> instant \<Rightarrow> string \<Rightarrow> opportunity \<Rightarrow> opportunity" where
  "apply_stage st contract lost pending at act m =
     (let m1 = m\<lparr>o_stage := st, o_stage_at := at, updated_by := act\<rparr>
      in if st = StageSigned
         then m1\<lparr>o_status := StatusClosed, o_contract := contract, o_lost := None, o_pending := pending\<rparr>
         else if st = StageFailed
         then m1\<lparr>o_status := StatusClosed, o_contract := None, o_lost := lost, o_pending := pending\<rparr>
         else m1\<lparr>o_status := StatusFollowing, o_contract := None, o_lost := None, o_pending := PendingNone\<rparr>)"

section \<open>Evidence of a win\<close>

text \<open>\<open>winAmountPattern\<close>: one to sixteen digits, perhaps a point and one or two digits.\<close>

definition win_amount_pattern :: "string \<Rightarrow> bool" where
  "win_amount_pattern v \<longleftrightarrow>
     (case cut CHR ''.'' v of
        None \<Rightarrow> list_all is_digit v \<and> 1 \<le> length v \<and> length v \<le> 16
      | Some (w, f) \<Rightarrow> list_all is_digit w \<and> 1 \<le> length w \<and> length w \<le> 16 \<and>
                       list_all is_digit f \<and> 1 \<le> length f \<and> length f \<le> 2)"

definition max_win_cents :: int where "max_win_cents = 999999999999999999"

definition year_of :: "instant \<Rightarrow> int" where
  "year_of t = fst (civil_of_days (t div day))"

text \<open>
  \<open>validateWinEvidence\<close>. The dates are compared as texts, which for two dates in the layout
  is the order of the days.
\<close>

definition validate_win_evidence :: "opp_service \<Rightarrow> win_evidence_input option \<Rightarrow> win_confirmation app_res" where
  "validate_win_evidence s inp =
     (case inp of
        None \<Rightarrow> Inl ErrOppWinEvidenceRequired
      | Some e \<Rightarrow>
        (let k = trim_space (we_type e); reference = trim_space (we_reference e); note = trim_space (we_note e);
             amount_text = trim_space (we_amount e)
         in if \<not> win_amount_pattern amount_text then Inl ErrOppWinEvidenceInvalid
            else case (parse_date (we_on e), op_decimal s amount_text) of
              (Some on, Some amount) \<Rightarrow>
                if k \<in> set [''PURCHASE_ORDER'', ''AWARD_NOTICE'', ''CUSTOMER_CONFIRMATION'', ''OTHER''] \<and>
                   reference \<noteq> [] \<and> note \<noteq> [] \<and> rune_len reference \<le> 200 \<and> rune_len note \<le> 1000 \<and>
                   \<not> contains_any (reference @ note) nul \<and>
                   1000 \<le> year_of on \<and> on div day \<le> beijing_day (op_now s) \<and>
                   0 \<le> fst amount \<and> - 2 \<le> snd amount \<and> \<not> decimal_less (of_cents max_win_cents) amount
                then Inr \<lparr>row_id = 0, tenant_id = [], wc_opp = 0, wc_customer = 0, wc_version = 0, wc_mode = ''local_evidence'',
                          wc_type = k, wc_reference = reference, wc_on = on, wc_amount = amount, wc_note = note, wc_by = [],
                          wc_at = 0, wc_request = []\<rparr>
                else Inl ErrOppWinEvidenceInvalid
            | _ \<Rightarrow> Inl ErrOppWinEvidenceInvalid))"

definition win_mode_value :: "opp_service \<Rightarrow> string" where
  "win_mode_value s = (if op_win_mode s = [] then ''contract'' else op_win_mode s)"

definition blank :: "string option \<Rightarrow> bool" where
  "blank v \<longleftrightarrow> (case v of None \<Rightarrow> True | Some x \<Rightarrow> trim_space x = [])"

definition prepare_win_confirmation ::
  "opp_service \<Rightarrow> opportunity \<Rightarrow> string option \<Rightarrow> win_evidence_input option \<Rightarrow> win_confirmation option app_res" where
  "prepare_win_confirmation s m contract inp =
     (if win_mode_value s = ''local_evidence''
      then (if \<not> blank contract then Inl ErrOppWinModeMismatch
            else if \<not> op_evidence s then Inl ErrOppWinEvidenceUnavailable
            else case validate_win_evidence s inp of Inl e \<Rightarrow> Inl e | Inr w \<Rightarrow> Inr (Some w))
      else if win_mode_value s \<noteq> ''contract'' \<or> inp \<noteq> None then Inl ErrOppWinModeMismatch
      else case contract of
        None \<Rightarrow> Inl ErrOppContractRequired
      | Some ref \<Rightarrow>
          if trim_space ref = [] then Inl ErrOppContractRequired
          else case op_contracts s of
            None \<Rightarrow> Inl ErrOppContractNotConfigured
          | Some belongs \<Rightarrow>
              (case belongs (trim_space ref) (o_customer m) of
                 None \<Rightarrow> Inl ErrOppDependencyUnavailable
               | Some b \<Rightarrow> if b then Inr None else Inl ErrOppContractCustomerMismatch))"

text \<open>\<open>saveWinConfirmation\<close>: the evidence is bound to the opportunity and to the operation.\<close>

definition save_win_confirmation :: "opp_service \<Rightarrow> opportunity \<Rightarrow> win_confirmation option \<Rightarrow> opp_db \<Rightarrow> opp_db app_res" where
  "save_win_confirmation s m w db =
     (case w of
        None \<Rightarrow> Inr db
      | Some e \<Rightarrow> create_win_confirmation (e\<lparr>tenant_id := tenant_id m, wc_opp := row_id m, wc_customer := o_customer m,
          wc_version := version m, wc_by := updated_by m, wc_at := op_now s, wc_request := op_trace s\<rparr>) db)"

definition win_snapshot :: "opportunity \<Rightarrow> win_confirmation option \<Rightarrow> opp_snapshot" where
  "win_snapshot m w = (case w of None \<Rightarrow> SnapResponse (to_response m) | Some e \<Rightarrow> SnapWin (to_response m) e)"

section \<open>Manual stage changes\<close>

definition persist_stage ::
  "opp_service \<Rightarrow> principal \<Rightarrow> opportunity \<Rightarrow> opp_response \<Rightarrow> nat \<Rightarrow> stage_log \<Rightarrow> win_confirmation option \<Rightarrow> opp_db \<Rightarrow>
     (opp_db \<times> opportunity) app_res" where
  "persist_stage s p m before v l w db =
     (case update_stage (op_now s) m v db of
        Inl e \<Rightarrow> Inl e
      | Inr (db1, m1) \<Rightarrow>
        (case create_stage_log l db1 of
          Inl e \<Rightarrow> Inl e
        | Inr db2 \<Rightarrow>
          (case save_win_confirmation s m1 w db2 of
            Inl e \<Rightarrow> Inl e
          | Inr db3 \<Rightarrow>
            (let db4 = (if sg_from l \<noteq> sg_to l \<or> o_status m \<noteq> StatusFollowing
               then cancel_active_alerts (sg_at l) (p_user p) (p_tenant p) (row_id m) db3 else db3)
             in Inr (audit_opp s p ''STAGE_CHANGE'' (row_id m) (Some (SnapResponse before)) (Some (win_snapshot m1 w))
                  (sg_reason l) db4, m1)))))"

definition new_stage_log ::
  "opp_service \<Rightarrow> principal \<Rightarrow> stage \<Rightarrow> opportunity \<Rightarrow> string \<Rightarrow> string \<Rightarrow> string \<Rightarrow> string \<Rightarrow> stage_log" where
  "new_stage_log s p from m src src_id reason operator =
     \<lparr>row_id = 0, tenant_id = p_tenant p, sg_opp = row_id m, sg_from = from, sg_to = o_stage m, sg_source = src,
      sg_source_id = src_id, sg_reason = reason, sg_contract = o_contract m, sg_lost = o_lost m, sg_pending = o_pending m,
      sg_operator = operator, sg_at = o_stage_at m, sg_request = op_trace s\<rparr>"

definition change_stage ::
  "opp_service \<Rightarrow> principal \<Rightarrow> nat \<Rightarrow> stage_change_input \<Rightarrow> opp_db \<Rightarrow> (opp_db \<times> opp_response) app_res" where
  "change_stage s p0 i inp db =
     (case require_principal p0 of
        Inl e \<Rightarrow> Inl e
      | Inr p \<Rightarrow>
        (case stage_of (sc_target inp) of
          None \<Rightarrow> Inl ErrOppInvalidStage
        | Some target \<Rightarrow>
          if trim_space (sc_reason inp) = [] then Inl ErrOppReasonRequired
          else (case find_opportunity p i db of
            Inl e \<Rightarrow> Inl e
          | Inr m \<Rightarrow>
            if version m \<noteq> sc_version inp then Inl ErrAppVersionConflict
            else (case validate_stage_change m target of
              Inl e \<Rightarrow> Inl e
            | Inr _ \<Rightarrow>
              (case (if target = StageSigned then prepare_win_confirmation s m (sc_contract inp) (sc_evidence inp)
                     else if sc_evidence inp \<noteq> None then Inl ErrOppWinModeMismatch else Inr None) of
                Inl e \<Rightarrow> Inl e
              | Inr w \<Rightarrow>
                if target = StageFailed \<and> \<not> valid_lost_reason (sc_lost inp) then Inl ErrOppLostReasonRequired
                else (let contract = (if w = None then sc_contract inp else None);
                          m1 = apply_stage target contract (sc_lost inp) PendingNone (op_now s) (p_user p) m
                  in case persist_stage s p m1 (to_response m) (sc_version inp)
                      (new_stage_log s p (o_stage m) m1 ''MANUAL'' (op_trace s) (trim_space (sc_reason inp)) (p_user p)) w db of
                    Inl e \<Rightarrow> Inl e
                  | Inr (db', m2) \<Rightarrow> Inr (db', to_response m2)))))))"

section \<open>What a terminal stage still lacks\<close>

definition normalized_optional :: "string option \<Rightarrow> string option" where
  "normalized_optional v = (case v of None \<Rightarrow> None | Some x \<Rightarrow> if trim_space x = [] then None else Some (trim_space x))"

text \<open>The evidence and the opportunity as the todo completes it.\<close>

definition completed_todo ::
  "opp_service \<Rightarrow> terminal_todo_input \<Rightarrow> opportunity \<Rightarrow> (win_confirmation option \<times> opportunity) app_res" where
  "completed_todo s inp m =
     (if o_pending m = PendingContract \<or> o_pending m = PendingWinEvidence
      then (if o_stage m \<noteq> StageSigned then Inl ErrOppTerminalTodoAbsent
            else case prepare_win_confirmation s m (tt_contract inp) (tt_evidence inp) of
              Inl e \<Rightarrow> Inl e
            | Inr w \<Rightarrow> Inr (w, m\<lparr>o_contract := (if w = None then normalized_optional (tt_contract inp) else None),
                                 o_pending := PendingNone\<rparr>))
      else if o_pending m = PendingLostReason
      then (if tt_evidence inp \<noteq> None then Inl ErrOppWinModeMismatch
            else if o_stage m \<noteq> StageFailed \<or> \<not> valid_lost_reason (tt_lost inp) then Inl ErrOppLostReasonRequired
            else Inr (None, m\<lparr>o_lost := map_option trim_space (tt_lost inp), o_pending := PendingNone\<rparr>))
      else Inl ErrOppTerminalTodoAbsent)"

definition complete_terminal_todo ::
  "opp_service \<Rightarrow> principal \<Rightarrow> nat \<Rightarrow> terminal_todo_input \<Rightarrow> opp_db \<Rightarrow> (opp_db \<times> opp_response) app_res" where
  "complete_terminal_todo s p0 i inp db =
     (case require_principal p0 of
        Inl e \<Rightarrow> Inl e
      | Inr p \<Rightarrow>
        (case find_opportunity p i db of
          Inl e \<Rightarrow> Inl e
        | Inr m \<Rightarrow>
          if version m \<noteq> tt_version inp then Inl ErrAppVersionConflict
          else if o_status m = StatusVoid then Inl ErrOppInactive
          else (case completed_todo s inp m of
            Inl e \<Rightarrow> Inl e
          | Inr (w, m0) \<Rightarrow>
            (let m1 = m0\<lparr>updated_by := p_user p\<rparr>
             in case update_terminal_todo (op_now s) m1 (tt_version inp) db of
               Inl e \<Rightarrow> Inl e
             | Inr (db1, m2) \<Rightarrow>
               (case save_win_confirmation s m2 w db1 of
                 Inl e \<Rightarrow> Inl e
               | Inr db2 \<Rightarrow>
                 (let db3 = audit_opp s p ''TERMINAL_TODO_COMPLETE'' i (Some (SnapResponse (to_response m)))
                    (Some (win_snapshot m2 w)) (tt_reason inp) db2
                  in Inr (db3, enrich_response s (p_tenant p) db3 (to_response m2))))))))"

section \<open>Callbacks of the quotation and bid system\<close>

definition status_matches_type :: "string \<Rightarrow> string \<Rightarrow> bool" where
  "status_matches_type typ st \<longleftrightarrow>
     (if typ = qb_quote then st \<in> set [qb_quote_review, qb_quote_approved, qb_quote_expired]
      else st \<in> set [qb_bid_drafting, qb_opening, qb_bid_opening, qb_bid_won, qb_bid_lost])"

definition has_prefix :: "string \<Rightarrow> string \<Rightarrow> bool" where
  "has_prefix pre s \<longleftrightarrow> take (length pre) s = pre"

definition external_type :: "string \<Rightarrow> string \<Rightarrow> string" where
  "external_type typ st =
     (if typ \<noteq> [] then typ
      else if has_prefix qb_quote st then qb_quote
      else if has_prefix qb_bid st \<or> st = qb_opening then qb_bid else typ)"

text \<open>\<open>value.Equal(value.Round(2))\<close>.\<close>

definition whole_cents :: "decimal \<Rightarrow> bool" where
  "whole_cents d \<longleftrightarrow> decimal_equal d (of_cents (cents d))"

definition normalize_external ::
  "opp_service \<Rightarrow> external_status_input \<Rightarrow> (external_status_input \<times> decimal option) app_res" where
  "normalize_external s inp0 =
     (let st = trim_space (es_status inp0);
          inp = inp0\<lparr>es_type := external_type (trim_space (es_type inp0)) st, es_source := trim_space (es_source inp0),
            es_status := st, es_contract := normalized_optional (es_contract inp0), es_lost := normalized_optional (es_lost inp0),
            es_at := truncate_to millisecond (es_at inp0)\<rparr>
      in if es_source inp = [] \<or> es_type inp \<noteq> qb_quote \<and> es_type inp \<noteq> qb_bid \<or>
            \<not> status_matches_type (es_type inp) st \<or> es_at inp = zero_time then Inl ErrOppUnknownExternalStatus
         else case es_amount inp of
           None \<Rightarrow> Inr (inp, None)
         | Some raw \<Rightarrow>
           (case op_decimal s (trim_space raw) of
             None \<Rightarrow> Inl ErrOppExternalAmountInvalid
           | Some d \<Rightarrow>
               if fst d < 0 \<or> \<not> whole_cents d then Inl ErrOppExternalAmountInvalid
               else Inr (inp\<lparr>es_amount := Some (string_fixed2 d)\<rparr>, Some d)))"

text \<open>The stage a status means, and what it leaves open.\<close>

definition map_external_status :: "string \<Rightarrow> string option \<Rightarrow> string option \<Rightarrow> (stage \<times> pending_type) option" where
  "map_external_status st contract lost =
     (if st = qb_quote_expired then Some (StageSolution, PendingNone)
      else if st = qb_quote_review \<or> st = qb_quote_approved then Some (StageQuotation, PendingNone)
      else if st = qb_bid_drafting \<or> st = qb_opening \<or> st = qb_bid_opening then Some (StageBid, PendingNone)
      else if st = qb_bid_won then Some (StageSigned, if blank contract then PendingContract else PendingNone)
      else if st = qb_bid_lost then Some (StageFailed, if blank lost then PendingLostReason else PendingNone)
      else None)"

definition snapshot_of :: "external_status_input \<Rightarrow> external_snapshot" where
  "snapshot_of inp =
     \<lparr>xs_type = es_type inp, xs_source = es_source inp, xs_status = es_status inp, xs_amount = es_amount inp,
      xs_contract = es_contract inp, xs_lost = es_lost inp, xs_at = es_at inp\<rparr>"

definition external_link_snapshot ::
  "string \<Rightarrow> nat \<Rightarrow> external_status_input \<Rightarrow> decimal option \<Rightarrow> instant \<Rightarrow> external_link" where
  "external_link_snapshot tenant opp inp amount created =
     \<lparr>row_id = 0, tenant_id = tenant, xl_opp = opp, xl_type = es_type inp, xl_source = es_source inp, xl_status = es_status inp,
      xl_amount = amount, xl_at = es_at inp, xl_snapshot = snapshot_of inp, xl_created = created\<rparr>"

text \<open>\<open>validateExternalReplay\<close>: the same type, time and snapshot bytes.\<close>

definition same_external :: "opp_service \<Rightarrow> external_link \<Rightarrow> external_status_input \<Rightarrow> bool" where
  "same_external s prior inp \<longleftrightarrow>
     xl_type prior = es_type inp \<and> xl_at prior = es_at inp \<and>
     op_sha s (op_json_column s (op_json s (JsonSnapshot (xl_snapshot prior)))) = op_sha s (op_json s (JsonSnapshot (snapshot_of inp)))"

definition external_stage_source_id :: "opp_service \<Rightarrow> string \<Rightarrow> string \<Rightarrow> string" where
  "external_stage_source_id s src st = ''qb-'' @ take 60 (op_sha s (src @ nul @ st))"

definition persist_external_stage ::
  "opp_service \<Rightarrow> principal \<Rightarrow> opportunity \<Rightarrow> opp_response \<Rightarrow> nat \<Rightarrow> stage_log \<Rightarrow> external_link \<Rightarrow> opp_db \<Rightarrow>
     (opp_db \<times> opportunity) app_res" where
  "persist_external_stage s p m before v l x db =
     (case update_stage (op_now s) m v db of
        Inl e \<Rightarrow> Inl e
      | Inr (db1, m1) \<Rightarrow>
        (case create_stage_log l db1 of
          Inl e \<Rightarrow> Inl e
        | Inr db2 \<Rightarrow>
          (case create_external_link x db2 of
            Inl e \<Rightarrow> Inl e
          | Inr db3 \<Rightarrow>
            (let db4 = (if sg_from l \<noteq> sg_to l \<or> o_status m \<noteq> StatusFollowing
               then cancel_active_alerts (sg_at l) (p_user p) (p_tenant p) (row_id m) db3 else db3)
             in Inr (audit_opp s p ''EXTERNAL_STATUS_APPLY'' (row_id m) (Some (SnapResponse before))
                  (Some (SnapResponse (to_response m1))) [] db4, m1)))))"

text \<open>The principal of the read: the caller's, with the scope of the whole tenant.\<close>

definition tenant_wide :: "principal \<Rightarrow> principal" where
  "tenant_wide p = p\<lparr>p_scope := ScopeAll\<rparr>"

definition stale_external :: "external_status_input \<Rightarrow> opportunity \<Rightarrow> bool" where
  "stale_external inp m \<longleftrightarrow>
     es_at inp < o_stage_at m \<or> (case o_external_at m of None \<Rightarrow> False | Some t \<Rightarrow> es_at inp < t)"

text \<open>The stage, what stays open and the contract a new callback leads to.\<close>

definition external_target :: "opp_service \<Rightarrow> external_status_input \<Rightarrow> (stage \<times> pending_type \<times> string option) option" where
  "external_target s inp =
     (case map_external_status (es_status inp) (es_contract inp) (es_lost inp) of
        None \<Rightarrow> None
      | Some (st, pending) \<Rightarrow>
          if st = StageSigned \<and> win_mode_value s = ''local_evidence'' then Some (st, PendingWinEvidence, None)
          else Some (st, pending, es_contract inp))"

text \<open>
  The callback of a loaded opportunity. A stale callback and one for a closed opportunity
  are refused and leave an audit record, so the handler returns a database in every case.
\<close>

definition apply_external_to ::
  "opp_service \<Rightarrow> principal \<Rightarrow> external_status_input \<Rightarrow> decimal option \<Rightarrow> opportunity \<Rightarrow> opp_db \<Rightarrow> opp_db \<times> opp_response app_res" where
  "apply_external_to s p inp amount m db =
     (let refusal = (\<lambda>operation result.
        write_audit (audit_event s p (''opportunity'', ''opportunity'') operation (row_id m) (Some (SnapResponse (to_response m)))
          (Some (SnapExternal (es_type inp) (es_source inp) (es_status inp) (es_at inp))) [] result) db)
      in if stale_external inp m then (refusal ''EXTERNAL_STATUS_STALE'' ''STALE'', Inl ErrOppStaleEvent)
         else case external_target s inp of
           None \<Rightarrow> (db, Inl ErrOppUnknownExternalStatus)
         | Some (st, pending, contract) \<Rightarrow>
           if o_status m = StatusClosed
           then (refusal ''EXTERNAL_STATUS_TERMINAL_REJECTED'' ''REJECTED'', Inl ErrOppExternalStatusTerminal)
           else (let m1 = (apply_stage st contract (es_lost inp) pending (es_at inp) (p_user p) m)\<lparr>o_external_at := Some (es_at inp)\<rparr>
             in case persist_external_stage s p m1 (to_response m) (version m)
                 (new_stage_log s p (o_stage m) m1 ''QB_CALLBACK'' (external_stage_source_id s (es_source inp) (es_status inp)) []
                   (p_user p))
                 (external_link_snapshot (p_tenant p) (row_id m) inp amount (op_now s)) db of
               Inr (db', m2) \<Rightarrow> (db', Inr (to_response m2))
             | Inl e \<Rightarrow>
               (db, case find_external_link (p_tenant p) (es_opp inp) (es_source inp) (es_status inp) db of
                  None \<Rightarrow> Inl e
                | Some winner \<Rightarrow>
                    if \<not> same_external s winner inp then Inl ErrOppIdempotencyConflict
                    else (case find_opportunity (tenant_wide p) (es_opp inp) db of
                      Inl _ \<Rightarrow> Inl e
                    | Inr current \<Rightarrow> Inr (to_response current)))))"

definition apply_external_status ::
  "opp_service \<Rightarrow> principal \<Rightarrow> external_status_input \<Rightarrow> opp_db \<Rightarrow> opp_db \<times> opp_response app_res" where
  "apply_external_status s p0 inp0 db =
     (case require_principal p0 of
        Inl e \<Rightarrow> (db, Inl e)
      | Inr p \<Rightarrow>
        (case normalize_external s inp0 of
          Inl e \<Rightarrow> (db, Inl e)
        | Inr (inp, amount) \<Rightarrow>
          (case find_opportunity (tenant_wide p) (es_opp inp) db of
            Inl e \<Rightarrow> (db, Inl e)
          | Inr m \<Rightarrow>
            if o_status m = StatusVoid then (db, Inl ErrOppInactive)
            else (case find_external_link (p_tenant p) (es_opp inp) (es_source inp) (es_status inp) db of
              Some prior \<Rightarrow> (db, if same_external s prior inp then Inr (to_response m) else Inl ErrOppIdempotencyConflict)
            | None \<Rightarrow> apply_external_to s p inp amount m db))))"

section \<open>What a reader is told of the quotation\<close>

datatype quote_check = NoApprovedQuote | QuoteAmountMissing | QuoteMatch | QuoteMismatch

definition quote_amount_check :: "opportunity \<Rightarrow> external_link option \<Rightarrow> quote_check" where
  "quote_amount_check m approved =
     (case approved of
        None \<Rightarrow> NoApprovedQuote
      | Some x \<Rightarrow>
          (case xl_amount x of
             None \<Rightarrow> QuoteAmountMissing
           | Some a \<Rightarrow> if decimal_equal (o_amount m) a then QuoteMatch else QuoteMismatch))"

definition external_status ::
  "principal \<Rightarrow> nat \<Rightarrow> opp_db \<Rightarrow> (quote_check \<times> external_snapshot option) app_res" where
  "external_status p0 i db =
     (case require_principal p0 of
        Inl e \<Rightarrow> Inl e
      | Inr p \<Rightarrow>
        (case find_opportunity p i db of
          Inl e \<Rightarrow> Inl e
        | Inr m \<Rightarrow>
          (let check = quote_amount_check m (latest_approved_quotation (p_tenant p) i db)
           in case latest_external_link (p_tenant p) i db of
             None \<Rightarrow> Inr (check, None)
           | Some x \<Rightarrow>
             (let snap = xl_snapshot x
              in if xs_type snap \<noteq> xl_type x \<or> xs_source snap \<noteq> xl_source x \<or> xs_status snap \<noteq> xl_status x \<or>
                    xs_at snap \<noteq> xl_at x
                 then Inl (AppError 500 ''CRM_OPPORTUNITY_EXTERNAL_STATUS_CORRUPTED'') else Inr (check, Some snap)))))"

end
