(* ===== verification/OpportunityTransfer.thy ===== *)
theory OpportunityTransfer
  imports OpportunityStages
begin

text \<open>
  Handing a signed opportunity to the contract system (\<open>ContractTransfer\<close>) and the callback
  that links the contract (\<open>ContractLinkCallback\<close>).
\<close>

section \<open>Transfer\<close>

definition transfer_event_id :: "opp_service \<Rightarrow> string \<Rightarrow> nat \<Rightarrow> nat \<Rightarrow> string" where
  "transfer_event_id s tenant i v =
     ''opp-signed-'' @ take 32 (op_sha s (tenant @ nul @ show_nat i @ nul @ show_nat v @ nul @ ''OPPORTUNITY_SIGNED''))"

definition transfer_request_hash :: "opp_service \<Rightarrow> nat \<Rightarrow> string \<Rightarrow> string" where
  "transfer_request_hash s v reason = op_sha s (show_nat v @ nul @ trim_space reason)"

definition transfer_already_linked :: "opportunity \<Rightarrow> bool" where
  "transfer_already_linked m \<longleftrightarrow>
     o_link m = LinkConfirmed \<or> o_link m = LinkException \<or> \<not> blank (o_contract_id m) \<or> \<not> blank (o_intake m)"

definition replay_transfer :: "string \<Rightarrow> nat \<Rightarrow> nat \<Rightarrow> change_idem \<Rightarrow> transfer_response app_res" where
  "replay_transfer hash i v prior =
     (if ch_hash prior \<noteq> hash then Inl ErrOppIdempotencyConflict
      else case ch_response prior of
        TransferResponse r \<Rightarrow>
          if ts_opp r \<noteq> i \<or> ts_event r = [] \<or> ts_version r \<noteq> v \<or> ts_status r \<noteq> ''PENDING''
          then Inl ErrOppIdempotencyConflict else Inr r
      | _ \<Rightarrow> Inl ErrOppIdempotencyConflict)"

text \<open>Everything but the link and the version that a transfer needs.\<close>

definition transfer_ready :: "opportunity \<Rightarrow> bool" where
  "transfer_ready m \<longleftrightarrow>
     o_status m = StatusClosed \<and> o_stage m = StageSigned \<and> \<not> blank (o_contract m) \<and> o_pending m = PendingNone"

definition new_opp_event :: "opp_service \<Rightarrow> string \<Rightarrow> string \<Rightarrow> string \<Rightarrow> nat \<Rightarrow> opp_payload \<Rightarrow> opp_event" where
  "new_opp_event s tenant eid typ i payload =
     \<lparr>row_id = 0, tenant_id = tenant, ev_id = eid, ev_type = typ, ev_aggregate = ''opportunity'', ev_aggregate_id = show_nat i,
      ev_payload = payload, ev_status = ''PENDING'', ev_retries = 0, ev_next_retry = None, ev_locked_by = [],
      ev_locked_until = None, ev_error = [], ev_created = op_now s, ev_sent = None\<rparr>"

definition new_change_idem ::
  "opp_service \<Rightarrow> principal \<Rightarrow> nat \<Rightarrow> string \<Rightarrow> string \<Rightarrow> string \<Rightarrow> change_response \<Rightarrow> change_idem" where
  "new_change_idem s p i operation key hash response =
     \<lparr>row_id = 0, tenant_id = p_tenant p, ch_opp = i, ch_operation = operation, ch_actor = p_user p, ch_key = key,
      ch_hash = hash, ch_response = response, ch_created = op_now s\<rparr>"

definition contract_transfer_tx ::
  "opp_service \<Rightarrow> principal \<Rightarrow> nat \<Rightarrow> nat \<Rightarrow> string \<Rightarrow> string \<Rightarrow> opp_db \<Rightarrow> (opp_db \<times> transfer_response) app_res" where
  "contract_transfer_tx s p i v key reason db =
     (let hash = transfer_request_hash s v reason
      in case find_change_idem (p_tenant p) i ''CONTRACT_TRANSFER'' (p_user p) key db of
        Some prior \<Rightarrow> (case replay_transfer hash i v prior of Inl e \<Rightarrow> Inl e | Inr r \<Rightarrow> Inr (db, r))
      | None \<Rightarrow>
        (case find_opportunity p i db of
          Inl e \<Rightarrow> Inl e
        | Inr m \<Rightarrow>
          if transfer_already_linked m then Inl ErrOppTransferAlreadyLinked
          else if contract_transfer_accepted (p_tenant p) i db then Inl ErrOppTransferAlreadyLinked
          else if version m \<noteq> v then Inl ErrAppVersionConflict
          else if \<not> transfer_ready m then Inl ErrOppTransferState
          else (let eid = transfer_event_id s (p_tenant p) i v;
                    r = \<lparr>ts_opp = i, ts_version = v, ts_event = eid, ts_status = ''PENDING''\<rparr>
            in if find_event (p_tenant p) eid db \<noteq> None then Inl ErrOppIdempotencyConflict
               else case create_event (new_opp_event s (p_tenant p) eid ''OPPORTUNITY_SIGNED'' i
                   (ContractSigned i (o_no m) (o_customer m) (case o_contract m of None \<Rightarrow> [] | Some c \<Rightarrow> trim_space c)
                     (string_fixed2 (o_amount m)) v (op_now s))) db of
                 Inl e \<Rightarrow> Inl (if e = ErrDuplicateIndex ''uq_crm_outbox_event'' then ErrOppTransferAlreadyLinked else e)
               | Inr db1 \<Rightarrow>
                 (case create_change_idem (new_change_idem s p i ''CONTRACT_TRANSFER'' key hash (TransferResponse r)) db1 of
                   Inl e \<Rightarrow> Inl e
                 | Inr db2 \<Rightarrow>
                   Inr (audit_opp s p ''CONTRACT_TRANSFER_ACCEPTED'' i None (Some (SnapTransfer r)) reason db2, r)))))"

text \<open>
  The code reads the ledger once more when it holds the lock of the row; in a transaction
  that runs alone the second reading is the first.
\<close>

definition contract_transfer ::
  "opp_service \<Rightarrow> principal \<Rightarrow> nat \<Rightarrow> transfer_input \<Rightarrow> opp_db \<Rightarrow> (opp_db \<times> transfer_response) app_res" where
  "contract_transfer s p0 i inp db =
     (case require_principal p0 of
        Inl e \<Rightarrow> Inl e
      | Inr p \<Rightarrow>
        if op_transfer_disabled s then Inl ErrOppTransferNotSubscribed
        else (let key = trim_space (tr_key inp); reason = trim_space (tr_reason inp)
          in if key = [] then Inl ErrOppIdempotencyRequired
             else if 128 < length key then Inl ErrOppIdempotencyKeyTooLong
             else if reason = [] then Inl ErrOppReasonRequired
             else case find_opportunity p i db of
               Inl e \<Rightarrow> Inl e
             | Inr _ \<Rightarrow> contract_transfer_tx s p i (tr_version inp) key reason db))"

section \<open>The link of the contract\<close>

text \<open>\<open>validCanonicalULID\<close>.\<close>

definition valid_ulid :: "string \<Rightarrow> bool" where
  "valid_ulid v \<longleftrightarrow>
     length v = 26 \<and> hd v \<in> set ''01234567'' \<and> list_all (\<lambda>c. c \<in> set ''0123456789ABCDEFGHJKMNPQRSTVWXYZ'') v"

definition link_status_of :: "string \<Rightarrow> link_status option" where
  "link_status_of v =
     (if v = ''LINK_CONFIRMED'' then Some LinkConfirmed else if v = ''LINK_EXCEPTION'' then Some LinkException else None)"

definition trim_link_input :: "contract_link_input \<Rightarrow> contract_link_input" where
  "trim_link_input inp =
     inp\<lparr>ki_event := trim_space (ki_event inp), ki_intake := trim_space (ki_intake inp), ki_contract := trim_space (ki_contract inp),
         ki_number := trim_space (ki_number inp), ki_status := trim_space (ki_status inp)\<rparr>"

definition linked_contract :: "contract_link_input \<Rightarrow> link_status \<Rightarrow> string \<Rightarrow> opportunity \<Rightarrow> opportunity" where
  "linked_contract inp st act m =
     m\<lparr>o_intake := Some (ki_intake inp), o_link := st, o_sync := ki_sync inp, o_link_event := Some (ki_event inp),
       o_contract_id := (if st = LinkConfirmed then Some (ki_contract inp) else None),
       o_linked_at := (if st = LinkConfirmed then ki_linked_at inp else None), updated_by := act\<rparr>"

definition contract_link_tx ::
  "opp_service \<Rightarrow> principal \<Rightarrow> nat \<Rightarrow> contract_link_input \<Rightarrow> link_status \<Rightarrow> opp_db \<Rightarrow> (opp_db \<times> opp_response) app_res" where
  "contract_link_tx s p i inp st db =
     (case find_opportunity p i db of
        Inl e \<Rightarrow> Inl e
      | Inr m \<Rightarrow>
        (let hash = op_sha s (op_json s (JsonLink inp))
         in case find_change_idem (p_tenant p) i ''CONTRACT_LINK_CALLBACK'' (p_user p) (ki_event inp) db of
           Some prior \<Rightarrow>
             if ch_hash prior \<noteq> hash then Inl ErrOppIdempotencyConflict
             else (case ch_response prior of LinkResponse r \<Rightarrow> Inr (db, r) | _ \<Rightarrow> Inl ErrOppIdempotencyConflict)
         | None \<Rightarrow>
           if map_option trim_space (o_contract m) \<noteq> Some (ki_number inp) then Inl ErrOppContractReferenceMismatch
           else if ki_sync inp \<le> o_sync m then Inl ErrOppContractLinkStale
           else case update_contract_link (op_now s) (linked_contract inp st (p_user p) m) (o_sync m) db of
             Inl e \<Rightarrow> Inl e
           | Inr (db1, m1) \<Rightarrow>
             (case create_change_idem (new_change_idem s p i ''CONTRACT_LINK_CALLBACK'' (ki_event inp) hash
                 (LinkResponse (to_response m1))) db1 of
               Inl e \<Rightarrow> Inl e
             | Inr db2 \<Rightarrow> Inr (db2, to_response m1))))"

definition contract_link_callback ::
  "opp_service \<Rightarrow> principal \<Rightarrow> nat \<Rightarrow> contract_link_input \<Rightarrow> opp_db \<Rightarrow> (opp_db \<times> opp_response) app_res" where
  "contract_link_callback s p0 i inp0 db =
     (case require_principal p0 of
        Inl e \<Rightarrow> Inl e
      | Inr p \<Rightarrow>
        (let inp = trim_link_input inp0
         in if ki_event inp = [] \<or> ki_intake inp = [] \<or> ki_number inp = [] \<or> ki_sync inp = 0 then Inl ErrOppContractLinkInvalid
            else case link_status_of (ki_status inp) of
              None \<Rightarrow> Inl ErrOppContractLinkInvalid
            | Some st \<Rightarrow>
                if st = LinkConfirmed \<and> (\<not> valid_ulid (ki_contract inp) \<or> ki_linked_at inp = None)
                then Inl ErrOppContractLinkInvalid
                else contract_link_tx s p i inp st db))"

end
