(* ===== verification/OpportunityTeam.thy ===== *)
theory OpportunityTeam
  imports OpportunityTransfer
begin

text \<open>
  The owner and the team of an opportunity (\<open>team.go\<close>): handing it to another owner with
  the two notifications, and replacing the set of members.
\<close>

section \<open>The owner\<close>

definition owner_request_hash :: "opp_service \<Rightarrow> string \<Rightarrow> string \<Rightarrow> nat \<Rightarrow> string \<Rightarrow> string" where
  "owner_request_hash s owner org v reason = op_sha s (owner @ nul @ org @ nul @ show_nat v @ nul @ reason)"

definition owner_event_id :: "opp_service \<Rightarrow> string \<Rightarrow> nat \<Rightarrow> nat \<Rightarrow> string \<Rightarrow> string" where
  "owner_event_id s tenant i v k = op_sha s (tenant @ nul @ show_nat i @ nul @ show_nat v @ nul @ k)"

text \<open>A change of the organisation alone notifies nobody.\<close>

definition owner_notification_events ::
  "opp_service \<Rightarrow> string \<Rightarrow> opportunity \<Rightarrow> string \<Rightarrow> string \<Rightarrow> nat \<Rightarrow> opp_event list" where
  "owner_notification_events s tenant m old new v =
     (if old = new then []
      else map (\<lambda>(user, k).
        new_opp_event s tenant (owner_event_id s tenant (row_id m) v k) ''OPPORTUNITY_OWNER_CHANGED_NOTIFICATION'' (row_id m)
          (OwnerChanged (row_id m) (o_no m) (o_name m) user k new
            (''/customer-opportunity/opportunities?opportunity_id='' @ show_nat (row_id m)) v))
        [(old, ''PREVIOUS_OWNER''), (new, ''NEW_OWNER'')])"

definition replay_owner_change ::
  "principal \<Rightarrow> nat \<Rightarrow> string \<Rightarrow> string \<Rightarrow> app_error \<Rightarrow> opp_db \<Rightarrow> opp_response app_res" where
  "replay_owner_change p i key hash original db =
     (case find_change_idem (p_tenant p) i ''OWNER_CHANGE'' (p_user p) key db of
        None \<Rightarrow> Inl original
      | Some prior \<Rightarrow>
          if ch_hash prior \<noteq> hash then Inl ErrOppIdempotencyConflict
          else (case ch_response prior of OwnerResponse r \<Rightarrow> Inr r | _ \<Rightarrow> Inl ErrInternal))"

definition change_owner_tx ::
  "opp_service \<Rightarrow> principal \<Rightarrow> opportunity \<Rightarrow> opportunity \<Rightarrow> nat \<Rightarrow> string \<Rightarrow> string \<Rightarrow> string \<Rightarrow> opp_db \<Rightarrow>
     (opp_db \<times> opportunity) app_res" where
  "change_owner_tx s p old m v key hash reason db =
     (case guard_owner_write s (p_tenant p) (o_owner m) of
        Inl e \<Rightarrow> Inl e
      | Inr _ \<Rightarrow>
        (case update_owner (op_now s) m v db of
          Inl e \<Rightarrow> Inl e
        | Inr (db1, m1) \<Rightarrow>
          (case create_events (owner_notification_events s (p_tenant p) m (o_owner old) (o_owner m) (v + 1))
              (cancel_active_alerts (op_now s) (p_user p) (p_tenant p) (row_id m) db1) of
            Inl e \<Rightarrow> Inl e
          | Inr db2 \<Rightarrow>
            (case create_change_idem (new_change_idem s p (row_id m) ''OWNER_CHANGE'' key hash (OwnerResponse (to_response m1))) db2 of
              Inl e \<Rightarrow> Inl e
            | Inr db3 \<Rightarrow>
              Inr (audit_opp s p ''OWNER_CHANGE'' (row_id m) (Some (SnapResponse (to_response old)))
                (Some (SnapResponse (to_response m1))) reason db3, m1)))))"

text \<open>After the checks of the input: the replay, the unchanged owner, the change.\<close>

definition change_owner_of ::
  "opp_service \<Rightarrow> principal \<Rightarrow> nat \<Rightarrow> string \<Rightarrow> string \<Rightarrow> nat \<Rightarrow> string \<Rightarrow> string \<Rightarrow> opp_db \<Rightarrow> (opp_db \<times> opp_response) app_res" where
  "change_owner_of s p i owner org v key reason db =
     (let hash = owner_request_hash s owner org v reason
      in case find_change_idem (p_tenant p) i ''OWNER_CHANGE'' (p_user p) key db of
        Some prior \<Rightarrow>
          (case replay_owner_change p i key hash ErrInternal db of Inl e \<Rightarrow> Inl e | Inr r \<Rightarrow> Inr (db, r))
      | None \<Rightarrow>
        (case find_opportunity p i db of
          Inl e \<Rightarrow> Inl e
        | Inr m \<Rightarrow>
          if o_status m = StatusVoid then Inl ErrOppInactive
          else if version m \<noteq> v then Inl ErrAppVersionConflict
          else if o_owner m = owner \<and> o_org m = org
          then (case create_change_idem (new_change_idem s p i ''OWNER_CHANGE'' key hash (OwnerResponse (to_response m))) db of
            Inr db1 \<Rightarrow> Inr (db1, to_response m)
          | Inl e \<Rightarrow> (case replay_owner_change p i key hash e db of Inl e' \<Rightarrow> Inl e' | Inr r \<Rightarrow> Inr (db, r)))
          else (case change_owner_tx s p m (m\<lparr>o_owner := owner, o_org := org, updated_by := p_user p\<rparr>) v key hash reason db of
            Inr (db', m') \<Rightarrow> Inr (db', to_response m')
          | Inl e \<Rightarrow> (case replay_owner_change p i key hash e db of Inl e' \<Rightarrow> Inl e' | Inr r \<Rightarrow> Inr (db, r)))))"

definition change_owner ::
  "opp_service \<Rightarrow> principal \<Rightarrow> nat \<Rightarrow> change_owner_input \<Rightarrow> opp_db \<Rightarrow> (opp_db \<times> opp_response) app_res" where
  "change_owner s p0 i inp db =
     (case require_principal p0 of
        Inl e \<Rightarrow> Inl e
      | Inr p \<Rightarrow>
        (let owner = trim_space (co_owner inp); org = trim_space (co_org inp); reason = trim_space (co_reason inp);
             key = trim_space (co_key inp)
         in if key = [] then Inl ErrOppIdempotencyRequired
            else if owner = [] then Inl ErrOppOwnerRequired
            else if reason = [] then Inl ErrOppReasonRequired
            else case ensure_owner_not_frozen s (p_tenant p) owner of
              Inl e \<Rightarrow> Inl e
            | Inr _ \<Rightarrow>
              (case op_owners s of
                None \<Rightarrow> Inl (AppError 503 ''CRM_OWNER_DIRECTORY_UNAVAILABLE'')
              | Some ow \<Rightarrow>
                (case ow_validate ow owner org of
                  Inl e \<Rightarrow> Inl e
                | Inr _ \<Rightarrow> change_owner_of s p i owner org (co_version inp) key reason db))))"

section \<open>The members\<close>

definition new_member :: "opp_service \<Rightarrow> principal \<Rightarrow> nat \<Rightarrow> string \<Rightarrow> string \<Rightarrow> member" where
  "new_member s p i user role =
     \<lparr>row_id = 0, tenant_id = p_tenant p, created_by = p_user p, updated_by = p_user p, created_at = op_now s,
      updated_at = op_now s, deleted_at = None, version = 1, mb_opp = i, mb_user = user, mb_role = role, mb_active = True,
      mb_ended = None\<rparr>"

fun collect_members :: "opp_service \<Rightarrow> principal \<Rightarrow> nat \<Rightarrow> (string \<times> string) list \<Rightarrow> string list \<Rightarrow> member list app_res" where
  "collect_members s p i [] seen = Inr []"
| "collect_members s p i ((user0, role0) # rest) seen =
     (let user = trim_space user0; role = to_upper (trim_space role0)
      in if user = [] then Inl ErrOppOwnerRequired
         else if role \<notin> set member_roles then Inl ErrOppInvalidMemberRole
         else if user \<in> set seen then Inl ErrOppDuplicateMember
         else case collect_members s p i rest (user # seen) of
           Inl e \<Rightarrow> Inl e
         | Inr ms \<Rightarrow> Inr (new_member s p i user role # ms))"

definition normalize_members :: "opp_service \<Rightarrow> principal \<Rightarrow> nat \<Rightarrow> (string \<times> string) list \<Rightarrow> member list app_res" where
  "normalize_members s p i inp = (if 50 < length inp then Inl ErrOppTeamTooLarge else collect_members s p i inp [])"

definition same_member_set :: "member list \<Rightarrow> member list \<Rightarrow> bool" where
  "same_member_set current desired \<longleftrightarrow>
     length current = length desired \<and>
     list_all (\<lambda>d. (case List.find (\<lambda>c. mb_user c = mb_user d) (rev current) of None \<Rightarrow> [] | Some c \<Rightarrow> mb_role c) = mb_role d) desired"

definition validate_team_users :: "opp_service \<Rightarrow> member list \<Rightarrow> (string \<Rightarrow> directory_user option) app_res" where
  "validate_team_users s ms =
     (if ms = [] then Inr (\<lambda>_. None)
      else case op_owners s of
        None \<Rightarrow> Inl (AppError 503 ''CRM_OWNER_DIRECTORY_UNAVAILABLE'')
      | Some ow \<Rightarrow>
        (case ow_resolve ow (map mb_user ms) of
          Inl e \<Rightarrow> Inl e
        | Inr users \<Rightarrow> if list_ex (\<lambda>b. users (mb_user b) = None) ms then Inl ErrOppInvalidTeamMember else Inr users))"

definition each_not_frozen :: "(opp_service \<Rightarrow> string \<Rightarrow> string \<Rightarrow> unit app_res) \<Rightarrow> opp_service \<Rightarrow> string \<Rightarrow> member list \<Rightarrow> unit app_res" where
  "each_not_frozen check s tenant ms = fold_res (\<lambda>b _. check s tenant (mb_user b)) ms ()"

text \<open>
  The new members are locked in the order of their users, which matters to transactions
  that run at the same time only.
\<close>

definition replace_members_tx ::
  "opp_service \<Rightarrow> principal \<Rightarrow> opportunity \<Rightarrow> nat \<Rightarrow> member list \<Rightarrow> member list \<Rightarrow> member list \<Rightarrow> string \<Rightarrow> opp_db \<Rightarrow>
     (opp_db \<times> opportunity) app_res" where
  "replace_members_tx s p m v current desired added reason db =
     (case each_not_frozen guard_owner_write s (p_tenant p) added of
        Inl e \<Rightarrow> Inl e
      | Inr _ \<Rightarrow>
        (case replace_member_rows (op_map_order s) m v desired (op_now s) db of
          Inl e \<Rightarrow> Inl e
        | Inr (db1, m1) \<Rightarrow>
          Inr (audit_opp s p ''TEAM_REPLACE'' (row_id m) (Some (SnapMembers current)) (Some (SnapMembers desired)) reason db1, m1)))"

definition replace_members ::
  "opp_service \<Rightarrow> principal \<Rightarrow> nat \<Rightarrow> (string \<times> string) list \<Rightarrow> nat \<Rightarrow> string \<Rightarrow> opp_db \<Rightarrow> (opp_db \<times> nat \<times> member list) app_res" where
  "replace_members s p0 i inp v reason0 db =
     (case require_principal p0 of
        Inl e \<Rightarrow> Inl e
      | Inr p \<Rightarrow>
        if trim_space reason0 = [] then Inl ErrOppReasonRequired
        else (case normalize_members s p i inp of
          Inl e \<Rightarrow> Inl e
        | Inr desired \<Rightarrow>
          (case validate_team_users s desired of
            Inl e \<Rightarrow> Inl e
          | Inr _ \<Rightarrow>
            (case find_opportunity p i db of
              Inl e \<Rightarrow> Inl e
            | Inr m \<Rightarrow>
              if o_status m = StatusVoid then Inl ErrOppInactive
              else (let current = list_members (p_tenant p) i False db
                in if same_member_set current desired \<and> version m = v then Inr (db, version m, current)
                   else if version m \<noteq> v then Inl ErrAppVersionConflict
                   else (let added = filter (\<lambda>d. mb_user d \<notin> set (map mb_user current)) desired
                     in case each_not_frozen ensure_owner_not_frozen s (p_tenant p) added of
                       Inl e \<Rightarrow> Inl e
                     | Inr _ \<Rightarrow>
                       (case replace_members_tx s p m v current desired added (trim_space reason0) db of
                         Inl e \<Rightarrow> Inl e
                       | Inr (db', m') \<Rightarrow> Inr (db', version m', list_members (p_tenant p) i False db'))))))))"

text \<open>\<open>GetMembers\<close>, with the version of the opportunity.\<close>

definition get_members :: "principal \<Rightarrow> nat \<Rightarrow> bool \<Rightarrow> opp_db \<Rightarrow> (nat \<times> member list) app_res" where
  "get_members p0 i inactive db =
     (case require_principal p0 of
        Inl e \<Rightarrow> Inl e
      | Inr p \<Rightarrow>
        (case find_opportunity p i db of
          Inl e \<Rightarrow> Inl e
        | Inr m \<Rightarrow> Inr (version m, list_members (p_tenant p) i inactive db)))"

end
