(* ===== verification/OpportunityProvision.thy ===== *)
theory OpportunityProvision
  imports OpportunityTeam
begin

text \<open>
  The channel through which the contract system imports past contracts
  (\<open>provision.go\<close>): it creates an opportunity for an owner of the directory and signs it with
  a contract that was verified.
\<close>

definition txt_history_import :: string where \<comment> \<open>import of past contracts: default type and source\<close>
  "txt_history_import = utf8 [21382, 21490, 21512, 21516, 23548, 20837]"

definition txt_history_create :: string where \<comment> \<open>the default reason of a creation\<close>
  "txt_history_create = utf8 [21382, 21490, 21512, 21516, 23548, 20837, 24320, 31435, 21830, 26426]"

definition txt_history_sign :: string where \<comment> \<open>the default reason of a signing\<close>
  "txt_history_sign = utf8 [21382, 21490, 21512, 21516, 23548, 20837, 25512, 36827, 24050, 31614, 32422]"

definition provision_scope :: string where
  "provision_scope = ''opportunity.import_provision''"

definition unsafe_provision_text :: "string \<Rightarrow> bool" where
  "unsafe_provision_text v \<longleftrightarrow>
     contains_any v ''<>'' \<or>
     list_ex (\<lambda>r. is_control (fst r) \<and> fst r \<notin> {10, 13, 9}) (go_runes v)"

definition valid_provision_identity :: "string \<Rightarrow> bool" where
  "valid_provision_identity v0 \<longleftrightarrow>
     (let v = trim_space v0
      in v \<noteq> [] \<and> length v \<le> 64 \<and> \<not> unsafe_provision_text v \<and>
         \<not> contains_any v [CHR '' '', CHR 0x09, CHR 0x0D, CHR 0x0A])"

definition valid_record_id :: "string \<Rightarrow> bool" where
  "valid_record_id v \<longleftrightarrow> v = [] \<or> length v \<le> 128 \<and> \<not> unsafe_provision_text v"

definition default_text :: "string \<Rightarrow> string \<Rightarrow> string" where
  "default_text d v = (if v = [] then d else v)"

definition normalize_provision_create :: "provision_create_input \<Rightarrow> provision_create_input" where
  "normalize_provision_create inp =
     inp\<lparr>pc_name := trim_space (pc_name inp), pc_type := default_text txt_history_import (trim_space (pc_type inp)),
         pc_source := default_text txt_history_import (trim_space (pc_source inp)), pc_amount := trim_space (pc_amount inp),
         pc_sign_date := trim_space (pc_sign_date inp), pc_summary := trim_space (pc_summary inp), pc_pain := trim_space (pc_pain inp),
         pc_competitor := trim_space (pc_competitor inp), pc_owner := trim_space (pc_owner inp), pc_actor := trim_space (pc_actor inp),
         pc_record := trim_space (pc_record inp), pc_key := trim_space (pc_key inp),
         pc_reason := default_text txt_history_create (trim_space (pc_reason inp))\<rparr>"

definition validate_provision_create :: "provision_create_input \<Rightarrow> unit app_res" where
  "validate_provision_create inp =
     (if pc_key inp = [] then Inl ErrOppIdempotencyRequired
      else if 128 < length (pc_key inp) then Inl ErrOppIdempotencyKeyTooLong
      else if pc_customer inp = 0 \<or> \<not> valid_provision_identity (pc_actor inp) then Inl ErrOppProvisionInvalid
      else if 500 < rune_len (pc_reason inp) then Inl ErrOppProvisionInvalid
      else if \<not> valid_record_id (pc_record inp) then Inl ErrOppProvisionInvalid else Inr ())"

definition err_directory_unavailable :: app_error where
  "err_directory_unavailable = AppError 503 ''CRM_OWNER_DIRECTORY_UNAVAILABLE''"

text \<open>\<open>validateProvisionOwner\<close>: the owner's organisation, never that of a machine.\<close>

definition validate_provision_owner :: "opp_service \<Rightarrow> string \<Rightarrow> string app_res" where
  "validate_provision_owner s owner =
     (if \<not> valid_provision_identity owner \<or> has_prefix ''machine:'' (to_lower owner) then Inl ErrOppProvisionOwnerInvalid
      else case op_owners s of
        None \<Rightarrow> Inl ErrOppProvisionOwnerUnavailable
      | Some ow \<Rightarrow>
        (case ow_list ow \<lparr>q_user = owner, q_roles = [], q_page = 1, q_size = 1\<rparr> of
          Inl e \<Rightarrow> Inl (if e = err_directory_unavailable then ErrOppProvisionOwnerUnavailable else e)
        | Inr us \<Rightarrow>
          (let org = primary_organization us owner
           in case ow_validate ow owner org of
             Inl e \<Rightarrow> Inl (if e = err_directory_unavailable then ErrOppProvisionOwnerUnavailable
                          else AppDetails 422 ''CRM_IMPORT_PROVISION_OWNER_INVALID'' [owner, org])
           | Inr _ \<Rightarrow> Inr org)))"

definition provision_as_create :: "provision_create_input \<Rightarrow> string \<Rightarrow> opp_create_input" where
  "provision_as_create inp org =
     \<lparr>oc_name = pc_name inp, oc_customer = pc_customer inp, oc_type = pc_type inp, oc_source = pc_source inp, oc_type_ids = [],
      oc_source_ids = [], oc_amount = pc_amount inp, oc_sign_date = pc_sign_date inp, oc_summary = pc_summary inp,
      oc_systems = pc_systems inp, oc_pain = pc_pain inp, oc_competitor = pc_competitor inp, oc_owner = pc_owner inp,
      oc_org = org, oc_key = pc_key inp\<rparr>"

definition provision_create_hash :: "opp_service \<Rightarrow> opp_create_input \<Rightarrow> string \<Rightarrow> string \<Rightarrow> string" where
  "provision_create_hash s inp act record_id =
     op_sha s (create_request_hash s inp @ nul @ ''IMPORT_PROVISION'' @ nul @ act @ nul @ record_id)"

definition replay_provision_create ::
  "opp_service \<Rightarrow> principal \<Rightarrow> provision_create_input \<Rightarrow> string \<Rightarrow> string \<Rightarrow> create_idem \<Rightarrow> opp_db \<Rightarrow> opp_response app_res" where
  "replay_provision_create s p inp org hash c db =
     (if \<not> valid_create_replay p (pc_customer inp) (pc_key inp) hash c then Inl ErrOppIdempotencyConflict
      else case find_created_by_id (p_tenant p) (ce_opp c) db of
        Inl e \<Rightarrow> Inl e
      | Inr m \<Rightarrow>
        if o_customer m \<noteq> pc_customer inp \<or> created_by m \<noteq> pc_actor inp \<or> o_owner m \<noteq> pc_owner inp \<or> o_org m \<noteq> org
        then Inl ErrOppIdempotencyConflict
        else if stored_response_hash s (ce_response c) \<noteq> ce_response_hash c then Inl ErrOppIdempotencyConflict
        else if or_id (ce_response c) \<noteq> ce_opp c \<or> or_customer (ce_response c) \<noteq> pc_customer inp
        then Inl ErrOppIdempotencyConflict
        else Inr (ce_response c))"

definition provision_create_tx ::
  "opp_service \<Rightarrow> principal \<Rightarrow> provision_create_input \<Rightarrow> string \<Rightarrow> decimal \<Rightarrow> instant \<Rightarrow> string \<Rightarrow> opp_db \<Rightarrow>
     (opp_db \<times> opp_response) app_res" where
  "provision_create_tx s p inp org amount sign hash db =
     (if \<not> customer_visible p (pc_customer inp) db then Inl ErrOppCustomerForbidden
      else case find_create_idem (p_tenant p) (p_user p) (pc_key inp) db of
        Some prior \<Rightarrow>
          (case replay_provision_create s p inp org hash prior db of
            Inl e \<Rightarrow> Inl e
          | Inr r \<Rightarrow> Inr (db, r))
      | None \<Rightarrow>
        (case guard_owner_write s (p_tenant p) (pc_owner inp) of
          Inl e \<Rightarrow> Inl e
        | Inr _ \<Rightarrow>
          (case next_opp_number (p_tenant p) (op_now s) db of
            Inl e \<Rightarrow> Inl e
          | Inr (db1, no) \<Rightarrow>
            (case create_opp_row (op_now s)
                ((new_opportunity s (p_tenant p) (pc_actor inp) (provision_as_create inp org) amount sign)\<lparr>o_no := no\<rparr>) db1 of
              Inl e \<Rightarrow> Inl e
            | Inr (db2, m) \<Rightarrow>
              (let r = to_response m
               in case create_create_idem (new_create_idem s p (pc_key inp) (pc_customer inp) (row_id m) hash r) db2 of
                 Inl e \<Rightarrow> Inl e
               | Inr db3 \<Rightarrow>
                 Inr (audit_opp s p ''IMPORT_PROVISION_CREATE'' (row_id m) None
                   (Some (SnapProvision (pc_record inp) (pc_actor inp) r)) (pc_reason inp) db3, r))))))"

definition create_provision ::
  "opp_service \<Rightarrow> principal \<Rightarrow> provision_create_input \<Rightarrow> opp_db \<Rightarrow> (opp_db \<times> opp_response) app_res" where
  "create_provision s p0 inp0 db =
     (case require_principal p0 of
        Inl e \<Rightarrow> Inl e
      | Inr p \<Rightarrow>
        if \<not> principal_permits p provision_scope then Inl ErrAppForbidden
        else (let inp = normalize_provision_create inp0
          in case validate_provision_create inp of
            Inl e \<Rightarrow> Inl e
          | Inr _ \<Rightarrow>
            (case validate_provision_owner s (pc_owner inp) of
              Inl e \<Rightarrow> Inl e
            | Inr org \<Rightarrow>
              (case ensure_owner_not_frozen s (p_tenant p) (pc_owner inp) of
                Inl e \<Rightarrow> Inl e
              | Inr _ \<Rightarrow>
                (case validate_selection (pc_name inp) (pc_type inp) (pc_source inp) (pc_summary inp) [] [] of
                  Inl e \<Rightarrow> Inl e
                | Inr _ \<Rightarrow>
                  (case validate_master_data s (pc_amount inp) (pc_sign_date inp) of
                    Inl e \<Rightarrow> Inl e
                  | Inr (amount, sign) \<Rightarrow>
                    (let hash = provision_create_hash s (provision_as_create inp org) (pc_actor inp) (pc_record inp)
                     in case find_create_idem (p_tenant p) (p_user p) (pc_key inp) db of
                       Some prior \<Rightarrow>
                         (case replay_provision_create s p inp org hash prior db of
                           Inl e \<Rightarrow> Inl e
                         | Inr r \<Rightarrow> Inr (db, r))
                     | None \<Rightarrow> provision_create_tx s p inp org amount sign hash db)))))))"

text \<open>
  A creation that loses a race to the same key looks the winner up; transactions that run
  alone do not meet that case, since the transaction has read the ledger itself.
\<close>

section \<open>Signing\<close>

definition provision_sign_reason :: "string \<Rightarrow> string" where
  "provision_sign_reason v = default_text txt_history_sign (trim_space v)"

definition normalize_provision_sign :: "provision_sign_input \<Rightarrow> provision_sign_input" where
  "normalize_provision_sign inp =
     inp\<lparr>ps_contract := trim_space (ps_contract inp), ps_contract_id := trim_space (ps_contract_id inp),
         ps_reason := provision_sign_reason (ps_reason inp), ps_actor := trim_space (ps_actor inp),
         ps_record := trim_space (ps_record inp)\<rparr>"

definition validate_provision_sign :: "provision_sign_input \<Rightarrow> unit app_res" where
  "validate_provision_sign inp =
     (if ps_version inp = 0 \<or> \<not> valid_provision_identity (ps_actor inp) \<or>
         ps_contract inp = [] \<or> 64 < length (ps_contract inp) \<or> unsafe_provision_text (ps_contract inp) \<or>
         ps_contract_id inp \<noteq> [] \<and> (26 < length (ps_contract_id inp) \<or> unsafe_provision_text (ps_contract_id inp)) \<or>
         \<not> valid_record_id (ps_record inp) \<or> 500 < rune_len (ps_reason inp)
      then Inl ErrOppProvisionInvalid else Inr ())"

definition provision_stage_source_id :: "opp_service \<Rightarrow> string \<Rightarrow> string" where
  "provision_stage_source_id s contract = ''prov-'' @ take 40 (op_sha s (''IMPORT_PROVISION'' @ nul @ contract))"

definition already_signed_with :: "string \<Rightarrow> opportunity \<Rightarrow> bool" where
  "already_signed_with contract m \<longleftrightarrow>
     o_stage m = StageSigned \<and> o_status m = StatusClosed \<and> map_option trim_space (o_contract m) = Some contract"

definition sign_provision_of ::
  "opp_service \<Rightarrow> principal \<Rightarrow> nat \<Rightarrow> provision_sign_input \<Rightarrow> opportunity \<Rightarrow> opp_db \<Rightarrow> (opp_db \<times> opp_response \<times> bool) app_res" where
  "sign_provision_of s p i inp m db =
     (case op_contracts s of
        None \<Rightarrow> Inl ErrOppProvisionContractNotVerified
      | Some belongs \<Rightarrow>
        (case belongs (ps_contract inp) (o_customer m) of
          None \<Rightarrow> Inl ErrOppProvisionContractNotVerified
        | Some False \<Rightarrow> Inl ErrOppContractCustomerMismatch
        | Some True \<Rightarrow>
          (let m1 = apply_stage StageSigned (Some (ps_contract inp)) None PendingNone (op_now s) (ps_actor inp) m
           in case persist_stage s p m1 (to_response m) (ps_version inp)
               (new_stage_log s p (o_stage m) m1 ''IMPORT_PROVISION'' (provision_stage_source_id s (ps_contract inp))
                 (provision_sign_reason (ps_reason inp)) (ps_actor inp)) None db of
             Inr (db1, m2) \<Rightarrow>
               (let r = to_response m2
                in Inr (audit_opp s p ''IMPORT_PROVISION_SIGN'' (row_id m) None
                     (Some (SnapProvisionSign (ps_record inp) (ps_actor inp) r (ps_contract inp) (ps_contract_id inp)))
                     (provision_sign_reason (ps_reason inp)) db1, r, False))
           | Inl e \<Rightarrow>
               if e = ErrDuplicateIndex ''uk_stage_source''
               then (case find_opportunity p i db of
                 Inr current \<Rightarrow>
                   if already_signed_with (ps_contract inp) current then Inr (db, to_response current, True)
                   else Inl ErrOppIdempotencyConflict
               | Inl _ \<Rightarrow> Inl ErrOppIdempotencyConflict)
               else Inl e)))"

definition sign_provision ::
  "opp_service \<Rightarrow> principal \<Rightarrow> nat \<Rightarrow> provision_sign_input \<Rightarrow> opp_db \<Rightarrow> (opp_db \<times> opp_response \<times> bool) app_res" where
  "sign_provision s p0 i inp0 db =
     (case require_principal p0 of
        Inl e \<Rightarrow> Inl e
      | Inr p \<Rightarrow>
        if \<not> principal_permits p provision_scope then Inl ErrAppForbidden
        else if i = 0 then Inl ErrOppProvisionInvalid
        else (let inp = normalize_provision_sign inp0
          in case validate_provision_sign inp of
            Inl e \<Rightarrow> Inl e
          | Inr _ \<Rightarrow>
            (case find_opportunity p i db of
              Inl e \<Rightarrow> Inl e
            | Inr m \<Rightarrow>
              if already_signed_with (ps_contract inp) m then Inr (db, to_response m, True)
              else if version m \<noteq> ps_version inp then Inl ErrAppVersionConflict
              else (case validate_stage_change m StageSigned of
                Inl e \<Rightarrow> Inl e
              | Inr _ \<Rightarrow> sign_provision_of s p i inp m db))))"

end
