(* ===== verification/OpportunityAlerts.thy ===== *)
theory OpportunityAlerts
  imports OpportunityTeam
begin

text \<open>
  Alert rules and the reader's marks (\<open>stage_alert.go\<close>), and the queries of \<open>service.go\<close>:
  their validation, the board, and the counts of signed contracts shown with a list.
\<close>

section \<open>Alert rules\<close>

definition is_timed_stage :: "stage \<Rightarrow> bool" where
  "is_timed_stage st \<longleftrightarrow> st \<in> set open_stages"

definition require_alert_principal :: "principal \<Rightarrow> string \<Rightarrow> principal app_res" where
  "require_alert_principal p permission =
     (if p_user p = [] \<or> p_tenant p = [] then Inl ErrUnauthenticated
      else if \<not> principal_permits p permission then Inl ErrAppForbidden else Inr p)"

definition list_alert_rules :: "principal \<Rightarrow> opp_db \<Rightarrow> stage_alert_rule list app_res" where
  "list_alert_rules p0 db =
     (case require_alert_principal p0 ''opportunity.alert.config'' of
        Inl e \<Rightarrow> Inl e
      | Inr p \<Rightarrow> Inr (select_rows (\<lambda>r. tenant_id r = p_tenant p \<and> deleted_at r = None) (alert_rules db)))"

definition is_alert_rule :: "string \<Rightarrow> stage \<Rightarrow> stage_alert_rule \<Rightarrow> bool" where
  "is_alert_rule tenant st r \<longleftrightarrow> tenant_id r = tenant \<and> ar_stage r = st \<and> deleted_at r = None"

definition alert_rule_history :: "opp_service \<Rightarrow> principal \<Rightarrow> stage_alert_rule \<Rightarrow> opp_db \<Rightarrow> opp_db app_res" where
  "alert_rule_history s p r db =
     (if exists_row (\<lambda>x. tenant_id x = p_tenant p \<and> av_stage x = ar_stage r \<and> av_config x = ar_config r) (alert_rule_versions db)
      then Inl (ErrDuplicateIndex ''uq_opportunity_stage_alert_rule_version'')
      else Inr (db\<lparr>alert_rule_versions := snd (insert_row
             \<lparr>row_id = 0, tenant_id = p_tenant p, av_rule = row_id r, av_stage = ar_stage r, av_hours = ar_hours r,
              av_enabled = ar_enabled r, av_config = ar_config r, av_by = p_user p, av_request = op_trace s, av_at = op_now s\<rparr>
             (alert_rule_versions db))\<rparr>))"

definition update_alert_rule_tx ::
  "opp_service \<Rightarrow> principal \<Rightarrow> stage \<Rightarrow> nat \<Rightarrow> bool \<Rightarrow> nat \<Rightarrow> opp_db \<Rightarrow> (opp_db \<times> stage_alert_rule) app_res" where
  "update_alert_rule_tx s p st hours enabled v db =
     (case find_row (is_alert_rule (p_tenant p) st) (alert_rules db) of
        None \<Rightarrow>
          if v \<noteq> 1 then Inl ErrAppVersionConflict
          else if exists_row (\<lambda>x. tenant_id x = p_tenant p \<and> ar_stage x = st) (alert_rules db)
          then Inl (ErrDuplicateIndex ''uq_opportunity_stage_alert_rule'')
          else (let (r, t) = insert_row
                  \<lparr>row_id = 0, tenant_id = p_tenant p, created_by = p_user p, updated_by = p_user p, created_at = op_now s,
                   updated_at = op_now s, deleted_at = None, version = 1, ar_stage = st, ar_hours = hours, ar_enabled = enabled,
                   ar_config = 1\<rparr> (alert_rules db)
            in case alert_rule_history s p r (db\<lparr>alert_rules := t\<rparr>) of Inl e \<Rightarrow> Inl e | Inr db1 \<Rightarrow> Inr (db1, r))
      | Some current \<Rightarrow>
          if version current \<noteq> v then Inl ErrAppVersionConflict
          else (let f = (\<lambda>x. x\<lparr>ar_hours := hours, ar_enabled := enabled, ar_config := ar_config x + 1, version := version x + 1,
                           updated_by := p_user p, updated_at := op_now s\<rparr>)
            in case alert_rule_history s p (f current) (db\<lparr>alert_rules := update_rows
                 (\<lambda>x. tenant_id x = p_tenant p \<and> row_id x = row_id current \<and> version x = v \<and> deleted_at x = None) f
                 (alert_rules db)\<rparr>) of
              Inl e \<Rightarrow> Inl e
            | Inr db1 \<Rightarrow> Inr (db1, f current)))"

definition update_alert_rule ::
  "opp_service \<Rightarrow> principal \<Rightarrow> string \<Rightarrow> nat \<Rightarrow> bool \<Rightarrow> nat \<Rightarrow> opp_db \<Rightarrow> (opp_db \<times> stage_alert_rule) app_res" where
  "update_alert_rule s p0 stage0 hours enabled v db =
     (case require_alert_principal p0 ''opportunity.alert.config'' of
        Inl e \<Rightarrow> Inl e
      | Inr p \<Rightarrow>
        (case stage_of (trim_space stage0) of
          None \<Rightarrow> Inl ErrOppInvalidAlertRule
        | Some st \<Rightarrow>
          if \<not> is_timed_stage st \<or> hours = 0 \<or> 8760 < hours \<or> v = 0 then Inl ErrOppInvalidAlertRule
          else update_alert_rule_tx s p st hours enabled v db))"

text \<open>\<open>MarkRead\<close>: a second mark of the same alert is accepted.\<close>

definition mark_alert_read :: "opp_service \<Rightarrow> principal \<Rightarrow> nat \<Rightarrow> opp_db \<Rightarrow> opp_db app_res" where
  "mark_alert_read s p0 i db =
     (case require_alert_principal p0 ''opportunity.read'' of
        Inl e \<Rightarrow> Inl e
      | Inr p \<Rightarrow>
        (let mine = (\<lambda>x. tenant_id x = p_tenant p \<and> row_id x = i \<and> al_recipient x = p_user p \<and> deleted_at x = None);
             hit = (\<lambda>x. mine x \<and> al_status x = AlertUnread)
         in if exists_row hit (stage_alerts db)
            then Inr (db\<lparr>stage_alerts := update_rows hit
              (\<lambda>x. x\<lparr>al_status := AlertRead, al_read := Some (op_now s), updated_at := op_now s, updated_by := p_user p,
                     version := version x + 1\<rparr>) (stage_alerts db)\<rparr>)
            else (case find_row mine (stage_alerts db) of
              None \<Rightarrow> Inl ErrOppAlertNotFound
            | Some x \<Rightarrow> if al_status x = AlertRead then Inr db else Inl ErrOppAlertNotReadable)))"

section \<open>Queries\<close>

record opp_query =
  qy_keyword :: string
  qy_stage :: string
  qy_status :: string
  qy_owner :: string
  qy_page :: int
  qy_size :: int
  qy_sort :: string
  qy_order :: string

definition valid_pagination :: "int \<Rightarrow> int \<Rightarrow> bool" where
  "valid_pagination page page_size \<longleftrightarrow>
     1 \<le> page \<and> page \<le> 1000000 \<and> 1 \<le> page_size \<and> page_size \<le> 100"

definition validate_list_query :: "opp_service \<Rightarrow> opp_query \<Rightarrow> opp_query app_res" where
  "validate_list_query s q0 =
     (let q = q0\<lparr>qy_keyword := trim_space (qy_keyword q0), qy_stage := trim_space (qy_stage q0),
            qy_status := to_upper (trim_space (qy_status q0)), qy_owner := trim_space (qy_owner q0),
            qy_sort := to_lower (trim_space (qy_sort q0)), qy_order := to_lower (trim_space (qy_order q0))\<rparr>
      in if 200 < rune_len (qy_keyword q) \<or> 64 < length (qy_owner q) \<or> \<not> valid_pagination (qy_page q) (qy_size q)
         then Inl ErrOppInvalidQuery
         else if qy_stage q \<noteq> [] \<and> stage_of (qy_stage q) = None then Inl ErrOppInvalidQuery
         else if qy_status q \<notin> set [[], ''FOLLOWING'', ''CLOSED'', ''VOID''] \<or>
                 qy_sort q \<notin> set [[], ''created_at'', ''updated_at'', ''expected_amount'', ''expected_sign_date''] \<or>
                 qy_order q \<notin> set [[], ''asc'', ''desc''] then Inl ErrOppInvalidQuery
         else Inr q)"

definition validate_board_query :: "opp_query \<Rightarrow> opp_query app_res" where
  "validate_board_query q0 =
     (let q = q0\<lparr>qy_keyword := trim_space (qy_keyword q0), qy_owner := trim_space (qy_owner q0)\<rparr>
      in if 200 < rune_len (qy_keyword q) \<or> 64 < length (qy_owner q) \<or> qy_stage q \<noteq> [] \<or> qy_status q \<noteq> [] \<or>
            qy_page q \<noteq> 0 \<or> qy_size q \<noteq> 0 \<or> qy_sort q \<noteq> [] \<or> qy_order q \<noteq> [] then Inl ErrOppInvalidQuery else Inr q)"

definition group_board :: "opp_response list \<Rightarrow> (stage \<times> opp_response list) list" where
  "group_board items = map (\<lambda>st. (st, filter (\<lambda>r. or_stage r = st) items)) all_stages"

text \<open>
  \<open>enrichSignedContractCounts\<close>: \<open>count\<close> is the answer of the counter, \<open>None\<close> when the call
  failed. An answer that omits an opportunity is not used at all.
\<close>

definition signed_count_ids :: "opp_response list \<Rightarrow> nat list" where
  "signed_count_ids items =
     rev (fold (\<lambda>r acc. if or_id r = 0 \<or> or_id r \<in> set acc then acc else or_id r # acc) items [])"

definition enrich_signed_counts ::
  "(nat list \<Rightarrow> (nat \<Rightarrow> nat option) option) option \<Rightarrow> opp_response list \<Rightarrow> (opp_response \<times> nat option) list" where
  "enrich_signed_counts counter items =
     (case counter of
        None \<Rightarrow> map (\<lambda>r. (r, None)) items
      | Some count \<Rightarrow>
        (let ids = signed_count_ids items
         in if ids = [] then map (\<lambda>r. (r, None)) items
            else case count ids of
              None \<Rightarrow> map (\<lambda>r. (r, None)) items
            | Some counts \<Rightarrow>
                if list_ex (\<lambda>i. counts i = None) ids then map (\<lambda>r. (r, None)) items
                else map (\<lambda>r. (r, Some (case counts (or_id r) of None \<Rightarrow> 0 | Some n \<Rightarrow> n))) items))"

end
