(* ===== verification/OpportunityMachine.thy ===== *)
theory OpportunityMachine
  imports OpportunityProvision OpportunityAlerts
begin

text \<open>
  What the opportunity module promises, as an abstract machine: an opportunity is created in
  the initial stage, moves between open stages, ends signed or failed, may be voided and
  restored; a move leaves a log, a win its evidence or contract, a transfer one event. The
  state is the part of the database this speaks of. The invariant of the machine and what no
  step of it undoes are proved here; \<open>OpportunityRefinement\<close> shows that every command of the
  module is a step of it.
\<close>

section \<open>The state\<close>

record opp_view =
  vw_opps :: "opportunity table"
  vw_logs :: "stage_log list"
  vw_wins :: "win_confirmation list"
  vw_signed :: "(string \<times> string \<times> opp_payload) list" \<comment> \<open>tenant, aggregate, payload\<close>
  vw_team :: "member table \<times> member_term table"
  vw_merges :: "(string \<times> nat \<times> nat) set" \<comment> \<open>tenant, customer, the customer it was merged into\<close>

definition put_opp :: "opportunity \<Rightarrow> opportunity table \<Rightarrow> opportunity table" where
  "put_opp m t = update_rows (\<lambda>x. row_id x = row_id m) (\<lambda>_. m) t"

lemma put_opp_rows:
  assumes "table_wf t" "m \<in> set (rows t)" "row_id m' = row_id m"
  shows "x \<in> set (rows (put_opp m' t)) \<longleftrightarrow> x = m' \<or> x \<in> set (rows t) \<and> row_id x \<noteq> row_id m"
  using assms by (auto simp: put_opp_def set_rows_update)

lemma put_opp_wf: "table_wf t \<Longrightarrow> table_wf (put_opp m t)"
  by (auto simp: put_opp_def table_wf_def update_rows_def distinct_map inj_on_def split: if_splits)

section \<open>The life of an opportunity\<close>

datatype life = Running stage | Ended stage pending_type | Voided life

text \<open>The status apart from being void.\<close>

definition live_status :: "opportunity \<Rightarrow> opp_status" where
  "live_status x = (if o_status x = StatusVoid then restored_status x else o_status x)"

definition life_of :: "opportunity \<Rightarrow> life" where
  "life_of x =
     (let l = (if live_status x = StatusClosed then Ended (o_stage x) (o_pending x) else Running (o_stage x))
      in if o_status x = StatusVoid then Voided l else l)"

inductive life_step :: "life \<Rightarrow> life \<Rightarrow> bool" where
  stay: "life_step l l"
| advance: "b \<in> set open_stages \<Longrightarrow> life_step (Running a) (Running b)"
| close: "b \<notin> set open_stages \<Longrightarrow> life_step (Running a) (Ended b p)"
| complete: "life_step (Ended b p) (Ended b PendingNone)"
| void: "l = Running a \<or> l = Ended b p \<Longrightarrow> life_step l (Voided l)"
| restore: "life_step (Voided l) l"

inductive_cases life_step_EndedE: "life_step (Ended b p) l"
inductive_cases life_step_VoidedE: "life_step (Voided l) l'"

section \<open>Changes of one opportunity\<close>

text \<open>Edits that leave the stage alone; \<open>touch\<close> is the version a change of the team takes.\<close>

inductive opp_edit :: "opportunity \<Rightarrow> opportunity \<Rightarrow> bool" where
  master: "o_status m \<noteq> StatusVoid \<Longrightarrow>
    (o_status m = StatusClosed \<Longrightarrow> of_cents a = o_amount m \<and> d * day = o_sign_date m) \<Longrightarrow>
    opp_edit m (m\<lparr>o_name := n, o_type := ty, o_source := src, o_amount := of_cents a, o_sign_date := d * day, o_summary := sm,
      o_systems := sys, o_pain := pain, o_competitor := cm, updated_by := u, version := version m + 1, updated_at := t\<rparr>)"
| void: "o_status m \<noteq> StatusVoid \<Longrightarrow> o_contract m = None \<or> o_contract m = Some [] \<Longrightarrow>
    opp_edit m (m\<lparr>o_status := StatusVoid, o_end := Some e, o_before_void := Some (o_status m), updated_by := u,
      version := version m + 1, updated_at := t\<rparr>)"
| restore: "o_status m = StatusVoid \<Longrightarrow>
    opp_edit m (m\<lparr>o_status := restored_status m, o_end := None, o_before_void := None, updated_by := u,
      version := version m + 1, updated_at := t\<rparr>)"
| owner: "o_status m \<noteq> StatusVoid \<Longrightarrow>
    opp_edit m (m\<lparr>o_owner := w, o_org := g, updated_by := u, version := version m + 1, updated_at := t\<rparr>)"
| link: "o_sync m < k \<Longrightarrow> o_contract m = Some c \<Longrightarrow> trim_space c \<noteq> [] \<Longrightarrow> st \<noteq> LinkPending \<Longrightarrow>
    opp_edit m (m\<lparr>o_contract_id := ci, o_intake := Some it, o_link := st, o_linked_at := la, o_sync := k, o_link_event := Some ev,
      updated_by := u, version := version m + 1, updated_at := t\<rparr>)"
| touch: "o_status m \<noteq> StatusVoid \<Longrightarrow>
    opp_edit m (m\<lparr>updated_by := u, version := version m + 1, updated_at := t\<rparr>)"

text \<open>What backs a win: a contract, or else evidence recorded with it.\<close>

definition backed :: "string option \<Rightarrow> bool \<Rightarrow> bool" where
  "backed c w \<longleftrightarrow> (if w then c = None else \<not> blank c)"

inductive stage_move :: "opportunity \<Rightarrow> opportunity \<Rightarrow> bool \<Rightarrow> bool" where
  advance: "o_status m = StatusFollowing \<Longrightarrow> st \<in> set open_stages \<Longrightarrow>
    stage_move m (m\<lparr>o_stage := st, o_status := StatusFollowing, o_contract := None, o_lost := None, o_pending := PendingNone,
      o_stage_at := at, o_external_at := ea, updated_by := u, version := version m + 1, updated_at := t\<rparr>) False"
| sign: "o_status m = StatusFollowing \<Longrightarrow>
    p = PendingNone \<and> backed c w \<or> (p = PendingContract \<or> p = PendingWinEvidence) \<and> c = None \<and> \<not> w \<Longrightarrow>
    stage_move m (m\<lparr>o_stage := StageSigned, o_status := StatusClosed, o_contract := c, o_lost := None, o_pending := p,
      o_stage_at := at, o_external_at := ea, updated_by := u, version := version m + 1, updated_at := t\<rparr>) w"
| fail: "o_status m = StatusFollowing \<Longrightarrow> p = PendingNone \<and> l \<noteq> None \<or> p = PendingLostReason \<Longrightarrow>
    stage_move m (m\<lparr>o_stage := StageFailed, o_status := StatusClosed, o_contract := None, o_lost := l, o_pending := p,
      o_stage_at := at, o_external_at := ea, updated_by := u, version := version m + 1, updated_at := t\<rparr>) False"

inductive todo_move :: "opportunity \<Rightarrow> opportunity \<Rightarrow> bool \<Rightarrow> bool" where
  win: "o_status m \<noteq> StatusVoid \<Longrightarrow> o_stage m = StageSigned \<Longrightarrow> o_pending m = PendingContract \<or> o_pending m = PendingWinEvidence \<Longrightarrow>
    backed c w \<Longrightarrow>
    todo_move m (m\<lparr>o_contract := c, o_lost := o_lost m, o_pending := PendingNone, updated_by := u, version := version m + 1,
      updated_at := t\<rparr>) w"
| loss: "o_status m \<noteq> StatusVoid \<Longrightarrow> o_stage m = StageFailed \<Longrightarrow> o_pending m = PendingLostReason \<Longrightarrow> l \<noteq> None \<Longrightarrow>
    todo_move m (m\<lparr>o_contract := o_contract m, o_lost := l, o_pending := PendingNone, updated_by := u, version := version m + 1,
      updated_at := t\<rparr>) False"

section \<open>The machine\<close>

text \<open>A created row, the log of a move, the evidence of a win.\<close>

definition newborn :: "opportunity \<Rightarrow> bool" where
  "newborn x \<longleftrightarrow>
     o_stage x = StageInitial \<and> o_status x = StatusFollowing \<and> o_contract x = None \<and> o_lost x = None \<and>
     o_pending x = PendingNone \<and> o_end x = None \<and> o_before_void x = None \<and> deleted_at x = None \<and> version x = 1 \<and>
     o_sync x = 0 \<and> o_link x = LinkPending \<and> o_contract_id x = None \<and> o_intake x = None \<and>
     (\<exists>a. o_amount x = of_cents a) \<and> day dvd o_sign_date x"

definition log_of :: "opportunity \<Rightarrow> opportunity \<Rightarrow> stage_log \<Rightarrow> bool" where
  "log_of m m' l \<longleftrightarrow> tenant_id l = tenant_id m \<and> sg_opp l = row_id m \<and> sg_from l = o_stage m \<and> sg_to l = o_stage m' \<and>
     sg_contract l = o_contract m' \<and> sg_lost l = o_lost m' \<and> sg_pending l = o_pending m'"

definition win_of :: "opportunity \<Rightarrow> win_confirmation \<Rightarrow> bool" where
  "win_of x w \<longleftrightarrow> tenant_id w = tenant_id x \<and> wc_opp w = row_id x"

definition adds_wins :: "opportunity \<Rightarrow> win_confirmation list \<Rightarrow> win_confirmation list \<Rightarrow> bool" where
  "adds_wins m' ws new \<longleftrightarrow>
     new = [] \<or> (\<exists>w. new = [w] \<and> win_of m' w \<and> wc_customer w = o_customer m' \<and> wc_version w = version m' \<and> \<not> list_ex (win_of m') ws)"

definition signed_of :: "opportunity \<Rightarrow> string \<times> string \<times> opp_payload \<Rightarrow> bool" where
  "signed_of x e \<longleftrightarrow> fst e = tenant_id x \<and> fst (snd e) = show_nat (row_id x)"

definition signed_entry :: "opportunity \<Rightarrow> instant \<Rightarrow> string \<times> string \<times> opp_payload" where
  "signed_entry m at =
     (tenant_id m, show_nat (row_id m), ContractSigned (row_id m) (o_no m) (o_customer m)
       (case o_contract m of None \<Rightarrow> [] | Some c \<Rightarrow> trim_space c) (string_fixed2 (o_amount m)) (version m) at)"

definition relabels :: "(opportunity \<Rightarrow> opportunity) \<Rightarrow> bool" where
  "relabels g \<longleftrightarrow> (\<forall>x. \<exists>ty src. g x = x\<lparr>o_type := ty, o_source := src\<rparr>)"

inductive opp_effect :: "opp_view \<Rightarrow> opp_view \<Rightarrow> bool" where
  quiet: "opp_effect v v"
| born: "newborn x \<Longrightarrow> \<forall>y \<in> set (rows (vw_opps v)). tenant_id y = tenant_id x \<longrightarrow> o_no y \<noteq> o_no x \<Longrightarrow>
    opp_effect v (v\<lparr>vw_opps := snd (insert_row x (vw_opps v))\<rparr>)"
| labels: "relabels g \<Longrightarrow> opp_effect v (v\<lparr>vw_opps := (vw_opps v)\<lparr>rows := map g (rows (vw_opps v))\<rparr>\<rparr>)"
| edit: "m \<in> set (rows (vw_opps v)) \<Longrightarrow> opp_edit m m' \<Longrightarrow> opp_effect v (v\<lparr>vw_opps := put_opp m' (vw_opps v)\<rparr>)"
| stage: "m \<in> set (rows (vw_opps v)) \<Longrightarrow> stage_move m m' (ws \<noteq> []) \<Longrightarrow> log_of m m' l \<Longrightarrow> adds_wins m' (vw_wins v) ws \<Longrightarrow>
    opp_effect v (v\<lparr>vw_opps := put_opp m' (vw_opps v), vw_logs := vw_logs v @ [l], vw_wins := vw_wins v @ ws\<rparr>)"
| todo: "m \<in> set (rows (vw_opps v)) \<Longrightarrow> todo_move m m' (ws \<noteq> []) \<Longrightarrow> adds_wins m' (vw_wins v) ws \<Longrightarrow>
    opp_effect v (v\<lparr>vw_opps := put_opp m' (vw_opps v), vw_wins := vw_wins v @ ws\<rparr>)"
| transfer: "m \<in> set (rows (vw_opps v)) \<Longrightarrow> transfer_ready m \<Longrightarrow> \<not> list_ex (signed_of m) (vw_signed v) \<Longrightarrow>
    opp_effect v (v\<lparr>vw_signed := vw_signed v @ [signed_entry m at]\<rparr>)"
| team: "m \<in> set (rows (vw_opps v)) \<Longrightarrow> o_status m \<noteq> StatusVoid \<Longrightarrow>
    opp_effect v (v\<lparr>vw_opps := put_opp (m\<lparr>updated_by := u, version := version m + 1, updated_at := t\<rparr>) (vw_opps v), vw_team := team\<rparr>)"

text \<open>
  What other modules do to the same rows: the handover gives an opportunity to another owner,
  whatever its status, and changes the team without its opportunity; merging two customers
  moves the opportunities of the first, none of which has a contract, to the second.
\<close>

definition merged_row :: "string \<Rightarrow> nat \<Rightarrow> nat \<Rightarrow> string \<Rightarrow> instant \<Rightarrow> opportunity \<Rightarrow> opportunity" where
  "merged_row tn a b u t x =
     (if tenant_id x = tn \<and> o_customer x = a then x\<lparr>o_customer := b, updated_by := u, version := version x + 1, updated_at := t\<rparr> else x)"

inductive outside_effect :: "opp_view \<Rightarrow> opp_view \<Rightarrow> bool" where
  unseen: "outside_effect v v"
| handed: "m \<in> set (rows (vw_opps v)) \<Longrightarrow>
    outside_effect v (v\<lparr>vw_opps := put_opp (m\<lparr>o_owner := w, o_org := g, updated_by := u, version := version m + 1, updated_at := t\<rparr>) (vw_opps v)\<rparr>)"
| crew: "outside_effect v (v\<lparr>vw_team := team\<rparr>)"
| merged: "\<forall>x \<in> set (rows (vw_opps v)). tenant_id x = tn \<and> o_customer x = a \<longrightarrow> o_contract x = None \<Longrightarrow>
    outside_effect v (v\<lparr>vw_opps := (vw_opps v)\<lparr>rows := map (merged_row tn a b u t) (rows (vw_opps v))\<rparr>,
      vw_merges := insert (tn, a, b) (vw_merges v)\<rparr>)"

definition opp_move :: "opp_view \<Rightarrow> opp_view \<Rightarrow> bool" where
  "opp_move v v' \<longleftrightarrow> opp_effect v v' \<or> outside_effect v v'"

text \<open>A customer, and the one it has become by merges.\<close>

definition moved :: "(string \<times> nat \<times> nat) set \<Rightarrow> string \<Rightarrow> nat \<Rightarrow> nat \<Rightarrow> bool" where
  "moved M tn = (\<lambda>a b. (tn, a, b) \<in> M)\<^sup>*\<^sup>*"

lemma moved_refl [simp]: "moved M tn a a"
  by (simp add: moved_def)

lemma moved_trans: "moved M tn a b \<Longrightarrow> moved M tn b c \<Longrightarrow> moved M tn a c"
  unfolding moved_def by (rule rtranclp_trans)

lemma moved_mono: "M \<subseteq> M' \<Longrightarrow> moved M tn a b \<Longrightarrow> moved M' tn a b"
  unfolding moved_def by (rule rtranclp_mono [THEN predicate2D, rotated]) auto

lemma moved_once: "moved (insert (tn, a, b) M) tn a b"
  unfolding moved_def by (rule r_into_rtranclp) simp

section \<open>The invariant\<close>

definition opp_wf :: "opportunity \<Rightarrow> bool" where
  "opp_wf x \<longleftrightarrow>
     deleted_at x = None \<and> (\<exists>a. o_amount x = of_cents a) \<and> day dvd o_sign_date x \<and>
     (o_status x = StatusVoid \<longleftrightarrow> o_before_void x \<noteq> None) \<and> o_before_void x \<noteq> Some StatusVoid \<and>
     (o_status x = StatusVoid \<longleftrightarrow> o_end x \<noteq> None) \<and> (o_status x = StatusVoid \<longrightarrow> o_contract x = None) \<and>
     (live_status x = StatusFollowing \<longrightarrow>
        o_stage x \<in> set open_stages \<and> o_contract x = None \<and> o_lost x = None \<and> o_pending x = PendingNone) \<and>
     (live_status x = StatusClosed \<longrightarrow>
        o_stage x = StageSigned \<and> o_lost x = None \<and>
          (o_pending x = PendingNone \<and> (o_contract x = None \<or> \<not> blank (o_contract x)) \<or> (o_pending x = PendingContract \<or> o_pending x = PendingWinEvidence) \<and> o_contract x = None) \<or>
        o_stage x = StageFailed \<and> o_contract x = None \<and> (o_pending x = PendingNone \<and> o_lost x \<noteq> None \<or> o_pending x = PendingLostReason)) \<and>
     (o_link x \<noteq> LinkPending \<longrightarrow> o_stage x = StageSigned \<and> o_pending x = PendingNone \<and> o_contract x \<noteq> None) \<and>
     (o_intake x \<noteq> None \<longleftrightarrow> o_link x \<noteq> LinkPending) \<and> (o_contract_id x \<noteq> None \<longrightarrow> o_intake x \<noteq> None)"

lemma live_status_same:
  "o_status x = o_status y \<Longrightarrow> o_before_void x = o_before_void y \<Longrightarrow> live_status x = live_status y"
  by (simp add: live_status_def restored_status_def)

lemma live_status_not_void: "live_status x \<noteq> StatusVoid"
  by (auto simp: live_status_def restored_status_def split: option.splits)

lemma live_status_cases:
  obtains "live_status x = StatusFollowing" | "live_status x = StatusClosed"
  using live_status_not_void [of x] by (cases "live_status x") simp_all

lemma newborn_wf: "newborn x \<Longrightarrow> opp_wf (x\<lparr>row_id := i\<rparr>)"
  by (auto simp: newborn_def opp_wf_def live_status_def open_stages_def)

lemma opp_wf_cong:
  assumes "deleted_at x = deleted_at y" "o_amount x = o_amount y" "o_sign_date x = o_sign_date y" "o_status x = o_status y"
    "o_before_void x = o_before_void y" "o_end x = o_end y" "o_contract x = o_contract y" "o_stage x = o_stage y"
    "o_lost x = o_lost y" "o_pending x = o_pending y" "o_link x = o_link y" "o_intake x = o_intake y"
    "o_contract_id x = o_contract_id y"
  shows "opp_wf x \<longleftrightarrow> opp_wf y"
  unfolding opp_wf_def live_status_same [OF assms(4,5)] assms by (rule refl)

lemma opp_wf_relabel: "opp_wf x \<Longrightarrow> opp_wf (x\<lparr>o_type := ty, o_source := src\<rparr>)"
  by (subst opp_wf_cong [where y = x]) simp_all

lemma opp_wf_edit: "opp_edit m m' \<Longrightarrow> opp_wf m \<Longrightarrow> opp_wf m'"
proof (induction rule: opp_edit.induct)
  case (master m a d n ty src sm sys pain cm u t)
  then show ?case by (simp add: opp_wf_def live_status_def restored_status_def) blast
next
  case (void m e u t)
  then show ?case by (cases "o_status m") (auto simp: opp_wf_def live_status_def restored_status_def blank_def)
next
  case (restore m u t)
  then show ?case by (auto simp: opp_wf_def live_status_def restored_status_def split: if_splits option.splits)
next
  case (owner m w g u t)
  then show ?case by (subst opp_wf_cong [where y = m]) simp_all
next
  case (link m k c st ci it la ev u t)
  then have "o_status m = StatusClosed \<and> o_stage m = StageSigned \<and> o_pending m = PendingNone"
    by (cases "o_status m") (auto simp: opp_wf_def live_status_def)
  with link show ?case by (auto simp: opp_wf_def live_status_def)
next
  case (touch m u t)
  then show ?case by (subst opp_wf_cong [where y = m]) simp_all
qed

lemma opp_wf_stage: "stage_move m m' w \<Longrightarrow> opp_wf m \<Longrightarrow> opp_wf m'"
  by (induction rule: stage_move.induct)
     (auto simp: opp_wf_def live_status_def open_stages_def backed_def split: if_splits)

lemma opp_wf_todo: "todo_move m m' w \<Longrightarrow> opp_wf m \<Longrightarrow> opp_wf m'"
  by (induction rule: todo_move.induct; cases "o_status m")
     (auto simp: opp_wf_def live_status_def open_stages_def backed_def split: if_splits)

section \<open>What no step undoes\<close>

text \<open>
  \<open>opp_later M x x'\<close>: the same opportunity later. Its identity is kept, its customer changes
  along the merges \<open>M\<close> only, its counters do not decrease, its life has moved on by steps of a
  life; once it is closed its stage, amount and date stay, and once nothing is pending its
  contract and reason stay, too, and with a contract its customer.
\<close>

definition opp_later :: "(string \<times> nat \<times> nat) set \<Rightarrow> opportunity \<Rightarrow> opportunity \<Rightarrow> bool" where
  "opp_later M x x' \<longleftrightarrow>
     row_id x' = row_id x \<and> tenant_id x' = tenant_id x \<and> o_no x' = o_no x \<and>
     moved M (tenant_id x) (o_customer x) (o_customer x') \<and>
     created_by x' = created_by x \<and> version x \<le> version x' \<and> o_sync x \<le> o_sync x' \<and> life_step\<^sup>*\<^sup>* (life_of x) (life_of x') \<and>
     (live_status x = StatusClosed \<longrightarrow> live_status x' = StatusClosed \<and> o_stage x' = o_stage x \<and> o_amount x' = o_amount x \<and>
        o_sign_date x' = o_sign_date x \<and>
        (o_pending x = PendingNone \<longrightarrow> o_pending x' = PendingNone \<and> o_contract x' = o_contract x \<and> o_lost x' = o_lost x \<and>
           (o_contract x \<noteq> None \<longrightarrow> o_customer x' = o_customer x)))"

lemma opp_later_refl [simp]: "opp_later M x x"
  by (simp add: opp_later_def)

lemma opp_later_mono: "M \<subseteq> M' \<Longrightarrow> opp_later M x y \<Longrightarrow> opp_later M' x y"
  unfolding opp_later_def by (auto intro: moved_mono)

lemma opp_later_trans: "opp_later M x y \<Longrightarrow> opp_later M y z \<Longrightarrow> opp_later M x z"
  unfolding opp_later_def by (auto dest: le_trans rtranclp_trans intro: moved_trans)

lemma life_of_same:
  "o_status x = o_status y \<Longrightarrow> o_before_void x = o_before_void y \<Longrightarrow> o_stage x = o_stage y \<Longrightarrow> o_pending x = o_pending y \<Longrightarrow>
     life_of x = life_of y"
  unfolding life_of_def by (simp only: live_status_same [of x y])

lemma opp_laterI:
  assumes "row_id m' = row_id m" "tenant_id m' = tenant_id m" "o_no m' = o_no m" "o_customer m' = o_customer m"
    "created_by m' = created_by m" "version m \<le> version m'" "o_sync m \<le> o_sync m'" "life_step (life_of m) (life_of m')"
    "live_status m = StatusClosed \<Longrightarrow> live_status m' = StatusClosed \<and> o_stage m' = o_stage m \<and> o_amount m' = o_amount m \<and>
       o_sign_date m' = o_sign_date m \<and>
       (o_pending m = PendingNone \<longrightarrow> o_pending m' = PendingNone \<and> o_contract m' = o_contract m \<and> o_lost m' = o_lost m)"
  shows "opp_later M m m'"
  using assms unfolding opp_later_def by simp

lemma opp_later_same_life:
  assumes "row_id m' = row_id m" "tenant_id m' = tenant_id m" "o_no m' = o_no m" "o_customer m' = o_customer m"
    "created_by m' = created_by m" "version m \<le> version m'" "o_sync m \<le> o_sync m'"
    "o_status m' = o_status m" "o_before_void m' = o_before_void m" "o_stage m' = o_stage m" "o_pending m' = o_pending m"
    "o_contract m' = o_contract m" "o_lost m' = o_lost m"
    "live_status m = StatusClosed \<Longrightarrow> o_amount m' = o_amount m \<and> o_sign_date m' = o_sign_date m"
  shows "opp_later M m m'"
  using assms life_of_same [of m' m] live_status_same [of m' m] by (intro opp_laterI) (simp_all add: life_step.stay)

lemma opp_later_relabel: "opp_later M x (x\<lparr>o_type := ty, o_source := src\<rparr>)"
  by (intro opp_later_same_life) simp_all

lemma opp_later_edit: "opp_edit m m' \<Longrightarrow> opp_wf m \<Longrightarrow> opp_later M m m'"
proof (induction rule: opp_edit.induct)
  case (master m a d t u cm pain sys sm src ty n)
  from master(1) have "live_status m = o_status m" by (simp add: live_status_def)
  with master(2) show ?case by (intro opp_later_same_life) simp_all
next
  case (void m t u e)
  let ?m' = "m\<lparr>o_status := StatusVoid, o_end := Some e, o_before_void := Some (o_status m), updated_by := u,
      version := version m + 1, updated_at := t\<rparr>"
  from void have live: "live_status ?m' = live_status m"
    by (cases "o_status m") (simp_all add: live_status_def restored_status_def)
  then have "life_of ?m' = Voided (life_of m)" using void by (simp add: life_of_def)
  then have "life_step (life_of m) (life_of ?m')"
    using void(1) by (simp add: life_of_def) (blast intro: life_step.void)
  with live show ?case by (intro opp_laterI) simp_all
next
  case (restore m t u)
  let ?m' = "m\<lparr>o_status := restored_status m, o_end := None, o_before_void := None, updated_by := u,
      version := version m + 1, updated_at := t\<rparr>"
  have nv: "restored_status m \<noteq> StatusVoid" using live_status_not_void [of m] restore by (simp add: live_status_def)
  with restore have live: "live_status ?m' = live_status m" by (simp add: live_status_def)
  with restore nv have "life_of m = Voided (life_of ?m')" by (simp add: life_of_def)
  then have "life_step (life_of m) (life_of ?m')" by (simp add: life_step.restore)
  with live show ?case by (intro opp_laterI) simp_all
qed (intro opp_later_same_life; simp)+

text \<open>An opportunity that follows has no evidence, contract or reason that a move could lose.\<close>

lemma following_life: "o_status m = StatusFollowing \<Longrightarrow> life_of m = Running (o_stage m) \<and> live_status m = StatusFollowing"
  by (simp add: life_of_def live_status_def)

lemma closed_life: "o_status m = StatusClosed \<Longrightarrow> life_of m = Ended (o_stage m) (o_pending m) \<and> live_status m = StatusClosed"
  by (simp add: life_of_def live_status_def)

lemma opp_later_stage: "stage_move m m' w \<Longrightarrow> opp_wf m \<Longrightarrow> opp_later M m m'"
  by (induction rule: stage_move.induct; rule opp_laterI)
     (simp_all add: following_life closed_life life_step.advance life_step.close open_stages_def)

lemma wf_pending: "opp_wf m \<Longrightarrow> o_pending m \<noteq> PendingNone \<Longrightarrow> o_status m \<noteq> StatusVoid \<Longrightarrow> o_status m = StatusClosed"
  by (cases "o_status m") (simp_all add: opp_wf_def live_status_def)

lemma todo_closed: "todo_move m m' w \<Longrightarrow> opp_wf m \<Longrightarrow> o_status m = StatusClosed"
  by (cases rule: todo_move.cases) (auto intro: wf_pending)

lemma opp_later_todo: "todo_move m m' w \<Longrightarrow> opp_wf m \<Longrightarrow> opp_later M m m'"
proof (induction rule: todo_move.induct)
  case (win m c w t u)
  then have "o_status m = StatusClosed" by (auto intro: wf_pending)
  with win show ?case by (intro opp_laterI) (auto simp: closed_life life_step.complete)
next
  case (loss m l t u)
  then have "o_status m = StatusClosed" by (auto intro: wf_pending)
  with loss show ?case by (intro opp_laterI) (auto simp: closed_life life_step.complete)
qed

section \<open>Steps keep what they should\<close>

lemma edit_same:
  "opp_edit m m' \<Longrightarrow> row_id m' = row_id m \<and> tenant_id m' = tenant_id m \<and> o_no m' = o_no m \<and> o_customer m' = o_customer m \<and>
     o_stage m' = o_stage m \<and> o_pending m' = o_pending m \<and> o_contract m' = o_contract m"
  by (induction rule: opp_edit.induct) simp_all

lemma stage_same:
  "stage_move m m' w \<Longrightarrow> row_id m' = row_id m \<and> tenant_id m' = tenant_id m \<and> o_no m' = o_no m \<and> o_customer m' = o_customer m \<and>
     o_status m = StatusFollowing"
  by (induction rule: stage_move.induct) simp_all

lemma todo_same:
  "todo_move m m' w \<Longrightarrow> row_id m' = row_id m \<and> tenant_id m' = tenant_id m \<and> o_no m' = o_no m \<and> o_customer m' = o_customer m \<and>
     o_stage m' = o_stage m \<and> o_pending m \<noteq> PendingNone"
  by (induction rule: todo_move.induct) auto

lemma touch_edit:
  "o_status m \<noteq> StatusVoid \<Longrightarrow> opp_edit m (m\<lparr>updated_by := u, version := version m + 1, updated_at := t\<rparr>)"
  by (rule opp_edit.touch)

text \<open>The rows before and after a step.\<close>

definition rows_of :: "opp_view \<Rightarrow> opportunity set" where
  "rows_of v = set (rows (vw_opps v))"

definition opps_ok :: "opp_view \<Rightarrow> bool" where
  "opps_ok v \<longleftrightarrow> table_wf (vw_opps v) \<and> (\<forall>x \<in> rows_of v. opp_wf x) \<and>
     (\<forall>x \<in> rows_of v. \<forall>y \<in> rows_of v. tenant_id x = tenant_id y \<and> o_no x = o_no y \<longrightarrow> x = y)"

lemma opps_ok_wf: "opps_ok v \<Longrightarrow> table_wf (vw_opps v)" "opps_ok v \<Longrightarrow> x \<in> rows_of v \<Longrightarrow> opp_wf x"
  by (simp_all add: opps_ok_def)

lemma same_row: "opps_ok v \<Longrightarrow> x \<in> rows_of v \<Longrightarrow> y \<in> rows_of v \<Longrightarrow> row_id x = row_id y \<Longrightarrow> x = y"
  by (auto simp: opps_ok_def rows_of_def dest: table_wf_same_id)

text \<open>A step either creates a row, or changes rows one by one, or replaces one row, by later ones.\<close>

inductive rows_step :: "(string \<times> nat \<times> nat) set \<Rightarrow> opportunity table \<Rightarrow> opportunity table \<Rightarrow> bool" for M where
  same: "rows_step M t t"
| born: "newborn x \<Longrightarrow> \<forall>y \<in> set (rows t). tenant_id y = tenant_id x \<longrightarrow> o_no y \<noteq> o_no x \<Longrightarrow> rows_step M t (snd (insert_row x t))"
| each: "\<forall>x \<in> set (rows t). opp_later M x (g x) \<and> (opp_wf x \<longrightarrow> opp_wf (g x)) \<Longrightarrow> rows_step M t (t\<lparr>rows := map g (rows t)\<rparr>)"
| put: "m \<in> set (rows t) \<Longrightarrow> opp_later M m m' \<Longrightarrow> opp_wf m' \<Longrightarrow> rows_step M t (put_opp m' t)"

lemma relabels_same:
  assumes "relabels g"
  obtains ty src where "g x = x\<lparr>o_type := ty, o_source := src\<rparr>"
  using assms unfolding relabels_def by blast

lemma relabel_row_id [simp]: "relabels g \<Longrightarrow> row_id (g x) = row_id x"
  by (rule relabels_same [of g x]) simp_all

lemma relabel_later: "relabels g \<Longrightarrow> opp_later M x (g x)"
  by (rule relabels_same [of g x]) (simp_all add: opp_later_relabel)

lemma relabel_wf: "relabels g \<Longrightarrow> opp_wf x \<Longrightarrow> opp_wf (g x)"
  by (rule relabels_same [of g x]) (simp_all add: opp_wf_relabel)

lemma effect_rows:
  assumes "opp_effect v v'" "opps_ok v"
  shows "rows_step (vw_merges v') (vw_opps v) (vw_opps v')"
proof -
  have wf: "opp_wf x" if "x \<in> set (rows (vw_opps v))" for x
    using assms(2) that by (simp add: opps_ok_def rows_of_def)
  have put: "rows_step M (vw_opps v) (put_opp m' (vw_opps v))" if "m \<in> set (rows (vw_opps v))" "opp_edit m m'" for m m' M
    by (rule rows_step.put [OF that(1) opp_later_edit [OF that(2) wf [OF that(1)]] opp_wf_edit [OF that(2) wf [OF that(1)]]])
  from assms(1) show ?thesis
  proof (cases rule: opp_effect.cases)
    case quiet
    then show ?thesis by (simp add: rows_step.same)
  next
    case (born x)
    then show ?thesis by (simp add: rows_step.born)
  next
    case (labels g)
    then show ?thesis by (simp add: rows_step.each relabel_later relabel_wf)
  next
    case (edit m m')
    then show ?thesis by (simp add: put)
  next
    case (stage m m' ws l)
    then have "rows_step (vw_merges v') (vw_opps v) (put_opp m' (vw_opps v))"
      by (blast intro: rows_step.put opp_later_stage opp_wf_stage wf)
    then show ?thesis using stage(1) by simp
  next
    case (todo m m' ws)
    then have "rows_step (vw_merges v') (vw_opps v) (put_opp m' (vw_opps v))"
      by (blast intro: rows_step.put opp_later_todo opp_wf_todo wf)
    then show ?thesis using todo(1) by simp
  next
    case (team m u t T)
    show ?thesis using put [OF team(2) touch_edit [OF team(3)]] team(1) by simp
  next
    case (transfer m at)
    then show ?thesis by (simp add: rows_step.same)
  qed
qed

lemma effect_merges: "opp_effect v v' \<Longrightarrow> vw_merges v' = vw_merges v"
  by (induction rule: opp_effect.induct) simp_all

text \<open>What is done from outside.\<close>

lemma merged_row_wf: "opp_wf x \<Longrightarrow> opp_wf (merged_row tn a b u t x)"
  unfolding merged_row_def by (subst opp_wf_cong [where y = x]) (simp_all split: if_splits)

lemma merged_row_same [simp]:
  "row_id (merged_row tn a b u t x) = row_id x" "tenant_id (merged_row tn a b u t x) = tenant_id x"
  "o_stage (merged_row tn a b u t x) = o_stage x" "o_contract (merged_row tn a b u t x) = o_contract x"
  by (simp_all add: merged_row_def)

lemma merged_row_later:
  assumes "tenant_id x = tn \<and> o_customer x = a \<longrightarrow> o_contract x = None"
  shows "opp_later (insert (tn, a, b) M) x (merged_row tn a b u t x)"
proof (cases "tenant_id x = tn \<and> o_customer x = a")
  case True
  let ?y = "x\<lparr>o_customer := b, updated_by := u, version := version x + 1, updated_at := t\<rparr>"
  have "life_of ?y = life_of x" "live_status ?y = live_status x" by (intro life_of_same live_status_same; simp)+
  with True assms moved_once [of tn a b M] show ?thesis by (simp add: merged_row_def opp_later_def)
qed (auto simp: merged_row_def)

lemma handed_wf: "opp_wf m \<Longrightarrow> opp_wf (m\<lparr>o_owner := w, o_org := g, updated_by := u, version := version m + 1, updated_at := t\<rparr>)"
  by (subst opp_wf_cong [where y = m]) simp_all

lemma handed_later: "opp_later M m (m\<lparr>o_owner := w, o_org := g, updated_by := u, version := version m + 1, updated_at := t\<rparr>)"
  by (intro opp_later_same_life) simp_all

lemma outside_rows:
  assumes "outside_effect v v'" "opps_ok v"
  shows "rows_step (vw_merges v') (vw_opps v) (vw_opps v')"
  using assms(1)
proof (cases rule: outside_effect.cases)
  case (handed m t u g w)
  have "opp_wf m" using handed(2) assms(2) by (simp add: opps_ok_def rows_of_def)
  from rows_step.put [OF handed(2) handed_later handed_wf [OF this]] show ?thesis using handed(1) by simp
next
  case (merged tn a b u t)
  then show ?thesis by (auto intro!: rows_step.each merged_row_later merged_row_wf)
qed (simp_all add: rows_step.same)

lemma move_rows: "opp_move v v' \<Longrightarrow> opps_ok v \<Longrightarrow> rows_step (vw_merges v') (vw_opps v) (vw_opps v')"
  unfolding opp_move_def using effect_rows outside_rows by blast

lemma move_merges: "opp_move v v' \<Longrightarrow> vw_merges v \<subseteq> vw_merges v'"
  unfolding opp_move_def by (auto simp: effect_merges elim: outside_effect.cases)

lemma opp_later_ids: "opp_later M x x' \<Longrightarrow> row_id x' = row_id x \<and> tenant_id x' = tenant_id x \<and> o_no x' = o_no x"
  by (simp add: opp_later_def)

lemma table_wf_each:
  assumes "\<forall>x \<in> set (rows t). opp_later M x (g x)" "table_wf t"
  shows "table_wf (t\<lparr>rows := map g (rows t)\<rparr>)"
proof -
  have ids: "\<forall>x \<in> set (rows t). row_id (g x) = row_id x" using assms(1) by (auto dest: opp_later_ids)
  then have "map row_id (map g (rows t)) = map row_id (rows t)" by simp
  with ids assms(2) show ?thesis by (auto simp: table_wf_def simp del: map_map)
qed

lemma rows_step_wf: "rows_step M t t' \<Longrightarrow> table_wf t \<Longrightarrow> table_wf t'"
  by (induction rule: rows_step.induct) (simp_all add: table_wf_each [where M = M] put_opp_wf)

lemma rows_step_later:
  assumes "rows_step M t t'" "table_wf t" "x \<in> set (rows t)"
  shows "\<exists>x' \<in> set (rows t'). opp_later M x x'"
  using assms
proof (cases rule: rows_step.cases)
  case (each g)
  with assms(3) show ?thesis by auto
next
  case (put m m')
  have ids: "row_id m' = row_id m" using put(3) by (simp add: opp_later_ids)
  show ?thesis
  proof (cases "row_id x = row_id m")
    case True
    then have "x = m" using assms(2,3) put(2) by (metis table_wf_same_id)
    then show ?thesis using put put_opp_rows [OF assms(2) put(2) ids] by blast
  next
    case False
    then show ?thesis using put(1) assms(3) put_opp_rows [OF assms(2) put(2) ids] opp_later_refl by blast
  qed
qed (auto intro: bexI [where x = x])

lemma rows_step_back:
  assumes "rows_step M t t'" "table_wf t" "x' \<in> set (rows t')"
  obtains (old) x where "x \<in> set (rows t)" "opp_later M x x'" "opp_wf x \<Longrightarrow> opp_wf x'"
    | (fresh) x where "newborn x" "x' = x\<lparr>row_id := next_id t\<rparr>"
        "\<forall>y \<in> set (rows t). tenant_id y = tenant_id x \<longrightarrow> o_no y \<noteq> o_no x"
  using assms
proof (cases rule: rows_step.cases)
  case same
  with assms(3) old show ?thesis by simp
next
  case (born x)
  with assms(3) have "x' \<in> set (rows t) \<or> x' = x\<lparr>row_id := next_id t\<rparr>" by (auto simp: insert_row_def)
  then show ?thesis using born(2,3) old [of x'] fresh [of x] by auto
next
  case (each g)
  with assms(3) obtain x where "x \<in> set (rows t)" "x' = g x" by auto
  then show ?thesis using each(2) by (auto intro: old)
next
  case (put m m')
  have "x' = m' \<or> x' \<in> set (rows t)"
    using put(1) assms(3) put_opp_rows [OF assms(2) put(2)] put(3) by (auto simp: opp_later_ids)
  then show ?thesis using put old by auto
qed

lemma rows_step_unique:
  assumes step: "rows_step M t t'" and wf: "table_wf t"
    and uniq: "\<forall>x \<in> set (rows t). \<forall>y \<in> set (rows t). tenant_id x = tenant_id y \<and> o_no x = o_no y \<longrightarrow> x = y"
    and new: "x' \<in> set (rows t')" "y' \<in> set (rows t')" "tenant_id x' = tenant_id y'" "o_no x' = o_no y'"
  shows "x' = y'"
proof -
  have "row_id x' = row_id y'"
  proof (rule rows_step_back [OF step wf new(1)]; rule rows_step_back [OF step wf new(2)])
    fix x y
    assume x: "x \<in> set (rows t)" "opp_later M x x'" and y: "y \<in> set (rows t)" "opp_later M y y'"
    have "x = y" using uniq x(1) y(1) new(3,4) opp_later_ids [OF x(2)] opp_later_ids [OF y(2)] by simp
    then show ?thesis using opp_later_ids [OF x(2)] opp_later_ids [OF y(2)] by simp
  next
    fix x y
    assume x: "x \<in> set (rows t)" "opp_later M x x'" and y: "y' = y\<lparr>row_id := next_id t\<rparr>"
      and n: "\<forall>z \<in> set (rows t). tenant_id z = tenant_id y \<longrightarrow> o_no z \<noteq> o_no y"
    have "tenant_id x = tenant_id y \<and> o_no x = o_no y" using new(3,4) y opp_later_ids [OF x(2)] by simp
    then show ?thesis using n x(1) by blast
  next
    fix x y
    assume y: "y \<in> set (rows t)" "opp_later M y y'" and x: "x' = x\<lparr>row_id := next_id t\<rparr>"
      and n: "\<forall>z \<in> set (rows t). tenant_id z = tenant_id x \<longrightarrow> o_no z \<noteq> o_no x"
    have "tenant_id y = tenant_id x \<and> o_no y = o_no x" using new(3,4) x opp_later_ids [OF y(2)] by simp
    then show ?thesis using n y(1) by blast
  qed simp
  then show ?thesis using rows_step_wf [OF step wf] new(1,2) by (simp add: table_wf_same_id)
qed

lemma opps_ok_step:
  assumes "opp_move v v'" "opps_ok v"
  shows "opps_ok v'"
proof -
  note step = move_rows [OF assms] and wf = opps_ok_wf(1) [OF assms(2)]
  have "opp_wf x'" if "x' \<in> rows_of v'" for x'
  proof (rule rows_step_back [OF step wf that [unfolded rows_of_def]])
    fix x
    assume "x \<in> set (rows (vw_opps v))" "opp_wf x \<Longrightarrow> opp_wf x'"
    then show ?thesis using opps_ok_wf(2) [OF assms(2), of x] by (simp add: rows_of_def)
  next
    fix x
    assume "newborn x" "x' = x\<lparr>row_id := next_id (vw_opps v)\<rparr>"
    then show ?thesis by (simp add: newborn_wf)
  qed
  moreover have "x = y" if "x \<in> rows_of v'" "y \<in> rows_of v'" "tenant_id x = tenant_id y" "o_no x = o_no y" for x y
    using assms(2) that by (intro rows_step_unique [OF step wf]) (simp_all add: opps_ok_def rows_of_def)
  ultimately show ?thesis
    unfolding opps_ok_def using rows_step_wf [OF step wf] by blast
qed

end
