(* ===== verification/OpportunityInvariants.thy ===== *)
theory OpportunityInvariants
  imports OpportunityMachine
begin

text \<open>
  The invariant of the abstract machine beyond single rows: the logs of an opportunity
  explain its stage, a win has its evidence, a transfer left one event whose data stay those
  of the opportunity. And what holds between two states of a run.
\<close>

section \<open>Logs\<close>

fun stage_chain :: "stage \<Rightarrow> stage_log list \<Rightarrow> stage \<Rightarrow> bool" where
  "stage_chain a [] b \<longleftrightarrow> a = b"
| "stage_chain a (l # ls) b \<longleftrightarrow> sg_from l = a \<and> stage_chain (sg_to l) ls b"

lemma stage_chain_append: "stage_chain a ls b \<Longrightarrow> sg_from l = b \<Longrightarrow> stage_chain a (ls @ [l]) (sg_to l)"
  by (induction a ls b rule: stage_chain.induct) simp_all

definition logs_of :: "opportunity \<Rightarrow> stage_log list \<Rightarrow> stage_log list" where
  "logs_of x ls = filter (\<lambda>l. tenant_id l = tenant_id x \<and> sg_opp l = row_id x) ls"

lemma logs_of_ids: "row_id x = row_id y \<Longrightarrow> tenant_id x = tenant_id y \<Longrightarrow> logs_of x = logs_of y"
  by (simp add: logs_of_def fun_eq_iff)

definition logs_ok :: "opp_view \<Rightarrow> bool" where
  "logs_ok v \<longleftrightarrow> (\<forall>x \<in> rows_of v. stage_chain StageInitial (logs_of x (vw_logs v)) (o_stage x)) \<and>
     (\<forall>l \<in> set (vw_logs v). sg_opp l < next_id (vw_opps v))"

lemma next_id_put [simp]: "next_id (put_opp m t) = next_id t"
  by (simp add: put_opp_def update_rows_def)

lemma row_bound: "opps_ok v \<Longrightarrow> x \<in> rows_of v \<Longrightarrow> row_id x < next_id (vw_opps v)"
  by (auto simp: opps_ok_def rows_of_def table_wf_def)

lemma put_rows_of:
  assumes "opps_ok v" "m \<in> set (rows (vw_opps v))" "row_id m' = row_id m"
  shows "x \<in> set (rows (put_opp m' (vw_opps v))) \<longleftrightarrow> x = m' \<or> x \<in> set (rows (vw_opps v)) \<and> row_id x \<noteq> row_id m"
  by (rule put_opp_rows [OF opps_ok_wf(1) [OF assms(1)] assms(2,3)])

lemma logs_ok_put:
  assumes "logs_ok v" "opps_ok v" "m \<in> set (rows (vw_opps v))" "row_id m' = row_id m" "tenant_id m' = tenant_id m" "o_stage m' = o_stage m"
    "x \<in> set (rows (put_opp m' (vw_opps v)))"
  shows "stage_chain StageInitial (logs_of x (vw_logs v)) (o_stage x)"
  using assms(1) put_rows_of [OF assms(2-4), of x] assms(3,5-7) logs_of_ids [OF assms(4,5)]
  by (auto simp: logs_ok_def rows_of_def)

lemma logs_ok_step:
  assumes "opp_effect v v'" "opps_ok v" "logs_ok v"
  shows "logs_ok v'"
  using assms(1)
proof (cases rule: opp_effect.cases)
  case (born x)
  have "\<forall>l \<in> set (vw_logs v). sg_opp l < next_id (vw_opps v)" using assms(3) by (simp add: logs_ok_def)
  then have "logs_of (x\<lparr>row_id := next_id (vw_opps v)\<rparr>) (vw_logs v) = []" by (auto simp: logs_of_def filter_empty_conv)
  then show ?thesis using assms(3) born(1,2) by (auto simp: logs_ok_def rows_of_def insert_row_def newborn_def)
next
  case (labels g)
  have "logs_of (g x) = logs_of x \<and> o_stage (g x) = o_stage x" for x
    by (rule relabels_same [OF labels(2), of x]) (simp add: logs_of_def fun_eq_iff)
  then show ?thesis using assms(3) labels(1) by (auto simp: logs_ok_def rows_of_def)
next
  case (edit m m')
  then show ?thesis using assms(3) logs_ok_put [OF assms(3,2) edit(2), of m'] edit_same [OF edit(3)]
    by (auto simp: logs_ok_def rows_of_def)
next
  case (stage m m' ws l)
  have same: "row_id m' = row_id m" "tenant_id m' = tenant_id m" using stage_same [OF stage(3)] by simp_all
  note l = stage(4) [unfolded log_of_def]
  have "stage_chain StageInitial (logs_of m (vw_logs v)) (o_stage m)" using assms(3) stage(2) by (simp add: logs_ok_def rows_of_def)
  then have m': "stage_chain StageInitial (logs_of m' (vw_logs v @ [l])) (o_stage m')"
    using stage_chain_append [of StageInitial _ "o_stage m" l] l same by (simp add: logs_of_def)
  have other: "stage_chain StageInitial (logs_of x (vw_logs v @ [l])) (o_stage x)"
    if "x \<in> set (rows (vw_opps v))" "row_id x \<noteq> row_id m" for x
    using assms(3) that l by (auto simp: logs_ok_def logs_of_def rows_of_def)
  have "sg_opp l < next_id (vw_opps v)" using l row_bound [OF assms(2), of m] stage(2) by (simp add: rows_of_def)
  then show ?thesis
    using stage(1) assms(3) m' other put_rows_of [OF assms(2) stage(2) same(1)] by (auto simp: logs_ok_def rows_of_def)
next
  case (todo m m' ws)
  then show ?thesis using assms(3) logs_ok_put [OF assms(3,2) todo(2), of m'] todo_same [OF todo(3)]
    by (auto simp: logs_ok_def rows_of_def)
next
  case (team m T t u)
  then show ?thesis using assms(3) logs_ok_put [OF assms(3,2) team(2), of "m\<lparr>updated_by := u, version := version m + 1, updated_at := t\<rparr>"]
    by (auto simp: logs_ok_def rows_of_def)
qed (use assms(3) in \<open>simp_all add: logs_ok_def rows_of_def\<close>)

lemma logs_ok_outside:
  assumes "outside_effect v v'" "opps_ok v" "logs_ok v"
  shows "logs_ok v'"
  using assms(1)
proof (cases rule: outside_effect.cases)
  case (handed m t u g w)
  then show ?thesis
    using assms(3) logs_ok_put [OF assms(3,2) handed(2), of "m\<lparr>o_owner := w, o_org := g, updated_by := u, version := version m + 1, updated_at := t\<rparr>"]
    by (auto simp: logs_ok_def rows_of_def)
next
  case (merged tn a b u t)
  have "logs_of (merged_row tn a b u t x) = logs_of x" for x by (rule logs_of_ids) simp_all
  then show ?thesis using assms(3) merged(1) by (auto simp: logs_ok_def rows_of_def)
qed (use assms(3) in \<open>simp_all add: logs_ok_def rows_of_def\<close>)

section \<open>Evidence\<close>

text \<open>A signed opportunity that lacks nothing.\<close>

definition settled :: "opportunity \<Rightarrow> bool" where
  "settled x \<longleftrightarrow> live_status x = StatusClosed \<and> o_stage x = StageSigned \<and> o_pending x = PendingNone"

lemma settled_later:
  "opp_later M x x' \<Longrightarrow> settled x \<Longrightarrow>
     settled x' \<and> o_contract x' = o_contract x \<and> moved M (tenant_id x) (o_customer x) (o_customer x')"
  by (simp add: opp_later_def settled_def)

definition wins_ok :: "opp_view \<Rightarrow> bool" where
  "wins_ok v \<longleftrightarrow>
     (\<forall>w \<in> set (vw_wins v). \<exists>x \<in> rows_of v. win_of x w \<and> moved (vw_merges v) (tenant_id x) (wc_customer w) (o_customer x) \<and> settled x \<and> o_contract x = None) \<and>
     (\<forall>x \<in> rows_of v. length (filter (win_of x) (vw_wins v)) \<le> 1) \<and>
     (\<forall>x \<in> rows_of v. settled x \<longrightarrow> o_contract x = None \<longrightarrow> list_ex (win_of x) (vw_wins v))"

lemma wins_okD:
  "wins_ok v \<Longrightarrow> w \<in> set (vw_wins v) \<Longrightarrow>
     \<exists>x \<in> rows_of v. win_of x w \<and> moved (vw_merges v) (tenant_id x) (wc_customer w) (o_customer x) \<and> settled x \<and> o_contract x = None"
  by (simp add: wins_ok_def)

lemma win_of_ids: "row_id x = row_id y \<Longrightarrow> tenant_id x = tenant_id y \<Longrightarrow> win_of x = win_of y"
  by (simp add: win_of_def fun_eq_iff)

lemma win_of_later: "opp_later M x x' \<Longrightarrow> win_of x' = win_of x"
  by (intro win_of_ids) (simp_all add: opp_later_ids)

text \<open>Steps that record no evidence, where no row becomes settled without a contract.\<close>

lemma wins_ok_quiet:
  assumes rows: "rows_step (vw_merges v') (vw_opps v) (vw_opps v')" and merges: "vw_merges v \<subseteq> vw_merges v'"
    and ok: "opps_ok v" "wins_ok v" and same: "vw_wins v' = vw_wins v"
    and settles: "\<And>x x'. x \<in> rows_of v \<Longrightarrow> x' \<in> rows_of v' \<Longrightarrow> opp_later (vw_merges v') x x' \<Longrightarrow> settled x' \<Longrightarrow> settled x"
  shows "wins_ok v'"
proof -
  note wf = opps_ok_wf(1) [OF ok(1)]
  have "\<exists>x' \<in> rows_of v'. win_of x' w \<and> moved (vw_merges v') (tenant_id x') (wc_customer w) (o_customer x') \<and> settled x' \<and> o_contract x' = None"
    if w: "w \<in> set (vw_wins v)" for w
  proof -
    obtain x where x: "x \<in> rows_of v" "win_of x w" "moved (vw_merges v) (tenant_id x) (wc_customer w) (o_customer x)"
      "settled x" "o_contract x = None" using wins_okD [OF ok(2) w] by blast
    obtain x' where x': "x' \<in> rows_of v'" "opp_later (vw_merges v') x x'"
      using rows_step_later [OF rows wf] x(1) by (auto simp: rows_of_def)
    note later = settled_later [OF x'(2) x(4)] opp_later_ids [OF x'(2)]
    then have "moved (vw_merges v') (tenant_id x') (wc_customer w) (o_customer x')"
      using moved_trans [OF moved_mono [OF merges x(3)]] by simp
    then show ?thesis using x x' later win_of_later [OF x'(2)] by (intro bexI [of _ x']) simp_all
  qed
  moreover have "length (filter (win_of x') (vw_wins v)) \<le> 1 \<and>
      (settled x' \<longrightarrow> o_contract x' = None \<longrightarrow> list_ex (win_of x') (vw_wins v))" if x': "x' \<in> rows_of v'" for x'
  proof (rule rows_step_back [OF rows wf x' [unfolded rows_of_def]])
    fix x
    assume x: "x \<in> set (rows (vw_opps v))" "opp_later (vw_merges v') x x'"
    then have "o_contract x' = None \<longrightarrow> settled x' \<longrightarrow> settled x \<and> o_contract x = None"
      using settles [of x x'] x' settled_later [OF x(2)] by (auto simp: rows_of_def)
    then show ?thesis using ok(2) x win_of_later [OF x(2)] by (auto simp: wins_ok_def rows_of_def)
  next
    fix x
    assume x: "newborn x" "x' = x\<lparr>row_id := next_id (vw_opps v)\<rparr>"
    have "\<not> win_of x' w" if "w \<in> set (vw_wins v)" for w
      using ok(2) that x(2) row_bound [OF ok(1)] by (force simp: wins_ok_def win_of_def)
    then have "filter (win_of x') (vw_wins v) = []" by (simp add: filter_empty_conv)
    moreover have "\<not> settled x'" using x by (simp add: settled_def newborn_def)
    ultimately show ?thesis by simp
  qed
  ultimately show ?thesis unfolding wins_ok_def same by blast
qed

text \<open>A single row that is replaced by one as settled as it was.\<close>

lemma settles_put:
  assumes ok: "opps_ok v" and m: "m \<in> set (rows (vw_opps v))" "row_id m' = row_id m" "settled m' \<longleftrightarrow> settled m"
    and y: "y \<in> rows_of v" "y' \<in> set (rows (put_opp m' (vw_opps v)))" "opp_later M y y'" "settled y'"
  shows "settled y"
proof -
  have "y' = m' \<or> y' \<in> rows_of v" using y(2) put_rows_of [OF ok m(1,2)] by (auto simp: rows_of_def)
  then show "settled y"
  proof
    assume "y' = m'"
    then have "row_id y = row_id m" using m(2) opp_later_ids [OF y(3)] by simp
    then have "y = m" by (intro same_row [OF ok y(1)]) (use m(1) in \<open>simp_all add: rows_of_def\<close>)
    with \<open>y' = m'\<close> y(4) m(3) show ?thesis by simp
  next
    assume "y' \<in> rows_of v"
    then have "y' = y" by (intro same_row [OF ok _ y(1)]) (use opp_later_ids [OF y(3)] in simp_all)
    with y(4) show ?thesis by simp
  qed
qed

text \<open>All rows replaced at once.\<close>

lemma settles_each:
  assumes ok: "opps_ok v" and g: "\<And>x. row_id (g x) = row_id x" "\<And>x. settled (g x) \<longleftrightarrow> settled x"
    and y: "y \<in> rows_of v" "y' \<in> g ` rows_of v" "opp_later M y y'" "settled y'"
  shows "settled y"
proof -
  obtain x where x: "x \<in> rows_of v" "y' = g x" using y(2) by blast
  then have "x = y" using same_row [OF ok x(1) y(1)] opp_later_ids [OF y(3)] g(1) by simp
  with x y(4) g(2) show ?thesis by simp
qed

lemma edit_settled:
  assumes e: "opp_edit m m'" and wf: "opp_wf m"
  shows "settled m' \<longleftrightarrow> settled m"
proof (cases rule: live_status_cases [of m])
  case 1
  then have "o_stage m \<noteq> StageSigned" using wf by (auto simp: opp_wf_def open_stages_def)
  then show ?thesis using edit_same [OF e] by (simp add: settled_def)
next
  case 2
  then have "live_status m' = StatusClosed" using opp_later_edit [OF e wf] by (simp add: opp_later_def)
  with 2 show ?thesis using edit_same [OF e] by (simp add: settled_def)
qed

text \<open>A move or a completed todo, with the evidence it records.\<close>

lemma wins_ok_put:
  assumes step: "opp_effect v v'" "opps_ok v" "wins_ok v"
    and v': "vw_opps v' = put_opp m' (vw_opps v)" "vw_wins v' = vw_wins v @ ws"
    and m: "m \<in> rows_of v" "opp_later (vw_merges v) m m'" "\<not> settled m" and ws: "adds_wins m' (vw_wins v) ws"
    and win: "ws \<noteq> [] \<Longrightarrow> settled m' \<and> o_contract m' = None" "settled m' \<Longrightarrow> o_contract m' = None \<Longrightarrow> ws \<noteq> []"
  shows "wins_ok v'"
proof -
  note later = opp_later_ids [OF m(2)] and merges = effect_merges [OF step(1)]
  have mem: "x \<in> rows_of v' \<longleftrightarrow> x = m' \<or> x \<in> rows_of v \<and> row_id x \<noteq> row_id m" for x
    using put_rows_of [OF step(2), of m m'] m(1) later by (simp add: rows_of_def v'(1))
  have none: "filter (win_of m') (vw_wins v) = []"
  proof -
    have "\<not> win_of m w" if w: "w \<in> set (vw_wins v)" for w
    proof
      assume "win_of m w"
      obtain x where x: "x \<in> rows_of v" "win_of x w" "settled x" using wins_okD [OF step(3) w] by blast
      with \<open>win_of m w\<close> have "row_id x = row_id m" by (simp add: win_of_def)
      then have "x = m" by (rule same_row [OF step(2) x(1) m(1)])
      then show False using x(3) m(3) by simp
    qed
    then show ?thesis using win_of_later [OF m(2)] by (simp add: filter_empty_conv)
  qed
  have old: "\<exists>x \<in> rows_of v'. win_of x w \<and> moved (vw_merges v) (tenant_id x) (wc_customer w) (o_customer x) \<and> settled x \<and> o_contract x = None"
    if w: "w \<in> set (vw_wins v)" for w
  proof -
    obtain x where x: "x \<in> rows_of v" "win_of x w \<and> moved (vw_merges v) (tenant_id x) (wc_customer w) (o_customer x) \<and> settled x \<and> o_contract x = None"
      using wins_okD [OF step(3) w] by blast
    have "row_id x \<noteq> row_id m"
    proof
      assume "row_id x = row_id m"
      then have "x = m" by (rule same_row [OF step(2) x(1) m(1)])
      then show False using x(2) m(3) by simp
    qed
    with x mem show ?thesis by blast
  qed
  have single: "win_of m' w \<and> wc_customer w = o_customer m'" if "w \<in> set ws" for w
    using ws that by (auto simp: adds_wins_def)
  have new: "\<exists>x \<in> rows_of v'. win_of x w \<and> moved (vw_merges v) (tenant_id x) (wc_customer w) (o_customer x) \<and> settled x \<and> o_contract x = None"
    if w: "w \<in> set ws" for w
  proof -
    from w have "ws \<noteq> []" by auto
    then show ?thesis using single [OF w] win(1) mem by (intro bexI [of _ m']) simp_all
  qed
  have other: "filter (win_of x) ws = []" if "row_id x \<noteq> row_id m" for x
    using single that later by (auto simp: filter_empty_conv win_of_def)
  have "length ws \<le> 1" using ws by (auto simp: adds_wins_def)
  then have m': "length (filter (win_of m') (vw_wins v @ ws)) \<le> 1"
    using none le_trans [OF length_filter_le [of "win_of m'" ws]] by simp
  have "list_ex (win_of m') (vw_wins v @ ws)" if "settled m'" "o_contract m' = None"
    using win(2) [OF that] single by (cases ws) auto
  then show ?thesis
    using step(3) old new mem m' other unfolding wins_ok_def v'(2) merges
    by (auto simp: rows_of_def)
qed

lemma wins_ok_edit:
  assumes ok: "opps_ok v" "wins_ok v" and m: "m \<in> set (rows (vw_opps v))" "opp_edit m m'"
  shows "wins_ok (v\<lparr>vw_opps := put_opp m' (vw_opps v)\<rparr>)" (is "wins_ok ?v")
proof (rule wins_ok_quiet [OF _ _ ok])
  have wf: "opp_wf m" using ok(1) m(1) by (simp add: opps_ok_def rows_of_def)
  show "rows_step (vw_merges ?v) (vw_opps v) (vw_opps ?v)" by (rule effect_rows [OF opp_effect.edit [OF m] ok(1)])
  show "settled y" if "y \<in> rows_of v" "y' \<in> rows_of ?v" "opp_later (vw_merges ?v) y y'" "settled y'" for y y'
    using that edit_same [OF m(2)] edit_settled [OF m(2) wf]
    by (intro settles_put [OF ok(1) m(1), of m' y y' "vw_merges ?v"]) (simp_all add: rows_of_def)
qed simp_all

lemma wins_ok_step:
  assumes "opp_effect v v'" "opps_ok v" "wins_ok v"
  shows "wins_ok v'"
  using assms(1)
proof (cases rule: opp_effect.cases)
  case quiet
  with assms(3) show ?thesis by simp
next
  case (born x)
  show ?thesis
  proof (rule wins_ok_quiet [OF effect_rows [OF assms(1,2)] _ assms(2,3)])
    fix y y'
    assume y: "y \<in> rows_of v" "y' \<in> rows_of v'" "opp_later (vw_merges v') y y'" "settled y'"
    have "row_id y' \<noteq> next_id (vw_opps v)" using row_bound [OF assms(2) y(1)] opp_later_ids [OF y(3)] by simp
    with y(2) born(1) have "y' \<in> rows_of v" by (auto simp: rows_of_def insert_row_def)
    then have "y' = y" using same_row [OF assms(2) _ y(1)] opp_later_ids [OF y(3)] by simp
    with y(4) show "settled y" by simp
  qed (use born(1) in simp_all)
next
  case (labels g)
  have g: "settled (g x) \<longleftrightarrow> settled x" for x
    by (rule relabels_same [OF labels(2), of x]) (simp add: settled_def live_status_def restored_status_def)
  show ?thesis
  proof (rule wins_ok_quiet [OF effect_rows [OF assms(1,2)] _ assms(2,3)])
    show "settled y" if "y \<in> rows_of v" "y' \<in> rows_of v'" "opp_later (vw_merges v') y y'" "settled y'" for y y'
      using that labels(1) by (intro settles_each [OF assms(2) relabel_row_id [OF labels(2)] g, of y y' "vw_merges v'"]) (simp_all add: rows_of_def)
  qed (use labels(1) in simp_all)
next
  case (edit m m')
  show ?thesis unfolding edit(1) by (rule wins_ok_edit [OF assms(2,3) edit(2,3)])
next
  case (stage m m' ws l)
  have wf: "opp_wf m" using assms(2) stage(2) by (simp add: opps_ok_def rows_of_def)
  have "settled m' \<longrightarrow> o_contract m' = None \<longrightarrow> ws \<noteq> []" "ws \<noteq> [] \<longrightarrow> settled m' \<and> o_contract m' = None"
    using stage(3) by (cases rule: stage_move.cases; auto simp: settled_def live_status_def backed_def blank_def open_stages_def)+
  moreover have "\<not> settled m" using stage_same [OF stage(3)] by (simp add: settled_def live_status_def)
  ultimately show ?thesis
    using stage(1,2,5) by (intro wins_ok_put [OF assms, of m' ws m] opp_later_stage [OF stage(3) wf]) (simp_all add: rows_of_def)
next
  case (todo m m' ws)
  have wf: "opp_wf m" using assms(2) todo(2) by (simp add: opps_ok_def rows_of_def)
  have "settled m' \<longrightarrow> o_contract m' = None \<longrightarrow> ws \<noteq> []" "ws \<noteq> [] \<longrightarrow> settled m' \<and> o_contract m' = None"
    using todo(3) todo_closed [OF todo(3) wf]
    by (cases rule: todo_move.cases; auto simp: settled_def live_status_def backed_def blank_def)+
  moreover have "\<not> settled m" using todo_same [OF todo(3)] by (simp add: settled_def)
  ultimately show ?thesis
    using todo(1,2,4) by (intro wins_ok_put [OF assms, of m' ws m] opp_later_todo [OF todo(3) wf]) (simp_all add: rows_of_def)
next
  case (transfer m at)
  with assms(3) show ?thesis by (simp add: wins_ok_def rows_of_def)
next
  case (team m T t u)
  have "wins_ok (v\<lparr>vw_opps := put_opp (m\<lparr>updated_by := u, version := version m + 1, updated_at := t\<rparr>) (vw_opps v)\<rparr>)"
    by (rule wins_ok_edit [OF assms(2,3) team(2) touch_edit [OF team(3)]])
  then show ?thesis unfolding team(1) by (simp add: wins_ok_def rows_of_def)
qed

lemma settled_same:
  "o_status x = o_status y \<Longrightarrow> o_before_void x = o_before_void y \<Longrightarrow> o_stage x = o_stage y \<Longrightarrow> o_pending x = o_pending y \<Longrightarrow>
     settled x \<longleftrightarrow> settled y"
  unfolding settled_def by (simp only: live_status_same [of x y])

lemma wins_ok_outside:
  assumes "outside_effect v v'" "opps_ok v" "wins_ok v"
  shows "wins_ok v'"
  using assms(1)
proof (cases rule: outside_effect.cases)
  case (handed m t u g w)
  let ?m = "m\<lparr>o_owner := w, o_org := g, updated_by := u, version := version m + 1, updated_at := t\<rparr>"
  have same: "settled ?m \<longleftrightarrow> settled m" by (rule settled_same) simp_all
  show ?thesis
  proof (rule wins_ok_quiet [OF outside_rows [OF assms(1,2)] _ assms(2,3)])
    show "settled y" if "y \<in> rows_of v" "y' \<in> rows_of v'" "opp_later (vw_merges v') y y'" "settled y'" for y y'
      using that handed(1) by (intro settles_put [OF assms(2) handed(2) _ same, of y y' "vw_merges v'"]) (simp_all add: rows_of_def)
  qed (use handed(1) in simp_all)
next
  case (merged tn a b u t)
  have same: "settled (merged_row tn a b u t x) \<longleftrightarrow> settled x" for x
    by (rule settled_same) (simp_all add: merged_row_def)
  show ?thesis
  proof (rule wins_ok_quiet [OF outside_rows [OF assms(1,2)] _ assms(2,3)])
    show "settled y" if "y \<in> rows_of v" "y' \<in> rows_of v'" "opp_later (vw_merges v') y y'" "settled y'" for y y'
      using that merged(1)
      by (intro settles_each [OF assms(2) merged_row_same(1) same, of y y' "vw_merges v'"]) (simp_all add: rows_of_def)
  qed (use merged(1) in auto)
qed (use assms(3) in \<open>simp_all add: wins_ok_def rows_of_def\<close>)

section \<open>Transfers\<close>

text \<open>The event of a transfer, its data those of the opportunity.\<close>

definition signed_ok :: "opp_view \<Rightarrow> bool" where
  "signed_ok v \<longleftrightarrow>
     (\<forall>e \<in> set (vw_signed v). \<exists>x \<in> rows_of v. settled x \<and> \<not> blank (o_contract x) \<and>
        (\<exists>n at. n \<le> version x \<and> e = signed_entry (x\<lparr>version := n\<rparr>) at)) \<and>
     (\<forall>x \<in> rows_of v. length (filter (signed_of x) (vw_signed v)) \<le> 1)"

lemma signed_of_later: "opp_later M x x' \<Longrightarrow> signed_of x' = signed_of x"
  by (simp add: signed_of_def opp_later_ids fun_eq_iff)

lemma signed_entry_later:
  assumes "opp_later M x x'" "settled x" "\<not> blank (o_contract x)"
  shows "signed_entry (x'\<lparr>version := n\<rparr>) at = signed_entry (x\<lparr>version := n\<rparr>) at"
proof -
  have "o_contract x \<noteq> None" using assms(3) by (cases "o_contract x") (simp_all add: blank_def)
  with assms(1,2) show ?thesis by (simp add: signed_entry_def opp_later_def settled_def)
qed

lemma signed_ok_later:
  assumes rows: "rows_step M (vw_opps v) (vw_opps v')" and ok: "opps_ok v" "signed_ok v" and e: "e \<in> set (vw_signed v)"
  shows "\<exists>x \<in> rows_of v'. settled x \<and> \<not> blank (o_contract x) \<and> (\<exists>n at. n \<le> version x \<and> e = signed_entry (x\<lparr>version := n\<rparr>) at)"
proof -
  note wf = opps_ok_wf(1) [OF ok(1)]
  obtain x n at where x: "x \<in> rows_of v" "settled x" "\<not> blank (o_contract x)" "n \<le> version x"
      "e = signed_entry (x\<lparr>version := n\<rparr>) at" using ok(2) e by (auto simp: signed_ok_def)
  obtain x' where x': "x' \<in> rows_of v'" "opp_later M x x'" using rows_step_later [OF rows wf] x(1) by (auto simp: rows_of_def)
  have "n \<le> version x'" using x(4) x'(2) by (simp add: opp_later_def)
  then show ?thesis using x x' settled_later [OF x'(2) x(2)] signed_entry_later [OF x'(2) x(2,3)] by (intro bexI [of _ x']) auto
qed

lemma signed_ok_count:
  assumes rows: "rows_step M (vw_opps v) (vw_opps v')" and ok: "opps_ok v" "signed_ok v" and x': "x' \<in> rows_of v'"
  shows "length (filter (signed_of x') (vw_signed v)) \<le> 1"
proof (rule rows_step_back [OF rows opps_ok_wf(1) [OF ok(1)] x' [unfolded rows_of_def]])
  fix x
  assume x: "x \<in> set (rows (vw_opps v))" "opp_later M x x'"
  then show ?thesis using ok(2) signed_of_later [OF x(2)] by (simp add: signed_ok_def rows_of_def)
next
  fix x
  assume x: "x' = x\<lparr>row_id := next_id (vw_opps v)\<rparr>"
  have "\<not> signed_of x' e" if "e \<in> set (vw_signed v)" for e
    using ok(2) that x row_bound [OF ok(1)] by (force simp: signed_ok_def signed_of_def signed_entry_def)
  then show ?thesis by (simp add: filter_empty_conv)
qed

lemma signed_ok_quiet:
  assumes "rows_step M (vw_opps v) (vw_opps v')" "opps_ok v" "signed_ok v" "vw_signed v' = vw_signed v"
  shows "signed_ok v'"
  using signed_ok_later [OF assms(1-3)] signed_ok_count [OF assms(1-3)] by (simp add: signed_ok_def assms(4))

lemma signed_ok_step:
  assumes "opp_effect v v'" "opps_ok v" "signed_ok v"
  shows "signed_ok v'"
proof -
  note rows = effect_rows [OF assms(1,2)]
  note later = signed_ok_later [OF rows assms(2,3)] and count = signed_ok_count [OF rows assms(2,3)]
  from assms(1) show ?thesis
  proof (cases rule: opp_effect.cases)
    case (transfer m at)
    have m: "m \<in> rows_of v" "settled m" "\<not> blank (o_contract m)"
      using transfer(2,3) by (simp_all add: rows_of_def transfer_ready_def settled_def live_status_def)
    have none: "filter (signed_of m) (vw_signed v) = []" using transfer(4) by (auto simp: filter_empty_conv list_ex_iff)
    have entry: "signed_of x (signed_entry m at) \<longleftrightarrow> x = m" if "x \<in> rows_of v" for x
      using same_row [OF assms(2) that m(1)] by (auto simp: signed_of_def signed_entry_def)
    have "\<exists>n at'. n \<le> version m \<and> signed_entry m at = signed_entry (m\<lparr>version := n\<rparr>) at'"
      by (intro exI [of _ "version m"] exI [of _ at]) simp
    then show ?thesis
      using m none entry count later transfer(1) unfolding signed_ok_def by (auto simp: rows_of_def)
  qed (use signed_ok_quiet [OF rows assms(2,3)] in simp_all)
qed

lemma signed_ok_outside:
  assumes "outside_effect v v'" "opps_ok v" "signed_ok v"
  shows "signed_ok v'"
proof (rule signed_ok_quiet [OF outside_rows [OF assms(1,2)] assms(2,3)])
  show "vw_signed v' = vw_signed v" using assms(1) by (cases rule: outside_effect.cases) simp_all
qed

section \<open>Runs of the machine\<close>

definition machine_ok :: "opp_view \<Rightarrow> bool" where
  "machine_ok v \<longleftrightarrow> opps_ok v \<and> logs_ok v \<and> wins_ok v \<and> signed_ok v"

lemma machine_ok_step: "opp_move v v' \<Longrightarrow> machine_ok v \<Longrightarrow> machine_ok v'"
  unfolding machine_ok_def using opps_ok_step [of v v']
  by (auto simp: opp_move_def logs_ok_step logs_ok_outside wins_ok_step wins_ok_outside signed_ok_step signed_ok_outside)

lemma move_later:
  "opp_move v v' \<Longrightarrow> opps_ok v \<Longrightarrow> x \<in> rows_of v \<Longrightarrow> \<exists>x' \<in> rows_of v'. opp_later (vw_merges v') x x'"
  unfolding rows_of_def by (rule rows_step_later [OF move_rows]) (simp_all add: opps_ok_wf)

lemma machine_run:
  assumes "opp_move\<^sup>*\<^sup>* v v'" "machine_ok v"
  shows "machine_ok v' \<and> vw_merges v \<subseteq> vw_merges v' \<and> (\<forall>x \<in> rows_of v. \<exists>x' \<in> rows_of v'. opp_later (vw_merges v') x x')"
  using assms
proof (induction rule: rtranclp_induct)
  case base
  then show ?case using opp_later_refl by blast
next
  case (step u w)
  then have u: "machine_ok u" "opps_ok u" "vw_merges v \<subseteq> vw_merges u" by (simp_all add: machine_ok_def)
  note grow = move_merges [OF step.hyps(2)]
  have "\<exists>x' \<in> rows_of w. opp_later (vw_merges w) x x'" if x: "x \<in> rows_of v" for x
  proof -
    obtain y where y: "y \<in> rows_of u" "opp_later (vw_merges u) x y" using step x by blast
    obtain x' where "x' \<in> rows_of w" "opp_later (vw_merges w) y x'" using move_later [OF step.hyps(2) u(2) y(1)] by blast
    then show ?thesis using opp_later_trans [OF opp_later_mono [OF grow y(2)]] by blast
  qed
  with u grow machine_ok_step [OF step.hyps(2) u(1)] show ?case by blast
qed

end
