(* ===== verification/OpportunityRefinement.thy ===== *)
theory OpportunityRefinement
  imports OpportunityInvariants
begin

text \<open>
  Every command of the opportunity module is a step of the abstract machine of
  \<open>OpportunityMachine\<close> (a forward simulation: \<open>view_of\<close> reads the machine's state off the
  database), so the machine's invariant holds of every database the module can reach.
\<close>

section \<open>The view of a database\<close>

definition is_signed_event :: "opp_event \<Rightarrow> bool" where
  "is_signed_event e \<longleftrightarrow> ev_type e = ''OPPORTUNITY_SIGNED'' \<and> ev_aggregate e = ''opportunity''"

definition signed_events :: "opp_event list \<Rightarrow> (string \<times> string \<times> opp_payload) list" where
  "signed_events es = map (\<lambda>e. (tenant_id e, ev_aggregate_id e, ev_payload e)) (filter is_signed_event es)"

definition merge_links :: "customer_merge table \<Rightarrow> (string \<times> nat \<times> nat) set" where
  "merge_links t = (\<lambda>g. (tenant_id g, ml_source g, ml_target g)) ` set (rows t)"

definition view_of :: "opp_db \<Rightarrow> opp_view" where
  "view_of db =
     \<lparr>vw_opps = opportunities db, vw_logs = rows (stage_logs db), vw_wins = rows (win_confirmations db),
      vw_signed = signed_events (rows (opp_events db)), vw_team = (members db, member_terms db),
      vw_merges = merge_links (customer_merges db)\<rparr>"

lemma view_of_simps [simp]:
  "vw_opps (view_of db) = opportunities db"
  "rows_of (view_of db) = set (rows (opportunities db))"
  "vw_logs (view_of db) = rows (stage_logs db)"
  "vw_wins (view_of db) = rows (win_confirmations db)"
  "vw_signed (view_of db) = signed_events (rows (opp_events db))"
  "vw_team (view_of db) = (members db, member_terms db)"
  "vw_merges (view_of db) = merge_links (customer_merges db)"
  by (simp_all add: view_of_def rows_of_def)

lemma view_of_eqI:
  "opportunities db' = opportunities db \<Longrightarrow> stage_logs db' = stage_logs db \<Longrightarrow> win_confirmations db' = win_confirmations db \<Longrightarrow>
     signed_events (rows (opp_events db')) = signed_events (rows (opp_events db)) \<Longrightarrow> members db' = members db \<Longrightarrow>
     member_terms db' = member_terms db \<Longrightarrow> customer_merges db' = customer_merges db \<Longrightarrow> view_of db' = view_of db"
  by (simp add: view_of_def)

lemma transfer_accepted_view:
  "contract_transfer_accepted tenant i db \<longleftrightarrow> list_ex (\<lambda>e. fst e = tenant \<and> fst (snd e) = show_nat i) (vw_signed (view_of db))"
  by (auto simp: contract_transfer_accepted_def exists_row_iff is_transfer_event_def signed_events_def is_signed_event_def list_ex_iff)

section \<open>Writes the machine does not see\<close>

named_theorems quiet \<open>writes that leave the view alone\<close>

lemma view_quiet_tables [simp]:
  "view_of (db\<lparr>change_idems := a\<rparr>) = view_of db"
  "view_of (db\<lparr>create_idems := b\<rparr>) = view_of db"
  "view_of (db\<lparr>catalog_items := c\<rparr>) = view_of db"
  "view_of (db\<lparr>catalog_links := d\<rparr>) = view_of db"
  "view_of (db\<lparr>catalog_inits := e\<rparr>) = view_of db"
  "view_of (db\<lparr>catalog_idems := f\<rparr>) = view_of db"
  "view_of (db\<lparr>opp_audits := g\<rparr>) = view_of db"
  "view_of (db\<lparr>opp_sequences := h\<rparr>) = view_of db"
  "view_of (db\<lparr>external_links := i\<rparr>) = view_of db"
  "view_of (db\<lparr>followups := j\<rparr>) = view_of db"
  "view_of (db\<lparr>alert_rules := k\<rparr>) = view_of db"
  "view_of (db\<lparr>alert_rule_versions := l\<rparr>) = view_of db"
  "view_of (db\<lparr>stage_alerts := m\<rparr>) = view_of db"
  by (simp_all add: view_of_def)

lemma view_audit [simp]: "view_of (write_audit e db) = view_of db" "view_of (audit_opp s p oper i b a r db) = view_of db"
  by (simp_all add: write_audit_def audit_opp_def)

lemma signed_events_map:
  assumes "\<And>e. is_signed_event (g e) = is_signed_event e"
    "\<And>e. is_signed_event e \<Longrightarrow> tenant_id (g e) = tenant_id e \<and> ev_aggregate_id (g e) = ev_aggregate_id e \<and> ev_payload (g e) = ev_payload e"
  shows "signed_events (map g es) = signed_events es"
  unfolding signed_events_def using assms by (induction es) simp_all

lemma view_alerts [simp]: "view_of (cancel_active_alerts now act tenant i db) = view_of db"
proof -
  have "signed_events (map (\<lambda>e. if p e then e\<lparr>ev_status := st\<rparr> else e) es) = signed_events es" for p st es
    by (rule signed_events_map) (simp_all add: is_signed_event_def)
  then show ?thesis by (simp add: cancel_active_alerts_def Let_def view_of_def update_rows_def)
qed

lemma view_retry: "view_of (fst (retry_failed_transfer tenant i db)) = view_of db"
proof -
  have "signed_events (map (\<lambda>e. if p e then e\<lparr>ev_status := st, ev_retries := 0, ev_next_retry := None, ev_locked_by := [],
      ev_locked_until := None, ev_error := []\<rparr> else e) es) = signed_events es" for p st es
    by (rule signed_events_map) (simp_all add: is_signed_event_def)
  then show ?thesis by (simp add: retry_failed_transfer_def Let_def view_of_def update_rows_def)
qed

lemma create_event_view:
  "create_event e db = Inr db' \<Longrightarrow>
     view_of db' = (view_of db)\<lparr>vw_signed := vw_signed (view_of db) @ signed_events [e]\<rparr>"
  by (auto simp: create_event_def insert_row_def view_of_def signed_events_def is_signed_event_def split: if_splits)

lemma quiet_writes [quiet]:
  "create_change_idem ci db = Inr db' \<Longrightarrow> view_of db' = view_of db"
  "create_create_idem cc db = Inr db' \<Longrightarrow> view_of db' = view_of db"
  "next_opp_number tenant at db = Inr (db', no) \<Longrightarrow> view_of db' = view_of db"
  "create_external_link x db = Inr db' \<Longrightarrow> view_of db' = view_of db"
  "create_catalog_item it db = Inr db' \<Longrightarrow> view_of db' = view_of db"
  "replace_links s tenant opp k items db = Inr db' \<Longrightarrow> view_of db' = view_of db"
  "save_catalog_idem s p op key hash resp db = Inr db' \<Longrightarrow> view_of db' = view_of db"
  "update_catalog_row tenant i v it db = Inr db' \<Longrightarrow> view_of db' = view_of db"
  "alert_rule_history s p r db = Inr db' \<Longrightarrow> view_of db' = view_of db"
  by (auto simp: create_change_idem_def create_create_idem_def next_opp_number_def create_external_link_def create_catalog_item_def
      replace_links_def save_catalog_idem_def update_catalog_row_def alert_rule_history_def Let_def split: if_splits option.splits)

lemma ensure_defaults_quiet [quiet]: "ensure_defaults s tenant db = Inr db' \<Longrightarrow> view_of db' = view_of db"
  unfolding ensure_defaults_def
  by (auto split: if_splits dest: quiet elim!: fold_res_invariant [where P = "\<lambda>d. view_of d = view_of db"])

lemma resolve_quiet [quiet]: "resolve_selections s tenant k ids legacy opp db = Inr (db', sel) \<Longrightarrow> view_of db' = view_of db"
  unfolding resolve_selections_def by (auto dest: quiet split: if_splits prod.splits simp: Let_def)

lemma select_catalog_quiet [quiet]: "select_catalog s tenant types sources opp db = Inr (db', sel) \<Longrightarrow> view_of db' = view_of db"
  unfolding select_catalog_def by (auto dest!: resolve_quiet split: if_splits prod.splits)

lemma link_catalog_quiet [quiet]: "link_catalog s tenant opp items db = Inr db' \<Longrightarrow> view_of db' = view_of db"
  unfolding link_catalog_def by (auto dest!: quiet_writes split: if_splits)

section \<open>Writes on one opportunity\<close>

text \<open>A read row, and the replacement of it that a versioned write makes.\<close>

lemma find_opportunity_row:
  "find_opportunity p i db = Inr m \<Longrightarrow>
     m \<in> set (rows (opportunities db)) \<and> in_scope p m \<and> row_id m = i \<and> tenant_id m = p_tenant p \<and> deleted_at m = None"
  by (auto simp: find_opportunity_def in_scope_def split: option.splits dest!: find_row_Some)

lemma opp_write_put:
  assumes w: "opp_write now hit f db = Inr db'" and wf: "table_wf (opportunities db)" and m: "m \<in> set (rows (opportunities db))"
    and hit: "\<And>x. hit x \<Longrightarrow> row_id x = row_id m" and f: "\<And>x. row_id (f x) = row_id x"
  shows "hit m" "version m + 1 < 2 ^ 64"
    "db' = db\<lparr>opportunities := put_opp ((f m)\<lparr>version := version m + 1, updated_at := datetime3 now\<rparr>) (opportunities db)\<rparr>"
proof -
  from w obtain x where x: "x \<in> set (rows (opportunities db))" "hit x"
    and small: "\<forall>x \<in> set (rows (opportunities db)). hit x \<longrightarrow> version x + 1 < 2 ^ 64"
    and db': "db' = db\<lparr>opportunities := update_rows hit (\<lambda>x. (f x)\<lparr>version := version x + 1, updated_at := datetime3 now\<rparr>)
      (opportunities db)\<rparr>"
    by (auto simp: opp_write_def exists_row_iff not_le split: if_splits)
  have "x = m" using table_wf_same_id [OF wf x(1) m hit [OF x(2)]] .
  with x show "hit m" by simp
  with small m show "version m + 1 < 2 ^ 64" by blast
  have only: "hit y \<longleftrightarrow> y = m" if "y \<in> set (rows (opportunities db))" for y
    using table_wf_same_id [OF wf that m hit] \<open>hit m\<close> by blast
  have "row_id y = row_id m \<longleftrightarrow> y = m" if "y \<in> set (rows (opportunities db))" for y
    using table_wf_same_id [OF wf that m] by blast
  then show "db' = db\<lparr>opportunities := put_opp ((f m)\<lparr>version := version m + 1, updated_at := datetime3 now\<rparr>) (opportunities db)\<rparr>"
    unfolding db' put_opp_def update_rows_def using only f by simp
qed

text \<open>
  The writes of the repository: \<open>m\<close> is the row as read, \<open>c\<close> the caller's changed copy of it.
\<close>

definition reads :: "(opportunity \<Rightarrow> bool) \<Rightarrow> opp_db \<Rightarrow> opportunity \<Rightarrow> opportunity \<Rightarrow> bool" where
  "reads P db m c \<longleftrightarrow> P m \<and> table_wf (opportunities db) \<and> m \<in> set (rows (opportunities db)) \<and> row_id c = row_id m \<and> tenant_id c = tenant_id m"

definition written :: "opp_db \<Rightarrow> opportunity \<Rightarrow> opp_db \<Rightarrow> bool" where
  "written db m' db' \<longleftrightarrow> view_of db' = (view_of db)\<lparr>vw_opps := put_opp m' (opportunities db)\<rparr>"

lemma opp_write_hit:
  assumes w: "opp_write now hit f db = Inr db'" and r: "reads P db m c" and hit: "\<And>x. hit x \<Longrightarrow> row_id x = row_id c"
    and f: "\<And>x. row_id (f x) = row_id x"
  shows "hit m \<and> version m + 1 < 2 ^ 64 \<and> opportunities db' = put_opp ((f m)\<lparr>version := version m + 1, updated_at := datetime3 now\<rparr>) (opportunities db) \<and>
    written db ((f m)\<lparr>version := version m + 1, updated_at := datetime3 now\<rparr>) db'"
proof -
  have "hit x \<Longrightarrow> row_id x = row_id m" for x using hit r by (simp add: reads_def)
  from opp_write_put [OF w _ _ this f] r show ?thesis by (simp add: reads_def written_def view_of_def)
qed

lemma at_version_id: "at_version c v x \<Longrightarrow> row_id x = row_id c"
  by (simp add: at_version_def is_opp_def)

lemma update_master_written:
  assumes "update_master now c v db = Inr (db', c')" "reads P db m c"
  shows "o_status m \<noteq> StatusVoid \<and> version m = v \<and> c' = c\<lparr>version := v + 1\<rparr> \<and>
    written db (m\<lparr>o_name := o_name c, o_type := o_type c, o_source := o_source c, o_amount := of_cents (cents (o_amount c)),
      o_sign_date := o_sign_date c, o_summary := o_summary c, o_systems := o_systems c, o_pain := o_pain c,
      o_competitor := o_competitor c, updated_by := updated_by c, version := version m + 1, updated_at := datetime3 now\<rparr>) db'"
proof -
  from assms(1) have w: "opp_write now (\<lambda>x. at_version c v x \<and> o_status x \<noteq> StatusVoid)
      (\<lambda>x. x\<lparr>o_name := o_name c, o_type := o_type c, o_source := o_source c, o_amount := of_cents (cents (o_amount c)),
        o_sign_date := o_sign_date c, o_summary := o_summary c, o_systems := o_systems c, o_pain := o_pain c,
        o_competitor := o_competitor c, updated_by := updated_by c\<rparr>) db = Inr db'" and c': "c' = c\<lparr>version := v + 1\<rparr>"
    by (auto simp: update_master_def)
  from opp_write_hit [OF w assms(2)] c' show ?thesis by (auto simp: at_version_def is_opp_def)
qed

lemma update_lifecycle_written:
  assumes "update_lifecycle now c v st db = Inr (db', c')" "reads P db m c"
  shows "o_status m = st \<and> version m = v \<and> c' = c\<lparr>version := v + 1\<rparr> \<and>
    written db (m\<lparr>o_status := o_status c, o_end := o_end c, o_before_void := o_before_void c, updated_by := updated_by c,
      version := version m + 1, updated_at := datetime3 now\<rparr>) db'"
proof -
  from assms(1) have w: "opp_write now (\<lambda>x. at_version c v x \<and> o_status x = st)
      (\<lambda>x. x\<lparr>o_status := o_status c, o_end := o_end c, o_before_void := o_before_void c, updated_by := updated_by c\<rparr>) db = Inr db'"
      and c': "c' = c\<lparr>version := v + 1\<rparr>"
    by (auto simp: update_lifecycle_def)
  from opp_write_hit [OF w assms(2)] c' show ?thesis by (auto simp: at_version_def is_opp_def)
qed

lemma update_stage_written:
  assumes "update_stage now c v db = Inr (db', c')" "reads P db m c"
  shows "o_status m \<noteq> StatusVoid \<and> version m = v \<and> c' = c\<lparr>version := v + 1\<rparr> \<and>
    written db (m\<lparr>o_stage := o_stage c, o_status := o_status c, o_contract := o_contract c, o_lost := o_lost c, o_pending := o_pending c,
      o_stage_at := datetime3 (o_stage_at c), o_external_at := map_option datetime3 (o_external_at c), updated_by := updated_by c,
      version := version m + 1, updated_at := datetime3 now\<rparr>) db'"
proof -
  from assms(1) have w: "opp_write now (\<lambda>x. at_version c v x \<and> o_status x \<noteq> StatusVoid)
      (\<lambda>x. x\<lparr>o_stage := o_stage c, o_status := o_status c, o_contract := o_contract c, o_lost := o_lost c, o_pending := o_pending c,
        o_stage_at := datetime3 (o_stage_at c), o_external_at := map_option datetime3 (o_external_at c),
        updated_by := updated_by c\<rparr>) db = Inr db'" and c': "c' = c\<lparr>version := v + 1\<rparr>"
    by (auto simp: update_stage_def)
  from opp_write_hit [OF w assms(2)] c' show ?thesis by (auto simp: at_version_def is_opp_def)
qed

lemma update_terminal_todo_written:
  assumes "update_terminal_todo now c v db = Inr (db', c')" "reads P db m c"
  shows "version m = v \<and> c' = c\<lparr>version := v + 1\<rparr> \<and>
    written db (m\<lparr>o_contract := o_contract c, o_lost := o_lost c, o_pending := o_pending c, updated_by := updated_by c,
      version := version m + 1, updated_at := datetime3 now\<rparr>) db'"
proof -
  from assms(1) have w: "opp_write now (at_version c v)
      (\<lambda>x. x\<lparr>o_contract := o_contract c, o_lost := o_lost c, o_pending := o_pending c, updated_by := updated_by c\<rparr>) db = Inr db'"
      and c': "c' = c\<lparr>version := v + 1\<rparr>"
    by (auto simp: update_terminal_todo_def)
  from opp_write_hit [OF w assms(2) at_version_id] c' show ?thesis by (auto simp: at_version_def is_opp_def)
qed

lemma update_contract_link_written:
  assumes "update_contract_link now c k db = Inr (db', c')" "reads P db m c"
  shows "o_sync m = k \<and> c' = c\<lparr>version := version c + 1\<rparr> \<and>
    written db (m\<lparr>o_contract_id := o_contract_id c, o_intake := o_intake c, o_link := o_link c,
      o_linked_at := map_option datetime3 (o_linked_at c), o_sync := o_sync c, o_link_event := o_link_event c,
      updated_by := updated_by c, version := version m + 1, updated_at := datetime3 now\<rparr>) db'"
proof -
  from assms(1) have w: "opp_write now (\<lambda>x. is_opp (tenant_id c) (row_id c) x \<and> o_sync x = k)
      (\<lambda>x. x\<lparr>o_contract_id := o_contract_id c, o_intake := o_intake c, o_link := o_link c,
        o_linked_at := map_option datetime3 (o_linked_at c), o_sync := o_sync c, o_link_event := o_link_event c,
        updated_by := updated_by c\<rparr>) db = Inr db'" and c': "c' = c\<lparr>version := version c + 1\<rparr>"
    by (auto simp: update_contract_link_def split: if_splits)
  from opp_write_hit [OF w assms(2)] c' show ?thesis by (auto simp: is_opp_def)
qed

lemma update_owner_written:
  assumes "update_owner now c v db = Inr (db', c')" "reads P db m c"
  shows "o_status m \<noteq> StatusVoid \<and> version m = v \<and> c' = c\<lparr>version := v + 1\<rparr> \<and>
    written db (m\<lparr>o_owner := o_owner c, o_org := o_org c, updated_by := updated_by c,
      version := version m + 1, updated_at := datetime3 now\<rparr>) db'"
proof -
  from assms(1) have w: "opp_write now (\<lambda>x. at_version c v x \<and> o_status x \<noteq> StatusVoid)
      (\<lambda>x. x\<lparr>o_owner := o_owner c, o_org := o_org c, updated_by := updated_by c\<rparr>) db = Inr db'" and c': "c' = c\<lparr>version := v + 1\<rparr>"
    by (auto simp: update_owner_def)
  from opp_write_hit [OF w assms(2)] c' show ?thesis by (auto simp: at_version_def is_opp_def)
qed

section \<open>Commands are steps\<close>

text \<open>A step that changes no row but those that meet \<open>P\<close>.\<close>

definition steps :: "(opportunity \<Rightarrow> bool) \<Rightarrow> opp_db \<Rightarrow> opp_db \<Rightarrow> bool" where
  "steps P db db' \<longleftrightarrow> opp_effect (view_of db) (view_of db') \<and>
     (\<forall>m \<in> rows_of (view_of db). \<not> P m \<longrightarrow> m \<in> rows_of (view_of db'))"

lemma steps_quiet: "view_of db' = view_of db \<Longrightarrow> steps P db db'"
  by (simp add: steps_def opp_effect.quiet del: view_of_simps)

lemma steps_refl [simp]: "steps P db db"
  by (simp add: steps_quiet)

lemma steps_put:
  assumes "opp_effect (view_of db) (view_of db')" "vw_opps (view_of db') = put_opp m' (vw_opps (view_of db))" "reads P db m c" "row_id m' = row_id m"
  shows "steps P db db'"
proof -
  have wf: "table_wf (opportunities db)" "m \<in> set (rows (opportunities db))" "P m" using assms(3) by (simp_all add: reads_def)
  have "x \<in> set (rows (opportunities db'))" if "x \<in> set (rows (opportunities db))" "\<not> P x" for x
  proof -
    have "row_id x \<noteq> row_id m" using table_wf_same_id [OF wf(1) that(1) wf(2)] that(2) wf(3) by blast
    then show ?thesis using put_opp_rows [OF wf(1,2) assms(4), of x] assms(2) that(1) by simp
  qed
  with assms(1) show ?thesis by (simp add: steps_def)
qed

lemma steps_edit:
  assumes "written db0 m' db1" "view_of db0 = view_of db" "view_of db' = view_of db1" "reads P db m c" "opp_edit m m'"
  shows "steps P db db'"
proof -
  have "opportunities db0 = opportunities db" using assms(2) by (metis view_of_simps(1))
  then have v: "view_of db' = (view_of db)\<lparr>vw_opps := put_opp m' (vw_opps (view_of db))\<rparr>" using assms(1-3) by (simp add: written_def)
  show ?thesis
  proof (rule steps_put [OF _ _ assms(4)])
    show "opp_effect (view_of db) (view_of db')"
      using opp_effect.edit [of m "view_of db" m'] assms(4,5) v by (simp add: reads_def)
    show "vw_opps (view_of db') = put_opp m' (vw_opps (view_of db))" unfolding v by (simp del: view_of_simps)
    show "row_id m' = row_id m" using edit_same [OF assms(5)] by simp
  qed
qed

text \<open>Creation.\<close>

lemma parse_date_day: "parse_date v = Some t \<Longrightarrow> day dvd t"
  by (auto simp: parse_date_def Let_def split: if_splits)

lemma create_opp_row_born:
  assumes "create_opp_row now m db = Inr (db', m')" "view_of db = view_of db0" "newborn (stored_opp m)"
  shows "steps P db0 db'"
proof -
  let ?x = "stored_opp (m\<lparr>row_id := next_id (opportunities db), created_at := now, updated_at := now\<rparr>)"
  from assms(1) have fresh: "\<not> exists_row (\<lambda>x. tenant_id x = tenant_id m \<and> o_no x = o_no m) (opportunities db)"
    and db': "db' = db\<lparr>opportunities := snd (insert_row ?x (opportunities db))\<rparr>"
    by (auto simp: create_opp_row_def Let_def split: if_splits)
  have t: "opportunities db = opportunities db0" using assms(2) by (metis view_of_simps(1))
  have "newborn ?x" using assms(3) by (simp add: newborn_def stored_opp_def)
  moreover have "\<forall>y \<in> set (rows (vw_opps (view_of db0))). tenant_id y = tenant_id ?x \<longrightarrow> o_no y \<noteq> o_no ?x"
    using fresh t by (auto simp: exists_row_iff stored_opp_def)
  moreover have "view_of db' = (view_of db0)\<lparr>vw_opps := snd (insert_row ?x (vw_opps (view_of db0)))\<rparr>"
  proof -
    have "view_of db' = (view_of db)\<lparr>vw_opps := snd (insert_row ?x (opportunities db))\<rparr>" unfolding db' by (simp add: view_of_def)
    then show ?thesis by (simp add: assms(2) t)
  qed
  ultimately have "opp_effect (view_of db0) (view_of db')" by (metis opp_effect.born)
  moreover have "opportunities db' = snd (insert_row ?x (opportunities db0))" unfolding db' t by simp
  ultimately show ?thesis by (auto simp: steps_def insert_row_def)
qed

lemma new_opportunity_newborn:
  "day dvd sign \<Longrightarrow> newborn (stored_opp ((new_opportunity s tenant creator inp amount sign)\<lparr>o_no := no, o_type := ty, o_source := src\<rparr>))"
  "day dvd sign \<Longrightarrow> newborn (stored_opp ((new_opportunity s tenant creator inp amount sign)\<lparr>o_no := no\<rparr>))"
  by (auto simp: newborn_def stored_opp_def new_opportunity_def)

lemma steps_then: "steps P db db1 \<Longrightarrow> view_of db' = view_of db1 \<Longrightarrow> steps P db db'"
  by (simp add: steps_def del: view_of_simps)

lemma require_same: "require_principal p = Inr q \<Longrightarrow> q = p"
  by (simp add: require_principal_def split: if_splits)

lemma create_opp_tx_steps:
  assumes "day dvd sign"
  shows "ok (create_opp_tx s p key inp amount sign hash db) (\<lambda>(db', r). steps P db db')"
  unfolding create_opp_tx_def
proof (intro ok_intro, goal_cases)
  case (1 x xa db1 b items ba tl sl xb db2 no xc db3 m db4 r db5)
  have "view_of db1 = view_of db" using 1(4-7) by (auto dest: select_catalog_quiet)
  then have "view_of db2 = view_of db" using 1(8,9) by (auto dest: quiet_writes)
  then have "steps P db db3"
    using 1(10,11) by (auto intro!: create_opp_row_born [OF _ _ new_opportunity_newborn(1) [OF assms]])
  moreover have "view_of db5 = view_of db3" using 1(12,14) by (auto dest!: quiet_writes link_catalog_quiet)
  ultimately show ?case by (simp add: steps_then)
qed simp_all

lemma valid_sign_day: "valid_sign_date s v = Inr t \<Longrightarrow> day dvd t"
  using parse_date_day by (auto simp: valid_sign_date_def Let_def split: option.splits if_splits)

lemma create_opportunity_steps: "ok (create_opportunity s p inp db) (\<lambda>(db', r). steps (in_scope p) db db')"
  unfolding create_opportunity_def
proof (intro ok_intro, goal_cases)
  case (1 u key inp1 v w z inp2 amount sign hash e r)
  then show ?case by simp
next
  case (2 u key inp1 v w z inp2 amount sign hash x db' r)
  have "day dvd sign" using 2 by (auto dest: valid_sign_day)
  from okD [OF create_opp_tx_steps [OF this]] 2 show ?case by fastforce
qed

lemma provision_create_tx_steps:
  assumes "day dvd sign"
  shows "ok (provision_create_tx s p inp org amount sign hash db) (\<lambda>(db', r). steps P db db')"
  unfolding provision_create_tx_def
proof (intro ok_intro, goal_cases)
  case (1 x xb db1 no xc db2 m r db3)
  have "view_of db1 = view_of db" using 1 by (auto dest: quiet_writes)
  then have "steps P db db2"
    using 1 by (auto intro!: create_opp_row_born [OF _ _ new_opportunity_newborn(2) [OF assms]])
  moreover have "view_of db3 = view_of db2" using 1 by (auto dest: quiet_writes)
  ultimately show ?case by (simp add: steps_then)
qed simp_all

lemma validate_master_day: "validate_master_data s a d = Inr (amount, sign) \<Longrightarrow> day dvd sign"
  using parse_date_day by (auto simp: validate_master_data_def)

lemma create_provision_steps: "ok (create_provision s p inp db) (\<lambda>(db', r). steps (in_scope p) db db')"
  unfolding create_provision_def
  by (intro ok_intro) (auto intro: provision_create_tx_steps dest: validate_master_day)

text \<open>Edits of the master data.\<close>

lemma cents_same:
  assumes "decimal_equal d (of_cents a)"
  shows "cents d = a"
proof (cases "- 2 \<le> snd d")
  case True
  with assms show ?thesis by (simp add: decimal_equal_def cents_def scale_to_def of_cents_def min_def split: if_splits)
next
  case False
  let ?p = "10 ^ nat (- 2 - snd d) :: int"
  have "fst d = a * ?p" using assms False by (simp add: decimal_equal_def scale_to_def of_cents_def min_def)
  moreover have "(2 * (\<bar>a\<bar> * ?p) + ?p) div (2 * ?p) = \<bar>a\<bar>"
  proof -
    have "(2 * (\<bar>a\<bar> * ?p) + ?p) div (2 * ?p) = ((2 * \<bar>a\<bar> + 1) * ?p) div (2 * ?p)" by (simp add: algebra_simps)
    also have "\<dots> = (2 * \<bar>a\<bar> + 1) div 2" by (rule div_mult_mult2) simp
    finally show ?thesis by simp
  qed
  ultimately show ?thesis using False by (simp add: cents_def Let_def abs_mult sgn_mult mult_sgn_abs)
qed

lemma same_day: "day dvd a \<Longrightarrow> day dvd b \<Longrightarrow> a div day = b div day \<Longrightarrow> a = (b :: int)"
  by (metis dvd_div_mult_self)

lemma reads_view: "view_of db1 = view_of db \<Longrightarrow> reads P db1 m c \<longleftrightarrow> reads P db m c"
  unfolding reads_def by (metis view_of_simps(1))

lemma found_reads:
  "find_opportunity p i db = Inr m \<Longrightarrow> opps_ok (view_of db) \<Longrightarrow> row_id c = row_id m \<Longrightarrow> tenant_id c = tenant_id m \<Longrightarrow>
     reads (in_scope p) db m c"
  by (auto simp: reads_def opps_ok_def dest: find_opportunity_row)

lemma found_wf: "find_opportunity p i db = Inr m \<Longrightarrow> opps_ok (view_of db) \<Longrightarrow> opp_wf m"
  by (auto simp: opps_ok_def dest: find_opportunity_row)

lemma reads_row: "reads P db m c \<Longrightarrow> m \<in> set (rows (opportunities db))"
  by (simp add: reads_def)

lemma update_opp_tx_steps:
  assumes r: "reads P db m c" and d: "day dvd o_sign_date c"
    and closed: "o_status m = StatusClosed \<Longrightarrow> of_cents (cents (o_amount c)) = o_amount m \<and> o_sign_date c = o_sign_date m"
  shows "ok (update_opp_tx s p inp reason before c db) (\<lambda>(db', x). steps P db db')"
  unfolding update_opp_tx_def
proof (intro ok_intro, goal_cases)
  case (1 x db1 b items ba tl sl y db2 c2 db3)
  have v: "view_of db1 = view_of db" using 1 by (auto dest!: select_catalog_quiet)
  have "reads P db1 m (c\<lparr>o_type := tl, o_source := sl\<rparr>)" unfolding reads_view [OF v] using r by (simp add: reads_def)
  from update_master_written [OF 1(5) [unfolded 1(6)] this] have w: "o_status m \<noteq> StatusVoid" "written db1 (m\<lparr>o_name := o_name c, o_type := tl, o_source := sl, o_amount := of_cents (cents (o_amount c)),
      o_sign_date := o_sign_date c, o_summary := o_summary c, o_systems := o_systems c, o_pain := o_pain c,
      o_competitor := o_competitor c, updated_by := updated_by c, version := version m + 1, updated_at := datetime3 (op_now s)\<rparr>) db2"
    by auto
  obtain k where k: "o_sign_date c = k * day" using d by (metis dvd_def mult.commute)
  have "opp_edit m (m\<lparr>o_name := o_name c, o_type := tl, o_source := sl, o_amount := of_cents (cents (o_amount c)),
      o_sign_date := o_sign_date c, o_summary := o_summary c, o_systems := o_systems c, o_pain := o_pain c,
      o_competitor := o_competitor c, updated_by := updated_by c, version := version m + 1, updated_at := datetime3 (op_now s)\<rparr>)"
    unfolding k by (rule opp_edit.master) (use w(1) closed k in simp_all)
  from steps_edit [OF w(2) v _ r this, of db3] 1(7) show ?case by (simp add: link_catalog_quiet steps_then)
qed

lemma update_opportunity_steps:
  assumes "opps_ok (view_of db)"
  shows "ok (update_opportunity s p i inp db) (\<lambda>(db', r). steps (in_scope p) db db')"
  unfolding update_opportunity_def
proof (intro ok_intro, goal_cases)
  case (1 q x amount sign u v m y db' m2)
  have wf: "opp_wf m" and r: "reads (in_scope p) db m (edited_master q inp amount sign m)"
    using 1 assms by (auto intro: found_wf found_reads simp: edited_master_def dest!: require_same)
  have d: "day dvd sign" using 1 by (auto dest: validate_master_day)
  have "of_cents (cents amount) = o_amount m \<and> sign = o_sign_date m" if "o_status m = StatusClosed"
  proof -
    have c: "decimal_equal amount (o_amount m)" "sign div day = o_sign_date m div day"
      using 1 that by (auto simp: closed_master_data_changed_def)
    obtain a where "o_amount m = of_cents a" using wf by (auto simp: opp_wf_def)
    with c(1) cents_same have "of_cents (cents amount) = o_amount m" by simp
    moreover have "sign = o_sign_date m" using same_day [OF d _ c(2)] wf by (simp add: opp_wf_def)
    ultimately show ?thesis by simp
  qed
  with okD [OF update_opp_tx_steps [OF r]] d 1 show ?case by (fastforce simp: edited_master_def)
qed

text \<open>Voiding and restoring.\<close>

lemma persist_lifecycle_steps:
  assumes r: "reads P db m c" and e: "o_status m = expected \<Longrightarrow> opp_edit m (m\<lparr>o_status := o_status c, o_end := o_end c,
      o_before_void := o_before_void c, updated_by := updated_by c, version := version m + 1, updated_at := datetime3 (op_now s)\<rparr>)"
  shows "ok (persist_lifecycle s p c before v reason expected operation db) (\<lambda>(db', x). steps P db db')"
  unfolding persist_lifecycle_def
proof (intro ok_intro, goal_cases)
  case (1 x db1 c1 db2)
  note w = update_lifecycle_written [OF 1(1) [unfolded 1(2)] r]
  then have "steps P db db1" by (intro steps_edit [OF _ refl refl r e]) auto
  then show ?case using 1(3) by (simp add: steps_then)
qed

lemma void_opportunity_steps:
  assumes "opps_ok (view_of db)"
  shows "ok (void_opportunity s p i v reason db) (\<lambda>(db', r). steps (in_scope p) db db')"
  unfolding void_opportunity_def
proof (intro ok_intro, goal_cases)
  case (1 q m bl x db' c')
  have m: "m \<in> set (rows (opportunities db))" "is_opp (p_tenant q) i m" using find_opportunity_row [OF 1(2)] by (simp_all add: is_opp_def)
  have "o_contract m = None \<or> o_contract m = Some []"
    using 1(6,7) m by (auto simp: void_blockers_def exists_row_iff split: if_splits)
  with 1(3) have "o_status m = o_status m \<Longrightarrow> opp_edit m (m\<lparr>o_status := StatusVoid, o_end := Some e,
      o_before_void := Some (o_status m), updated_by := u, version := version m + 1, updated_at := t\<rparr>)" for e u t
    by (intro opp_edit.void)
  from okD [OF persist_lifecycle_steps [OF found_reads [OF 1(2) assms]], OF _ _ _ 1(8)] this 1(9) require_same [OF 1(1)] show ?case by simp
qed

lemma restore_opportunity_steps:
  assumes "opps_ok (view_of db)"
  shows "ok (restore_opportunity s p i v reason db) (\<lambda>(db', r). steps (in_scope p) db db')"
  unfolding restore_opportunity_def
proof (intro ok_intro, goal_cases)
  case (1 q m x db' c')
  have "o_status m = StatusVoid \<Longrightarrow> opp_edit m (m\<lparr>o_status := restored_status m, o_end := None,
      o_before_void := None, updated_by := u, version := version m + 1, updated_at := t\<rparr>)" for u t
    by (intro opp_edit.restore)
  from okD [OF persist_lifecycle_steps [OF found_reads [OF 1(2) assms]], OF _ _ _ 1(6)] this 1(7) require_same [OF 1(1)] show ?case by simp
qed

text \<open>The owner.\<close>

lemma create_events_quiet:
  assumes "create_events es db = Inr db'" "\<forall>e \<in> set es. ev_type e \<noteq> ''OPPORTUNITY_SIGNED''"
  shows "view_of db' = view_of db"
  using assms unfolding create_events_def
  by (elim fold_res_invariant [where P = "\<lambda>d. view_of d = view_of db"])
     (auto dest!: create_event_view simp: signed_events_def is_signed_event_def view_of_def)

lemma owner_events_type: "e \<in> set (owner_notification_events s tenant m a b v) \<Longrightarrow> ev_type e \<noteq> ''OPPORTUNITY_SIGNED''"
  by (auto simp: owner_notification_events_def new_opp_event_def Let_def split: if_splits)

lemma change_owner_tx_steps:
  assumes r: "reads P db m c"
  shows "ok (change_owner_tx s p old c v key hash reason db) (\<lambda>(db', x). steps P db db')"
  unfolding change_owner_tx_def
proof (intro ok_intro, goal_cases)
  case (1 u x db1 c1 db2 db3)
  note w = update_owner_written [OF 1(2) [unfolded 1(3)] r]
  then have "steps P db db1" by (intro steps_edit [OF _ refl refl r opp_edit.owner]) auto
  moreover have "view_of db2 = view_of db1" using create_events_quiet [OF 1(4)] by (auto dest: owner_events_type)
  moreover have "view_of db3 = view_of db2" using 1(5) by (auto dest!: quiet_writes)
  ultimately show ?case by (simp add: steps_then)
qed

lemma change_owner_of_steps:
  assumes "opps_ok (view_of db)"
  shows "ok (change_owner_of s p i ow org v key reason db) (\<lambda>(db', r). steps (in_scope p) db db')"
  unfolding change_owner_of_def
proof (intro ok_intro, goal_cases)
  case (4 hash m x db' c')
  from okD [OF change_owner_tx_steps [OF found_reads [OF 4(3) assms]] 4(7)] 4(8) show ?case by simp
qed (auto dest!: quiet_writes intro: steps_quiet)

lemma change_owner_steps:
  assumes "opps_ok (view_of db)"
  shows "ok (change_owner s p i inp db) (\<lambda>(db', r). steps (in_scope p) db db')"
  unfolding change_owner_def by (intro ok_intro) (auto dest!: require_same intro: change_owner_of_steps assms)

text \<open>Moves between stages, with their log and evidence.\<close>

lemma create_stage_log_view:
  assumes "create_stage_log l db = Inr db'"
  obtains l' where "view_of db' = (view_of db)\<lparr>vw_logs := vw_logs (view_of db) @ [l']\<rparr>" "\<And>m m'. log_of m m' l' = log_of m m' l"
proof (rule that)
  let ?l = "fst (insert_row (l\<lparr>sg_at := datetime3 (sg_at l)\<rparr>) (stage_logs db))"
  show "view_of db' = (view_of db)\<lparr>vw_logs := vw_logs (view_of db) @ [?l]\<rparr>"
    using assms by (auto simp: create_stage_log_def view_of_def split: if_splits)
  show "log_of m m' ?l = log_of m m' l" for m m' by (simp add: log_of_def insert_row_def)
qed

lemma save_win_view:
  assumes "save_win_confirmation s c w db = Inr db'" and ids: "row_id m' = row_id c" "tenant_id m' = tenant_id c"
    "o_customer m' = o_customer c" "version m' = version c"
  obtains ws where "view_of db' = (view_of db)\<lparr>vw_wins := vw_wins (view_of db) @ ws\<rparr>" "adds_wins m' (vw_wins (view_of db)) ws"
    "ws \<noteq> [] \<longleftrightarrow> w \<noteq> None"
proof (cases w)
  case None
  with assms(1) have "db' = db" by (simp add: save_win_confirmation_def)
  with None show ?thesis by (intro that [of "[]"]) (simp_all add: adds_wins_def)
next
  case (Some e)
  let ?e = "e\<lparr>tenant_id := tenant_id c, wc_opp := row_id c, wc_customer := o_customer c, wc_version := version c,
      wc_by := updated_by c, wc_at := op_now s, wc_request := op_trace s\<rparr>"
  let ?w = "fst (insert_row (?e\<lparr>wc_amount := of_cents (cents (wc_amount ?e))\<rparr>) (win_confirmations db))"
  have "create_win_confirmation ?e db = Inr db'" using assms(1) Some by (simp add: save_win_confirmation_def)
  then have "\<not> list_ex (win_of m') (rows (win_confirmations db))" and v: "view_of db' = (view_of db)\<lparr>vw_wins := vw_wins (view_of db) @ [?w]\<rparr>"
    using ids by (auto simp: create_win_confirmation_def view_of_def exists_row_iff list_ex_iff win_of_def split: if_splits)
  then have "adds_wins m' (vw_wins (view_of db)) [?w]" using ids by (simp add: adds_wins_def win_of_def insert_row_def)
  with v Some show ?thesis by (intro that [of "[?w]"]) simp_all
qed

text \<open>The row that a stage write of \<open>c\<close> leaves in place of \<open>m\<close>.\<close>

definition staged :: "opportunity \<Rightarrow> opportunity \<Rightarrow> instant \<Rightarrow> opportunity" where
  "staged c m now =
     m\<lparr>o_stage := o_stage c, o_status := o_status c, o_contract := o_contract c, o_lost := o_lost c, o_pending := o_pending c,
       o_stage_at := datetime3 (o_stage_at c), o_external_at := map_option datetime3 (o_external_at c), updated_by := updated_by c,
       version := version m + 1, updated_at := datetime3 now\<rparr>"

lemma staged_same [simp]:
  "row_id (staged c m now) = row_id m" "tenant_id (staged c m now) = tenant_id m" "o_customer (staged c m now) = o_customer m"
  "version (staged c m now) = Suc (version m)" "o_stage (staged c m now) = o_stage c" "o_contract (staged c m now) = o_contract c"
  "o_lost (staged c m now) = o_lost c" "o_pending (staged c m now) = o_pending c"
  by (simp_all add: staged_def)

definition move_ok :: "stage \<Rightarrow> string option \<Rightarrow> string option \<Rightarrow> pending_type \<Rightarrow> bool \<Rightarrow> bool" where
  "move_ok st contract lost pending w \<longleftrightarrow>
     st \<in> set open_stages \<and> \<not> w \<or>
     st = StageSigned \<and> (pending = PendingNone \<and> backed contract w \<or>
       (pending = PendingContract \<or> pending = PendingWinEvidence) \<and> contract = None \<and> \<not> w) \<or>
     st = StageFailed \<and> (pending = PendingNone \<and> lost \<noteq> None \<or> pending = PendingLostReason) \<and> \<not> w"

lemma apply_stage_same [simp]:
  "row_id (apply_stage st c l pd at act m) = row_id m" "tenant_id (apply_stage st c l pd at act m) = tenant_id m"
  "o_customer (apply_stage st c l pd at act m) = o_customer m" "version (apply_stage st c l pd at act m) = version m"
  "o_stage (apply_stage st c l pd at act m) = st"
  by (simp_all add: apply_stage_def Let_def)

lemma apply_stage_move:
  assumes "move_ok st contract lost pd w" "o_status m = StatusFollowing"
    and c: "c = apply_stage st contract lost pd at act m \<or> c = (apply_stage st contract lost pd at act m)\<lparr>o_external_at := ea\<rparr>"
  shows "stage_move m (staged c m now) w"
proof -
  consider (running) "st \<in> set open_stages" "\<not> w"
    | (signed) "st = StageSigned" "pd = PendingNone \<and> backed contract w \<or> (pd = PendingContract \<or> pd = PendingWinEvidence) \<and> contract = None \<and> \<not> w"
    | (failed) "st = StageFailed" "pd = PendingNone \<and> lost \<noteq> None \<or> pd = PendingLostReason" "\<not> w"
    using assms(1) by (auto simp: move_ok_def)
  then show ?thesis
  proof cases
    case running
    then have "st \<noteq> StageSigned" "st \<noteq> StageFailed" by (auto simp: open_stages_def)
    with c running show ?thesis
      using stage_move.advance [OF assms(2) running(1)] by (auto simp: staged_def apply_stage_def Let_def)
  next
    case signed
    with c show ?thesis using stage_move.sign [OF assms(2) signed(2)] by (auto simp: staged_def apply_stage_def Let_def)
  next
    case failed
    with c show ?thesis using stage_move.fail [OF assms(2) failed(2)] by (auto simp: staged_def apply_stage_def Let_def)
  qed
qed

lemma stage_steps:
  assumes r: "reads P db m c" and cust: "o_customer c = o_customer m" and mv: "stage_move m (staged c m now) (w \<noteq> None)" and l: "log_of m c l"
    and up: "update_stage now c v db = Inr (db1, c1)" and lg: "create_stage_log l db1 = Inr db2"
    and win: "save_win_confirmation s c1 w db2 = Inr db3" and rest: "view_of db' = view_of db3"
  shows "steps P db db'"
proof -
  note u = update_stage_written [OF up r, folded staged_def]
  have v: "version c1 = Suc (version m)" "row_id c1 = row_id m" "tenant_id c1 = tenant_id m" "o_customer c1 = o_customer m"
    using u r cust by (auto simp: reads_def)
  obtain l' where l': "view_of db2 = (view_of db1)\<lparr>vw_logs := vw_logs (view_of db1) @ [l']\<rparr>" "\<And>m m'. log_of m m' l' = log_of m m' l"
    using create_stage_log_view [OF lg] by blast
  obtain ws where ws: "view_of db3 = (view_of db2)\<lparr>vw_wins := vw_wins (view_of db2) @ ws\<rparr>"
      "adds_wins (staged c m now) (vw_wins (view_of db2)) ws" "ws \<noteq> [] \<longleftrightarrow> w \<noteq> None"
    using save_win_view [OF win, of "staged c m now"] v by auto
  have one: "view_of db1 = (view_of db)\<lparr>vw_opps := put_opp (staged c m now) (vw_opps (view_of db))\<rparr>"
    using u by (simp add: written_def staged_def)
  have v: "view_of db' = (view_of db)\<lparr>vw_opps := put_opp (staged c m now) (vw_opps (view_of db)),
      vw_logs := vw_logs (view_of db) @ [l'], vw_wins := vw_wins (view_of db) @ ws\<rparr>"
    unfolding rest ws(1) l'(1) one by simp
  have "opp_effect (view_of db) (view_of db')"
    unfolding v
  proof (rule opp_effect.stage)
    show "m \<in> set (rows (vw_opps (view_of db)))" using reads_row [OF r] by simp
    show "stage_move m (staged c m now) (ws \<noteq> [])" using mv ws(3) by simp
    show "log_of m (staged c m now) l'" using l l'(2) by (simp add: log_of_def)
    show "adds_wins (staged c m now) (vw_wins (view_of db)) ws" using ws(2) unfolding l'(1) one by simp
  qed
  moreover have "vw_opps (view_of db') = put_opp (staged c m now) (vw_opps (view_of db))" unfolding v by (simp del: view_of_simps)
  ultimately show ?thesis by (rule steps_put [OF _ _ r]) simp
qed

end
