(* ===== verification/OpportunityCommands.thy ===== *)
theory OpportunityCommands
  imports OpportunityRefinement
begin

text \<open>
  The remaining commands of the opportunity module as steps of the machine: the moves between
  stages, the transfer to the contract system and its callback, the team, the catalog. Then
  all commands together: the reachable databases and what holds of them.
\<close>

lemma ok_case_bool [ok_intro]: "(b \<Longrightarrow> ok x P) \<Longrightarrow> (\<not> b \<Longrightarrow> ok y P) \<Longrightarrow> ok (case b of True \<Rightarrow> x | False \<Rightarrow> y) P"
  by (cases b) simp_all

section \<open>Stage moves\<close>

lemma validated_following: "validate_stage_change m target = Inr u \<Longrightarrow> o_status m = StatusFollowing"
  by (cases "o_status m") (simp_all add: validate_stage_change_def)

lemma stage_kinds: "st \<in> set open_stages \<or> st = StageSigned \<or> st = StageFailed"
  by (cases st) (simp_all add: open_stages_def)

lemma closing_stages [simp]: "StageSigned \<notin> set open_stages" "StageFailed \<notin> set open_stages"
  by (simp_all add: open_stages_def)

lemma prepared_win_backs:
  "prepare_win_confirmation s m contract inp = Inr w \<Longrightarrow> backed (if w = None then contract else None) (w \<noteq> None)"
  by (auto simp: prepare_win_confirmation_def backed_def blank_def split: if_splits option.splits sum.splits)

lemma persist_stage_steps:
  assumes r: "reads P db m c" and cust: "o_customer c = o_customer m" and mv: "stage_move m (staged c m (op_now s)) (w \<noteq> None)"
    and l: "log_of m c l"
  shows "ok (persist_stage s p c before v l w db) (\<lambda>(db', x). steps P db db')"
  unfolding persist_stage_def
proof (intro ok_intro, goal_cases)
  case (1 x db1 c1 db2 db3 db4)
  then show ?case using stage_steps [OF r cust mv l, of v db1 c1 db2 s db3 "audit_opp s p ''STAGE_CHANGE'' (row_id c) (Some (SnapResponse before))
    (Some (win_snapshot c1 w)) (sg_reason l) db4"] by auto
qed

lemma new_log_of: "tenant_id m = p_tenant p \<Longrightarrow> row_id c = row_id m \<Longrightarrow> log_of m c (new_stage_log s p (o_stage m) c src sid reason oper)"
  by (simp add: log_of_def new_stage_log_def)

lemma found_tenant: "find_opportunity p i db = Inr m \<Longrightarrow> tenant_id m = p_tenant p"
  by (simp add: find_opportunity_row)

lemma change_stage_steps:
  assumes "opps_ok (view_of db)"
  shows "ok (change_stage s p i inp db) (\<lambda>(db', r). steps (in_scope p) db db')"
  unfolding change_stage_def
proof (intro ok_intro, goal_cases)
  case (1 q0 target m u w contract m1 x db' m2)
  have q: "q0 = p" using require_same [OF 1(1)] .
  have w: "move_ok target contract (sc_lost inp) PendingNone (w \<noteq> None)"
  proof -
    consider "target \<in> set open_stages" | "target = StageSigned" | "target = StageFailed" using stage_kinds by blast
    then show ?thesis
    proof cases
      case 2
      then show ?thesis using 1 prepared_win_backs [of s m "sc_contract inp" "sc_evidence inp" w] by (simp add: move_ok_def)
    qed (use 1 in \<open>auto simp: move_ok_def valid_lost_reason_def split: if_splits option.splits\<close>)
  qed
  have "stage_move m (staged m1 m (op_now s)) (w \<noteq> None)"
    using apply_stage_move [OF w validated_following] 1 by blast
  moreover have "reads (in_scope p) db m m1" using 1 assms q by (auto intro: found_reads)
  moreover have "log_of m m1 (new_stage_log s q0 (o_stage m) m1 ''MANUAL'' (op_trace s) (trim_space (sc_reason inp)) (p_user q0))"
    using 1 by (intro new_log_of) (auto dest: found_tenant)
  ultimately show ?case using okD [OF persist_stage_steps] 1 q by fastforce
qed

section \<open>What a terminal stage lacked\<close>

lemma completed_todo_move:
  assumes "completed_todo s inp m = Inr (w, m0)" "o_status m \<noteq> StatusVoid"
  shows "todo_move m (m\<lparr>o_contract := o_contract m0, o_lost := o_lost m0, o_pending := o_pending m0, updated_by := u,
      version := version m + 1, updated_at := t\<rparr>) (w \<noteq> None) \<and> row_id m0 = row_id m \<and> tenant_id m0 = tenant_id m \<and> o_customer m0 = o_customer m"
proof (cases "o_pending m = PendingContract \<or> o_pending m = PendingWinEvidence")
  case True
  then have st: "o_stage m = StageSigned" and w: "prepare_win_confirmation s m (tt_contract inp) (tt_evidence inp) = Inr w"
    and m0: "m0 = m\<lparr>o_contract := (if w = None then normalized_optional (tt_contract inp) else None), o_pending := PendingNone\<rparr>"
    using assms(1) by (auto simp: completed_todo_def split: if_splits sum.splits)
  have "backed (o_contract m0) (w \<noteq> None)"
    using prepared_win_backs [OF w] m0 by (auto simp: backed_def blank_def normalized_optional_def split: if_splits option.splits)
  from todo_move.win [OF assms(2) st True this] m0 show ?thesis by simp
next
  case False
  then have "o_pending m = PendingLostReason" "o_stage m = StageFailed" "valid_lost_reason (tt_lost inp)" "w = None"
    and m0: "m0 = m\<lparr>o_lost := map_option trim_space (tt_lost inp), o_pending := PendingNone\<rparr>"
    using assms(1) by (auto simp: completed_todo_def split: if_splits)
  moreover from this have "o_lost m0 \<noteq> None" by (auto simp: valid_lost_reason_def split: option.splits)
  ultimately show ?thesis using todo_move.loss [OF assms(2), of "o_lost m0"] by simp
qed

lemma complete_terminal_todo_steps:
  assumes "opps_ok (view_of db)"
  shows "ok (complete_terminal_todo s p i inp db) (\<lambda>(db', r). steps (in_scope p) db db')"
  unfolding complete_terminal_todo_def
proof (intro ok_intro, goal_cases)
  case (1 q m x w m0 m1 y db1 m2 db2 db3)
  let ?m' = "m\<lparr>o_contract := o_contract m0, o_lost := o_lost m0, o_pending := o_pending m0, updated_by := p_user q,
      version := version m + 1, updated_at := datetime3 (op_now s)\<rparr>"
  note t = completed_todo_move [OF _ 1(4), where s = s and inp = inp and w = w and ?m0.0 = m0 and u = "p_user q" and t = "datetime3 (op_now s)"]
  have c: "todo_move m ?m' (w \<noteq> None)" "row_id m0 = row_id m" "tenant_id m0 = tenant_id m" "o_customer m0 = o_customer m"
    using t 1 by auto
  have r: "reads (in_scope q) db m m1" using 1 assms c by (auto intro: found_reads)
  have m1: "m1 = m0\<lparr>updated_by := p_user q\<rparr>" using 1 by simp
  note u = update_terminal_todo_written [OF _ r, of "op_now s" "tt_version inp" db1 m2]
  have u': "version m = tt_version inp" "m2 = m1\<lparr>version := version m + 1\<rparr>" "written db ?m' db1"
    using u 1 m1 by auto
  obtain ws where ws: "view_of db2 = (view_of db1)\<lparr>vw_wins := vw_wins (view_of db1) @ ws\<rparr>"
      "adds_wins ?m' (vw_wins (view_of db1)) ws" "ws \<noteq> [] \<longleftrightarrow> w \<noteq> None"
    using save_win_view [of s m2 w db1 db2 ?m'] 1 u'(2) m1 c by auto
  have one: "view_of db1 = (view_of db)\<lparr>vw_opps := put_opp ?m' (vw_opps (view_of db))\<rparr>" using u'(3) by (simp add: written_def)
  have "view_of db3 = view_of db2" using 1 by simp
  then have v: "view_of db3 = (view_of db)\<lparr>vw_opps := put_opp ?m' (vw_opps (view_of db)), vw_wins := vw_wins (view_of db) @ ws\<rparr>"
    using ws(1) one by simp
  have "opp_effect (view_of db) (view_of db3)"
    unfolding v using c(1) ws(2,3) reads_row [OF r] unfolding one by (intro opp_effect.todo) simp_all
  moreover have "vw_opps (view_of db3) = put_opp ?m' (vw_opps (view_of db))" unfolding v by (simp del: view_of_simps)
  ultimately have "steps (in_scope q) db db3" by (rule steps_put [OF _ _ r]) simp
  then show ?case using require_same [OF 1(1)] by simp
qed

section \<open>Callbacks of the quotation and bid system\<close>

lemma normalized_blank: "blank (normalized_optional v) \<longleftrightarrow> normalized_optional v = None"
  by (auto simp: blank_def normalized_optional_def split: option.splits)

lemma normalized_external:
  assumes "normalize_external s inp0 = Inr (inp, amount)"
  shows "blank (es_contract inp) \<longleftrightarrow> es_contract inp = None" "blank (es_lost inp) \<longleftrightarrow> es_lost inp = None"
proof -
  have "es_contract inp = normalized_optional (es_contract inp0) \<and> es_lost inp = normalized_optional (es_lost inp0)"
    using assms by (auto simp: normalize_external_def Let_def split: if_splits option.splits)
  then show "blank (es_contract inp) \<longleftrightarrow> es_contract inp = None" "blank (es_lost inp) \<longleftrightarrow> es_lost inp = None"
    by (simp_all add: normalized_blank)
qed

lemma external_target_move:
  assumes "external_target s inp = Some (st, pending, contract)" "blank (es_contract inp) \<longleftrightarrow> es_contract inp = None"
    "blank (es_lost inp) \<longleftrightarrow> es_lost inp = None"
  shows "move_ok st contract (es_lost inp) pending False"
  using assms
  by (auto simp: external_target_def map_external_status_def move_ok_def backed_def open_stages_def split: if_splits option.splits)

lemma create_external_link_view: "create_external_link x db = Inr db' \<Longrightarrow> view_of db' = view_of db"
  by (rule quiet_writes)

lemma persist_external_steps:
  assumes r: "reads P db m c" and cust: "o_customer c = o_customer m" and mv: "stage_move m (staged c m (op_now s)) False"
    and l: "log_of m c l"
  shows "ok (persist_external_stage s p c before v l x db) (\<lambda>(db', r). steps P db db')"
  unfolding persist_external_stage_def
proof (intro ok_intro, goal_cases)
  case (1 y db1 c1 db2 db3 db4)
  have "view_of (audit_opp s p ''EXTERNAL_STATUS_APPLY'' (row_id c) (Some (SnapResponse before)) (Some (SnapResponse (to_response c1))) [] db4) = view_of db2"
    using 1 by (auto dest!: create_external_link_view)
  then show ?case
    using stage_steps [OF r cust _ l, where w = None and now = "op_now s" and v = v and ?db1.0 = db1 and ?c1.0 = c1 and ?db2.0 = db2 and ?db3.0 = db2 and s = s] mv 1
    by (auto simp: save_win_confirmation_def)
qed

lemma apply_external_to_steps:
  assumes r: "find_opportunity (tenant_wide p) i db = Inr m" and v: "opps_ok (view_of db)" and live: "o_status m \<noteq> StatusVoid"
    and n: "blank (es_contract inp) \<longleftrightarrow> es_contract inp = None" "blank (es_lost inp) \<longleftrightarrow> es_lost inp = None"
  shows "steps (in_scope (tenant_wide p)) db (fst (apply_external_to s p inp amount m db))"
proof -
  have "steps (in_scope (tenant_wide p)) db db'"
    if t: "external_target s inp = Some (st, pending, contract)" and c: "o_status m \<noteq> StatusClosed"
      and m1: "m1 = (apply_stage st contract (es_lost inp) pending (es_at inp) (p_user p) m)\<lparr>o_external_at := Some (es_at inp)\<rparr>"
      and run: "persist_external_stage s p m1 (to_response m) (version m)
        (new_stage_log s p (o_stage m) m1 ''QB_CALLBACK'' (external_stage_source_id s (es_source inp) (es_status inp)) [] (p_user p))
        x db = Inr (db', m2)" for st pending contract m1 x db' m2
  proof -
    have "o_status m = StatusFollowing" using live c by (cases "o_status m") simp_all
    then have "stage_move m (staged m1 m (op_now s)) False"
      using apply_stage_move [OF external_target_move [OF t n]] m1 by blast
    moreover have "reads (in_scope (tenant_wide p)) db m m1" using m1 by (intro found_reads [OF r v]) simp_all
    moreover have "log_of m m1 (new_stage_log s p (o_stage m) m1 ''QB_CALLBACK''
        (external_stage_source_id s (es_source inp) (es_status inp)) [] (p_user p))"
      using m1 found_tenant [OF r] by (intro new_log_of) (simp_all add: tenant_wide_def)
    ultimately show ?thesis using okD [OF persist_external_steps run] m1 by simp
  qed
  then show ?thesis
    by (auto simp: apply_external_to_def Let_def steps_quiet split: option.splits sum.splits)
qed

lemma apply_external_status_steps:
  assumes "opps_ok (view_of db)"
  shows "steps (in_scope (tenant_wide p)) db (fst (apply_external_status s p inp db))"
proof -
  have "steps (in_scope (tenant_wide p)) db (fst (apply_external_to s p inp1 amount m db))"
    if "find_opportunity (tenant_wide p) (es_opp inp1) db = Inr m" "o_status m \<noteq> StatusVoid"
      "normalize_external s inp = Inr (inp1, amount)" for inp1 amount m
    by (rule apply_external_to_steps [OF that(1) assms that(2) normalized_external [OF that(3)]])
  then show ?thesis unfolding apply_external_status_def by (auto dest!: require_same split: sum.splits option.splits)
qed

section \<open>Signing a provisioned opportunity\<close>

lemma sign_provision_of_steps:
  assumes r: "find_opportunity p i db = Inr m" and v: "opps_ok (view_of db)" and f: "o_status m = StatusFollowing"
    and c: "trim_space (ps_contract inp) \<noteq> []"
  shows "ok (sign_provision_of s p i inp m db) (\<lambda>(db', x). steps (in_scope p) db db')"
  unfolding sign_provision_of_def
proof (intro ok_intro, goal_cases)
  case (2 belongs b m1 x db1 m2 resp)
  have w: "move_ok StageSigned (Some (ps_contract inp)) None PendingNone False"
    using c by (simp add: move_ok_def backed_def blank_def)
  have "stage_move m (staged m1 m (op_now s)) False"
    using apply_stage_move [OF w f] 2 by blast
  moreover have "reads (in_scope p) db m m1" using 2 by (intro found_reads [OF r v]) simp_all
  moreover have "log_of m m1 (new_stage_log s p (o_stage m) m1 ''IMPORT_PROVISION'' (provision_stage_source_id s (ps_contract inp))
      (provision_sign_reason (ps_reason inp)) (ps_actor inp))"
    using 2 found_tenant [OF r] by (intro new_log_of) simp_all
  ultimately show ?case using okD [OF persist_stage_steps [where w = None]] 2 by (fastforce simp: steps_then)
qed simp_all

lemma sign_provision_steps:
  assumes "opps_ok (view_of db)"
  shows "ok (sign_provision s p i inp db) (\<lambda>(db', r). steps (in_scope p) db db')"
  unfolding sign_provision_def
proof (intro ok_intro, goal_cases)
  case (2 q inp1 u m w)
  have "trim_space (ps_contract inp1) \<noteq> []"
    using 2 by (auto simp: validate_provision_sign_def normalize_provision_sign_def Let_def split: if_splits)
  with 2 require_same [OF 2(1)] show ?case by (auto intro!: sign_provision_of_steps assms dest: validated_following)
qed simp

section \<open>Transfer and link\<close>

lemma transfer_event_entry:
  "i = row_id m \<Longrightarrow> tenant = tenant_id m \<Longrightarrow> v = version m \<Longrightarrow>
     signed_events [new_opp_event s tenant eid ''OPPORTUNITY_SIGNED'' i
       (ContractSigned i (o_no m) (o_customer m) (case o_contract m of None \<Rightarrow> [] | Some c \<Rightarrow> trim_space c) (string_fixed2 (o_amount m)) v (op_now s))] =
     [signed_entry m (op_now s)]"
  by (simp add: signed_events_def is_signed_event_def new_opp_event_def signed_entry_def)

lemma contract_transfer_tx_steps: "ok (contract_transfer_tx s p i v key reason db) (\<lambda>(db', r). steps (in_scope p) db db')"
  unfolding contract_transfer_tx_def
proof (intro ok_intro, goal_cases)
  case (1 hash m eid r db1 db2)
  note m = find_opportunity_row [OF 1(3)]
  have "\<not> list_ex (signed_of m) (vw_signed (view_of db))"
    using 1(5) m by (simp add: transfer_accepted_view signed_of_def list_ex_iff)
  then have "opp_effect (view_of db) ((view_of db)\<lparr>vw_signed := vw_signed (view_of db) @ [signed_entry m (op_now s)]\<rparr>)"
    using 1 m by (intro opp_effect.transfer) auto
  moreover have "view_of db2 = (view_of db)\<lparr>vw_signed := vw_signed (view_of db) @ [signed_entry m (op_now s)]\<rparr>"
    using 1 m transfer_event_entry [of i m "p_tenant p" v] by (auto dest!: create_event_view quiet_writes)
  moreover from this have "opportunities db2 = opportunities db" by (auto simp: view_of_def)
  ultimately have "opp_effect (view_of db) (view_of db2)" "opportunities db2 = opportunities db" by metis+
  then have "steps (in_scope p) db db2" by (simp add: steps_def)
  then show ?case by (simp add: steps_then)
qed simp_all

lemma contract_transfer_steps: "ok (contract_transfer s p i inp db) (\<lambda>(db', r). steps (in_scope p) db db')"
  unfolding contract_transfer_def by (intro ok_intro) (auto dest!: require_same intro: contract_transfer_tx_steps)

lemma contract_link_tx_steps:
  assumes v: "opps_ok (view_of db)" and n: "trim_space (ki_number inp) \<noteq> []" "st \<noteq> LinkPending"
  shows "ok (contract_link_tx s p i inp st db) (\<lambda>(db', r). steps (in_scope p) db db')"
  unfolding contract_link_tx_def
proof (intro ok_intro, goal_cases)
  case (1 m hash x db1 m1 db2)
  let ?c = "linked_contract inp st (p_user p) m"
  have r: "reads (in_scope p) db m ?c" using found_reads [OF 1(1) v] by (simp add: linked_contract_def)
  note u = update_contract_link_written [OF 1(6) [unfolded 1(7)] r]
  obtain c where c: "o_contract m = Some c" "trim_space c = ki_number inp" using 1(4) by auto
  with n have "trim_space c \<noteq> []" by auto
  then have "steps (in_scope p) db db1"
    using u 1(5) by (intro steps_edit [OF _ refl refl r opp_edit.link [OF _ c(1)]]) (auto simp: linked_contract_def n)
  then show ?case using 1(8) by (auto intro: steps_then dest!: quiet_writes)
qed (auto simp: ok_def split: change_response.splits)

lemma link_status_not_pending: "link_status_of v = Some st \<Longrightarrow> st \<noteq> LinkPending"
  by (auto simp: link_status_of_def split: if_splits)

lemma contract_link_callback_steps:
  assumes "opps_ok (view_of db)"
  shows "ok (contract_link_callback s p i inp db) (\<lambda>(db', r). steps (in_scope p) db db')"
  unfolding contract_link_callback_def
proof (intro ok_intro, goal_cases)
  case (1 q inp1 st)
  with require_same [OF 1(1)] show ?case by (auto intro!: contract_link_tx_steps assms simp: trim_link_input_def dest: link_status_not_pending)
qed

section \<open>The team\<close>

text \<open>Writes that change the team alone.\<close>

definition team_only :: "opp_db \<Rightarrow> opp_db \<Rightarrow> bool" where
  "team_only db db' \<longleftrightarrow> view_of db' = (view_of db)\<lparr>vw_team := (members db', member_terms db')\<rparr>"

lemma team_only_refl: "team_only db db"
  by (simp add: team_only_def view_of_def)

lemma team_only_trans: "team_only db db1 \<Longrightarrow> team_only db1 db2 \<Longrightarrow> team_only db db2"
  by (simp add: team_only_def)

lemma team_writes:
  "close_member_term tenant i u act at db = Inr db' \<Longrightarrow> team_only db db'"
  "create_member_term b role act at db = Inr db' \<Longrightarrow> team_only db db'"
  "team_only db (update_member tenant i f db)"
  by (auto simp: close_member_term_def create_member_term_def update_member_def team_only_def view_of_def Let_def split: if_splits)

lemma replace_one_team: "ok (replace_one m now desired b db) (team_only db)"
  unfolding replace_one_def
proof (intro ok_intro, goal_cases)
  case (1 db1)
  then show ?case by (meson team_only_trans team_writes)
next
  case 2
  show ?case by (rule team_only_refl)
next
  case (3 d db1 db2)
  then have "team_only db db1" by (auto simp: team_only_refl dest: team_writes(1) split: if_splits)
  with 3(3) have "team_only db db2" by (blast intro: team_only_trans team_writes(3))
  then show ?case by (auto simp: ok_def dest: team_writes(2) intro: team_only_trans)
next
  case (4 d db1 db2)
  then have "team_only db db1" by (auto simp: team_only_refl dest: team_writes(1) split: if_splits)
  with 4(3) show ?case by (blast intro: team_only_trans team_writes(3))
qed

lemma add_member_team: "ok (add_member m now d db) (team_only db)"
proof -
  have "team_only db (db\<lparr>members := t\<rparr>)" for t by (simp add: team_only_def view_of_def)
  then show ?thesis unfolding add_member_def by (auto simp: ok_def intro: team_only_trans dest: team_writes(2) split: if_splits prod.splits)
qed

lemma replace_member_rows_steps:
  assumes r: "reads P db m c"
  shows "ok (replace_member_rows order c v desired now db) (\<lambda>(db', x). steps P db db')"
  unfolding replace_member_rows_def
proof (intro ok_intro, goal_cases)
  case (1 db1 current db2 fresh db3)
  note w = opp_write_hit [OF 1(1) r]
  have w: "o_status m \<noteq> StatusVoid" "view_of db1 = (view_of db)\<lparr>vw_opps := put_opp (m\<lparr>updated_by := updated_by c,
      version := version m + 1, updated_at := datetime3 now\<rparr>) (vw_opps (view_of db))\<rparr>"
    using w by (auto simp: at_version_def is_opp_def written_def)
  have "team_only db1 db2"
    using 1(3) by (rule fold_res_invariant) (auto intro: team_only_trans team_only_refl okD [OF replace_one_team])
  moreover have "team_only db2 db3"
    using 1(5) by (rule fold_res_invariant) (auto intro: team_only_trans team_only_refl okD [OF add_member_team])
  ultimately have "view_of db3 = (view_of db1)\<lparr>vw_team := (members db3, member_terms db3)\<rparr>" by (simp add: team_only_def)
  then have v: "view_of db3 = (view_of db)\<lparr>vw_opps := put_opp (m\<lparr>updated_by := updated_by c, version := version m + 1,
      updated_at := datetime3 now\<rparr>) (vw_opps (view_of db)), vw_team := (members db3, member_terms db3)\<rparr>" using w(2) by simp
  have "opp_effect (view_of db) (view_of db3)"
    unfolding v using w(1) reads_row [OF r] by (intro opp_effect.team) simp_all
  moreover have "vw_opps (view_of db3) = put_opp (m\<lparr>updated_by := updated_by c, version := version m + 1,
      updated_at := datetime3 now\<rparr>) (vw_opps (view_of db))" unfolding v by (simp del: view_of_simps)
  ultimately show ?case by (auto intro: steps_put [OF _ _ r])
qed

lemma replace_members_tx_steps:
  assumes r: "reads P db m c"
  shows "ok (replace_members_tx s p c v current desired added reason db) (\<lambda>(db', x). steps P db db')"
  unfolding replace_members_tx_def
  by (intro ok_intro) (auto dest: okD [OF replace_member_rows_steps [OF r]] intro: steps_then)

lemma replace_members_steps:
  assumes "opps_ok (view_of db)"
  shows "ok (replace_members s p i inp v reason db) (\<lambda>(db', r). steps (in_scope p) db db')"
  unfolding replace_members_def
proof (intro ok_intro, goal_cases)
  case (2 q desired u m current added w x db' m')
  have "reads (in_scope q) db m m" using 2 assms by (auto intro: found_reads)
  from okD [OF replace_members_tx_steps [OF this]] 2 require_same [OF 2(1)] show ?case by fastforce
qed simp

section \<open>The catalog and the alert rules\<close>

text \<open>
  The batches of the projection do the work of one pass: they are the list cut in pieces, a
  batch changes nothing a label depends on, and a label that is written twice is the same.
\<close>

lemma concat_split_batches: "0 < n \<Longrightarrow> concat (split_batches n xs) = xs"
proof (induction n xs rule: split_batches.induct)
  case (1 n xs)
  show ?case using 1 by (subst split_batches.simps) auto
qed

lemma linked_items_batch [simp]: "linked_items tenant opp k (apply_projection_batch tenant' k' ids db) = linked_items tenant opp k db"
  by (simp add: linked_items_def apply_projection_batch_def)

lemma set_label_same [simp]:
  "row_id (set_label k l x) = row_id x" "tenant_id (set_label k l x) = tenant_id x" "set_label k l (set_label k l' x) = set_label k l x"
  by (simp_all add: set_label_def)

lemma batch_twice:
  "apply_projection_batch tenant k ys (apply_projection_batch tenant k xs db) = apply_projection_batch tenant k (xs @ ys) db"
proof -
  have "linked_items tenant i k (db\<lparr>opportunities := t\<rparr>) = linked_items tenant i k db" for i t by (simp add: linked_items_def)
  moreover have "map (\<lambda>x. if P' x then set_label k (lab x) x else x) (map (\<lambda>x. if P x then set_label k (lab x) x else x) rs) =
      map (\<lambda>x. if P x \<or> P' x then set_label k (lab x) x else x) rs"
    if "\<And>x l. lab (set_label k l x) = lab x" "\<And>x l. P' (set_label k l x) = P' x" for P P' lab and rs :: "opportunity list"
    using that by (induction rs) auto
  from this [where P = "\<lambda>x. tenant_id x = tenant \<and> row_id x \<in> set xs" and P' = "\<lambda>x. tenant_id x = tenant \<and> row_id x \<in> set ys"
      and lab = "\<lambda>x. join_catalog_names (linked_items tenant (row_id x) k db)"]
  show ?thesis using calculation by (simp add: apply_projection_batch_def update_rows_def conj_disj_distribL [symmetric] del: map_map)
qed

lemma batch_none: "apply_projection_batch tenant k [] db = db"
  by (simp add: apply_projection_batch_def update_rows_def)

lemma batches_concat: "fold (apply_projection_batch tenant k) bs (apply_projection_batch tenant k xs db) = apply_projection_batch tenant k (xs @ concat bs) db"
  by (induction bs arbitrary: xs) (simp_all add: batch_twice)

lemma sync_projection_once:
  "sync_projection tenant item k db =
     apply_projection_batch tenant k (map cl_opp (filter (\<lambda>l. cl_tenant l = tenant \<and> cl_item l = item \<and> cl_kind l = k) (catalog_links db))) db"
  using batches_concat [where xs = "[]"]
  by (simp add: sync_projection_def batch_none concat_split_batches projection_batch_size_def)

lemma relabels_label: "relabels (\<lambda>x. if P x then set_label k (lab x) x else x)"
proof -
  have same: "x = x\<lparr>o_type := o_type x, o_source := o_source x\<rparr>" for x :: opportunity
    by (rule opportunity.equality) simp_all
  have source: "x\<lparr>o_source := l\<rparr> = x\<lparr>o_type := o_type x, o_source := l\<rparr>" for x :: opportunity and l
    by (rule opportunity.equality) simp_all
  have type: "x\<lparr>o_type := l\<rparr> = x\<lparr>o_type := l, o_source := o_source x\<rparr>" for x :: opportunity and l
    by (rule opportunity.equality) simp_all
  show ?thesis
    unfolding relabels_def set_label_def by (metis same source type)
qed

lemma projection_steps:
  assumes "view_of db1 = view_of db"
  shows "steps (\<lambda>x. tenant_id x = tenant) db (sync_projection tenant item k db1)"
proof -
  let ?P = "\<lambda>x. tenant_id x = tenant"
  have "steps ?P db1 (apply_projection_batch tenant k ids db1)" for ids
  proof -
    have "opp_effect (view_of db1) (view_of (apply_projection_batch tenant k ids db1))"
      using opp_effect.labels [OF relabels_label [of "\<lambda>x. tenant_id x = tenant \<and> row_id x \<in> set ids" k
        "\<lambda>x. join_catalog_names (linked_items tenant (row_id x) k db1)"], of "view_of db1"]
      by (simp add: apply_projection_batch_def update_rows_def view_of_def)
    then show ?thesis by (auto simp: steps_def apply_projection_batch_def update_rows_def image_iff)
  qed
  moreover have "steps ?P db d" if "steps ?P db1 d" for d
    using that assms by (simp add: steps_def del: view_of_simps)
  ultimately show ?thesis by (simp add: sync_projection_once)
qed

lemma view_catalog_audit [simp]: "view_of (catalog_audit s p oper i b a r db) = view_of db"
  by (simp add: catalog_audit_def)

lemma catalog_create_steps: "ok (catalog_create s p k name n key db) (\<lambda>(db', r). steps P db db')"
proof -
  have "ok (catalog_create_tx s q k names n key1 hash db) (\<lambda>(db', r). view_of db' = view_of db)" for q names key1 hash
    unfolding catalog_create_tx_def
  proof (intro ok_intro, goal_cases)
    case (2 db1 c db2 db3)
    have "view_of db1 = view_of db" by (rule ensure_defaults_quiet [OF 2(1)])
    moreover have "view_of db2 = view_of db1" by (rule quiet_writes(5) [OF 2(4)])
    moreover have "view_of db3 = view_of db2" using quiet_writes(7) [OF 2(5)] by simp
    ultimately show ?case by simp
  qed (auto simp: ok_def dest: ensure_defaults_quiet split: app_error.splits catalog_response.splits)
  then show ?thesis unfolding catalog_create_def by (intro ok_intro) (auto simp: ok_def steps_quiet)
qed

lemma catalog_update_steps: "ok (catalog_update s p i name n enabled v reason db) (\<lambda>(db', r). steps (\<lambda>x. tenant_id x = p_tenant p) db db')"
  unfolding catalog_update_def catalog_update_tx_def
proof (intro ok_intro, goal_cases)
  case (1 q names current c db1 db2)
  have v: "view_of db1 = view_of db" using 1 by (auto dest: quiet_writes)
  have "steps (\<lambda>x. tenant_id x = p_tenant p) db db2" using 1 require_same [OF 1(1)] projection_steps [OF v] steps_quiet [OF v] by (auto split: if_splits)
  then show ?case by (simp add: steps_then)
qed

lemma catalog_delete_steps: "ok (catalog_delete s p i v reason key db) (\<lambda>(db', r). steps P db db')"
proof -
  have "view_of (db\<lparr>catalog_items := t\<rparr>) = view_of db" for t by simp
  then show ?thesis
    unfolding catalog_delete_def catalog_delete_tx_def
    by (intro ok_intro) (auto simp: ok_def dest!: quiet_writes(7) split: catalog_response.splits intro!: steps_quiet)
qed

lemma catalog_list_steps: "ok (catalog_list s p k disabled db) (\<lambda>(db', r). steps P db db')"
  unfolding catalog_list_def by (intro ok_intro) (auto simp: ok_def dest: ensure_defaults_quiet intro: steps_quiet split: sum.splits)

lemma create_followup_steps: "ok (create_followup s p i typ content at next db) (\<lambda>(db', r). steps P db db')"
  unfolding create_followup_def
  by (intro ok_intro) (auto simp: ok_def create_followup_row_def Let_def intro!: steps_quiet split: prod.splits)

lemma update_alert_rule_steps: "ok (update_alert_rule s p st hours enabled v db) (\<lambda>(db', r). steps P db db')"
  unfolding update_alert_rule_def update_alert_rule_tx_def
  by (intro ok_intro) (auto dest!: quiet_writes(9) intro!: steps_quiet)

lemma mark_alert_read_steps: "ok (mark_alert_read s p i db) (steps P db)"
  unfolding mark_alert_read_def
  by (auto simp: ok_def Let_def intro!: steps_quiet split: if_splits option.splits sum.splits)

lemma retry_steps: "steps P db (fst (retry_failed_transfer tenant i db))"
  by (rule steps_quiet [OF view_retry])

end
