(* ===== verification/OpportunityOutside.thy ===== *)
theory OpportunityOutside
  imports OpportunityRefinement
begin

text \<open>
  What other modules do to the tables of the opportunity module: the merge of two customers
  (\<open>customer/merge.go\<close>, \<open>customer/merge_repository.go\<close>) moves the opportunities of the first
  to the second, and the handover of a leaver (\<open>handover/repository.go\<close>,
  \<open>handover/repository_transfers.go\<close>) gives an opportunity to another owner or a place in its
  team to another person. Here are the statements on opportunities, members and the log of
  merges; what the two modules check on their own tables first (the versions of the customers,
  the freeze of the leaver, receipts) is left out, so that these steps are possible more often
  than in the program.
\<close>

section \<open>Merging customers\<close>

definition ErrMergeBlocked :: app_error where
  "ErrMergeBlocked = AppError 409 ''CRM_CUSTOMER_MERGE_BLOCKED''"

text \<open>The SQL function \<open>TRIM\<close> removes spaces only.\<close>

definition sql_trim :: "string \<Rightarrow> string" where
  "sql_trim c = rev (dropWhile (\<lambda>x. x = CHR '' '') (rev (dropWhile (\<lambda>x. x = CHR '' '') c)))"

definition contracted_opportunities :: "string \<Rightarrow> nat \<Rightarrow> opp_db \<Rightarrow> nat" where
  "contracted_opportunities tenant source db =
     length (filter (\<lambda>x. tenant_id x = tenant \<and> o_customer x = source \<and> deleted_at x = None \<and>
         (case o_contract x of None \<Rightarrow> False | Some c \<Rightarrow> sql_trim c \<noteq> []))
       (rows (opportunities db)))"

definition migrate_opportunities :: "string \<Rightarrow> nat \<Rightarrow> nat \<Rightarrow> string \<Rightarrow> instant \<Rightarrow> opp_db \<Rightarrow> opp_db app_res" where
  "migrate_opportunities tenant source target actor now db =
     (let hit = (\<lambda>x. tenant_id x = tenant \<and> o_customer x = source \<and> deleted_at x = None)
      in if exists_row (\<lambda>x. hit x \<and> 2 ^ 64 \<le> version x + 1) (opportunities db) then Inl ErrDatabaseFailure
         else Inr (db\<lparr>opportunities := update_rows hit
                (\<lambda>x. x\<lparr>o_customer := target, updated_by := actor, version := version x + 1, updated_at := datetime3 now\<rparr>)
                (opportunities db)\<rparr>))"

definition create_merge_log :: "customer_merge \<Rightarrow> opp_db \<Rightarrow> opp_db" where
  "create_merge_log g db = db\<lparr>customer_merges := snd (insert_row (g\<lparr>ml_at := datetime3 (ml_at g)\<rparr>) (customer_merges db))\<rparr>"

text \<open>The part of the transaction that concerns opportunities.\<close>

definition merge_opportunities :: "instant \<Rightarrow> customer_merge \<Rightarrow> opp_db \<Rightarrow> opp_db app_res" where
  "merge_opportunities now g db =
     (if contracted_opportunities (tenant_id g) (ml_source g) db > 0 then Inl ErrMergeBlocked
      else case migrate_opportunities (tenant_id g) (ml_source g) (ml_target g) (ml_operator g) now db of
        Inl e \<Rightarrow> Inl e
      | Inr db1 \<Rightarrow> Inr (create_merge_log g db1))"

section \<open>Handing over\<close>

text \<open>
  A row that has changed since the handover read it is left alone and the receipt says so;
  \<open>None\<close> is a failed transaction. \<open>org\<close> is the organisation of the new owner where the
  handover is wired to look it up; the status of the opportunity is not looked at.
\<close>

definition hand_over_opportunity ::
  "string \<Rightarrow> nat \<Rightarrow> string \<Rightarrow> string \<Rightarrow> string option \<Rightarrow> nat \<Rightarrow> instant \<Rightarrow> opp_db \<Rightarrow> opp_db option" where
  "hand_over_opportunity tenant i from_user to_user org v now db =
     (let hit = (\<lambda>x. is_opp tenant i x \<and> o_owner x = from_user \<and> version x = v)
      in if (case org of None \<Rightarrow> False | Some g \<Rightarrow> trim_space g = []) then None
         else if \<not> exists_row hit (opportunities db) then Some db
         else if 2 ^ 64 \<le> v + 1 then None
         else Some (db\<lparr>opportunities := update_rows hit
                (\<lambda>x. x\<lparr>o_owner := to_user, o_org := (case org of None \<Rightarrow> o_org x | Some g \<Rightarrow> trim_space g), updated_by := to_user,
                       version := version x + 1, updated_at := datetime3 now\<rparr>) (opportunities db)\<rparr>))"

text \<open>The prior row of the team ends and the successor gets a row of its own; the terms of membership are not written.\<close>

definition hand_over_member :: "string \<Rightarrow> nat \<Rightarrow> string \<Rightarrow> string \<Rightarrow> nat \<Rightarrow> instant \<Rightarrow> opp_db \<Rightarrow> opp_db option" where
  "hand_over_member tenant i from_user to_user v now db =
     (let is_member = (\<lambda>user d. tenant_id d = tenant \<and> mb_opp d = i \<and> mb_user d = user);
          prior = (\<lambda>d. is_member from_user d \<and> mb_active d \<and> deleted_at d = None \<and> version d = v)
      in if exists_row (\<lambda>d. is_member to_user d \<and> deleted_at d = None) (members db) then Some db
         else case find_row prior (members db) of
           None \<Rightarrow> Some db
         | Some d \<Rightarrow>
             if 2 ^ 64 \<le> v + 1 \<or> exists_row (is_member to_user) (members db) then None
             else Some (db\<lparr>members := snd (insert_row
                 \<lparr>row_id = 0, tenant_id = tenant, created_by = ''handover'', updated_by = ''handover'', created_at = datetime3 now,
                   updated_at = datetime3 now, deleted_at = None, version = 1, mb_opp = i, mb_user = to_user, mb_role = mb_role d,
                   mb_active = True, mb_ended = None\<rparr>
                 (update_rows prior
                   (\<lambda>x. x\<lparr>mb_active := False, mb_ended := Some (datetime3 now), updated_at := datetime3 now, updated_by := to_user,
                          version := version x + 1\<rparr>) (members db)))\<rparr>))"

section \<open>They are steps from outside\<close>

lemma sql_trim_Nil: "sql_trim c = [] \<longleftrightarrow> set c \<subseteq> {CHR '' ''}"
proof -
  have "dropWhile (\<lambda>x. x = CHR '' '') (rev (dropWhile (\<lambda>x. x = CHR '' '') c)) = [] \<longleftrightarrow>
      (\<forall>x \<in> set (dropWhile (\<lambda>x. x = CHR '' '') c). x = CHR '' '')" by (simp add: dropWhile_eq_Nil_conv)
  also have "\<dots> \<longleftrightarrow> set c \<subseteq> {CHR '' ''}" by (induction c) auto
  finally show ?thesis by (simp add: sql_trim_def)
qed

lemma trim_space_spaces:
  assumes "set c \<subseteq> {CHR '' ''}"
  shows "trim_space c = []"
proof -
  have "go_runes c = map (\<lambda>c. (byte_of c, [c])) c"
    using assms by (intro go_runes_ascii) (auto simp: ascii_def list_all_iff byte_of_def)
  then have "dropWhile (is_space \<circ> fst) (go_runes c) = []"
    using assms by (auto simp: dropWhile_eq_Nil_conv is_space_def byte_of_def)
  then show ?thesis unfolding trim_space_def by (simp only: rev.simps dropWhile.simps list.map concat.simps)
qed

text \<open>A contract reference that SQL finds empty was never accepted by the module.\<close>

lemma uncontracted:
  assumes "opp_wf x" "case o_contract x of None \<Rightarrow> True | Some c \<Rightarrow> sql_trim c = []"
  shows "o_contract x = None"
proof -
  have "o_contract x = None \<or> \<not> blank (o_contract x)"
    using assms(1) by (cases rule: live_status_cases [of x]) (auto simp: opp_wf_def)
  with assms(2) show ?thesis by (auto simp: blank_def sql_trim_Nil trim_space_spaces split: option.splits)
qed

lemma merge_outside:
  assumes run: "merge_opportunities now g db = Inr db'" and ok: "opps_ok (view_of db)"
  shows "outside_effect (view_of db) (view_of db')"
proof -
  let ?t = "opportunities db" and ?g = "merged_row (tenant_id g) (ml_source g) (ml_target g) (ml_operator g) (datetime3 now)"
  have wf: "opp_wf x" if "x \<in> set (rows ?t)" for x using ok that by (simp add: opps_ok_def)
  then have live: "deleted_at x = None" if "x \<in> set (rows ?t)" for x using that by (simp add: opp_wf_def)
  have free: "o_contract x = None" if "x \<in> set (rows ?t)" "tenant_id x = tenant_id g \<and> o_customer x = ml_source g" for x
  proof (rule uncontracted [OF wf [OF that(1)]])
    have "filter (\<lambda>x. tenant_id x = tenant_id g \<and> o_customer x = ml_source g \<and> deleted_at x = None \<and>
        (case o_contract x of None \<Rightarrow> False | Some c \<Rightarrow> sql_trim c \<noteq> [])) (rows ?t) = []"
      using run by (simp add: merge_opportunities_def contracted_opportunities_def split: if_splits)
    with that live [OF that(1)] show "case o_contract x of None \<Rightarrow> True | Some c \<Rightarrow> sql_trim c = []"
      by (auto simp: filter_empty_conv split: option.splits)
  qed
  have moved: "update_rows (\<lambda>x. tenant_id x = tenant_id g \<and> o_customer x = ml_source g \<and> deleted_at x = None)
      (\<lambda>x. x\<lparr>o_customer := ml_target g, updated_by := ml_operator g, version := version x + 1, updated_at := datetime3 now\<rparr>) ?t =
      ?t\<lparr>rows := map ?g (rows ?t)\<rparr>"
    using live by (auto simp: update_rows_def merged_row_def)
  from run have "db' = create_merge_log g (db\<lparr>opportunities := ?t\<lparr>rows := map ?g (rows ?t)\<rparr>\<rparr>)"
    by (auto simp: merge_opportunities_def migrate_opportunities_def Let_def moved simp del: One_nat_def split: if_splits)
  then have "view_of db' = (view_of db)\<lparr>vw_opps := (vw_opps (view_of db))\<lparr>rows := map ?g (rows (vw_opps (view_of db)))\<rparr>,
      vw_merges := insert (tenant_id g, ml_source g, ml_target g) (vw_merges (view_of db))\<rparr>"
    by (auto simp: create_merge_log_def view_of_def merge_links_def insert_row_def)
  moreover have "outside_effect (view_of db) \<dots>" by (rule outside_effect.merged) (use free in simp)
  ultimately show ?thesis by (simp del: view_of_simps)
qed

lemma hand_over_outside:
  assumes run: "hand_over_opportunity tenant i a b org v now db = Some db'" and ok: "opps_ok (view_of db)"
  shows "outside_effect (view_of db) (view_of db')"
proof (cases "db' = db")
  case True
  then show ?thesis by (simp add: outside_effect.unseen)
next
  case False
  let ?hit = "\<lambda>x. is_opp tenant i x \<and> o_owner x = a \<and> version x = v"
  let ?f = "\<lambda>x. x\<lparr>o_owner := b, o_org := (case org of None \<Rightarrow> o_org x | Some g \<Rightarrow> trim_space g), updated_by := b,
      version := version x + 1, updated_at := datetime3 now\<rparr>"
  from run False obtain m where m: "m \<in> set (rows (opportunities db))" "?hit m"
    and db': "db' = db\<lparr>opportunities := update_rows ?hit ?f (opportunities db)\<rparr>"
    by (auto simp: hand_over_opportunity_def Let_def exists_row_iff split: if_splits)
  have wf: "table_wf (opportunities db)" using ok by (simp add: opps_ok_def)
  have same: "?hit x \<longleftrightarrow> x = m" "row_id x = row_id m \<longleftrightarrow> x = m" if "x \<in> set (rows (opportunities db))" for x
    using table_wf_same_id [OF wf that m(1)] m(2) by (auto simp: is_opp_def)
  have "map (\<lambda>x. if ?hit x then ?f x else x) (rows (opportunities db)) =
      map (\<lambda>x. if row_id x = row_id m then ?f m else x) (rows (opportunities db))"
    by (rule map_cong [OF refl]) (simp only: same cong: if_cong split: if_splits)
  then have "update_rows ?hit ?f (opportunities db) = put_opp (?f m) (opportunities db)"
    unfolding update_rows_def put_opp_def by simp
  then have "view_of db' = (view_of db)\<lparr>vw_opps := put_opp (?f m) (vw_opps (view_of db))\<rparr>" by (simp add: db' view_of_def)
  then show ?thesis using m(1) outside_effect.handed [of m "view_of db"] by simp
qed

lemma hand_over_member_outside:
  assumes "hand_over_member tenant i a b v now db = Some db'"
  shows "outside_effect (view_of db) (view_of db')"
proof -
  have crew: "outside_effect (view_of db) (view_of (db\<lparr>members := t\<rparr>))" for t
    using outside_effect.crew [of "view_of db" "(t, member_terms db)"] by (simp add: view_of_def)
  show ?thesis
    using assms by (auto simp: hand_over_member_def Let_def intro: outside_effect.unseen crew split: if_splits option.splits)
qed

end
