(* ===== verification/OpportunitySystem.thy ===== *)
theory OpportunitySystem
  imports OpportunityCommands OpportunityOutside
begin

text \<open>
  All commands of the opportunity module, the databases they can reach from an empty one, and
  what holds of every such database. Of the other modules, the merge of customers and the
  handover of a leaver write rows the machine speaks of; what else they and the workers write
  (customers, raised alerts, the progress of the outbox) is any change the machine does not see.
  The tool that seeds demonstration data is not part of the system.
\<close>

section \<open>Commands\<close>

datatype opp_command =
    CreateOpp opp_create_input
  | ProvisionOpp provision_create_input
  | UpdateOpp nat opp_update_input
  | VoidOpp nat nat string
  | RestoreOpp nat nat string
  | ChangeStage nat stage_change_input
  | CompleteTodo nat terminal_todo_input
  | ApplyExternal external_status_input
  | ProvisionSign nat provision_sign_input
  | TransferContract nat transfer_input
  | LinkContract nat contract_link_input
  | RetryTransfer nat
  | ChangeOwner nat change_owner_input
  | ReplaceMembers nat "(string \<times> string) list" nat string
  | AddFollowup nat string string instant "instant option"
  | CreateItem catalog_kind string nat string
  | UpdateItem nat string nat bool nat string
  | DeleteItem nat nat string string
  | ListItems catalog_kind bool
  | SetAlertRule string nat bool nat
  | MarkAlert nat

text \<open>A transaction that fails is rolled back.\<close>

definition opp_commit :: "opp_db \<Rightarrow> (opp_db \<times> 'r) app_res \<Rightarrow> opp_db" where
  "opp_commit db m = (case m of Inl e \<Rightarrow> db | Inr (db', r) \<Rightarrow> db')"

fun opp_execute :: "opp_service \<Rightarrow> principal \<Rightarrow> opp_command \<Rightarrow> opp_db \<Rightarrow> opp_db" where
  "opp_execute s p (CreateOpp inp) db = opp_commit db (create_opportunity s p inp db)"
| "opp_execute s p (ProvisionOpp inp) db = opp_commit db (create_provision s p inp db)"
| "opp_execute s p (UpdateOpp i inp) db = opp_commit db (update_opportunity s p i inp db)"
| "opp_execute s p (VoidOpp i v reason) db = opp_commit db (void_opportunity s p i v reason db)"
| "opp_execute s p (RestoreOpp i v reason) db = opp_commit db (restore_opportunity s p i v reason db)"
| "opp_execute s p (ChangeStage i inp) db = opp_commit db (change_stage s p i inp db)"
| "opp_execute s p (CompleteTodo i inp) db = opp_commit db (complete_terminal_todo s p i inp db)"
| "opp_execute s p (ApplyExternal inp) db = fst (apply_external_status s p inp db)"
| "opp_execute s p (ProvisionSign i inp) db = opp_commit db (sign_provision s p i inp db)"
| "opp_execute s p (TransferContract i inp) db = opp_commit db (contract_transfer s p i inp db)"
| "opp_execute s p (LinkContract i inp) db = opp_commit db (contract_link_callback s p i inp db)"
| "opp_execute s p (RetryTransfer i) db = fst (retry_failed_transfer (p_tenant p) i db)"
| "opp_execute s p (ChangeOwner i inp) db = opp_commit db (change_owner s p i inp db)"
| "opp_execute s p (ReplaceMembers i ms v reason) db = opp_commit db (replace_members s p i ms v reason db)"
| "opp_execute s p (AddFollowup i typ content at next) db = opp_commit db (create_followup s p i typ content at next db)"
| "opp_execute s p (CreateItem k name n key) db = opp_commit db (catalog_create s p k name n key db)"
| "opp_execute s p (UpdateItem i name n enabled v reason) db = opp_commit db (catalog_update s p i name n enabled v reason db)"
| "opp_execute s p (DeleteItem i v reason key) db = opp_commit db (catalog_delete s p i v reason key db)"
| "opp_execute s p (ListItems k disabled) db = opp_commit db (catalog_list s p k disabled db)"
| "opp_execute s p (SetAlertRule st hours enabled v) db = opp_commit db (update_alert_rule s p st hours enabled v db)"
| "opp_execute s p (MarkAlert i) db = (case mark_alert_read s p i db of Inl e \<Rightarrow> db | Inr db' \<Rightarrow> db')"

text \<open>
  The rows a command of \<open>p\<close> may change: those in the data scope of \<open>p\<close>, but any of the
  tenant for a callback of the quotation system and for the labels of a renamed item.
\<close>

definition may_change :: "principal \<Rightarrow> opp_command \<Rightarrow> opportunity \<Rightarrow> bool" where
  "may_change p c m \<longleftrightarrow> tenant_id m = p_tenant p \<and>
     (case c of ApplyExternal inp \<Rightarrow> True | UpdateItem i name n enabled v reason \<Rightarrow> True | _ \<Rightarrow> in_scope p m)"

lemma steps_mono: "steps P db db' \<Longrightarrow> (\<And>m. P m \<Longrightarrow> Q m) \<Longrightarrow> steps Q db db'"
  unfolding steps_def by blast

lemma commit_steps: "ok m (\<lambda>(db', r). steps P db db') \<Longrightarrow> steps P db (opp_commit db m)"
  by (auto simp: opp_commit_def ok_def split: sum.split)

lemma commit_unit_steps: "ok m (steps P db) \<Longrightarrow> steps P db (case m of Inl e \<Rightarrow> db | Inr db' \<Rightarrow> db')"
  by (auto simp: ok_def split: sum.split)

lemmas quiet_steps =
  catalog_create_steps catalog_delete_steps catalog_list_steps create_followup_steps update_alert_rule_steps mark_alert_read_steps retry_steps

lemmas command_steps =
  create_opportunity_steps create_provision_steps contract_transfer_steps catalog_update_steps

lemmas command_steps_ok =
  update_opportunity_steps void_opportunity_steps restore_opportunity_steps change_stage_steps complete_terminal_todo_steps
  apply_external_status_steps sign_provision_steps contract_link_callback_steps change_owner_steps replace_members_steps

lemma scope_tenant: "in_scope p m \<Longrightarrow> tenant_id m = p_tenant p" "in_scope (tenant_wide p) m \<Longrightarrow> tenant_id m = p_tenant p"
  by (simp_all add: in_scope_def tenant_wide_def)

lemma ok_steps: "ok m (\<lambda>(db', r). steps P db db') \<Longrightarrow> (\<And>m. P m \<Longrightarrow> Q m) \<Longrightarrow> ok m (\<lambda>(db', r). steps Q db db')"
  by (auto simp: ok_def intro: steps_mono)

lemma execute_steps:
  assumes "opps_ok (view_of db)"
  shows "steps (may_change p c) db (opp_execute s p c db)"
proof (cases "\<exists>inp. c = ApplyExternal inp")
  case True
  then obtain inp where c: "c = ApplyExternal inp" by blast
  have "steps (in_scope (tenant_wide p)) db (opp_execute s p c db)" by (simp add: c command_steps_ok assms)
  then show ?thesis by (rule steps_mono) (auto simp: may_change_def c dest: scope_tenant(2))
next
  case False
  show ?thesis
  proof (cases "\<exists>i name n enabled v reason. c = UpdateItem i name n enabled v reason")
    case True
    then obtain i name n enabled v reason where c: "c = UpdateItem i name n enabled v reason" by blast
    have "steps (\<lambda>x. tenant_id x = p_tenant p) db (opp_execute s p c db)" by (simp add: c commit_steps catalog_update_steps)
    then show ?thesis by (rule steps_mono) (simp add: may_change_def c)
  next
    case other: False
    have scope: "may_change p c m" if "in_scope p m" for m
      using that False other by (cases c) (simp_all add: may_change_def scope_tenant)
    have "steps (in_scope p) db (opp_execute s p c db)"
      using False other by (cases c) (simp_all add: commit_steps commit_unit_steps quiet_steps command_steps command_steps_ok assms)
    then show ?thesis by (rule steps_mono) (rule scope)
  qed
qed

section \<open>Reachable databases\<close>

definition empty_opp_db :: opp_db where
  "empty_opp_db =
     \<lparr>opportunities = empty_table, stage_logs = empty_table, followups = empty_table, external_links = empty_table,
      members = empty_table, member_terms = empty_table, win_confirmations = empty_table, alert_rules = empty_table,
      alert_rule_versions = empty_table, stage_alerts = empty_table, change_idems = empty_table, create_idems = empty_table,
      catalog_items = empty_table, catalog_links = [], catalog_inits = [], catalog_idems = empty_table,
      opp_events = empty_table, opp_audits = empty_table, opp_sequences = empty_table, customer_refs = empty_table,
      customer_merges = empty_table\<rparr>"

inductive opp_step :: "opp_db \<Rightarrow> opp_db \<Rightarrow> bool" where
  opp_command: "opp_step db (opp_execute s p c db)"
| customers_merged: "merge_opportunities now g db = Inr db' \<Longrightarrow> opp_step db db'"
| opportunity_handed: "hand_over_opportunity tenant i from_user to_user org v now db = Some db' \<Longrightarrow> opp_step db db'"
| member_handed: "hand_over_member tenant i from_user to_user v now db = Some db' \<Longrightarrow> opp_step db db'"
| outside: "view_of db' = view_of db \<Longrightarrow> opp_step db db'"

definition opp_reachable :: "opp_db \<Rightarrow> bool" where
  "opp_reachable db \<longleftrightarrow> opp_step\<^sup>*\<^sup>* empty_opp_db db"

lemma step_move: "opp_step db db' \<Longrightarrow> opps_ok (view_of db) \<Longrightarrow> opp_move (view_of db) (view_of db')"
  unfolding opp_move_def
proof (induction rule: opp_step.induct)
  case (opp_command db s p c)
  then show ?case using execute_steps by (simp add: steps_def)
next
  case (outside db' db)
  then show ?case by (simp add: opp_effect.quiet del: view_of_simps)
qed (simp_all add: merge_outside hand_over_outside hand_over_member_outside)

lemma machine_okD: "machine_ok v \<Longrightarrow> opps_ok v"
  by (simp add: machine_ok_def)

lemma steps_run:
  assumes "opp_step\<^sup>*\<^sup>* db db'" "machine_ok (view_of db)"
  shows "opp_move\<^sup>*\<^sup>* (view_of db) (view_of db')"
  using assms
proof (induction rule: rtranclp_induct)
  case (step d d')
  then have run: "opp_move\<^sup>*\<^sup>* (view_of db) (view_of d)" by simp
  then have "machine_ok (view_of d)" using machine_run [OF run] step.prems by simp
  then have "opp_move (view_of d) (view_of d')" using step_move [OF step.hyps(2)] by (simp add: machine_okD)
  with run show ?case by (rule rtranclp.rtrancl_into_rtrancl)
qed simp

lemma empty_machine: "machine_ok (view_of empty_opp_db)"
  by (simp add: machine_ok_def opps_ok_def logs_ok_def wins_ok_def signed_ok_def rows_of_def view_of_def empty_opp_db_def
      empty_table_def table_wf_def signed_events_def)

lemma reachable_machine: "opp_reachable db \<Longrightarrow> machine_ok (view_of db)"
  unfolding opp_reachable_def using machine_run [OF steps_run empty_machine] empty_machine by blast

lemma reachable_later:
  assumes "opp_reachable db" "opp_step\<^sup>*\<^sup>* db db'" "m \<in> set (rows (opportunities db))"
  obtains m' where "m' \<in> set (rows (opportunities db'))" "opp_later (merge_links (customer_merges db')) m m'"
  using machine_run [OF steps_run [OF assms(2)]] reachable_machine [OF assms(1)] assms(3) by auto

end
