(* ===== verification/OpportunityResults.thy ===== *)
theory OpportunityResults
  imports OpportunitySystem
begin

text \<open>
  What the opportunity module guarantees in every database it can reach, and what single
  commands do: voiding and restoring, the projection of a renamed catalog item, a repeated
  creation.
\<close>

section \<open>Samples\<close>

definition sample_opp_service :: opp_service where
  "sample_opp_service =
     \<lparr>op_now = 1767225600 * second, op_trace = ''trace'', op_catalog = False, op_win_mode = [], op_transfer_disabled = False,
      op_evidence = False, op_freeze = Some (\<lambda>_ _. Inr False), op_gate = (\<lambda>_ _. False),
      op_contracts = Some (\<lambda>_ _. Some True), op_owners = None, op_presale = (\<lambda>_ _. False), op_decimal = (\<lambda>_. Some (100, 0)),
      op_sha = (\<lambda>x. x), op_json = (\<lambda>_. []), op_json_column = (\<lambda>x. x), op_lower = (\<lambda>x. x), op_map_order = (\<lambda>xs. xs),
      op_random = ''r''\<rparr>"

definition sample_principal :: principal where
  "sample_principal =
     \<lparr>p_user = ''u'', p_name = ''U'', p_tenant = ''t'', p_org = ''o'', p_permissions = [], p_scope = ScopeAll, p_orgs = []\<rparr>"

definition sample_opp_create :: opp_create_input where
  "sample_opp_create =
     \<lparr>oc_name = ''n'', oc_customer = 1, oc_type = ''ty'', oc_source = ''so'', oc_type_ids = [], oc_source_ids = [], oc_amount = ''100'',
      oc_sign_date = ''2026-12-31'', oc_summary = ''s'', oc_systems = 0, oc_pain = [], oc_competitor = [], oc_owner = ''u'', oc_org = ''o'',
      oc_key = ''k''\<rparr>"

definition sample_customers :: opp_db where
  "sample_customers = empty_opp_db\<lparr>customer_refs := snd (insert_row
     \<lparr>row_id = 0, tenant_id = ''t'', cu_active = True, cu_merged = False, cu_deleted = False, cu_owner = ''u'', cu_org = ''o''\<rparr> empty_table)\<rparr>"

definition sample_sign :: stage_change_input where
  "sample_sign =
     \<lparr>sc_evidence = None, sc_target = stage_text StageSigned, sc_reason = ''won'', sc_contract = Some ''C-1'', sc_lost = None,
      sc_version = 1\<rparr>"

definition sample_transfer :: transfer_input where
  "sample_transfer = \<lparr>tr_version = 2, tr_reason = ''go'', tr_key = ''k2''\<rparr>"

lemma sample_date: "parse_date ''2026-12-31'' = Some (20818 * day)"
  by code_simp

definition born_row :: opportunity where
  "born_row = stored_opp ((new_opportunity sample_opp_service ''t'' ''u'' sample_opp_create (100, 0) (20818 * day))
     \<lparr>o_no := ''SJ'' @ date_string (op_now sample_opp_service) @ pad_nat 4 1, row_id := 1, created_at := op_now sample_opp_service,
      updated_at := op_now sample_opp_service\<rparr>)"

lemma sample_created_opp:
  "\<exists>db' r. create_opportunity sample_opp_service sample_principal sample_opp_create sample_customers = Inr (db', r) \<and>
     opportunities db' = \<lparr>rows = [born_row], next_id = 2\<rparr> \<and> stage_logs db' = empty_table \<and> win_confirmations db' = empty_table \<and>
     opp_events db' = empty_table \<and> change_idems db' = empty_table \<and> external_links db' = empty_table"
  unfolding create_opportunity_def create_opp_tx_def next_opp_number_def
  by (simp add: sample_opp_service_def sample_principal_def sample_opp_create_def sample_customers_def empty_opp_db_def empty_table_def
     require_principal_def Let_def text_eval inherit_create_owner_def normalize_create_request_def ensure_owner_not_frozen_def
     validate_selection_def validate_system_count_def max_system_count_def complete_owner_def positive_amount_def valid_sign_date_def
     sample_date customer_visible_def exists_row_def insert_row_def find_create_idem_def find_row_def select_rows_def guard_owner_write_def
     select_catalog_def link_catalog_def enrich_response_def create_opp_row_def create_create_idem_def new_create_idem_def audit_opp_def
     write_audit_def fits_decimal18_def cents_def scale_to_def new_opportunity_def born_row_def stored_opp_def beijing_day_def beijing_def)

definition sample_open :: opp_db where
  "sample_open = opp_execute sample_opp_service sample_principal (CreateOpp sample_opp_create) sample_customers"

definition sample_won :: opp_db where
  "sample_won = opp_execute sample_opp_service sample_principal (ChangeStage 1 sample_sign) sample_open"

definition sample_sent :: opp_db where
  "sample_sent = opp_execute sample_opp_service sample_principal (TransferContract 1 sample_transfer) sample_won"

lemma sample_open_tables:
  "opportunities sample_open = \<lparr>rows = [born_row], next_id = 2\<rparr>" "stage_logs sample_open = empty_table"
  "win_confirmations sample_open = empty_table" "opp_events sample_open = empty_table" "change_idems sample_open = empty_table"
  "external_links sample_open = empty_table"
  using sample_created_opp by (auto simp: sample_open_def opp_commit_def)

lemma sample_reachable:
  "opp_reachable sample_open" "opp_reachable sample_won" "opp_reachable sample_sent" "opp_step\<^sup>*\<^sup>* sample_open sample_won"
proof -
  have c: "opp_step empty_opp_db sample_customers"
    by (rule outside) (simp add: sample_customers_def view_of_def)
  note step = opp_command [of _ sample_opp_service sample_principal] and runs = sample_open_def sample_won_def sample_sent_def
  show one: "opp_reachable sample_open"
    unfolding opp_reachable_def runs(1) using c step [of sample_customers "CreateOpp sample_opp_create"]
    by (blast intro: rtranclp.rtrancl_into_rtrancl)
  show "opp_step\<^sup>*\<^sup>* sample_open sample_won" unfolding runs(2) by (rule r_into_rtranclp) (rule step)
  with one show two: "opp_reachable sample_won" unfolding opp_reachable_def by (rule rtranclp_trans)
  show "opp_reachable sample_sent"
    using two step [of sample_won "TransferContract 1 sample_transfer"] unfolding opp_reachable_def runs(3)
    by (rule rtranclp.rtrancl_into_rtrancl)
qed

definition won_row :: opportunity where
  "won_row = born_row\<lparr>o_stage := StageSigned, o_status := StatusClosed, o_contract := Some ''C-1'',
     o_stage_at := datetime3 (op_now sample_opp_service), updated_by := ''u'', version := 2,
     updated_at := datetime3 (op_now sample_opp_service)\<rparr>"

lemma sample_sign_run:
  assumes "opportunities d = \<lparr>rows = [born_row], next_id = 2\<rparr>" "stage_logs d = empty_table" "opp_events d = empty_table"
  shows "\<exists>d' r. change_stage sample_opp_service sample_principal 1 sample_sign d = Inr (d', r) \<and>
     opportunities d' = \<lparr>rows = [won_row], next_id = 2\<rparr> \<and> opp_events d' = empty_table \<and>
     win_confirmations d' = win_confirmations d \<and> change_idems d' = change_idems d \<and>
     map (\<lambda>l. (sg_from l, sg_to l)) (rows (stage_logs d')) = [(StageInitial, StageSigned)]"
  unfolding change_stage_def persist_stage_def
  by (simp add: assms sample_opp_service_def sample_principal_def sample_sign_def empty_table_def
     require_principal_def Let_def text_eval find_opportunity_def find_row_def select_rows_def in_scope_def validate_stage_change_def
     allowed_transitions_def open_stages_def all_stages_def prepare_win_confirmation_def win_mode_value_def
     apply_stage_def update_stage_def opp_write_def exists_row_def at_version_def is_opp_def create_stage_log_def new_stage_log_def
     insert_row_def update_rows_def save_win_confirmation_def audit_opp_def write_audit_def cancel_active_alerts_def
     won_row_def born_row_def stored_opp_def new_opportunity_def del: stage_text.simps)

lemma sample_won_tables:
  "opportunities sample_won = \<lparr>rows = [won_row], next_id = 2\<rparr>" "opp_events sample_won = empty_table"
  "win_confirmations sample_won = empty_table" "change_idems sample_won = empty_table"
  "map (\<lambda>l. (sg_from l, sg_to l)) (rows (stage_logs sample_won)) = [(StageInitial, StageSigned)]"
  using sample_sign_run [OF sample_open_tables(1,2,4)] sample_open_tables(3,5) by (auto simp: sample_won_def opp_commit_def)

lemma sample_transfer_run:
  assumes "opportunities d = \<lparr>rows = [won_row], next_id = 2\<rparr>" "opp_events d = empty_table" "change_idems d = empty_table"
  shows "\<exists>d' r. contract_transfer sample_opp_service sample_principal 1 sample_transfer d = Inr (d', r) \<and>
     opportunities d' = \<lparr>rows = [won_row], next_id = 2\<rparr> \<and> length (rows (opp_events d')) = 1"
  unfolding contract_transfer_def contract_transfer_tx_def
  by (simp add: assms sample_opp_service_def sample_principal_def sample_transfer_def empty_table_def
     require_principal_def Let_def text_eval find_opportunity_def find_row_def select_rows_def in_scope_def find_change_idem_def
     transfer_already_linked_def contract_transfer_accepted_def exists_row_def transfer_ready_def blank_def find_event_def
     create_event_def create_change_idem_def insert_row_def audit_opp_def write_audit_def new_change_idem_def
     won_row_def born_row_def stored_opp_def new_opportunity_def)

text \<open>The customer of the sample is merged into another one, with its open opportunity.\<close>

definition sample_merge :: customer_merge where
  "sample_merge =
     \<lparr>row_id = 0, tenant_id = ''t'', ml_source = 1, ml_target = 2, ml_source_version = 1, ml_target_version = 1, ml_counts = [],
      ml_reason = ''dup'', ml_operator = ''u'', ml_request = ''trace'', ml_at = 0\<rparr>"

definition moved_row :: opportunity where
  "moved_row = born_row\<lparr>o_customer := 2, updated_by := ''u'', version := version born_row + 1, updated_at := datetime3 0\<rparr>"

definition sample_merged :: opp_db where
  "sample_merged = create_merge_log sample_merge (sample_open\<lparr>opportunities := \<lparr>rows = [moved_row], next_id = 2\<rparr>\<rparr>)"

lemma sample_merge_run: "merge_opportunities 0 sample_merge sample_open = Inr sample_merged"
  by (simp add: merge_opportunities_def contracted_opportunities_def migrate_opportunities_def sample_merge_def sample_open_tables
      exists_row_def update_rows_def sample_merged_def moved_row_def born_row_def stored_opp_def new_opportunity_def sample_opp_create_def)

lemma sample_merged_reachable: "opp_step\<^sup>*\<^sup>* sample_open sample_merged"
  using customers_merged [OF sample_merge_run] by (rule r_into_rtranclp)

section \<open>Every reachable database\<close>

text \<open>
  C3. Every command of the module, whatever its arguments, is a step of the abstract machine or leaves the part of the database the
  machine speaks of as it is. Every database that commands can reach satisfies the machine's invariant, however they are interleaved
  with what other modules write: merges of customers, which move opportunities to another customer, the handover of opportunities and
  of places in their teams, and any change of other tables.
\<close>

theorem opportunity_refines:
  assumes "opp_reachable db"
  shows "opp_effect (view_of db) (view_of (opp_execute s p c db)) \<and> machine_ok (view_of db)"
  using reachable_machine [OF assms] execute_steps [of db p c s] by (simp add: machine_okD steps_def)

lemma opportunity_refines_witness:
  "opp_effect (view_of sample_open) (view_of sample_won) \<and> machine_ok (view_of sample_open)"
  unfolding sample_won_def by (rule opportunity_refines [OF sample_reachable(1)])

lemma reachable_row: "opp_reachable db \<Longrightarrow> m \<in> set (rows (opportunities db)) \<Longrightarrow> opps_ok (view_of db) \<and> m \<in> rows_of (view_of db) \<and> opp_wf m"
  using reachable_machine machine_okD opps_ok_wf(2) by fastforce

text \<open>
  C4. Whatever commands, merges of customers and handovers follow, an opportunity stays: it keeps its identity, tenant, number and
  author; its customer changes only to one that the log of merges leads to; its version and the counter of its contract link never
  decrease, its life goes on by legal steps, and once it is closed its stage, amount and date are final; once nothing is pending, so
  are its contract and its reason, and, if it has a contract, its customer.
\<close>

theorem opportunity_history:
  assumes "opp_reachable db" "opp_step\<^sup>*\<^sup>* db db'" "m \<in> set (rows (opportunities db))"
  shows "\<exists>m'. m' \<in> set (rows (opportunities db')) \<and>
     row_id m' = row_id m \<and> tenant_id m' = tenant_id m \<and> o_no m' = o_no m \<and>
     moved (merge_links (customer_merges db')) (tenant_id m) (o_customer m) (o_customer m') \<and>
     created_by m' = created_by m \<and> version m \<le> version m' \<and> o_sync m \<le> o_sync m' \<and> life_step\<^sup>*\<^sup>* (life_of m) (life_of m') \<and>
     (live_status m = StatusClosed \<longrightarrow> live_status m' = StatusClosed \<and> o_stage m' = o_stage m \<and> o_amount m' = o_amount m \<and>
        o_sign_date m' = o_sign_date m \<and>
        (o_pending m = PendingNone \<longrightarrow> o_pending m' = PendingNone \<and> o_contract m' = o_contract m \<and> o_lost m' = o_lost m \<and>
           (o_contract m \<noteq> None \<longrightarrow> o_customer m' = o_customer m)))"
  by (rule reachable_later [OF assms]) (auto simp: opp_later_def)

lemma opportunity_history_witness:
  "\<exists>m'. m' \<in> set (rows (opportunities sample_merged)) \<and> row_id m' = 1 \<and> o_customer m' = 2 \<and>
     moved (merge_links (customer_merges sample_merged)) ''t'' 1 2 \<and> life_step\<^sup>*\<^sup>* (Running StageInitial) (life_of m')"
proof -
  have t: "opportunities sample_merged = \<lparr>rows = [moved_row], next_id = 2\<rparr>"
    by (simp add: sample_merged_def create_merge_log_def)
  have born: "tenant_id born_row = ''t''" "o_customer born_row = 1" "row_id born_row = 1" "o_customer moved_row = 2"
    "life_of born_row = Running StageInitial"
    by (simp_all add: moved_row_def born_row_def stored_opp_def new_opportunity_def sample_opp_create_def life_of_def live_status_def)
  have "born_row \<in> set (rows (opportunities sample_open))" by (simp add: sample_open_tables)
  from opportunity_history [OF sample_reachable(1) sample_merged_reachable this] t born show ?thesis by auto
qed

text \<open>
  C8. The rows of every reachable database are typed as their columns mean it: ids and, within a tenant, numbers are unique; amounts
  are whole cents and dates whole days; an opportunity is void exactly when it remembers a status to restore, and then it has no
  contract; one that is followed is in an open stage with nothing recorded, one that is closed is signed or failed with what that
  stage needs or a note of what it lacks; a contract is linked only to a signed one.
\<close>

theorem opportunities_typed:
  assumes "opp_reachable db"
  shows "table_wf (opportunities db) \<and> (\<forall>m. m \<in> set (rows (opportunities db)) \<longrightarrow> opp_wf m) \<and>
     (\<forall>m m'. m \<in> set (rows (opportunities db)) \<and> m' \<in> set (rows (opportunities db)) \<and> tenant_id m = tenant_id m' \<and> o_no m = o_no m' \<longrightarrow> m = m')"
  using machine_okD [OF reachable_machine [OF assms]] by (simp add: opps_ok_def)

lemma opportunities_typed_witness: "table_wf (opportunities sample_won) \<and> opp_wf won_row"
  using opportunities_typed [OF sample_reachable(2)] by (simp add: sample_won_tables)

text \<open>
  C7. In every reachable database the stage logs of an opportunity lead, each from where the last one ended, from the initial stage to
  its present stage.
\<close>

theorem stage_logs_explain:
  assumes "opp_reachable db" "m \<in> set (rows (opportunities db))"
  shows "stage_chain StageInitial (logs_of m (rows (stage_logs db))) (o_stage m)"
  using reachable_machine [OF assms(1)] assms(2) by (simp add: machine_ok_def logs_ok_def)

lemma stage_logs_explain_witness:
  "stage_chain StageInitial (logs_of won_row (rows (stage_logs sample_won))) StageSigned \<and> o_stage won_row = StageSigned"
  using stage_logs_explain [OF sample_reachable(2), of won_row] by (simp add: sample_won_tables won_row_def)

text \<open>
  C5. In every reachable database a signed opportunity with nothing pending is backed by a contract reference or by one recorded
  confirmation of the win, and by one of them only. The confirmation names the customer of the opportunity, or one that has been merged
  into it since: a merge moves the opportunity and not its evidence.
\<close>

theorem wins_are_backed:
  assumes "opp_reachable db" "m \<in> set (rows (opportunities db))" "o_stage m = StageSigned" "o_pending m = PendingNone"
  shows "(o_contract m \<noteq> None \<and> \<not> blank (o_contract m) \<and> filter (win_of m) (rows (win_confirmations db)) = []) \<or>
     (o_contract m = None \<and> (\<exists>w. filter (win_of m) (rows (win_confirmations db)) = [w] \<and>
        moved (merge_links (customer_merges db)) (tenant_id m) (wc_customer w) (o_customer m)))"
proof -
  let ?v = "view_of db"
  have ok: "opps_ok ?v" "wins_ok ?v" "m \<in> rows_of ?v" "opp_wf m"
    using reachable_machine [OF assms(1)] reachable_row [OF assms(1,2)] by (simp_all add: machine_ok_def)
  have closed: "live_status m = StatusClosed"
    using ok(4) assms(3) by (cases rule: live_status_cases [of m]) (auto simp: opp_wf_def open_stages_def)
  have own: "moved (merge_links (customer_merges db)) (tenant_id m) (wc_customer w) (o_customer m) \<and> o_contract m = None" if w: "w \<in> set (rows (win_confirmations db))" "win_of m w" for w
  proof -
    obtain x where x: "x \<in> rows_of ?v" "win_of x w"
        "moved (merge_links (customer_merges db)) (tenant_id x) (wc_customer w) (o_customer x)" "o_contract x = None"
      using wins_okD [OF ok(2)] w(1) by auto
    have "x = m" using same_row [OF ok(1) x(1) ok(3)] x(2) w(2) by (simp add: win_of_def)
    with x show ?thesis by simp
  qed
  show ?thesis
  proof (cases "o_contract m = None")
    case True
    then have "list_ex (win_of m) (rows (win_confirmations db))" "length (filter (win_of m) (rows (win_confirmations db))) \<le> 1"
      using ok(2,3) closed assms(3,4) by (auto simp: wins_ok_def settled_def)
    then obtain w where w: "filter (win_of m) (rows (win_confirmations db)) = [w]"
      by (cases "filter (win_of m) (rows (win_confirmations db))") (auto simp: list_ex_iff filter_empty_conv)
    then have "w \<in> set (filter (win_of m) (rows (win_confirmations db)))" by simp
    then have "moved (merge_links (customer_merges db)) (tenant_id m) (wc_customer w) (o_customer m)" using own by auto
    with True w show ?thesis by blast
  next
    case False
    then have "\<not> blank (o_contract m)" using ok(4) closed assms(3) by (auto simp: opp_wf_def)
    moreover have "filter (win_of m) (rows (win_confirmations db)) = []" using False own by (auto simp: filter_empty_conv)
    ultimately show ?thesis using False by blast
  qed
qed

lemma wins_are_backed_witness:
  "o_contract won_row = Some ''C-1'' \<and> filter (win_of won_row) (rows (win_confirmations sample_won)) = []"
  using wins_are_backed [OF sample_reachable(2), of won_row]
  by (simp add: sample_won_tables won_row_def born_row_def stored_opp_def new_opportunity_def)

text \<open>
  C6. In every reachable database an opportunity has been handed to the contract system at most once, and the event that did it
  belongs to a signed opportunity with a contract reference and carries its number, customer, contract and amount as they still are,
  with a version it has passed.
\<close>

theorem transferred_once:
  assumes "opp_reachable db" "m \<in> set (rows (opportunities db))"
  shows "filter (signed_of m) (signed_events (rows (opp_events db))) = [] \<or>
     (\<exists>n at. filter (signed_of m) (signed_events (rows (opp_events db))) = [signed_entry (m\<lparr>version := n\<rparr>) at] \<and>
        n \<le> version m \<and> o_stage m = StageSigned \<and> o_pending m = PendingNone \<and> \<not> blank (o_contract m))"
proof -
  let ?v = "view_of db" and ?es = "filter (signed_of m) (signed_events (rows (opp_events db)))"
  have ok: "opps_ok ?v" "signed_ok ?v" "m \<in> rows_of ?v"
    using reachable_machine [OF assms(1)] assms(2) by (simp_all add: machine_ok_def)
  have "length ?es \<le> 1" using ok(2,3) by (simp add: signed_ok_def)
  then consider "?es = []" | e where "?es = [e]" by (cases ?es) auto
  then show ?thesis
  proof cases
    case (2 e)
    then have "e \<in> set ?es" by simp
    then have e: "e \<in> set (vw_signed ?v)" "signed_of m e" by simp_all
    obtain x n at where x: "x \<in> rows_of ?v" "settled x" "\<not> blank (o_contract x)" "n \<le> version x"
        "e = signed_entry (x\<lparr>version := n\<rparr>) at" using ok(2) e(1) by (auto simp: signed_ok_def)
    have "x = m" using same_row [OF ok(1) x(1) ok(3)] e(2) x(5) by (simp add: signed_of_def signed_entry_def)
    with x 2 show ?thesis by (auto simp: settled_def)
  qed simp
qed

lemma transferred_once_witness:
  "length (rows (opp_events sample_sent)) = 1 \<and> opportunities sample_sent = \<lparr>rows = [won_row], next_id = 2\<rparr> \<and>
   length (filter (signed_of won_row) (signed_events (rows (opp_events sample_sent)))) \<le> 1"
proof -
  have t: "opportunities sample_sent = \<lparr>rows = [won_row], next_id = 2\<rparr>" "length (rows (opp_events sample_sent)) = 1"
    using sample_transfer_run [OF sample_won_tables(1,2,4)] by (auto simp: sample_sent_def opp_commit_def)
  then have "won_row \<in> set (rows (opportunities sample_sent))" by simp
  from transferred_once [OF sample_reachable(3) this] t show ?thesis by auto
qed

text \<open>
  C9. A command changes an opportunity of the caller's tenant only, and one in the caller's data scope: of the whole tenant, of the
  caller's organisations, or owned by the caller. The exceptions are the callback of the quotation system and the labels of a renamed
  catalog item, which reach the whole tenant.
\<close>

theorem writes_stay_in_scope:
  assumes "opp_reachable db" "m \<in> set (rows (opportunities db))" "m \<notin> set (rows (opportunities (opp_execute s p c db)))"
  shows "tenant_id m = p_tenant p \<and>
     ((\<exists>inp. c = ApplyExternal inp) \<or> (\<exists>i name n enabled v reason. c = UpdateItem i name n enabled v reason) \<or>
      (case p_scope p of ScopeAll \<Rightarrow> True | ScopeOrg \<Rightarrow> o_org m \<in> set (p_orgs p) | ScopeSelf \<Rightarrow> o_owner m = p_user p))"
proof -
  have "steps (may_change p c) db (opp_execute s p c db)"
    by (rule execute_steps [OF machine_okD [OF reachable_machine [OF assms(1)]]])
  then have "may_change p c m" using assms(2,3) by (auto simp: steps_def)
  then show ?thesis by (cases c) (auto simp: may_change_def in_scope_def)
qed

lemma writes_stay_in_scope_witness:
  "opportunities sample_open = \<lparr>rows = [born_row], next_id = 2\<rparr> \<and> opportunities sample_won = \<lparr>rows = [won_row], next_id = 2\<rparr> \<and>
   tenant_id born_row = p_tenant sample_principal"
proof -
  have "born_row \<noteq> won_row" by (simp add: won_row_def born_row_def stored_opp_def new_opportunity_def)
  then have "born_row \<notin> set (rows (opportunities (opp_execute sample_opp_service sample_principal (ChangeStage 1 sample_sign) sample_open)))"
    using sample_won_tables(1) by (simp add: sample_won_def)
  from writes_stay_in_scope [OF sample_reachable(1) _ this] show ?thesis by (simp add: sample_open_tables sample_won_tables)
qed

section \<open>Voiding and restoring\<close>

lemma find_put:
  assumes "find_opportunity p i db = Inr m" "table_wf (opportunities db)" "opportunities db' = put_opp m' (opportunities db)"
    "in_scope q m'" "row_id m' = row_id m"
  shows "find_opportunity q i db' = Inr m'"
proof -
  note m = find_opportunity_row [OF assms(1)]
  have "m' \<in> set (rows (opportunities db'))" using assms(3) put_opp_rows [OF assms(2) _ assms(5)] m by simp
  moreover have "table_wf (opportunities db')" using assms(2,3) by (simp add: put_opp_wf)
  moreover have "in_scope q m' \<and> row_id m' = i" using assms(4,5) m by simp
  ultimately have "find_row (\<lambda>x. in_scope q x \<and> row_id x = i) (opportunities db') = Some m'"
    by (intro find_row_unique) (auto dest: table_wf_same_id)
  then show ?thesis by (simp add: find_opportunity_def)
qed

lemma opp_write_runs:
  assumes "table_wf (opportunities db)" "m \<in> set (rows (opportunities db))" "hit m" "\<And>x. hit x \<Longrightarrow> row_id x = row_id m"
    "version m + 1 < 2 ^ 64"
  shows "\<exists>db'. opp_write now hit f db = Inr db'"
proof -
  have "hit x \<Longrightarrow> x \<in> set (rows (opportunities db)) \<Longrightarrow> x = m" for x
    using table_wf_same_id [OF assms(1) _ assms(2)] assms(4) by blast
  then have "\<not> exists_row (\<lambda>x. hit x \<and> 2 ^ 64 \<le> version x + 1) (opportunities db)" using assms(5) by (auto simp: exists_row_iff not_le)
  moreover have "exists_row hit (opportunities db)" using assms(2,3) by (auto simp: exists_row_iff)
  ultimately show ?thesis by (simp add: opp_write_def)
qed

lemma put_twice: "row_id m' = row_id m \<Longrightarrow> put_opp m' (put_opp m t) = put_opp m' t"
  by (simp add: put_opp_def update_rows_def)

lemma voided_row:
  assumes "void_opportunity s p i v reason db = Inr (db1, r)" "opps_ok (view_of db)"
  obtains m where "find_opportunity p i db = Inr m" "version m = v" "o_status m \<noteq> StatusVoid" "v + 1 < 2 ^ 64"
    "opportunities db1 = put_opp (m\<lparr>o_status := StatusVoid, o_end := Some (business_date_value (op_now s)),
       o_before_void := Some (o_status m), updated_by := p_user p, version := version m + 1, updated_at := datetime3 (op_now s)\<rparr>)
       (opportunities db)"
proof -
  obtain m c db0 c0 where m: "find_opportunity p i db = Inr m" "version m = v" "o_status m \<noteq> StatusVoid"
    and c: "c = m\<lparr>o_status := StatusVoid, o_before_void := Some (o_status m),
                      o_end := Some (business_date_value (op_now s)), updated_by := p_user p\<rparr>"
    and w: "update_lifecycle (op_now s) c v (o_status m) db = Inr (db0, c0)" and v: "view_of db1 = view_of db0"
    using assms(1) by (auto simp: void_opportunity_def persist_lifecycle_def require_principal_def Let_def split: sum.splits if_splits)
  have r: "reads (in_scope p) db m c" using found_reads [OF m(1) assms(2)] c by simp
  note u = update_lifecycle_written [OF w r]
  have "opportunities db1 = opportunities db0" using v by (metis view_of_simps(1))
  then have o: "opportunities db1 = put_opp (m\<lparr>o_status := StatusVoid, o_end := Some (business_date_value (op_now s)),
       o_before_void := Some (o_status m), updated_by := p_user p, version := version m + 1, updated_at := datetime3 (op_now s)\<rparr>)
       (opportunities db)"
    using u c by (auto simp: written_def view_of_def)
  have "v + 1 < 2 ^ 64"
    using w m(2) find_opportunity_row [OF m(1)] c
    by (auto simp: update_lifecycle_def opp_write_def exists_row_iff at_version_def is_opp_def not_le split: if_splits)
  from that [OF m this o] show ?thesis .
qed

text \<open>
  C10. A voided opportunity can be restored by whoever could void it, and is then what it was: of its row only the version, the
  last author and the time of the last change differ, and no other row does.
\<close>

theorem void_restore_roundtrip:
  assumes reach: "opp_reachable db" and void: "void_opportunity s p i v reason db = Inr (db1, r1)"
    and m: "find_opportunity p i db = Inr m" and reason: "trim_space reason' \<noteq> []" and small: "v + 2 < 2 ^ 64"
  shows "\<exists>db2 r2. restore_opportunity s' p i (v + 1) reason' db1 = Inr (db2, r2) \<and>
     opportunities db2 = put_opp (m\<lparr>updated_by := p_user p, version := v + 2, updated_at := datetime3 (op_now s')\<rparr>) (opportunities db)"
proof -
  let ?v = "m\<lparr>o_status := StatusVoid, o_end := Some (business_date_value (op_now s)), o_before_void := Some (o_status m),
    updated_by := p_user p, version := version m + 1, updated_at := datetime3 (op_now s)\<rparr>"
  have ok: "opps_ok (view_of db)" "table_wf (opportunities db)"
    using machine_okD [OF reachable_machine [OF reach]] by (simp_all add: opps_ok_def)
  have v: "version m = v" "o_status m \<noteq> StatusVoid" "opportunities db1 = put_opp ?v (opportunities db)"
    using voided_row [OF void ok(1)] m by (metis Inr_inject)+
  note mr = find_opportunity_row [OF m]
  have wf: "opp_wf m" using found_wf [OF m ok(1)] .
  have scope: "in_scope p ?v" using mr by (simp add: in_scope_def split: scope_mode.splits)
  have found: "find_opportunity p i db1 = Inr ?v" by (rule find_put [OF m ok(2) v(3) scope]) simp
  have wf1: "table_wf (opportunities db1)" using ok(2) v(3) by (simp add: put_opp_wf)
  have user: "require_principal p = Inr p" using void by (auto simp: void_opportunity_def require_principal_def split: if_splits)
  let ?c = "?v\<lparr>o_status := o_status m, o_before_void := None, o_end := None, updated_by := p_user p\<rparr>"
  have restored: "restored_status ?v = o_status m" using v(2) by (cases "o_status m") (simp_all add: restored_status_def)
  have member: "?v \<in> set (rows (opportunities db1))" using find_opportunity_row [OF found] by simp
  have tenant: "tenant_id m = p_tenant p" "row_id m = i" "deleted_at m = None" using mr by simp_all
  obtain dbw where wr: "opp_write (op_now s') (\<lambda>x. at_version ?c (v + 1) x \<and> o_status x = StatusVoid)
      (\<lambda>x. x\<lparr>o_status := o_status ?c, o_end := o_end ?c, o_before_void := o_before_void ?c, updated_by := updated_by ?c\<rparr>) db1 = Inr dbw"
    using opp_write_runs [OF wf1 member, of "\<lambda>x. at_version ?c (v + 1) x \<and> o_status x = StatusVoid"] small v(1) tenant
    by (fastforce simp: at_version_def is_opp_def)
  have r: "reads (in_scope p) db1 ?v ?c" using wf1 member scope by (simp add: reads_def)
  have up: "update_lifecycle (op_now s') ?c (v + 1) StatusVoid db1 = Inr (dbw, ?c\<lparr>version := v + 1 + 1\<rparr>)"
    unfolding update_lifecycle_def wr by simp
  have same: "m\<lparr>o_end := None, o_before_void := None, updated_by := u, version := n, updated_at := t\<rparr> =
      m\<lparr>updated_by := u, version := n, updated_at := t\<rparr>" for u n t
    using wf v(2) by (intro opportunity.equality) (simp_all add: opp_wf_def)
  have "opportunities dbw = put_opp (m\<lparr>updated_by := p_user p, version := v + 2, updated_at := datetime3 (op_now s')\<rparr>) (opportunities db1)"
    using update_lifecycle_written [OF up r] v(1,2) by (simp add: written_def view_of_def same)
  then have rows: "opportunities dbw = put_opp (m\<lparr>updated_by := p_user p, version := v + 2, updated_at := datetime3 (op_now s')\<rparr>) (opportunities db)"
    by (simp add: v(3) put_twice)
  show ?thesis
    unfolding restore_opportunity_def persist_lifecycle_def user
    using found restored up rows v(1) reason by (simp add: Let_def audit_opp_def write_audit_def)
qed

lemma sample_void_run:
  assumes "opportunities d = \<lparr>rows = [born_row], next_id = 2\<rparr>" "external_links d = empty_table"
  shows "\<exists>d' r. void_opportunity sample_opp_service sample_principal 1 1 ''gone'' d = Inr (d', r)"
  unfolding void_opportunity_def persist_lifecycle_def
  by (simp add: assms sample_opp_service_def sample_principal_def empty_table_def require_principal_def Let_def text_eval
     find_opportunity_def find_row_def select_rows_def in_scope_def void_blockers_def update_lifecycle_def opp_write_def exists_row_def
     at_version_def is_opp_def born_row_def stored_opp_def new_opportunity_def)

lemma void_restore_roundtrip_witness:
  "\<exists>db1 r1 db2 r2. void_opportunity sample_opp_service sample_principal 1 1 ''gone'' sample_open = Inr (db1, r1) \<and>
     restore_opportunity sample_opp_service sample_principal 1 (1 + 1) ''back'' db1 = Inr (db2, r2)"
proof -
  obtain db1 r1 where v: "void_opportunity sample_opp_service sample_principal 1 1 ''gone'' sample_open = Inr (db1, r1)"
    using sample_void_run [OF sample_open_tables(1,6)] by blast
  have m: "find_opportunity sample_principal 1 sample_open = Inr born_row"
    by (simp add: find_opportunity_def find_row_def in_scope_def sample_open_tables sample_principal_def born_row_def stored_opp_def new_opportunity_def)
  have reason: "trim_space ''back'' \<noteq> []" by (simp add: text_eval)
  show ?thesis
    using void_restore_roundtrip [OF sample_reachable(1) v m reason, of sample_opp_service] v by simp blast
qed

section \<open>The projection of a renamed item\<close>

lemma split_batches_bounds: "0 < n \<Longrightarrow> list_all (\<lambda>b. b \<noteq> [] \<and> length b \<le> n) (split_batches n xs)"
proof (induction n xs rule: split_batches.induct)
  case (1 n xs)
  then show ?case by (subst split_batches.simps) auto
qed

text \<open>
  C22. Renaming a catalog item rewrites the label of every opportunity it is linked to in batches of at most 500, and the batches
  together do what one pass over the linked opportunities would: each gets the names of its present items, and nothing else changes.
\<close>

theorem projection_is_one_pass:
  "sync_projection tenant item k db =
     db\<lparr>opportunities := update_rows
       (\<lambda>x. tenant_id x = tenant \<and> list_ex (\<lambda>l. cl_tenant l = tenant \<and> cl_item l = item \<and> cl_kind l = k \<and> cl_opp l = row_id x) (catalog_links db))
       (\<lambda>x. set_label k (join_catalog_names (linked_items tenant (row_id x) k db)) x) (opportunities db)\<rparr> \<and>
   list_all (\<lambda>b. b \<noteq> [] \<and> length b \<le> 500) (split_batches projection_batch_size ids) \<and> concat (split_batches projection_batch_size ids) = ids"
proof -
  have "row_id x \<in> set (map cl_opp (filter (\<lambda>l. cl_tenant l = tenant \<and> cl_item l = item \<and> cl_kind l = k) (catalog_links db))) \<longleftrightarrow>
      list_ex (\<lambda>l. cl_tenant l = tenant \<and> cl_item l = item \<and> cl_kind l = k \<and> cl_opp l = row_id x) (catalog_links db)" for x :: opportunity
    by (force simp: list_ex_iff)
  then show ?thesis
    using split_batches_bounds [of projection_batch_size ids]
    by (simp add: sync_projection_once apply_projection_batch_def concat_split_batches projection_batch_size_def del: set_map)
qed

section \<open>A repeated creation\<close>

text \<open>What a creation leaves alone until it writes its ledger entry.\<close>

definition ledger_frame :: "opp_db \<Rightarrow> opp_db \<Rightarrow> bool" where
  "ledger_frame db db' \<longleftrightarrow> customer_refs db' = customer_refs db \<and> create_idems db' = create_idems db"

lemma ledger_frame_refl [simp]: "ledger_frame db db"
  by (simp add: ledger_frame_def)

lemma ledger_frame_writes:
  "next_opp_number tenant at db = Inr (db', no) \<Longrightarrow> ledger_frame db db'"
  "create_catalog_item it db = Inr db' \<Longrightarrow> ledger_frame db db'"
  "replace_links s tenant opp k items db = Inr db' \<Longrightarrow> ledger_frame db db'"
  "create_opp_row now m db = Inr (db', m') \<Longrightarrow> ledger_frame db db'"
  by (auto simp: next_opp_number_def create_catalog_item_def replace_links_def create_opp_row_def Let_def ledger_frame_def
      split: if_splits option.splits)

lemma ledger_frame_trans: "ledger_frame db db1 \<Longrightarrow> ledger_frame db1 db2 \<Longrightarrow> ledger_frame db db2"
  by (simp add: ledger_frame_def)

lemma ledger_frame_defaults: "ensure_defaults s tenant db = Inr db' \<Longrightarrow> ledger_frame db db'"
proof (cases "tenant \<in> set (catalog_inits db)")
  case False
  assume "ensure_defaults s tenant db = Inr db'"
  with False have run: "fold_res create_catalog_item (default_items s tenant) (db\<lparr>catalog_inits := catalog_inits db @ [tenant]\<rparr>) = Inr db'"
    by (simp add: ensure_defaults_def)
  show ?thesis
    by (rule fold_res_invariant [where P = "ledger_frame db", OF run])
       (auto simp: ledger_frame_def dest!: ledger_frame_writes(2))
qed (simp add: ensure_defaults_def)

lemma ledger_frame_select:
  "select_catalog s tenant types sources opp db = Inr (db', sel) \<Longrightarrow> ledger_frame db db'"
  unfolding select_catalog_def resolve_selections_def
  by (auto simp: Let_def split: if_splits sum.splits prod.splits dest!: ledger_frame_defaults intro: ledger_frame_trans)

lemma ledger_frame_link: "link_catalog s tenant opp items db = Inr db' \<Longrightarrow> ledger_frame db db'"
  unfolding link_catalog_def
  by (auto split: if_splits sum.splits dest!: ledger_frame_writes(3) intro: ledger_frame_trans)

text \<open>The entry of a creation, and what a second creation with the same key finds.\<close>

lemma create_opp_tx_entry:
  assumes run: "create_opp_tx s p key inp amount sign hash db = Inr (db', r)"
    and free: "find_create_idem (p_tenant p) (p_user p) key db = None"
    and wf: "table_wf (opportunities db)" "0 < next_id (opportunities db)"
  obtains c x where "find_create_idem (p_tenant p) (p_user p) key db' = Some c" "customer_visible p (oc_customer inp) db'"
    "find_created_by_id (p_tenant p) (ce_opp c) db' = Inr x" "created_by x = p_user p" "o_customer x = oc_customer inp"
    "tenant_id c = p_tenant p" "ce_actor c = p_user p" "ce_key c = key" "ce_customer c = oc_customer inp" "ce_opp c \<noteq> 0"
    "ce_hash c = hash" "ce_response_hash c = response_hash s r" "ce_response c = r" "or_id r = ce_opp c" "or_customer r = oc_customer inp"
proof -
  obtain db1 items tl sl db2 no m db3 db4 db5 where sel: "select_catalog s (p_tenant p) (oc_type_ids inp, oc_type inp) (oc_source_ids inp, oc_source inp) 0 db
      = Inr (db1, items, tl, sl)" and no: "next_opp_number (p_tenant p) (op_now s) db1 = Inr (db2, no)"
    and row: "create_opp_row (op_now s) ((new_opportunity s (p_tenant p) (p_user p) inp amount sign)\<lparr>o_no := no, o_type := tl, o_source := sl\<rparr>) db2 = Inr (db3, m)"
    and link: "link_catalog s (p_tenant p) (row_id m) items db3 = Inr db4"
    and r: "r = enrich_response s (p_tenant p) db4 (to_response m)"
    and idem: "create_create_idem (new_create_idem s p key (oc_customer inp) (row_id m) hash r) db4 = Inr db5"
    and db': "db' = audit_opp s p ''CREATE'' (row_id m) None (Some (SnapResponse (to_response m))) [] db5"
    and vis: "customer_visible p (oc_customer inp) db"
    using run free by (auto simp: create_opp_tx_def Let_def split: if_splits sum.splits)
  have frame: "ledger_frame db db4"
    using ledger_frame_select [OF sel] ledger_frame_writes(1) [OF no] ledger_frame_writes(4) [OF row] ledger_frame_link [OF link]
    by (blast intro: ledger_frame_trans)
  have opps: "opportunities db2 = opportunities db"
    using select_catalog_quiet [OF sel] quiet_writes(3) [OF no] by (metis view_of_simps(1))
  have m: "row_id m = next_id (opportunities db)" "o_customer m = oc_customer inp"
    and rows3: "opportunities db3 = snd (insert_row (stored_opp m) (opportunities db))"
    using row opps by (auto simp: create_opp_row_def Let_def new_opportunity_def split: if_splits)
  have m2: "tenant_id m = p_tenant p" "created_by m = p_user p" "deleted_at m = None"
    using row by (auto simp: create_opp_row_def Let_def new_opportunity_def split: if_splits)
  have "opportunities db' = opportunities db4" using idem db' by (auto simp: create_create_idem_def audit_opp_def write_audit_def split: if_splits)
  moreover have "opportunities db4 = opportunities db3" using link_catalog_quiet [OF link] by (metis view_of_simps(1))
  ultimately have rows: "opportunities db' = snd (insert_row (stored_opp m) (opportunities db))" using rows3 by simp
  let ?c = "new_create_idem s p key (oc_customer inp) (row_id m) hash r"
  have idems: "create_idems db' = snd (insert_row ?c (create_idems db))" and refs: "customer_refs db' = customer_refs db"
    using idem db' frame by (auto simp: create_create_idem_def audit_opp_def write_audit_def ledger_frame_def split: if_splits)
  have found: "find_create_idem (p_tenant p) (p_user p) key db' = Some (fst (insert_row ?c (create_idems db)))"
    using free by (simp add: find_create_idem_def idems find_row_insert) (simp add: new_create_idem_def insert_row_def)
  have by_id: "find_created_by_id (p_tenant p) (row_id m) db' = Inr (fst (insert_row (stored_opp m) (opportunities db)))"
  proof -
    have "find_row (is_opp (p_tenant p) (row_id m)) (opportunities db) = None"
      using wf(1) m(1) by (auto simp: find_row_None is_opp_def table_wf_def)
    moreover have "is_opp (p_tenant p) (row_id m) (fst (insert_row (stored_opp m) (opportunities db)))"
      using m m2 by (simp add: is_opp_def insert_row_def stored_opp_def)
    ultimately show ?thesis by (simp add: find_created_by_id_def rows find_row_insert)
  qed
  show ?thesis
    by (rule that [OF found, of "fst (insert_row (stored_opp m) (opportunities db))"]) (use vis refs by_id m m2 wf(2) r in \<open>simp_all add: customer_visible_def new_create_idem_def insert_row_def
        stored_opp_def enrich_response_def to_response_def Let_def\<close>)
qed

definition creation_checks :: "opp_service \<Rightarrow> principal \<Rightarrow> opp_create_input \<Rightarrow> opp_create_input \<Rightarrow> decimal \<Rightarrow> instant \<Rightarrow> bool" where
  "creation_checks s p inp inp1 amount sign \<longleftrightarrow>
     (let d = inherit_create_owner (normalize_create_request inp) p
      in trim_space (oc_key inp) \<noteq> [] \<and> \<not> 128 < length (trim_space (oc_key inp)) \<and>
         ensure_owner_not_frozen s (p_tenant p) (oc_owner d) = Inr () \<and>
         validate_selection (oc_name d) (oc_type d) (oc_source d) (oc_summary d) (oc_type_ids d) (oc_source_ids d) = Inr () \<and>
         validate_system_count (oc_systems d) = Inr () \<and> complete_owner s d = Inr inp1 \<and>
         positive_amount s (oc_amount inp1) = Inr amount \<and> valid_sign_date s (oc_sign_date inp1) = Inr sign)"

lemma creation_checked: "ok (create_opportunity s p inp db) (\<lambda>x. \<exists>inp1 amount sign. creation_checks s p inp inp1 amount sign)"
  unfolding create_opportunity_def creation_checks_def Let_def
  by (intro ok_intro) (auto simp: require_principal_def split: if_splits)

text \<open>
  C21. Repeating a creation with its key adds nothing. It is answered with the stored response exactly when the JSON column of the
  ledger gives back a text with the digest of the text that was written; a column that reformats the text makes every repetition fail
  as a conflict.
\<close>

theorem creation_repeated:
  assumes run: "create_opportunity s p inp db = Inr (db', r)"
    and free: "find_create_idem (p_tenant p) (p_user p) (trim_space (oc_key inp)) db = None"
    and wf: "table_wf (opportunities db)" "0 < next_id (opportunities db)"
    and digest: "length (op_sha s (op_json s (JsonResponse r))) = 64"
  shows "create_opportunity s p inp db' =
    (if op_sha s (op_json_column s (op_json s (JsonResponse r))) = op_sha s (op_json s (JsonResponse r)) then Inr (db', r)
     else Inl ErrOppIdempotencyConflict)"
proof -
  have user: "require_principal p = Inr p" using run by (auto simp: create_opportunity_def require_principal_def split: if_splits)
  let ?key = "trim_space (oc_key inp)" and ?inp = "inherit_create_owner (normalize_create_request inp) p"
  from okD [OF creation_checked run]
  obtain inp1 amount sign where checks: "creation_checks s p inp inp1 amount sign" by blast
  have ready: "create_opportunity s p inp d =
      (case create_opp_tx s p ?key inp1 amount sign (create_request_hash s inp1) d of
         Inr (d', x) \<Rightarrow> Inr (d', x)
       | Inl e \<Rightarrow> if e = ErrDuplicateIndex ''uq_opportunity_create_idem''
           then (case resolve_create_race s p (oc_customer inp1) ?key (create_request_hash s inp1) d of
             Inl e' \<Rightarrow> Inl e' | Inr x \<Rightarrow> Inr (d, x)) else Inl e)" for d
    unfolding create_opportunity_def user using checks by (simp add: creation_checks_def Let_def)
  have tx: "create_opp_tx s p (trim_space (oc_key inp)) inp1 amount sign (create_request_hash s inp1) db = Inr (db', r)"
    using run free by (auto simp: ready resolve_create_race_def split: if_splits sum.splits)
  show ?thesis
    by (rule create_opp_tx_entry [OF tx free wf])
       (auto simp: ready create_opp_tx_def replay_creation_def valid_create_replay_def response_hash_def stored_response_hash_def digest
         ErrOppIdempotencyConflict_def)
qed

lemma creation_repeated_witness:
  "\<exists>s db' r. create_opportunity s sample_principal sample_opp_create sample_customers = Inr (db', r) \<and>
     create_opportunity s sample_principal sample_opp_create db' = Inr (db', r)"
proof -
  let ?s = "sample_opp_service\<lparr>op_sha := \<lambda>_. replicate 64 CHR ''0''\<rparr>"
  have "\<exists>db' r. create_opportunity ?s sample_principal sample_opp_create sample_customers = Inr (db', r)"
    unfolding create_opportunity_def create_opp_tx_def next_opp_number_def
    by (simp add: sample_opp_service_def sample_principal_def sample_opp_create_def sample_customers_def empty_opp_db_def empty_table_def
      require_principal_def Let_def text_eval inherit_create_owner_def normalize_create_request_def ensure_owner_not_frozen_def
      validate_selection_def validate_system_count_def max_system_count_def complete_owner_def positive_amount_def valid_sign_date_def
      sample_date customer_visible_def exists_row_def insert_row_def find_create_idem_def find_row_def select_rows_def guard_owner_write_def
      select_catalog_def link_catalog_def enrich_response_def create_opp_row_def create_create_idem_def new_create_idem_def
      fits_decimal18_def cents_def scale_to_def new_opportunity_def beijing_day_def beijing_def)
  then obtain db' r where run: "create_opportunity ?s sample_principal sample_opp_create sample_customers = Inr (db', r)" by blast
  have "find_create_idem (p_tenant sample_principal) (p_user sample_principal) (trim_space (oc_key sample_opp_create)) sample_customers = None"
    "table_wf (opportunities sample_customers)" "0 < next_id (opportunities sample_customers)"
    by (simp_all add: sample_customers_def empty_opp_db_def find_create_idem_def find_row_def empty_table_def table_wf_def)
  from creation_repeated [OF run this] run show ?thesis by (auto simp: sample_opp_service_def)
qed

end
