(* ===== verification/CustomerModel.thy ===== *)
theory CustomerModel
  imports SharedModel
begin

text \<open>
  The customer row that the customer and credit modules share (\<open>customer/model.go\<close>) and the
  data scope both apply to it (\<open>customer/scope.go\<close>).
\<close>

section \<open>Principals with roles\<close>

record crm_principal = principal +
  p_roles :: "string list"

text \<open>\<open>HasPermissionOrRole\<close>.\<close>

definition permits_or_role :: "crm_principal \<Rightarrow> string \<Rightarrow> string list \<Rightarrow> bool" where
  "permits_or_role p perm roles \<longleftrightarrow> perm \<in> set (p_permissions p) \<or> list_ex (\<lambda>r. r \<in> set roles) (p_roles p)"

text \<open>A person with no role but that of a salesperson.\<close>

definition sales_only :: "crm_principal \<Rightarrow> bool" where
  "sales_only p \<longleftrightarrow>
     list_ex (\<lambda>r. r = ''sales'') (p_roles p) \<and>
     \<not> list_ex (\<lambda>r. r \<in> set [''sales_director'', ''customer_admin'', ''crm_super_admin'', ''auditor'', ''admin'']) (p_roles p)"

section \<open>Customers\<close>

datatype customer_status = CustomerActive | CustomerVoid | CustomerMerged

datatype credit_level = LevelA | LevelB | LevelC | LevelD

record customer = base_model +
  cu_no :: string
  cu_name :: string
  cu_normalized :: string
  cu_code_cipher :: string
  cu_code_hmac :: "string option"
  cu_type :: string
  cu_industry :: string
  cu_region :: string
  cu_owner_user :: string
  cu_owner_org :: string
  cu_status :: customer_status
  cu_end :: "instant option"
  cu_merged_into :: "nat option"
  cu_level :: credit_level
  cu_credit_at :: "instant option"
  cu_credit_source :: string
  cu_ontime :: nat
  cu_late :: nat
  cu_last_eval :: "instant option"

text \<open>
  \<open>ApplyDataScope\<close>: the customers a principal sees. A salesperson sees the customers they own,
  whatever scope the token carries; an empty set of organisations sees none.
\<close>

definition customer_in_scope :: "crm_principal \<Rightarrow> customer \<Rightarrow> bool" where
  "customer_in_scope p c \<longleftrightarrow>
     tenant_id c = p_tenant p \<and> deleted_at c = None \<and>
     (if sales_only p then cu_owner_user c = p_user p
      else case p_scope p of
        ScopeAll \<Rightarrow> True
      | ScopeOrg \<Rightarrow> cu_owner_org c \<in> set (p_orgs p)
      | ScopeSelf \<Rightarrow> cu_owner_user c = p_user p)"

definition customer_readable :: "crm_principal \<Rightarrow> customer \<Rightarrow> bool" where
  "customer_readable p c \<longleftrightarrow>
     (if ''customer.read.all'' \<in> set (p_permissions p) then tenant_id c = p_tenant p \<and> deleted_at c = None
      else customer_in_scope p c)"

text \<open>A customer that business may still refer to.\<close>

definition customer_available :: "customer \<Rightarrow> bool" where
  "customer_available c \<longleftrightarrow> cu_status c = CustomerActive \<and> cu_merged_into c = None"

end
