(* ===== verification/CreditModel.thy ===== *)
theory CreditModel
  imports CustomerModel
begin

text \<open>
  The data of the credit module (\<open>credit/model.go\<close>, migrations 000105 to 000116): payment
  events and the records of their evaluation, the log of levels, applications for a level
  with their approval, the rules and their history, and the notifications it writes.
\<close>

section \<open>Levels\<close>

fun level_text :: "credit_level \<Rightarrow> string" where
  "level_text LevelA = ''A''"
| "level_text LevelB = ''B''"
| "level_text LevelC = ''C''"
| "level_text LevelD = ''D''"

definition level_of :: "string \<Rightarrow> credit_level option" where
  "level_of v =
     (if v = ''A'' then Some LevelA else if v = ''B'' then Some LevelB else if v = ''C'' then Some LevelC
      else if v = ''D'' then Some LevelD else None)"

definition all_levels :: "credit_level list" where
  "all_levels = [LevelA, LevelB, LevelC, LevelD]"

fun level_index :: "credit_level \<Rightarrow> int" where
  "level_index LevelA = 0"
| "level_index LevelB = 1"
| "level_index LevelC = 2"
| "level_index LevelD = 3"

text \<open>\<open>stepLevel\<close>: a step of the index, kept within the table.\<close>

definition step_level :: "credit_level \<Rightarrow> int \<Rightarrow> credit_level" where
  "step_level l d =
     (let i = level_index l + d; i1 = (if i < 0 then 0 else i); i2 = (if 3 < i1 then 3 else i1) in all_levels ! nat i2)"

section \<open>Payments\<close>

definition payment_completed :: string where "payment_completed = ''customer.credit.payment.completed.v1''"
definition payment_reversed :: string where "payment_reversed = ''customer.credit.payment.reversed.v1''"

record payment_event =
  pe_event :: string
  pe_type :: string
  pe_payment :: string
  pe_reversal_of :: string
  pe_customer :: nat
  pe_due :: instant
  pe_paid :: "instant option"
  pe_due_amount :: string
  pe_paid_amount :: string
  pe_contract :: string
  pe_period :: string
  pe_source :: string

record payment_record = row +
  pr_event :: string
  pr_payment :: string
  pr_type :: string
  pr_reversal_of :: string
  pr_customer :: nat
  pr_due :: "instant option"
  pr_paid :: "instant option"
  pr_due_amount :: string
  pr_paid_amount :: string
  pr_contract :: string
  pr_period :: string
  pr_source :: string
  pr_evaluation :: string
  pr_ignored :: string
  pr_grace :: int
  pr_prev_level :: "credit_level option"
  pr_prev_ontime :: "nat option"
  pr_prev_late :: "nat option"
  pr_prev_last :: "instant option"
  pr_result_level :: "credit_level option"
  pr_result_ontime :: "nat option"
  pr_result_late :: "nat option"
  pr_reversed_at :: "instant option"
  pr_reversed_by :: string
  pr_evaluated :: instant
  pr_created :: instant

text \<open>\<open>PaymentRecord\<close>, the answer to the caller.\<close>

record payment_answer =
  pa_id :: nat
  pa_event :: string
  pa_payment :: string
  pa_type :: string
  pa_reversal_of :: string
  pa_evaluation :: string
  pa_ignored :: string
  pa_due :: "instant option"
  pa_paid :: "instant option"
  pa_due_amount :: string
  pa_paid_amount :: string
  pa_contract :: string
  pa_period :: string
  pa_source :: string
  pa_grace :: int
  pa_evaluated :: instant
  pa_reversed_at :: "instant option"
  pa_reversed_by :: string

record credit_state =
  st_level :: credit_level
  st_ontime :: nat
  st_late :: nat
  st_last :: "instant option"

section \<open>Logs, applications, approval, rules\<close>

record credit_log = row +
  cg_customer :: nat
  cg_from :: credit_level
  cg_to :: credit_level
  cg_source :: string
  cg_reason :: string
  cg_event :: string
  cg_payment :: string
  cg_operator :: string
  cg_application :: nat
  cg_at :: instant

datatype application_status = AppPending | AppApproved | AppRejected | AppInvalidated | AppWithdrawn

record credit_application = row +
  ca_instance :: nat
  ca_customer :: nat
  ca_applicant :: string
  ca_key :: string
  ca_from :: credit_level
  ca_target :: credit_level
  ca_reason :: string
  ca_status :: application_status
  ca_opinion :: string
  ca_decided_by :: string
  ca_decided_at :: "instant option"
  ca_created :: instant
  ca_updated :: instant
  ca_version :: nat
  ca_pending :: "nat option"

record credit_instance = row +
  ai_biz :: string
  ai_business :: nat
  ai_status :: application_status
  ai_task :: nat
  ai_created_by :: string
  ai_decided_by :: string
  ai_decided_at :: "instant option"
  ai_created :: instant
  ai_updated :: instant
  ai_version :: nat

record credit_task = row +
  at_instance :: nat
  at_code :: string
  at_role :: string
  at_status :: application_status
  at_decided_by :: string
  at_decided_at :: "instant option"
  at_created :: instant
  at_updated :: instant

record rule_settings =
  rs_tenant :: string
  rs_grace :: int
  rs_ontime :: int
  rs_late :: int
  rs_step :: int
  rs_enabled :: bool
  rs_updated :: instant

record rule_version = row +
  rv_grace :: int
  rv_ontime :: int
  rv_late :: int
  rv_step :: int
  rv_enabled :: bool
  rv_by :: string
  rv_reason :: string
  rv_at :: instant

record rule_input =
  ri_grace :: int
  ri_ontime :: int
  ri_late :: int
  ri_step :: int
  ri_enabled :: bool
  ri_reason :: string
  ri_updated :: "instant option"

record apply_input =
  ap_target :: string
  ap_reason :: string
  ap_key :: string

record decision_input =
  di_opinion :: string
  di_version :: nat

record level_answer =
  la_customer :: nat
  la_level :: credit_level
  la_updated :: "instant option"
  la_source :: string
  la_ontime :: nat
  la_late :: nat
  la_period :: string
  la_paid :: "instant option"
  la_count :: nat

record credit_statistics =
  sx_attention :: nat
  sx_c :: nat
  sx_d :: nat

text \<open>What the credit module writes into the tables of other modules.\<close>

record credit_change = row +
  cc_customer :: nat
  cc_from :: credit_level
  cc_to :: credit_level
  cc_reason :: string
  cc_operator :: string
  cc_request :: string
  cc_at :: instant

record credit_notice = row +
  cn_source :: string
  cn_kind :: string
  cn_customer :: nat
  cn_recipient :: string
  cn_title :: string
  cn_body :: string
  cn_at :: instant

record credit_db =
  customers :: "customer table"
  payments :: "payment_record table"
  credit_logs :: "credit_log table"
  credit_applications :: "credit_application table"
  credit_instances :: "credit_instance table"
  credit_tasks :: "credit_task table"
  rule_rows :: "rule_settings list"
  rule_versions :: "rule_version table"
  credit_changes :: "credit_change table"
  credit_notices :: "credit_notice table"

end
