(* ===== verification/CreditService.thy ===== *)
theory CreditService
  imports CreditModel
begin

text \<open>
  The credit service (\<open>credit/service.go\<close>): its ports, the customers it sees, the
  validation of payment events, the rules, the notifications it writes and the evaluation
  of a payment.
\<close>

section \<open>The service\<close>

text \<open>
  The service of one operation: its clock reading and trace, and what it calls:
  \<open>decimal.NewFromString\<close>, SHA-256 in hexadecimal digits and the owner directory, which may
  be unwired.
\<close>

record credit_service =
  cs_now :: instant
  cs_trace :: string
  cs_decimal :: "string \<Rightarrow> decimal option"
  cs_sha :: "string \<Rightarrow> string"
  cs_owners :: "(directory_query \<Rightarrow> directory_page app_res) option"

definition crm_authenticated :: "crm_principal \<Rightarrow> bool" where
  "crm_authenticated p \<longleftrightarrow> p_user p \<noteq> [] \<and> p_tenant p \<noteq> []"

definition ErrCustomerNotFound :: app_error where
  "ErrCustomerNotFound = AppError 404 ''CRM_CUSTOMER_NOT_FOUND''"

definition ErrCreditEvent :: app_error where
  "ErrCreditEvent = AppError 400 ''CRM_CREDIT_EVENT_INVALID''"

definition ErrCreditConflict :: app_error where
  "ErrCreditConflict = AppError 409 ''CRM_CREDIT_EVENT_IDEMPOTENCY_CONFLICT''"

definition ErrApplicationNotFound :: app_error where
  "ErrApplicationNotFound = AppError 404 ''CRM_CREDIT_APPLICATION_NOT_FOUND''"

definition ErrDirectoryUnavailable :: app_error where
  "ErrDirectoryUnavailable = AppError 503 ''CRM_CREDIT_OWNER_DIRECTORY_UNAVAILABLE''"

section \<open>Customers\<close>

definition scoped_credit_customer :: "crm_principal \<Rightarrow> nat \<Rightarrow> credit_db \<Rightarrow> customer option" where
  "scoped_credit_customer p i db = find_row (\<lambda>c. customer_in_scope p c \<and> row_id c = i) (customers db)"

definition ensure_credit_customer_visible :: "crm_principal \<Rightarrow> nat \<Rightarrow> credit_db \<Rightarrow> unit app_res" where
  "ensure_credit_customer_visible p i db =
     (case scoped_credit_customer p i db of None \<Rightarrow> Inl ErrCustomerNotFound | Some _ \<Rightarrow> Inr ())"

definition ensure_application_customer_visible :: "crm_principal \<Rightarrow> nat \<Rightarrow> credit_db \<Rightarrow> unit app_res" where
  "ensure_application_customer_visible p i db =
     (case ensure_credit_customer_visible p i db of
        Inr u \<Rightarrow> Inr u
      | Inl e \<Rightarrow> (case e of AppError st _ \<Rightarrow> if st = 404 then Inl ErrApplicationNotFound else Inl e | _ \<Rightarrow> Inl e))"

definition lock_scoped_credit_customer :: "crm_principal \<Rightarrow> nat \<Rightarrow> credit_db \<Rightarrow> customer option" where
  "lock_scoped_credit_customer p i db =
     find_row (\<lambda>c. customer_in_scope p c \<and> row_id c = i \<and> customer_available c) (customers db)"

text \<open>The customer a payment is evaluated for.\<close>

definition payment_customer :: "string \<Rightarrow> nat \<Rightarrow> credit_db \<Rightarrow> customer option" where
  "payment_customer tenant i db =
     find_row (\<lambda>c. tenant_id c = tenant \<and> row_id c = i \<and> customer_available c \<and> deleted_at c = None) (customers db)"

text \<open>\<open>UPDATE crm_customers ... WHERE tenant_id=? AND id=?\<close>.\<close>

definition update_customer :: "string \<Rightarrow> nat \<Rightarrow> (customer \<Rightarrow> customer) \<Rightarrow> credit_db \<Rightarrow> credit_db" where
  "update_customer tenant i f db =
     db\<lparr>customers := update_rows (\<lambda>c. tenant_id c = tenant \<and> row_id c = i) f (customers db)\<rparr>"

definition state_of :: "customer \<Rightarrow> credit_state" where
  "state_of c = \<lparr>st_level = cu_level c, st_ontime = cu_ontime c, st_late = cu_late c, st_last = cu_last_eval c\<rparr>"

section \<open>Validation of a payment event\<close>

definition valid_credit_amount :: "string \<Rightarrow> bool" where
  "valid_credit_amount v \<longleftrightarrow>
     v \<noteq> [] \<and> length v \<le> 32 \<and> list_all (\<lambda>c. is_digit c \<or> c = CHR ''.'' \<or> c = CHR ''+'' \<or> c = CHR ''-'') v"

definition credit_reference :: "string \<Rightarrow> bool" where
  "credit_reference v \<longleftrightarrow>
     v \<noteq> [] \<and>
     list_all (\<lambda>c. is_digit c \<or> 65 \<le> byte_of c \<and> byte_of c \<le> 90 \<or> 97 \<le> byte_of c \<and> byte_of c \<le> 122 \<or>
                   c \<in> set ''._/-'') v"

definition allowed_credit_sources :: "string list" where
  "allowed_credit_sources = [''settlement'', ''erp'', ''finance'', ''manual'']"

text \<open>
  The bound is the double nearest to 999999999999999.99, which is a whole number. The two
  loops over Go maps fail with the same error in any order.
\<close>

definition amount_supported :: "decimal \<Rightarrow> bool" where
  "amount_supported d \<longleftrightarrow> - 2 \<le> snd d \<and> \<not> decimal_less (10 ^ 15, 0) d"

definition validate_payment_event :: "payment_event \<Rightarrow> decimal \<Rightarrow> decimal \<Rightarrow> app_error option" where
  "validate_payment_event e due paid =
     (let ty = (if pe_type e = [] then payment_completed else pe_type e)
      in if trim_space (pe_event e) = [] \<or> trim_space (pe_payment e) = [] \<or> pe_customer e = 0 \<or> pe_due e = zero_time
         then Some ErrCreditEvent
         else if ty = payment_completed \<and> pe_reversal_of e \<noteq> [] then Some ErrCreditEvent
         else if ty = payment_reversed \<and> (pe_reversal_of e = [] \<or> fst paid \<noteq> 0) then Some ErrCreditEvent
         else if ty \<noteq> payment_completed \<and> ty \<noteq> payment_reversed then Some ErrCreditEvent
         else if to_lower (trim_space (pe_source e)) \<notin> set allowed_credit_sources then Some ErrCreditEvent
         else if \<not> amount_supported due \<or> \<not> amount_supported paid then Some ErrCreditEvent
         else if pe_contract e \<noteq> [] \<and> \<not> credit_reference (pe_contract e) then Some ErrCreditEvent
         else if pe_period e \<noteq> [] \<and> \<not> credit_reference (pe_period e) then Some ErrCreditEvent
         else None)"

definition same_payment_payload :: "payment_record \<Rightarrow> payment_event \<Rightarrow> bool" where
  "same_payment_payload x e \<longleftrightarrow>
     pr_event x = pe_event e \<and> pr_payment x = pe_payment e \<and> pr_customer x = pe_customer e \<and>
     pr_type x = pe_type e \<and> pr_reversal_of x = pe_reversal_of e \<and> pr_contract x = pe_contract e \<and>
     pr_period x = pe_period e \<and> pr_source x = pe_source e \<and> pr_due_amount x = pe_due_amount e \<and>
     pr_paid_amount x = pe_paid_amount e \<and> pr_due x = Some (pe_due e) \<and> pr_paid x = pe_paid e"

section \<open>Rules\<close>

definition default_rule_settings :: "string \<Rightarrow> instant \<Rightarrow> rule_settings" where
  "default_rule_settings tenant now =
     \<lparr>rs_tenant = tenant, rs_grace = 7, rs_ontime = 2, rs_late = 2, rs_step = 1, rs_enabled = True, rs_updated = now\<rparr>"

definition valid_rule_settings :: "rule_settings \<Rightarrow> bool" where
  "valid_rule_settings v \<longleftrightarrow>
     0 \<le> rs_grace v \<and> rs_grace v \<le> 90 \<and> 1 \<le> rs_ontime v \<and> rs_ontime v \<le> 100 \<and>
     1 \<le> rs_late v \<and> rs_late v \<le> 100 \<and> 1 \<le> rs_step v \<and> rs_step v \<le> 3"

definition find_rule_settings :: "string \<Rightarrow> credit_db \<Rightarrow> rule_settings option" where
  "find_rule_settings tenant db = List.find (\<lambda>r. rs_tenant r = tenant) (rule_rows db)"

definition rule_settings_for :: "string \<Rightarrow> instant \<Rightarrow> credit_db \<Rightarrow> rule_settings" where
  "rule_settings_for tenant now db =
     (case find_rule_settings tenant db of None \<Rightarrow> default_rule_settings tenant now | Some r \<Rightarrow> r)"

definition get_rule_settings :: "credit_service \<Rightarrow> crm_principal \<Rightarrow> credit_db \<Rightarrow> rule_settings app_res" where
  "get_rule_settings s p db =
     (if \<not> crm_authenticated p then Inl ErrUnauthenticated else Inr (rule_settings_for (p_tenant p) (cs_now s) db))"

definition ErrRuleConflict :: app_error where
  "ErrRuleConflict = AppError 409 ''CRM_CREDIT_RULE_VERSION_CONFLICT''"

definition update_rule_settings ::
  "credit_service \<Rightarrow> crm_principal \<Rightarrow> rule_input \<Rightarrow> credit_db \<Rightarrow> (rule_settings \<times> credit_db) app_res" where
  "update_rule_settings s p inp db =
     (let v = \<lparr>rs_tenant = p_tenant p, rs_grace = ri_grace inp, rs_ontime = ri_ontime inp, rs_late = ri_late inp,
               rs_step = ri_step inp, rs_enabled = ri_enabled inp, rs_updated = cs_now s\<rparr>;
          stored = v\<lparr>rs_updated := datetime3 (cs_now s)\<rparr>;
          log = \<lparr>row_id = 0, tenant_id = p_tenant p, rv_grace = rs_grace v, rv_ontime = rs_ontime v, rv_late = rs_late v,
                 rv_step = rs_step v, rv_enabled = rs_enabled v, rv_by = p_user p, rv_reason = trim_space (ri_reason inp),
                 rv_at = datetime3 (cs_now s)\<rparr>
      in if \<not> crm_authenticated p then Inl ErrUnauthenticated
         else if \<not> valid_rule_settings v then Inl (AppError 400 ''CRM_CREDIT_RULE_INVALID'')
         else case find_rule_settings (p_tenant p) db of
           Some current \<Rightarrow>
             if ri_updated inp \<noteq> Some (rs_updated current) then Inl ErrRuleConflict
             else if 500 < rune_len (rv_reason log) then Inl ErrDatabaseFailure
             else Inr (v, db\<lparr>rule_rows := map (\<lambda>r. if rs_tenant r = p_tenant p then stored else r) (rule_rows db),
                             rule_versions := snd (insert_row log (rule_versions db))\<rparr>)
         | None \<Rightarrow>
             if 500 < rune_len (rv_reason log) then Inl ErrDatabaseFailure
             else Inr (v, db\<lparr>rule_rows := rule_rows db @ [stored],
                             rule_versions := snd (insert_row log (rule_versions db))\<rparr>))"

section \<open>Notifications\<close>

definition txt_pending_title :: string where \<comment> \<open>level adjustment awaits approval\<close>
  "txt_pending_title = utf8 [20449, 29992, 31561, 32423, 35843, 25972, 24453, 23457, 25209]"

definition txt_pending_body :: string where
  "txt_pending_body = utf8 [23458, 25143, 20449, 29992, 31561, 32423, 35843, 25972, 30003, 35831, 31561, 24453, 23457,
     25209, 12290]"

definition txt_rejected_title :: string where \<comment> \<open>level adjustment rejected\<close>
  "txt_rejected_title = utf8 [20449, 29992, 31561, 32423, 35843, 25972, 24050, 39539, 22238]"

definition txt_rejected_body :: string where
  "txt_rejected_body = utf8 [24744, 30340, 20449, 29992, 31561, 32423, 35843, 25972, 30003, 35831, 24050, 34987, 39539,
     22238, 12290]"

definition txt_approved_title :: string where \<comment> \<open>level adjustment approved\<close>
  "txt_approved_title = utf8 [20449, 29992, 31561, 32423, 35843, 25972, 24050, 36890, 36807]"

definition txt_approved_body :: string where
  "txt_approved_body = utf8 [24744, 30340, 20449, 29992, 31561, 32423, 35843, 25972, 30003, 35831, 24050, 36890, 36807,
     65292, 23458, 25143, 20449, 29992, 31561, 32423, 24050, 26356, 26032, 12290]"

definition txt_invalidated_title :: string where \<comment> \<open>level adjustment invalidated\<close>
  "txt_invalidated_title = utf8 [20449, 29992, 31561, 32423, 35843, 25972, 24050, 22833, 25928]"

definition txt_invalidated_body :: string where
  "txt_invalidated_body = utf8 [23458, 25143, 20449, 29992, 31561, 32423, 24050, 34987, 35268, 21017, 26356, 26032, 65292,
     35831, 37325, 26032, 35780, 20272, 21518, 21457, 36215, 30003, 35831, 12290]"

definition txt_rule_title :: string where \<comment> \<open>level adjusted automatically\<close>
  "txt_rule_title = utf8 [23458, 25143, 20449, 29992, 31561, 32423, 24050, 33258, 21160, 35843, 25972]"

definition txt_rule_body :: "credit_level \<Rightarrow> credit_level \<Rightarrow> string" where \<comment> \<open>adjusted by the rules from ... to ...\<close>
  "txt_rule_body from to =
     utf8 [23458, 25143, 20449, 29992, 31561, 32423, 24050, 30001, 35268, 21017, 20174, 32] @ level_text from
       @ utf8 [32, 35843, 25972, 20026, 32] @ level_text to @ utf8 [12290]"

record credit_message =
  cm_tenant :: string
  cm_customer :: nat
  cm_application :: nat
  cm_kind :: string
  cm_title :: string
  cm_body :: string

text \<open>\<open>creditNotificationSourceID\<close>: no time enters the digest.\<close>

definition credit_source_id :: "credit_service \<Rightarrow> credit_message \<Rightarrow> string \<Rightarrow> string" where
  "credit_source_id s m recipient =
     ''credit:'' @ cs_sha s (join [CHR 0x1f]
       [cm_tenant m, show_nat (cm_customer m), show_nat (cm_application m), cm_kind m, recipient, cm_title m, cm_body m])"

text \<open>\<open>notifyApplication\<close>; a key that exists leaves the table as it is.\<close>

definition notify_application :: "credit_service \<Rightarrow> credit_message \<Rightarrow> string \<Rightarrow> credit_db \<Rightarrow> credit_db" where
  "notify_application s m recipient db =
     (if trim_space recipient = [] then db
      else if exists_row (\<lambda>n. tenant_id n = cm_tenant m \<and> cn_source n = credit_source_id s m recipient) (credit_notices db)
      then db
      else db\<lparr>credit_notices := snd (insert_row
             \<lparr>row_id = 0, tenant_id = cm_tenant m, cn_source = credit_source_id s m recipient, cn_kind = cm_kind m,
              cn_customer = cm_customer m, cn_recipient = recipient, cn_title = cm_title m, cn_body = cm_body m,
              cn_at = datetime3 (cs_now s)\<rparr> (credit_notices db))\<rparr>)"

definition notify_director ::
  "credit_service \<Rightarrow> credit_message \<Rightarrow> directory_user \<Rightarrow> string list \<times> credit_db \<Rightarrow> string list \<times> credit_db" where
  "notify_director s m u = (\<lambda>(seen, db).
     let i = trim_space (du_id u)
     in if i = [] \<or> i \<in> set seen then (seen, db) else (i # seen, notify_application s m i db))"

text \<open>The loop over the pages of the directory, at most \<open>n\<close> more.\<close>

fun notify_pages ::
  "credit_service \<Rightarrow> (directory_query \<Rightarrow> directory_page app_res) \<Rightarrow> credit_message \<Rightarrow> nat \<Rightarrow> nat
     \<Rightarrow> string list \<times> credit_db \<Rightarrow> (string list \<times> credit_db) app_res" where
  "notify_pages s owners m 0 page acc = Inr acc"
| "notify_pages s owners m (Suc n) page acc =
     (case owners \<lparr>q_user = [], q_roles = [''sales_director''], q_page = page, q_size = 50\<rparr> of
        Inl _ \<Rightarrow> Inl ErrDirectoryUnavailable
      | Inr pg \<Rightarrow>
          (let acc' = fold (notify_director s m) (page_items pg) acc
           in if page_items pg = [] \<or> page_total pg \<le> int (length (fst acc')) \<or> length (page_items pg) < 50
              then Inr acc' else notify_pages s owners m n (Suc page) acc'))"

definition notify_sales_directors :: "credit_service \<Rightarrow> credit_message \<Rightarrow> credit_db \<Rightarrow> credit_db app_res" where
  "notify_sales_directors s m db =
     (case cs_owners s of
        None \<Rightarrow> Inl ErrDirectoryUnavailable
      | Some owners \<Rightarrow>
          (case notify_pages s owners m 100 1 ([], db) of
             Inl e \<Rightarrow> Inl e
           | Inr (seen, db') \<Rightarrow> if seen = [] then Inl ErrDirectoryUnavailable else Inr db'))"

definition notify_rule_change ::
  "credit_service \<Rightarrow> string \<Rightarrow> nat \<Rightarrow> credit_level \<Rightarrow> credit_level \<Rightarrow> credit_db \<Rightarrow> credit_db app_res" where
  "notify_rule_change s tenant i from to db =
     (let m = \<lparr>cm_tenant = tenant, cm_customer = i, cm_application = 0, cm_kind = ''CREDIT_RULE_CHANGED'',
               cm_title = txt_rule_title, cm_body = txt_rule_body from to\<rparr>
      in case find_row (\<lambda>c. tenant_id c = tenant \<and> row_id c = i) (customers db) of
           None \<Rightarrow> Inl ErrDatabaseFailure
         | Some c \<Rightarrow> notify_sales_directors s m
             (if cu_owner_user c = [] then db else notify_application s m (cu_owner_user c) db))"

definition write_customer_change_log ::
  "credit_service \<Rightarrow> string \<Rightarrow> nat \<Rightarrow> credit_level \<Rightarrow> credit_level \<Rightarrow> string \<Rightarrow> string \<Rightarrow> credit_db \<Rightarrow> credit_db" where
  "write_customer_change_log s tenant i from to reason operator db =
     db\<lparr>credit_changes := snd (insert_row
       \<lparr>row_id = 0, tenant_id = tenant, cc_customer = i, cc_from = from, cc_to = to, cc_reason = reason,
        cc_operator = operator, cc_request = cs_trace s, cc_at = datetime3 (cs_now s)\<rparr> (credit_changes db))\<rparr>"

definition write_credit_log :: "credit_log \<Rightarrow> credit_db \<Rightarrow> credit_db" where
  "write_credit_log g db = db\<lparr>credit_logs := snd (insert_row g (credit_logs db))\<rparr>"

end
