(* ===== verification/CreditPayments.thy ===== *)
theory CreditPayments
  imports CreditService
begin

text \<open>
  \<open>ProcessPayment\<close> and \<open>processReversal\<close> (\<open>credit/service.go\<close>): a payment is recorded
  once, moves the counters of consecutive payments and, at a threshold, the level of the
  customer; a reversal of the latest payment takes its snapshot back.
\<close>

section \<open>Evaluation\<close>

definition payment_evaluation :: "instant \<Rightarrow> instant \<Rightarrow> int \<Rightarrow> string" where
  "payment_evaluation due paid grace =
     (if beijing_day paid \<le> beijing_day due + grace then ''ONTIME'' else ''LATE'')"

text \<open>The counters are of type \<open>uint32\<close>.\<close>

definition u32 :: "nat \<Rightarrow> nat" where
  "u32 n = n mod 2 ^ 32"

text \<open>
  The state after an evaluated payment and whether a threshold was reached; the last
  evaluated payment is set after the two thresholds.
\<close>

definition evaluated_state :: "rule_settings \<Rightarrow> string \<Rightarrow> instant option \<Rightarrow> credit_state \<Rightarrow> credit_state \<times> bool" where
  "evaluated_state rules evaluation paid prev =
     (let n0 = (if evaluation = ''ONTIME'' then prev\<lparr>st_ontime := u32 (st_ontime prev + 1), st_late := 0\<rparr>
                else prev\<lparr>st_late := u32 (st_late prev + 1), st_ontime := 0\<rparr>);
          up = (evaluation = ''ONTIME'' \<and> rs_ontime rules \<le> int (st_ontime n0));
          n1 = (if up then n0\<lparr>st_level := step_level (st_level prev) (- rs_step rules), st_ontime := 0\<rparr> else n0);
          down = (evaluation = ''LATE'' \<and> rs_late rules \<le> int (st_late n1));
          n2 = (if down then n1\<lparr>st_level := step_level (st_level prev) (rs_step rules), st_late := 0\<rparr> else n1)
      in (n2\<lparr>st_last := paid\<rparr>, up \<or> down))"

section \<open>Records\<close>

definition to_payment_answer :: "payment_record \<Rightarrow> payment_answer" where
  "to_payment_answer r =
     \<lparr>pa_id = row_id r, pa_event = pr_event r, pa_payment = pr_payment r, pa_type = pr_type r,
      pa_reversal_of = pr_reversal_of r, pa_evaluation = pr_evaluation r, pa_ignored = pr_ignored r, pa_due = pr_due r,
      pa_paid = pr_paid r, pa_due_amount = pr_due_amount r, pa_paid_amount = pr_paid_amount r,
      pa_contract = pr_contract r, pa_period = pr_period r, pa_source = pr_source r, pa_grace = pr_grace r,
      pa_evaluated = pr_evaluated r, pa_reversed_at = pr_reversed_at r, pa_reversed_by = pr_reversed_by r\<rparr>"

definition new_payment_record ::
  "credit_service \<Rightarrow> string \<Rightarrow> payment_event \<Rightarrow> string \<Rightarrow> string \<Rightarrow> int \<Rightarrow> credit_state option \<Rightarrow> credit_state option
     \<Rightarrow> payment_record" where
  "new_payment_record s tenant e evaluation ignored grace prev next =
     \<lparr>row_id = 0, tenant_id = tenant, pr_event = pe_event e, pr_payment = pe_payment e, pr_type = pe_type e,
      pr_reversal_of = pe_reversal_of e, pr_customer = pe_customer e, pr_due = Some (pe_due e), pr_paid = pe_paid e,
      pr_due_amount = pe_due_amount e, pr_paid_amount = pe_paid_amount e, pr_contract = pe_contract e,
      pr_period = pe_period e, pr_source = pe_source e, pr_evaluation = evaluation, pr_ignored = ignored,
      pr_grace = grace, pr_prev_level = map_option st_level prev, pr_prev_ontime = map_option st_ontime prev,
      pr_prev_late = map_option st_late prev, pr_prev_last = Option.bind prev st_last,
      pr_result_level = map_option st_level next, pr_result_ontime = map_option st_ontime next,
      pr_result_late = map_option st_late next, pr_reversed_at = None, pr_reversed_by = [],
      pr_evaluated = cs_now s, pr_created = cs_now s\<rparr>"

text \<open>What the columns take: widths in characters, times to the millisecond.\<close>

definition record_fits :: "payment_record \<Rightarrow> bool" where
  "record_fits r \<longleftrightarrow>
     rune_len (pr_event r) \<le> 128 \<and> rune_len (pr_payment r) \<le> 128 \<and> rune_len (pr_type r) \<le> 64 \<and>
     rune_len (pr_reversal_of r) \<le> 128 \<and> rune_len (pr_contract r) \<le> 64 \<and> rune_len (pr_period r) \<le> 64 \<and>
     rune_len (pr_source r) \<le> 64 \<and> rune_len (pr_due_amount r) \<le> 32 \<and> rune_len (pr_paid_amount r) \<le> 32 \<and>
     rune_len (pr_evaluation r) \<le> 24 \<and> rune_len (pr_ignored r) \<le> 64"

definition stored_record :: "payment_record \<Rightarrow> payment_record" where
  "stored_record r =
     r\<lparr>pr_due := map_option datetime3 (pr_due r), pr_paid := map_option datetime3 (pr_paid r),
       pr_prev_last := map_option datetime3 (pr_prev_last r), pr_evaluated := datetime3 (pr_evaluated r),
       pr_created := datetime3 (pr_created r)\<rparr>"

text \<open>The condition \<open>tenant_id=? AND (event_id=? OR payment_id=?)\<close>; each of the two is a unique key.\<close>

definition bound_record :: "string \<Rightarrow> string \<Rightarrow> string \<Rightarrow> payment_record \<Rightarrow> bool" where
  "bound_record tenant event payment x \<longleftrightarrow> tenant_id x = tenant \<and> (pr_event x = event \<or> pr_payment x = payment)"

definition insert_record ::
  "credit_service \<Rightarrow> string \<Rightarrow> payment_event \<Rightarrow> string \<Rightarrow> string \<Rightarrow> int \<Rightarrow> credit_state option \<Rightarrow> credit_state option
     \<Rightarrow> credit_db \<Rightarrow> (payment_answer \<times> credit_db) app_res" where
  "insert_record s tenant e evaluation ignored grace prev next db =
     (let r = new_payment_record s tenant e evaluation ignored grace prev next;
          ins = insert_row (stored_record r) (payments db)
      in if \<not> record_fits r then Inl ErrDatabaseFailure
         else if exists_row (bound_record tenant (pe_event e) (pe_payment e)) (payments db)
         then Inl (ErrDuplicateIndex ''uq_credit_payment'')
         else Inr (to_payment_answer (r\<lparr>row_id := row_id (fst ins)\<rparr>), db\<lparr>payments := snd ins\<rparr>))"

definition system_log ::
  "credit_service \<Rightarrow> string \<Rightarrow> payment_event \<Rightarrow> credit_level \<Rightarrow> credit_level \<Rightarrow> string \<Rightarrow> string \<Rightarrow> credit_log" where
  "system_log s tenant e from to source reason =
     \<lparr>row_id = 0, tenant_id = tenant, cg_customer = pe_customer e, cg_from = from, cg_to = to, cg_source = source,
      cg_reason = reason, cg_event = pe_event e, cg_payment = pe_payment e, cg_operator = ''system'', cg_application = 0,
      cg_at = datetime3 (cs_now s)\<rparr>"

section \<open>A completed payment\<close>

text \<open>What a threshold writes: the log, the change log and, if the level moved, the notifications.\<close>

definition rule_hit_writes ::
  "credit_service \<Rightarrow> string \<Rightarrow> payment_event \<Rightarrow> string \<Rightarrow> credit_level \<Rightarrow> credit_level \<Rightarrow> credit_db \<Rightarrow> credit_db app_res" where
  "rule_hit_writes s tenant e evaluation from to db =
     (let source = (if to = from then ''RULE_CAP'' else ''RULE'');
          reason = (if to = from then evaluation @ ''_CAP_REACHED'' else evaluation);
          db1 = write_credit_log (system_log s tenant e from to source reason) db;
          db2 = write_customer_change_log s tenant (pe_customer e) from to reason ''system'' db1
      in if to \<noteq> from then notify_rule_change s tenant (pe_customer e) from to db2 else Inr db2)"

text \<open>The final update of the customer.\<close>

definition after_payment :: "credit_service \<Rightarrow> credit_state \<Rightarrow> bool \<Rightarrow> customer \<Rightarrow> customer" where
  "after_payment s next hit c =
     (let c1 = c\<lparr>cu_ontime := st_ontime next, cu_late := st_late next, cu_last_eval := map_option datetime3 (st_last next)\<rparr>
      in if \<not> hit then c1
         else if st_level next \<noteq> cu_level c
         then c1\<lparr>cu_level := st_level next, cu_credit_at := Some (datetime3 (cs_now s)), cu_credit_source := ''RULE''\<rparr>
         else c1)"

definition evaluate_payment ::
  "credit_service \<Rightarrow> string \<Rightarrow> payment_event \<Rightarrow> rule_settings \<Rightarrow> string \<Rightarrow> customer \<Rightarrow> credit_db
     \<Rightarrow> (payment_answer \<times> credit_db) app_res" where
  "evaluate_payment s tenant e rules evaluation c db =
     (case evaluated_state rules evaluation (pe_paid e) (state_of c) of
        (next, hit) \<Rightarrow>
          (case insert_record s tenant e evaluation [] (rs_grace rules) (Some (state_of c)) (Some next) db of
             Inl err \<Rightarrow> Inl err
           | Inr (ans, db1) \<Rightarrow>
               (case (if hit then rule_hit_writes s tenant e evaluation (cu_level c) (st_level next) db1 else Inr db1) of
                  Inl err \<Rightarrow> Inl err
                | Inr db2 \<Rightarrow> Inr (ans, update_customer tenant (pe_customer e) (after_payment s next hit) db2))))"

definition payment_tx ::
  "credit_service \<Rightarrow> string \<Rightarrow> payment_event \<Rightarrow> decimal \<Rightarrow> decimal \<Rightarrow> credit_db \<Rightarrow> (payment_answer \<times> credit_db) app_res" where
  "payment_tx s tenant e due paid db =
     (let rules = rule_settings_for tenant (cs_now s) db
      in case find_row (bound_record tenant (pe_event e) (pe_payment e)) (payments db) of
           Some x \<Rightarrow> if same_payment_payload x e then Inr (to_payment_answer x, db) else Inl ErrCreditConflict
         | None \<Rightarrow>
             (case payment_customer tenant (pe_customer e) db of
                None \<Rightarrow> insert_record s tenant e ''IGNORED_CUSTOMER_UNAVAILABLE'' ''CUSTOMER_UNAVAILABLE'' (rs_grace rules)
                          None None db
              | Some c \<Rightarrow>
                  (let prev = state_of c;
                       ignore = (\<lambda>evaluation reason.
                         insert_record s tenant e evaluation reason (rs_grace rules) (Some prev) (Some prev) db)
                   in if (case (pe_paid e, cu_last_eval c) of (Some t, Some l) \<Rightarrow> t < l | _ \<Rightarrow> False)
                      then ignore ''IGNORED_OUT_OF_ORDER'' ''OUT_OF_ORDER''
                      else if \<not> rs_enabled rules then ignore ''IGNORED_RULE_DISABLED'' ''RULE_DISABLED''
                      else case pe_paid e of
                        None \<Rightarrow> ignore ''IGNORED_INCOMPLETE'' ''INCOMPLETE_PAYMENT''
                      | Some t \<Rightarrow>
                          if decimal_less paid due then ignore ''IGNORED_INCOMPLETE'' ''INCOMPLETE_PAYMENT''
                          else evaluate_payment s tenant e rules (payment_evaluation (pe_due e) t (rs_grace rules)) c db)))"

section \<open>A reversal\<close>

definition reversal_error :: "string \<Rightarrow> app_error" where
  "reversal_error code = AppError 409 code"

text \<open>The state a payment left and the one it found, when the row has its snapshot.\<close>

definition applied_state :: "payment_record \<Rightarrow> credit_state option" where
  "applied_state r =
     (case (pr_result_level r, pr_result_ontime r, pr_result_late r) of
        (Some l, Some n, Some m) \<Rightarrow> Some \<lparr>st_level = l, st_ontime = n, st_late = m, st_last = pr_paid r\<rparr>
      | _ \<Rightarrow> None)"

definition restored_state :: "payment_record \<Rightarrow> credit_state option" where
  "restored_state r =
     (case (pr_prev_level r, pr_prev_ontime r, pr_prev_late r) of
        (Some l, Some n, Some m) \<Rightarrow> Some \<lparr>st_level = l, st_ontime = n, st_late = m, st_last = pr_prev_last r\<rparr>
      | _ \<Rightarrow> None)"

definition after_reversal :: "credit_service \<Rightarrow> credit_state \<Rightarrow> customer \<Rightarrow> customer" where
  "after_reversal s restored c =
     c\<lparr>cu_level := st_level restored, cu_ontime := st_ontime restored, cu_late := st_late restored,
       cu_last_eval := map_option datetime3 (st_last restored), cu_credit_at := Some (datetime3 (cs_now s)),
       cu_credit_source := ''REVERSAL''\<rparr>"

definition mark_reversed :: "credit_service \<Rightarrow> string \<Rightarrow> nat \<Rightarrow> string \<Rightarrow> credit_db \<Rightarrow> credit_db" where
  "mark_reversed s tenant i event db =
     db\<lparr>payments := update_rows (\<lambda>x. tenant_id x = tenant \<and> row_id x = i \<and> pr_reversed_at x = None)
          (\<lambda>x. x\<lparr>pr_reversed_at := Some (datetime3 (cs_now s)), pr_reversed_by := event\<rparr>) (payments db)\<rparr>"

definition reverse_payment ::
  "credit_service \<Rightarrow> string \<Rightarrow> payment_event \<Rightarrow> rule_settings \<Rightarrow> payment_record \<Rightarrow> credit_state \<Rightarrow> credit_state \<Rightarrow> credit_db
     \<Rightarrow> (payment_answer \<times> credit_db) app_res" where
  "reverse_payment s tenant e rules original current restored db =
     (let db1 = mark_reversed s tenant (row_id original) (pe_event e) db;
          reversal = e\<lparr>pe_type := payment_reversed, pe_reversal_of := pr_payment original\<rparr>;
          from = st_level current; to = st_level restored
      in case insert_record s tenant reversal ''REVERSED'' ''PAYMENT_REVERSED'' (rs_grace rules) (Some current)
                (Some restored) db1 of
           Inl err \<Rightarrow> Inl err
         | Inr (ans, db2) \<Rightarrow>
             (let db3 = write_credit_log (system_log s tenant e from to ''REVERSAL'' ''PAYMENT_REVERSED'') db2;
                  db4 = write_customer_change_log s tenant (pe_customer e) from to ''PAYMENT_REVERSED'' ''system'' db3
              in case (if to \<noteq> from then notify_rule_change s tenant (pe_customer e) from to db4 else Inr db4) of
                   Inl err \<Rightarrow> Inl err
                 | Inr db5 \<Rightarrow> Inr (ans, update_customer tenant (pe_customer e) (after_reversal s restored) db5)))"

definition reversal_tx :: "credit_service \<Rightarrow> string \<Rightarrow> payment_event \<Rightarrow> credit_db \<Rightarrow> (payment_answer \<times> credit_db) app_res" where
  "reversal_tx s tenant e db =
     (let rules = rule_settings_for tenant (cs_now s) db
      in case find_row (bound_record tenant (pe_event e) (pe_payment e)) (payments db) of
           Some x \<Rightarrow> if same_payment_payload x e then Inr (to_payment_answer x, db) else Inl ErrCreditConflict
         | None \<Rightarrow>
             (case find_row (\<lambda>x. tenant_id x = tenant \<and> pr_payment x = pe_reversal_of e) (payments db) of
                None \<Rightarrow> Inl (AppError 404 ''CRM_CREDIT_PAYMENT_NOT_FOUND'')
              | Some original \<Rightarrow>
                  if pr_evaluation original \<noteq> ''ONTIME'' \<and> pr_evaluation original \<noteq> ''LATE''
                  then Inl (reversal_error ''CRM_CREDIT_REVERSAL_UNSUPPORTED'')
                  else if pr_reversed_at original \<noteq> None
                  then Inl (reversal_error ''CRM_CREDIT_PAYMENT_ALREADY_REVERSED'')
                  else (case (applied_state original, restored_state original) of
                    (Some applied, Some restored) \<Rightarrow>
                      (case payment_customer tenant (pe_customer e) db of
                         None \<Rightarrow> Inl ErrCustomerNotFound
                       | Some c \<Rightarrow>
                           if exists_row (\<lambda>x. tenant_id x = tenant \<and> pr_customer x = pe_customer e \<and>
                                            row_id original < row_id x) (payments db)
                           then Inl (reversal_error ''CRM_CREDIT_REVERSAL_NOT_LATEST'')
                           else if state_of c \<noteq> applied
                           then Inl (reversal_error ''CRM_CREDIT_REVERSAL_STATE_CHANGED'')
                           else reverse_payment s tenant e rules original (state_of c) restored db)
                  | _ \<Rightarrow> Inl (reversal_error ''CRM_CREDIT_REVERSAL_UNSUPPORTED''))))"

section \<open>The entry\<close>

definition normalize_payment_event :: "payment_event \<Rightarrow> payment_event" where
  "normalize_payment_event e =
     e\<lparr>pe_event := trim_space (pe_event e), pe_payment := trim_space (pe_payment e),
       pe_type := (let ty = to_lower (trim_space (pe_type e)) in if ty = [] then payment_completed else ty),
       pe_reversal_of := trim_space (pe_reversal_of e), pe_contract := trim_space (pe_contract e),
       pe_period := trim_space (pe_period e), pe_source := to_lower (trim_space (pe_source e))\<rparr>"

definition ErrPaymentAmount :: app_error where
  "ErrPaymentAmount = AppError 422 ''CRM_CREDIT_PAYMENT_AMOUNT_INVALID''"

definition process_payment ::
  "credit_service \<Rightarrow> crm_principal \<Rightarrow> payment_event \<Rightarrow> credit_db \<Rightarrow> (payment_answer \<times> credit_db) app_res" where
  "process_payment s p e0 db =
     (let e = normalize_payment_event e0
      in if \<not> crm_authenticated p then Inl ErrUnauthenticated
         else if pe_type e \<noteq> payment_completed \<and> pe_type e \<noteq> payment_reversed then Inl ErrCreditEvent
         else if \<not> valid_credit_amount (pe_due_amount e) \<or> \<not> valid_credit_amount (pe_paid_amount e)
         then Inl ErrPaymentAmount
         else case cs_decimal s (pe_due_amount e) of
           None \<Rightarrow> Inl ErrCreditEvent
         | Some due \<Rightarrow>
             if fst due < 0 then Inl ErrCreditEvent
             else case cs_decimal s (pe_paid_amount e) of
               None \<Rightarrow> Inl ErrCreditEvent
             | Some paid \<Rightarrow>
                 if fst paid < 0 then Inl ErrCreditEvent
                 else case validate_payment_event e due paid of
                   Some err \<Rightarrow> Inl err
                 | None \<Rightarrow>
                     if pe_type e = payment_reversed
                     then (if fst paid \<noteq> 0 then Inl ErrCreditEvent else reversal_tx s (p_tenant p) e db)
                     else payment_tx s (p_tenant p) e due paid db)"

end
