(* ===== verification/CreditApplications.thy ===== *)
theory CreditApplications
  imports CreditPayments
begin

text \<open>
  Applications for another level (\<open>Apply\<close>, \<open>Decide\<close>, \<open>Withdraw\<close> of
  \<open>credit/service.go\<close>) with their approval rows, and the module's reads.
\<close>

section \<open>Applying\<close>

definition app_error_409 :: "string \<Rightarrow> app_error" where
  "app_error_409 code = AppError 409 code"

definition new_credit_application ::
  "credit_service \<Rightarrow> crm_principal \<Rightarrow> customer \<Rightarrow> credit_level \<Rightarrow> string \<Rightarrow> string \<Rightarrow> credit_application" where
  "new_credit_application s p c target reason key =
     \<lparr>row_id = 0, tenant_id = p_tenant p, ca_instance = 0, ca_customer = row_id c, ca_applicant = p_user p, ca_key = key,
      ca_from = cu_level c, ca_target = target, ca_reason = reason, ca_status = AppPending, ca_opinion = [],
      ca_decided_by = [], ca_decided_at = None, ca_created = cs_now s, ca_updated = cs_now s, ca_version = 1,
      ca_pending = Some (row_id c)\<rparr>"

definition stored_application :: "credit_application \<Rightarrow> credit_application" where
  "stored_application a =
     a\<lparr>ca_decided_at := map_option datetime3 (ca_decided_at a), ca_created := datetime3 (ca_created a),
       ca_updated := datetime3 (ca_updated a)\<rparr>"

text \<open>The unique keys of the table: one pending application of a customer, one key of an applicant.\<close>

definition application_clash :: "credit_application \<Rightarrow> credit_application \<Rightarrow> bool" where
  "application_clash a x \<longleftrightarrow>
     tenant_id x = tenant_id a \<and>
     (ca_pending a \<noteq> None \<and> ca_pending x = ca_pending a \<or> ca_applicant x = ca_applicant a \<and> ca_key x = ca_key a)"

definition create_application :: "credit_application \<Rightarrow> credit_db \<Rightarrow> (credit_application \<times> credit_db) app_res" where
  "create_application a db =
     (let ins = insert_row (stored_application a) (credit_applications db)
      in if exists_row (application_clash a) (credit_applications db)
         then Inl (app_error_409 ''CRM_CREDIT_APPLICATION_PENDING_EXISTS'')
         else Inr (a\<lparr>row_id := row_id (fst ins)\<rparr>, db\<lparr>credit_applications := snd ins\<rparr>))"

definition new_credit_instance :: "credit_service \<Rightarrow> credit_application \<Rightarrow> credit_instance" where
  "new_credit_instance s a =
     \<lparr>row_id = 0, tenant_id = tenant_id a, ai_biz = ''CREDIT_ADJUSTMENT'', ai_business = row_id a, ai_status = AppPending,
      ai_task = 0, ai_created_by = ca_applicant a, ai_decided_by = [], ai_decided_at = None,
      ai_created = datetime3 (cs_now s), ai_updated = datetime3 (cs_now s), ai_version = 1\<rparr>"

definition new_credit_task :: "credit_service \<Rightarrow> credit_application \<Rightarrow> nat \<Rightarrow> credit_task" where
  "new_credit_task s a i =
     \<lparr>row_id = 0, tenant_id = tenant_id a, at_instance = i, at_code = ''SALES_DIRECTOR_APPROVE'',
      at_role = ''sales_director'', at_status = AppPending, at_decided_by = [], at_decided_at = None,
      at_created = datetime3 (cs_now s), at_updated = datetime3 (cs_now s)\<rparr>"

text \<open>
  The approval rows of a new application and the links between the three; \<open>Update\<close> on a model
  writes \<open>updated_at\<close> as well.
\<close>

definition create_approval_rows :: "credit_service \<Rightarrow> credit_application \<Rightarrow> credit_db \<Rightarrow> (nat \<times> credit_db) app_res" where
  "create_approval_rows s a db =
     (let inst = insert_row (new_credit_instance s a) (credit_instances db);
          i = row_id (fst inst);
          task = insert_row (new_credit_task s a i) (credit_tasks db);
          now = datetime3 (cs_now s)
      in if exists_row (\<lambda>x. tenant_id x = tenant_id a \<and> ai_biz x = ''CREDIT_ADJUSTMENT'' \<and> ai_business x = row_id a)
              (credit_instances db)
         then Inl (ErrDuplicateIndex ''uq_approval_business'')
         else Inr (i, db\<lparr>
           credit_instances := update_rows (\<lambda>x. tenant_id x = tenant_id a \<and> row_id x = i)
             (\<lambda>x. x\<lparr>ai_task := row_id (fst task), ai_updated := now\<rparr>) (snd inst),
           credit_tasks := snd task,
           credit_applications := update_rows (\<lambda>x. tenant_id x = tenant_id a \<and> row_id x = row_id a)
             (\<lambda>x. x\<lparr>ca_instance := i, ca_updated := now\<rparr>) (credit_applications db)\<rparr>))"

definition pending_message :: "credit_application \<Rightarrow> credit_message" where
  "pending_message a =
     \<lparr>cm_tenant = tenant_id a, cm_customer = ca_customer a, cm_application = row_id a,
      cm_kind = ''CREDIT_APPLICATION_PENDING'', cm_title = txt_pending_title, cm_body = txt_pending_body\<rparr>"

definition apply_tx ::
  "credit_service \<Rightarrow> crm_principal \<Rightarrow> nat \<Rightarrow> string \<Rightarrow> string \<Rightarrow> string \<Rightarrow> credit_db
     \<Rightarrow> (credit_application \<times> credit_db) app_res" where
  "apply_tx s p i target reason key db =
     (case find_row (\<lambda>a. tenant_id a = p_tenant p \<and> ca_applicant a = p_user p \<and> ca_key a = key) (credit_applications db) of
        Some a \<Rightarrow>
          if ca_customer a \<noteq> i \<or> level_text (ca_target a) \<noteq> target \<or> ca_reason a \<noteq> reason
          then Inl (app_error_409 ''CRM_CREDIT_APPLICATION_IDEMPOTENCY_CONFLICT'')
          else Inr (a, db)
      | None \<Rightarrow>
          (case lock_scoped_credit_customer p i db of
             None \<Rightarrow> Inl ErrCustomerNotFound
           | Some c \<Rightarrow>
               (case level_of target of
                  None \<Rightarrow> Inl (AppError 400 ''CRM_CREDIT_APPLICATION_INVALID'')
                | Some t \<Rightarrow>
                    if cu_level c = t then Inl (app_error_409 ''CRM_CREDIT_APPLICATION_SAME_LEVEL'')
                    else case create_application (new_credit_application s p c t reason key) db of
                      Inl e \<Rightarrow> Inl e
                    | Inr (a, db1) \<Rightarrow>
                        (case create_approval_rows s a db1 of
                           Inl e \<Rightarrow> Inl e
                         | Inr (n, db2) \<Rightarrow>
                             (case notify_sales_directors s (pending_message a) db2 of
                                Inl e \<Rightarrow> Inl e
                              | Inr db3 \<Rightarrow> Inr (a\<lparr>ca_instance := n\<rparr>, db3))))))"

definition apply_for_level ::
  "credit_service \<Rightarrow> crm_principal \<Rightarrow> nat \<Rightarrow> apply_input \<Rightarrow> credit_db \<Rightarrow> (credit_application \<times> credit_db) app_res" where
  "apply_for_level s p i inp db =
     (let reason = trim_space (ap_reason inp); key = trim_space (ap_key inp)
      in if \<not> crm_authenticated p then Inl ErrUnauthenticated
         else if ''customer.credit.apply'' \<notin> set (p_permissions p) \<or> \<not> sales_only p then Inl ErrAppForbidden
         else if level_of (ap_target inp) = None \<or> rune_len reason < 2 \<or> 500 < rune_len reason
         then Inl (AppError 400 ''CRM_CREDIT_APPLICATION_INVALID'')
         else if key = [] \<or> 128 < length key
         then Inl (AppError 400 ''CRM_CREDIT_APPLICATION_IDEMPOTENCY_REQUIRED'')
         else apply_tx s p i (ap_target inp) reason key db)"

section \<open>Deciding\<close>

text \<open>\<open>tx.Save\<close> on a row that was read, and the closing of its approval rows.\<close>

definition save_application :: "credit_application \<Rightarrow> credit_db \<Rightarrow> credit_db" where
  "save_application a db =
     db\<lparr>credit_applications := update_rows (\<lambda>x. row_id x = row_id a) (\<lambda>_. stored_application a) (credit_applications db)\<rparr>"

definition close_tasks ::
  "string \<Rightarrow> nat \<Rightarrow> (credit_task \<Rightarrow> credit_task) \<Rightarrow> credit_db \<Rightarrow> credit_db" where
  "close_tasks tenant i f db =
     db\<lparr>credit_tasks := update_rows (\<lambda>x. tenant_id x = tenant \<and> at_instance x = i \<and> at_status x = AppPending) f
          (credit_tasks db)\<rparr>"

definition close_instance :: "credit_service \<Rightarrow> crm_principal \<Rightarrow> nat \<Rightarrow> application_status \<Rightarrow> credit_db \<Rightarrow> credit_db" where
  "close_instance s p i st db =
     db\<lparr>credit_instances := update_rows (\<lambda>x. tenant_id x = p_tenant p \<and> row_id x = i)
          (\<lambda>x. x\<lparr>ai_status := st, ai_decided_by := p_user p, ai_decided_at := Some (datetime3 (cs_now s)),
                  ai_updated := datetime3 (cs_now s), ai_version := ai_version x + 1\<rparr>) (credit_instances db)\<rparr>"

definition manual_level :: "credit_service \<Rightarrow> credit_level \<Rightarrow> customer \<Rightarrow> customer" where
  "manual_level s target c =
     c\<lparr>cu_level := target, cu_credit_at := Some (datetime3 (cs_now s)), cu_credit_source := ''MANUAL'', cu_ontime := 0,
       cu_late := 0\<rparr>"

definition manual_log :: "credit_service \<Rightarrow> crm_principal \<Rightarrow> credit_application \<Rightarrow> string \<Rightarrow> credit_log" where
  "manual_log s p a opinion =
     \<lparr>row_id = 0, tenant_id = p_tenant p, cg_customer = ca_customer a, cg_from = ca_from a, cg_to = ca_target a,
      cg_source = ''MANUAL'', cg_reason = opinion, cg_event = [], cg_payment = [], cg_operator = p_user p,
      cg_application = row_id a, cg_at = datetime3 (cs_now s)\<rparr>"

fun decision_message :: "application_status \<Rightarrow> credit_application \<Rightarrow> credit_message" where
  "decision_message AppApproved a =
     \<lparr>cm_tenant = tenant_id a, cm_customer = ca_customer a, cm_application = row_id a,
      cm_kind = ''CREDIT_APPLICATION_APPROVED'', cm_title = txt_approved_title, cm_body = txt_approved_body\<rparr>"
| "decision_message AppInvalidated a =
     \<lparr>cm_tenant = tenant_id a, cm_customer = ca_customer a, cm_application = row_id a,
      cm_kind = ''CREDIT_APPLICATION_INVALIDATED'', cm_title = txt_invalidated_title, cm_body = txt_invalidated_body\<rparr>"
| "decision_message _ a =
     \<lparr>cm_tenant = tenant_id a, cm_customer = ca_customer a, cm_application = row_id a,
      cm_kind = ''CREDIT_APPLICATION_REJECTED'', cm_title = txt_rejected_title, cm_body = txt_rejected_body\<rparr>"

definition decided_application ::
  "credit_service \<Rightarrow> crm_principal \<Rightarrow> application_status \<Rightarrow> string \<Rightarrow> credit_application \<Rightarrow> credit_application" where
  "decided_application s p st opinion a =
     a\<lparr>ca_status := st, ca_opinion := opinion, ca_decided_by := p_user p, ca_decided_at := Some (cs_now s),
       ca_pending := None, ca_updated := cs_now s, ca_version := ca_version a + 1\<rparr>"

definition decide_writes ::
  "credit_service \<Rightarrow> crm_principal \<Rightarrow> application_status \<Rightarrow> string \<Rightarrow> credit_application \<Rightarrow> credit_db
     \<Rightarrow> credit_application \<times> credit_db" where
  "decide_writes s p st opinion a db =
     (let now = datetime3 (cs_now s);
          db1 = (if st = AppApproved
                 then write_credit_log (manual_log s p a opinion)
                        (update_customer (p_tenant p) (ca_customer a) (manual_level s (ca_target a)) db)
                 else db);
          a' = decided_application s p st opinion a;
          db2 = save_application a' db1;
          db3 = close_tasks (p_tenant p) (ca_instance a)
                  (\<lambda>x. x\<lparr>at_status := st, at_decided_by := p_user p, at_decided_at := Some now, at_updated := now\<rparr>) db2;
          db4 = close_instance s p (ca_instance a) st db3;
          db5 = (if st = AppApproved
                 then write_customer_change_log s (p_tenant p) (ca_customer a) (ca_from a) (ca_target a) opinion
                        (p_user p) db4
                 else db4)
      in (a', notify_application s (decision_message st a') (ca_applicant a) db5))"

definition find_application :: "crm_principal \<Rightarrow> nat \<Rightarrow> credit_db \<Rightarrow> credit_application option" where
  "find_application p i db = find_row (\<lambda>a. tenant_id a = p_tenant p \<and> row_id a = i) (credit_applications db)"

definition ErrApplicationNotPending :: app_error where
  "ErrApplicationNotPending = AppError 409 ''CRM_CREDIT_APPLICATION_NOT_PENDING''"

definition decide_tx ::
  "credit_service \<Rightarrow> crm_principal \<Rightarrow> nat \<Rightarrow> bool \<Rightarrow> string \<Rightarrow> nat \<Rightarrow> credit_db \<Rightarrow> (credit_application \<times> credit_db) app_res" where
  "decide_tx s p i approve opinion v db =
     (case find_application p i db of
        None \<Rightarrow> Inl ErrApplicationNotFound
      | Some a \<Rightarrow>
          (case ensure_application_customer_visible p (ca_customer a) db of
             Inl e \<Rightarrow> Inl e
           | Inr _ \<Rightarrow>
               if ca_status a \<noteq> AppPending then Inl ErrApplicationNotPending
               else if v = 0 \<or> v \<noteq> ca_version a then Inl (app_error_409 ''CRM_CREDIT_APPLICATION_VERSION_CONFLICT'')
               else case lock_scoped_credit_customer p (ca_customer a) db of
                 None \<Rightarrow> Inl (app_error_409 ''CRM_CREDIT_APPLICATION_INVALIDATED'')
               | Some c \<Rightarrow>
                   (let st = (if \<not> approve then AppRejected
                              else if cu_level c \<noteq> ca_from a then AppInvalidated else AppApproved)
                    in Inr (decide_writes s p st opinion a db))))"

definition decide_application ::
  "credit_service \<Rightarrow> crm_principal \<Rightarrow> nat \<Rightarrow> bool \<Rightarrow> decision_input \<Rightarrow> credit_db \<Rightarrow> (credit_application \<times> credit_db) app_res" where
  "decide_application s p i approve inp db =
     (let opinion = trim_space (di_opinion inp)
      in if \<not> crm_authenticated p then Inl ErrUnauthenticated
         else if \<not> permits_or_role p ''customer.credit.approve'' [''sales_director'', ''crm_super_admin'']
         then Inl ErrAppForbidden
         else if 500 < rune_len opinion then Inl (AppError 400 ''CRM_CREDIT_OPINION_TOO_LONG'')
         else if \<not> approve \<and> rune_len opinion < 2
         then Inl (AppError 400 ''CRM_CREDIT_REJECTION_OPINION_REQUIRED'')
         else decide_tx s p i approve opinion (di_version inp) db)"

section \<open>Withdrawing\<close>

definition withdraw_application ::
  "credit_service \<Rightarrow> crm_principal \<Rightarrow> nat \<Rightarrow> nat \<Rightarrow> credit_db \<Rightarrow> (credit_application \<times> credit_db) app_res" where
  "withdraw_application s p customer i db =
     (let now = datetime3 (cs_now s)
      in if \<not> crm_authenticated p then Inl ErrUnauthenticated
         else if ''customer.credit.apply'' \<notin> set (p_permissions p) \<or> \<not> sales_only p then Inl ErrAppForbidden
         else case find_row (\<lambda>a. tenant_id a = p_tenant p \<and> row_id a = i \<and> ca_customer a = customer \<and>
                               ca_applicant a = p_user p) (credit_applications db) of
           None \<Rightarrow> Inl ErrApplicationNotFound
         | Some a \<Rightarrow>
             if ca_status a \<noteq> AppPending then Inl ErrApplicationNotPending
             else (let a' = a\<lparr>ca_status := AppWithdrawn, ca_pending := None, ca_updated := cs_now s,
                              ca_version := ca_version a + 1\<rparr>;
                       db1 = save_application a' db;
                       db2 = close_tasks (p_tenant p) (ca_instance a)
                               (\<lambda>x. x\<lparr>at_status := AppWithdrawn, at_updated := now\<rparr>) db1
                   in Inr (a', close_instance s p (ca_instance a) AppWithdrawn db2)))"

section \<open>Reads\<close>

text \<open>
  Orders by a column leave rows of equal value in the order of the table; \<open>NULL\<close> sorts first.
\<close>

definition get_level :: "crm_principal \<Rightarrow> nat \<Rightarrow> credit_db \<Rightarrow> level_answer app_res" where
  "get_level p i db =
     (let lates = select_rows (\<lambda>x. tenant_id x = p_tenant p \<and> pr_customer x = i \<and> pr_evaluation x = ''LATE'') (payments db);
          newer = (\<lambda>x y. if (case (pr_paid x, pr_paid y) of
                             (None, b) \<Rightarrow> b = None \<and> row_id y < row_id x
                           | (Some _, None) \<Rightarrow> True
                           | (Some a, Some b) \<Rightarrow> b < a \<or> a = b \<and> row_id y < row_id x) then x else y)
      in if \<not> crm_authenticated p then Inl ErrUnauthenticated
         else case scoped_credit_customer p i db of
           None \<Rightarrow> Inl ErrCustomerNotFound
         | Some c \<Rightarrow>
             Inr \<lparr>la_customer = row_id c, la_level = cu_level c, la_updated = cu_credit_at c,
                  la_source = [] \<comment> \<open>the column is named \<open>credit_change_source\<close>, the field \<open>Source\<close>\<close>,
                  la_ontime = cu_ontime c, la_late = cu_late c,
                  la_period = (if lates = [] then [] else pr_period (foldr newer (butlast lates) (last lates))),
                  la_paid = (if lates = [] then None else pr_paid (foldr newer (butlast lates) (last lates))),
                  la_count = length lates\<rparr>)"

definition credit_statistics_of :: "crm_principal \<Rightarrow> credit_db \<Rightarrow> credit_statistics app_res" where
  "credit_statistics_of p db =
     (let cs = select_rows (\<lambda>c. customer_in_scope p c \<and> customer_available c) (customers db)
      in if \<not> crm_authenticated p then Inl ErrUnauthenticated
         else Inr \<lparr>sx_attention = length (filter (\<lambda>c. cu_level c = LevelC \<or> cu_level c = LevelD) cs),
                   sx_c = length (filter (\<lambda>c. cu_level c = LevelC) cs),
                   sx_d = length (filter (\<lambda>c. cu_level c = LevelD) cs)\<rparr>)"

definition pending_applications :: "crm_principal \<Rightarrow> credit_db \<Rightarrow> (credit_application \<times> string \<times> string) list app_res" where
  "pending_applications p db =
     (let visible = (\<lambda>i. exists_row (\<lambda>c. customer_in_scope p c \<and> row_id c = i) (customers db));
          apps = select_rows (\<lambda>a. tenant_id a = p_tenant p \<and> ca_status a = AppPending \<and> visible (ca_customer a))
                   (credit_applications db);
          names = (\<lambda>a. case find_row (\<lambda>c. tenant_id c = tenant_id a \<and> row_id c = ca_customer a) (customers db) of
                     None \<Rightarrow> ([], []) | Some c \<Rightarrow> (cu_no c, cu_name c))
      in if \<not> crm_authenticated p then Inl ErrUnauthenticated
         else if \<not> permits_or_role p ''customer.credit.approve'' [''sales_director'', ''crm_super_admin'']
         then Inl ErrAppForbidden
         else Inr (map (\<lambda>a. (a, names a)) (sort_key ca_created apps)))"

definition normalize_page :: "int \<Rightarrow> int \<Rightarrow> nat \<times> nat" where
  "normalize_page page sz =
     (nat (max 1 page), nat (if sz \<le> 0 then 20 else if 100 < sz then 100 else sz))"

definition page_of :: "nat \<times> nat \<Rightarrow> 'a list \<Rightarrow> 'a list" where
  "page_of ps xs = take (snd ps) (drop ((fst ps - 1) * snd ps) xs)"

definition credit_history ::
  "crm_principal \<Rightarrow> nat \<Rightarrow> int \<Rightarrow> int \<Rightarrow> credit_db \<Rightarrow> (credit_log list \<times> nat) app_res" where
  "credit_history p i page sz db =
     (let ls = select_rows (\<lambda>g. tenant_id g = p_tenant p \<and> cg_customer g = i) (credit_logs db)
      in if \<not> crm_authenticated p then Inl ErrUnauthenticated
         else case ensure_credit_customer_visible p i db of
           Inl e \<Rightarrow> Inl e
         | Inr _ \<Rightarrow> Inr (page_of (normalize_page page sz) (sort_key (\<lambda>g. - cg_at g) ls), length ls))"

definition credit_payments ::
  "crm_principal \<Rightarrow> nat \<Rightarrow> int \<Rightarrow> int \<Rightarrow> credit_db \<Rightarrow> (payment_answer list \<times> nat) app_res" where
  "credit_payments p i page sz db =
     (let xs = select_rows (\<lambda>x. tenant_id x = p_tenant p \<and> pr_customer x = i) (payments db)
      in if \<not> crm_authenticated p then Inl ErrUnauthenticated
         else case ensure_credit_customer_visible p i db of
           Inl e \<Rightarrow> Inl e
         | Inr _ \<Rightarrow>
             Inr (map to_payment_answer (page_of (normalize_page page sz) (sort_key (\<lambda>x. - pr_evaluated x) xs)), length xs))"

end
