(* ===== verification/CreditFacts.thy ===== *)
theory CreditFacts
  imports CreditApplications
begin

text \<open>
  What the operations of the credit module do to a customer's account (level, counters, last
  evaluated payment): the account as an abstract state machine, the writes as moves of it,
  and the invariant every move keeps.
\<close>

section \<open>Writes that leave the accounts alone\<close>

definition notices_only :: "credit_db \<Rightarrow> credit_db \<Rightarrow> bool" where
  "notices_only db db' \<longleftrightarrow> (\<exists>n. db' = db\<lparr>credit_notices := n\<rparr>)"

lemma notices_only_refl [simp]: "notices_only db db"
  unfolding notices_only_def by (rule exI [of _ "credit_notices db"]) simp

lemma notices_only_trans: "notices_only a b \<Longrightarrow> notices_only b c \<Longrightarrow> notices_only a c"
  by (auto simp: notices_only_def)

lemma notify_application_notices: "notices_only db (notify_application s m r db)"
  by (auto simp: notify_application_def notices_only_def intro: exI [of _ "credit_notices db"])

lemma notify_director_notices: "notices_only (snd acc) (snd (notify_director s m u acc))"
  by (auto simp: notify_director_def Let_def case_prod_beta notify_application_notices)

lemma fold_director_notices: "notices_only (snd acc) (snd (fold (notify_director s m) us acc))"
proof (induction us arbitrary: acc)
  case (Cons u us)
  show ?case using notices_only_trans [OF notify_director_notices Cons.IH] by simp
qed simp

lemma notify_pages_notices:
  "notify_pages s owners m n page acc = Inr acc' \<Longrightarrow> notices_only (snd acc) (snd acc')"
proof (induction s owners m n page acc rule: notify_pages.induct)
  case (2 s owners m n page acc)
  from "2.prems" obtain pg where pg: "owners \<lparr>q_user = [], q_roles = [''sales_director''], q_page = page, q_size = 50\<rparr> = Inr pg"
    by auto
  let ?acc = "fold (notify_director s m) (page_items pg) acc"
  show ?case
  proof (cases "page_items pg = [] \<or> page_total pg \<le> int (length (fst ?acc)) \<or> length (page_items pg) < 50")
    case True
    with "2.prems" pg have "acc' = ?acc" by (auto simp: Let_def)
    then show ?thesis by (simp add: fold_director_notices)
  next
    case False
    with "2.prems" pg have "notify_pages s owners m n (Suc page) ?acc = Inr acc'" by (auto simp: Let_def)
    then show ?thesis using "2.IH" [OF pg refl False] fold_director_notices notices_only_trans by blast
  qed
qed simp

lemma notify_sales_directors_notices: "ok (notify_sales_directors s m db) (notices_only db)"
  unfolding notify_sales_directors_def
proof (intro ok_intro, goal_cases)
  case (1 owners r seen db')
  then show ?case using notify_pages_notices [of s owners m 100 1 "([], db)" r] by simp
qed

lemma directors_after: "notices_only db d \<Longrightarrow> ok (notify_sales_directors s m d) (notices_only db)"
  using notify_sales_directors_notices [of s m d] notices_only_trans unfolding ok_def by blast

lemma notify_rule_change_notices: "ok (notify_rule_change s t i a b db) (notices_only db)"
  unfolding notify_rule_change_def Let_def
  by (intro ok_intro directors_after) (simp_all add: notify_application_notices)

section \<open>Accounts\<close>

text \<open>
  A state as the columns store it, and the counters a threshold of at most 100 allows: below
  100, and one of the two zero.
\<close>

definition stored_state :: "credit_state \<Rightarrow> credit_state" where
  "stored_state st = st\<lparr>st_last := map_option datetime3 (st_last st)\<rparr>"

definition counters_ok :: "credit_state \<Rightarrow> bool" where
  "counters_ok st \<longleftrightarrow> st_ontime st < 100 \<and> st_late st < 100 \<and> (st_ontime st = 0 \<or> st_late st = 0)"

lemma counters_stored [simp]: "counters_ok (stored_state st) = counters_ok st"
  by (simp add: counters_ok_def stored_state_def)

lemma stored_twice [simp]: "stored_state (stored_state st) = stored_state st"
  by (simp add: stored_state_def option.map_comp comp_def)

text \<open>The steps a log records, and the chain they form.\<close>

definition level_steps :: "string \<Rightarrow> nat \<Rightarrow> credit_log list \<Rightarrow> (credit_level \<times> credit_level) list" where
  "level_steps t i gs = map (\<lambda>g. (cg_from g, cg_to g)) (filter (\<lambda>g. tenant_id g = t \<and> cg_customer g = i) gs)"

fun linked :: "credit_level \<Rightarrow> (credit_level \<times> credit_level) list \<Rightarrow> credit_level \<Rightarrow> bool" where
  "linked a [] b \<longleftrightarrow> a = b"
| "linked a (x # xs) b \<longleftrightarrow> fst x = a \<and> linked (snd x) xs b"

lemma linked_snoc: "linked a (xs @ [(b, c)]) d \<longleftrightarrow> linked a xs b \<and> c = d"
  by (induction xs arbitrary: a) auto

definition accounts_ok :: "credit_db \<Rightarrow> bool" where
  "accounts_ok db \<longleftrightarrow>
     table_wf (customers db) \<and>
     (\<forall>c \<in> set (rows (customers db)).
        counters_ok (state_of c) \<and> stored_state (state_of c) = state_of c \<and>
        linked LevelB (level_steps (tenant_id c) (row_id c) (rows (credit_logs db))) (cu_level c)) \<and>
     (\<forall>g \<in> set (rows (credit_logs db)). cg_customer g < next_id (customers db))"

text \<open>
  A move of the account of the customer \<open>i\<close>: the row takes another state, and the log gets
  one entry for it, or none and the level stays.
\<close>

definition same_holder :: "customer \<Rightarrow> customer \<Rightarrow> bool" where
  "same_holder x y \<longleftrightarrow> row_id x = row_id y \<and> tenant_id x = tenant_id y \<and>
     customer_available x = customer_available y \<and> deleted_at x = deleted_at y"

definition account_moves :: "string \<Rightarrow> nat \<Rightarrow> credit_state \<Rightarrow> credit_state \<Rightarrow> credit_db \<Rightarrow> credit_db \<Rightarrow> bool" where
  "account_moves t i prev next db db' \<longleftrightarrow>
     (\<exists>c f. c \<in> set (rows (customers db)) \<and> tenant_id c = t \<and> row_id c = i \<and> state_of c = prev \<and>
        (\<forall>x. same_holder (f x) x) \<and> state_of (f c) = stored_state next \<and>
        customers db' = update_rows (\<lambda>x. tenant_id x = t \<and> row_id x = i) f (customers db)) \<and>
     (rows (credit_logs db') = rows (credit_logs db) \<and> st_level next = st_level prev \<or>
      (\<exists>g. rows (credit_logs db') = rows (credit_logs db) @ [g] \<and> tenant_id g = t \<and> cg_customer g = i \<and>
           cg_from g = st_level prev \<and> cg_to g = st_level next))"

lemma account_moves_ok:
  assumes ok: "accounts_ok db" and m: "account_moves t i prev next db db'" and n: "counters_ok next"
  shows "accounts_ok db'"
proof -
  obtain c f where c: "c \<in> set (rows (customers db))" "tenant_id c = t" "row_id c = i" "state_of c = prev"
    and f: "\<And>x. row_id (f x) = row_id x" "\<And>x. tenant_id (f x) = tenant_id x" and fc: "state_of (f c) = stored_state next"
    and cs: "customers db' = update_rows (\<lambda>x. tenant_id x = t \<and> row_id x = i) f (customers db)"
    using m by (auto simp: account_moves_def same_holder_def)
  have wf: "table_wf (customers db)" using ok by (simp add: accounts_ok_def)
  have wf': "table_wf (customers db')" unfolding cs using wf by (rule table_wf_update) (rule f)
  have nid: "next_id (customers db') = next_id (customers db)" by (simp add: cs update_rows_def)
  have ci: "i < next_id (customers db)" using wf c by (auto simp: table_wf_def)
  let ?L = "rows (credit_logs db)" and ?L' = "rows (credit_logs db')"
  have own: "linked LevelB (level_steps t i ?L') (st_level next)"
  proof -
    have "linked LevelB (level_steps t i ?L) (st_level prev)"
      using ok c by (auto simp: accounts_ok_def state_of_def)
    then show ?thesis using m by (auto simp: account_moves_def level_steps_def linked_snoc)
  qed
  have other: "level_steps t' i' ?L' = level_steps t' i' ?L" if "(t', i') \<noteq> (t, i)" for t' i'
    using m that by (auto simp: account_moves_def level_steps_def)
  have row: "counters_ok (state_of y) \<and> stored_state (state_of y) = state_of y \<and>
      linked LevelB (level_steps (tenant_id y) (row_id y) ?L') (cu_level y)" if y: "y \<in> set (rows (customers db'))" for y
  proof -
    from y obtain x where x: "x \<in> set (rows (customers db))" "y = (if tenant_id x = t \<and> row_id x = i then f x else x)"
      by (auto simp: cs set_rows_update)
    show ?thesis
    proof (cases "tenant_id x = t \<and> row_id x = i")
      case True
      with wf x(1) c have "x = c" by (metis table_wf_same_id)
      with x(2) c have y': "y = f c" by simp
      have "cu_level (f c) = st_level next" using arg_cong [OF fc, of st_level] by (simp add: state_of_def stored_state_def)
      then show ?thesis using y' fc n f c own by simp
    next
      case False
      then show ?thesis using x ok other [of "tenant_id x" "row_id x"] by (auto simp: accounts_ok_def)
    qed
  qed
  have "cg_customer g < next_id (customers db)" if "g \<in> set ?L'" for g
    using that m ok ci by (auto simp: account_moves_def accounts_ok_def)
  then show ?thesis using wf' row nid by (simp add: accounts_ok_def)
qed

definition accounts_same :: "credit_db \<Rightarrow> credit_db \<Rightarrow> bool" where
  "accounts_same db db' \<longleftrightarrow> customers db' = customers db \<and> rows (credit_logs db') = rows (credit_logs db)"

lemma accounts_same_ok: "accounts_same db db' \<Longrightarrow> accounts_ok db \<Longrightarrow> accounts_ok db'"
  by (simp add: accounts_same_def accounts_ok_def)

section \<open>The account as a machine\<close>

definition rules_valid :: "credit_db \<Rightarrow> bool" where
  "rules_valid db \<longleftrightarrow> list_all valid_rule_settings (rule_rows db)"

lemma default_rules_valid: "valid_rule_settings (default_rule_settings t n)"
  by (simp add: valid_rule_settings_def default_rule_settings_def)

lemma rules_for_valid: "rules_valid db \<Longrightarrow> valid_rule_settings (rule_settings_for t n db)"
  by (auto simp: rule_settings_for_def find_rule_settings_def rules_valid_def list_all_iff find_Some_iff default_rules_valid
      split: option.splits)

text \<open>
  What an evaluated payment does to an account, without the wrap-around of the counters and
  with the levels as numbers: \<open>A\<close> is the best, every threshold reached resets its counter.
\<close>

definition level_rank :: "credit_level \<Rightarrow> nat" where
  "level_rank l = nat (level_index l)"

definition rank_level :: "nat \<Rightarrow> credit_level" where
  "rank_level n = (if n = 0 then LevelA else if n = 1 then LevelB else if n = 2 then LevelC else LevelD)"

definition better :: "nat \<Rightarrow> credit_level \<Rightarrow> credit_level" where
  "better n l = rank_level (level_rank l - n)"

definition worse :: "nat \<Rightarrow> credit_level \<Rightarrow> credit_level" where
  "worse n l = rank_level (level_rank l + n)"

fun account_next :: "rule_settings \<Rightarrow> bool \<Rightarrow> credit_level \<times> nat \<times> nat \<Rightarrow> credit_level \<times> nat \<times> nat" where
  "account_next rules True (l, on, late) =
     (if nat (rs_ontime rules) \<le> Suc on then (better (nat (rs_step rules)) l, 0, 0) else (l, Suc on, 0))"
| "account_next rules False (l, on, late) =
     (if nat (rs_late rules) \<le> Suc late then (worse (nat (rs_step rules)) l, 0, 0) else (l, 0, Suc late))"

fun account_hit :: "rule_settings \<Rightarrow> bool \<Rightarrow> credit_level \<times> nat \<times> nat \<Rightarrow> bool" where
  "account_hit rules True (l, on, late) = (nat (rs_ontime rules) \<le> Suc on)"
| "account_hit rules False (l, on, late) = (nat (rs_late rules) \<le> Suc late)"

definition account_of :: "credit_state \<Rightarrow> credit_level \<times> nat \<times> nat" where
  "account_of st = (st_level st, st_ontime st, st_late st)"

lemma step_level_better: "0 \<le> k \<Longrightarrow> step_level l (- k) = better (nat k) l"
  by (cases l) (auto simp: step_level_def better_def rank_level_def level_rank_def all_levels_def Let_def)

lemma step_level_worse: "0 \<le> k \<Longrightarrow> step_level l k = worse (nat k) l"
  by (cases l) (auto simp: step_level_def worse_def rank_level_def level_rank_def all_levels_def Let_def)

lemma evaluated_state_next:
  assumes r: "valid_rule_settings rules" and c: "counters_ok prev" and e: "evaluation = (if b then ''ONTIME'' else ''LATE'')"
    and n: "evaluated_state rules evaluation paid prev = (next, hit)"
  shows "account_of next = account_next rules b (account_of prev)" "hit = account_hit rules b (account_of prev)"
    "st_last next = paid"
proof -
  have u: "u32 (Suc (st_ontime prev)) = Suc (st_ontime prev)" "u32 (Suc (st_late prev)) = Suc (st_late prev)"
    using c by (simp_all add: u32_def counters_ok_def)
  have s: "0 \<le> rs_step rules" using r by (simp add: valid_rule_settings_def)
  show "account_of next = account_next rules b (account_of prev)" "hit = account_hit rules b (account_of prev)"
    "st_last next = paid"
    using n e u s unfolding evaluated_state_def
    by (cases b; auto simp: account_of_def Let_def step_level_better step_level_worse nat_le_iff)+
qed

lemma account_next_counters:
  assumes "valid_rule_settings rules" "account_of next = account_next rules b (account_of prev)" "counters_ok prev"
  shows "counters_ok next"
  using assms by (cases b) (auto simp: counters_ok_def account_of_def valid_rule_settings_def split: if_splits)

lemma account_next_quiet:
  "\<not> account_hit rules b (account_of prev) \<Longrightarrow> fst (account_next rules b (account_of prev)) = st_level prev"
  by (cases b) (auto simp: account_of_def)

end
