(* ===== verification/CreditMachine.thy ===== *)
theory CreditMachine
  imports CreditFacts
begin

text \<open>
  The operations as moves of accounts, the tables of payments and applications they keep
  consistent, and the machine of commands with its reachable databases.
\<close>

section \<open>Payments\<close>

definition desk_same :: "credit_db \<Rightarrow> credit_db \<Rightarrow> bool" where
  "desk_same db db' \<longleftrightarrow> credit_applications db' = credit_applications db \<and> credit_instances db' = credit_instances db \<and>
     credit_tasks db' = credit_tasks db \<and> rule_rows db' = rule_rows db"

definition record_added :: "payment_record \<Rightarrow> credit_db \<Rightarrow> credit_db \<Rightarrow> bool" where
  "record_added r db db' \<longleftrightarrow>
     \<not> exists_row (bound_record (tenant_id r) (pr_event r) (pr_payment r)) (payments db) \<and>
     payments db' = snd (insert_row (stored_record r) (payments db))"

lemma notices_only_same:
  "notices_only db db' \<Longrightarrow> customers db' = customers db \<and> credit_logs db' = credit_logs db \<and> payments db' = payments db \<and>
     rule_versions db' = rule_versions db \<and> credit_changes db' = credit_changes db \<and> desk_same db db'"
  by (auto simp: notices_only_def desk_same_def)

lemma insert_record_added:
  "ok (insert_record s t e ev ig gr prev next db)
     (\<lambda>(ans, db'). record_added (new_payment_record s t e ev ig gr prev next) db db' \<and>
        db' = db\<lparr>payments := payments db'\<rparr> \<and> record_fits (new_payment_record s t e ev ig gr prev next))"
  unfolding insert_record_def Let_def
  by (intro ok_intro) (auto simp: record_added_def new_payment_record_def)

lemma payment_customer_row:
  "payment_customer t i db = Some c \<Longrightarrow> c \<in> set (rows (customers db)) \<and> tenant_id c = t \<and> row_id c = i"
  by (auto simp: payment_customer_def dest!: find_row_Some)

lemma rule_hit_effect:
  "ok (rule_hit_writes s t e ev a b db)
     (\<lambda>db'. customers db' = customers db \<and> payments db' = payments db \<and> desk_same db db' \<and>
        (\<exists>g. rows (credit_logs db') = rows (credit_logs db) @ [g] \<and> tenant_id g = t \<and> cg_customer g = pe_customer e \<and>
             cg_from g = a \<and> cg_to g = b))"
proof -
  let ?src = "if b = a then ''RULE_CAP'' else ''RULE''" and ?why = "if b = a then ev @ ''_CAP_REACHED'' else ev"
  let ?d = "write_customer_change_log s t (pe_customer e) a b ?why ''system'' (write_credit_log (system_log s t e a b ?src ?why) db)"
  have d: "customers ?d = customers db" "payments ?d = payments db" "desk_same db ?d"
      "\<exists>g. rows (credit_logs ?d) = rows (credit_logs db) @ [g] \<and> tenant_id g = t \<and> cg_customer g = pe_customer e \<and>
           cg_from g = a \<and> cg_to g = b"
    by (simp_all add: write_customer_change_log_def write_credit_log_def desk_same_def system_log_def insert_row_def)
  show ?thesis unfolding rule_hit_writes_def Let_def
  proof (intro ok_intro, goal_cases)
    case 1
    show ?case
    proof (rule ok_mono [OF notify_rule_change_notices])
      fix x
      assume "notices_only ?d x"
      then have "customers x = customers ?d" "credit_logs x = credit_logs ?d" "payments x = payments ?d" "desk_same ?d x"
        by (auto dest: notices_only_same)
      then show "customers x = customers db \<and> payments x = payments db \<and> desk_same db x \<and>
        (\<exists>g. rows (credit_logs x) = rows (credit_logs db) @ [g] \<and> tenant_id g = t \<and> cg_customer g = pe_customer e \<and>
             cg_from g = a \<and> cg_to g = b)"
        using d by (simp add: desk_same_def)
    qed
  next
    case 2
    then show ?case using d by simp
  qed
qed

lemma after_payment_state:
  assumes "hit \<or> st_level next = cu_level c"
  shows "state_of (after_payment s next hit c) = stored_state next"
  using assms by (auto simp: after_payment_def state_of_def stored_state_def Let_def)

lemma after_payment_ids: "same_holder (after_payment s next hit x) x"
  by (simp add: after_payment_def Let_def same_holder_def customer_available_def)

lemma evaluate_payment_moves:
  assumes c: "payment_customer t (pe_customer e) db = Some c"
    and ev: "evaluated_state rules ev (pe_paid e) (state_of c) = (next, hit)"
    and quiet: "hit \<or> st_level next = cu_level c"
  shows "ok (evaluate_payment s t e rules ev c db)
    (\<lambda>(ans, db'). account_moves t (pe_customer e) (state_of c) next db db' \<and> desk_same db db' \<and>
       record_added (new_payment_record s t e ev [] (rs_grace rules) (Some (state_of c)) (Some next)) db db')"
  unfolding evaluate_payment_def ev prod.case
proof (intro ok_intro, goal_cases)
  case (1 r ans db1 db2)
  let ?rec = "new_payment_record s t e ev [] (rs_grace rules) (Some (state_of c)) (Some next)"
  let ?db' = "update_customer t (pe_customer e) (after_payment s next hit) db2"
  have rec: "record_added ?rec db db1" "db1 = db\<lparr>payments := payments db1\<rparr>"
    using okD [OF insert_record_added 1(1)] 1(2) by auto
  have same1: "customers db1 = customers db" "credit_logs db1 = credit_logs db" "desk_same db db1"
    by (subst rec(2), simp add: desk_same_def)+
  have hits: "customers db2 = customers db1 \<and> payments db2 = payments db1 \<and> desk_same db1 db2 \<and>
      (rows (credit_logs db2) = rows (credit_logs db1) \<and> st_level next = cu_level c \<or>
       (\<exists>g. rows (credit_logs db2) = rows (credit_logs db1) @ [g] \<and> tenant_id g = t \<and> cg_customer g = pe_customer e \<and>
            cg_from g = cu_level c \<and> cg_to g = st_level next))"
  proof (cases hit)
    case True
    with 1(3) have "rule_hit_writes s t e ev (cu_level c) (st_level next) db1 = Inr db2" by simp
    from okD [OF rule_hit_effect this] show ?thesis by blast
  next
    case False
    then show ?thesis using 1(3) quiet by (auto simp: desk_same_def)
  qed
  have row: "c \<in> set (rows (customers db))" "tenant_id c = t" "row_id c = pe_customer e"
    using payment_customer_row [OF c] by auto
  have logs: "rows (credit_logs ?db') = rows (credit_logs db) \<and> st_level next = st_level (state_of c) \<or>
      (\<exists>g. rows (credit_logs ?db') = rows (credit_logs db) @ [g] \<and> tenant_id g = t \<and> cg_customer g = pe_customer e \<and>
           cg_from g = st_level (state_of c) \<and> cg_to g = st_level next)"
    using hits same1 by (simp add: update_customer_def state_of_def)
  have cust: "customers ?db' = update_rows (\<lambda>x. tenant_id x = t \<and> row_id x = pe_customer e) (after_payment s next hit) (customers db)"
    using hits same1 by (simp add: update_customer_def)
  have "account_moves t (pe_customer e) (state_of c) next db ?db'"
    using row cust logs after_payment_ids after_payment_state [OF quiet] unfolding account_moves_def by blast
  moreover have "desk_same db ?db'" using hits same1 by (simp add: desk_same_def update_customer_def)
  moreover have "record_added ?rec db ?db'" using rec hits by (simp add: record_added_def update_customer_def)
  ultimately show ?case by simp
qed

section \<open>The table of payments\<close>

definition payments_ok :: "credit_db \<Rightarrow> bool" where
  "payments_ok db \<longleftrightarrow>
     table_wf (payments db) \<and>
     (\<forall>x \<in> set (rows (payments db)). stored_record x = x \<and> (\<forall>st. restored_state x = Some st \<longrightarrow> counters_ok st)) \<and>
     (\<forall>x \<in> set (rows (payments db)). \<forall>y \<in> set (rows (payments db)).
        bound_record (tenant_id x) (pr_event x) (pr_payment x) y \<longrightarrow> x = y)"

definition marks_reversed :: "payment_record table \<Rightarrow> payment_record table \<Rightarrow> bool" where
  "marks_reversed ps ps' \<longleftrightarrow>
     (\<exists>q v w. ps' = update_rows q (\<lambda>x. x\<lparr>pr_reversed_at := v, pr_reversed_by := w\<rparr>) ps)"

lemma update_rows_none: "update_rows (\<lambda>_. False) f t = t"
  by (simp add: update_rows_def)

lemma marks_none [simp]: "marks_reversed ps ps"
  unfolding marks_reversed_def using update_rows_none by metis

lemma marks_same:
  "stored_record (x\<lparr>pr_reversed_at := v, pr_reversed_by := w\<rparr>) = (stored_record x)\<lparr>pr_reversed_at := v, pr_reversed_by := w\<rparr>"
  "restored_state (x\<lparr>pr_reversed_at := v, pr_reversed_by := w\<rparr>) = restored_state x"
  "applied_state (x\<lparr>pr_reversed_at := v, pr_reversed_by := w\<rparr>) = applied_state x"
  by (auto simp: stored_record_def restored_state_def applied_state_def split: option.splits)

lemma payments_ok_marked:
  assumes "payments_ok db" "marks_reversed (payments db) (payments db')"
  shows "payments_ok db'"
proof -
  obtain q v w where u: "payments db' = update_rows q (\<lambda>x. x\<lparr>pr_reversed_at := v, pr_reversed_by := w\<rparr>) (payments db)"
    using assms(2) by (auto simp: marks_reversed_def)
  define f where "f = (\<lambda>x. if q x then x\<lparr>pr_reversed_at := v, pr_reversed_by := w\<rparr> else x)"
  have rows: "set (rows (payments db')) = f ` set (rows (payments db))" unfolding u f_def by (rule set_rows_update)
  have wf: "table_wf (payments db')" unfolding u
    using assms(1) by (intro table_wf_update) (simp_all add: payments_ok_def)
  have key: "bound_record (tenant_id (f x)) (pr_event (f x)) (pr_payment (f x)) (f y) =
      bound_record (tenant_id x) (pr_event x) (pr_payment x) y" for x y
    by (simp add: bound_record_def f_def)
  have a: "stored_record (f x) = f x" "restored_state (f x) = Some st \<Longrightarrow> counters_ok st"
    if "x \<in> set (rows (payments db))" for x st
    using that assms(1) by (auto simp: payments_ok_def marks_same f_def split: if_splits)
  have b: "f x = f y" if "x \<in> set (rows (payments db))" "y \<in> set (rows (payments db))"
      "bound_record (tenant_id (f x)) (pr_event (f x)) (pr_payment (f x)) (f y)" for x y
    using that assms(1) unfolding key payments_ok_def by metis
  show ?thesis using wf a b unfolding payments_ok_def rows by blast
qed

lemma stored_record_twice [simp]: "stored_record (stored_record r) = stored_record r"
  by (simp add: stored_record_def option.map_comp comp_def)

lemma stored_record_simps [simp]:
  "tenant_id (stored_record r) = tenant_id r" "pr_event (stored_record r) = pr_event r"
  "pr_payment (stored_record r) = pr_payment r" "stored_record (r\<lparr>row_id := n\<rparr>) = (stored_record r)\<lparr>row_id := n\<rparr>"
  "restored_state (r\<lparr>row_id := n\<rparr>) = restored_state r" "applied_state (r\<lparr>row_id := n\<rparr>) = applied_state r"
  by (auto simp: stored_record_def restored_state_def applied_state_def split: option.splits)

lemma payments_ok_added:
  assumes ok: "payments_ok db" and r: "record_added r db db'"
    and st: "\<And>st. restored_state (stored_record r) = Some st \<Longrightarrow> counters_ok st"
  shows "payments_ok db'"
proof -
  let ?y = "(stored_record r)\<lparr>row_id := next_id (payments db)\<rparr>"
  have p: "payments db' = snd (insert_row (stored_record r) (payments db))"
    and free: "\<And>x. x \<in> set (rows (payments db)) \<Longrightarrow> \<not> bound_record (tenant_id r) (pr_event r) (pr_payment r) x"
    using r by (auto simp: record_added_def exists_row_iff)
  have rows: "set (rows (payments db')) = insert ?y (set (rows (payments db)))"
    unfolding p by (auto simp: fst_insert_row)
  have new: "\<not> bound_record (tenant_id ?y) (pr_event ?y) (pr_payment ?y) x"
    "\<not> bound_record (tenant_id x) (pr_event x) (pr_payment x) ?y" if "x \<in> set (rows (payments db))" for x
    using free [OF that] by (auto simp: bound_record_def)
  have "table_wf (payments db')" unfolding p using ok by (simp add: payments_ok_def)
  then show ?thesis using ok new st unfolding payments_ok_def rows by auto
qed

section \<open>What a payment event does\<close>

definition payment_effect :: "string \<Rightarrow> nat \<Rightarrow> credit_db \<Rightarrow> credit_db \<Rightarrow> bool" where
  "payment_effect t i db db' \<longleftrightarrow>
     db' = db \<or>
     desk_same db db' \<and>
     (\<exists>r ps. marks_reversed (payments db) ps \<and> record_added r (db\<lparr>payments := ps\<rparr>) db' \<and> tenant_id r = t \<and> pr_customer r = i \<and>
        (\<forall>st. restored_state (stored_record r) = Some st \<longrightarrow> counters_ok st)) \<and>
     (accounts_same db db' \<or> (\<exists>prev next. counters_ok next \<and> account_moves t i prev next db db'))"

lemma payment_effect_ok:
  assumes "accounts_ok db" "payments_ok db" "payment_effect t i db db'"
  shows "accounts_ok db'" "payments_ok db'"
proof -
  consider "db' = db" | "accounts_same db db'"
    | prev "next" where "counters_ok next" "account_moves t i prev next db db'"
    using assms(3) unfolding payment_effect_def by blast
  then show "accounts_ok db'"
    by cases (use assms accounts_same_ok account_moves_ok in blast)+
  show "payments_ok db'"
  proof (cases "db' = db")
    case False
    then obtain r ps where r: "marks_reversed (payments db) ps" "record_added r (db\<lparr>payments := ps\<rparr>) db'"
      "\<And>st. restored_state (stored_record r) = Some st \<Longrightarrow> counters_ok st"
      using assms(3) unfolding payment_effect_def by blast
    have "payments_ok (db\<lparr>payments := ps\<rparr>)" by (rule payments_ok_marked [OF assms(2)]) (simp add: r(1))
    then show ?thesis using r(2,3) by (rule payments_ok_added)
  qed (use assms in simp)
qed

lemma restored_new:
  "restored_state (stored_record (new_payment_record s t e ev ig gr (Some prev) next)) = Some (stored_state prev)"
  "restored_state (stored_record (new_payment_record s t e ev ig gr None next)) = None"
  "tenant_id (new_payment_record s t e ev ig gr p next) = t"
  "pr_customer (new_payment_record s t e ev ig gr p next) = pe_customer e"
  by (simp_all add: restored_state_def stored_record_def new_payment_record_def stored_state_def)

lemma account_ok_state: "accounts_ok db \<Longrightarrow> payment_customer t i db = Some c \<Longrightarrow> counters_ok (state_of c)"
  by (auto simp: accounts_ok_def dest!: payment_customer_row)

lemma ignored_effect:
  assumes "case prev of None \<Rightarrow> True | Some st \<Rightarrow> counters_ok st"
  shows "ok (insert_record s t e ev ig gr prev next db) (\<lambda>x. payment_effect t (pe_customer e) db (snd x))"
proof (rule ok_mono [OF insert_record_added], clarify)
  fix ans db'
  assume r: "record_added (new_payment_record s t e ev ig gr prev next) db db'" "db' = db\<lparr>payments := payments db'\<rparr>"
  have "desk_same db db'" "accounts_same db db'"
    by (subst r(2), simp add: desk_same_def accounts_same_def)+
  moreover have "\<forall>st. restored_state (stored_record (new_payment_record s t e ev ig gr prev next)) = Some st \<longrightarrow> counters_ok st"
    using assms by (cases prev) (simp_all add: restored_new)
  moreover have "record_added (new_payment_record s t e ev ig gr prev next) (db\<lparr>payments := payments db\<rparr>) db'"
    using r(1) by simp
  ultimately show "payment_effect t (pe_customer e) db (snd (ans, db'))"
    unfolding payment_effect_def snd_conv using marks_none restored_new(3,4) by blast
qed

lemma payment_evaluation_text: "payment_evaluation due paid g = (if beijing_day paid \<le> beijing_day due + g then ''ONTIME'' else ''LATE'')"
  by (simp add: payment_evaluation_def)

lemma evaluated_effect:
  assumes ok: "accounts_ok db" and rules: "valid_rule_settings rules" and c: "payment_customer t (pe_customer e) db = Some c"
    and ev: "ev = (if b then ''ONTIME'' else ''LATE'')"
  shows "ok (evaluate_payment s t e rules ev c db)
    (\<lambda>(ans, db'). \<exists>next. account_of next = account_next rules b (account_of (state_of c)) \<and> st_last next = pe_paid e \<and>
       counters_ok next \<and> account_moves t (pe_customer e) (state_of c) next db db' \<and> desk_same db db' \<and>
       record_added (new_payment_record s t e ev [] (rs_grace rules) (Some (state_of c)) (Some next)) db db')"
proof -
  obtain nxt hit where n: "evaluated_state rules ev (pe_paid e) (state_of c) = (nxt, hit)" by fastforce
  have cs: "counters_ok (state_of c)" by (rule account_ok_state [OF ok c])
  note m = evaluated_state_next [OF rules cs ev n]
  have quiet: "hit \<or> st_level nxt = cu_level c"
    using account_next_quiet [of rules b "state_of c"] m(2) arg_cong [OF m(1), of fst]
    by (auto simp: account_of_def state_of_def)
  show ?thesis
    by (rule ok_mono [OF evaluate_payment_moves [OF c n quiet]]) (use m(1,3) account_next_counters [OF rules m(1) cs] in blast)
qed

lemma evaluated_payment_effect:
  assumes ok: "accounts_ok db" and rules: "valid_rule_settings rules" and c: "payment_customer t (pe_customer e) db = Some c"
  shows "ok (evaluate_payment s t e rules (payment_evaluation due paid g) c db) (\<lambda>x. payment_effect t (pe_customer e) db (snd x))"
proof (rule ok_mono [OF evaluated_effect [OF ok rules c payment_evaluation_text]], clarify)
  fix ans db' "next"
  assume a: "counters_ok next" "account_moves t (pe_customer e) (state_of c) next db db'" "desk_same db db'"
    and r: "record_added (new_payment_record s t e (payment_evaluation due paid g) [] (rs_grace rules) (Some (state_of c)) (Some next)) db db'"
  then have "record_added (new_payment_record s t e (payment_evaluation due paid g) [] (rs_grace rules) (Some (state_of c)) (Some next))
      (db\<lparr>payments := payments db\<rparr>) db'" by simp
  moreover have "restored_state (stored_record (new_payment_record s t e (payment_evaluation due paid g) [] (rs_grace rules)
      (Some (state_of c)) (Some next))) = Some st \<Longrightarrow> counters_ok st" for st
    using account_ok_state [OF ok c] by (auto simp: restored_new)
  ultimately show "payment_effect t (pe_customer e) db (snd (ans, db'))"
    unfolding payment_effect_def snd_conv using marks_none restored_new(3,4) a by blast
qed

lemma payment_tx_effect:
  assumes ok: "accounts_ok db" and rules: "rules_valid db"
  shows "ok (payment_tx s t e due paid db) (\<lambda>x. payment_effect t (pe_customer e) db (snd x))"
  unfolding payment_tx_def Let_def
proof (intro ok_intro ignored_effect evaluated_payment_effect, goal_cases)
  case (3 c)
  then show ?case using account_ok_state [OF ok] by simp
qed (use ok rules_for_valid [OF rules] account_ok_state [OF ok] in \<open>auto simp: payment_effect_def\<close>)

section \<open>What a reversal does\<close>

lemma mark_reversed_same:
  "customers (mark_reversed s t i v db) = customers db" "credit_logs (mark_reversed s t i v db) = credit_logs db"
  "desk_same db (mark_reversed s t i v db)" "marks_reversed (payments db) (payments (mark_reversed s t i v db))"
  by (auto simp: mark_reversed_def desk_same_def marks_reversed_def)

text \<open>The state a reversal returns to, the level step it logs and the row it adds.\<close>

lemma reverse_payment_moves:
  assumes c: "payment_customer t (pe_customer e) db = Some c"
  shows "ok (reverse_payment s t e rules original (state_of c) restored db)
    (\<lambda>(ans, db'). account_moves t (pe_customer e) (state_of c) restored db db' \<and> desk_same db db' \<and>
       record_added (new_payment_record s t (e\<lparr>pe_type := payment_reversed, pe_reversal_of := pr_payment original\<rparr>)
           ''REVERSED'' ''PAYMENT_REVERSED'' (rs_grace rules) (Some (state_of c)) (Some restored))
         (mark_reversed s t (row_id original) (pe_event e) db) db')"
  unfolding reverse_payment_def Let_def
proof (intro ok_intro, goal_cases)
  case (1 x ans db2 db5)
  let ?e = "e\<lparr>pe_type := payment_reversed, pe_reversal_of := pr_payment original\<rparr>"
  let ?r = "new_payment_record s t ?e ''REVERSED'' ''PAYMENT_REVERSED'' (rs_grace rules) (Some (state_of c)) (Some restored)"
  let ?m = "mark_reversed s t (row_id original) (pe_event e) db"
  let ?g = "system_log s t e (st_level (state_of c)) (st_level restored) ''REVERSAL'' ''PAYMENT_REVERSED''"
  let ?d = "write_customer_change_log s t (pe_customer e) (st_level (state_of c)) (st_level restored) ''PAYMENT_REVERSED''
     ''system'' (write_credit_log ?g db2)"
  let ?db' = "update_customer t (pe_customer e) (after_reversal s restored) db5"
  have rec: "record_added ?r ?m db2" "db2 = ?m\<lparr>payments := payments db2\<rparr>"
    using okD [OF insert_record_added 1(1)] 1(2) by auto
  have same2: "customers db2 = customers db" "credit_logs db2 = credit_logs db" "desk_same ?m db2"
    by (subst rec(2), simp add: desk_same_def mark_reversed_same)+
  have same: "desk_same db db2" using same2(3) mark_reversed_same(3) [of db s t "row_id original" "pe_event e"]
    by (simp add: desk_same_def)
  have d: "customers ?d = customers db2" "payments ?d = payments db2" "desk_same db2 ?d"
      "rows (credit_logs ?d) = rows (credit_logs db2) @ [?g\<lparr>row_id := next_id (credit_logs db2)\<rparr>]"
    by (simp_all add: write_customer_change_log_def write_credit_log_def desk_same_def insert_row_def)
  have "notices_only ?d db5"
  proof (cases "st_level restored = st_level (state_of c)")
    case False
    with 1(3) have "notify_rule_change s t (pe_customer e) (st_level (state_of c)) (st_level restored) ?d = Inr db5"
      by simp
    then show ?thesis by (rule okD [OF notify_rule_change_notices])
  qed (use 1(3) in simp)
  then have n: "customers db5 = customers ?d" "credit_logs db5 = credit_logs ?d" "payments db5 = payments ?d" "desk_same ?d db5"
    by (auto dest: notices_only_same)
  have row: "c \<in> set (rows (customers db))" "tenant_id c = t" "row_id c = pe_customer e"
    using payment_customer_row [OF c] by auto
  have cust: "customers ?db' = update_rows (\<lambda>x. tenant_id x = t \<and> row_id x = pe_customer e) (after_reversal s restored) (customers db)"
    by (simp add: update_customer_def n d same2)
  have logs: "\<exists>g. rows (credit_logs ?db') = rows (credit_logs db) @ [g] \<and> tenant_id g = t \<and> cg_customer g = pe_customer e \<and>
      cg_from g = st_level (state_of c) \<and> cg_to g = st_level restored"
    using n(2) d(4) same2(2) by (simp add: update_customer_def system_log_def)
  have f: "\<forall>x. same_holder (after_reversal s restored x) x"
    "state_of (after_reversal s restored c) = stored_state restored"
    by (simp_all add: after_reversal_def state_of_def stored_state_def same_holder_def customer_available_def)
  have "account_moves t (pe_customer e) (state_of c) restored db ?db'"
    using row cust logs f unfolding account_moves_def by blast
  moreover have "desk_same db ?db'"
    using n(4) d(3) same by (simp add: desk_same_def update_customer_def)
  moreover have "record_added ?r ?m ?db'"
    using rec(1) n(3) d(2) by (simp add: record_added_def update_customer_def)
  ultimately show ?case by simp
qed

text \<open>The reversal of a payment whose snapshot is the present state, and nothing else, goes through.\<close>

definition reversible :: "string \<Rightarrow> payment_event \<Rightarrow> payment_record \<Rightarrow> credit_state \<Rightarrow> credit_state \<Rightarrow> credit_db \<Rightarrow> bool" where
  "reversible t e x current restored db \<longleftrightarrow>
     find_row (\<lambda>x. tenant_id x = t \<and> pr_payment x = pe_reversal_of e) (payments db) = Some x \<and>
     (pr_evaluation x = ''ONTIME'' \<or> pr_evaluation x = ''LATE'') \<and> pr_reversed_at x = None \<and>
     applied_state x = Some current \<and> restored_state x = Some restored \<and>
     \<not> exists_row (\<lambda>y. tenant_id y = t \<and> pr_customer y = pe_customer e \<and> row_id x < row_id y) (payments db)"

lemma reversal_tx_cases:
  "ok (reversal_tx s t e db) (\<lambda>x. snd x = db \<or>
     (\<exists>c original restored. payment_customer t (pe_customer e) db = Some c \<and>
        reversible t e original (state_of c) restored db \<and>
        reverse_payment s t e (rule_settings_for t (cs_now s) db) original (state_of c) restored db = Inr x))"
  unfolding reversal_tx_def Let_def
  by (intro ok_intro) (auto simp: ok_def reversible_def)

lemma reversal_tx_effect:
  assumes pay: "payments_ok db" and ok: "accounts_ok db"
  shows "ok (reversal_tx s t e db) (\<lambda>x. payment_effect t (pe_customer e) db (snd x))"
proof (rule ok_mono [OF reversal_tx_cases], elim disjE exE conjE)
  fix x c original restored
  assume c: "payment_customer t (pe_customer e) db = Some c"
    and rev: "reversible t e original (state_of c) restored db"
    and run: "reverse_payment s t e (rule_settings_for t (cs_now s) db) original (state_of c) restored db = Inr x"
  have "original \<in> set (rows (payments db))" "restored_state original = Some restored"
    using rev by (auto simp: reversible_def dest!: find_row_Some)
  then have cnt: "counters_ok restored" using pay by (auto simp: payments_ok_def)
  let ?m = "mark_reversed s t (row_id original) (pe_event e) db"
  let ?r = "new_payment_record s t (e\<lparr>pe_type := payment_reversed, pe_reversal_of := pr_payment original\<rparr>)
     ''REVERSED'' ''PAYMENT_REVERSED'' (rs_grace (rule_settings_for t (cs_now s) db)) (Some (state_of c)) (Some restored)"
  have m: "account_moves t (pe_customer e) (state_of c) restored db (snd x)" "desk_same db (snd x)" "record_added ?r ?m (snd x)"
    using okD [OF reverse_payment_moves [OF c] run] by (auto simp: case_prod_beta)
  have "record_added ?r (db\<lparr>payments := payments ?m\<rparr>) (snd x)" using m(3) by (simp add: record_added_def)
  moreover have "tenant_id ?r = t" "pr_customer ?r = pe_customer e" by (simp_all add: restored_new)
  moreover have "restored_state (stored_record ?r) = Some st \<Longrightarrow> counters_ok st" for st
    using account_ok_state [OF ok c] by (auto simp: restored_new)
  ultimately show "payment_effect t (pe_customer e) db (snd x)"
    unfolding payment_effect_def using m(1,2) cnt mark_reversed_same(4) by blast
qed (simp add: payment_effect_def)

lemma process_payment_effect:
  assumes "accounts_ok db" "payments_ok db" "rules_valid db"
  shows "ok (process_payment s p e db) (\<lambda>x. payment_effect (p_tenant p) (pe_customer e) db (snd x))"
proof -
  have c: "pe_customer (normalize_payment_event e) = pe_customer e" by (simp add: normalize_payment_event_def)
  show ?thesis
    unfolding process_payment_def Let_def
    by (intro ok_intro payment_tx_effect [of db s "p_tenant p" "normalize_payment_event e", unfolded c]
        reversal_tx_effect [of db s "p_tenant p" "normalize_payment_event e", unfolded c]) (use assms in simp_all)
qed

end
