(* ===== verification/CreditDesk.thy ===== *)
theory CreditDesk
  imports CreditMachine
begin

text \<open>
  The applications with their approval rows: each application has one instance and its task
  of the same status, a pending one holds the customer's only pending place.
\<close>

definition mirrored :: "credit_db \<Rightarrow> credit_application \<Rightarrow> bool" where
  "mirrored db a \<longleftrightarrow>
     (\<exists>i \<in> set (rows (credit_instances db)). \<exists>t \<in> set (rows (credit_tasks db)).
        row_id i = ca_instance a \<and> tenant_id i = tenant_id a \<and> ai_business i = row_id a \<and> ai_status i = ca_status a \<and>
        row_id t = ai_task i \<and> at_instance t = row_id i \<and> tenant_id t = tenant_id a \<and> at_status t = ca_status a)"

definition desk_ok :: "credit_db \<Rightarrow> bool" where
  "desk_ok db \<longleftrightarrow>
     table_wf (credit_applications db) \<and> table_wf (credit_instances db) \<and> table_wf (credit_tasks db) \<and>
     (\<forall>a \<in> set (rows (credit_applications db)).
        ca_pending a = (if ca_status a = AppPending then Some (ca_customer a) else None) \<and> mirrored db a) \<and>
     (\<forall>a \<in> set (rows (credit_applications db)). \<forall>b \<in> set (rows (credit_applications db)).
        application_clash a b \<longrightarrow> a = b) \<and>
     (\<forall>t \<in> set (rows (credit_tasks db)). \<exists>a \<in> set (rows (credit_applications db)).
        at_instance t = ca_instance a \<and> tenant_id t = tenant_id a \<and> at_status t = ca_status a)"

lemma table_wf_ids: "table_wf t \<longleftrightarrow> distinct (map row_id (rows t)) \<and> list_all (\<lambda>n. n < next_id t) (map row_id (rows t))"
  by (auto simp: table_wf_def list_all_iff)

lemma desk_same_ok: "desk_same db db' \<Longrightarrow> desk_ok db \<Longrightarrow> desk_ok db'"
  by (simp add: desk_same_def desk_ok_def mirrored_def)

lemma instance_of:
  assumes "desk_ok db" "a \<in> set (rows (credit_applications db))" "b \<in> set (rows (credit_applications db))"
    "ca_instance a = ca_instance b"
  shows "a = b"
proof -
  obtain i j where "i \<in> set (rows (credit_instances db))" "row_id i = ca_instance a" "ai_business i = row_id a"
    "j \<in> set (rows (credit_instances db))" "row_id j = ca_instance b" "ai_business j = row_id b"
    using assms(1-3) unfolding desk_ok_def mirrored_def by blast
  then have "i = j" using assms(1,4) table_wf_same_id by (metis desk_ok_def)
  then show ?thesis using assms(1-3) \<open>ai_business i = row_id a\<close> \<open>ai_business j = row_id b\<close> table_wf_same_id
    by (metis desk_ok_def)
qed

section \<open>Closing an application\<close>

definition desk_closed :: "credit_application \<Rightarrow> credit_application \<Rightarrow> credit_db \<Rightarrow> credit_db \<Rightarrow> bool" where
  "desk_closed a a' db db' \<longleftrightarrow>
     a \<in> set (rows (credit_applications db)) \<and> ca_status a = AppPending \<and> ca_status a' \<noteq> AppPending \<and> ca_pending a' = None \<and>
     row_id a' = row_id a \<and> tenant_id a' = tenant_id a \<and> ca_customer a' = ca_customer a \<and>
     ca_applicant a' = ca_applicant a \<and> ca_key a' = ca_key a \<and> ca_instance a' = ca_instance a \<and>
     credit_applications db' = update_rows (\<lambda>x. row_id x = row_id a) (\<lambda>_. a') (credit_applications db) \<and>
     rule_rows db' = rule_rows db \<and>
     (\<exists>g h. (\<forall>x. row_id (g x) = row_id x \<and> tenant_id (g x) = tenant_id x \<and> ai_business (g x) = ai_business x \<and>
                 ai_task (g x) = ai_task x \<and> ai_status (g x) = ca_status a') \<and>
        (\<forall>x. row_id (h x) = row_id x \<and> tenant_id (h x) = tenant_id x \<and> at_instance (h x) = at_instance x \<and>
             at_status (h x) = ca_status a') \<and>
        credit_instances db' = update_rows (\<lambda>x. tenant_id x = tenant_id a \<and> row_id x = ca_instance a) g (credit_instances db) \<and>
        credit_tasks db' = update_rows (\<lambda>x. tenant_id x = tenant_id a \<and> at_instance x = ca_instance a \<and>
          at_status x = AppPending) h (credit_tasks db))"

lemma desk_closed_ok:
  assumes ok: "desk_ok db" and m: "desk_closed a a' db db'"
  shows "desk_ok db'"
proof -
  let ?A = "set (rows (credit_applications db))" and ?A' = "set (rows (credit_applications db'))"
  let ?I = "set (rows (credit_instances db))" and ?I' = "set (rows (credit_instances db'))"
  let ?T = "set (rows (credit_tasks db))" and ?T' = "set (rows (credit_tasks db'))"
  have a: "a \<in> ?A" "ca_status a = AppPending" "ca_status a' \<noteq> AppPending" "ca_pending a' = None" "row_id a' = row_id a"
    "tenant_id a' = tenant_id a" "ca_customer a' = ca_customer a" "ca_applicant a' = ca_applicant a" "ca_key a' = ca_key a"
    "ca_instance a' = ca_instance a"
    and cA: "credit_applications db' = update_rows (\<lambda>x. row_id x = row_id a) (\<lambda>_. a') (credit_applications db)"
    using m by (auto simp: desk_closed_def)
  obtain g h where g: "\<And>x. row_id (g x) = row_id x" "\<And>x. tenant_id (g x) = tenant_id x" "\<And>x. ai_business (g x) = ai_business x"
      "\<And>x. ai_task (g x) = ai_task x" "\<And>x. ai_status (g x) = ca_status a'"
    and h: "\<And>x. row_id (h x) = row_id x" "\<And>x. tenant_id (h x) = tenant_id x" "\<And>x. at_instance (h x) = at_instance x"
      "\<And>x. at_status (h x) = ca_status a'"
    and cI: "credit_instances db' = update_rows (\<lambda>x. tenant_id x = tenant_id a \<and> row_id x = ca_instance a) g (credit_instances db)"
    and cT: "credit_tasks db' = update_rows (\<lambda>x. tenant_id x = tenant_id a \<and> at_instance x = ca_instance a \<and>
          at_status x = AppPending) h (credit_tasks db)"
    using m unfolding desk_closed_def by blast
  have wf: "table_wf (credit_applications db)" "table_wf (credit_instances db)" "table_wf (credit_tasks db)"
    using ok by (simp_all add: desk_ok_def)
  have same: "x = a" if "x \<in> ?A" "row_id x = row_id a" for x using that a(1) wf(1) table_wf_same_id by blast
  have A': "x \<in> ?A' \<longleftrightarrow> x = a' \<or> x \<in> ?A \<and> x \<noteq> a" for x
    unfolding cA set_rows_update using same a(1) by auto
  define gi where "gi = (\<lambda>x. if tenant_id x = tenant_id a \<and> row_id x = ca_instance a then g x else x)"
  define hi where "hi = (\<lambda>x. if tenant_id x = tenant_id a \<and> at_instance x = ca_instance a \<and> at_status x = AppPending then h x else x)"
  have I': "?I' = gi ` ?I" and T': "?T' = hi ` ?T" unfolding cI cT gi_def hi_def by (rule set_rows_update)+
  have wf': "table_wf (credit_instances db')" "table_wf (credit_tasks db')"
    unfolding cI cT using wf(2,3) by (auto intro!: table_wf_update simp: g h)
  have wfA: "table_wf (credit_applications db')"
  proof -
    have "map row_id (rows (credit_applications db')) = map row_id (rows (credit_applications db))"
      by (simp add: cA update_rows_def a(5))
    moreover have "next_id (credit_applications db') = next_id (credit_applications db)" by (simp add: cA update_rows_def)
    ultimately show ?thesis using wf(1) by (simp add: table_wf_ids)
  qed
  have mir: "mirrored db' x" if x: "x \<in> ?A'" for x
  proof -
    define y where "y = (if x = a' then a else x)"
    have y: "y \<in> ?A" "ca_instance x = ca_instance y" "tenant_id x = tenant_id y" "row_id x = row_id y"
      using x a(1,5,6,10) by (auto simp: y_def A')
    have y': "ca_status x = (if y = a then ca_status a' else ca_status y)" using x by (auto simp: y_def A')
    obtain i t where i: "i \<in> ?I" "row_id i = ca_instance y" "tenant_id i = tenant_id y" "ai_business i = row_id y"
      "ai_status i = ca_status y" and t: "t \<in> ?T" "row_id t = ai_task i" "at_instance t = row_id i" "tenant_id t = tenant_id y"
      "at_status t = ca_status y" using ok y(1) unfolding desk_ok_def mirrored_def by blast
    have one: "y = a" if "ca_instance y = ca_instance a" using instance_of [OF ok y(1) a(1) that] .
    have "gi i \<in> ?I'" "hi t \<in> ?T'" using i(1) t(1) by (auto simp: I' T')
    moreover have "row_id (gi i) = ca_instance x" "tenant_id (gi i) = tenant_id x" "ai_business (gi i) = row_id x"
      "row_id (hi t) = ai_task (gi i)" "at_instance (hi t) = row_id (gi i)" "tenant_id (hi t) = tenant_id x"
      using i t y by (simp_all add: gi_def hi_def g h)
    moreover have "ai_status (gi i) = ca_status x" "at_status (hi t) = ca_status x"
      using i t y' a(2) one by (auto simp: gi_def hi_def g h)
    ultimately show ?thesis unfolding mirrored_def by blast
  qed
  have pend: "ca_pending x = (if ca_status x = AppPending then Some (ca_customer x) else None)" if "x \<in> ?A'" for x
    using that ok a(3,4) by (auto simp: A' desk_ok_def)
  have clash: "x = y" if "x \<in> ?A'" "y \<in> ?A'" "application_clash x y" for x y
  proof -
    let ?o = "\<lambda>x. if x = a' then a else x"
    have o: "?o x \<in> ?A" "?o y \<in> ?A" using that(1,2) a(1) by (auto simp: A')
    have "application_clash (?o x) (?o y)"
      using that(3) a(4-9) unfolding application_clash_def by (cases "x = a'"; cases "y = a'") auto
    then have "?o x = ?o y" using ok o unfolding desk_ok_def by blast
    then show ?thesis using that(1,2) by (auto simp: A' split: if_splits)
  qed
  have task: "\<exists>x \<in> ?A'. at_instance t' = ca_instance x \<and> tenant_id t' = tenant_id x \<and> at_status t' = ca_status x"
    if t': "t' \<in> ?T'" for t'
  proof -
    obtain t where t: "t \<in> ?T" "t' = hi t" using t' by (auto simp: T')
    obtain x where x: "x \<in> ?A" "at_instance t = ca_instance x" "tenant_id t = tenant_id x" "at_status t = ca_status x"
      using ok t(1) unfolding desk_ok_def by blast
    show ?thesis
    proof (cases "x = a")
      case True
      then show ?thesis using x t a(2,6,10) by (intro bexI [of _ a']) (auto simp: A' hi_def h)
    next
      case False
      then have "ca_instance x \<noteq> ca_instance a" using instance_of [OF ok x(1) a(1)] by blast
      then show ?thesis using x t False by (intro bexI [of _ x]) (auto simp: A' hi_def)
    qed
  qed
  show ?thesis unfolding desk_ok_def using wfA wf' mir pend clash task by blast
qed

section \<open>Opening an application\<close>

definition desk_opened :: "credit_application \<Rightarrow> credit_db \<Rightarrow> credit_db \<Rightarrow> bool" where
  "desk_opened a db db' \<longleftrightarrow>
     row_id a = next_id (credit_applications db) \<and> ca_status a = AppPending \<and> ca_pending a = Some (ca_customer a) \<and>
     ca_instance a = next_id (credit_instances db) \<and>
     \<not> exists_row (application_clash a) (credit_applications db) \<and> rule_rows db' = rule_rows db \<and>
     rows (credit_applications db') = rows (credit_applications db) @ [a] \<and>
     next_id (credit_applications db') = Suc (next_id (credit_applications db)) \<and>
     (\<exists>i t. rows (credit_instances db') = rows (credit_instances db) @ [i] \<and>
        next_id (credit_instances db') = Suc (next_id (credit_instances db)) \<and>
        rows (credit_tasks db') = rows (credit_tasks db) @ [t] \<and>
        next_id (credit_tasks db') = Suc (next_id (credit_tasks db)) \<and>
        row_id i = ca_instance a \<and> tenant_id i = tenant_id a \<and> ai_business i = row_id a \<and> ai_status i = AppPending \<and>
        ai_task i = row_id t \<and> row_id t = next_id (credit_tasks db) \<and> tenant_id t = tenant_id a \<and>
        at_instance t = ca_instance a \<and> at_status t = AppPending)"

lemma table_wf_snoc:
  assumes "table_wf t" "rows t' = rows t @ [r]" "next_id t' = Suc (next_id t)" "row_id r = next_id t"
  shows "table_wf t'"
  using assms by (auto simp: table_wf_def)

lemma desk_opened_ok:
  assumes ok: "desk_ok db" and m: "desk_opened a db db'"
  shows "desk_ok db'"
proof -
  let ?A = "set (rows (credit_applications db))"
  obtain i t where A: "rows (credit_applications db') = rows (credit_applications db) @ [a]"
    and I: "rows (credit_instances db') = rows (credit_instances db) @ [i]"
    and T: "rows (credit_tasks db') = rows (credit_tasks db) @ [t]"
    and n: "next_id (credit_applications db') = Suc (next_id (credit_applications db))"
      "next_id (credit_instances db') = Suc (next_id (credit_instances db))"
      "next_id (credit_tasks db') = Suc (next_id (credit_tasks db))"
    and a: "row_id a = next_id (credit_applications db)" "ca_status a = AppPending" "ca_pending a = Some (ca_customer a)"
      "ca_instance a = next_id (credit_instances db)"
    and i: "row_id i = ca_instance a" "tenant_id i = tenant_id a" "ai_business i = row_id a" "ai_status i = AppPending"
      "ai_task i = row_id t"
    and t: "row_id t = next_id (credit_tasks db)" "tenant_id t = tenant_id a" "at_instance t = ca_instance a"
      "at_status t = AppPending"
    and free: "\<And>x. x \<in> ?A \<Longrightarrow> \<not> application_clash a x"
    using m unfolding desk_opened_def exists_row_iff by blast
  have wf: "table_wf (credit_applications db')" "table_wf (credit_instances db')" "table_wf (credit_tasks db')"
    using ok a(1,4) i(1) t(1) table_wf_snoc [OF _ A n(1)] table_wf_snoc [OF _ I n(2)] table_wf_snoc [OF _ T n(3)]
    by (simp_all add: desk_ok_def)
  have old: "mirrored db' x" if "x \<in> ?A" for x
  proof -
    have "set (rows (credit_instances db)) \<subseteq> set (rows (credit_instances db'))"
      "set (rows (credit_tasks db)) \<subseteq> set (rows (credit_tasks db'))" by (auto simp: I T)
    moreover have "mirrored db x" using that ok by (simp add: desk_ok_def)
    ultimately show ?thesis unfolding mirrored_def by blast
  qed
  have new: "mirrored db' a" unfolding mirrored_def I T using a i t by auto
  have sym: "\<not> application_clash x a" if "x \<in> ?A" for x
    using free [OF that] by (auto simp: application_clash_def)
  have pend: "\<forall>x \<in> insert a ?A. ca_pending x = (if ca_status x = AppPending then Some (ca_customer x) else None) \<and> mirrored db' x"
    using ok old new a(2,3) by (auto simp: desk_ok_def)
  have clash: "\<forall>x \<in> insert a ?A. \<forall>y \<in> insert a ?A. application_clash x y \<longrightarrow> x = y"
    using ok free sym unfolding desk_ok_def by blast
  have tasks: "\<forall>x \<in> insert t (set (rows (credit_tasks db))). \<exists>y \<in> insert a ?A.
      at_instance x = ca_instance y \<and> tenant_id x = tenant_id y \<and> at_status x = ca_status y"
    using ok t a(2) unfolding desk_ok_def by auto
  have sets: "set (rows (credit_applications db')) = insert a ?A" "set (rows (credit_tasks db')) = insert t (set (rows (credit_tasks db)))"
    by (simp_all add: A T)
  show ?thesis unfolding desk_ok_def sets using wf pend clash tasks by blast
qed

section \<open>The commands\<close>

lemma map_fresh: "\<forall>x \<in> set xs. \<not> p x \<Longrightarrow> map (\<lambda>x. if p x then f x else x) xs = xs"
  by (induction xs) simp_all

lemma apply_tx_effect:
  assumes ok: "desk_ok db"
  shows "ok (apply_tx s p i target reason key db) (\<lambda>(a, db'). db' = db \<or>
    accounts_same db db' \<and> payments db' = payments db \<and> (\<exists>c a'. desk_opened a' db db' \<and> lock_scoped_credit_customer p i db = Some c \<and>
      tenant_id a' = p_tenant p \<and> ca_customer a' = i \<and> ca_applicant a' = p_user p \<and> ca_key a' = key \<and> ca_from a' = cu_level c \<and>
      level_of target = Some (ca_target a') \<and> ca_target a' \<noteq> cu_level c))"
  unfolding apply_tx_def
proof (intro ok_intro, goal_cases)
  case (1 c t x a db1 y n db2 db3)
  let ?a = "new_credit_application s p c t reason key"
  let ?n = "next_id (credit_applications db)" and ?i = "next_id (credit_instances db)" and ?now = "datetime3 (cs_now s)"
  have c: "row_id c = i" using 1(2) by (auto simp: lock_scoped_credit_customer_def dest!: find_row_Some)
  have wf: "table_wf (credit_applications db)" "table_wf (credit_instances db)" using ok by (simp_all add: desk_ok_def)
  have r: "\<not> exists_row (application_clash ?a) (credit_applications db)" "a = ?a\<lparr>row_id := ?n\<rparr>"
    "db1 = db\<lparr>credit_applications := snd (insert_row (stored_application ?a) (credit_applications db))\<rparr>"
    using 1(5,6) by (auto simp: create_application_def Let_def insert_row_def)
  let ?b = "(stored_application ?a)\<lparr>row_id := ?n, ca_instance := ?i, ca_updated := ?now\<rparr>"
  have n: "n = ?i" "credit_applications db2 = (credit_applications db)\<lparr>rows := rows (credit_applications db) @ [?b], next_id := Suc ?n\<rparr>"
    "customers db2 = customers db" "credit_logs db2 = credit_logs db" "payments db2 = payments db" "rule_rows db2 = rule_rows db"
    "rows (credit_instances db2) = rows (credit_instances db) @
       [(new_credit_instance s a)\<lparr>row_id := ?i, ai_task := next_id (credit_tasks db), ai_updated := ?now\<rparr>]"
    "next_id (credit_instances db2) = Suc ?i"
    "rows (credit_tasks db2) = rows (credit_tasks db) @ [(new_credit_task s a ?i)\<lparr>row_id := next_id (credit_tasks db)\<rparr>]"
    "next_id (credit_tasks db2) = Suc (next_id (credit_tasks db))"
  proof -
    have fresh: "map (\<lambda>x. if tenant_id x = p_tenant p \<and> row_id x = ?n then f x else x) (rows (credit_applications db)) =
        rows (credit_applications db)"
      "map (\<lambda>x. if tenant_id x = p_tenant p \<and> row_id x = ?i then g x else x) (rows (credit_instances db)) =
        rows (credit_instances db)" for f g
      using wf by (auto simp: table_wf_def intro!: map_fresh)
    have ida: "row_id a = ?n" by (simp add: r(2))
    have "n = ?i \<and> db2 = db1\<lparr>
           credit_instances := update_rows (\<lambda>x. tenant_id x = tenant_id a \<and> row_id x = ?i)
             (\<lambda>x. x\<lparr>ai_task := next_id (credit_tasks db), ai_updated := ?now\<rparr>) (snd (insert_row (new_credit_instance s a) (credit_instances db))),
           credit_tasks := snd (insert_row (new_credit_task s a ?i) (credit_tasks db)),
           credit_applications := update_rows (\<lambda>x. tenant_id x = tenant_id a \<and> row_id x = ?n)
             (\<lambda>x. x\<lparr>ca_instance := ?i, ca_updated := ?now\<rparr>) (credit_applications db1)\<rparr>"
      using 1(7,8) by (auto simp: create_approval_rows_def Let_def insert_row_def r(3) ida)
    then show "n = ?i" "credit_applications db2 = (credit_applications db)\<lparr>rows := rows (credit_applications db) @ [?b], next_id := Suc ?n\<rparr>"
      "customers db2 = customers db" "credit_logs db2 = credit_logs db" "payments db2 = payments db" "rule_rows db2 = rule_rows db"
      "rows (credit_instances db2) = rows (credit_instances db) @
         [(new_credit_instance s a)\<lparr>row_id := ?i, ai_task := next_id (credit_tasks db), ai_updated := ?now\<rparr>]"
      "next_id (credit_instances db2) = Suc ?i"
      "rows (credit_tasks db2) = rows (credit_tasks db) @ [(new_credit_task s a ?i)\<lparr>row_id := next_id (credit_tasks db)\<rparr>]"
      "next_id (credit_tasks db2) = Suc (next_id (credit_tasks db))"
      by (simp_all add: r(2,3) insert_row_def fresh
          stored_application_def new_credit_application_def new_credit_instance_def update_rows_def)
  qed
  have "notices_only db2 db3" using okD [OF notify_sales_directors_notices 1(9)] .
  then have s3: "customers db3 = customers db2" "credit_logs db3 = credit_logs db2" "payments db3 = payments db2" "desk_same db2 db3"
    by (auto dest: notices_only_same)
  have free: "\<not> exists_row (application_clash ?b) (credit_applications db)"
    using r(1) by (simp add: exists_row_iff application_clash_def stored_application_def)
  have "desk_opened ?b db db3"
    using free s3(4) n unfolding desk_opened_def desk_same_def
    by (simp add: stored_application_def new_credit_application_def new_credit_instance_def new_credit_task_def r(2))
  moreover have "accounts_same db db3" using s3 n by (simp add: accounts_same_def)
  moreover have "payments db3 = payments db" using s3 n by simp
  moreover have "tenant_id ?b = p_tenant p \<and> ca_customer ?b = i \<and> ca_applicant ?b = p_user p \<and> ca_key ?b = key \<and> ca_from ?b = cu_level c \<and>
      level_of target = Some (ca_target ?b) \<and> ca_target ?b \<noteq> cu_level c"
    using 1(3,4) c by (simp add: stored_application_def new_credit_application_def)
  ultimately show ?case using 1(2) unfolding prod.case by blast
qed simp_all

definition manual_state :: "credit_level \<Rightarrow> credit_state \<Rightarrow> credit_state" where
  "manual_state l st = st\<lparr>st_level := l, st_ontime := 0, st_late := 0\<rparr>"

lemma locked_customer:
  "lock_scoped_credit_customer p i db = Some c \<Longrightarrow>
     c \<in> set (rows (customers db)) \<and> customer_in_scope p c \<and> tenant_id c = p_tenant p \<and> row_id c = i \<and> customer_available c"
  by (auto simp: lock_scoped_credit_customer_def customer_in_scope_def dest!: find_row_Some)

text \<open>The tables a decision writes, before the notification.\<close>

lemma decide_writes_effect:
  assumes db': "decide_writes s p st opinion a db = (a', db')"
    and a: "a \<in> set (rows (credit_applications db))" "ca_status a = AppPending" "tenant_id a = p_tenant p" and st: "st \<noteq> AppPending"
  shows "desk_closed a (stored_application a') db db'" "a' = decided_application s p st opinion a"
    "payments db' = payments db"
    "customers db' = (if st = AppApproved
       then update_rows (\<lambda>x. tenant_id x = p_tenant p \<and> row_id x = ca_customer a) (manual_level s (ca_target a)) (customers db)
       else customers db)"
    "rows (credit_logs db') = rows (credit_logs db) @
       (if st = AppApproved then [(manual_log s p a opinion)\<lparr>row_id := next_id (credit_logs db)\<rparr>] else [])"
proof -
  let ?a = "decided_application s p st opinion a" and ?now = "datetime3 (cs_now s)"
  let ?g = "\<lambda>x. x\<lparr>ai_status := st, ai_decided_by := p_user p, ai_decided_at := Some ?now, ai_updated := ?now, ai_version := ai_version x + 1\<rparr>"
  let ?h = "\<lambda>x. x\<lparr>at_status := st, at_decided_by := p_user p, at_decided_at := Some ?now, at_updated := ?now\<rparr>"
  have a': "a' = ?a" using db' by (simp add: decide_writes_def Let_def)
  then show "a' = ?a" .
  define d where "d = (if st = AppApproved
     then write_customer_change_log s (p_tenant p) (ca_customer a) (ca_from a) (ca_target a) opinion (p_user p)
            (close_instance s p (ca_instance a) st (close_tasks (p_tenant p) (ca_instance a) ?h (save_application ?a
              (write_credit_log (manual_log s p a opinion)
                 (update_customer (p_tenant p) (ca_customer a) (manual_level s (ca_target a)) db)))))
     else close_instance s p (ca_instance a) st (close_tasks (p_tenant p) (ca_instance a) ?h (save_application ?a db)))"
  have "db' = notify_application s (decision_message st ?a) (ca_applicant a) d"
    using db' by (auto simp: decide_writes_def Let_def d_def simp del: decision_message.simps)
  then have "notices_only d db'" by (simp add: notify_application_notices)
  then have n: "customers db' = customers d" "credit_logs db' = credit_logs d" "payments db' = payments d" "desk_same d db'"
    by (auto dest: notices_only_same)
  note defs = d_def write_customer_change_log_def close_instance_def close_tasks_def save_application_def write_credit_log_def
    update_customer_def
  show "payments db' = payments db" using n by (simp add: defs)
  show "customers db' = (if st = AppApproved
       then update_rows (\<lambda>x. tenant_id x = p_tenant p \<and> row_id x = ca_customer a) (manual_level s (ca_target a)) (customers db)
       else customers db)" using n by (simp add: defs)
  show "rows (credit_logs db') = rows (credit_logs db) @
       (if st = AppApproved then [(manual_log s p a opinion)\<lparr>row_id := next_id (credit_logs db)\<rparr>] else [])"
    using n by (simp add: defs fst_insert_row)
  have t: "credit_applications db' = update_rows (\<lambda>x. row_id x = row_id a) (\<lambda>_. stored_application a') (credit_applications db)"
    "credit_instances db' = update_rows (\<lambda>x. tenant_id x = tenant_id a \<and> row_id x = ca_instance a) ?g (credit_instances db)"
    "credit_tasks db' = update_rows (\<lambda>x. tenant_id x = tenant_id a \<and> at_instance x = ca_instance a \<and> at_status x = AppPending) ?h
       (credit_tasks db)" "rule_rows db' = rule_rows db"
    using n(4) by (simp_all add: desk_same_def defs a' a(3) decided_application_def)
  show "desk_closed a (stored_application a') db db'"
    unfolding desk_closed_def using a st t
    by (auto simp: a' decided_application_def stored_application_def intro!: exI [of _ ?g] exI [of _ ?h])
qed

definition decision_effect :: "crm_principal \<Rightarrow> credit_application \<Rightarrow> credit_db \<Rightarrow> credit_db \<Rightarrow> bool" where
  "decision_effect p a db db' \<longleftrightarrow>
     payments db' = payments db \<and> (\<exists>a'. desk_closed a a' db db') \<and>
     (accounts_same db db' \<or>
      (\<exists>c. lock_scoped_credit_customer p (ca_customer a) db = Some c \<and> cu_level c = ca_from a \<and>
           account_moves (p_tenant p) (ca_customer a) (state_of c) (manual_state (ca_target a) (state_of c)) db db'))"

lemma decide_tx_effect:
  assumes ok: "accounts_ok db"
  shows "ok (decide_tx s p i approve opinion v db) (\<lambda>(a', db'). \<exists>a. find_application p i db = Some a \<and> decision_effect p a db db')"
  unfolding decide_tx_def Let_def
proof (intro ok_intro, goal_cases)
  case (1 a u c)
  define st where "st = (if \<not> approve then AppRejected else if cu_level c \<noteq> ca_from a then AppInvalidated else AppApproved)"
  obtain a' db' where w: "decide_writes s p st opinion a db = (a', db')" by fastforce
  have a: "a \<in> set (rows (credit_applications db))" "ca_status a = AppPending" "tenant_id a = p_tenant p"
    using 1(1,3) by (auto simp: find_application_def dest!: find_row_Some)
  have "st \<noteq> AppPending" by (simp add: st_def)
  note e = decide_writes_effect [OF w a this]
  have c: "c \<in> set (rows (customers db))" "tenant_id c = p_tenant p" "row_id c = ca_customer a"
    using locked_customer [OF 1(5)] by auto
  have "decision_effect p a db db'"
  proof (cases "st = AppApproved")
    case True
    then have lv: "cu_level c = ca_from a" by (simp add: st_def split: if_splits)
    have last: "map_option datetime3 (cu_last_eval c) = cu_last_eval c"
      using ok c(1) by (auto simp: accounts_ok_def state_of_def stored_state_def)
    have f: "\<forall>x. same_holder (manual_level s (ca_target a) x) x"
      "state_of (manual_level s (ca_target a) c) = stored_state (manual_state (ca_target a) (state_of c))"
      by (simp_all add: manual_level_def state_of_def stored_state_def manual_state_def last same_holder_def customer_available_def)
    have g: "\<exists>g. rows (credit_logs db') = rows (credit_logs db) @ [g] \<and> tenant_id g = p_tenant p \<and> cg_customer g = ca_customer a \<and>
        cg_from g = st_level (state_of c) \<and> cg_to g = st_level (manual_state (ca_target a) (state_of c))"
      using e(5) True lv by (simp add: manual_log_def state_of_def manual_state_def)
    have cu: "customers db' = update_rows (\<lambda>x. tenant_id x = p_tenant p \<and> row_id x = ca_customer a) (manual_level s (ca_target a))
        (customers db)" using e(4) True by simp
    have "account_moves (p_tenant p) (ca_customer a) (state_of c) (manual_state (ca_target a) (state_of c)) db db'"
      using c cu f g unfolding account_moves_def by blast
    then show ?thesis using e(1,3) lv 1(5) unfolding decision_effect_def by blast
  next
    case False
    then have "accounts_same db db'" using e(4,5) by (simp add: accounts_same_def)
    then show ?thesis using e(1,3) unfolding decision_effect_def by blast
  qed
  then show ?case using 1(1) w by (simp add: st_def)
qed

lemma decide_effect:
  "accounts_ok db \<Longrightarrow> ok (decide_application s p i approve inp db)
     (\<lambda>(a', db'). \<exists>a. find_application p i db = Some a \<and> decision_effect p a db db')"
  unfolding decide_application_def Let_def by (intro ok_intro decide_tx_effect)

lemma withdraw_effect:
  "ok (withdraw_application s p customer i db)
     (\<lambda>(a', db'). \<exists>a. a \<in> set (rows (credit_applications db)) \<and> ca_applicant a = p_user p \<and> tenant_id a = p_tenant p \<and>
        decision_effect p a db db' \<and> accounts_same db db')"
  unfolding withdraw_application_def Let_def
proof (intro ok_intro, goal_cases)
  case (1 a)
  let ?now = "datetime3 (cs_now s)"
  let ?a = "a\<lparr>ca_status := AppWithdrawn, ca_pending := None, ca_updated := cs_now s, ca_version := ca_version a + 1\<rparr>"
  let ?g = "\<lambda>x. x\<lparr>ai_status := AppWithdrawn, ai_decided_by := p_user p, ai_decided_at := Some ?now, ai_updated := ?now,
    ai_version := ai_version x + 1\<rparr>"
  let ?h = "\<lambda>x. x\<lparr>at_status := AppWithdrawn, at_updated := ?now\<rparr>"
  let ?db' = "close_instance s p (ca_instance a) AppWithdrawn (close_tasks (p_tenant p) (ca_instance a) ?h (save_application ?a db))"
  have a: "a \<in> set (rows (credit_applications db))" "ca_applicant a = p_user p" "tenant_id a = p_tenant p" "ca_status a = AppPending"
    using 1 by (auto dest!: find_row_Some)
  have "desk_closed a (stored_application ?a) db ?db'"
    unfolding desk_closed_def using a
    by (auto simp: stored_application_def close_instance_def close_tasks_def save_application_def intro!: exI [of _ ?g] exI [of _ ?h])
  moreover have same: "accounts_same db ?db'" "payments ?db' = payments db"
    by (simp_all add: accounts_same_def close_instance_def close_tasks_def save_application_def)
  ultimately show ?case using a unfolding decision_effect_def by auto
qed

end
