(* ===== verification/CreditSystem.thy ===== *)
theory CreditSystem
  imports CreditDesk
begin

text \<open>
  The commands of the credit module as one machine. Between them other modules may add
  customers and change the columns of a customer that credit does not own.
\<close>

section \<open>The machine\<close>

datatype credit_command =
    CreditPayment payment_event
  | CreditRules rule_input
  | CreditApply nat apply_input
  | CreditDecide nat bool decision_input
  | CreditWithdraw nat nat

definition then_db :: "('a \<times> credit_db) app_res \<Rightarrow> credit_db app_res" where
  "then_db m = (case m of Inl e \<Rightarrow> Inl e | Inr x \<Rightarrow> Inr (snd x))"

fun credit_execute :: "credit_service \<Rightarrow> crm_principal \<Rightarrow> credit_command \<Rightarrow> credit_db \<Rightarrow> credit_db app_res" where
  "credit_execute s p (CreditPayment e) db = then_db (process_payment s p e db)"
| "credit_execute s p (CreditRules inp) db = then_db (update_rule_settings s p inp db)"
| "credit_execute s p (CreditApply i inp) db = then_db (apply_for_level s p i inp db)"
| "credit_execute s p (CreditDecide i approve inp) db = then_db (decide_application s p i approve inp db)"
| "credit_execute s p (CreditWithdraw customer i) db = then_db (withdraw_application s p customer i db)"

text \<open>A customer as \<open>Create\<close> and the import of the customer module leave it.\<close>

definition fresh_state :: credit_state where
  "fresh_state = \<lparr>st_level = LevelB, st_ontime = 0, st_late = 0, st_last = None\<rparr>"

definition credit_outside :: "credit_db \<Rightarrow> credit_db \<Rightarrow> bool" where
  "credit_outside db db' \<longleftrightarrow>
     table_wf (customers db') \<and> next_id (customers db) \<le> next_id (customers db') \<and>
     (\<forall>c' \<in> set (rows (customers db')).
        (\<exists>c \<in> set (rows (customers db)). row_id c = row_id c' \<and> tenant_id c = tenant_id c' \<and> state_of c = state_of c') \<or>
        next_id (customers db) \<le> row_id c' \<and> state_of c' = fresh_state) \<and>
     payments db' = payments db \<and> credit_logs db' = credit_logs db \<and> desk_same db db'"

definition empty_credit_db :: credit_db where
  "empty_credit_db =
     \<lparr>customers = empty_table, payments = empty_table, credit_logs = empty_table, credit_applications = empty_table,
      credit_instances = empty_table, credit_tasks = empty_table, rule_rows = [], rule_versions = empty_table,
      credit_changes = empty_table, credit_notices = empty_table\<rparr>"

inductive credit_step :: "credit_db \<Rightarrow> credit_db \<Rightarrow> bool" where
  command: "credit_execute s p c db = Inr db' \<Longrightarrow> credit_step db db'"
| outside: "credit_outside db db' \<Longrightarrow> credit_step db db'"

definition credit_reachable :: "credit_db \<Rightarrow> bool" where
  "credit_reachable db \<longleftrightarrow> credit_step\<^sup>*\<^sup>* empty_credit_db db"

lemma credit_reachable_induct [consumes 1, case_names empty step]:
  assumes "credit_reachable db" "P empty_credit_db" "\<And>db db'. P db \<Longrightarrow> credit_step db db' \<Longrightarrow> P db'"
  shows "P db"
  using assms(1)[unfolded credit_reachable_def] by (induction rule: rtranclp_induct) (use assms(2,3) in blast)+

section \<open>The invariant\<close>

definition credit_ok :: "credit_db \<Rightarrow> bool" where
  "credit_ok db \<longleftrightarrow> accounts_ok db \<and> payments_ok db \<and> desk_ok db \<and> rules_valid db"

lemma empty_credit_ok: "credit_ok empty_credit_db"
  by (simp add: credit_ok_def accounts_ok_def payments_ok_def desk_ok_def rules_valid_def empty_credit_db_def)
    (simp add: empty_table_def)

lemma effect_desk: "payment_effect t i db db' \<Longrightarrow> desk_same db db'"
  by (auto simp: payment_effect_def desk_same_def)

lemma desk_rules: "desk_same db db' \<Longrightarrow> rules_valid db \<Longrightarrow> rules_valid db'"
  by (simp add: desk_same_def rules_valid_def)

lemma payments_same_ok: "payments db' = payments db \<Longrightarrow> payments_ok db \<Longrightarrow> payments_ok db'"
  by (simp add: payments_ok_def)

lemma update_rules_effect:
  "ok (update_rule_settings s p inp db) (\<lambda>(v, db'). accounts_same db db' \<and> payments db' = payments db \<and>
     credit_applications db' = credit_applications db \<and> credit_instances db' = credit_instances db \<and>
     credit_tasks db' = credit_tasks db \<and> (rules_valid db \<longrightarrow> rules_valid db'))"
  unfolding update_rule_settings_def Let_def
  by (intro ok_intro) (auto simp: accounts_same_def rules_valid_def list_all_iff valid_rule_settings_def)

lemma desk_rule_rows:
  "desk_opened a db db' \<Longrightarrow> rule_rows db' = rule_rows db" "desk_closed a a' db db' \<Longrightarrow> rule_rows db' = rule_rows db"
  by (simp_all add: desk_opened_def desk_closed_def)

lemma manual_counters: "counters_ok (manual_state l st)"
  by (simp add: counters_ok_def manual_state_def)

lemma decision_ok:
  assumes "credit_ok db" "decision_effect p a db db'"
  shows "credit_ok db'"
proof -
  obtain a' where c: "payments db' = payments db" "desk_closed a a' db db'" using assms(2) unfolding decision_effect_def by blast
  then have d: "payments db' = payments db" "desk_ok db'" "rules_valid db'"
    using assms(1) desk_closed_ok desk_rule_rows(2) by (auto simp: credit_ok_def rules_valid_def)
  have "accounts_ok db'"
  proof (cases "accounts_same db db'")
    case False
    then obtain c where "account_moves (p_tenant p) (ca_customer a) (state_of c) (manual_state (ca_target a) (state_of c)) db db'"
      using assms(2) unfolding decision_effect_def by blast
    with assms(1) show ?thesis unfolding credit_ok_def by (blast intro: account_moves_ok manual_counters)
  qed (use assms(1) accounts_same_ok in \<open>auto simp: credit_ok_def\<close>)
  then show ?thesis using assms(1) d payments_same_ok by (auto simp: credit_ok_def)
qed

lemma outside_ok:
  assumes ok: "credit_ok db" and o: "credit_outside db db'"
  shows "credit_ok db'"
proof -
  have logs: "credit_logs db' = credit_logs db" and n: "next_id (customers db) \<le> next_id (customers db')"
    and wf: "table_wf (customers db')" using o by (auto simp: credit_outside_def)
  have acc: "accounts_ok db" using ok by (simp add: credit_ok_def)
  have row: "counters_ok (state_of c') \<and> stored_state (state_of c') = state_of c' \<and>
      linked LevelB (level_steps (tenant_id c') (row_id c') (rows (credit_logs db))) (cu_level c')"
    if c': "c' \<in> set (rows (customers db'))" for c'
  proof -
    have "(\<exists>c \<in> set (rows (customers db)). row_id c = row_id c' \<and> tenant_id c = tenant_id c' \<and> state_of c = state_of c') \<or>
        next_id (customers db) \<le> row_id c' \<and> state_of c' = fresh_state"
      using o c' by (auto simp: credit_outside_def)
    then show ?thesis
    proof
      assume "\<exists>c \<in> set (rows (customers db)). row_id c = row_id c' \<and> tenant_id c = tenant_id c' \<and> state_of c = state_of c'"
      then obtain c where c: "c \<in> set (rows (customers db))" "row_id c = row_id c'" "tenant_id c = tenant_id c'" "state_of c = state_of c'"
        by blast
      then have "cu_level c = cu_level c'" by (simp add: state_of_def)
      then show ?thesis using acc c unfolding accounts_ok_def by metis
    next
      assume f: "next_id (customers db) \<le> row_id c' \<and> state_of c' = fresh_state"
      have "g \<in> set (rows (credit_logs db)) \<Longrightarrow> cg_customer g \<noteq> row_id c'" for g
        using acc f unfolding accounts_ok_def by (metis leD)
      then have "level_steps (tenant_id c') (row_id c') (rows (credit_logs db)) = []" by (auto simp: level_steps_def filter_empty_conv)
      then show ?thesis using f by (simp add: fresh_state_def counters_ok_def stored_state_def state_of_def)
    qed
  qed
  have "\<forall>g \<in> set (rows (credit_logs db)). cg_customer g < next_id (customers db')"
    using acc n by (auto simp: accounts_ok_def)
  then have "accounts_ok db'" unfolding accounts_ok_def logs using wf row by blast
  then show ?thesis using o ok payments_same_ok desk_same_ok desk_rules by (auto simp: credit_outside_def credit_ok_def)
qed

lemma then_db_Inr: "then_db m = Inr db' \<longleftrightarrow> (\<exists>x. m = Inr (x, db'))"
  by (cases m) (auto simp: then_db_def)

lemma execute_ok:
  assumes ok: "credit_ok db" and run: "credit_execute s p c db = Inr db'"
  shows "credit_ok db'"
proof (cases c)
  case (CreditPayment e)
  then obtain x where "process_payment s p e db = Inr (x, db')" using run by (auto simp: then_db_Inr)
  then have m: "payment_effect (p_tenant p) (pe_customer e) db db'"
    using okD [OF process_payment_effect] ok by (fastforce simp: credit_ok_def)
  show ?thesis using ok payment_effect_ok [OF _ _ m] desk_same_ok [OF effect_desk [OF m]] desk_rules [OF effect_desk [OF m]]
    by (simp add: credit_ok_def)
next
  case (CreditRules inp)
  then obtain x where "update_rule_settings s p inp db = Inr (x, db')" using run by (auto simp: then_db_Inr)
  from okD [OF update_rules_effect this] show ?thesis
    using ok accounts_same_ok by (auto simp: credit_ok_def payments_ok_def desk_ok_def mirrored_def)
next
  case (CreditApply i inp)
  then obtain x where "apply_for_level s p i inp db = Inr (x, db')" using run by (auto simp: then_db_Inr)
  then have "apply_tx s p i (ap_target inp) (trim_space (ap_reason inp)) (trim_space (ap_key inp)) db = Inr (x, db')"
    by (auto simp: apply_for_level_def Let_def)
  from okD [OF apply_tx_effect this] ok have "db' = db \<or> accounts_same db db' \<and> payments db' = payments db \<and> (\<exists>a. desk_opened a db db')"
    by (auto simp: credit_ok_def)
  then show ?thesis
  proof (elim disjE conjE exE)
    fix a
    assume a: "accounts_same db db'" "payments db' = payments db" "desk_opened a db db'"
    then show ?thesis using ok accounts_same_ok payments_same_ok desk_opened_ok desk_rule_rows(1)
      by (auto simp: credit_ok_def rules_valid_def)
  qed (use ok in simp)
next
  case (CreditDecide i approve inp)
  then obtain x where "decide_application s p i approve inp db = Inr (x, db')" using run by (auto simp: then_db_Inr)
  moreover have "accounts_ok db" using ok by (simp add: credit_ok_def)
  ultimately show ?thesis using okD [OF decide_effect] decision_ok [OF ok] by fast
next
  case (CreditWithdraw customer i)
  then obtain x where "withdraw_application s p customer i db = Inr (x, db')" using run by (auto simp: then_db_Inr)
  then show ?thesis using okD [OF withdraw_effect] decision_ok [OF ok] by fast
qed

lemma credit_reachable_ok: "credit_reachable db \<Longrightarrow> credit_ok db"
proof (induction rule: credit_reachable_induct)
  case (step db db')
  from step.hyps(1) show ?case using step.IH by cases (auto intro: execute_ok outside_ok)
qed (rule empty_credit_ok)

end
