(* ===== verification/CreditNotices.thy ===== *)
theory CreditNotices
  imports CreditFacts
begin

text \<open>
  The notifications of the credit module: who is notified stays so and is not notified of the
  same again; the walk over the directory reaches every sales director.
\<close>

definition notified :: "credit_service \<Rightarrow> credit_message \<Rightarrow> credit_db \<Rightarrow> string \<Rightarrow> bool" where
  "notified s m db r \<longleftrightarrow> trim_space r = [] \<or>
     exists_row (\<lambda>n. tenant_id n = cm_tenant m \<and> cn_source n = credit_source_id s m r) (credit_notices db)"

lemma notify_notified: "notified s m (notify_application s m r db) r"
  by (auto simp: notify_application_def notified_def exists_row_def insert_row_def)

lemma notified_again: "notified s m db r \<Longrightarrow> notify_application s m r db = db"
  by (auto simp: notify_application_def notified_def)

definition notices_grow :: "credit_db \<Rightarrow> credit_db \<Rightarrow> bool" where
  "notices_grow db db' \<longleftrightarrow> set (rows (credit_notices db)) \<subseteq> set (rows (credit_notices db'))"

lemma notices_grow_trans: "notices_grow a b \<Longrightarrow> notices_grow b c \<Longrightarrow> notices_grow a c"
  by (auto simp: notices_grow_def)

lemma notified_grow: "notified s m db r \<Longrightarrow> notices_grow db db' \<Longrightarrow> notified s m db' r"
  by (auto simp: notified_def notices_grow_def exists_row_iff)

lemma notify_grows: "notices_grow db (notify_application s m r db)"
  by (auto simp: notify_application_def notices_grow_def insert_row_def)

text \<open>The list of directors seen does not depend on the database, and whoever is in it is notified.\<close>

definition see_director :: "directory_user \<Rightarrow> string list \<Rightarrow> string list" where
  "see_director u seen = (let i = trim_space (du_id u) in if i = [] \<or> i \<in> set seen then seen else i # seen)"

lemma notify_director_seen: "fst (notify_director s m u acc) = see_director u (fst acc)"
  by (auto simp: notify_director_def see_director_def Let_def case_prod_beta)

lemma fold_director_seen: "fst (fold (notify_director s m) us acc) = fold see_director us (fst acc)"
  by (induction us arbitrary: acc) (simp_all add: notify_director_seen)

lemma fold_see_mono: "set seen \<subseteq> set (fold see_director us seen)"
proof (induction us arbitrary: seen)
  case (Cons u us)
  have "set seen \<subseteq> set (see_director u seen)" by (auto simp: see_director_def Let_def)
  then show ?case using Cons.IH [of "see_director u seen"] by auto
qed simp

definition all_notified :: "credit_service \<Rightarrow> credit_message \<Rightarrow> string list \<times> credit_db \<Rightarrow> bool" where
  "all_notified s m acc \<longleftrightarrow> (\<forall>i \<in> set (fst acc). notified s m (snd acc) i)"

lemma notify_director_all: "all_notified s m acc \<Longrightarrow> all_notified s m (notify_director s m u acc)"
  by (auto simp: all_notified_def notify_director_def Let_def case_prod_beta intro: notify_notified notified_grow notify_grows)

lemma fold_director_all: "all_notified s m acc \<Longrightarrow> all_notified s m (fold (notify_director s m) us acc)"
  by (induction us arbitrary: acc) (simp_all add: notify_director_all)

lemma notify_pages_all:
  "notify_pages s owners m n page acc = Inr acc' \<Longrightarrow> all_notified s m acc \<Longrightarrow> all_notified s m acc' \<and> set (fst acc) \<subseteq> set (fst acc')"
proof (induction s owners m n page acc rule: notify_pages.induct)
  case (2 s owners m n page acc)
  from "2.prems" obtain pg where pg: "owners \<lparr>q_user = [], q_roles = [''sales_director''], q_page = page, q_size = 50\<rparr> = Inr pg"
    by auto
  let ?acc = "fold (notify_director s m) (page_items pg) acc"
  have a: "all_notified s m ?acc" "set (fst acc) \<subseteq> set (fst ?acc)"
    using "2.prems"(2) fold_director_all by (simp_all add: fold_director_seen fold_see_mono)
  show ?case
  proof (cases "page_items pg = [] \<or> page_total pg \<le> int (length (fst ?acc)) \<or> length (page_items pg) < 50")
    case True
    with "2.prems" pg have "acc' = ?acc" by (auto simp: Let_def)
    then show ?thesis using a by simp
  next
    case False
    with "2.prems" pg have "notify_pages s owners m n (Suc page) ?acc = Inr acc'" by (auto simp: Let_def)
    then show ?thesis using "2.IH" [OF pg refl False _ a(1)] a(2) by blast
  qed
qed simp

lemma fold_director_silent:
  assumes "\<forall>i \<in> set (fold see_director us seen). notified s m db i"
  shows "fold (notify_director s m) us (seen, db) = (fold see_director us seen, db)"
  using assms
proof (induction us arbitrary: seen)
  case (Cons u us)
  let ?i = "trim_space (du_id u)"
  have "notify_director s m u (seen, db) = (see_director u seen, db)"
  proof (cases "?i = [] \<or> ?i \<in> set seen")
    case False
    then have "?i \<in> set (see_director u seen)" by (simp add: see_director_def Let_def)
    then have "notified s m db ?i" using Cons.prems fold_see_mono [of "see_director u seen" us] by auto
    then show ?thesis using False by (simp add: notify_director_def see_director_def Let_def notified_again)
  qed (auto simp: notify_director_def see_director_def Let_def)
  then show ?case using Cons by simp
qed simp

lemma notify_pages_silent:
  "notify_pages s owners m n page (seen, db) = Inr (seen', db1) \<Longrightarrow> all_notified s m (seen, db) \<Longrightarrow>
     \<forall>i \<in> set seen'. notified s' m db2 i \<Longrightarrow> notify_pages s' owners m n page (seen, db2) = Inr (seen', db2)"
proof (induction n arbitrary: page seen db)
  case (Suc n)
  from Suc.prems obtain pg where pg: "owners \<lparr>q_user = [], q_roles = [''sales_director''], q_page = page, q_size = 50\<rparr> = Inr pg"
    by auto
  obtain sn d where acc: "fold (notify_director s m) (page_items pg) (seen, db) = (sn, d)" by fastforce
  have sn: "sn = fold see_director (page_items pg) seen" using fold_director_seen [of s m "page_items pg" "(seen, db)"] acc by simp
  have all: "all_notified s m (sn, d)" using fold_director_all [OF Suc.prems(2), of "page_items pg"] acc by simp
  show ?case
  proof (cases "page_items pg = [] \<or> page_total pg \<le> int (length sn) \<or> length (page_items pg) < 50")
    case True
    with Suc.prems(1) pg acc have "seen' = sn" by (auto simp: Let_def)
    then have "fold (notify_director s' m) (page_items pg) (seen, db2) = (sn, db2)"
      using Suc.prems(3) sn by (simp add: fold_director_silent)
    then show ?thesis using True pg \<open>seen' = sn\<close> by (auto simp: Let_def)
  next
    case False
    with Suc.prems(1) pg acc have rec: "notify_pages s owners m n (Suc page) (sn, d) = Inr (seen', db1)" by (auto simp: Let_def)
    then have "set sn \<subseteq> set seen'" using notify_pages_all [OF rec all] by simp
    then have "fold (notify_director s' m) (page_items pg) (seen, db2) = (sn, db2)"
      using Suc.prems(3) sn by (intro trans [OF fold_director_silent]) auto
    then show ?thesis using False pg Suc.IH [OF rec all Suc.prems(3)] by (auto simp: Let_def)
  qed
qed simp

lemma notified_service: "cs_sha s' = cs_sha s \<Longrightarrow> notified s' m db r = notified s m db r"
  by (simp add: notified_def credit_source_id_def)

lemma notices_grow_refl [simp]: "notices_grow db db"
  by (simp add: notices_grow_def)

lemma fold_director_grows: "notices_grow (snd acc) (snd (fold (notify_director s m) us acc))"
proof (induction us arbitrary: acc)
  case (Cons u us)
  have "notices_grow (snd acc) (snd (notify_director s m u acc))"
    by (auto simp: notify_director_def Let_def case_prod_beta notify_grows)
  then show ?case using notices_grow_trans [OF _ Cons.IH] by simp
qed simp

lemma notify_pages_grows: "notify_pages s owners m n page acc = Inr acc' \<Longrightarrow> notices_grow (snd acc) (snd acc')"
proof (induction s owners m n page acc rule: notify_pages.induct)
  case (2 s owners m n page acc)
  from "2.prems" obtain pg where pg: "owners \<lparr>q_user = [], q_roles = [''sales_director''], q_page = page, q_size = 50\<rparr> = Inr pg"
    by auto
  let ?acc = "fold (notify_director s m) (page_items pg) acc"
  show ?case
  proof (cases "page_items pg = [] \<or> page_total pg \<le> int (length (fst ?acc)) \<or> length (page_items pg) < 50")
    case True
    with "2.prems" pg have "acc' = ?acc" by (auto simp: Let_def)
    then show ?thesis by (simp add: fold_director_grows)
  next
    case False
    with "2.prems" pg have "notify_pages s owners m n (Suc page) ?acc = Inr acc'" by (auto simp: Let_def)
    from "2.IH" [OF pg refl False this] show ?thesis by (rule notices_grow_trans [OF fold_director_grows])
  qed
qed simp

lemma directors_silent:
  assumes run: "notify_sales_directors s m db = Inr db1" and g: "notices_grow db1 db2"
    and same: "cs_sha s' = cs_sha s" "cs_owners s' = cs_owners s"
  shows "notify_sales_directors s' m db2 = Inr db2"
proof -
  obtain owners seen where o: "cs_owners s = Some owners" "notify_pages s owners m 100 1 ([], db) = Inr (seen, db1)" "seen \<noteq> []"
    using run by (auto simp: notify_sales_directors_def)
  have all: "all_notified s m ([], db)" by (simp add: all_notified_def)
  have "\<forall>i \<in> set seen. notified s' m db2 i"
    using notify_pages_all [OF o(2) all] notified_grow [OF _ g] notified_service [OF same(1)] by (auto simp: all_notified_def)
  from notify_pages_silent [OF o(2) all this] show ?thesis using o same(2) by (simp add: notify_sales_directors_def)
qed

text \<open>
  C19. A change of level is notified once per customer and pair of levels: as long as the
  notifications exist, the same change at any later time is accepted without a notification
  to anybody, because no time enters their key.
\<close>

theorem repeated_change_silent:
  assumes run: "notify_rule_change s t i a b db = Inr db1" and g: "notices_grow db1 db2"
    and owner: "map_option cu_owner_user (find_row (\<lambda>c. tenant_id c = t \<and> row_id c = i) (customers db2)) =
      map_option cu_owner_user (find_row (\<lambda>c. tenant_id c = t \<and> row_id c = i) (customers db))"
    and same: "cs_sha s' = cs_sha s" "cs_owners s' = cs_owners s"
  shows "notify_rule_change s' t i a b db2 = Inr db2"
proof -
  define m where "m = \<lparr>cm_tenant = t, cm_customer = i, cm_application = 0, cm_kind = ''CREDIT_RULE_CHANGED'',
               cm_title = txt_rule_title, cm_body = txt_rule_body a b\<rparr>"
  obtain c where c: "find_row (\<lambda>c. tenant_id c = t \<and> row_id c = i) (customers db) = Some c"
    using run by (auto simp: notify_rule_change_def Let_def split: option.splits)
  then obtain c2 where c2: "find_row (\<lambda>c. tenant_id c = t \<and> row_id c = i) (customers db2) = Some c2" "cu_owner_user c2 = cu_owner_user c"
    using owner by auto
  define d where "d = (if cu_owner_user c = [] then db else notify_application s m (cu_owner_user c) db)"
  have run': "notify_sales_directors s m d = Inr db1"
    using run c by (cases "cu_owner_user c = []") (simp_all add: notify_rule_change_def Let_def m_def d_def)
  obtain owners seen where "notify_pages s owners m 100 1 ([], d) = Inr (seen, db1)"
    using run' by (auto simp: notify_sales_directors_def)
  from notify_pages_grows [OF this] have "notices_grow d db2" using g by (auto intro: notices_grow_trans)
  then have "notified s m db2 (cu_owner_user c)" if "cu_owner_user c \<noteq> []"
    using that notified_grow [OF notify_notified] by (simp add: d_def)
  then have "(if cu_owner_user c2 = [] then db2 else notify_application s' m (cu_owner_user c2) db2) = db2"
    using c2(2) notified_service [OF same(1)] notified_again by auto
  then show ?thesis using directors_silent [OF run' g same] c2(1)
    by (cases "cu_owner_user c2 = []") (simp_all add: notify_rule_change_def Let_def m_def)
qed

section \<open>Everybody is reached\<close>

text \<open>A directory that answers the pages of a fixed list of directors.\<close>

definition lists_directors :: "(directory_query \<Rightarrow> directory_page app_res) \<Rightarrow> directory_user list \<Rightarrow> bool" where
  "lists_directors owners ds \<longleftrightarrow>
     (\<forall>k. owners \<lparr>q_user = [], q_roles = [''sales_director''], q_page = Suc k, q_size = 50\<rparr> =
        Inr \<lparr>page_items = take 50 (drop (50 * k) ds), page_total = int (length ds)\<rparr>)"

lemma fold_see_distinct:
  assumes "distinct (seen @ map (\<lambda>u. trim_space (du_id u)) us)" "[] \<notin> set (map (\<lambda>u. trim_space (du_id u)) us)"
  shows "fold see_director us seen = rev (map (\<lambda>u. trim_space (du_id u)) us) @ seen"
  using assms by (induction us arbitrary: seen) (auto simp: see_director_def Let_def)

lemma notify_pages_reaches:
  assumes owners: "lists_directors owners ds"
    and ids: "distinct (map (\<lambda>u. trim_space (du_id u)) ds)" "[] \<notin> set (map (\<lambda>u. trim_space (du_id u)) ds)"
  shows "length ds \<le> 50 * (k + n) \<Longrightarrow> 0 < n \<Longrightarrow> fst acc = rev (map (\<lambda>u. trim_space (du_id u)) (take (50 * k) ds)) \<Longrightarrow>
    \<exists>acc'. notify_pages s owners m n (Suc k) acc = Inr acc' \<and> set (fst acc') = set (map (\<lambda>u. trim_space (du_id u)) ds)"
proof (induction n arbitrary: k acc)
  case (Suc n)
  let ?id = "\<lambda>u. trim_space (du_id u)"
  let ?items = "take 50 (drop (50 * k) ds)"
  have pg: "owners \<lparr>q_user = [], q_roles = [''sales_director''], q_page = Suc k, q_size = 50\<rparr> =
      Inr \<lparr>page_items = ?items, page_total = int (length ds)\<rparr>"
    using owners unfolding lists_directors_def by blast
  have split: "take (50 * Suc k) ds = take (50 * k) ds @ ?items"
    using take_add [of "50 * k" 50 ds] by (simp add: add.commute)
  have "distinct (map ?id (take (50 * k) ds @ ?items))" "[] \<notin> set (map ?id ?items)"
    unfolding split [symmetric] using ids by (auto simp: take_map [symmetric] dest!: in_set_takeD in_set_dropD)
  then have sn: "fst (fold (notify_director s m) ?items acc) = rev (map ?id (take (50 * Suc k) ds))"
    unfolding fold_director_seen Suc.prems(3) split by (subst fold_see_distinct) auto
  let ?acc = "fold (notify_director s m) ?items acc"
  have len: "length (fst ?acc) = min (length ds) (50 * Suc k)" unfolding sn by simp
  show ?case
  proof (cases "?items = [] \<or> int (length ds) \<le> int (length (fst ?acc)) \<or> length ?items < 50")
    case True
    then have "length ds \<le> 50 * Suc k" unfolding len by auto
    then have "set (fst ?acc) = set (map ?id ds)" unfolding sn by simp
    then show ?thesis using True pg by (auto simp: Let_def)
  next
    case False
    then have "50 * Suc k < length ds" unfolding len by auto
    then have n: "0 < n" using Suc.prems(1) by (cases n) auto
    have "length ds \<le> 50 * (Suc k + n)" using Suc.prems(1) by simp
    from Suc.IH [OF this n sn] show ?thesis using False pg by (auto simp: Let_def)
  qed
qed simp

text \<open>
  C18. As long as the directory lists at most 5000 directors, each under an id of their own,
  the walk over its pages comes to an end and every one of them has the notification.
\<close>

theorem directors_reached:
  assumes "cs_owners s = Some owners" "lists_directors owners ds" "ds \<noteq> []" "length ds \<le> 5000"
    and "distinct (map (\<lambda>u. trim_space (du_id u)) ds)" "[] \<notin> set (map (\<lambda>u. trim_space (du_id u)) ds)"
  shows "\<exists>db'. notify_sales_directors s m db = Inr db' \<and>
    list_all (\<lambda>u. notified s m db' (trim_space (du_id u))) ds"
proof -
  obtain acc where acc: "notify_pages s owners m 100 (Suc 0) ([], db) = Inr acc" "set (fst acc) = set (map (\<lambda>u. trim_space (du_id u)) ds)"
    using notify_pages_reaches [OF assms(2,5,6), of 0 100 "([], db)" s m] assms(4) by auto
  have "all_notified s m acc" using notify_pages_all [OF acc(1)] by (simp add: all_notified_def)
  then have "list_all (\<lambda>u. notified s m (snd acc) (trim_space (du_id u))) ds"
    using acc(2) by (auto simp: all_notified_def list_all_iff)
  moreover have "fst acc \<noteq> []" using acc(2) assms(3) by auto
  ultimately show ?thesis using acc(1) assms(1) by (auto simp: notify_sales_directors_def case_prod_beta)
qed

end
