(* ===== verification/CreditResults.thy ===== *)
theory CreditResults
  imports CreditSystem CreditNotices
begin

text \<open>
  The properties of the credit module, on the databases its commands reach.
\<close>

section \<open>Invariants\<close>

lemma reachable_account:
  assumes "credit_reachable db" "c \<in> set (rows (customers db))"
  shows "counters_ok (state_of c)" "linked LevelB (level_steps (tenant_id c) (row_id c) (rows (credit_logs db))) (cu_level c)"
  using credit_reachable_ok [OF assms(1)] assms(2) by (auto simp: credit_ok_def accounts_ok_def)

text \<open>
  C15. In every reachable database the counters of consecutive payments of a customer stay
  below 100 and at most one of them is above zero, so the next payment never wraps the
  \<open>uint32\<close> they are kept in.
\<close>

theorem credit_counters_bounded:
  assumes "credit_reachable db" "c \<in> set (rows (customers db))"
  shows "cu_ontime c < 100 \<and> cu_late c < 100 \<and> (cu_ontime c = 0 \<or> cu_late c = 0) \<and>
    u32 (cu_ontime c + 1) = cu_ontime c + 1 \<and> u32 (cu_late c + 1) = cu_late c + 1"
  using reachable_account(1) [OF assms] by (auto simp: counters_ok_def state_of_def u32_def)

text \<open>
  C11. In every reachable database the credit log of a customer is a chain of level steps from
  the initial level B to the level the customer has now.
\<close>

theorem credit_levels_explained:
  assumes "credit_reachable db" "c \<in> set (rows (customers db))"
  shows "linked LevelB (level_steps (tenant_id c) (row_id c) (rows (credit_logs db))) (cu_level c)"
  using assms by (rule reachable_account(2))

text \<open>
  C16. In every reachable database an application has one approval instance and task, both with
  its status, and a customer has at most one pending application.
\<close>

theorem applications_mirrored:
  assumes "credit_reachable db" "a \<in> set (rows (credit_applications db))" "b \<in> set (rows (credit_applications db))"
  shows "mirrored db a \<and>
    (ca_status a = AppPending \<and> ca_status b = AppPending \<and> tenant_id b = tenant_id a \<and> ca_customer b = ca_customer a \<longrightarrow> b = a)"
proof (intro conjI impI)
  have ok: "desk_ok db" using credit_reachable_ok [OF assms(1)] by (simp add: credit_ok_def)
  then show "mirrored db a" using assms(2) by (simp add: desk_ok_def)
  assume b: "ca_status a = AppPending \<and> ca_status b = AppPending \<and> tenant_id b = tenant_id a \<and> ca_customer b = ca_customer a"
  have "ca_pending b = Some (ca_customer a)" "ca_pending a = Some (ca_customer a)"
    using ok b assms(2,3) by (auto simp: desk_ok_def)
  then have "application_clash b a" using b by (simp add: application_clash_def)
  then show "b = a" using ok assms(2,3) unfolding desk_ok_def by blast
qed

section \<open>Payments\<close>

text \<open>A record that is stored stays, apart from the mark of its reversal.\<close>

definition records_kept :: "credit_db \<Rightarrow> credit_db \<Rightarrow> bool" where
  "records_kept db db' \<longleftrightarrow>
     (\<forall>x \<in> set (rows (payments db)). \<exists>v w. x\<lparr>pr_reversed_at := v, pr_reversed_by := w\<rparr> \<in> set (rows (payments db')))"

lemma mark_self: "(x :: payment_record) = x\<lparr>pr_reversed_at := pr_reversed_at x, pr_reversed_by := pr_reversed_by x\<rparr>"
  by simp

lemma records_kept_same: "payments db' = payments db \<Longrightarrow> records_kept db db'"
  unfolding records_kept_def using mark_self by metis

lemma records_kept_trans: "records_kept a b \<Longrightarrow> records_kept b c \<Longrightarrow> records_kept a c"
  unfolding records_kept_def by (fastforce dest!: bspec)

lemma effect_kept:
  assumes "payment_effect t i db db'"
  shows "records_kept db db'"
proof (cases "db' = db")
  case False
  then obtain r ps where m: "marks_reversed (payments db) ps" and r: "payments db' = snd (insert_row (stored_record r) ps)"
    using assms unfolding payment_effect_def record_added_def by auto
  obtain q v w where ps: "ps = update_rows q (\<lambda>x. x\<lparr>pr_reversed_at := v, pr_reversed_by := w\<rparr>) (payments db)"
    using m by (auto simp: marks_reversed_def)
  have "\<exists>v w. x\<lparr>pr_reversed_at := v, pr_reversed_by := w\<rparr> \<in> set (rows (payments db'))" if x: "x \<in> set (rows (payments db))" for x
  proof -
    have "(if q x then x\<lparr>pr_reversed_at := v, pr_reversed_by := w\<rparr> else x) \<in> set (rows (payments db'))"
      using x unfolding r ps by (auto simp: set_rows_update)
    then show ?thesis using mark_self [of x] by (cases "q x") (simp, blast, metis)
  qed
  then show ?thesis by (simp add: records_kept_def)
qed (simp add: records_kept_same)

lemma step_kept:
  assumes ok: "credit_ok db" and step: "credit_step db db'"
  shows "records_kept db db'"
  using step
proof cases
  case (command s p c)
  show ?thesis
  proof (cases c)
    case (CreditPayment e)
    then obtain x where "process_payment s p e db = Inr (x, db')" using command by (auto simp: then_db_Inr)
    then have "payment_effect (p_tenant p) (pe_customer e) db db'"
      using okD [OF process_payment_effect] ok by (fastforce simp: credit_ok_def)
    then show ?thesis by (rule effect_kept)
  next
    case (CreditRules inp)
    then show ?thesis using command okD [OF update_rules_effect] by (fastforce simp: then_db_Inr intro!: records_kept_same)
  next
    case (CreditApply i inp)
    then obtain x where "apply_for_level s p i inp db = Inr (x, db')" using command by (auto simp: then_db_Inr)
    then have "apply_tx s p i (ap_target inp) (trim_space (ap_reason inp)) (trim_space (ap_key inp)) db = Inr (x, db')"
      by (auto simp: apply_for_level_def Let_def)
    from okD [OF apply_tx_effect this] ok show ?thesis by (auto simp: credit_ok_def intro!: records_kept_same)
  next
    case (CreditDecide i approve inp)
    then obtain x where x: "decide_application s p i approve inp db = Inr (x, db')" using command by (auto simp: then_db_Inr)
    have "accounts_ok db" using ok by (simp add: credit_ok_def)
    from okD [OF decide_effect [OF this] x] show ?thesis by (auto simp: decision_effect_def intro!: records_kept_same)
  next
    case (CreditWithdraw customer i)
    then obtain x where x: "withdraw_application s p customer i db = Inr (x, db')" using command by (auto simp: then_db_Inr)
    from okD [OF withdraw_effect x] show ?thesis by (auto simp: decision_effect_def intro!: records_kept_same)
  qed
qed (auto simp: credit_outside_def intro: records_kept_same)

lemma steps_kept:
  assumes "credit_step\<^sup>*\<^sup>* db db'" "credit_ok db"
  shows "records_kept db db' \<and> credit_ok db'"
  using assms
proof (induction rule: rtranclp_induct)
  case (step y z)
  then have "credit_ok z" by (metis credit_step.cases execute_ok outside_ok)
  then show ?case using step step_kept records_kept_trans by blast
qed (simp add: records_kept_same)

section \<open>Redelivery\<close>

definition recorded_as :: "string \<Rightarrow> payment_event \<Rightarrow> payment_record \<Rightarrow> bool" where
  "recorded_as t e x \<longleftrightarrow>
     tenant_id x = t \<and> pr_event x = pe_event e \<and> pr_payment x = pe_payment e \<and> pr_customer x = pe_customer e \<and>
     pr_type x = pe_type e \<and> pr_reversal_of x = pe_reversal_of e \<and> pr_contract x = pe_contract e \<and>
     pr_period x = pe_period e \<and> pr_source x = pe_source e \<and> pr_due_amount x = pe_due_amount e \<and>
     pr_paid_amount x = pe_paid_amount e \<and> pr_due x = Some (datetime3 (pe_due e)) \<and>
     pr_paid x = map_option datetime3 (pe_paid e)"

text \<open>What \<open>DATETIME(3)\<close> gives back as it was.\<close>

definition whole_times :: "payment_event \<Rightarrow> bool" where
  "whole_times e \<longleftrightarrow> datetime3 (pe_due e) = pe_due e \<and> map_option datetime3 (pe_paid e) = pe_paid e"

lemma recorded_same: "recorded_as t e x \<Longrightarrow> same_payment_payload x e \<longleftrightarrow> whole_times e"
  by (auto simp: recorded_as_def same_payment_payload_def whole_times_def)

lemma replay_recorded:
  assumes "payments_ok db" "find_row (bound_record t (pe_event e) (pe_payment e)) (payments db) = Some x" "same_payment_payload x e"
  shows "recorded_as t e x" "x \<in> set (rows (payments db))"
proof -
  show x: "x \<in> set (rows (payments db))" using assms(2) by (auto dest: find_row_Some)
  have "stored_record x = x" using assms(1) x by (simp add: payments_ok_def)
  from arg_cong [OF this, of pr_due] arg_cong [OF this, of pr_paid]
  have "map_option datetime3 (pr_due x) = pr_due x" "map_option datetime3 (pr_paid x) = pr_paid x"
    by (simp_all add: stored_record_def)
  then show "recorded_as t e x" using assms(2,3)
    by (auto simp: recorded_as_def same_payment_payload_def bound_record_def dest!: find_row_Some)
qed

definition answered :: "string \<Rightarrow> payment_event \<Rightarrow> payment_answer \<times> credit_db \<Rightarrow> bool" where
  "answered t e z \<longleftrightarrow> (\<exists>x \<in> set (rows (payments (snd z))). recorded_as t e x \<and> row_id x = pa_id (fst z) \<and>
     pr_evaluation x = pa_evaluation (fst z))"

lemma insert_record_answered:
  "ok (insert_record s t e ev ig gr prev next db) (answered t e)"
  unfolding insert_record_def Let_def
  by (intro ok_intro)
    (auto simp: answered_def recorded_as_def new_payment_record_def to_payment_answer_def stored_record_def fst_insert_row)

lemma answered_later: "answered t e (a, db) \<Longrightarrow> payments db' = payments db \<Longrightarrow> answered t e (a, db')"
  by (simp add: answered_def)

lemma evaluate_answered: "ok (evaluate_payment s t e rules ev c db) (answered t e)"
  unfolding evaluate_payment_def
proof (intro ok_intro, goal_cases)
  case (1 nxt hit x ans db1 db2)
  have a: "answered t e (ans, db1)" using okD [OF insert_record_answered 1(2)] 1(3) by simp
  have "payments db2 = payments db1" using 1(4) okD [OF rule_hit_effect] by (cases hit) auto
  then show ?case using answered_later [OF a] by (simp add: update_customer_def)
qed

lemma payment_tx_answered:
  assumes "payments_ok db"
  shows "ok (payment_tx s t e due paid db) (answered t e)"
  unfolding payment_tx_def Let_def
proof (intro ok_intro insert_record_answered evaluate_answered, goal_cases)
  case (1 x)
  then show ?case using replay_recorded [OF assms 1(1,2)] by (auto simp: answered_def to_payment_answer_def)
qed

lemma reversal_tx_answered:
  assumes "payments_ok db" "pe_type e = payment_reversed"
  shows "ok (reversal_tx s t e db) (answered t e)"
proof -
  have rev: "ok (reverse_payment s t e rules x cur res db) (answered t e)" if x: "pr_payment x = pe_reversal_of e" for rules x cur res
    unfolding reverse_payment_def Let_def
  proof (intro ok_intro, goal_cases)
    case (1 y ans db2 db5)
    have e: "e\<lparr>pe_type := payment_reversed, pe_reversal_of := pr_payment x\<rparr> = e" using assms(2) x by simp
    have a: "answered t e (ans, db2)" using okD [OF insert_record_answered 1(1)] 1(2) e by simp
    have "payments db5 = payments db2"
    proof (cases "st_level res = st_level cur")
      case False
      with 1(3) have "notices_only (write_customer_change_log s t (pe_customer e) (st_level cur) (st_level res) ''PAYMENT_REVERSED''
          ''system'' (write_credit_log (system_log s t e (st_level cur) (st_level res) ''REVERSAL'' ''PAYMENT_REVERSED'') db2)) db5"
        using okD [OF notify_rule_change_notices] by auto
      then show ?thesis using notices_only_same by (fastforce simp: write_customer_change_log_def write_credit_log_def)
    qed (use 1(3) in \<open>auto simp: write_customer_change_log_def write_credit_log_def\<close>)
    then show ?case using answered_later [OF a] by (simp add: update_customer_def)
  qed
  show ?thesis unfolding reversal_tx_def Let_def
  proof (intro ok_intro, goal_cases)
    case (1 x)
    then show ?case by (auto intro!: rev dest: find_row_Some)
  next
    case (2 x)
    then show ?case using replay_recorded [OF assms(1) 2(1,2)] by (auto simp: answered_def to_payment_answer_def)
  qed
qed

text \<open>The checks before the transaction depend on the service only through its parser.\<close>

lemma process_payment_runs:
  assumes "process_payment s p e db = Inr z" "cs_decimal s' = cs_decimal s"
  obtains due paid where "pe_type (normalize_payment_event e) \<noteq> payment_reversed"
      "payment_tx s (p_tenant p) (normalize_payment_event e) due paid db = Inr z"
      "\<And>d. process_payment s' p e d = payment_tx s' (p_tenant p) (normalize_payment_event e) due paid d"
      "cs_decimal s (pe_due_amount e) = Some due" "cs_decimal s (pe_paid_amount e) = Some paid"
      "validate_payment_event (normalize_payment_event e) due paid = None"
  | "pe_type (normalize_payment_event e) = payment_reversed"
      "reversal_tx s (p_tenant p) (normalize_payment_event e) db = Inr z"
      "\<And>d. process_payment s' p e d = reversal_tx s' (p_tenant p) (normalize_payment_event e) d"
proof -
  let ?n = "normalize_payment_event e"
  have n: "pe_due_amount ?n = pe_due_amount e" "pe_paid_amount ?n = pe_paid_amount e" by (simp_all add: normalize_payment_event_def)
  obtain due paid where g: "crm_authenticated p" "pe_type ?n = payment_completed \<or> pe_type ?n = payment_reversed"
    "valid_credit_amount (pe_due_amount ?n)" "valid_credit_amount (pe_paid_amount ?n)" "cs_decimal s (pe_due_amount ?n) = Some due"
    "\<not> fst due < 0" "cs_decimal s (pe_paid_amount ?n) = Some paid" "\<not> fst paid < 0" "validate_payment_event ?n due paid = None"
    "(if pe_type ?n = payment_reversed then (if fst paid \<noteq> 0 then Inl ErrCreditEvent else reversal_tx s (p_tenant p) ?n db)
      else payment_tx s (p_tenant p) ?n due paid db) = Inr z"
    using assms(1) unfolding process_payment_def Let_def by auto
  show thesis
  proof (cases "pe_type ?n = payment_reversed")
    case True
    have "process_payment s' p e d = reversal_tx s' (p_tenant p) ?n d" for d
      using g assms(2) True unfolding process_payment_def Let_def by simp
    then show thesis using True g(10) that(2) by (auto split: if_splits)
  next
    case False
    have "process_payment s' p e d = payment_tx s' (p_tenant p) ?n due paid d" for d
      using g assms(2) False unfolding process_payment_def Let_def by simp
    then show thesis using False g that(1) n by auto
  qed
qed

lemma tx_replays:
  assumes ok: "payments_ok db" and x: "x \<in> set (rows (payments db))" "recorded_as t e x"
  shows "payment_tx s t e due paid db = (if whole_times e then Inr (to_payment_answer x, db) else Inl ErrCreditConflict)"
    "reversal_tx s t e db = (if whole_times e then Inr (to_payment_answer x, db) else Inl ErrCreditConflict)"
proof -
  have b: "bound_record t (pe_event e) (pe_payment e) x" using x(2) by (auto simp: recorded_as_def bound_record_def)
  have "find_row (bound_record t (pe_event e) (pe_payment e)) (payments db) = Some x"
  proof (cases "find_row (bound_record t (pe_event e) (pe_payment e)) (payments db)")
    case (Some y)
    then have "y \<in> set (rows (payments db))" "bound_record (tenant_id x) (pr_event x) (pr_payment x) y"
      using x(2) by (auto simp: recorded_as_def dest!: find_row_Some)
    then show ?thesis using Some ok x(1) unfolding payments_ok_def by blast
  qed (use x(1) b in \<open>auto simp: find_row_None\<close>)
  then show "payment_tx s t e due paid db = (if whole_times e then Inr (to_payment_answer x, db) else Inl ErrCreditConflict)"
    "reversal_tx s t e db = (if whole_times e then Inr (to_payment_answer x, db) else Inl ErrCreditConflict)"
    using recorded_same [OF x(2)] by (simp_all add: payment_tx_def reversal_tx_def Let_def)
qed

text \<open>
  C14. A payment event that was accepted is recorded for good: in every later database its
  redelivery changes nothing and is answered with the record made at first, provided its
  times are whole milliseconds; with a finer time the redelivery of the very same event is
  refused as a conflict.
\<close>

theorem payment_redelivered:
  assumes "credit_reachable db" "process_payment s p e db = Inr (ans, db')" "credit_step\<^sup>*\<^sup>* db' later"
    "cs_decimal s' = cs_decimal s"
  shows "if whole_times e
    then \<exists>ans'. process_payment s' p e later = Inr (ans', later) \<and> pa_id ans' = pa_id ans \<and> pa_evaluation ans' = pa_evaluation ans
    else process_payment s' p e later = Inl ErrCreditConflict"
proof -
  let ?n = "normalize_payment_event e"
  have ok: "credit_ok db" by (rule credit_reachable_ok [OF assms(1)])
  then have pay: "payments_ok db" by (simp add: credit_ok_def)
  have ok': "credit_ok db'" using execute_ok [OF ok, of s p "CreditPayment e" db'] assms(2) by (simp add: then_db_def)
  from steps_kept [OF assms(3) ok'] have kept: "records_kept db' later" "payments_ok later" by (simp_all add: credit_ok_def)
  have "answered (p_tenant p) ?n (ans, db')"
    by (rule process_payment_runs [OF assms(2,4)])
      (blast intro: okD [OF payment_tx_answered [OF pay]] okD [OF reversal_tx_answered [OF pay]])+
  then obtain x where x: "x \<in> set (rows (payments db'))" "recorded_as (p_tenant p) ?n x" "row_id x = pa_id ans"
    "pr_evaluation x = pa_evaluation ans" by (auto simp: answered_def)
  obtain v w where y: "x\<lparr>pr_reversed_at := v, pr_reversed_by := w\<rparr> \<in> set (rows (payments later))"
    using kept(1) x(1) by (auto simp: records_kept_def)
  let ?y = "x\<lparr>pr_reversed_at := v, pr_reversed_by := w\<rparr>"
  have "recorded_as (p_tenant p) ?n ?y" using x(2) by (simp add: recorded_as_def)
  note run = tx_replays [OF kept(2) y this]
  have whole: "whole_times ?n = whole_times e" by (simp add: whole_times_def normalize_payment_event_def)
  have "process_payment s' p e later = (if whole_times e then Inr (to_payment_answer ?y, later) else Inl ErrCreditConflict)"
    by (rule process_payment_runs [OF assms(2,4)]) (use run whole in simp_all)
  then show ?thesis using x(3,4) by (simp add: to_payment_answer_def)
qed

text \<open>
  C20. A completed payment for a customer who is void, merged or unknown in the tenant is
  never accepted: the record that should note that it was ignored does not fit its column.
\<close>

theorem unavailable_customer_refused:
  assumes "pe_type (normalize_payment_event e) = payment_completed"
    and "payment_customer (p_tenant p) (pe_customer e) db = None"
    and "find_row (bound_record (p_tenant p) (pe_event (normalize_payment_event e)) (pe_payment (normalize_payment_event e)))
           (payments db) = None"
  shows "\<exists>err. process_payment s p e db = Inl err"
proof (cases "process_payment s p e db")
  case (Inr z)
  let ?n = "normalize_payment_event e"
  have "rune_len ''IGNORED_CUSTOMER_UNAVAILABLE'' = 28" by (simp add: text_eval)
  then have "insert_record s t e' ''IGNORED_CUSTOMER_UNAVAILABLE'' ig gr pv nx db = Inl ErrDatabaseFailure" for t e' ig gr pv nx
    by (simp add: insert_record_def record_fits_def new_payment_record_def)
  moreover have "pe_customer ?n = pe_customer e" by (simp add: normalize_payment_event_def)
  ultimately have tx: "payment_tx s (p_tenant p) ?n due paid db = Inl ErrDatabaseFailure" for due paid
    using assms(2,3) by (simp add: payment_tx_def Let_def)
  have ne: "payment_completed \<noteq> payment_reversed" by (simp add: payment_completed_def payment_reversed_def)
  show ?thesis by (rule process_payment_runs [OF Inr refl]) (use tx ne assms(1) in auto)
qed simp

section \<open>What a payment does to an account\<close>

text \<open>The first instant, in UTC, after the business day \<open>d\<close>.\<close>

definition after_business_day :: "int \<Rightarrow> instant" where
  "after_business_day d = (d + 1) * day - 8 * hour"

lemma floor_div_less:
  fixes x k n :: int
  assumes "0 < n"
  shows "x div n < k \<longleftrightarrow> x < k * n"
proof
  assume "x div n < k"
  then have "(x div n + 1) * n \<le> k * n" using assms by (intro mult_right_mono) simp_all
  moreover have "x < (x div n + 1) * n" using assms by (simp add: distrib_right flip: minus_mod_eq_div_mult)
  ultimately show "x < k * n" by simp
next
  assume x: "x < k * n"
  show "x div n < k"
  proof (rule ccontr)
    assume "\<not> x div n < k"
    then have "k * n \<le> x div n * n" using assms by (intro mult_right_mono) simp_all
    moreover have "x div n * n \<le> x" using assms by (simp flip: minus_mod_eq_div_mult)
    ultimately show False using x by simp
  qed
qed

lemma on_time_iff: "payment_evaluation due paid g = ''ONTIME'' \<longleftrightarrow> paid < after_business_day (beijing_day due + g)"
proof -
  have "beijing_day paid \<le> k \<longleftrightarrow> beijing paid < (k + 1) * day" for k
  proof -
    have "beijing_day paid \<le> k \<longleftrightarrow> beijing paid div day < k + 1" by (auto simp: beijing_day_def)
    also have "\<dots> \<longleftrightarrow> beijing paid < (k + 1) * day" by (rule floor_div_less) simp
    finally show ?thesis .
  qed
  then show ?thesis by (simp add: payment_evaluation_def after_business_day_def beijing_def algebra_simps)
qed

lemma moved_customer:
  assumes "account_moves t i prev nxt db db'" "table_wf (customers db)"
  obtains c c' where "c \<in> set (rows (customers db))" "tenant_id c = t" "row_id c = i" "state_of c = prev"
    "c' \<in> set (rows (customers db'))" "tenant_id c' = t" "row_id c' = i" "state_of c' = stored_state nxt"
    "set (rows (customers db)) - {c} \<subseteq> set (rows (customers db'))"
proof -
  obtain c f where c: "c \<in> set (rows (customers db))" "tenant_id c = t" "row_id c = i" "state_of c = prev"
    and f: "\<And>x. row_id (f x) = row_id x" "\<And>x. tenant_id (f x) = tenant_id x" "state_of (f c) = stored_state nxt"
    and cs: "customers db' = update_rows (\<lambda>x. tenant_id x = t \<and> row_id x = i) f (customers db)"
    using assms(1) unfolding account_moves_def same_holder_def by blast
  have img: "set (rows (customers db')) = (\<lambda>x. if tenant_id x = t \<and> row_id x = i then f x else x) ` set (rows (customers db))"
    unfolding cs by (rule set_rows_update)
  have "f c \<in> set (rows (customers db'))" using c unfolding img by (auto intro: rev_image_eqI)
  moreover have "x \<in> set (rows (customers db'))" if "x \<in> set (rows (customers db))" "x \<noteq> c" for x
  proof -
    have "row_id x \<noteq> i" using that c assms(2) table_wf_same_id by metis
    then show ?thesis using that unfolding img by (auto intro: rev_image_eqI)
  qed
  ultimately show thesis using that [of c "f c"] c f by blast
qed

text \<open>The evaluations that move an account.\<close>

definition evaluated :: "string \<Rightarrow> bool" where
  "evaluated ev \<longleftrightarrow> ev = ''ONTIME'' \<or> ev = ''LATE''"

lemma fresh_payment_outcome:
  assumes ok: "accounts_ok db" and rules: "rules_valid db"
    and free: "find_row (bound_record t (pe_event e) (pe_payment e)) (payments db) = None"
    and r_def: "r = rule_settings_for t (cs_now s) db"
  shows "ok (payment_tx s t e due paid db) (\<lambda>(ans, db').
    if evaluated (pa_evaluation ans)
    then \<exists>c nxt on. payment_customer t (pe_customer e) db = Some c \<and> pe_paid e = Some on \<and>
      pa_evaluation ans = payment_evaluation (pe_due e) on (rs_grace r) \<and> rs_enabled r \<and> \<not> decimal_less paid due \<and>
      account_of nxt = account_next r (pa_evaluation ans = ''ONTIME'') (account_of (state_of c)) \<and> st_last nxt = Some on \<and>
      account_moves t (pe_customer e) (state_of c) nxt db db' \<and>
      record_added (new_payment_record s t e (pa_evaluation ans) [] (rs_grace r) (Some (state_of c)) (Some nxt)) db db'
    else accounts_same db db')"
proof -
  have ign: "ok (insert_record s t e ev ig gr pv nx db) (\<lambda>(ans, db').
    if evaluated (pa_evaluation ans) then P ans db' else accounts_same db db')" if "\<not> evaluated ev" for ev ig gr pv nx P
    using that unfolding insert_record_def Let_def
    by (intro ok_intro) (simp_all add: to_payment_answer_def new_payment_record_def accounts_same_def)
  have no: "\<not> evaluated ''IGNORED_CUSTOMER_UNAVAILABLE''" "\<not> evaluated ''IGNORED_OUT_OF_ORDER''"
    "\<not> evaluated ''IGNORED_RULE_DISABLED''" "\<not> evaluated ''IGNORED_INCOMPLETE''" by (simp_all add: evaluated_def)
  have rv: "valid_rule_settings r" unfolding r_def using rules by (rule rules_for_valid)
  have ev: "ok (evaluate_payment s t e r (payment_evaluation (pe_due e) on (rs_grace r)) c db) (\<lambda>(ans, db').
      pa_evaluation ans = payment_evaluation (pe_due e) on (rs_grace r) \<and>
      (\<exists>nxt. account_of nxt = account_next r (pa_evaluation ans = ''ONTIME'') (account_of (state_of c)) \<and>
         st_last nxt = pe_paid e \<and> account_moves t (pe_customer e) (state_of c) nxt db db' \<and>
         record_added (new_payment_record s t e (pa_evaluation ans) [] (rs_grace r) (Some (state_of c)) (Some nxt)) db db'))"
    if c: "payment_customer t (pe_customer e) db = Some c" for on c
  proof (unfold ok_def, intro allI impI)
    fix z
    assume z: "evaluate_payment s t e r (payment_evaluation (pe_due e) on (rs_grace r)) c db = Inr z"
    have "pa_evaluation (fst z) = payment_evaluation (pe_due e) on (rs_grace r)"
      using z unfolding evaluate_payment_def
      by (auto simp: case_prod_beta insert_record_def Let_def to_payment_answer_def new_payment_record_def)
    moreover have "(if beijing_day on \<le> beijing_day (pe_due e) + rs_grace r then ''ONTIME'' else ''LATE'') = ''ONTIME'' \<longleftrightarrow>
        beijing_day on \<le> beijing_day (pe_due e) + rs_grace r" by simp
    ultimately show "case z of (ans, db') \<Rightarrow> pa_evaluation ans = payment_evaluation (pe_due e) on (rs_grace r) \<and>
      (\<exists>nxt. account_of nxt = account_next r (pa_evaluation ans = ''ONTIME'') (account_of (state_of c)) \<and>
         st_last nxt = pe_paid e \<and> account_moves t (pe_customer e) (state_of c) nxt db db' \<and>
         record_added (new_payment_record s t e (pa_evaluation ans) [] (rs_grace r) (Some (state_of c)) (Some nxt)) db db')"
      using okD [OF evaluated_effect [OF ok rv c payment_evaluation_text] z] unfolding payment_evaluation_def
      by (auto simp: case_prod_beta)
  qed
  have yes: "evaluated (payment_evaluation a b g)" for a b g by (simp add: payment_evaluation_def evaluated_def)
  show ?thesis unfolding payment_tx_def Let_def free r_def [symmetric]
  proof (intro ok_intro ign no, goal_cases)
    case (1 c on)
    then show ?case
      by (intro ok_mono [OF ev [OF 1(2)]]) (auto simp: yes)
  qed simp_all
qed

lemma reachable_parts:
  assumes "credit_reachable db"
  shows "accounts_ok db" "payments_ok db" "rules_valid db" "table_wf (customers db)"
  using credit_reachable_ok [OF assms] by (simp_all add: credit_ok_def accounts_ok_def)

lemma account_of_stored [simp]: "account_of (stored_state st) = account_of st"
  by (simp add: account_of_def stored_state_def)

text \<open>
  C12. A completed payment that is new either is evaluated, and then moves the account of its
  customer by exactly one step of the abstract account, on time when it was paid before the
  business day of the due date plus the days of grace has ended in UTC+8, and no other
  account; or it moves no account at all.
\<close>

theorem payment_moves_account:
  assumes reach: "credit_reachable db" and run: "process_payment s p e db = Inr (ans, db')"
    and new: "find_row (bound_record (p_tenant p) (pe_event (normalize_payment_event e)) (pe_payment (normalize_payment_event e)))
           (payments db) = None"
    and ty: "pe_type (normalize_payment_event e) = payment_completed"
    and r: "r = rule_settings_for (p_tenant p) (cs_now s) db"
  shows "if evaluated (pa_evaluation ans)
    then \<exists>c c' on. c \<in> set (rows (customers db)) \<and> c' \<in> set (rows (customers db')) \<and> row_id c = pe_customer e \<and>
      row_id c' = pe_customer e \<and> tenant_id c = p_tenant p \<and> tenant_id c' = p_tenant p \<and> pe_paid e = Some on \<and>
      (pa_evaluation ans = ''ONTIME'' \<longleftrightarrow> on < after_business_day (beijing_day (pe_due e) + rs_grace r)) \<and>
      account_of (state_of c') = account_next r (pa_evaluation ans = ''ONTIME'') (account_of (state_of c)) \<and>
      cu_last_eval c' = Some (datetime3 on) \<and>
      set (rows (customers db)) - {c} \<subseteq> set (rows (customers db'))
    else customers db' = customers db"
proof -
  let ?n = "normalize_payment_event e"
  have n: "pe_customer ?n = pe_customer e" "pe_paid ?n = pe_paid e" "pe_due ?n = pe_due e"
    by (simp_all add: normalize_payment_event_def)
  have "payment_completed \<noteq> payment_reversed" by (simp add: payment_completed_def payment_reversed_def)
  then obtain due paid where tx: "payment_tx s (p_tenant p) ?n due paid db = Inr (ans, db')"
    using process_payment_runs [OF run refl] ty by metis
  note out = okD [OF fresh_payment_outcome [OF reachable_parts(1,3) [OF reach] new r] tx, unfolded n prod.case]
  show ?thesis
  proof (cases "evaluated (pa_evaluation ans)")
    case True
    with out obtain c0 nxt on where o: "pe_paid e = Some on" "pa_evaluation ans = payment_evaluation (pe_due e) on (rs_grace r)"
      "account_of nxt = account_next r (pa_evaluation ans = ''ONTIME'') (account_of (state_of c0))" "st_last nxt = Some on"
      "account_moves (p_tenant p) (pe_customer e) (state_of c0) nxt db db'" by auto
    obtain c c' where c: "c \<in> set (rows (customers db))" "tenant_id c = p_tenant p" "row_id c = pe_customer e" "state_of c = state_of c0"
      "c' \<in> set (rows (customers db'))" "tenant_id c' = p_tenant p" "row_id c' = pe_customer e" "state_of c' = stored_state nxt"
      "set (rows (customers db)) - {c} \<subseteq> set (rows (customers db'))"
      by (rule moved_customer [OF o(5) reachable_parts(4) [OF reach]])
    have "cu_last_eval c' = Some (datetime3 on)" using arg_cong [OF c(8), of st_last] o(4) by (simp add: state_of_def stored_state_def)
    moreover have "account_of (state_of c') = account_next r (pa_evaluation ans = ''ONTIME'') (account_of (state_of c))"
      using c(4,8) o(3) by simp
    moreover have "pa_evaluation ans = ''ONTIME'' \<longleftrightarrow> on < after_business_day (beijing_day (pe_due e) + rs_grace r)"
      unfolding o(2) by (rule on_time_iff)
    ultimately show ?thesis using True c(1-3,5-7,9) o(1) by (simp only: if_True) blast
  qed (use out in \<open>simp add: accounts_same_def\<close>)
qed

section \<open>Reversals\<close>

lemma moved_payment_customer:
  assumes m: "account_moves t i prev nxt db db'" and c: "payment_customer t i db = Some c" and wf: "table_wf (customers db)"
  obtains c' where "payment_customer t i db' = Some c'" "state_of c' = stored_state nxt" "state_of c = prev"
proof -
  obtain d f where d: "d \<in> set (rows (customers db))" "tenant_id d = t" "row_id d = i" "state_of d = prev"
    and f: "\<And>x. same_holder (f x) x" "state_of (f d) = stored_state nxt"
    and cs: "customers db' = update_rows (\<lambda>x. tenant_id x = t \<and> row_id x = i) f (customers db)"
    using m unfolding account_moves_def by blast
  have "c = d" using payment_customer_row [OF c] d wf table_wf_same_id by metis
  have "payment_customer t i db' = map_option (\<lambda>x. if tenant_id x = t \<and> row_id x = i then f x else x) (payment_customer t i db)"
    unfolding payment_customer_def cs using f(1) by (intro find_row_update) (simp add: same_holder_def)
  then show thesis using that [of "f c"] c d f(2) \<open>c = d\<close> by simp
qed

lemma last_row_found:
  assumes "\<forall>x \<in> set (rows t). \<not> p x" "rows t' = rows t @ [r]" "p r"
  shows "find_row p t' = Some r"
proof -
  have "List.find p (xs @ [r]) = Some r" if "\<forall>x \<in> set xs. \<not> p x" for xs using that assms(3) by (induction xs) simp_all
  then show ?thesis using assms by (simp add: find_row_def)
qed

text \<open>The row an evaluated payment leaves is reversible at once.\<close>

lemma evaluated_reversible:
  assumes pay: "payments_ok db" and st: "stored_state (state_of c) = state_of c" and ev: "evaluated ev" and t: "t = tenant_id rec"
    and rec: "rec = new_payment_record s t e ev [] g (Some (state_of c)) (Some nxt)" "record_added rec db db'"
      "st_last nxt = pe_paid e" and r: "pe_reversal_of r = pe_payment e"
  shows "\<exists>x. reversible t r x (stored_state nxt) (state_of c) db'"
proof -
  let ?x = "(stored_record rec)\<lparr>row_id := next_id (payments db)\<rparr>"
  have p: "rows (payments db') = rows (payments db) @ [?x]"
    and free: "\<forall>x \<in> set (rows (payments db)). \<not> (tenant_id x = t \<and> pr_payment x = pe_payment e)"
    using rec by (auto simp: record_added_def fst_insert_row exists_row_iff bound_record_def new_payment_record_def)
  have "find_row (\<lambda>x. tenant_id x = t \<and> pr_payment x = pe_reversal_of r) (payments db') = Some ?x"
    unfolding r by (rule last_row_found [OF free p]) (simp add: rec(1) new_payment_record_def)
  moreover have "\<not> exists_row (\<lambda>y. tenant_id y = t \<and> pr_customer y = pe_customer r \<and> row_id ?x < row_id y) (payments db')"
    using pay p by (auto simp: exists_row_iff payments_ok_def table_wf_def)
  moreover have "pr_evaluation ?x = ev" "pr_reversed_at ?x = None" "applied_state ?x = Some (stored_state nxt)"
    using rec(3) by (simp_all add: rec(1) stored_record_def new_payment_record_def applied_state_def stored_state_def)
  moreover have "restored_state ?x = Some (state_of c)" using st by (simp add: rec(1) restored_new)
  ultimately show ?thesis using ev unfolding reversible_def evaluated_def by blast
qed

lemma notify_directors_fails: "notify_sales_directors s m db = Inl err \<Longrightarrow> err = ErrDirectoryUnavailable"
proof -
  have pages: "notify_pages s owners m n page acc = Inl err \<Longrightarrow> err = ErrDirectoryUnavailable" for owners n page acc
    by (induction s owners m n page acc rule: notify_pages.induct) (auto simp: Let_def split: sum.splits if_splits)
  then show "notify_sales_directors s m db = Inl err \<Longrightarrow> err = ErrDirectoryUnavailable"
    by (auto simp: notify_sales_directors_def split: option.splits sum.splits if_splits)
qed

lemma notify_rule_change_fails:
  "notify_rule_change s t i a b db = Inl err \<Longrightarrow> c \<in> set (rows (customers db)) \<Longrightarrow> tenant_id c = t \<Longrightarrow> row_id c = i \<Longrightarrow>
     err = ErrDirectoryUnavailable"
  by (auto simp: notify_rule_change_def Let_def find_row_None split: option.splits dest: notify_directors_fails)

lemma reversal_runs:
  assumes c: "payment_customer t (pe_customer r) db = Some c" and rev: "reversible t r x (state_of c) restored db"
    and free: "find_row (bound_record t (pe_event r) (pe_payment r)) (payments db) = None"
  shows "reversal_tx s t r db = reverse_payment s t r (rule_settings_for t (cs_now s) db) x (state_of c) restored db"
  using assms by (auto simp: reversal_tx_def reversible_def Let_def)

lemma exists_row_update:
  assumes "\<And>x. p (f x) = p x"
  shows "exists_row p (update_rows q f t) = exists_row p t"
proof -
  have "list_ex p (map (\<lambda>x. if q x then f x else x) xs) = list_ex p xs" for xs using assms by (induction xs) simp_all
  then show ?thesis by (simp add: exists_row_def update_rows_def)
qed

lemma reverse_payment_fails:
  assumes err: "reverse_payment s t r rules x cur restored db = Inl err" and c: "payment_customer t (pe_customer r) db = Some c"
    and free: "find_row (bound_record t (pe_event r) (pe_payment r)) (payments db) = None"
    and fits: "\<And>g. record_fits (new_payment_record s t (r\<lparr>pe_type := payment_reversed, pe_reversal_of := pr_payment x\<rparr>)
      ''REVERSED'' ''PAYMENT_REVERSED'' g (Some cur) (Some restored))"
  shows "err = ErrDirectoryUnavailable"
proof -
  let ?r = "r\<lparr>pe_type := payment_reversed, pe_reversal_of := pr_payment x\<rparr>"
  let ?m = "mark_reversed s t (row_id x) (pe_event r) db"
  have "exists_row (bound_record t (pe_event ?r) (pe_payment ?r)) (payments ?m) = exists_row (bound_record t (pe_event r) (pe_payment r)) (payments db)"
    unfolding mark_reversed_def by (simp add: exists_row_update bound_record_def)
  then have "\<not> exists_row (bound_record t (pe_event ?r) (pe_payment ?r)) (payments ?m)"
    using free by (simp add: exists_row_iff find_row_None)
  then obtain ans db2 where i: "insert_record s t ?r ''REVERSED'' ''PAYMENT_REVERSED'' (rs_grace rules) (Some cur) (Some restored) ?m = Inr (ans, db2)"
    using fits by (auto simp: insert_record_def Let_def)
  from okD [OF insert_record_added i] have "db2 = ?m\<lparr>payments := payments db2\<rparr>" by simp
  then have "customers db2 = customers ?m" by (metis credit_db.select_convs(1) credit_db.surjective credit_db.update_convs(2))
  then have "customers db2 = customers db" by (simp add: mark_reversed_same)
  then show ?thesis using err i payment_customer_row [OF c]
    by (auto simp: reverse_payment_def Let_def write_customer_change_log_def write_credit_log_def
        split: if_splits sum.splits dest: notify_rule_change_fails)
qed

text \<open>
  C13. Reversing an evaluated payment at once gives every account back as it was before the
  payment; the reversal of the service can fail only for want of a sales director to notify.
\<close>

theorem reversal_restores:
  assumes reach: "credit_reachable db" and run: "process_payment s p e db = Inr (ans, db1)"
    and new: "find_row (bound_record (p_tenant p) (pe_event (normalize_payment_event e)) (pe_payment (normalize_payment_event e)))
           (payments db) = None"
    and ty: "pe_type (normalize_payment_event e) = payment_completed" and ev: "evaluated (pa_evaluation ans)"
    and r: "pe_reversal_of r = pe_payment (normalize_payment_event e)" "pe_customer r = pe_customer e"
    and free: "find_row (bound_record (p_tenant p) (pe_event r) (pe_payment r)) (payments db1) = None"
    and fits: "record_fits (new_payment_record s' (p_tenant p) (r\<lparr>pe_type := payment_reversed\<rparr>) ''REVERSED'' ''PAYMENT_REVERSED'' 0 None None)"
  shows "case reversal_tx s' (p_tenant p) r db1 of
      Inl err \<Rightarrow> err = ErrDirectoryUnavailable
    | Inr (ans2, db2) \<Rightarrow> \<forall>c \<in> set (rows (customers db)). \<exists>c' \<in> set (rows (customers db2)).
        row_id c' = row_id c \<and> tenant_id c' = tenant_id c \<and> state_of c' = state_of c"
proof -
  let ?n = "normalize_payment_event e" and ?t = "p_tenant p"
  let ?g = "rule_settings_for ?t (cs_now s) db"
  have n: "pe_customer ?n = pe_customer e" "pe_paid ?n = pe_paid e" by (simp_all add: normalize_payment_event_def)
  have "payment_completed \<noteq> payment_reversed" by (simp add: payment_completed_def payment_reversed_def)
  then obtain due paid where tx: "payment_tx s ?t ?n due paid db = Inr (ans, db1)"
    using process_payment_runs [OF run refl] ty by metis
  note parts = reachable_parts [OF reach]
  obtain c nxt on where o: "payment_customer ?t (pe_customer e) db = Some c" "pe_paid e = Some on" "st_last nxt = Some on"
    "account_moves ?t (pe_customer e) (state_of c) nxt db db1"
    "record_added (new_payment_record s ?t ?n (pa_evaluation ans) [] (rs_grace ?g) (Some (state_of c)) (Some nxt)) db db1"
    using okD [OF fresh_payment_outcome [OF parts(1,3) new refl] tx, unfolded n prod.case] ev by auto
  have "credit_reachable db1"
    using reach run credit_step.command [of s p "CreditPayment e" db db1]
    by (auto simp: credit_reachable_def then_db_def intro: rtranclp.rtrancl_into_rtrancl)
  note parts1 = reachable_parts [OF this]
  have cs: "c \<in> set (rows (customers db))" "stored_state (state_of c) = state_of c"
    using parts(1) payment_customer_row [OF o(1)] by (auto simp: accounts_ok_def)
  obtain c1 where c1: "payment_customer ?t (pe_customer e) db1 = Some c1" "state_of c1 = stored_state nxt"
    by (rule moved_payment_customer [OF o(4,1) parts(4)])
  obtain x where x: "reversible ?t r x (state_of c1) (state_of c) db1"
    using evaluated_reversible [OF parts(2) cs(2) ev _ refl o(5) _ r(1)] o(2,3) n c1(2) by (auto simp: restored_new)
  have run2: "reversal_tx s' ?t r db1 = reverse_payment s' ?t r (rule_settings_for ?t (cs_now s') db1) x (state_of c1) (state_of c) db1"
    using c1(1) x free unfolding r(2) [symmetric] by (rule reversal_runs)
  show ?thesis
  proof (cases "reversal_tx s' ?t r db1")
    case (Inl err)
    have "pr_payment x = pe_reversal_of r" using x by (auto simp: reversible_def dest: find_row_Some)
    then have fit: "record_fits (new_payment_record s' ?t (r\<lparr>pe_type := payment_reversed, pe_reversal_of := pr_payment x\<rparr>)
        ''REVERSED'' ''PAYMENT_REVERSED'' g v w)" for g v w
      using fits by (simp add: record_fits_def new_payment_record_def)
    have "err = ErrDirectoryUnavailable"
      by (rule reverse_payment_fails [OF Inl [unfolded run2] _ free fit]) (use c1(1) r(2) in simp)
    then show ?thesis using Inl by simp
  next
    case (Inr z)
    obtain ans2 db2 where z: "z = (ans2, db2)" by (cases z)
    have m: "account_moves ?t (pe_customer e) (state_of c1) (state_of c) db1 db2"
      using okD [OF reverse_payment_moves [OF c1(1) [folded r(2)]] Inr [unfolded run2 z]] by (simp add: r(2))
    obtain d d1 where d: "d \<in> set (rows (customers db))" "row_id d = pe_customer e"
      "set (rows (customers db)) - {d} \<subseteq> set (rows (customers db1))"
      "d1 \<in> set (rows (customers db1))" "row_id d1 = pe_customer e"
      by (rule moved_customer [OF o(4) parts(4)])
    obtain b b' where b: "b \<in> set (rows (customers db1))" "row_id b = pe_customer e"
      "b' \<in> set (rows (customers db2))" "tenant_id b' = ?t" "row_id b' = pe_customer e" "state_of b' = stored_state (state_of c)"
      "set (rows (customers db1)) - {b} \<subseteq> set (rows (customers db2))"
      by (rule moved_customer [OF m parts1(4)])
    have crow: "row_id c = pe_customer e" "tenant_id c = ?t" using payment_customer_row [OF o(1)] by auto
    have "\<exists>c' \<in> set (rows (customers db2)). row_id c' = row_id y \<and> tenant_id c' = tenant_id y \<and> state_of c' = state_of y"
      if y: "y \<in> set (rows (customers db))" for y
    proof (cases "row_id y = pe_customer e")
      case True
      then have "y = c" using y cs(1) crow parts(4) table_wf_same_id by metis
      then show ?thesis using b crow cs(2) by auto
    next
      case False
      then have "y \<in> set (rows (customers db2))" using y d b by auto
      then show ?thesis by blast
    qed
    then show ?thesis using Inr z by simp
  qed
qed

section \<open>Decisions\<close>

text \<open>
  C17. A decision is made only by an approver on a pending application at its present version,
  about an available customer in the approver's data scope; it approves, invalidates or
  rejects by the level the customer has, and the customer's level becomes the target exactly
  when it approves.
\<close>

theorem decision_outcome:
  assumes reach: "credit_reachable db" and run: "decide_application s p i approve inp db = Inr (a', db')"
  shows "permits_or_role p ''customer.credit.approve'' [''sales_director'', ''crm_super_admin''] \<and>
    (\<exists>a c c'. find_application p i db = Some a \<and> ca_status a = AppPending \<and> di_version inp = ca_version a \<and>
       c \<in> set (rows (customers db)) \<and> row_id c = ca_customer a \<and> customer_in_scope p c \<and> customer_available c \<and>
       ca_status a' = (if \<not> approve then AppRejected else if cu_level c = ca_from a then AppApproved else AppInvalidated) \<and>
       c' \<in> set (rows (customers db')) \<and> row_id c' = row_id c \<and> tenant_id c' = tenant_id c \<and>
       account_of (state_of c') = (if ca_status a' = AppApproved then (ca_target a, 0, 0) else account_of (state_of c)))"
proof -
  let ?op = "trim_space (di_opinion inp)"
  have perm: "permits_or_role p ''customer.credit.approve'' [''sales_director'', ''crm_super_admin'']"
    and tx: "decide_tx s p i approve ?op (di_version inp) db = Inr (a', db')"
    using run by (auto simp: decide_application_def Let_def)
  obtain a c where a: "find_application p i db = Some a" "ca_status a = AppPending" "di_version inp = ca_version a"
    and c: "lock_scoped_credit_customer p (ca_customer a) db = Some c"
    and w: "decide_writes s p (if \<not> approve then AppRejected else if cu_level c \<noteq> ca_from a then AppInvalidated else AppApproved)
        ?op a db = (a', db')"
    using tx by (auto simp: decide_tx_def Let_def)
  have a': "ca_status a' = (if \<not> approve then AppRejected else if cu_level c = ca_from a then AppApproved else AppInvalidated)"
    using w by (auto simp: decide_writes_def Let_def decided_application_def)
  have mem: "a \<in> set (rows (credit_applications db))" "tenant_id a = p_tenant p"
    using a(1) by (auto simp: find_application_def dest!: find_row_Some)
  note cust = decide_writes_effect(4) [OF w mem(1) a(2) mem(2)]
  note row = locked_customer [OF c]
  define c' where "c' = (if ca_status a' = AppApproved then manual_level s (ca_target a) c else c)"
  have "c' \<in> set (rows (customers db'))"
    using cust row a' by (auto simp: c'_def set_rows_update split: if_splits intro: rev_image_eqI)
  moreover have "row_id c' = row_id c" "tenant_id c' = tenant_id c"
    "account_of (state_of c') = (if ca_status a' = AppApproved then (ca_target a, 0, 0) else account_of (state_of c))"
    by (simp_all add: c'_def manual_level_def account_of_def state_of_def)
  ultimately show ?thesis using perm a row a' by blast
qed

section \<open>A sample run\<close>

definition sample_credit_service :: credit_service where
  "sample_credit_service =
     \<lparr>cs_now = 0, cs_trace = ''r'',
      cs_decimal = (\<lambda>v. if v = ''100'' then Some (100, 0) else if v = ''0'' then Some (0, 0) else None), cs_sha = (\<lambda>v. v),
      cs_owners = Some (\<lambda>q. Inr \<lparr>page_items = (if q_page q = 1 then [\<lparr>du_id = ''d1'', du_name = ''D'', du_orgs = []\<rparr>] else []),
        page_total = 1\<rparr>)\<rparr>"

definition sample_sales :: crm_principal where
  "sample_sales =
     \<lparr>p_user = ''u'', p_name = ''U'', p_tenant = ''t'', p_org = ''o'', p_permissions = [''customer.credit.apply''],
      p_scope = ScopeSelf, p_orgs = [], p_roles = [''sales'']\<rparr>"

definition sample_director :: crm_principal where
  "sample_director =
     \<lparr>p_user = ''d1'', p_name = ''D'', p_tenant = ''t'', p_org = ''o'', p_permissions = [], p_scope = ScopeAll, p_orgs = [],
      p_roles = [''sales_director'']\<rparr>"

definition sample_customer :: customer where
  "sample_customer =
     \<lparr>row_id = 1, tenant_id = ''t'', created_by = ''u'', updated_by = ''u'', created_at = 0, updated_at = 0, deleted_at = None,
      version = 1, cu_no = ''C1'', cu_name = ''N'', cu_normalized = ''N'', cu_code_cipher = [], cu_code_hmac = None,
      cu_type = [], cu_industry = [], cu_region = [], cu_owner_user = ''u'', cu_owner_org = ''o'', cu_status = CustomerActive,
      cu_end = None, cu_merged_into = None, cu_level = LevelB, cu_credit_at = None, cu_credit_source = ''INITIAL'',
      cu_ontime = 0, cu_late = 0, cu_last_eval = None\<rparr>"

definition sample_credit :: credit_db where
  "sample_credit = empty_credit_db\<lparr>customers := \<lparr>rows = [sample_customer], next_id = 2\<rparr>\<rparr>"

definition sample_payment :: payment_event where
  "sample_payment =
     \<lparr>pe_event = ''e1'', pe_type = [], pe_payment = ''p1'', pe_reversal_of = [], pe_customer = 1, pe_due = 0, pe_paid = Some 0,
      pe_due_amount = ''100'', pe_paid_amount = ''100'', pe_contract = [], pe_period = [], pe_source = ''erp''\<rparr>"

definition sample_reversal :: payment_event where
  "sample_reversal =
     \<lparr>pe_event = ''e2'', pe_type = payment_reversed, pe_payment = ''p2'', pe_reversal_of = ''p1'', pe_customer = 1, pe_due = 0,
      pe_paid = None, pe_due_amount = ''0'', pe_paid_amount = ''0'', pe_contract = [], pe_period = [], pe_source = ''erp''\<rparr>"

lemma sample_credit_reachable: "credit_reachable sample_credit"
proof -
  have "credit_step empty_credit_db sample_credit"
    by (rule outside)
      (simp add: credit_outside_def sample_credit_def empty_credit_db_def empty_table_def table_wf_def sample_customer_def
        desk_same_def state_of_def fresh_state_def)
  then show ?thesis unfolding credit_reachable_def by (rule r_into_rtranclp)
qed

lemma sample_pay_normal: "normalize_payment_event sample_payment = sample_payment\<lparr>pe_type := payment_completed\<rparr>"
  by (simp add: normalize_payment_event_def sample_payment_def text_eval Let_def)

definition sample_paid :: "payment_answer \<times> credit_db" where
  "sample_paid = (case process_payment sample_credit_service sample_sales sample_payment sample_credit of
     Inr x \<Rightarrow> x | Inl _ \<Rightarrow> undefined)"

lemma sample_paid_run:
  "process_payment sample_credit_service sample_sales sample_payment sample_credit = Inr sample_paid \<and>
   pa_evaluation (fst sample_paid) = ''ONTIME'' \<and> customers (snd sample_paid) = \<lparr>rows = [sample_customer\<lparr>cu_ontime := 1,
     cu_last_eval := Some 0\<rparr>], next_id = 2\<rparr> \<and>
   find_row (bound_record ''t'' ''e2'' ''p2'') (payments (snd sample_paid)) = None"
  unfolding sample_paid_def process_payment_def sample_pay_normal
  by (simp add: sample_payment_def sample_credit_service_def sample_sales_def crm_authenticated_def Let_def valid_credit_amount_def
      is_digit_def byte_of_def validate_payment_event_def text_eval zero_time_def payment_completed_def payment_reversed_def
      allowed_credit_sources_def amount_supported_def decimal_less_def scale_to_def payment_tx_def find_row_def sample_credit_def
      empty_credit_db_def empty_table_def payment_customer_def sample_customer_def customer_available_def rule_settings_for_def
      find_rule_settings_def default_rule_settings_def evaluate_payment_def evaluated_state_def payment_evaluation_def
      beijing_day_def beijing_def state_of_def u32_def insert_record_def record_fits_def new_payment_record_def exists_row_def
      insert_row_def to_payment_answer_def update_customer_def update_rows_def after_payment_def stored_record_def datetime3_def
      truncate_to_def bound_record_def)

lemma sample_new:
  "find_row (bound_record (p_tenant sample_sales) (pe_event (normalize_payment_event sample_payment))
     (pe_payment (normalize_payment_event sample_payment))) (payments sample_credit) = None"
  by (simp add: sample_credit_def empty_credit_db_def empty_table_def find_row_def)

lemma sample_paid_reachable: "credit_reachable (snd sample_paid)"
proof -
  have "credit_execute sample_credit_service sample_sales (CreditPayment sample_payment) sample_credit = Inr (snd sample_paid)"
    using sample_paid_run by (simp add: then_db_def)
  then show ?thesis using sample_credit_reachable credit_step.command unfolding credit_reachable_def
    by (blast intro: rtranclp.rtrancl_into_rtrancl)
qed

lemma sample_pay_completed: "pe_type (normalize_payment_event sample_payment) = payment_completed"
  by (simp add: sample_pay_normal)

theorem credit_counters_bounded_witness:
  "cu_ontime (sample_customer\<lparr>cu_ontime := 1, cu_last_eval := Some 0\<rparr>) < 100"
  using credit_counters_bounded [OF sample_paid_reachable, of "sample_customer\<lparr>cu_ontime := 1, cu_last_eval := Some 0\<rparr>"]
    sample_paid_run by simp

theorem payment_moves_account_witness:
  "\<exists>c'. c' \<in> set (rows (customers (snd sample_paid))) \<and> account_of (state_of c') = (LevelB, 1, 0)"
proof -
  have ans: "process_payment sample_credit_service sample_sales sample_payment sample_credit = Inr (fst sample_paid, snd sample_paid)"
    using sample_paid_run by simp
  have ev: "evaluated (pa_evaluation (fst sample_paid))" using sample_paid_run by (simp add: evaluated_def)
  have only: "c = sample_customer" if "c \<in> set (rows (customers sample_credit))" for c using that by (simp add: sample_credit_def)
  from payment_moves_account [OF sample_credit_reachable ans sample_new sample_pay_completed refl] ev sample_paid_run only
  show ?thesis
    by (auto simp: sample_customer_def account_of_def state_of_def rule_settings_for_def find_rule_settings_def sample_credit_def
        empty_credit_db_def default_rule_settings_def)
qed

theorem payment_redelivered_witness:
  "\<exists>ans'. process_payment (sample_credit_service\<lparr>cs_now := 5\<rparr>) sample_sales sample_payment (snd sample_paid) =
     Inr (ans', snd sample_paid) \<and> pa_id ans' = pa_id (fst sample_paid) \<and> pa_evaluation ans' = pa_evaluation (fst sample_paid)"
proof -
  have ans: "process_payment sample_credit_service sample_sales sample_payment sample_credit = Inr (fst sample_paid, snd sample_paid)"
    using sample_paid_run by simp
  have w: "whole_times sample_payment" by (simp add: whole_times_def sample_payment_def datetime3_def truncate_to_def zero_time_def)
  show ?thesis
    using payment_redelivered [OF sample_credit_reachable ans rtranclp.rtrancl_refl, of "sample_credit_service\<lparr>cs_now := 5\<rparr>"] w by simp
qed

theorem reversal_restores_witness:
  "case reversal_tx sample_credit_service ''t'' sample_reversal (snd sample_paid) of
     Inl err \<Rightarrow> err = ErrDirectoryUnavailable
   | Inr (ans2, db2) \<Rightarrow> \<forall>c \<in> set (rows (customers sample_credit)). \<exists>c' \<in> set (rows (customers db2)).
       row_id c' = row_id c \<and> tenant_id c' = tenant_id c \<and> state_of c' = state_of c"
proof -
  have ans: "process_payment sample_credit_service sample_sales sample_payment sample_credit = Inr (fst sample_paid, snd sample_paid)"
    using sample_paid_run by simp
  have ev: "evaluated (pa_evaluation (fst sample_paid))" using sample_paid_run by (simp add: evaluated_def)
  have t: "p_tenant sample_sales = ''t''" by (simp add: sample_sales_def)
  have r: "pe_reversal_of sample_reversal = pe_payment (normalize_payment_event sample_payment)"
    "pe_customer sample_reversal = pe_customer sample_payment"
    by (simp_all add: sample_pay_normal) (simp_all add: sample_reversal_def sample_payment_def)
  have free: "find_row (bound_record (p_tenant sample_sales) (pe_event sample_reversal) (pe_payment sample_reversal))
      (payments (snd sample_paid)) = None" using sample_paid_run by (simp add: t sample_reversal_def)
  have fits: "record_fits (new_payment_record sample_credit_service (p_tenant sample_sales) (sample_reversal\<lparr>pe_type := payment_reversed\<rparr>)
      ''REVERSED'' ''PAYMENT_REVERSED'' 0 None None)"
    by (simp add: record_fits_def new_payment_record_def sample_reversal_def payment_reversed_def text_eval)
  from reversal_restores [OF sample_credit_reachable ans sample_new sample_pay_completed ev r free fits]
  show ?thesis unfolding t .
qed

theorem unavailable_customer_refused_witness:
  "\<exists>err. process_payment sample_credit_service sample_sales sample_payment empty_credit_db = Inl err"
  by (rule unavailable_customer_refused [OF sample_pay_completed])
    (simp_all add: payment_customer_def find_row_def empty_credit_db_def empty_table_def)

lemma sample_directors:
  "notify_sales_directors sample_credit_service m db = Inr (notify_application sample_credit_service m ''d1'' db)"
proof -
  have "(100 :: nat) = Suc 99" by simp
  then show ?thesis unfolding notify_sales_directors_def
    by (simp only: notify_pages.simps)
      (simp add: sample_credit_service_def notify_director_def Let_def text_eval)
qed

theorem directors_reached_witness:
  "\<exists>db'. notify_sales_directors sample_credit_service (pending_message undefined) sample_credit = Inr db' \<and>
    list_all (\<lambda>u. notified sample_credit_service (pending_message undefined) db' (trim_space (du_id u)))
      [\<lparr>du_id = ''d1'', du_name = ''D'', du_orgs = []\<rparr>]"
proof (rule directors_reached)
  show "cs_owners sample_credit_service = Some (\<lambda>q. Inr \<lparr>page_items = (if q_page q = 1
    then [\<lparr>du_id = ''d1'', du_name = ''D'', du_orgs = []\<rparr>] else []), page_total = 1\<rparr>)"
    by (simp add: sample_credit_service_def)
qed (simp_all add: lists_directors_def text_eval take_Cons' drop_Cons')

theorem repeated_change_silent_witness:
  "\<exists>db1. notify_rule_change sample_credit_service ''t'' 1 LevelB LevelC sample_credit = Inr db1 \<and>
     notify_rule_change (sample_credit_service\<lparr>cs_now := 5\<rparr>) ''t'' 1 LevelB LevelC db1 = Inr db1"
proof -
  obtain db1 where run: "notify_rule_change sample_credit_service ''t'' 1 LevelB LevelC sample_credit = Inr db1"
    by (cases "notify_rule_change sample_credit_service ''t'' 1 LevelB LevelC sample_credit")
      (auto simp: notify_rule_change_def Let_def sample_directors sample_credit_def find_row_def sample_customer_def)
  have "customers db1 = customers sample_credit" using okD [OF notify_rule_change_notices run] notices_only_same by blast
  then show ?thesis
    using repeated_change_silent [OF run notices_grow_refl, of "sample_credit_service\<lparr>cs_now := 5\<rparr>"] run by simp
qed

definition sample_application :: apply_input where
  "sample_application = \<lparr>ap_target = ''A'', ap_reason = ''good'', ap_key = ''k''\<rparr>"

definition sample_applied :: "credit_application \<times> credit_db" where
  "sample_applied = (case apply_for_level sample_credit_service sample_sales 1 sample_application sample_credit of
     Inr x \<Rightarrow> x | Inl _ \<Rightarrow> undefined)"

definition sample_pending :: credit_application where
  "sample_pending =
     \<lparr>row_id = 1, tenant_id = ''t'', ca_instance = 1, ca_customer = 1, ca_applicant = ''u'', ca_key = ''k'', ca_from = LevelB,
      ca_target = LevelA, ca_reason = ''good'', ca_status = AppPending, ca_opinion = [], ca_decided_by = [], ca_decided_at = None,
      ca_created = 0, ca_updated = 0, ca_version = 1, ca_pending = Some 1\<rparr>"

lemma sample_zero: "datetime3 0 = 0"
  by (simp add: datetime3_def truncate_to_def zero_time_def)

lemma sample_applied_run:
  "apply_for_level sample_credit_service sample_sales 1 sample_application sample_credit = Inr sample_applied \<and>
   credit_applications (snd sample_applied) = \<lparr>rows = [sample_pending], next_id = 2\<rparr> \<and>
   customers (snd sample_applied) = \<lparr>rows = [sample_customer], next_id = 2\<rparr>"
proof -
  have now: "cs_now sample_credit_service = 0" by (simp add: sample_credit_service_def)
  have kept: "credit_applications (notify_application s m r db) = credit_applications db" "customers (notify_application s m r db) = customers db"
    for s m r db by (simp_all add: notify_application_def)
  show ?thesis
    unfolding sample_applied_def apply_for_level_def apply_tx_def
    by (simp add: sample_application_def sample_sales_def crm_authenticated_def sales_only_def Let_def text_eval level_of_def
        find_row_def sample_credit_def empty_credit_db_def empty_table_def lock_scoped_credit_customer_def customer_in_scope_def
        sample_customer_def customer_available_def new_credit_application_def create_application_def exists_row_def insert_row_def
        create_approval_rows_def sample_directors kept now update_rows_def stored_application_def sample_zero sample_pending_def)
qed

definition sample_decided :: "credit_application \<times> credit_db" where
  "sample_decided = (case decide_application sample_credit_service sample_director 1 True \<lparr>di_opinion = [], di_version = 1\<rparr>
     (snd sample_applied) of Inr x \<Rightarrow> x | Inl _ \<Rightarrow> undefined)"

lemma sample_decided_run:
  "decide_application sample_credit_service sample_director 1 True \<lparr>di_opinion = [], di_version = 1\<rparr> (snd sample_applied) =
     Inr (fst sample_decided, snd sample_decided) \<and>
   customers (snd sample_decided) = \<lparr>rows = [manual_level sample_credit_service LevelA sample_customer], next_id = 2\<rparr>"
proof -
  have kept: "customers (notify_application s m r db) = customers db" for s m r db by (simp add: notify_application_def)
  have tables: "credit_applications (snd sample_applied) = \<lparr>rows = [sample_pending], next_id = 2\<rparr>"
    "customers (snd sample_applied) = \<lparr>rows = [sample_customer], next_id = 2\<rparr>" using sample_applied_run by simp_all
  have "find_application sample_director 1 (snd sample_applied) = Some sample_pending"
    by (simp add: find_application_def tables find_row_def sample_pending_def sample_director_def)
  moreover have "scoped_credit_customer sample_director 1 (snd sample_applied) = Some sample_customer"
    "lock_scoped_credit_customer sample_director 1 (snd sample_applied) = Some sample_customer"
    by (simp_all add: scoped_credit_customer_def lock_scoped_credit_customer_def tables find_row_def customer_in_scope_def
        customer_available_def sales_only_def sample_customer_def sample_director_def)
  moreover have "permits_or_role sample_director ''customer.credit.approve'' [''sales_director'', ''crm_super_admin'']"
    "crm_authenticated sample_director" "p_tenant sample_director = ''t''"
    by (simp_all add: permits_or_role_def crm_authenticated_def sample_director_def)
  moreover have "ca_customer sample_pending = 1" "ca_status sample_pending = AppPending" "ca_version sample_pending = 1"
    "ca_from sample_pending = LevelB" "ca_target sample_pending = LevelA" "cu_level sample_customer = LevelB"
    "row_id sample_customer = 1" "tenant_id sample_customer = ''t''"
    by (simp_all add: sample_pending_def sample_customer_def)
  ultimately show ?thesis
    unfolding sample_decided_def
    by (simp add: decide_application_def Let_def decide_tx_def ensure_application_customer_visible_def
        ensure_credit_customer_visible_def decide_writes_def kept write_customer_change_log_def close_instance_def close_tasks_def
        save_application_def write_credit_log_def update_customer_def update_rows_def tables)
qed

lemma sample_decided_reachable: "credit_reachable (snd sample_applied)" "credit_reachable (snd sample_decided)"
proof -
  have "credit_execute sample_credit_service sample_sales (CreditApply 1 sample_application) sample_credit = Inr (snd sample_applied)"
    using sample_applied_run by (simp add: then_db_def)
  then show one: "credit_reachable (snd sample_applied)" using sample_credit_reachable credit_step.command
    unfolding credit_reachable_def by (blast intro: rtranclp.rtrancl_into_rtrancl)
  have "credit_execute sample_credit_service sample_director (CreditDecide 1 True \<lparr>di_opinion = [], di_version = 1\<rparr>)
      (snd sample_applied) = Inr (snd sample_decided)"
    using sample_decided_run by (simp add: then_db_def)
  then show "credit_reachable (snd sample_decided)" using one credit_step.command
    unfolding credit_reachable_def by (blast intro: rtranclp.rtrancl_into_rtrancl)
qed

theorem credit_levels_explained_witness:
  "linked LevelB (level_steps ''t'' 1 (rows (credit_logs (snd sample_decided)))) LevelA"
  using credit_levels_explained [OF sample_decided_reachable(2), of "manual_level sample_credit_service LevelA sample_customer"]
    sample_decided_run by (simp add: manual_level_def sample_customer_def)

theorem applications_mirrored_witness: "mirrored (snd sample_applied) sample_pending"
  using applications_mirrored [OF sample_decided_reachable(1), of sample_pending sample_pending] sample_applied_run by simp

theorem decision_outcome_witness:
  "\<exists>c'. c' \<in> set (rows (customers (snd sample_decided))) \<and> account_of (state_of c') = (LevelA, 0, 0)"
proof -
  have run: "decide_application sample_credit_service sample_director 1 True \<lparr>di_opinion = [], di_version = 1\<rparr> (snd sample_applied) =
     Inr (fst sample_decided, snd sample_decided)" using sample_decided_run by blast
  have only: "c \<in> set (rows (customers (snd sample_applied))) \<Longrightarrow> cu_level c = LevelB"
    "find_application sample_director 1 (snd sample_applied) = Some a \<Longrightarrow> ca_from a = LevelB \<and> ca_target a = LevelA" for c a
    using sample_applied_run
    by (auto simp: sample_customer_def sample_pending_def find_application_def find_row_def split: if_splits)
  from decision_outcome [OF sample_decided_reachable(1) run] only show ?thesis by fastforce
qed

end
