(* ===== verification/Spec2Isabelle.thy ===== *)
theory Spec2Isabelle
  imports PresaleApproval PresaleAssignReplay PresaleSystem OpportunityResults CreditResults
begin

text \<open>
  A model of the backend of a customer and opportunity system, written in Go: the three modules
  that hold its business rules (\<open>src/internal/modules/presale\<close>, \<open>opportunity\<close> and
  \<open>credit\<close>), the parts of \<open>src/internal/shared\<close>, \<open>ownerdirectory\<close>,
  \<open>platformcatalog\<close> and \<open>customer\<close> they rest on, and what \<open>customer\<close> (the merge
  of customers) and \<open>handover\<close> write to the rows of opportunities.

  \<^bold>\<open>The program.\<close> Sales people run opportunities through stages until they are won or lost; a
  won one is handed to the contract system. For an opportunity they request presale support: the
  request is approved node by node, assigned at one or two levels, executed with progress
  entries and worklogs, and completed. Each customer has a credit level, which payments move by
  rules and applications move by decision. Every module is a service with one method per
  operation over a repository on MySQL; an operation runs in one transaction and records audits,
  logs, ledger entries against repetition, outbox events and notifications with its change.

  \<^bold>\<open>How it is modelled.\<close> A table is the list of its rows in order of insertion with the next
  id (\<open>Prelude\<close>), a database the record of its tables, a repository method a function on it
  that says which columns it writes and which keys it checks. A fallible operation returns
  \<open>Inl\<close> an error or \<open>Inr\<close> a result; a transaction that fails leaves the database as it
  was. The service is a record of one operation's clock reading, its trace, and the ports it
  calls. Strings are bytes in UTF-8, times are nanoseconds, what the server rounds to
  milliseconds is rounded where the row is stored (\<open>datetime3\<close>), counters are taken modulo
  their width or bounded by an error where the column would overflow.

  \<^bold>\<open>Theories.\<close>
  \<^item> \<open>Prelude\<close>: results, tables, early exits of loops, the rules \<open>ok_intro\<close> that follow
    the code of an operation, and the interface \<open>idempotent_command\<close>. \<open>GoText\<close>,
    \<open>Utf8\<close>, \<open>Decimals\<close>: the text, time and number functions the code computes with.
    \<open>SharedModel\<close>: columns, principals and errors all modules share.
  \<^item> \<open>PresaleModel\<close> (\<open>model.go\<close>, \<open>dto.go\<close>), \<open>PresaleRepo\<close> (\<open>repository.go\<close>),
    \<open>PresaleService\<close> (\<open>service.go\<close>, replay, notifications, audit), \<open>ApprovalRules\<close>
    (\<open>approval_rule*.go\<close>), \<open>PresaleApproval\<close> (\<open>service_approval.go\<close>),
    \<open>PresaleAssign\<close> (\<open>assignment_*.go\<close>), \<open>PresaleCreate\<close> (\<open>service_create.go\<close>),
    \<open>PresaleExecution\<close> (\<open>service_mutation.go\<close>), \<open>PlatformCatalog\<close> (the published roles
    the assignment checks).
  \<^item> \<open>PresaleLifecycle\<close> states what a request may do (its statuses, one log entry for each
    change); \<open>PresaleAssignFacts\<close>, \<open>PresaleCrew\<close>, \<open>PresaleCreateFacts\<close>,
    \<open>PresaleExecutionFacts\<close> and \<open>PresaleWorklogs\<close> show that the operations keep to it, who
    is assigned, and what a repetition does; \<open>PresaleAssignResults\<close>,
    \<open>PresaleAssignReplay\<close> and \<open>PresaleSystem\<close> hold the properties, the last of all
    databases the module reaches. \<open>PresaleSamples\<close> has the inputs of the witnesses.
  \<^item> \<open>OpportunityModel\<close>, \<open>OpportunityRepo\<close>, \<open>OpportunityService\<close>,
    \<open>OpportunityCatalog\<close>, \<open>OpportunityOps\<close>, \<open>OpportunityStages\<close>,
    \<open>OpportunityTransfer\<close>, \<open>OpportunityTeam\<close>, \<open>OpportunityProvision\<close> and
    \<open>OpportunityAlerts\<close> follow the files of the module.
  \<^item> \<open>OpportunityMachine\<close> is what the module promises, as an abstract machine;
    \<open>OpportunityInvariants\<close> proves its invariant; \<open>OpportunityRefinement\<close> and
    \<open>OpportunityCommands\<close> show that every command is a step of it; \<open>OpportunityOutside\<close>
    has the merge and the handover, whose steps keep the invariant as well;
    \<open>OpportunitySystem\<close> puts them together and \<open>OpportunityResults\<close> has the properties.
  \<^item> \<open>CustomerModel\<close>, \<open>CreditModel\<close>, \<open>CreditService\<close>, \<open>CreditPayments\<close> and
    \<open>CreditApplications\<close> follow \<open>credit/service.go\<close>; \<open>CreditFacts\<close> has the account
    of a customer as an abstract machine, \<open>CreditMachine\<close>, \<open>CreditDesk\<close> and
    \<open>CreditSystem\<close> the operations as moves of it and their reachable databases;
    \<open>CreditNotices\<close> and \<open>CreditResults\<close> the properties.

  \<^bold>\<open>Interfaces.\<close> \<open>versioned_store\<close> is what services rely on when they write with the version
  they have read, interpreted on the tables of requests and assignments; \<open>keyed_log\<close> is a table
  with a unique key, interpreted on replays, approval tasks, the outbox and integration attempts;
  \<open>idempotent_command\<close> is a command with a key and the record it leaves, interpreted on the
  approval command and on the five assignment commands.

  \<^bold>\<open>What is shown.\<close> In every database that commands reach: the logs of requests, opportunities and
  credit levels explain the present state; teams, applications, evidence and transfers agree with
  the rows they belong to; keys and numbers are unique; worklogs do not overlap; counters stay in
  bounds. Of single commands: who may do what and to which rows, that repetition by key changes
  nothing, what a reversal, a restoration or a renaming leaves behind, and where the stored form
  of a value makes the code refuse its own input (rounded times, reformatted JSON, columns that
  are too short).

  \<^bold>\<open>Bounds.\<close> Versions are numbers whose increment at 2^64 is a database error. A credit
  notification reads at most 100 pages of 50 directors, the limit of the code; the property on
  it assumes a directory that fits. Loops over lists are structural, the batches of a renaming
  shrink the list, so that no fuel is used.

  \<^bold>\<open>Parameters.\<close> Digests, the encoding of JSON and its storage in a JSON column, the cipher and
  mask of a phone, the parsing of decimals (opportunity, credit), Unicode lower case (catalog),
  the visiting order of Go maps, and the services behind ports (contracts, owner directory,
  approval engine, freeze of a leaver) are arguments of the definitions.

  \<^bold>\<open>Approximations.\<close> Transactions are atomic: locks, concurrent transactions and failures of the
  connection are not modelled; an operation reads the clock once. Equality of strings is equality
  of bytes, where the collation of several columns ignores case and accents. The widths of columns
  are modelled where a property speaks of them. Asia/Shanghai is eight hours ahead of UTC, which
  holds of all times since 1992. Bookkeeping times that no operation compares (creation and
  change of the rows beside requests) are kept as read from the clock. Rows with equal sort keys
  stay in table order. The opportunity module's rows of \<open>crm_outbox_events\<close> are a table of
  their own; of customers and presale requests it sees what its queries read. In the credit
  module other modules add customers at level B and change only columns credit does not own.

  \<^bold>\<open>Not modelled.\<close> The presale properties are about the commands of the presale module: the
  handover also ends and inserts rows of \<open>crm_presale_assignments\<close>
  (\<open>handover/repository_transfers.go\<close>), without the checks of the module. Left out are presale
  delivery, queries, alerts and reports; paged listings and attachments of opportunities; the
  master data, imports and read models of customers and the rest of the merge; freezes, receipts
  and the list of responsibilities of the handover; the portal, its invitations and bootstrap;
  authentication; the workers, which move outbox rows and raise alerts; the file gateway,
  middleware, handlers and commands, with the tool that seeds demonstration data by writing rows
  directly. They are input and output, queries, or modules of their own behind the same tables.
\<close>

end
